(* ===== verification/Prelude.thy ===== *)
theory Prelude
  imports Main "HOL-Library.AList" "HOL-Library.Sublist" "HOL-Library.Char_ord"
    "HOL-Library.List_Lexorder" "HOL-Library.Product_Lexorder"
begin

text \<open>
  Shared ground of the development: Python values as they travel in JSON columns and HTTP bodies,
  the operations on strings and dictionaries the services use, errors as values of a sum type, and
  tables as lists of rows with the three operations the SQLAlchemy code performs on them (select
  first row, update by predicate, insert).  A dictionary is an association list in insertion
  order: \<open>AList.update\<close> is \<open>d[k] = v\<close> (the position of a present key is kept, a new key goes to the
  end) and \<open>AList.delete\<close> is \<open>d.pop(k, None)\<close>.
\<close>

section \<open>Python values\<close>

datatype json =
    JNull
  | JBool bool
  | JInt int
  | JStr string
  | JList "json list"
  | JObj "(string \<times> json) list"

type_synonym dict = "(string \<times> json) list"

datatype exn =
    HTTPException int string
  | SoRValidationError string string
  | PyError string string

type_synonym 'a res = "exn + 'a"

definition bind_res :: "'a res \<Rightarrow> ('a \<Rightarrow> 'b res) \<Rightarrow> 'b res" where
  "bind_res x f = (case x of Inl e \<Rightarrow> Inl e | Inr v \<Rightarrow> f v)"

lemma bind_res_simps [simp]: "bind_res (Inl e) f = Inl e" "bind_res (Inr v) f = f v"
  by (simp_all add: bind_res_def)

lemma bind_res_Inr: "bind_res x f = Inr r \<longleftrightarrow> (\<exists>v. x = Inr v \<and> f v = Inr r)"
  by (cases x) auto

definition of_opt :: "exn \<Rightarrow> 'a option \<Rightarrow> 'a res" where
  "of_opt e x = (case x of None \<Rightarrow> Inl e | Some v \<Rightarrow> Inr v)"

lemma of_opt_simps [simp]: "of_opt e None = Inl e" "of_opt e (Some v) = Inr v"
  by (simp_all add: of_opt_def)

fun map_res :: "('a \<Rightarrow> 'b res) \<Rightarrow> 'a list \<Rightarrow> 'b list res" where
  "map_res f [] = Inr []"
| "map_res f (x # xs) = bind_res (f x) (\<lambda>y. bind_res (map_res f xs) (\<lambda>ys. Inr (y # ys)))"

lemma map_res_all: "(\<And>x. x \<in> set xs \<Longrightarrow> f x = Inr (g x)) \<Longrightarrow> map_res f xs = Inr (List.map g xs)"
  by (induction xs) simp_all

fun truthy :: "json \<Rightarrow> bool" where
  "truthy JNull = False"
| "truthy (JBool b) = b"
| "truthy (JInt i) = (i \<noteq> 0)"
| "truthy (JStr s) = (s \<noteq> [])"
| "truthy (JList xs) = (xs \<noteq> [])"
| "truthy (JObj d) = (d \<noteq> [])"

definition dget :: "dict \<Rightarrow> string \<Rightarrow> json \<Rightarrow> json" where
  "dget d k dflt = (case map_of d k of Some v \<Rightarrow> v | None \<Rightarrow> dflt)"

definition dhas :: "string \<Rightarrow> (string \<times> 'v) list \<Rightarrow> bool" where
  "dhas k d = (map_of d k \<noteq> None)"

definition dset :: "string \<Rightarrow> 'v \<Rightarrow> (string \<times> 'v) list \<Rightarrow> (string \<times> 'v) list" where
  "dset k v d = AList.update k v d"

definition dpop :: "string \<Rightarrow> (string \<times> 'v) list \<Rightarrow> (string \<times> 'v) list" where
  "dpop k d = AList.delete k d"

lemma map_of_dset [simp]: "map_of (dset k v d) = (map_of d)(k \<mapsto> v)"
  by (simp add: dset_def update_conv')

lemma map_of_dpop [simp]: "map_of (dpop k d) = (map_of d)(k := None)"
  by (simp add: dpop_def delete_conv')

lemma dget_dset [simp]: "dget (dset k v d) k' x = (if k' = k then v else dget d k' x)"
  by (simp add: dget_def)

lemma dhas_dset [simp]: "dhas k' (dset k v d) = (k' = k \<or> dhas k' d)"
  by (simp add: dhas_def)

lemma dhas_dpop [simp]: "dhas k' (dpop k d) = (k' \<noteq> k \<and> dhas k' d)"
  by (simp add: dhas_def)

lemma dhas_set: "dhas k d \<longleftrightarrow> k \<in> fst ` set d"
  by (simp add: dhas_def map_of_eq_None_iff)

lemma distinct_dset: "distinct (map fst d) \<Longrightarrow> distinct (map fst (dset k v d))"
  by (simp add: dset_def distinct_update)

lemma distinct_dpop: "distinct (map fst d) \<Longrightarrow> distinct (map fst (dpop k d))"
  by (simp add: dpop_def distinct_delete)

section \<open>Strings\<close>

definition lower_char :: "char \<Rightarrow> char" where
  "lower_char c = (let n = of_char c :: nat in
     if 65 \<le> n \<and> n \<le> 90 then char_of (n + 32) else c)"

definition lower :: "string \<Rightarrow> string" where
  "lower s = List.map lower_char s"

fun contains :: "string \<Rightarrow> string \<Rightarrow> bool" where
  "contains p [] = (p = [])"
| "contains p (c # s) = (prefix p (c # s) \<or> contains p s)"

lemma contains_sublist: "contains p s \<longleftrightarrow> sublist p s"
proof (induction s)
  case Nil
  then show ?case by (simp add: sublist_def)
next
  case (Cons c s)
  then show ?case by (auto simp: sublist_Cons_right)
qed

fun digits_of :: "nat \<Rightarrow> string" where
  "digits_of n = (if n < 10 then [char_of (48 + n)]
                  else digits_of (n div 10) @ [char_of (48 + n mod 10)])"

declare digits_of.simps [simp del]

definition str_int :: "int \<Rightarrow> string" where
  "str_int i = (if i < 0 then CHR ''-'' # digits_of (nat (- i)) else digits_of (nat i))"

definition is_space :: "char \<Rightarrow> bool" where
  "is_space c = (let n = of_char c :: nat in n = 32 \<or> (9 \<le> n \<and> n \<le> 13) \<or> (28 \<le> n \<and> n \<le> 31))"

definition lstrip :: "string \<Rightarrow> string" where
  "lstrip s = dropWhile is_space s"

definition rstrip :: "string \<Rightarrow> string" where
  "rstrip s = rev (dropWhile is_space (rev s))"

definition strip :: "string \<Rightarrow> string" where
  "strip s = rstrip (lstrip s)"

lemma length_lstrip: "length (lstrip s) \<le> length s"
  by (simp add: lstrip_def length_dropWhile_le)

lemma length_rstrip: "length (rstrip s) \<le> length s"
  by (metis length_dropWhile_le length_rev rstrip_def)

lemma length_strip: "length (strip s) \<le> length s"
  unfolding strip_def using length_lstrip length_rstrip order_trans by blast

text \<open>\<open>x in container\<close> for a string \<open>x\<close> and a container taken out of a JSON document: membership of a
  list, substring of a string, key of an object, and \<open>None\<close> where Python raises \<open>TypeError\<close>.\<close>

fun py_in :: "string \<Rightarrow> json \<Rightarrow> bool option" where
  "py_in x (JList xs) = Some (JStr x \<in> set xs)"
| "py_in x (JStr s) = Some (contains x s)"
| "py_in x (JObj d) = Some (dhas x d)"
| "py_in x _ = None"

section \<open>Tables\<close>

text \<open>The rows of a table in insertion order.  \<open>select_first\<close> is \<open>scalars().first()\<close> of a select whose
  where clause is the predicate, \<open>update_rows\<close> an update of every matching row, \<open>insert_row\<close> an add.\<close>

definition select_first :: "('r \<Rightarrow> bool) \<Rightarrow> 'r list \<Rightarrow> 'r option" where
  "select_first p t = List.find p t"

definition select_all :: "('r \<Rightarrow> bool) \<Rightarrow> 'r list \<Rightarrow> 'r list" where
  "select_all p t = filter p t"

definition update_rows :: "('r \<Rightarrow> bool) \<Rightarrow> ('r \<Rightarrow> 'r) \<Rightarrow> 'r list \<Rightarrow> 'r list" where
  "update_rows p f t = List.map (\<lambda>r. if p r then f r else r) t"

definition insert_row :: "'r \<Rightarrow> 'r list \<Rightarrow> 'r list" where
  "insert_row r t = t @ [r]"

definition delete_rows :: "('r \<Rightarrow> bool) \<Rightarrow> 'r list \<Rightarrow> 'r list" where
  "delete_rows p t = filter (\<lambda>r. \<not> p r) t"

text \<open>\<open>Model.column is True\<close> inside a where clause is Python's identity test between a column object
  and \<open>True\<close>: it is \<open>False\<close> before SQL sees it, for every row.\<close>

definition column_is_True :: "bool \<Rightarrow> bool" where
  "column_is_True stored = False"

lemma column_is_True_simp [simp]: "column_is_True b = False"
  by (simp add: column_is_True_def)

lemma select_first_Some: "select_first p t = Some r \<Longrightarrow> r \<in> set t \<and> p r"
  by (auto simp: select_first_def find_Some_iff)

lemma select_first_None: "select_first p t = None \<longleftrightarrow> (\<forall>r \<in> set t. \<not> p r)"
  by (auto simp: select_first_def find_None_iff)

lemma select_first_Nil [simp]: "select_first p [] = None"
  by (simp add: select_first_def)

lemma select_first_Cons [simp]:
  "select_first p (r # t) = (if p r then Some r else select_first p t)"
  by (simp add: select_first_def)

lemma select_first_append:
  "select_first p (t @ u) = (case select_first p t of Some r \<Rightarrow> Some r | None \<Rightarrow> select_first p u)"
  by (induction t) auto

lemma select_first_insert [simp]:
  "select_first p (insert_row r t) =
     (case select_first p t of Some r' \<Rightarrow> Some r' | None \<Rightarrow> if p r then Some r else None)"
  by (simp add: insert_row_def select_first_append split: option.splits)

lemma set_insert_row [simp]: "set (insert_row r t) = insert r (set t)"
  by (auto simp: insert_row_def)

lemma set_update_rows: "r \<in> set (update_rows p f t) \<longleftrightarrow> (\<exists>r0 \<in> set t. r = (if p r0 then f r0 else r0))"
  by (auto simp: update_rows_def)

lemma length_update_rows [simp]: "length (update_rows p f t) = length t"
  by (simp add: update_rows_def)

lemma select_first_update:
  assumes "\<And>r. q (f r) = q r"
  shows "select_first q (update_rows p f t) =
     map_option (\<lambda>r. if p r then f r else r) (select_first q t)"
  by (induction t) (auto simp: update_rows_def assms)

lemma map_update_rows:
  assumes "\<And>r. key (f r) = key r"
  shows "List.map key (update_rows p f t) = List.map key t"
  by (induction t) (auto simp: update_rows_def assms)

lemma update_rows_none: "(\<And>r. r \<in> set t \<Longrightarrow> \<not> p r) \<Longrightarrow> update_rows p f t = t"
  by (induction t) (auto simp: update_rows_def)

lemma filter_update_rows:
  assumes "\<And>r. q (f r) = q r"
  shows "filter q (update_rows p f t) = update_rows p f (filter q t)"
  by (induction t) (auto simp: update_rows_def assms)

section \<open>A keyed table as an interface\<close>

text \<open>Every store keeps rows under a primary key: an insert of a fresh key is found again and
  disturbs no other key, and an update that keeps the key is seen by the next lookup.\<close>

locale keyed_table =
  fixes key :: "'r \<Rightarrow> 'k"
    and look :: "'t \<Rightarrow> 'k \<Rightarrow> 'r option"
    and ins :: "'r \<Rightarrow> 't \<Rightarrow> 't"
    and upd :: "'k \<Rightarrow> ('r \<Rightarrow> 'r) \<Rightarrow> 't \<Rightarrow> 't"
  assumes look_key: "look t k = Some r \<Longrightarrow> key r = k"
    and look_ins: "look t (key r) = None \<Longrightarrow> look (ins r t) k = (if k = key r then Some r else look t k)"
    and look_upd: "(\<And>r. key (f r) = key r) \<Longrightarrow>
      look (upd k f t) k' = (if k' = k then map_option f (look t k') else look t k')"
begin

lemma look_ins_same: "look t (key r) = None \<Longrightarrow> look (ins r t) (key r) = Some r"
  by (simp add: look_ins)

lemma look_ins_old: "look t (key r) = None \<Longrightarrow> look t k = Some r' \<Longrightarrow> look (ins r t) k = Some r'"
  by (auto simp: look_ins)

lemma look_upd_other: "(\<And>r. key (f r) = key r) \<Longrightarrow> k' \<noteq> k \<Longrightarrow> look (upd k f t) k' = look t k'"
  by (simp add: look_upd)

lemma upd_upd:
  assumes "\<And>r. key (f r) = key r" "\<And>r. key (g r) = key r"
  shows "look (upd k g (upd k f t)) k' = look (upd k (g \<circ> f) t) k'"
  using assms by (simp add: look_upd option.map_comp)

end

definition table_look :: "('r \<Rightarrow> 'k) \<Rightarrow> 'r list \<Rightarrow> 'k \<Rightarrow> 'r option" where
  "table_look key t k = select_first (\<lambda>r. key r = k) t"

lemma look_none: "table_look key t k = None \<longleftrightarrow> k \<notin> key ` set t"
  by (auto simp: table_look_def select_first_None image_iff)

definition table_update :: "('r \<Rightarrow> 'k) \<Rightarrow> 'k \<Rightarrow> ('r \<Rightarrow> 'r) \<Rightarrow> 'r list \<Rightarrow> 'r list" where
  "table_update key k f t = update_rows (\<lambda>r. key r = k) f t"

lemma keyed_table_rows: "keyed_table key (table_look key) insert_row (table_update key)"
proof
  fix t :: "'a list" and k r
  assume "table_look key t k = Some r"
  then show "key r = k" by (auto simp: table_look_def dest: select_first_Some)
next
  fix t :: "'a list" and k r
  assume "table_look key t (key r) = None"
  then show "table_look key (insert_row r t) k = (if k = key r then Some r else table_look key t k)"
    by (auto simp: table_look_def split: option.splits)
next
  fix f :: "'a \<Rightarrow> 'a" and k k' and t :: "'a list"
  assume "\<And>r. key (f r) = key r"
  then show "table_look key (table_update key k f t) k' =
      (if k' = k then map_option f (table_look key t k') else table_look key t k')"
    unfolding table_look_def table_update_def
    by (subst select_first_update) (auto simp: map_option_case dest: select_first_Some split: option.splits)
qed

text \<open>A row put in the place of the one with its key.\<close>

lemma look_replace:
  "key b = k \<Longrightarrow> table_look key (table_update key k (\<lambda>_. b) t) k' =
     (if k' = k then (if table_look key t k = None then None else Some b) else table_look key t k')"
  unfolding table_look_def table_update_def update_rows_def by (induction t) auto

lemma keys_replace: "key b = k \<Longrightarrow> List.map key (table_update key k (\<lambda>_. b) t) = List.map key t"
  by (auto simp: table_update_def update_rows_def)

lemma replace_known:
  assumes "distinct (List.map key t)" "a \<in> set t"
  shows "table_update key (key a) (\<lambda>_. b) t = List.map (\<lambda>r. if r = a then b else r) t"
proof -
  have "r = a" if "r \<in> set t" "key r = key a" for r using assms that by (auto simp: distinct_map dest: inj_onD)
  then show ?thesis by (auto simp: table_update_def update_rows_def)
qed

section \<open>Columns, patches and pages\<close>

text \<open>A field of a patch: not given, given as null, or given with a value.\<close>

type_synonym 'a field_patch = "'a option option"

definition null_value :: exn where
  "null_value = PyError ''IntegrityError'' ''null value''"

definition patch_value :: "'a field_patch \<Rightarrow> 'a \<Rightarrow> 'a res" where
  "patch_value p old = (case p of None \<Rightarrow> Inr old | Some None \<Rightarrow> Inl null_value | Some (Some v) \<Rightarrow> Inr v)"

definition patch_null :: "'a field_patch \<Rightarrow> 'a option \<Rightarrow> 'a option" where
  "patch_null p old = (case p of None \<Rightarrow> old | Some v \<Rightarrow> v)"

text \<open>A number bound to an integer column, and \<open>offset\<close> with \<open>limit\<close> on the rows of a select.\<close>

definition pg_int :: "int \<Rightarrow> int res" where
  "pg_int i = (if - (2 ^ 31) \<le> i \<and> i < 2 ^ 31 then Inr i else Inl (PyError ''DBAPIError'' ''out of range''))"

definition page_rows :: "int \<Rightarrow> int \<Rightarrow> 'r list \<Rightarrow> 'r list res" where
  "page_rows skip limit rows =
     (if skip < 0 \<or> limit < 0 \<or> skip \<ge> 2 ^ 63 \<or> limit \<ge> 2 ^ 63 then Inl (PyError ''DBAPIError'' ''OFFSET or LIMIT'')
      else Inr (take (nat limit) (drop (nat skip) rows)))"

section \<open>Operations under an idempotency key\<close>

text \<open>The contract of an operation guarded by an idempotency key: what is recorded under the key is
  answered without touching the state, and an execution that succeeds leaves a record.  A repetition, and any number of repetitions, is then
  without effect.\<close>

locale idempotent_op =
  fixes exec :: "'req \<Rightarrow> 'db \<Rightarrow> ('resp \<times> 'db) res"
    and recorded :: "'req \<Rightarrow> 'db \<Rightarrow> bool"
  assumes recorded_same: "recorded q d \<Longrightarrow> \<exists>r. exec q d = Inr (r, d)"
    and exec_records: "exec q d = Inr (r, d') \<Longrightarrow> recorded q d'"
begin

lemma exec_again: "exec q d = Inr (r, d') \<Longrightarrow> \<exists>r'. exec q d' = Inr (r', d')"
  using exec_records recorded_same by blast

fun exec_times :: "nat \<Rightarrow> 'req \<Rightarrow> 'db \<Rightarrow> 'db res" where
  "exec_times 0 q d = Inr d"
| "exec_times (Suc n) q d = (case exec q d of Inl e \<Rightarrow> Inl e | Inr (r, d') \<Rightarrow> exec_times n q d')"

lemma exec_times_recorded: "recorded q d \<Longrightarrow> exec_times n q d = Inr d"
proof (induction n)
  case (Suc n)
  then show ?case using recorded_same[of q d] by auto
qed simp

lemma exec_times_once: "exec q d = Inr (r, d') \<Longrightarrow> exec_times (Suc n) q d = Inr d'"
  using exec_times_recorded exec_records by simp

end

end
