(* ===== verification/PersonaPolicy.thy ===== *)
theory PersonaPolicy
  imports Prelude
begin

text \<open>
  The two policies a persona version carries: \<open>enforce_persona_policy\<close> of
  \<open>packages/shared/policy.py\<close>, which the worker consults before it dispatches a task, and
  \<open>enforce_rag_policy\<close> of \<open>apps/nexus_api/routers/kb.py\<close> with the vector searches that rest on it.
  The policy is the JSON column \<open>tools_policy\<close>, so every access that Python could fail on (a key of
  the wrong type) is a \<open>PyError\<close> branch here.
\<close>

section \<open>The persona policy of task dispatch\<close>

definition type_error :: exn where
  "type_error = PyError ''TypeError'' []"

definition attribute_error :: exn where
  "attribute_error = PyError ''AttributeError'' []"

definition json_of_opt :: "int option \<Rightarrow> json" where
  "json_of_opt t = (case t of None \<Rightarrow> JNull | Some i \<Rightarrow> JInt i)"

fun py_num :: "json \<Rightarrow> int option" where
  "py_num (JInt i) = Some i"
| "py_num (JBool b) = Some (if b then 1 else 0)"
| "py_num _ = None"

fun py_all_in :: "string list \<Rightarrow> json \<Rightarrow> bool option" where
  "py_all_in [] a = Some True"
| "py_all_in (c # cs) a =
     (case py_in c a of None \<Rightarrow> None | Some False \<Rightarrow> Some False | Some True \<Rightarrow> py_all_in cs a)"

definition clamp_timeout :: "int option \<Rightarrow> json \<Rightarrow> json res" where
  "clamp_timeout agent_timeout max_timeout =
     (if max_timeout = JNull then Inr (json_of_opt agent_timeout)
      else case agent_timeout of
        None \<Rightarrow> Inr max_timeout
      | Some t \<Rightarrow> (case py_num max_timeout of
          None \<Rightarrow> Inl type_error
        | Some m \<Rightarrow> if t > m then Inr max_timeout else Inr (JInt t)))"

definition enforce_persona_policy :: "string \<Rightarrow> string list \<Rightarrow> int option \<Rightarrow> dict \<Rightarrow> json res" where
  "enforce_persona_policy task_type caps agent_timeout tools_policy =
    (if tools_policy = [] then Inr (json_of_opt agent_timeout)
     else case py_in task_type (dget tools_policy ''deny_task_types'' (JList [])) of
       None \<Rightarrow> Inl type_error
     | Some True \<Rightarrow> Inl (HTTPException 403 ''persona_task_type_denied'')
     | Some False \<Rightarrow>
         (let allow = dget tools_policy ''allow_task_types'' JNull in
          case (if allow = JNull then Some True else py_in task_type allow) of
            None \<Rightarrow> Inl type_error
          | Some False \<Rightarrow> Inl (HTTPException 403 ''persona_task_type_denied'')
          | Some True \<Rightarrow>
              (let allowed = dget tools_policy ''allowed_capabilities'' (JList []) in
               case (if caps = [] then Some True else py_all_in caps allowed) of
                 None \<Rightarrow> Inl type_error
               | Some False \<Rightarrow> Inl (HTTPException 403 ''persona_capabilities_denied'')
               | Some True \<Rightarrow> clamp_timeout agent_timeout (dget tools_policy ''max_timeout_seconds'' JNull))))"

lemma py_all_in_list [simp]: "py_all_in cs (JList xs) = Some (\<forall>c \<in> set cs. JStr c \<in> set xs)"
  by (induction cs) (auto split: bool.splits)

lemma clamp_timeout_bound:
  "clamp_timeout t m = Inr r \<Longrightarrow> py_num m = Some b \<Longrightarrow> \<exists>v. py_num r = Some v \<and> v \<le> b"
  by (auto simp: clamp_timeout_def split: option.splits if_splits)

text \<open>The policy as the documentation states it, over plain lists: what is denied, and what the
  timeout becomes.\<close>

definition task_permitted :: "string \<Rightarrow> string list \<Rightarrow> json list \<Rightarrow> json list option \<Rightarrow> json list \<Rightarrow> bool" where
  "task_permitted task_type caps deny allow capabilities =
     (JStr task_type \<notin> set deny \<and> (\<forall>xs. allow = Some xs \<longrightarrow> JStr task_type \<in> set xs) \<and>
      (\<forall>c \<in> set caps. JStr c \<in> set capabilities))"

definition list_policy :: "json list \<Rightarrow> json list option \<Rightarrow> json list \<Rightarrow> int option \<Rightarrow> dict" where
  "list_policy deny allow capabilities max_timeout =
     [(''deny_task_types'', JList deny),
      (''allow_task_types'', case allow of None \<Rightarrow> JNull | Some xs \<Rightarrow> JList xs),
      (''allowed_capabilities'', JList capabilities),
      (''max_timeout_seconds'', json_of_opt max_timeout)]"

definition min_timeout :: "int option \<Rightarrow> int option \<Rightarrow> int option" where
  "min_timeout t m = (case t of None \<Rightarrow> m | Some a \<Rightarrow> (case m of None \<Rightarrow> Some a | Some b \<Rightarrow> Some (min a b)))"

lemma clamp_timeout_min: "clamp_timeout t (json_of_opt m) = Inr (json_of_opt (min_timeout t m))"
  by (cases t; cases m) (auto simp: clamp_timeout_def json_of_opt_def min_timeout_def)

text \<open>C23: on a persona policy whose entries have the documented types the decision is exactly the
  documented one: the task is let through if and only if its type is not denied, is allowed when an
  allow list is set, and every required capability is granted; the timeout handed to the dispatcher
  is then the smaller of the agent's and the persona's, and every refusal is a 403.\<close>

theorem enforce_persona_policy_spec:
  "enforce_persona_policy tt caps t (list_policy deny allow capabilities m) =
     (if task_permitted tt caps deny allow capabilities then Inr (json_of_opt (min_timeout t m))
      else Inl (HTTPException 403
        (if JStr tt \<in> set deny \<or> (\<exists>xs. allow = Some xs \<and> JStr tt \<notin> set xs)
         then ''persona_task_type_denied'' else ''persona_capabilities_denied'')))"
  by (cases allow) (auto simp: enforce_persona_policy_def list_policy_def dget_def task_permitted_def
      Let_def clamp_timeout_min split: bool.splits)

section \<open>The retrieval policy of the knowledge base\<close>

datatype identity_kind =
    UserIdentity string
  | AgentIdentity

record rag_grant =
  rg_namespaces :: "string list"
  rg_top_k :: json

fun py_iter :: "json \<Rightarrow> json list option" where
  "py_iter (JList xs) = Some xs"
| "py_iter (JStr s) = Some (List.map (\<lambda>c. JStr [c]) s)"
| "py_iter (JObj d) = Some (List.map (\<lambda>kv. JStr (fst kv)) d)"
| "py_iter _ = None"

text \<open>One entry of \<open>allowed_namespaces\<close> against one requested namespace; \<open>None\<close> where the entry is
  not a string, so that \<open>endswith\<close> fails.\<close>

fun ns_match :: "json \<Rightarrow> string \<Rightarrow> bool option" where
  "ns_match (JStr a) ns = Some (a = ''*'' \<or> a = ns \<or> (suffix ''*'' a \<and> prefix (butlast a) ns))"
| "ns_match _ ns = None"

fun ns_any :: "json list \<Rightarrow> string \<Rightarrow> bool option" where
  "ns_any [] ns = Some False"
| "ns_any (a # as) ns = (case ns_match a ns of
     None \<Rightarrow> None | Some True \<Rightarrow> Some True | Some False \<Rightarrow> ns_any as ns)"

fun valid_namespaces :: "json list \<Rightarrow> string list \<Rightarrow> string list option" where
  "valid_namespaces allowed [] = Some []"
| "valid_namespaces allowed (ns # nss) =
     (case ns_any allowed ns of
        None \<Rightarrow> None
      | Some ok \<Rightarrow> (case valid_namespaces allowed nss of
          None \<Rightarrow> None
        | Some rest \<Rightarrow> Some (if ok then ns # rest else rest)))"

definition py_min :: "int \<Rightarrow> json \<Rightarrow> json option" where
  "py_min k m = (case py_num m of None \<Rightarrow> None | Some n \<Rightarrow> Some (if n < k then m else JInt k))"

definition rag_policy_dict :: "dict \<Rightarrow> dict option" where
  "rag_policy_dict tp = (case dget tp ''rag'' (JObj []) of JObj d \<Rightarrow> Some d | _ \<Rightarrow> None)"

definition enforce_rag_policy ::
  "string list \<Rightarrow> int \<Rightarrow> identity_kind \<Rightarrow> (int \<Rightarrow> dict option) \<Rightarrow> int option \<Rightarrow> rag_grant res" where
  "enforce_rag_policy namespaces top_k identity persona_versions pv =
    (case identity of
      UserIdentity role \<Rightarrow>
        if role \<in> {''admin'', ''operator''} then Inr \<lparr>rg_namespaces = namespaces, rg_top_k = JInt top_k\<rparr>
        else Inr \<lparr>rg_namespaces = [''global''], rg_top_k = JInt top_k\<rparr>
    | AgentIdentity \<Rightarrow>
        (case (case pv of None \<Rightarrow> None | Some i \<Rightarrow> if i \<noteq> 0 then persona_versions i else None) of
          Some tp \<Rightarrow>
            if tp = [] then Inr \<lparr>rg_namespaces = [''global''], rg_top_k = JInt (min top_k 4)\<rparr>
            else (case rag_policy_dict tp of
              None \<Rightarrow> Inl attribute_error
            | Some rp \<Rightarrow>
                if \<not> truthy (dget rp ''enabled'' (JBool False))
                then Inl (HTTPException 403 ''rag_disabled_by_persona'')
                else (case py_iter (dget rp ''allowed_namespaces'' (JList [JStr ''global''])) of
                  None \<Rightarrow> if namespaces = [] then Inl (HTTPException 403 ''rag_namespace_denied'')
                           else Inl type_error
                | Some allowed \<Rightarrow> (case valid_namespaces allowed namespaces of
                    None \<Rightarrow> Inl attribute_error
                  | Some [] \<Rightarrow> Inl (HTTPException 403 ''rag_namespace_denied'')
                  | Some (n # ns) \<Rightarrow>
                      (case py_min top_k (dget rp ''max_top_k'' (JInt 8)) of
                        None \<Rightarrow> Inl type_error
                      | Some k \<Rightarrow> Inr \<lparr>rg_namespaces = n # ns, rg_top_k = k\<rparr>))))
        | None \<Rightarrow> Inr \<lparr>rg_namespaces = [''global''], rg_top_k = JInt (min top_k 4)\<rparr>))"

text \<open>The vector search.  \<open>distance\<close> is the distance pgvector computes between the embedding of the
  query and the embedding of a chunk; the rows are the join of embeddings, chunks and documents.\<close>

record kb_row =
  kr_chunk_id :: int
  kr_document_id :: int
  kr_title :: string
  kr_namespace :: string
  kr_chunk_index :: int
  kr_start_char :: int
  kr_end_char :: int
  kr_text :: string
  kr_ingest_status :: string

record kb_access_log =
  al_actor_type :: string
  al_actor_id :: int
  al_query_text :: string
  al_namespaces :: "string list"
  al_top_k :: json

definition kb_select :: "(string \<Rightarrow> kb_row \<Rightarrow> int) \<Rightarrow> string \<Rightarrow> rag_grant \<Rightarrow> kb_row list \<Rightarrow> kb_row list res" where
  "kb_select distance query g rows =
    (case py_num (rg_top_k g) of
       None \<Rightarrow> Inl (PyError ''DBAPIError'' [])
     | Some k \<Rightarrow> if k < 0 then Inl (PyError ''DBAPIError'' [])
        else Inr (take (nat k) (sort_key (distance query)
          (filter (\<lambda>r. kr_namespace r \<in> set (rg_namespaces g) \<and> kr_ingest_status r = ''ready'') rows))))"

definition search_kb ::
  "(string \<Rightarrow> kb_row \<Rightarrow> int) \<Rightarrow> (int \<Rightarrow> dict option) \<Rightarrow> identity_kind \<Rightarrow> int \<Rightarrow> string \<Rightarrow> string list \<Rightarrow> int
    \<Rightarrow> kb_row list \<Rightarrow> kb_access_log list \<Rightarrow> (kb_row list \<times> kb_access_log list) res" where
  "search_kb distance pvs identity identity_id query namespaces top_k rows logs =
    (case enforce_rag_policy namespaces top_k identity pvs None of
       Inl e \<Rightarrow> Inl e
     | Inr g \<Rightarrow>
        (let log = \<lparr>al_actor_type = (case identity of UserIdentity _ \<Rightarrow> ''user'' | AgentIdentity \<Rightarrow> ''agent''),
                    al_actor_id = identity_id, al_query_text = query,
                    al_namespaces = rg_namespaces g, al_top_k = rg_top_k g\<rparr> in
         case kb_select distance query g rows of
           Inl e \<Rightarrow> Inl e
         | Inr found \<Rightarrow> Inr (found, insert_row log logs)))"

definition internal_kb_search ::
  "(string \<Rightarrow> kb_row \<Rightarrow> int) \<Rightarrow> (int \<Rightarrow> dict option) \<Rightarrow> string \<Rightarrow> string list \<Rightarrow> int \<Rightarrow> int option
    \<Rightarrow> kb_row list \<Rightarrow> kb_row list res" where
  "internal_kb_search distance pvs query namespaces top_k pv rows =
    (case enforce_rag_policy namespaces top_k AgentIdentity pvs pv of
       Inl (HTTPException st d) \<Rightarrow>
         if st = 403 then Inl (PyError ''ValueError'' ''persona_policy_violation'') else Inl (HTTPException st d)
     | Inl e \<Rightarrow> Inl e
     | Inr g \<Rightarrow> kb_select distance query g rows)"

lemma ns_any_Some: "ns_any as ns = Some True \<Longrightarrow> \<exists>a \<in> set as. ns_match a ns = Some True"
  by (induction as ns rule: ns_any.induct) (auto split: option.splits bool.splits)

lemma valid_namespaces_sound:
  "valid_namespaces allowed nss = Some vs \<Longrightarrow>
     set vs \<subseteq> {n \<in> set nss. \<exists>a \<in> set allowed. ns_match a n = Some True}"
  by (induction nss arbitrary: vs) (auto split: option.splits if_splits dest: ns_any_Some)

lemma py_min_le: "py_min k m = Some r \<Longrightarrow> \<exists>v n. py_num r = Some v \<and> v \<le> k \<and> py_num m = Some n \<and> v \<le> n"
  by (auto simp: py_min_def split: option.splits if_splits)

lemma rag_top_k_le:
  "enforce_rag_policy nss k i pvs pv = Inr g \<Longrightarrow> \<exists>v. py_num (rg_top_k g) = Some v \<and> v \<le> k"
  by (auto simp: enforce_rag_policy_def split: identity_kind.splits option.splits if_splits list.splits
      dest: py_min_le)

text \<open>What a persona grants: the namespaces one of its patterns matches.\<close>

definition persona_grants :: "dict \<Rightarrow> string \<Rightarrow> bool" where
  "persona_grants tp ns =
     (case rag_policy_dict tp of
        None \<Rightarrow> False
      | Some rp \<Rightarrow> truthy (dget rp ''enabled'' (JBool False)) \<and>
          (case py_iter (dget rp ''allowed_namespaces'' (JList [JStr ''global''])) of
             None \<Rightarrow> False | Some as \<Rightarrow> list_ex (\<lambda>a. ns_match a ns = Some True) as))"

lemma enforce_rag_policy_scope:
  assumes "enforce_rag_policy nss k AgentIdentity pvs (Some i) = Inr g" "pvs i = Some tp" "tp \<noteq> []" "i \<noteq> 0"
  shows "set (rg_namespaces g) \<subseteq> {n \<in> set nss. persona_grants tp n}"
  using assms
  by (auto simp: enforce_rag_policy_def persona_grants_def list_ex_iff
      split: option.splits if_splits list.splits dest!: valid_namespaces_sound)

lemma kb_select_rows:
  "kb_select dist q g rows = Inr found \<Longrightarrow>
     set found \<subseteq> {r \<in> set rows. kr_namespace r \<in> set (rg_namespaces g) \<and> kr_ingest_status r = ''ready''}
     \<and> (\<exists>k. py_num (rg_top_k g) = Some k \<and> int (length found) \<le> k) \<and> sorted (List.map (dist q) found)"
  by (auto simp: kb_select_def take_map[symmetric] split: option.splits if_splits dest!: in_set_takeD
      intro: sorted_wrt_take)

text \<open>the worker's knowledge-base search on behalf of a persona never returns a chunk outside the
  namespaces the persona's patterns grant and the task asked for, only chunks of documents whose
  ingest is complete, at most as many as asked for and in ascending order of distance.\<close>

theorem internal_kb_search_scoped:
  assumes "internal_kb_search dist pvs q nss k (Some i) rows = Inr found"
    and "pvs i = Some tp" "tp \<noteq> []" "i \<noteq> 0"
  shows "(\<forall>r \<in> set found. r \<in> set rows \<and> kr_namespace r \<in> set nss \<and> persona_grants tp (kr_namespace r)
            \<and> kr_ingest_status r = ''ready'')
       \<and> int (length found) \<le> max 0 k \<and> sorted (List.map (dist q) found)"
proof -
  obtain g where g: "enforce_rag_policy nss k AgentIdentity pvs (Some i) = Inr g"
    and f: "kb_select dist q g rows = Inr found"
    using assms(1) by (auto simp: internal_kb_search_def split: sum.splits exn.splits if_splits)
  show ?thesis
    using kb_select_rows[OF f] enforce_rag_policy_scope[OF g assms(2-4)] rag_top_k_le[OF g]
    by (auto simp: max_def)
qed

theorem internal_kb_search_scoped_witness:
  "let row = \<lparr>kr_chunk_id = 1, kr_document_id = 1, kr_title = ''t'', kr_namespace = ''ops-dns'', kr_chunk_index = 0,
        kr_start_char = 0, kr_end_char = 3, kr_text = ''abc'', kr_ingest_status = ''ready''\<rparr>;
       tp = [(''rag'', JObj [(''enabled'', JBool True), (''allowed_namespaces'', JList [JStr ''ops-*''])])]
   in (\<forall>r \<in> set [row]. kr_namespace r \<in> set [''ops-dns'', ''hr''] \<and> persona_grants tp (kr_namespace r))
      \<and> sorted (List.map (\<lambda>_. 1::int) [row])"
proof -
  let ?row = "\<lparr>kr_chunk_id = 1, kr_document_id = 1, kr_title = ''t'', kr_namespace = ''ops-dns'', kr_chunk_index = 0,
        kr_start_char = 0, kr_end_char = 3, kr_text = ''abc'', kr_ingest_status = ''ready''\<rparr>"
  let ?tp = "[(''rag'', JObj [(''enabled'', JBool True), (''allowed_namespaces'', JList [JStr ''ops-*''])])]"
  have "internal_kb_search (\<lambda>_ _. 1) (\<lambda>_. Some ?tp) ''q'' [''ops-dns'', ''hr''] 3 (Some 7) [?row] = Inr [?row]"
    by code_simp
  from internal_kb_search_scoped[OF this] show ?thesis by (simp add: Let_def)
qed

end
