(* ===== verification/JsonText.thy ===== *)
theory JsonText
  imports Prelude
begin

text \<open>
  The part of Python's \<open>int\<close> and \<open>json\<close> the services use on text: \<open>int(s)\<close> with its inverse
  \<open>str\<close>, \<open>json.dumps\<close> with and without \<open>sort_keys\<close>, and \<open>json.loads\<close>.  Characters are 8-bit, numbers
  with a fraction or an exponent are not in the value model and are rejected by the reader.
\<close>

section \<open>Numbers\<close>

definition is_digit :: "char \<Rightarrow> bool" where
  "is_digit c = (let n = of_char c :: nat in 48 \<le> n \<and> n \<le> 57)"

definition digit_val :: "char \<Rightarrow> nat" where
  "digit_val c = of_char c - 48"

definition digits_val :: "string \<Rightarrow> nat" where
  "digits_val s = foldl (\<lambda>a c. 10 * a + digit_val c) 0 s"

text \<open>Digits with single underscores between them, as \<open>int\<close> accepts them.\<close>

fun int_digits :: "string \<Rightarrow> string option" where
  "int_digits [] = None"
| "int_digits [c] = (if is_digit c then Some [c] else None)"
| "int_digits (c # d # s) = (if \<not> is_digit c then None
     else if d = CHR ''_'' then map_option ((#) c) (int_digits s)
     else map_option ((#) c) (int_digits (d # s)))"

definition py_int :: "string \<Rightarrow> int option" where
  "py_int s = (case strip s of
     [] \<Rightarrow> None
   | c # t \<Rightarrow>
      if c = CHR ''-'' then map_option (\<lambda>d. - int (digits_val d)) (int_digits t)
      else if c = CHR ''+'' then map_option (\<lambda>d. int (digits_val d)) (int_digits t)
      else map_option (\<lambda>d. int (digits_val d)) (int_digits (c # t)))"

lemma of_char_digit: "n < 10 \<Longrightarrow> of_char (char_of (48 + n) :: char) = (48 + n :: nat)"
  by simp

lemma is_digit_char: "(n::nat) < 10 \<Longrightarrow> is_digit (char_of (48 + n))"
  by (simp add: is_digit_def Let_def)

lemma digit_val_char: "(n::nat) < 10 \<Longrightarrow> digit_val (char_of (48 + n)) = n"
  by (simp add: digit_val_def)

lemma digits_of_digits: "\<forall>c \<in> set (digits_of n). is_digit c"
proof (induction n rule: digits_of.induct)
  case (1 n)
  then show ?case
    by (subst digits_of.simps) (auto simp: is_digit_char)
qed

lemma digits_of_nonempty [simp]: "digits_of n \<noteq> []"
  by (subst digits_of.simps) auto

lemma digits_val_of [simp]: "digits_val (digits_of n) = n"
proof (induction n rule: digits_of.induct)
  case (1 n)
  show ?case
  proof (cases "n < 10")
    case True
    then show ?thesis by (subst digits_of.simps) (simp add: digits_val_def digit_val_char)
  next
    case False
    with 1 have "digits_val (digits_of (n div 10)) = n div 10" by simp
    with False show ?thesis
      by (subst digits_of.simps) (simp add: digits_val_def digit_val_char)
  qed
qed

lemma digits_inj: "digits_of a = digits_of b \<longleftrightarrow> a = b"
  by (metis digits_val_of)

lemma digit_not [simp]:
  "\<not> is_digit CHR ''_''" "\<not> is_digit CHR ''-''" "\<not> is_digit CHR ''+''" "\<not> is_digit CHR '' ''" "\<not> is_digit CHR ''[''" "\<not> is_digit CHR ''{''"
  by (simp_all add: is_digit_def)

lemma is_digit_not_space: "is_digit c \<Longrightarrow> \<not> is_space c"
  by (auto simp: is_digit_def is_space_def Let_def)

lemma int_digits_all: "s \<noteq> [] \<Longrightarrow> \<forall>c \<in> set s. is_digit c \<Longrightarrow> int_digits s = Some s"
  by (induction s rule: int_digits.induct) auto

lemma dropWhile_none: "\<forall>c \<in> set s. \<not> P c \<Longrightarrow> dropWhile P s = s"
  by (cases s) auto

lemma strip_nonspace: "\<forall>c \<in> set s. \<not> is_space c \<Longrightarrow> strip s = s"
  by (simp add: strip_def lstrip_def rstrip_def dropWhile_none)

lemma minus_not_space [simp]: "\<not> is_space CHR ''-''"
  by (simp add: is_space_def)

lemma str_int_nonspace: "\<forall>c \<in> set (str_int i). \<not> is_space c"
  by (auto simp: str_int_def dest: bspec[OF digits_of_digits] is_digit_not_space)

lemma py_int_str_int [simp]: "py_int (str_int i) = Some i"
proof (cases "i < 0")
  case True
  then show ?thesis
    using int_digits_all[OF digits_of_nonempty digits_of_digits, of "nat (- i)"]
    by (simp add: py_int_def strip_nonspace[OF str_int_nonspace]) (simp add: str_int_def)
next
  case False
  obtain c t where ct: "digits_of (nat i) = c # t"
    by (cases "digits_of (nat i)") auto
  have d: "is_digit c" using digits_of_digits[of "nat i"] ct by simp
  then have "c \<noteq> CHR ''-''" "c \<noteq> CHR ''+''" by (auto simp: is_digit_def)
  moreover have "int_digits (c # t) = Some (c # t)"
    using int_digits_all[OF digits_of_nonempty digits_of_digits, of "nat i"] ct by simp
  moreover have "digits_val (c # t) = nat i" using digits_val_of[of "nat i"] ct by simp
  ultimately show ?thesis
    using False by (simp add: py_int_def strip_nonspace[OF str_int_nonspace]) (simp add: str_int_def ct)
qed

section \<open>json.dumps\<close>

definition hex_char :: "nat \<Rightarrow> char" where
  "hex_char n = (if n < 10 then char_of (48 + n) else char_of (87 + n))"

definition hex_val :: "char \<Rightarrow> nat option" where
  "hex_val c = (let n = of_char c in
     if 48 \<le> n \<and> n \<le> 57 then Some (n - 48)
     else if 97 \<le> n \<and> n \<le> 102 then Some (n - 87)
     else if 65 \<le> n \<and> n \<le> 70 then Some (n - 55) else None)"

definition esc_char :: "char \<Rightarrow> string" where
  "esc_char c = (
     if c = CHR 0x22 then [CHR 0x5C, CHR 0x22]
     else if c = CHR 0x5C then [CHR 0x5C, CHR 0x5C]
     else if c = CHR 0x0A then [CHR 0x5C, CHR ''n'']
     else if c = CHR 0x0D then [CHR 0x5C, CHR ''r'']
     else if c = CHR 0x09 then [CHR 0x5C, CHR ''t'']
     else if c = CHR 0x0C then [CHR 0x5C, CHR ''f'']
     else if c = CHR 0x08 then [CHR 0x5C, CHR ''b'']
     else if 32 \<le> (of_char c :: nat) \<and> (of_char c :: nat) \<le> 126 then [c]
     else [CHR 0x5C, CHR ''u'', CHR ''0'', CHR ''0'', hex_char (of_char c div 16), hex_char (of_char c mod 16)])"

definition dumps_str :: "string \<Rightarrow> string" where
  "dumps_str s = [CHR 0x22] @ concat (List.map esc_char s) @ [CHR 0x22]"

fun join :: "string \<Rightarrow> string list \<Rightarrow> string" where
  "join sep [] = []"
| "join sep [x] = x"
| "join sep (x # xs) = x @ sep @ join sep xs"

fun dumps :: "json \<Rightarrow> string" where
  "dumps JNull = ''null''"
| "dumps (JBool b) = (if b then ''true'' else ''false'')"
| "dumps (JInt i) = str_int i"
| "dumps (JStr s) = dumps_str s"
| "dumps (JList xs) = ''['' @ join '', '' (List.map dumps xs) @ '']''"
| "dumps (JObj d) = ''{'' @ join '', '' (List.map (\<lambda>(k, v). dumps_str k @ '': '' @ dumps v) d) @ ''}''"

text \<open>\<open>sort_keys=True\<close>: every object of the value is written with its keys in order.\<close>

fun sort_keys :: "json \<Rightarrow> json" where
  "sort_keys (JList xs) = JList (List.map sort_keys xs)"
| "sort_keys (JObj d) = JObj (sort_key fst (List.map (\<lambda>(k, v). (k, sort_keys v)) d))"
| "sort_keys v = v"

definition dumps_sorted :: "json \<Rightarrow> string" where
  "dumps_sorted v = dumps (sort_keys v)"

section \<open>json.loads\<close>

definition json_space :: "char \<Rightarrow> bool" where
  "json_space c = (let n = of_char c :: nat in n = 32 \<or> n = 9 \<or> n = 10 \<or> n = 13)"

definition skip :: "string \<Rightarrow> string" where
  "skip s = dropWhile json_space s"

definition unescape :: "char \<Rightarrow> char option" where
  "unescape c = (let n = of_char c :: nat in
     if n = 34 \<or> n = 92 \<or> n = 47 then Some c
     else if c = CHR ''n'' then Some (CHR 0x0A)
     else if c = CHR ''r'' then Some (CHR 0x0D)
     else if c = CHR ''t'' then Some (CHR 0x09)
     else if c = CHR ''f'' then Some (CHR 0x0C)
     else if c = CHR ''b'' then Some (CHR 0x08) else None)"

definition unhex :: "char \<Rightarrow> char \<Rightarrow> char \<Rightarrow> char \<Rightarrow> char option" where
  "unhex a b c d = (if a = CHR ''0'' \<and> b = CHR ''0'' then
     (case (hex_val c, hex_val d) of (Some m, Some n) \<Rightarrow> Some (char_of (16 * m + n)) | _ \<Rightarrow> None) else None)"

text \<open>The rest of a string literal after its opening quote, with the text behind the closing one.\<close>

fun parse_str :: "string \<Rightarrow> (string \<times> string) option" where
  "parse_str [] = None"
| "parse_str [c] = (if c = CHR 0x22 then Some ([], []) else None)"
| "parse_str (c # e # s) =
     (if c = CHR 0x22 then Some ([], e # s)
      else if c = CHR 0x5C then
        (if e = CHR ''u'' then
           (case s of
              a1 # a2 # a3 # a4 # r \<Rightarrow>
                (case unhex a1 a2 a3 a4 of None \<Rightarrow> None
                 | Some ch \<Rightarrow> map_option (\<lambda>(t, r'). (ch # t, r')) (parse_str r))
            | _ \<Rightarrow> None)
         else (case unescape e of None \<Rightarrow> None
               | Some ch \<Rightarrow> map_option (\<lambda>(t, r). (ch # t, r)) (parse_str s)))
      else if of_char c < (32::nat) then None
      else map_option (\<lambda>(t, r). (c # t, r)) (parse_str (e # s)))"

definition parse_nat :: "string \<Rightarrow> (nat \<times> string) option" where
  "parse_nat s = (case takeWhile is_digit s of
     [] \<Rightarrow> None
   | c # ds \<Rightarrow> let t = dropWhile is_digit s in
       if c = CHR ''0'' \<and> ds \<noteq> [] then None
       else if t \<noteq> [] \<and> hd t \<in> {CHR ''.'', CHR ''e'', CHR ''E''} then None
       else Some (digits_val (c # ds), t))"

fun parse_val :: "nat \<Rightarrow> string \<Rightarrow> (json \<times> string) option"
  and parse_elems :: "nat \<Rightarrow> string \<Rightarrow> (json list \<times> string) option"
  and parse_members :: "nat \<Rightarrow> string \<Rightarrow> (dict \<times> string) option" where
  "parse_val 0 s = None"
| "parse_val (Suc f) s =
     (if prefix ''null'' s then Some (JNull, drop 4 s)
      else if prefix ''true'' s then Some (JBool True, drop 4 s)
      else if prefix ''false'' s then Some (JBool False, drop 5 s)
      else case s of [] \<Rightarrow> None
      | c # t \<Rightarrow>
        if c = CHR 0x22 then map_option (\<lambda>(x, r). (JStr x, r)) (parse_str t)
        else if c = CHR ''-'' then map_option (\<lambda>(n, r). (JInt (- int n), r)) (parse_nat t)
        else if is_digit c then map_option (\<lambda>(n, r). (JInt (int n), r)) (parse_nat s)
        else if c = CHR ''['' then
          (case skip t of [] \<Rightarrow> None
           | d # r \<Rightarrow> if d = CHR '']'' then Some (JList [], r)
                      else map_option (\<lambda>(xs, r'). (JList xs, r')) (parse_elems f (d # r)))
        else if c = CHR ''{'' then
          (case skip t of [] \<Rightarrow> None
           | d # r \<Rightarrow> if d = CHR ''}'' then Some (JObj [], r)
                      else map_option (\<lambda>(kvs, r'). (JObj (foldl (\<lambda>a (k, v). dset k v a) [] kvs), r'))
                             (parse_members f (d # r)))
        else None)"
| "parse_elems 0 s = None"
| "parse_elems (Suc f) s =
     (case parse_val f s of None \<Rightarrow> None
      | Some (v, r) \<Rightarrow>
        (case skip r of [] \<Rightarrow> None
         | c # t \<Rightarrow> if c = CHR '']'' then Some ([v], t)
                    else if c = CHR '','' then map_option (\<lambda>(vs, r'). (v # vs, r')) (parse_elems f (skip t))
                    else None))"
| "parse_members 0 s = None"
| "parse_members (Suc f) s =
     (case s of [] \<Rightarrow> None
      | q # s1 \<Rightarrow> if q \<noteq> CHR 0x22 then None else
        (case parse_str s1 of None \<Rightarrow> None
         | Some (k, r1) \<Rightarrow>
           (case skip r1 of [] \<Rightarrow> None
            | col # r2 \<Rightarrow> if col \<noteq> CHR '':'' then None else
              (case parse_val f (skip r2) of None \<Rightarrow> None
               | Some (v, r) \<Rightarrow>
                 (case skip r of [] \<Rightarrow> None
                  | c # t \<Rightarrow> if c = CHR ''}'' then Some ([(k, v)], t)
                     else if c = CHR '','' then map_option (\<lambda>(kvs, r'). ((k, v) # kvs, r')) (parse_members f (skip t))
                     else None)))))"

definition loads :: "string \<Rightarrow> json option" where
  "loads s = (case parse_val (Suc (length s)) (skip s) of
     Some (v, r) \<Rightarrow> if skip r = [] then Some v else None
   | None \<Rightarrow> None)"

section \<open>The round trip\<close>

lemma of_char_lt: "(of_char c :: nat) < 256"
  by (cases c) (simp add: of_char_def horner_sum_simps split: if_splits)

lemma hex_val_char: "n < 16 \<Longrightarrow> hex_val (hex_char n) = Some n"
proof -
  assume "n < 16"
  then have "n \<in> {0,1,2,3,4,5,6,7,8,9,10,11,12,13,14,15}" by (simp, presburger)
  then show ?thesis by (auto simp: hex_val_def hex_char_def)
qed

lemma unhex_char: "unhex CHR ''0'' CHR ''0'' (hex_char (of_char c div 16)) (hex_char (of_char c mod 16)) = Some c"
proof -
  have "of_char c div 16 < (16::nat)" using less_mult_imp_div_less[of "of_char c" 16 16] of_char_lt[of c] by simp
  then show ?thesis by (simp add: unhex_def hex_val_char)
qed

lemma parse_str_plain:
  "c \<noteq> CHR 0x22 \<Longrightarrow> c \<noteq> CHR 0x5C \<Longrightarrow> 32 \<le> (of_char c :: nat) \<Longrightarrow>
   parse_str (c # s) = map_option (\<lambda>(t, r). (c # t, r)) (parse_str s)"
  by (cases s) auto

lemma parse_str_esc_char:
  "parse_str (esc_char c @ e # t) = map_option (\<lambda>(u, r). (c # u, r)) (parse_str (e # t))"
  by (cases "32 \<le> (of_char c :: nat) \<and> (of_char c :: nat) \<le> 126")
    (auto simp: esc_char_def unescape_def parse_str_plain unhex_char split: option.splits)

lemma parse_str_esc:
  "parse_str (concat (List.map esc_char s) @ CHR 0x22 # r) = Some (s, r)"
proof (induction s)
  case Nil
  then show ?case by (cases r) auto
next
  case (Cons c s)
  obtain e t where et: "concat (List.map esc_char s) @ CHR 0x22 # r = e # t"
    by (cases "concat (List.map esc_char s)") auto
  then show ?case using Cons parse_str_esc_char[of c e t] by simp
qed

definition ok_rest :: "string \<Rightarrow> bool" where
  "ok_rest r = (r = [] \<or> (\<not> is_digit (hd r) \<and> hd r \<notin> {CHR ''.'', CHR ''e'', CHR ''E''}))"

lemma digits_of_lead0: "digits_of n = CHR ''0'' # ds \<Longrightarrow> ds = []"
proof (induction n arbitrary: ds rule: digits_of.induct)
  case (1 n)
  show ?case
  proof (cases "n < 10")
    case True
    then show ?thesis using 1(2) digits_of.simps[of n] by simp
  next
    case False
    then have eq: "digits_of (n div 10) @ [char_of (48 + n mod 10)] = CHR ''0'' # ds"
      using 1(2) digits_of.simps[of n] by simp
    then obtain ds' where ds': "digits_of (n div 10) = CHR ''0'' # ds'"
      by (cases "digits_of (n div 10)") auto
    then have "ds' = []" using 1(1)[OF False] by simp
    with ds' have "digits_val (digits_of (n div 10)) = 0" by (simp add: digits_val_def digit_val_def)
    with False show ?thesis by simp
  qed
qed

lemma parse_nat_digits:
  assumes "ok_rest r"
  shows "parse_nat (digits_of n @ r) = Some (n, r)"
proof -
  obtain c ds where c: "digits_of n = c # ds" by (cases "digits_of n") auto
  have all: "\<forall>x \<in> set (c # ds). is_digit x" using digits_of_digits[of n] c by simp
  have tw: "takeWhile is_digit ((c # ds) @ r) = c # ds" "dropWhile is_digit ((c # ds) @ r) = r"
    using all assms by (simp_all add: takeWhile_append dropWhile_append ok_rest_def)
      (cases r; simp)+
  have "digits_val (c # ds) = n" using digits_val_of[of n] c by simp
  moreover have "c = CHR ''0'' \<longrightarrow> ds = []" using digits_of_lead0 c by auto
  ultimately show ?thesis
    using tw assms by (auto simp: parse_nat_def c ok_rest_def Let_def)
qed

text \<open>A value as Python holds it: no dictionary has a key twice.\<close>

fun wf_json :: "json \<Rightarrow> bool" where
  "wf_json (JList xs) = (\<forall>x \<in> set xs. wf_json x)"
| "wf_json (JObj d) = (distinct (List.map fst d) \<and> (\<forall>kv \<in> set d. wf_json (snd kv)))"
| "wf_json v = True"

lemma json_space_simps [simp]:
  "\<not> json_space CHR ''n''" "\<not> json_space CHR ''t''" "\<not> json_space CHR ''f''" "\<not> json_space CHR 0x22"
  "\<not> json_space CHR ''-''" "\<not> json_space CHR ''[''" "\<not> json_space CHR ''{''" "\<not> json_space CHR '']''"
  "\<not> json_space CHR ''}''" "\<not> json_space CHR '',''" "\<not> json_space CHR '':''" "json_space CHR '' ''"
  by (simp_all add: json_space_def)

lemma skip_simps [simp]: "skip [] = []" "skip (c # s) = (if json_space c then skip s else c # s)"
  by (simp_all add: skip_def)

lemma is_digit_props: "is_digit c \<Longrightarrow> \<not> json_space c \<and> c \<notin> {CHR ''n'', CHR ''t'', CHR ''f'', CHR 0x22, CHR ''-'', CHR ''['', CHR ''{'', CHR '']'', CHR ''}'', CHR '','', CHR '':''}"
  by (auto simp: is_digit_def json_space_def Let_def)

lemma ok_rest_simps [simp]:
  "ok_rest []" "ok_rest (CHR '','' # s)" "ok_rest (CHR '']'' # s)" "ok_rest (CHR ''}'' # s)"
  by (simp_all add: ok_rest_def is_digit_def)

lemma str_int_head: "\<exists>c t. str_int i = c # t \<and> (is_digit c \<or> c = CHR ''-'')"
proof (cases "i < 0")
  case True
  then show ?thesis by (simp add: str_int_def)
next
  case False
  then show ?thesis using digits_of_digits[of "nat i"]
    by (cases "digits_of (nat i)") (auto simp: str_int_def)
qed

lemma dumps_head: "\<exists>c t. dumps v = c # t \<and> \<not> json_space c \<and> c \<noteq> CHR '']'' \<and> c \<noteq> CHR ''}''"
  using str_int_head by (cases v) (fastforce simp: dumps_str_def dest: is_digit_props)+

lemma skip_dumps [simp]: "skip (dumps v @ r) = dumps v @ r"
  using dumps_head[of v] by auto

lemma skip_dumps_str [simp]: "skip (dumps_str v @ r) = dumps_str v @ r"
  by (auto simp: dumps_str_def)

lemma dumps_nonempty [simp]: "dumps v \<noteq> []"
  using dumps_head[of v] by auto

lemma parse_val_int: "ok_rest r \<Longrightarrow> parse_val (Suc f) (str_int i @ r) = Some (JInt i, r)"
proof (cases "i < 0")
  case True
  assume "ok_rest r"
  with True show ?thesis by (simp add: str_int_def parse_nat_digits)
next
  case False
  assume r: "ok_rest r"
  obtain c t where c: "digits_of (nat i) = c # t" by (cases "digits_of (nat i)") auto
  then have "is_digit c" using digits_of_digits[of "nat i"] by simp
  note d = this is_digit_props[OF this]
  have "parse_nat (c # t @ r) = Some (nat i, r)" using parse_nat_digits[OF r, of "nat i"] c by simp
  with False d show ?thesis by (auto simp: str_int_def c)
qed

lemma parse_val_str: "parse_val (Suc f) (dumps_str x @ r) = Some (JStr x, r)"
  by (simp add: dumps_str_def parse_str_esc)

lemma parse_elems_dumps:
  assumes ih: "\<And>v f r. v \<in> set vs \<Longrightarrow> ok_rest r \<Longrightarrow> length (dumps v) < f \<Longrightarrow> parse_val f (dumps v @ r) = Some (v, r)"
    and "vs \<noteq> []" "length (join '', '' (List.map dumps vs)) + 1 < f"
  shows "parse_elems f (join '', '' (List.map dumps vs) @ CHR '']'' # r) = Some (vs, r)"
  using assms
proof (induction vs arbitrary: f)
  case Nil
  then show ?case by simp
next
  case (Cons v vs)
  then obtain f' where f: "f = Suc f'" by (cases f) auto
  show ?case
  proof (cases vs)
    case Nil
    then show ?thesis using Cons.prems f by simp
  next
    case (Cons w ws)
    have len: "length (dumps v) < f'" "length (join '', '' (List.map dumps vs)) + 1 < f'"
      using Cons.prems(3) Cons f by auto
    have rest: "parse_elems f' (join '', '' (List.map dumps vs) @ CHR '']'' # r) = Some (vs, r)"
      using Cons.IH[of f'] Cons.prems(1) len Cons by auto
    have sk: "skip (join '', '' (List.map dumps vs) @ CHR '']'' # r) = join '', '' (List.map dumps vs) @ CHR '']'' # r"
      using Cons by (cases ws) auto
    show ?thesis
      using Cons.prems(1)[of v "'', '' @ join '', '' (List.map dumps vs) @ CHR '']'' # r" f'] len rest sk Cons f
      by simp
  qed
qed

definition dump_member :: "string \<times> json \<Rightarrow> string" where
  "dump_member = (\<lambda>(k, v). dumps_str k @ '': '' @ dumps v)"

lemma parse_members_dumps:
  assumes ih: "\<And>kv f r. kv \<in> set d \<Longrightarrow> ok_rest r \<Longrightarrow> length (dumps (snd kv)) < f \<Longrightarrow>
        parse_val f (dumps (snd kv) @ r) = Some (snd kv, r)"
    and "d \<noteq> []" "length (join '', '' (List.map dump_member d)) + 1 < f"
  shows "parse_members f (join '', '' (List.map dump_member d) @ CHR ''}'' # r) = Some (d, r)"
  using assms
proof (induction d arbitrary: f)
  case Nil
  then show ?case by simp
next
  case (Cons kv d)
  obtain k v where kv: "kv = (k, v)" by (cases kv)
  obtain f' where f: "f = Suc f'" using Cons.prems(3) by (cases f) auto
  have hd: "dump_member kv = CHR 0x22 # concat (List.map esc_char k) @ CHR 0x22 # '': '' @ dumps v"
    by (simp add: dump_member_def kv dumps_str_def)
  show ?case
  proof (cases d)
    case Nil
    then show ?thesis using Cons.prems f kv hd by (simp add: parse_str_esc)
  next
    case (Cons w ws)
    have len: "length (dumps v) < f'" "length (join '', '' (List.map dump_member d)) + 1 < f'"
      using Cons.prems(3) Cons f hd by auto
    have rest: "parse_members f' (join '', '' (List.map dump_member d) @ CHR ''}'' # r) = Some (d, r)"
      using Cons.IH[of f'] Cons.prems(1) len Cons by auto
    obtain t where t: "join '', '' (List.map dump_member d) @ CHR ''}'' # r = CHR 0x22 # t"
      using Cons by (cases ws; cases w) (auto simp: dump_member_def dumps_str_def)
    have pv: "parse_val f' (dumps v @ '', '' @ join '', '' (List.map dump_member d) @ CHR ''}'' # r)
        = Some (v, '', '' @ join '', '' (List.map dump_member d) @ CHR ''}'' # r)"
      using Cons.prems(1)[of kv] len kv by simp
    have j: "join '', '' (List.map dump_member (kv # d)) @ CHR ''}'' # r =
       CHR 0x22 # concat (List.map esc_char k) @ CHR 0x22 # '': '' @ dumps v @ '', '' @ join '', '' (List.map dump_member d) @ CHR ''}'' # r"
      using Cons by (simp add: hd)
    show ?thesis
      unfolding j f using pv rest kv t by (simp add: parse_str_esc)
  qed
qed

lemma foldl_dset_distinct:
  "distinct (List.map fst (a @ d)) \<Longrightarrow> foldl (\<lambda>a (k, v). dset k v a) a d = a @ d"
proof (induction d arbitrary: a)
  case (Cons kv d)
  obtain k v where kv: "kv = (k, v)" by (cases kv)
  have "AList.update k v a = a @ [(k, v)]"
    using Cons.prems kv by (induction a) auto
  with Cons kv show ?case by (simp add: dset_def)
qed simp

lemma parse_val_dumps:
  "wf_json v \<Longrightarrow> ok_rest r \<Longrightarrow> length (dumps v) < f \<Longrightarrow> parse_val f (dumps v @ r) = Some (v, r)"
proof (induction v arbitrary: f r)
  case JNull
  then show ?case by (cases f) auto
next
  case (JBool b)
  then show ?case by (cases f) auto
next
  case (JInt i)
  then show ?case by (cases f) (auto simp: parse_val_int simp del: parse_val.simps)
next
  case (JStr x)
  then show ?case by (cases f) (auto simp: parse_val_str simp del: parse_val.simps)
next
  case (JList vs)
  then obtain f' where f: "f = Suc f'" by (cases f) auto
  show ?case
  proof (cases vs)
    case Nil
    then show ?thesis by (simp add: f)
  next
    case (Cons w ws)
    have "parse_elems f' (join '', '' (List.map dumps vs) @ CHR '']'' # r) = Some (vs, r)"
      by (rule parse_elems_dumps) (use JList Cons f in auto)
    moreover obtain c t where "dumps w = c # t \<and> \<not> json_space c \<and> c \<noteq> CHR '']''"
      using dumps_head by blast
    ultimately show ?thesis using Cons by (cases ws) (auto simp: f)
  qed
next
  case (JObj d)
  then obtain f' where f: "f = Suc f'" by (cases f) auto
  show ?case
  proof (cases d)
    case Nil
    then show ?thesis by (simp add: f)
  next
    case (Cons w ws)
    have "parse_members f' (join '', '' (List.map dump_member d) @ CHR ''}'' # r) = Some (d, r)"
    proof (rule parse_members_dumps)
      fix kv g q
      assume "kv \<in> set d" "ok_rest q" "length (dumps (snd kv)) < g"
      then show "parse_val g (dumps (snd kv) @ q) = Some (snd kv, q)"
        using JObj.prems(1) by (intro JObj.IH[of kv]) (cases kv; auto)+
    qed (use JObj.prems Cons f in \<open>auto simp: dump_member_def\<close>)
    moreover obtain t where "join '', '' (List.map dump_member d) @ CHR ''}'' # r = CHR 0x22 # t"
      using Cons by (cases ws; cases w) (auto simp: dump_member_def dumps_str_def)
    moreover have "foldl (\<lambda>a (k, v). dset k v a) [] d = d"
      using foldl_dset_distinct[of "[]" d] JObj.prems by simp
    moreover have "dumps (JObj d) = CHR ''{'' # join '', '' (List.map dump_member d) @ ''}''"
      unfolding dump_member_def by simp
    ultimately show ?thesis by (simp add: f del: dumps.simps)
  qed
qed

lemma loads_dumps: "wf_json v \<Longrightarrow> loads (dumps v) = Some v"
  using parse_val_dumps[of v "[]" "Suc (length (dumps v))"] skip_dumps[of v "[]"]
  by (simp add: loads_def del: parse_val.simps)

end
