(* ===== verification/SystemOfRecord.thy ===== *)
theory SystemOfRecord
  imports JsonText
begin

text \<open>
  The system of record: validation of writes, idempotency keys and the merge patch of
  \<open>packages/shared/sor.py\<close>, the audit row of \<open>packages/shared/audit.py\<close>, and the entity API of
  \<open>apps/nexus_api/routers/entities.py\<close> on the tables \<open>entities\<close>, \<open>entity_events\<close>,
  \<open>idempotency_keys\<close> and \<open>audit_events\<close>.  SHA-256 is the parameter \<open>sha\<close>; the uuid4 strings a request
  draws, its clock and its correlation id come in the record \<open>sor_env\<close>.  An operation returns its
  result with the committed database, or the exception it raises, in which case nothing was
  committed.
\<close>

section \<open>Tables\<close>

record proposed_write =
  pw_entity_kind :: string
  pw_external_ref :: "string option"
  pw_action :: string
  pw_patch :: dict
  pw_idempotency_key :: string

record entity =
  en_id :: string
  en_kind :: string
  en_external_ref :: "string option"
  en_status :: string
  en_data :: "dict option"
  en_version :: int
  en_created_at :: int
  en_updated_at :: int

record entity_event =
  ev_id :: string
  ev_entity_id :: string
  ev_actor_type :: string
  ev_actor_id :: string
  ev_action :: string
  ev_before :: "dict option"
  ev_after :: dict
  ev_diff :: dict
  ev_correlation_id :: "string option"
  ev_idempotency_key :: string
  ev_created_at :: int

record idempotency_row =
  ik_id :: string
  ik_key :: string
  ik_scope :: string
  ik_request_hash :: string
  ik_response :: json
  ik_expires_at :: int

datatype identity =
    UserId int
  | AgentId int
  | OtherIdentity

record audit_event =
  ae_actor_type :: "string option"
  ae_actor_id :: "int option"
  ae_action :: string
  ae_target_type :: string
  ae_target_id :: int
  ae_meta :: dict

record sor_db =
  sd_entities :: "entity list"
  sd_events :: "entity_event list"
  sd_idem :: "idempotency_row list"
  sd_audit :: "audit_event list"

record sor_env =
  se_entity_id :: string
  se_event_id :: string
  se_idem_id :: string
  se_now :: int
  se_correlation_id :: "string option"
  se_user_id :: int

section \<open>sor.py\<close>

definition ALLOWED_ENTITIES :: "(string \<times> string list) list" where
  "ALLOWED_ENTITIES = [(''dns_record'', [''name'', ''record_type'', ''value'', ''ttl''])]"

fun first_missing :: "string list \<Rightarrow> dict \<Rightarrow> string option" where
  "first_missing [] d = None"
| "first_missing (f # fs) d = (if dhas f d then first_missing fs d else Some f)"

definition validate_proposed_write :: "proposed_write \<Rightarrow> unit res" where
  "validate_proposed_write w =
     (case map_of ALLOWED_ENTITIES (pw_entity_kind w) of
        None \<Rightarrow> Inl (SoRValidationError (''Entity kind '' @ pw_entity_kind w @ '' not allowed.'') ''sor_kind_denied'')
      | Some required \<Rightarrow>
          (case first_missing required (pw_patch w) of
             Some f \<Rightarrow> Inl (SoRValidationError (''Missing required field '' @ f @ '' for '' @ pw_entity_kind w)
                          ''sor_validation_failed'')
           | None \<Rightarrow> Inr ()))"

definition request_hash :: "(string \<Rightarrow> string) \<Rightarrow> json \<Rightarrow> string" where
  "request_hash sha req = sha (dumps_sorted req)"

definition check_idempotency ::
  "(string \<Rightarrow> string) \<Rightarrow> idempotency_row list \<Rightarrow> string \<Rightarrow> string \<Rightarrow> json \<Rightarrow> json option res" where
  "check_idempotency sha keys key scope req =
     (case select_first (\<lambda>r. ik_key r = key) keys of
        Some r \<Rightarrow>
          if ik_request_hash r = request_hash sha req then Inr (Some (ik_response r))
          else Inl (SoRValidationError ''Idempotency conflict: key reused with different payload.''
                      ''idempotency_conflict'')
      | None \<Rightarrow> Inr None)"

definition merge_step :: "dict \<Rightarrow> string \<times> json \<Rightarrow> dict" where
  "merge_step res kv = (if snd kv = JNull then dpop (fst kv) res else dset (fst kv) (snd kv) res)"

definition apply_json_merge_patch :: "dict \<Rightarrow> dict \<Rightarrow> dict" where
  "apply_json_merge_patch target patch = foldl merge_step target patch"

section \<open>audit.py\<close>

definition log_audit_event ::
  "string \<Rightarrow> string \<Rightarrow> identity option \<Rightarrow> string option \<Rightarrow> dict \<Rightarrow> audit_event list \<Rightarrow> audit_event list res" where
  "log_audit_event action resource_type identity resource_id meta rows =
     (let actor = (case identity of Some (UserId i) \<Rightarrow> Some (i, ''user'')
                   | Some (AgentId i) \<Rightarrow> Some (i, ''agent'') | _ \<Rightarrow> None);
          target = (case resource_id of None \<Rightarrow> Some 0
                    | Some s \<Rightarrow> if s = [] then Some 0 else py_int s) in
      case target of
        None \<Rightarrow> Inl (PyError ''ValueError'' ''invalid literal for int() with base 10'')
      | Some t \<Rightarrow> Inr (insert_row \<lparr>ae_actor_type = map_option snd actor, ae_actor_id = map_option fst actor,
          ae_action = action, ae_target_type = resource_type, ae_target_id = t, ae_meta = meta\<rparr> rows))"

section \<open>The entity API\<close>

record upsert_request =
  uq_kind :: string
  uq_external_ref :: "string option"
  uq_data :: dict
  uq_idempotency_key :: string

datatype entity_response =
    StoredResponse json
  | EntityResponse entity

definition json_str_opt :: "string option \<Rightarrow> json" where
  "json_str_opt s = (case s of None \<Rightarrow> JNull | Some x \<Rightarrow> JStr x)"

definition upsert_dict :: "upsert_request \<Rightarrow> json" where
  "upsert_dict q = JObj [(''kind'', JStr (uq_kind q)), (''external_ref'', json_str_opt (uq_external_ref q)),
     (''data'', JObj (uq_data q)), (''idempotency_key'', JStr (uq_idempotency_key q))]"

definition patch_dict :: "dict \<Rightarrow> string \<Rightarrow> json" where
  "patch_dict patch key = JObj [(''patch'', JObj patch), (''idempotency_key'', JStr key)]"

definition entity_out :: "(int \<Rightarrow> string) \<Rightarrow> entity \<Rightarrow> json" where
  "entity_out isofmt e = JObj [(''id'', JStr (en_id e)), (''kind'', JStr (en_kind e)),
     (''external_ref'', json_str_opt (en_external_ref e)), (''status'', JStr (en_status e)),
     (''data'', case en_data e of None \<Rightarrow> JNull | Some d \<Rightarrow> JObj d), (''version'', JInt (en_version e)),
     (''created_at'', JStr (isofmt (en_created_at e))), (''updated_at'', JStr (isofmt (en_updated_at e)))]"

definition record_idempotency ::
  "sor_env \<Rightarrow> string \<Rightarrow> string \<Rightarrow> json \<Rightarrow> idempotency_row list \<Rightarrow> idempotency_row list res" where
  "record_idempotency env key h response keys =
     (if \<exists>r \<in> set keys. ik_key r = key then Inl (PyError ''IntegrityError'' ''idempotency_keys.key'')
      else Inr (insert_row \<lparr>ik_id = se_idem_id env, ik_key = key, ik_scope = ''entity_write'',
        ik_request_hash = h, ik_response = response, ik_expires_at = se_now env + 7 * 86400\<rparr> keys))"

text \<open>What both writing handlers do once the entity row stands: append the event, audit, store the
  response under the key, commit.\<close>

definition record_write ::
  "(string \<Rightarrow> string) \<Rightarrow> (int \<Rightarrow> string) \<Rightarrow> sor_env \<Rightarrow> json \<Rightarrow> string \<Rightarrow> string \<Rightarrow> dict option \<Rightarrow> dict \<Rightarrow> dict
    \<Rightarrow> entity \<Rightarrow> sor_db \<Rightarrow> (entity_response \<times> sor_db) res" where
  "record_write sha isofmt env req key action before merged diff ent db =
     (let event = \<lparr>ev_id = se_event_id env, ev_entity_id = en_id ent, ev_actor_type = ''user'',
            ev_actor_id = str_int (se_user_id env), ev_action = action, ev_before = before, ev_after = merged,
            ev_diff = diff, ev_correlation_id = se_correlation_id env, ev_idempotency_key = key,
            ev_created_at = se_now env\<rparr> in
      case log_audit_event (''entity_'' @ action) ''entity'' (Some (UserId (se_user_id env))) (Some (en_id ent)) []
             (sd_audit db) of
        Inl e \<Rightarrow> Inl e
      | Inr audit \<Rightarrow>
          (case record_idempotency env key (request_hash sha req) (entity_out isofmt ent) (sd_idem db) of
             Inl e \<Rightarrow> Inl e
           | Inr keys \<Rightarrow> Inr (EntityResponse ent,
               db\<lparr>sd_events := insert_row event (sd_events db), sd_audit := audit, sd_idem := keys\<rparr>)))"

definition find_existing :: "upsert_request \<Rightarrow> sor_db \<Rightarrow> entity option" where
  "find_existing q db = (if uq_external_ref q \<in> {None, Some []} then None
     else select_first (\<lambda>e. en_kind e = uq_kind q \<and> en_external_ref e = uq_external_ref q) (sd_entities db))"

definition upsert_entity ::
  "(string \<Rightarrow> string) \<Rightarrow> (int \<Rightarrow> string) \<Rightarrow> sor_env \<Rightarrow> upsert_request \<Rightarrow> sor_db \<Rightarrow> (entity_response \<times> sor_db) res" where
  "upsert_entity sha isofmt env q db =
    (case check_idempotency sha (sd_idem db) (uq_idempotency_key q) ''entity_write'' (upsert_dict q) of
       Inl e \<Rightarrow> Inl e
     | Inr stored \<Rightarrow>
       if (case stored of Some v \<Rightarrow> truthy v | None \<Rightarrow> False) then Inr (StoredResponse (the stored), db)
       else case validate_proposed_write \<lparr>pw_entity_kind = uq_kind q, pw_external_ref = uq_external_ref q,
                  pw_action = ''upsert'', pw_patch = uq_data q, pw_idempotency_key = uq_idempotency_key q\<rparr> of
         Inl e \<Rightarrow> Inl e
       | Inr _ \<Rightarrow>
         (case find_existing q db of
            Some e \<Rightarrow>
              (let data = (case en_data e of None \<Rightarrow> [] | Some d \<Rightarrow> d);
                   merged = apply_json_merge_patch data (uq_data q);
                   e' = e\<lparr>en_data := Some merged, en_version := en_version e + 1, en_updated_at := se_now env\<rparr>
               in record_write sha isofmt env (upsert_dict q) (uq_idempotency_key q) ''update''
                    (if data = [] then None else Some data) merged (uq_data q) e'
                    (db\<lparr>sd_entities := update_rows (\<lambda>r. en_id r = en_id e) (\<lambda>_. e') (sd_entities db)\<rparr>))
          | None \<Rightarrow>
              (let e' = \<lparr>en_id = se_entity_id env, en_kind = uq_kind q, en_external_ref = uq_external_ref q,
                     en_status = ''active'', en_data = Some (uq_data q), en_version = 1,
                     en_created_at = se_now env, en_updated_at = se_now env\<rparr>
               in record_write sha isofmt env (upsert_dict q) (uq_idempotency_key q) ''create''
                    None (uq_data q) (uq_data q) e'
                    (db\<lparr>sd_entities := insert_row e' (sd_entities db)\<rparr>))))"

definition patch_entity ::
  "(string \<Rightarrow> string) \<Rightarrow> (int \<Rightarrow> string) \<Rightarrow> sor_env \<Rightarrow> string \<Rightarrow> dict \<Rightarrow> string \<Rightarrow> sor_db \<Rightarrow> (entity_response \<times> sor_db) res" where
  "patch_entity sha isofmt env entity_id patch key db =
    (case check_idempotency sha (sd_idem db) key ''entity_write'' (patch_dict patch key) of
       Inl e \<Rightarrow> Inl e
     | Inr stored \<Rightarrow>
       if (case stored of Some v \<Rightarrow> truthy v | None \<Rightarrow> False) then Inr (StoredResponse (the stored), db)
       else case select_first (\<lambda>e. en_id e = entity_id) (sd_entities db) of
         None \<Rightarrow> Inl (HTTPException 404 ''Entity not found'')
       | Some e \<Rightarrow>
         (let before = (case en_data e of None \<Rightarrow> [] | Some d \<Rightarrow> d);
              merged = apply_json_merge_patch before patch;
              e' = e\<lparr>en_data := Some merged, en_version := en_version e + 1, en_updated_at := se_now env\<rparr> in
          case validate_proposed_write \<lparr>pw_entity_kind = en_kind e, pw_external_ref = en_external_ref e,
                 pw_action = ''patch'', pw_patch = merged, pw_idempotency_key = key\<rparr> of
            Inl er \<Rightarrow> Inl er
          | Inr _ \<Rightarrow> record_write sha isofmt env (patch_dict patch key) key ''patch'' (Some before) merged patch e'
               (db\<lparr>sd_entities := update_rows (\<lambda>r. en_id r = entity_id) (\<lambda>_. e') (sd_entities db)\<rparr>)))"

definition get_entity :: "string \<Rightarrow> sor_db \<Rightarrow> entity res" where
  "get_entity entity_id db = (case select_first (\<lambda>e. en_id e = entity_id) (sd_entities db) of
     None \<Rightarrow> Inl (HTTPException 404 ''Entity not found'') | Some e \<Rightarrow> Inr e)"

definition list_entities :: "string option \<Rightarrow> string option \<Rightarrow> nat \<Rightarrow> nat \<Rightarrow> sor_db \<Rightarrow> entity list" where
  "list_entities kind external_ref limit offset db =
     take limit (drop offset (sort_key (\<lambda>e. - en_created_at e)
       (select_all (\<lambda>e. (kind \<in> {None, Some []} \<or> kind = Some (en_kind e)) \<and>
          (external_ref \<in> {None, Some []} \<or> en_external_ref e = external_ref)) (sd_entities db))))"

definition list_entity_events :: "string \<Rightarrow> nat \<Rightarrow> nat \<Rightarrow> sor_db \<Rightarrow> entity_event list" where
  "list_entity_events entity_id limit offset db =
     take limit (drop offset (sort_key (\<lambda>e. - ev_created_at e)
       (select_all (\<lambda>e. ev_entity_id e = entity_id) (sd_events db))))"

definition get_idempotency_key :: "string \<Rightarrow> sor_db \<Rightarrow> idempotency_row res" where
  "get_idempotency_key key db = (case select_first (\<lambda>r. ik_key r = key) (sd_idem db) of
     None \<Rightarrow> Inl (HTTPException 404 ''Idempotency key not found'') | Some r \<Rightarrow> Inr r)"

section \<open>The merge patch\<close>

lemma merge_step_map:
  "map_of (merge_step d kv) = (map_of d)(fst kv := if snd kv = JNull then None else Some (snd kv))"
  by (auto simp: merge_step_def)

lemma merge_other: "k \<notin> fst ` set p \<Longrightarrow> map_of (apply_json_merge_patch t p) k = map_of t k"
  unfolding apply_json_merge_patch_def
  by (induction p arbitrary: t) (auto simp: merge_step_map)

lemma merge_Cons: "apply_json_merge_patch t (kv # p) = apply_json_merge_patch (merge_step t kv) p"
  by (simp add: apply_json_merge_patch_def)

lemma merge_distinct_keys:
  "distinct (List.map fst t) \<Longrightarrow> distinct (List.map fst (apply_json_merge_patch t p))"
  unfolding apply_json_merge_patch_def
  by (induction p arbitrary: t) (auto simp: merge_step_def distinct_dset distinct_dpop)

lemma merge_lookup:
  "distinct (List.map fst p) \<Longrightarrow>
   map_of (apply_json_merge_patch t p) k =
     (case map_of p k of None \<Rightarrow> map_of t k | Some v \<Rightarrow> if v = JNull then None else Some v)"
proof (induction p arbitrary: t)
  case Nil
  then show ?case by (simp add: apply_json_merge_patch_def)
next
  case (Cons kv p)
  show ?case
  proof (cases "k = fst kv")
    case True
    with Cons.prems have "map_of p k = None" by (simp add: map_of_eq_None_iff)
    with True Cons show ?thesis by (cases kv) (simp add: merge_Cons merge_step_map)
  next
    case False
    with Cons show ?thesis
      by (cases kv) (simp add: merge_Cons merge_step_map split: option.splits)
  qed
qed

text \<open>for dictionaries as Python has them (no key twice) the merge patch reads as its
  specification: a key of the patch is removed when its value is null and set otherwise, every other
  key keeps its value; applying the same patch twice changes nothing more, and the result again has
  no key twice.\<close>

theorem merge_patch_spec:
  assumes "distinct (List.map fst t)" "distinct (List.map fst p)"
  shows "map_of (apply_json_merge_patch t p) = (\<lambda>k.
           case map_of p k of None \<Rightarrow> map_of t k | Some v \<Rightarrow> if v = JNull then None else Some v)
       \<and> map_of (apply_json_merge_patch (apply_json_merge_patch t p) p) = map_of (apply_json_merge_patch t p)
       \<and> distinct (List.map fst (apply_json_merge_patch t p))"
  using assms by (auto simp: merge_lookup merge_distinct_keys fun_eq_iff split: option.splits)

theorem merge_patch_spec_witness:
  "map_of (apply_json_merge_patch [(''a'', JInt 1), (''b'', JInt 2)] [(''b'', JNull), (''c'', JInt 3)]) ''b'' = None"
  using merge_patch_spec[of "[(''a'', JInt 1), (''b'', JInt 2)]" "[(''b'', JNull), (''c'', JInt 3)]"]
  by simp

section \<open>Replay\<close>

definition key_recorded :: "(string \<Rightarrow> string) \<Rightarrow> string \<Rightarrow> json \<Rightarrow> sor_db \<Rightarrow> bool" where
  "key_recorded sha key req db =
     (case select_first (\<lambda>r. ik_key r = key) (sd_idem db) of
        None \<Rightarrow> False
      | Some r \<Rightarrow> ik_request_hash r = request_hash sha req \<and> truthy (ik_response r))"

lemma log_audit_event_target:
  "log_audit_event a t who (Some x) meta rows = Inr rows' \<Longrightarrow> x = [] \<or> py_int x \<noteq> None"
  by (cases "x = []"; cases "py_int x") (auto simp: log_audit_event_def Let_def)

lemma record_idempotency_found:
  "record_idempotency env key h resp keys = Inr keys' \<Longrightarrow>
     \<exists>r. select_first (\<lambda>r. ik_key r = key) keys' = Some r \<and> ik_request_hash r = h \<and> ik_response r = resp"
  by (auto simp: record_idempotency_def split: if_splits option.splits dest!: select_first_Some)

lemma record_write_target:
  "record_write sha isofmt env req key action before merged diff ent db = Inr (r, db') \<Longrightarrow>
     en_id ent = [] \<or> py_int (en_id ent) \<noteq> None"
  by (auto simp: record_write_def Let_def split: sum.splits dest: log_audit_event_target)

lemma record_write_recorded:
  assumes "record_write sha isofmt env req key action before merged diff ent db = Inr (r, db')"
  shows "key_recorded sha key req db'"
proof -
  obtain keys where k: "record_idempotency env key (request_hash sha req) (entity_out isofmt ent) (sd_idem db) = Inr keys"
    and d: "sd_idem db' = keys"
    using assms by (auto simp: record_write_def Let_def split: sum.splits)
  show ?thesis using record_idempotency_found[OF k] d by (auto simp: key_recorded_def entity_out_def)
qed

lemma record_write_events:
  "record_write sha isofmt env req key action before merged diff ent db = Inr (r, db') \<Longrightarrow>
     r = EntityResponse ent \<and> sd_entities db' = sd_entities db \<and>
     (\<exists>v. sd_events db' = sd_events db @ [v] \<and> ev_entity_id v = en_id ent \<and> ev_before v = before
        \<and> ev_after v = merged \<and> ev_action v = action)"
  by (auto simp: record_write_def Let_def insert_row_def split: sum.splits)

lemma check_idempotency_recorded:
  "key_recorded sha key req db \<longleftrightarrow>
     (\<exists>v. check_idempotency sha (sd_idem db) key sc req = Inr (Some v) \<and> truthy v)"
  by (auto simp: key_recorded_def check_idempotency_def split: option.splits)

lemma idempotency_guard:
  assumes "(case check_idempotency sha (sd_idem db) key sc req of Inl e \<Rightarrow> Inl e
     | Inr stored \<Rightarrow> if (case stored of Some v \<Rightarrow> truthy v | None \<Rightarrow> False)
         then Inr (StoredResponse (the stored), db) else body) = Inr (r, db')"
  obtains "db' = db" "key_recorded sha key req db" "\<exists>v. r = StoredResponse v"
  | "body = Inr (r, db')"
proof (cases "check_idempotency sha (sd_idem db) key sc req")
  case (Inl e)
  then show ?thesis using assms by simp
next
  case (Inr stored)
  show ?thesis
  proof (cases "case stored of Some v \<Rightarrow> truthy v | None \<Rightarrow> False")
    case True
    then obtain v where "stored = Some v" "truthy v" by (cases stored) auto
    then show ?thesis using that(1) assms Inr by (auto simp: check_idempotency_recorded[where sc = sc])
  next
    case False
    then show ?thesis using that(2) assms Inr by simp
  qed
qed

lemma upsert_entity_cases:
  assumes "upsert_entity sha isofmt env q db = Inr (r, db')"
  obtains (replayed) "db' = db" "key_recorded sha (uq_idempotency_key q) (upsert_dict q) db" "\<exists>v. r = StoredResponse v"
  | (updated) e e' where "e \<in> set (sd_entities db)" "en_kind e = uq_kind q" "en_external_ref e = uq_external_ref q"
      "e' = e\<lparr>en_data := Some (apply_json_merge_patch (case en_data e of None \<Rightarrow> [] | Some d \<Rightarrow> d) (uq_data q)),
              en_version := en_version e + 1, en_updated_at := se_now env\<rparr>"
      "record_write sha isofmt env (upsert_dict q) (uq_idempotency_key q) ''update''
         (if (case en_data e of None \<Rightarrow> [] | Some d \<Rightarrow> d) = [] then None else en_data e) (the (en_data e')) (uq_data q) e'
         (db\<lparr>sd_entities := update_rows (\<lambda>r. en_id r = en_id e) (\<lambda>_. e') (sd_entities db)\<rparr>) = Inr (r, db')"
  | (created) e' where "e' = \<lparr>en_id = se_entity_id env, en_kind = uq_kind q, en_external_ref = uq_external_ref q,
                     en_status = ''active'', en_data = Some (uq_data q), en_version = 1,
                     en_created_at = se_now env, en_updated_at = se_now env\<rparr>"
      "record_write sha isofmt env (upsert_dict q) (uq_idempotency_key q) ''create'' None (uq_data q) (uq_data q) e'
         (db\<lparr>sd_entities := insert_row e' (sd_entities db)\<rparr>) = Inr (r, db')"
proof -
  note a = assms[unfolded upsert_entity_def]
  show ?thesis
  proof (rule idempotency_guard[OF a], goal_cases)
    case 1
    then show ?case using replayed by blast
  next
    case 2
    show ?case
    proof (cases "find_existing q db")
      case None
      show ?thesis
        by (rule created[OF refl]) (use 2 in \<open>simp add: None Let_def split: sum.splits\<close>)
    next
      case (Some e)
      have e: "e \<in> set (sd_entities db)" "en_kind e = uq_kind q" "en_external_ref e = uq_external_ref q"
        using Some by (auto simp: find_existing_def split: if_splits dest: select_first_Some)
      show ?thesis
        by (rule updated[OF e refl], cases "en_data e")
          (use 2 in \<open>simp_all add: Some Let_def split: sum.splits if_splits\<close>)
    qed
  qed
qed

lemma upsert_entity_recorded:
  "upsert_entity sha isofmt env q db = Inr (r, db') \<Longrightarrow> key_recorded sha (uq_idempotency_key q) (upsert_dict q) db'"
  by (erule upsert_entity_cases) (auto dest: record_write_recorded)

lemma patch_entity_cases:
  assumes "patch_entity sha isofmt env i p k db = Inr (r, db')"
  obtains (replayed) "db' = db" "key_recorded sha k (patch_dict p k) db" "\<exists>v. r = StoredResponse v"
  | (patched) e e' where "e \<in> set (sd_entities db)" "en_id e = i"
      "e' = e\<lparr>en_data := Some (apply_json_merge_patch (case en_data e of None \<Rightarrow> [] | Some d \<Rightarrow> d) p),
              en_version := en_version e + 1, en_updated_at := se_now env\<rparr>"
      "record_write sha isofmt env (patch_dict p k) k ''patch''
         (Some (case en_data e of None \<Rightarrow> [] | Some d \<Rightarrow> d)) (the (en_data e')) p e'
         (db\<lparr>sd_entities := update_rows (\<lambda>r. en_id r = i) (\<lambda>_. e') (sd_entities db)\<rparr>) = Inr (r, db')"
proof -
  note a = assms[unfolded patch_entity_def]
  show ?thesis
  proof (rule idempotency_guard[OF a], goal_cases)
    case 1
    then show ?case using replayed by blast
  next
    case 2
    show ?case
    proof (cases "select_first (\<lambda>e. en_id e = i) (sd_entities db)")
      case None
      then show ?thesis using 2 by simp
    next
      case (Some e)
      have e: "e \<in> set (sd_entities db)" "en_id e = i"
        using Some by (auto dest: select_first_Some)
      show ?thesis
        by (rule patched[OF e refl]) (use 2 in \<open>simp add: Some Let_def split: sum.splits\<close>)
    qed
  qed
qed

lemma patch_entity_recorded:
  "patch_entity sha isofmt env i p k db = Inr (r, db') \<Longrightarrow> key_recorded sha k (patch_dict p k) db'"
  by (erule patch_entity_cases) (auto dest: record_write_recorded)

lemma upsert_entity_replay:
  "key_recorded sha (uq_idempotency_key q) (upsert_dict q) db \<Longrightarrow> \<exists>r. upsert_entity sha isofmt env q db = Inr (r, db)"
  by (auto simp: upsert_entity_def check_idempotency_recorded[where sc = "''entity_write''"])

lemma patch_entity_replay:
  "key_recorded sha k (patch_dict p k) db \<Longrightarrow> \<exists>r. patch_entity sha isofmt env i p k db = Inr (r, db)"
  by (auto simp: patch_entity_def check_idempotency_recorded[where sc = "''entity_write''"])

interpretation entity_upsert: idempotent_op "\<lambda>(env, q). upsert_entity sha isofmt env q"
  "\<lambda>(env, q). key_recorded sha (uq_idempotency_key q) (upsert_dict q)"
  by unfold_locales (auto dest: upsert_entity_recorded upsert_entity_replay)

interpretation entity_patch: idempotent_op "\<lambda>(env, i, p, k). patch_entity sha isofmt env i p k"
  "\<lambda>(env, i, p, k). key_recorded sha k (patch_dict p k)"
  by unfold_locales (auto dest: patch_entity_recorded patch_entity_replay)


definition example_env :: "string \<Rightarrow> int \<Rightarrow> sor_env" where
  "example_env i now = \<lparr>se_entity_id = i, se_event_id = ''v'', se_idem_id = ''k1'', se_now = now,
     se_correlation_id = None, se_user_id = 1\<rparr>"

definition example_upsert :: upsert_request where
  "example_upsert = \<lparr>uq_kind = ''dns_record'', uq_external_ref = Some ''x'', uq_data = [(''name'', JStr ''a''),
     (''record_type'', JStr ''A''), (''value'', JStr ''1''), (''ttl'', JInt 5)], uq_idempotency_key = ''k''\<rparr>"

definition sor_empty :: sor_db where
  "sor_empty = \<lparr>sd_entities = [], sd_events = [], sd_idem = [], sd_audit = []\<rparr>"

definition example_db :: sor_db where
  "example_db = (case upsert_entity id str_int (example_env ''7'' 5) example_upsert sor_empty of
     Inl _ \<Rightarrow> sor_empty | Inr (r, d) \<Rightarrow> d)"

lemma example_upsert_ok:
  "\<exists>r. upsert_entity id str_int (example_env ''7'' 5) example_upsert sor_empty = Inr (r, example_db)"
proof -
  have "\<not> isl (upsert_entity id str_int (example_env ''7'' 5) example_upsert sor_empty)" by code_simp
  then show ?thesis
    by (cases "upsert_entity id str_int (example_env ''7'' 5) example_upsert sor_empty")
      (auto simp: example_db_def)
qed


section \<open>The history of an entity\<close>

text \<open>Every entity has an event for each of its versions, and the last event carries its data.\<close>

definition history_of :: "string \<Rightarrow> sor_db \<Rightarrow> entity_event list" where
  "history_of i db = filter (\<lambda>v. ev_entity_id v = i) (sd_events db)"

definition history_ok :: "sor_db \<Rightarrow> bool" where
  "history_ok db = (distinct (List.map en_id (sd_entities db))
     \<and> (\<forall>v \<in> set (sd_events db). ev_entity_id v \<in> en_id ` set (sd_entities db))
     \<and> (\<forall>e \<in> set (sd_entities db). history_of (en_id e) db \<noteq> []
          \<and> int (length (history_of (en_id e) db)) = en_version e
          \<and> en_data e = Some (ev_after (last (history_of (en_id e) db)))))"

inductive sor_reach :: "(string \<Rightarrow> string) \<Rightarrow> (int \<Rightarrow> string) \<Rightarrow> sor_db \<Rightarrow> bool" for sha isofmt where
  empty: "sor_reach sha isofmt sor_empty"
| upsert: "sor_reach sha isofmt db \<Longrightarrow> se_entity_id env \<notin> en_id ` set (sd_entities db) \<Longrightarrow>
    upsert_entity sha isofmt env q db = Inr (r, db') \<Longrightarrow> sor_reach sha isofmt db'"
| patch: "sor_reach sha isofmt db \<Longrightarrow> patch_entity sha isofmt env i p k db = Inr (r, db') \<Longrightarrow> sor_reach sha isofmt db'"

lemma history_ok_cong:
  "sd_entities db' = sd_entities db \<Longrightarrow> sd_events db' = sd_events db \<Longrightarrow> history_ok db' = history_ok db"
  by (simp add: history_ok_def history_of_def)

lemma history_ok_create:
  assumes "history_ok db" "en_id e' \<notin> en_id ` set (sd_entities db)" "en_version e' = 1"
    "sd_entities db' = insert_row e' (sd_entities db)" "sd_events db' = sd_events db @ [v]"
    "ev_entity_id v = en_id e'" "en_data e' = Some (ev_after v)"
  shows "history_ok db'"
proof -
  have "\<forall>v \<in> set (sd_events db). ev_entity_id v \<noteq> en_id e'"
    using assms(1,2) unfolding history_ok_def by metis
  then have "history_of (en_id e') db = []"
    by (simp add: history_of_def)
  then show ?thesis
    using assms by (auto simp: history_ok_def history_of_def insert_row_def image_iff)
qed

lemma history_ok_update:
  assumes ok: "history_ok db" and e: "e \<in> set (sd_entities db)" "en_id e' = en_id e" "en_version e' = en_version e + 1"
    and db': "sd_entities db' = update_rows (\<lambda>r. en_id r = en_id e) (\<lambda>_. e') (sd_entities db)"
      "sd_events db' = sd_events db @ [v]"
    and v: "ev_entity_id v = en_id e" "en_data e' = Some (ev_after v)"
  shows "history_ok db'"
proof -
  have ids: "List.map en_id (sd_entities db') = List.map en_id (sd_entities db)"
    unfolding db' update_rows_def by (auto simp: e)
  have idset: "en_id ` set (sd_entities db') = en_id ` set (sd_entities db)"
    using ids by (metis list.set_map)
  have mem: "x = e' \<or> (x \<in> set (sd_entities db) \<and> en_id x \<noteq> en_id e)" if "x \<in> set (sd_entities db')" for x
    using that e unfolding db' set_update_rows by (auto split: if_splits)
  have "history_of (en_id x) db' \<noteq> [] \<and> int (length (history_of (en_id x) db')) = en_version x
      \<and> en_data x = Some (ev_after (last (history_of (en_id x) db')))" if "x \<in> set (sd_entities db')" for x
    using mem[OF that] ok e v by (auto simp: history_ok_def history_of_def db')
  then show ?thesis
    using ok ids idset e v by (auto simp: history_ok_def db')
qed

lemma upsert_entity_history:
  assumes "upsert_entity sha isofmt env q db = Inr (r, db')" "history_ok db"
    "se_entity_id env \<notin> en_id ` set (sd_entities db)"
  shows "history_ok db'"
  using assms(1)
proof (cases rule: upsert_entity_cases)
  case replayed
  then show ?thesis using assms by simp
next
  case (updated e e')
  then show ?thesis
    by (auto dest!: record_write_events intro!: history_ok_update[OF assms(2), of e e'])
next
  case (created e')
  then show ?thesis
    using assms(3) by (auto dest!: record_write_events intro!: history_ok_create[OF assms(2), of e'])
qed

lemma patch_entity_history:
  assumes "patch_entity sha isofmt env i p k db = Inr (r, db')" "history_ok db"
  shows "history_ok db'"
  using assms(1)
proof (cases rule: patch_entity_cases)
  case replayed
  then show ?thesis using assms by simp
next
  case (patched e e')
  then show ?thesis
    by (auto dest!: record_write_events intro!: history_ok_update[OF assms(2), of e e'])
qed



text \<open>neither writing handler ever completes a write on an entity whose identifier does not read
  as an integer, which no uuid4 with its hyphens does: the audit row converts the identifier with
  \<open>int\<close> and the \<open>ValueError\<close> ends the request uncommitted.  Only replays still succeed.\<close>

theorem uuid_entities_never_written:
  assumes "se_entity_id env \<noteq> []" "py_int (se_entity_id env) = None"
    and "\<forall>e \<in> set (sd_entities db). en_id e \<noteq> [] \<and> py_int (en_id e) = None"
  shows "(upsert_entity sha isofmt env q db = Inr (r, db') \<longrightarrow> db' = db \<and> (\<exists>v. r = StoredResponse v))
       \<and> (patch_entity sha isofmt env i p k db = Inr (r', db'') \<longrightarrow> db'' = db \<and> (\<exists>v. r' = StoredResponse v))"
proof (intro conjI impI; elim upsert_entity_cases patch_entity_cases)
qed (use assms in \<open>auto dest!: record_write_target\<close>)

theorem uuid_entities_never_written_witness:
  "\<not> (\<exists>r d. upsert_entity id str_int (example_env ''c0ffee00-1234-4abc'' 5) example_upsert sor_empty = Inr (r, d)
         \<and> d \<noteq> sor_empty)"
  using uuid_entities_never_written[of "example_env ''c0ffee00-1234-4abc'' 5" sor_empty id str_int example_upsert]
  by (auto simp: example_env_def sor_empty_def py_int_def strip_def lstrip_def rstrip_def is_space_def is_digit_def)

text \<open>the request a patch is keyed on does not name the entity, so a key that was used with a
  patch answers the same patch on any other entity with the stored response of the first, and that
  entity is left as it was.\<close>

theorem patch_key_ignores_entity:
  assumes "patch_entity sha isofmt env i p k db = Inr (r, db')"
  shows "\<exists>v. patch_entity sha isofmt env' j p k db' = Inr (StoredResponse v, db')"
  using patch_entity_recorded[OF assms]
  by (auto simp: patch_entity_def check_idempotency_recorded[where sc = "''entity_write''"])

theorem patch_key_ignores_entity_witness:
  "\<exists>v d. patch_entity id str_int (example_env ''9'' 9) ''another entity'' [(''ttl'', JInt 60)] ''k2'' d
     = Inr (StoredResponse v, d)"
proof -
  have "\<not> isl (patch_entity id str_int (example_env ''9'' 9) ''7'' [(''ttl'', JInt 60)] ''k2'' example_db)" by code_simp
  then obtain r d where "patch_entity id str_int (example_env ''9'' 9) ''7'' [(''ttl'', JInt 60)] ''k2'' example_db = Inr (r, d)"
    by (cases "patch_entity id str_int (example_env ''9'' 9) ''7'' [(''ttl'', JInt 60)] ''k2'' example_db") auto
  from patch_key_ignores_entity[OF this] show ?thesis by blast
qed

end
