(* ===== verification/VaultPolicy.thy ===== *)
theory VaultPolicy
  imports Prelude
begin

text \<open>
  The default-deny policy engine of the vault (\<open>apps/secrets_agent/policy/engine.py\<close>) and the glob
  matching of \<open>fnmatch\<close> it is built on.  A pattern is read once into tokens, the way
  \<open>fnmatch.translate\<close> builds its regular expression, and matched against the whole name.
\<close>

section \<open>fnmatch\<close>

datatype class_item =
    Single char
  | Range char char

datatype glob_tok =
    Lit char
  | AnyChar
  | Star
  | CharClass bool "class_item list"

fun class_items :: "string \<Rightarrow> class_item list" where
  "class_items (c # d # e # s) = (if d = CHR ''-'' then Range c e # class_items s
     else Single c # class_items (d # e # s))"
| "class_items (c # s) = Single c # class_items s"
| "class_items [] = []"

text \<open>The body of a bracket expression up to its closing bracket; an exclamation mark negates, and a
  closing bracket in first place is a member.\<close>

definition strip_head :: "char \<Rightarrow> string \<Rightarrow> bool \<times> string" where
  "strip_head c s = (if s \<noteq> [] \<and> hd s = c then (True, tl s) else (False, s))"

definition split_class :: "string \<Rightarrow> (bool \<times> string \<times> string) option" where
  "split_class s =
     (case strip_head CHR ''!'' s of (neg, r1) \<Rightarrow>
      case strip_head CHR '']'' r1 of (lead, r2) \<Rightarrow>
      (case dropWhile (\<lambda>c. c \<noteq> CHR '']'') r2 of
         [] \<Rightarrow> None
       | _ # rest \<Rightarrow> Some (neg, (if lead then '']'' else []) @ takeWhile (\<lambda>c. c \<noteq> CHR '']'') r2, rest)))"

lemma length_strip_head: "strip_head c s = (b, r) \<Longrightarrow> length r \<le> length s"
  by (auto simp: strip_head_def split: if_splits)

lemma length_dropWhile_tl: "dropWhile P t = c # r \<Longrightarrow> length r < length t"
  using length_dropWhile_le[of P t] by simp

lemma length_split_class: "split_class s = Some (n, b, r) \<Longrightarrow> length r < length s"
  by (auto simp: split_class_def split: prod.splits list.splits
      dest!: length_strip_head length_dropWhile_tl)

function glob_tokens :: "string \<Rightarrow> glob_tok list" where
  "glob_tokens [] = []"
| "glob_tokens (c # s) =
     (if c = CHR ''*'' then Star # glob_tokens s
      else if c = CHR ''?'' then AnyChar # glob_tokens s
      else if c = CHR ''['' then
        (case split_class s of
           None \<Rightarrow> Lit c # glob_tokens s
         | Some (neg, body, rest) \<Rightarrow> CharClass neg (class_items body) # glob_tokens rest)
      else Lit c # glob_tokens s)"
  by pat_completeness auto
termination
  by (relation "measure length") (auto dest!: length_split_class[OF sym] length_split_class)

fun in_item :: "char \<Rightarrow> class_item \<Rightarrow> bool" where
  "in_item c (Single d) = (c = d)"
| "in_item c (Range a b) = ((of_char a :: nat) \<le> of_char c \<and> (of_char c :: nat) \<le> of_char b)"

fun glob_match :: "glob_tok list \<Rightarrow> string \<Rightarrow> bool" where
  "glob_match [] s = (s = [])"
| "glob_match (Star # p) [] = glob_match p []"
| "glob_match (Star # p) (c # s) = (glob_match p (c # s) \<or> glob_match (Star # p) s)"
| "glob_match (Lit d # p) (c # s) = (c = d \<and> glob_match p s)"
| "glob_match (AnyChar # p) (c # s) = glob_match p s"
| "glob_match (CharClass neg is # p) (c # s) = (list_ex (in_item c) is \<noteq> neg \<and> glob_match p s)"
| "glob_match (t # p) [] = False"

definition fnmatch :: "string \<Rightarrow> string \<Rightarrow> bool" where
  "fnmatch name pat = glob_match (glob_tokens pat) name"

text \<open>What the patterns in use mean: a pattern without special characters matches itself only, a
  star at its end any extension of the prefix.\<close>

definition plain_pattern :: "string \<Rightarrow> bool" where
  "plain_pattern p = (set p \<inter> {CHR ''*'', CHR ''?'', CHR ''[''} = {})"

lemma glob_tokens_plain: "plain_pattern p \<Longrightarrow> glob_tokens (p @ q) = List.map Lit p @ glob_tokens q"
  by (induction p) (auto simp: plain_pattern_def)

lemma glob_match_lits: "glob_match (List.map Lit p @ q) s \<longleftrightarrow> prefix p s \<and> glob_match q (drop (length p) s)"
proof (induction p arbitrary: s)
  case (Cons c p)
  then show ?case by (cases s) auto
qed simp

lemma glob_match_star: "glob_match [Star] s"
  by (induction s) auto

lemma fnmatch_exact: "plain_pattern p \<Longrightarrow> fnmatch s p \<longleftrightarrow> s = p"
  using glob_tokens_plain[of p "[]"] glob_match_lits[of p "[]" s]
  by (auto simp: fnmatch_def prefix_def)

lemma fnmatch_prefix: "plain_pattern p \<Longrightarrow> fnmatch s (p @ ''*'') \<longleftrightarrow> prefix p s"
  by (simp add: fnmatch_def glob_tokens_plain glob_match_lits glob_match_star)

section \<open>The engine\<close>

record vault_policy =
  vp_id :: string
  vp_name :: string
  vp_service_id :: string
  vp_alias_pattern :: string
  vp_tenant_id :: "string option"
  vp_env :: "string option"
  vp_actions :: "string list"
  vp_priority :: int
  vp_is_active :: bool

record access_decision =
  ad_allowed :: bool
  ad_reason :: string
  ad_policy_id :: "string option"

record access_request =
  ar_service_id :: string
  ar_action :: string
  ar_alias :: string
  ar_tenant_id :: string
  ar_env :: string

text \<open>\<open>PolicyEngine.__init__\<close>: a stable sort by descending priority.\<close>

definition policy_engine :: "vault_policy list \<Rightarrow> vault_policy list" where
  "policy_engine policies = sort_key (\<lambda>p. - vp_priority p) policies"

definition policy_matches :: "access_request \<Rightarrow> vault_policy \<Rightarrow> bool" where
  "policy_matches q p = (vp_is_active p
     \<and> fnmatch (ar_service_id q) (vp_service_id p)
     \<and> fnmatch (ar_alias q) (vp_alias_pattern p)
     \<and> (vp_tenant_id p = None \<or> vp_tenant_id p = Some (ar_tenant_id q))
     \<and> (vp_env p = None \<or> vp_env p = Some (ar_env q)))"

fun repr_strs :: "string list \<Rightarrow> string" where
  "repr_strs [] = []"
| "repr_strs [x] = [CHR 0x27] @ x @ [CHR 0x27]"
| "repr_strs (x # xs) = [CHR 0x27] @ x @ [CHR 0x27] @ '', '' @ repr_strs xs"

definition quoted :: "string \<Rightarrow> string" where
  "quoted s = [CHR 0x27] @ s @ [CHR 0x27]"

fun engine_check :: "vault_policy list \<Rightarrow> access_request \<Rightarrow> access_decision" where
  "engine_check [] q = \<lparr>ad_allowed = False,
     ad_reason = ''No policy grants service '' @ quoted (ar_service_id q) @ '' action '' @ quoted (ar_action q)
        @ '' on alias '' @ quoted (ar_alias q) @ '' (tenant='' @ ar_tenant_id q @ '', env='' @ ar_env q @ ''). Default deny.'',
     ad_policy_id = None\<rparr>"
| "engine_check (p # ps) q =
     (if \<not> policy_matches q p then engine_check ps q
      else if ar_action q \<in> set (vp_actions p) then \<lparr>ad_allowed = True,
        ad_reason = ''Allowed by policy '' @ quoted (vp_name p) @ '' (id='' @ vp_id p @ '')'', ad_policy_id = Some (vp_id p)\<rparr>
      else \<lparr>ad_allowed = False,
        ad_reason = ''Policy '' @ quoted (vp_name p) @ '' matched but action '' @ quoted (ar_action q)
          @ '' not in allowed list ['' @ repr_strs (vp_actions p) @ '']'', ad_policy_id = Some (vp_id p)\<rparr>)"

definition check_access :: "vault_policy list \<Rightarrow> access_request \<Rightarrow> access_decision" where
  "check_access policies q = engine_check (policy_engine policies) q"

section \<open>What the engine decides\<close>

lemma engine_check_None:
  "(\<forall>p \<in> set ps. \<not> policy_matches q p) \<longleftrightarrow> ad_policy_id (engine_check ps q) = None"
  by (induction ps q rule: engine_check.induct) auto

lemma engine_check_no_match:
  "\<forall>p \<in> set ps. \<not> policy_matches q p \<Longrightarrow> \<not> ad_allowed (engine_check ps q)"
  by (induction ps q rule: engine_check.induct) auto

lemma engine_check_split:
  assumes "ad_policy_id (engine_check ps q) \<noteq> None"
  obtains as p bs where "ps = as @ p # bs" "\<forall>a \<in> set as. \<not> policy_matches q a" "policy_matches q p"
    "ad_allowed (engine_check ps q) \<longleftrightarrow> ar_action q \<in> set (vp_actions p)" "ad_policy_id (engine_check ps q) = Some (vp_id p)"
  using assms
proof (induction ps arbitrary: thesis)
  case (Cons x ps)
  show ?case
  proof (cases "policy_matches q x")
    case True
    then show ?thesis using Cons.prems(1)[of "[]" x ps] by auto
  next
    case False
    then obtain as p bs where "ps = as @ p # bs" "\<forall>a \<in> set as. \<not> policy_matches q a" "policy_matches q p"
      "ad_allowed (engine_check ps q) \<longleftrightarrow> ar_action q \<in> set (vp_actions p)" "ad_policy_id (engine_check ps q) = Some (vp_id p)"
      using Cons.IH Cons.prems(2) by auto
    then show ?thesis using Cons.prems(1)[of "x # as" p bs] False by auto
  qed
qed simp

lemma set_policy_engine [simp]: "set (policy_engine ps) = set ps"
  by (simp add: policy_engine_def)

text \<open>The highest-priority policies that apply to a request; ties are possible.\<close>

definition top_policies :: "vault_policy list \<Rightarrow> access_request \<Rightarrow> vault_policy set" where
  "top_policies ps q = {p \<in> set ps. policy_matches q p \<and> (\<forall>r \<in> set ps. policy_matches q r \<longrightarrow> vp_priority r \<le> vp_priority p)}"

lemma check_access_top:
  assumes "\<exists>p \<in> set ps. policy_matches q p"
  obtains p where "p \<in> top_policies ps q" "ad_allowed (check_access ps q) \<longleftrightarrow> ar_action q \<in> set (vp_actions p)"
    "ad_policy_id (check_access ps q) = Some (vp_id p)"
proof -
  have "ad_policy_id (engine_check (policy_engine ps) q) \<noteq> None"
    using assms engine_check_None[of "policy_engine ps" q] by auto
  then obtain as p bs where s: "policy_engine ps = as @ p # bs" "\<forall>a \<in> set as. \<not> policy_matches q a" "policy_matches q p"
    "ad_allowed (engine_check (policy_engine ps) q) \<longleftrightarrow> ar_action q \<in> set (vp_actions p)"
    "ad_policy_id (engine_check (policy_engine ps) q) = Some (vp_id p)"
    by (rule engine_check_split)
  have "sorted (List.map (\<lambda>p. - vp_priority p) (as @ p # bs))"
    by (metis policy_engine_def s(1) sorted_sort_key)
  then have le: "\<forall>b \<in> set bs. vp_priority b \<le> vp_priority p"
    by (auto simp: sorted_append)
  have set_eq: "set ps = set as \<union> {p} \<union> set bs"
    using set_policy_engine[of ps] s(1) by auto
  have "p \<in> top_policies ps q"
    using le s(2,3) set_eq by (auto simp: top_policies_def)
  then show ?thesis using that[of p] s(4,5) by (simp add: check_access_def)
qed

text \<open>C3: the engine denies by default and by priority: without an applicable policy the answer is
  a denial that names no policy; otherwise the answer is that of a policy of the highest priority
  among the applicable ones, so that access needs one of these to grant the action, and is certain
  when all of them do.\<close>

theorem check_access_spec:
  "(top_policies ps q = {} \<longrightarrow> \<not> ad_allowed (check_access ps q) \<and> ad_policy_id (check_access ps q) = None)
   \<and> (ad_allowed (check_access ps q) \<longrightarrow> (\<exists>p \<in> top_policies ps q. ar_action q \<in> set (vp_actions p)
        \<and> ad_policy_id (check_access ps q) = Some (vp_id p)))
   \<and> (top_policies ps q \<noteq> {} \<longrightarrow> (\<forall>p \<in> top_policies ps q. ar_action q \<in> set (vp_actions p)) \<longrightarrow> ad_allowed (check_access ps q))"
proof (cases "\<exists>p \<in> set ps. policy_matches q p")
  case True
  then obtain p where "p \<in> top_policies ps q" "ad_allowed (check_access ps q) \<longleftrightarrow> ar_action q \<in> set (vp_actions p)"
    "ad_policy_id (check_access ps q) = Some (vp_id p)" by (rule check_access_top)
  then show ?thesis by blast
next
  case False
  then have "top_policies ps q = {}" by (auto simp: top_policies_def)
  moreover have "\<not> ad_allowed (check_access ps q)" "ad_policy_id (check_access ps q) = None"
    using False engine_check_None[of "policy_engine ps" q] engine_check_no_match[of "policy_engine ps" q]
    by (auto simp: check_access_def)
  ultimately show ?thesis by blast
qed

definition example_policies :: "vault_policy list" where
  "example_policies =
    [\<lparr>vp_id = ''p1'', vp_name = ''all'', vp_service_id = ''*'', vp_alias_pattern = ''pbx.*'', vp_tenant_id = None,
      vp_env = None, vp_actions = [''read''], vp_priority = 10, vp_is_active = True\<rparr>,
     \<lparr>vp_id = ''p2'', vp_name = ''no root'', vp_service_id = ''pbx-*'', vp_alias_pattern = ''pbx.root.*'', vp_tenant_id = Some ''t'',
      vp_env = Some ''prod'', vp_actions = [''list_metadata''], vp_priority = 90, vp_is_active = True\<rparr>]"

theorem check_access_spec_witness:
  "let q = \<lparr>ar_service_id = ''pbx-agent'', ar_action = ''read'', ar_alias = ''pbx.root.pw'', ar_tenant_id = ''t'', ar_env = ''prod''\<rparr>
   in \<not> ad_allowed (check_access example_policies q)"
proof -
  let ?q = "\<lparr>ar_service_id = ''pbx-agent'', ar_action = ''read'', ar_alias = ''pbx.root.pw'', ar_tenant_id = ''t'', ar_env = ''prod''\<rparr>"
  have "policy_matches ?q (example_policies ! 1)" by code_simp
  then have "top_policies example_policies ?q \<subseteq> {example_policies ! 1}"
    by (auto simp: top_policies_def example_policies_def)
  moreover have "''read'' \<notin> set (vp_actions (example_policies ! 1))" by (simp add: example_policies_def)
  ultimately show ?thesis using check_access_spec[of example_policies ?q] by auto
qed

end
