(* ===== verification/VaultCrypto.thy ===== *)
theory VaultCrypto
  imports Prelude "HOL-Library.Word"
begin

text \<open>
  The three places that encrypt: envelope encryption of vault secrets
  (\<open>apps/secrets_agent/crypto/envelope.py\<close>), the legacy helper \<open>packages/shared/secrets.py\<close> and the
  password-protected backup container \<open>packages/shared/backup_crypto.py\<close>.  AES-GCM and scrypt come
  from the package cryptography: they are arguments here, with \<open>aead_ok\<close> for what the code relies on.
  The bytes \<open>os.urandom\<close> delivers are arguments too.  Strings hold code points below 256.
\<close>

type_synonym byte = "8 word"
type_synonym bytes = "8 word list"
type_synonym aead_enc = "bytes \<Rightarrow> bytes \<Rightarrow> bytes \<Rightarrow> bytes \<Rightarrow> bytes"
type_synonym aead_dec = "bytes \<Rightarrow> bytes \<Rightarrow> bytes \<Rightarrow> bytes \<Rightarrow> bytes option"

text \<open>\<open>AESGCM(key).encrypt(nonce, data, aad)\<close> appends a tag of 16 bytes and \<open>decrypt\<close> inverts it.\<close>

definition aead_ok :: "aead_enc \<Rightarrow> aead_dec \<Rightarrow> bool" where
  "aead_ok enc dec = (\<forall>k n p a. dec k n (enc k n p a) a = Some p \<and> length (enc k n p a) = length p + 16)"

section \<open>UTF-8 and keys\<close>

definition byte_of :: "nat \<Rightarrow> byte" where
  "byte_of n = word_of_nat n"

definition utf8_char :: "char \<Rightarrow> bytes" where
  "utf8_char c = (let n = of_char c in
     if n < 128 then [byte_of n] else [byte_of (192 + n div 64), byte_of (128 + n mod 64)])"

definition utf8_encode :: "string \<Rightarrow> bytes" where
  "utf8_encode s = concat (List.map utf8_char s)"

fun utf8_decode :: "bytes \<Rightarrow> string option" where
  "utf8_decode [] = Some []"
| "utf8_decode [b] = (if unat b < 128 then Some [char_of (unat b)] else None)"
| "utf8_decode (b # c # bs) =
     (if unat b < 128 then map_option ((#) (char_of (unat b))) (utf8_decode (c # bs))
      else if (unat b = 194 \<or> unat b = 195) \<and> 128 \<le> unat c \<and> unat c < 192
      then map_option ((#) (char_of ((unat b - 192) * 64 + (unat c - 128)))) (utf8_decode bs)
      else None)"

definition hex_nibble :: "char \<Rightarrow> nat option" where
  "hex_nibble c = (let n = of_char c in
     if 48 \<le> n \<and> n \<le> 57 then Some (n - 48)
     else if 97 \<le> n \<and> n \<le> 102 then Some (n - 87)
     else if 65 \<le> n \<and> n \<le> 70 then Some (n - 55) else None)"

text \<open>\<open>bytes.fromhex\<close>: pairs of hexadecimal digits, white space allowed between pairs.\<close>

fun fromhex :: "string \<Rightarrow> bytes option" where
  "fromhex [] = Some []"
| "fromhex [c] = (if is_space c then Some [] else None)"
| "fromhex (c # d # s) = (if is_space c then fromhex (d # s)
     else case (hex_nibble c, hex_nibble d) of
       (Some m, Some n) \<Rightarrow> map_option ((#) (byte_of (16 * m + n))) (fromhex s)
     | _ \<Rightarrow> None)"

definition b64_val :: "char \<Rightarrow> nat option" where
  "b64_val c = (let n = of_char c in
     if 65 \<le> n \<and> n \<le> 90 then Some (n - 65)
     else if 97 \<le> n \<and> n \<le> 122 then Some (n - 71)
     else if 48 \<le> n \<and> n \<le> 57 then Some (n + 4)
     else if n = 43 then Some 62 else if n = 47 then Some 63 else None)"

text \<open>\<open>base64.b64decode\<close> without validation: the arguments are the position in the group of four, the
  bits left over and the number of padding characters; characters outside the alphabet are skipped,
  complete padding ends the input, an open group at the end is an error.\<close>

fun b64_scan :: "nat \<Rightarrow> nat \<Rightarrow> nat \<Rightarrow> string \<Rightarrow> bytes option" where
  "b64_scan q left pads [] = (if q = 0 then Some [] else None)"
| "b64_scan q left pads (c # s) =
     (if c = CHR ''='' then
        (if q \<ge> 2 then (if q + (pads + 1) \<ge> 4 then Some [] else b64_scan q left (pads + 1) s)
         else b64_scan q left pads s)
      else case b64_val c of
        None \<Rightarrow> b64_scan q left pads s
      | Some v \<Rightarrow>
          (if q = 0 then b64_scan 1 v 0 s
           else if q = 1 then map_option ((#) (byte_of (left * 4 + v div 16))) (b64_scan 2 (v mod 16) 0 s)
           else if q = 2 then map_option ((#) (byte_of (left * 16 + v div 4))) (b64_scan 3 (v mod 4) 0 s)
           else map_option ((#) (byte_of (left * 64 + v))) (b64_scan 0 0 0 s)))"

definition b64decode :: "string \<Rightarrow> bytes option" where
  "b64decode s = b64_scan 0 0 0 s"

definition runtime_error :: "string \<Rightarrow> exn" where
  "runtime_error m = PyError ''RuntimeError'' m"

definition value_error :: "string \<Rightarrow> exn" where
  "value_error m = PyError ''ValueError'' m"

text \<open>\<open>_get_kek\<close> on the environment variables \<open>VAULT_MASTER_KEY\<close> and \<open>NEXUS_MASTER_KEY\<close>.\<close>

record key_env =
  ke_vault_master_key :: "string option"
  ke_nexus_master_key :: "string option"

definition env_or :: "string option \<Rightarrow> string option \<Rightarrow> string option" where
  "env_or a b = (case a of Some (c # s) \<Rightarrow> Some (c # s) | _ \<Rightarrow> (case b of Some (c # s) \<Rightarrow> Some (c # s) | _ \<Rightarrow> None))"

definition get_kek :: "key_env \<Rightarrow> bytes res" where
  "get_kek e =
     (case env_or (ke_vault_master_key e) (ke_nexus_master_key e) of
        None \<Rightarrow> Inl (runtime_error ''VAULT_MASTER_KEY (or NEXUS_MASTER_KEY) environment variable is required.'')
      | Some raw \<Rightarrow>
          (case (case (if length raw = 64 then fromhex raw else None) of Some k \<Rightarrow> Some k | None \<Rightarrow> b64decode raw) of
             None \<Rightarrow> Inl (runtime_error ''VAULT_MASTER_KEY is not valid hex or base64.'')
           | Some key \<Rightarrow> if length key \<noteq> 32
               then Inl (runtime_error ''VAULT_MASTER_KEY must decode to exactly 32 bytes.'') else Inr key))"

section \<open>Envelope encryption\<close>

record encrypted_secret =
  es_encrypted_dek :: bytes
  es_ciphertext :: bytes
  es_key_version :: int

record entropy =
  rnd_dek :: bytes
  rnd_nonce1 :: bytes
  rnd_nonce2 :: bytes

definition entropy_ok :: "entropy \<Rightarrow> bool" where
  "entropy_ok r = (length (rnd_dek r) = 32 \<and> length (rnd_nonce1 r) = 12 \<and> length (rnd_nonce2 r) = 12)"

definition aes_gcm_encrypt :: "aead_enc \<Rightarrow> bytes \<Rightarrow> bytes \<Rightarrow> bytes \<Rightarrow> bytes" where
  "aes_gcm_encrypt enc nonce key plaintext = nonce @ enc key nonce plaintext []"

definition aes_gcm_decrypt :: "aead_dec \<Rightarrow> bytes \<Rightarrow> bytes \<Rightarrow> bytes option" where
  "aes_gcm_decrypt dec key blob =
     (if length blob < 12 + 16 then None else dec key (take 12 blob) (drop 12 blob) [])"

definition encrypt_secret ::
  "aead_enc \<Rightarrow> key_env \<Rightarrow> entropy \<Rightarrow> string \<Rightarrow> int \<Rightarrow> encrypted_secret res" where
  "encrypt_secret enc e r plaintext key_version =
     (case get_kek e of
        Inl er \<Rightarrow> Inl er
      | Inr kek \<Rightarrow> Inr \<lparr>es_encrypted_dek = aes_gcm_encrypt enc (rnd_nonce2 r) kek (rnd_dek r),
          es_ciphertext = aes_gcm_encrypt enc (rnd_nonce1 r) (rnd_dek r) (utf8_encode plaintext),
          es_key_version = key_version\<rparr>)"

definition decrypt_secret :: "aead_dec \<Rightarrow> key_env \<Rightarrow> encrypted_secret \<Rightarrow> string res" where
  "decrypt_secret dec e x =
     (case get_kek e of
        Inl er \<Rightarrow> Inl er
      | Inr kek \<Rightarrow>
          (case aes_gcm_decrypt dec kek (es_encrypted_dek x) of
             None \<Rightarrow> Inl (value_error ''Failed to decrypt DEK'')
           | Some dek \<Rightarrow>
               (case aes_gcm_decrypt dec dek (es_ciphertext x) of
                  None \<Rightarrow> Inl (value_error ''Failed to decrypt secret value'')
                | Some b \<Rightarrow> (case utf8_decode b of None \<Rightarrow> Inl (PyError ''UnicodeDecodeError'' [])
                              | Some s \<Rightarrow> Inr s))))"

definition rotate_secret_dek ::
  "aead_enc \<Rightarrow> aead_dec \<Rightarrow> key_env \<Rightarrow> entropy \<Rightarrow> encrypted_secret \<Rightarrow> string \<Rightarrow> encrypted_secret res" where
  "rotate_secret_dek enc dec e r old plaintext =
     (case decrypt_secret dec e old of
        Inl er \<Rightarrow> Inl er
      | Inr _ \<Rightarrow> encrypt_secret enc e r plaintext (es_key_version old))"

lemma utf8_char_small: "of_char c < (256::nat)"
  by (cases c) (simp add: of_char_def horner_sum_simps split: if_splits)

lemma unat_byte_of: "n < 256 \<Longrightarrow> unat (byte_of n) = n"
  by (simp add: byte_of_def unat_of_nat)

lemma utf8_decode_char:
  "utf8_decode (utf8_char c @ bs) = map_option ((#) c) (utf8_decode bs)"
proof -
  define n where "n = (of_char c :: nat)"
  have n: "n < 256" using utf8_char_small[of c] by (simp add: n_def)
  have c: "char_of n = c" by (simp add: n_def)
  show ?thesis
  proof (cases "n < 128")
    case True
    then show ?thesis using c by (cases bs) (auto simp: utf8_char_def n_def[symmetric] unat_byte_of Let_def)
  next
    case False
    have "n div 64 < 4" "2 \<le> n div 64"
      using n False by (auto simp: less_mult_imp_div_less less_eq_div_iff_mult_less_eq)
    then have d: "n div 64 = 2 \<or> n div 64 = 3" by linarith
    have m: "192 + n div 64 < 256" "128 + n mod 64 < 256" using d by auto
    have v: "(192 + n div 64 - 192) * 64 + (128 + n mod 64 - 128) = n" by simp
    have w: "n mod 64 < 64" by simp
    show ?thesis
      using False d m c w v by (auto simp: utf8_char_def n_def[symmetric] unat_byte_of Let_def)
  qed
qed

lemma utf8_roundtrip [simp]: "utf8_decode (utf8_encode s) = Some s"
  by (induction s) (simp_all add: utf8_encode_def utf8_decode_char)

lemma aes_gcm_roundtrip:
  "aead_ok enc dec \<Longrightarrow> length nonce = 12 \<Longrightarrow> aes_gcm_decrypt dec key (aes_gcm_encrypt enc nonce key p) = Some p"
  by (simp add: aead_ok_def aes_gcm_encrypt_def aes_gcm_decrypt_def)

text \<open>C27: whatever the vault encrypts it decrypts to the same string under the same master key, and
  rotation of an intact secret leaves the key version and makes the new value readable.\<close>

theorem envelope_roundtrip:
  assumes "aead_ok enc dec" "entropy_ok r" "encrypt_secret enc e r plaintext v = Inr x" "entropy_ok r'"
  shows "decrypt_secret dec e x = Inr plaintext \<and> es_key_version x = v \<and>
    (\<exists>y. rotate_secret_dek enc dec e r' x new = Inr y \<and> decrypt_secret dec e y = Inr new \<and> es_key_version y = v)"
  using assms
  by (auto simp: encrypt_secret_def decrypt_secret_def rotate_secret_dek_def entropy_ok_def aes_gcm_roundtrip
      split: sum.splits)

text \<open>An instance of the cipher interface: the tag is a function of the key alone.\<close>

definition plain_enc :: aead_enc where
  "plain_enc k n p a = p @ take 16 (k @ replicate 16 0)"

definition plain_dec :: aead_dec where
  "plain_dec k n c a = (if 16 \<le> length c \<and> drop (length c - 16) c = take 16 (k @ replicate 16 0)
     then Some (take (length c - 16) c) else None)"

lemma plain_tag_length: "length (take 16 (k @ replicate 16 (0 :: byte))) = 16"
  by (simp add: min_def)

lemma plain_aead_ok: "aead_ok plain_enc plain_dec"
  unfolding aead_ok_def plain_enc_def plain_dec_def
  by (simp add: plain_tag_length del: take_append length_take, simp)

definition example_key_env :: key_env where
  "example_key_env = \<lparr>ke_vault_master_key = Some (replicate 64 CHR ''0''), ke_nexus_master_key = None\<rparr>"

definition example_entropy :: entropy where
  "example_entropy = \<lparr>rnd_dek = replicate 32 7, rnd_nonce1 = replicate 12 1, rnd_nonce2 = replicate 12 2\<rparr>"

lemma example_entropy_ok: "entropy_ok example_entropy"
  by (simp add: entropy_ok_def example_entropy_def)

lemma example_encrypt: "\<exists>x. encrypt_secret plain_enc example_key_env example_entropy ''pw'' 1 = Inr x"
proof -
  have "\<not> isl (get_kek example_key_env)" by code_simp
  then show ?thesis by (cases "get_kek example_key_env") (auto simp: encrypt_secret_def)
qed

theorem envelope_roundtrip_witness:
  "\<exists>x. encrypt_secret plain_enc example_key_env example_entropy ''pw'' 1 = Inr x
     \<and> decrypt_secret plain_dec example_key_env x = Inr ''pw''"
  using example_encrypt envelope_roundtrip[OF plain_aead_ok example_entropy_ok _ example_entropy_ok] by blast

section \<open>packages/shared/secrets.py\<close>

definition get_master_key :: "string option \<Rightarrow> bytes res" where
  "get_master_key v = (case env_or v None of
     None \<Rightarrow> Inl (runtime_error ''NEXUS_MASTER_KEY environment variable is missing. It must be a 32-byte base64 encoded string.'')
   | Some raw \<Rightarrow> (case b64decode raw of
       None \<Rightarrow> Inl (runtime_error ''NEXUS_MASTER_KEY is not valid base64.'')
     | Some key \<Rightarrow> if length key \<noteq> 32
         then Inl (runtime_error ''NEXUS_MASTER_KEY must be exactly 32 bytes when decoded.'') else Inr key))"

definition shared_encrypt_secret :: "aead_enc \<Rightarrow> string option \<Rightarrow> bytes \<Rightarrow> string \<Rightarrow> bytes res" where
  "shared_encrypt_secret enc v nonce plaintext = (case get_master_key v of
     Inl e \<Rightarrow> Inl e | Inr key \<Rightarrow> Inr (nonce @ enc key nonce (utf8_encode plaintext) []))"

definition shared_decrypt_secret :: "aead_dec \<Rightarrow> string option \<Rightarrow> bytes \<Rightarrow> string res" where
  "shared_decrypt_secret dec v data =
     (if length data < 12 then Inl (value_error ''Invalid encrypted data length'')
      else case get_master_key v of
        Inl e \<Rightarrow> Inl e
      | Inr key \<Rightarrow> (case dec key (take 12 data) (drop 12 data) [] of
          None \<Rightarrow> Inl (value_error ''Decryption failed'')
        | Some b \<Rightarrow> (case utf8_decode b of None \<Rightarrow> Inl (value_error ''Decryption failed'') | Some s \<Rightarrow> Inr s)))"

lemma shared_secret_roundtrip:
  "aead_ok enc dec \<Longrightarrow> length nonce = 12 \<Longrightarrow> shared_encrypt_secret enc v nonce s = Inr x \<Longrightarrow>
     shared_decrypt_secret dec v x = Inr s"
  by (auto simp: shared_encrypt_secret_def shared_decrypt_secret_def aead_ok_def split: sum.splits)

section \<open>The backup container\<close>

definition ascii_bytes :: "string \<Rightarrow> bytes" where
  "ascii_bytes s = List.map (\<lambda>c. byte_of (of_char c)) s"

definition MAGIC :: bytes where
  "MAGIC = ascii_bytes ''NEXUS_ENC_V1''"

text \<open>\<open>struct.pack(">I", n)\<close> fails from \<open>2^32\<close> on.\<close>

definition pack_u32 :: "nat \<Rightarrow> bytes option" where
  "pack_u32 n = (if n < 2 ^ 32 then
     Some [byte_of (n div 2 ^ 24), byte_of (n div 2 ^ 16 mod 256), byte_of (n div 2 ^ 8 mod 256), byte_of (n mod 256)]
     else None)"

definition unpack_u32 :: "bytes \<Rightarrow> nat" where
  "unpack_u32 b = foldl (\<lambda>a x. a * 256 + unat x) 0 b"

definition encrypt_backup ::
  "aead_enc \<Rightarrow> (string \<Rightarrow> bytes \<Rightarrow> bytes) \<Rightarrow> bytes \<Rightarrow> bytes \<Rightarrow> bytes \<Rightarrow> string \<Rightarrow> string \<Rightarrow> bytes res" where
  "encrypt_backup enc scrypt salt nonce sql_gz password master_key =
     (if length password < 8 then Inl (value_error ''Password must be at least 8 characters.'')
      else let mk = utf8_encode master_key in
        case pack_u32 (length mk) of
          None \<Rightarrow> Inl (PyError ''struct.error'' [])
        | Some len \<Rightarrow> Inr (MAGIC @ salt @ nonce @ enc (scrypt password salt) nonce (len @ mk @ sql_gz) MAGIC))"

definition decrypt_backup ::
  "aead_dec \<Rightarrow> (string \<Rightarrow> bytes \<Rightarrow> bytes) \<Rightarrow> bytes \<Rightarrow> string \<Rightarrow> (string \<times> bytes) res" where
  "decrypt_backup dec scrypt data password =
     (if take 12 data \<noteq> MAGIC then Inl (value_error ''Not a valid Nexus encrypted backup (missing NEXUS_ENC_V1 header).'')
      else if length data < 12 + 16 + 12 + 16 then Inl (value_error ''Encrypted backup file is too small to be valid.'')
      else let salt = take 16 (drop 12 data); nonce = take 12 (drop 28 data); ciphertext = drop 40 data in
        case dec (scrypt password salt) nonce ciphertext MAGIC of
          None \<Rightarrow> Inl (value_error ''Decryption failed'')
        | Some payload \<Rightarrow>
            if length payload < 4 then Inl (value_error ''Decrypted payload is too small.'')
            else let mk_len = unpack_u32 (take 4 payload) in
              if length payload < 4 + mk_len
              then Inl (value_error ''Decrypted payload is corrupted (master key length mismatch).'')
              else case utf8_decode (take mk_len (drop 4 payload)) of
                None \<Rightarrow> Inl (PyError ''UnicodeDecodeError'' [])
              | Some mk \<Rightarrow> Inr (mk, drop (4 + mk_len) payload))"

definition is_encrypted_backup :: "bytes \<Rightarrow> bool" where
  "is_encrypted_backup data = (take 12 data = MAGIC)"

lemma length_MAGIC [simp]: "length MAGIC = 12"
  by (simp add: MAGIC_def ascii_bytes_def)

lemma pack_u32_length: "pack_u32 n = Some b \<Longrightarrow> length b = 4"
  by (auto simp: pack_u32_def split: if_splits)

lemma unpack_pack_u32: "pack_u32 n = Some b \<Longrightarrow> unpack_u32 b = n"
proof -
  assume a: "pack_u32 n = Some b"
  then have n: "n < 2 ^ 32" by (auto simp: pack_u32_def split: if_splits)
  have h: "n div 2 ^ 24 < 256" using n by (simp add: less_mult_imp_div_less)
  have b: "b = [byte_of (n div 2 ^ 24), byte_of (n div 2 ^ 16 mod 256), byte_of (n div 2 ^ 8 mod 256), byte_of (n mod 256)]"
    using a n by (simp add: pack_u32_def)
  have e: "((n div 2 ^ 24 * 256 + n div 2 ^ 16 mod 256) * 256 + n div 2 ^ 8 mod 256) * 256 + n mod 256 = n"
  proof -
    have "n div 2 ^ 24 = n div 2 ^ 16 div 256" "n div 2 ^ 16 = n div 2 ^ 8 div 256" "n div 2 ^ 8 = n div 256"
      by (simp_all flip: div_mult2_eq)
    then show ?thesis by (metis div_mult_mod_eq)
  qed
  show ?thesis unfolding b unpack_u32_def using h e by (simp add: unat_byte_of del: One_nat_def)
qed

text \<open>a backup opens with the password it was sealed with and yields the master key and the data
  that went in; every sealed file carries the magic header, and no other file is accepted.\<close>

theorem backup_roundtrip:
  assumes "aead_ok enc dec" "length salt = 16" "length nonce = 12"
    and "encrypt_backup enc scrypt salt nonce sql pw mk = Inr sealed"
  shows "decrypt_backup dec scrypt sealed pw = Inr (mk, sql) \<and> is_encrypted_backup sealed
    \<and> (\<forall>other pw'. \<not> is_encrypted_backup other \<longrightarrow> isl (decrypt_backup dec scrypt other pw'))"
proof -
  obtain len where len: "pack_u32 (length (utf8_encode mk)) = Some len"
    and sealed: "sealed = MAGIC @ salt @ nonce @ enc (scrypt pw salt) nonce (len @ utf8_encode mk @ sql) MAGIC"
    using assms(4) by (auto simp: encrypt_backup_def Let_def split: if_splits option.splits)
  have l: "length len = 4" "unpack_u32 len = length (utf8_encode mk)"
    using pack_u32_length[OF len] unpack_pack_u32[OF len] by auto
  have "decrypt_backup dec scrypt sealed pw = Inr (mk, sql)"
  proof -
    let ?payload = "len @ utf8_encode mk @ sql"
    let ?ct = "enc (scrypt pw salt) nonce ?payload MAGIC"
    have d: "dec (scrypt pw salt) nonce ?ct MAGIC = Some ?payload" "length ?ct = length ?payload + 16"
      using assms(1) by (auto simp: aead_ok_def)
    have parts: "take 12 sealed = MAGIC" "take 16 (drop 12 sealed) = salt" "take 12 (drop 28 sealed) = nonce"
      "drop 40 sealed = ?ct" "length sealed = 40 + length ?ct"
      using assms(2,3) by (simp_all add: sealed)
    have pl: "take 4 ?payload = len" "take (length (utf8_encode mk)) (drop 4 ?payload) = utf8_encode mk"
      "drop (4 + length (utf8_encode mk)) ?payload = sql"
      using l(1) by simp_all
    have c: "\<not> length sealed < 12 + 16 + 12 + 16" "\<not> length ?payload < 4"
      "\<not> length ?payload < 4 + length (utf8_encode mk)"
      using l(1) d(2) parts(5) by simp_all
    show ?thesis
      unfolding decrypt_backup_def Let_def parts(1-4)
      by (simp only: c if_False d(1) option.case pl l(2) utf8_roundtrip not_True_eq_False refl)
  qed
  moreover have "is_encrypted_backup sealed" by (simp add: is_encrypted_backup_def sealed)
  moreover have "isl (decrypt_backup dec scrypt other pw')" if "\<not> is_encrypted_backup other" for other pw'
    using that by (simp add: is_encrypted_backup_def decrypt_backup_def)
  ultimately show ?thesis by blast
qed

theorem backup_roundtrip_witness:
  "\<exists>sealed. encrypt_backup plain_enc (\<lambda>p s. s) (replicate 16 3) (replicate 12 4) [1, 2] ''password'' ''mk'' = Inr sealed
     \<and> decrypt_backup plain_dec (\<lambda>p s. s) sealed ''password'' = Inr (''mk'', [1, 2])"
proof -
  have "\<not> isl (encrypt_backup plain_enc (\<lambda>p s. s) (replicate 16 3) (replicate 12 4) [1, 2] ''password'' ''mk'')"
    by (simp add: encrypt_backup_def pack_u32_def utf8_encode_def utf8_char_def Let_def)
  then obtain f where "encrypt_backup plain_enc (\<lambda>p s. s) (replicate 16 3) (replicate 12 4) [1, 2] ''password'' ''mk'' = Inr f"
    by (cases "encrypt_backup plain_enc (\<lambda>p s. s) (replicate 16 3) (replicate 12 4) [1, 2] ''password'' ''mk''") auto
  with backup_roundtrip[OF plain_aead_ok _ _ this] show ?thesis by simp
qed

end
