(* ===== verification/VaultApi.thy ===== *)
theory VaultApi
  imports VaultPolicy VaultCrypto
begin

text \<open>
  The vault service: tables (\<open>apps/secrets_agent/models.py\<close>), store (\<open>store/postgres.py\<close>), audit sink
  (\<open>audit/sink.py\<close>), session scope and service identity (\<open>dependencies.py\<close>), and the handlers of
  \<open>api/secrets.py\<close> and \<open>api/policies.py\<close>.  A handler maps the database of its session to a result and
  the changed database; \<open>get_vault_db\<close> commits that database when the handler returned and rolls back
  to the old one when it raised.  Randomness, clock, fresh identifiers, master key and cipher are in
  \<open>vault_env\<close>.  Messages to the notification service are kept in \<open>vd_notified\<close>.
\<close>

section \<open>Tables\<close>

record vault_secret =
  vs_id :: string
  vs_alias :: string
  vs_tenant_id :: string
  vs_env :: string
  vs_description :: "string option"
  vs_scope_tags :: json
  vs_encrypted_dek :: bytes
  vs_ciphertext :: bytes
  vs_key_version :: int
  vs_rotation_interval_days :: "int option"
  vs_last_rotated_at :: "int option"
  vs_next_due_at :: "int option"
  vs_created_by :: string
  vs_is_active :: bool
  vs_last_used_at :: "int option"
  vs_created_at :: int

record vault_audit =
  va_id :: string
  va_request_id :: string
  va_service_id :: string
  va_tenant_id :: string
  va_env :: string
  va_alias :: string
  va_action :: string
  va_result :: string
  va_reason :: string
  va_ip :: "string option"
  va_ts :: int

record vault_db =
  vd_secrets :: "vault_secret list"
  vd_policies :: "vault_policy list"
  vd_audit :: "vault_audit list"
  vd_notified :: "(string \<times> string \<times> string) list"

record vault_env =
  ve_encrypt :: aead_enc
  ve_decrypt :: aead_dec
  ve_keys :: key_env
  ve_entropy :: entropy
  ve_now :: int
  ve_new_id :: string
  ve_audit_id :: string

record service_identity =
  si_service_id :: string
  si_is_admin :: bool
  si_request_id :: string
  si_ip :: "string option"

record secret_create =
  sc_alias :: string
  sc_tenant_id :: string
  sc_env :: string
  sc_value :: string
  sc_description :: "string option"
  sc_scope_tags :: "json option"
  sc_rotation_interval_days :: "int option"

record secret_update =
  su_alias :: "string option"
  su_tenant_id :: "string option"
  su_env :: "string option"
  su_value :: "string option"
  su_description :: "string option"
  su_scope_tags :: "json option"
  su_rotation_interval_days :: "int option"
  su_is_active :: "bool option"

record secret_read_response =
  sr_id :: string
  sr_alias :: string
  sr_tenant_id :: string
  sr_env :: string
  sr_value :: string

type_synonym 'a handler = "vault_db \<Rightarrow> 'a res \<times> vault_db"

section \<open>Session scope and identity\<close>

definition get_vault_db :: "'a handler \<Rightarrow> 'a handler" where
  "get_vault_db h db = (case h db of (Inl e, _) \<Rightarrow> (Inl e, db) | (Inr r, db') \<Rightarrow> (Inr r, db'))"

record service_integration =
  sv_service_id :: string
  sv_api_key_hash :: string
  sv_is_active :: bool
  sv_last_seen_at :: "int option"

record service_usage_log =
  ul_service_id :: string
  ul_endpoint :: string
  ul_method :: string
  ul_ip :: "string option"

record identity_request =
  ir_service_id :: string
  ir_agent_key :: string
  ir_request_id :: string
  ir_ip :: "string option"
  ir_path :: string
  ir_method :: string

text \<open>\<open>agent_keys\<close> and \<open>admin_keys\<close> are the dictionaries read from the environment; the first component
  of the answer carries the integrations and usage rows the call has committed.\<close>

definition get_service_identity ::
  "(string \<Rightarrow> string) \<Rightarrow> (string \<times> string) list \<Rightarrow> (string \<times> string) list \<Rightarrow> int \<Rightarrow> identity_request
    \<Rightarrow> service_integration list \<times> service_usage_log list
    \<Rightarrow> service_identity res \<times> (service_integration list \<times> service_usage_log list)" where
  "get_service_identity sha agent_keys admin_keys now q st =
    (case st of (svcs, usage) \<Rightarrow>
      case select_first (\<lambda>s. sv_service_id s = ir_service_id q \<and> sv_api_key_hash s = sha (ir_agent_key q)
              \<and> sv_is_active s) svcs of
        Some s \<Rightarrow>
          (Inr \<lparr>si_service_id = ir_service_id q, si_is_admin = False, si_request_id = ir_request_id q, si_ip = ir_ip q\<rparr>,
           (update_rows (\<lambda>r. r = s) (\<lambda>r. r\<lparr>sv_last_seen_at := Some now\<rparr>) svcs,
            insert_row \<lparr>ul_service_id = ir_service_id q, ul_endpoint = ir_path q, ul_method = ir_method q, ul_ip = ir_ip q\<rparr> usage))
      | None \<Rightarrow>
          (let expected = map_of agent_keys (ir_service_id q);
               is_admin = (map_of admin_keys (ir_service_id q) = Some (ir_agent_key q)
                  \<or> (ir_service_id q = ''nexus'' \<and> expected = Some (ir_agent_key q))) in
           if expected \<noteq> Some (ir_agent_key q) \<and> \<not> is_admin
           then (Inl (HTTPException 401 ''Invalid service identity or API key.''), st)
           else (Inr \<lparr>si_service_id = ir_service_id q, si_is_admin = is_admin, si_request_id = ir_request_id q,
                      si_ip = ir_ip q\<rparr>, st)))"

definition require_admin :: "service_identity \<Rightarrow> service_identity res" where
  "require_admin i = (if si_is_admin i then Inr i else Inl (HTTPException 403 ''Admin access required.''))"

definition get_policy_engine :: "vault_db \<Rightarrow> vault_policy list" where
  "get_policy_engine db = policy_engine (select_all vp_is_active (vd_policies db))"

section \<open>Audit sink and store\<close>

definition log_event ::
  "vault_env \<Rightarrow> service_identity \<Rightarrow> vault_secret \<Rightarrow> string \<Rightarrow> string \<Rightarrow> string \<Rightarrow> vault_db \<Rightarrow> vault_db" where
  "log_event env i s action result reason db = db\<lparr>vd_audit := insert_row
     \<lparr>va_id = ve_audit_id env, va_request_id = si_request_id i, va_service_id = si_service_id i,
      va_tenant_id = vs_tenant_id s, va_env = vs_env s, va_alias = vs_alias s, va_action = action, va_result = result,
      va_reason = reason, va_ip = si_ip i, va_ts = ve_now env\<rparr> (vd_audit db)\<rparr>"

definition verdict :: "access_decision \<Rightarrow> string" where
  "verdict d = (if ad_allowed d then ''allowed'' else ''denied'')"

definition reason_or :: "string option \<Rightarrow> string \<Rightarrow> string" where
  "reason_or r d = (case r of Some (c # s) \<Rightarrow> c # s | _ \<Rightarrow> d)"

definition same_triple :: "vault_secret \<Rightarrow> vault_secret \<Rightarrow> bool" where
  "same_triple s t = (vs_alias s = vs_alias t \<and> vs_tenant_id s = vs_tenant_id t \<and> vs_env s = vs_env t)"

text \<open>The unique constraint over alias, tenant and environment covers inactive rows too.\<close>

definition integrity_error :: exn where
  "integrity_error = PyError ''IntegrityError'' ''uq_vault_secrets_alias_tenant_env''"

definition store_get :: "string \<Rightarrow> vault_db \<Rightarrow> vault_secret option" where
  "store_get i db = table_look vs_id (vd_secrets db) i"

definition store_get_by_alias :: "string \<Rightarrow> string \<Rightarrow> string \<Rightarrow> vault_db \<Rightarrow> vault_secret option" where
  "store_get_by_alias alias tenant env db = select_first (\<lambda>s. vs_alias s = alias \<and> vs_tenant_id s = tenant
     \<and> vs_env s = env \<and> vs_is_active s) (vd_secrets db)"

definition store_put :: "vault_secret \<Rightarrow> vault_db \<Rightarrow> vault_db" where
  "store_put s db = db\<lparr>vd_secrets := table_update vs_id (vs_id s)
     (\<lambda>r. if vs_id r = vs_id s then s else r) (vd_secrets db)\<rparr>"

definition store_create :: "vault_env \<Rightarrow> secret_create \<Rightarrow> string \<Rightarrow> vault_db \<Rightarrow> vault_secret res \<times> vault_db" where
  "store_create env p service_id db =
    (case encrypt_secret (ve_encrypt env) (ve_keys env) (ve_entropy env) (sc_value p) 1 of
       Inl e \<Rightarrow> (Inl e, db)
     | Inr x \<Rightarrow>
        (let s = \<lparr>vs_id = ve_new_id env, vs_alias = sc_alias p, vs_tenant_id = sc_tenant_id p, vs_env = sc_env p,
               vs_description = sc_description p,
               vs_scope_tags = (case sc_scope_tags p of Some t \<Rightarrow> if truthy t then t else JList [] | None \<Rightarrow> JList []),
               vs_encrypted_dek = es_encrypted_dek x, vs_ciphertext = es_ciphertext x, vs_key_version = es_key_version x,
               vs_rotation_interval_days = sc_rotation_interval_days p, vs_last_rotated_at = None, vs_next_due_at = None,
               vs_created_by = service_id, vs_is_active = True, vs_last_used_at = None, vs_created_at = ve_now env\<rparr> in
         if \<exists>t \<in> set (vd_secrets db). same_triple s t then (Inl integrity_error, db)
         else (Inr s, db\<lparr>vd_secrets := insert_row s (vd_secrets db)\<rparr>)))"

definition store_list :: "string option \<Rightarrow> string option \<Rightarrow> bool \<Rightarrow> nat \<Rightarrow> nat \<Rightarrow> vault_db \<Rightarrow> vault_secret list" where
  "store_list tenant env active_only skip limit db = take limit (drop skip
     (sort_key (\<lambda>s. - vs_created_at s) (select_all (\<lambda>s.
        (tenant \<in> {None, Some []} \<or> tenant = Some (vs_tenant_id s)) \<and>
        (env \<in> {None, Some []} \<or> env = Some (vs_env s)) \<and> (\<not> active_only \<or> vs_is_active s)) (vd_secrets db))))"

definition upd_opt :: "'a option \<Rightarrow> ('a \<Rightarrow> 's \<Rightarrow> 's) \<Rightarrow> 's \<Rightarrow> 's" where
  "upd_opt x f s = (case x of None \<Rightarrow> s | Some v \<Rightarrow> f v s)"

definition reencrypted :: "encrypted_secret \<Rightarrow> vault_secret \<Rightarrow> vault_secret" where
  "reencrypted x s = s\<lparr>vs_encrypted_dek := es_encrypted_dek x, vs_ciphertext := es_ciphertext x\<rparr>"

definition updated_meta :: "secret_update \<Rightarrow> vault_secret \<Rightarrow> vault_secret" where
  "updated_meta p s =
     upd_opt (su_is_active p) (\<lambda>v s. s\<lparr>vs_is_active := v\<rparr>)
     (upd_opt (su_rotation_interval_days p) (\<lambda>v s. s\<lparr>vs_rotation_interval_days := Some v\<rparr>)
     (upd_opt (su_scope_tags p) (\<lambda>v s. s\<lparr>vs_scope_tags := v\<rparr>)
     (upd_opt (su_description p) (\<lambda>v s. s\<lparr>vs_description := Some v\<rparr>)
     (upd_opt (su_env p) (\<lambda>v s. s\<lparr>vs_env := v\<rparr>)
     (upd_opt (su_tenant_id p) (\<lambda>v s. s\<lparr>vs_tenant_id := v\<rparr>)
     (upd_opt (su_alias p) (\<lambda>v s. s\<lparr>vs_alias := v\<rparr>) s))))))"

definition store_update :: "vault_env \<Rightarrow> vault_secret \<Rightarrow> secret_update \<Rightarrow> vault_db \<Rightarrow> vault_secret res \<times> vault_db" where
  "store_update env s p db =
    (case (case su_value p of None \<Rightarrow> Inr s
           | Some v \<Rightarrow> (case encrypt_secret (ve_encrypt env) (ve_keys env) (ve_entropy env) v (vs_key_version s) of
               Inl e \<Rightarrow> Inl e | Inr x \<Rightarrow> Inr (reencrypted x s))) of
       Inl e \<Rightarrow> (Inl e, db)
     | Inr s1 \<Rightarrow>
        (let s' = updated_meta p s1 in
         if \<exists>t \<in> set (vd_secrets db). vs_id t \<noteq> vs_id s \<and> same_triple s' t then (Inl integrity_error, db)
         else (Inr s', store_put s' db)))"

definition store_deactivate :: "vault_secret \<Rightarrow> vault_db \<Rightarrow> vault_db" where
  "store_deactivate s db = store_put (s\<lparr>vs_is_active := False\<rparr>) db"

definition get_plaintext :: "vault_env \<Rightarrow> vault_secret \<Rightarrow> string res" where
  "get_plaintext env s = decrypt_secret (ve_decrypt env) (ve_keys env)
     \<lparr>es_encrypted_dek = vs_encrypted_dek s, es_ciphertext = vs_ciphertext s, es_key_version = vs_key_version s\<rparr>"

interpretation secrets_table: keyed_table vs_id "table_look vs_id" insert_row "table_update vs_id"
  by (rule keyed_table_rows)

section \<open>Handlers\<close>

definition access_for :: "vault_db \<Rightarrow> service_identity \<Rightarrow> string \<Rightarrow> string \<Rightarrow> string \<Rightarrow> string \<Rightarrow> access_decision" where
  "access_for db i action alias tenant env = engine_check (get_policy_engine db)
     \<lparr>ar_service_id = si_service_id i, ar_action = action, ar_alias = alias, ar_tenant_id = tenant, ar_env = env\<rparr>"

definition secret_access :: "vault_db \<Rightarrow> service_identity \<Rightarrow> string \<Rightarrow> vault_secret \<Rightarrow> access_decision" where
  "secret_access db i action s = access_for db i action (vs_alias s) (vs_tenant_id s) (vs_env s)"

definition forbidden :: "access_decision \<Rightarrow> exn" where
  "forbidden d = HTTPException 403 (ad_reason d)"

definition not_found :: exn where
  "not_found = HTTPException 404 ''Secret not found.''"

definition blank_secret :: "secret_create \<Rightarrow> vault_secret" where
  "blank_secret p = \<lparr>vs_id = [], vs_alias = sc_alias p, vs_tenant_id = sc_tenant_id p, vs_env = sc_env p,
     vs_description = None, vs_scope_tags = JNull, vs_encrypted_dek = [], vs_ciphertext = [], vs_key_version = 1,
     vs_rotation_interval_days = None, vs_last_rotated_at = None, vs_next_due_at = None, vs_created_by = [],
     vs_is_active = True, vs_last_used_at = None, vs_created_at = 0\<rparr>"

definition create_secret :: "vault_env \<Rightarrow> service_identity \<Rightarrow> secret_create \<Rightarrow> vault_secret handler" where
  "create_secret env i p db =
    (let d = access_for db i ''write'' (sc_alias p) (sc_tenant_id p) (sc_env p);
         db1 = log_event env i (blank_secret p) ''write'' (verdict d) (ad_reason d) db in
     if \<not> ad_allowed d then (Inl (forbidden d), db1)
     else if store_get_by_alias (sc_alias p) (sc_tenant_id p) (sc_env p) db1 \<noteq> None
     then (Inl (HTTPException 409 (''Secret with alias '' @ quoted (sc_alias p) @ '' already exists for tenant=''
                 @ sc_tenant_id p @ '' env='' @ sc_env p @ ''.'')), db1)
     else case store_create env p (si_service_id i) db1 of
       (Inl e, db2) \<Rightarrow> (Inl e, db2)
     | (Inr s, db2) \<Rightarrow> (Inr s, db2\<lparr>vd_notified := insert_row
          (sc_tenant_id p, sc_alias p @ '' (by '' @ si_service_id i @ '')'', ''secret-create:'' @ vs_id s) (vd_notified db2)\<rparr>))"

definition list_secrets :: "service_identity \<Rightarrow> string option \<Rightarrow> string option \<Rightarrow> nat \<Rightarrow> nat \<Rightarrow> vault_secret list handler" where
  "list_secrets i tenant env skip limit db =
    (let d = access_for db i ''list_metadata'' ''*'' (case tenant of Some (c # s) \<Rightarrow> c # s | _ \<Rightarrow> ''*'')
               (case env of Some (c # s) \<Rightarrow> c # s | _ \<Rightarrow> ''*'') in
     if \<not> ad_allowed d \<and> \<not> si_is_admin i then (Inl (forbidden d), db)
     else (Inr (store_list tenant env True skip limit db), db))"

definition get_secret :: "service_identity \<Rightarrow> string \<Rightarrow> vault_secret handler" where
  "get_secret i sid db = (case store_get sid db of
     None \<Rightarrow> (Inl not_found, db)
   | Some s \<Rightarrow> if \<not> vs_is_active s then (Inl not_found, db) else (Inr s, db))"

text \<open>What both reading endpoints do with the row they found: decide, audit, decrypt, stamp.\<close>

definition reveal_secret :: "vault_env \<Rightarrow> service_identity \<Rightarrow> string option \<Rightarrow> vault_secret \<Rightarrow> secret_read_response handler" where
  "reveal_secret env i reason s db =
    (let d = secret_access db i ''read'' s;
         db1 = log_event env i s ''read'' (verdict d) (reason_or reason (ad_reason d)) db in
     if \<not> ad_allowed d then (Inl (forbidden d), db1)
     else case get_plaintext env s of
       Inl e \<Rightarrow> (Inl e, db1)
     | Inr v \<Rightarrow> (Inr \<lparr>sr_id = vs_id s, sr_alias = vs_alias s, sr_tenant_id = vs_tenant_id s, sr_env = vs_env s, sr_value = v\<rparr>,
                 store_put (s\<lparr>vs_last_used_at := Some (ve_now env)\<rparr>) db1))"

definition read_secret_value :: "vault_env \<Rightarrow> service_identity \<Rightarrow> string \<Rightarrow> string option \<Rightarrow> secret_read_response handler" where
  "read_secret_value env i sid reason db = (case store_get sid db of
     None \<Rightarrow> (Inl not_found, db)
   | Some s \<Rightarrow> if \<not> vs_is_active s then (Inl not_found, db) else reveal_secret env i reason s db)"

definition read_secret_by_alias ::
  "vault_env \<Rightarrow> service_identity \<Rightarrow> string \<Rightarrow> string \<Rightarrow> string \<Rightarrow> string \<Rightarrow> secret_read_response handler" where
  "read_secret_by_alias env i alias tenant envname reason db = (case store_get_by_alias alias tenant envname db of
     None \<Rightarrow> (Inl (HTTPException 404 (''Secret alias '' @ quoted alias @ '' not found.'')), db)
   | Some s \<Rightarrow> if \<not> vs_is_active s
       then (Inl (HTTPException 404 (''Secret alias '' @ quoted alias @ '' not found.'')), db)
       else reveal_secret env i (Some reason) s db)"

definition update_secret :: "vault_env \<Rightarrow> service_identity \<Rightarrow> string \<Rightarrow> secret_update \<Rightarrow> vault_secret handler" where
  "update_secret env i sid p db = (case store_get sid db of
     None \<Rightarrow> (Inl not_found, db)
   | Some s \<Rightarrow> if \<not> vs_is_active s then (Inl not_found, db)
     else let d = secret_access db i ''write'' s in
       if \<not> ad_allowed d \<and> \<not> si_is_admin i then (Inl (forbidden d), db)
       else case store_update env s p db of
         (Inl e, db1) \<Rightarrow> (Inl (if e = integrity_error
            then HTTPException 409 ''Secret with this alias, tenant, and environment already exists.'' else e), db1)
       | (Inr s', db1) \<Rightarrow> (Inr s', log_event env i s' ''write'' ''allowed'' ''Updated metadata'' db1))"

definition rotated :: "int \<Rightarrow> encrypted_secret \<Rightarrow> vault_secret \<Rightarrow> vault_secret" where
  "rotated now x s =
     (let s1 = (reencrypted x s)\<lparr>vs_last_rotated_at := Some now\<rparr> in
      case vs_rotation_interval_days s of None \<Rightarrow> s1
      | Some n \<Rightarrow> if n = 0 then s1 else s1\<lparr>vs_next_due_at := Some (now + n * 86400)\<rparr>)"

definition rotate_secret :: "vault_env \<Rightarrow> service_identity \<Rightarrow> string \<Rightarrow> string \<Rightarrow> string option \<Rightarrow> (string \<times> string \<times> int \<times> int) handler" where
  "rotate_secret env i sid new_value reason db = (case store_get sid db of
     None \<Rightarrow> (Inl not_found, db)
   | Some s \<Rightarrow> if \<not> vs_is_active s then (Inl not_found, db)
     else let d = secret_access db i ''rotate'' s;
              db1 = log_event env i s ''rotate'' (verdict d) (reason_or reason (ad_reason d)) db in
       if \<not> ad_allowed d then (Inl (forbidden d), db1)
       else case encrypt_secret (ve_encrypt env) (ve_keys env) (ve_entropy env) new_value (vs_key_version s) of
         Inl e \<Rightarrow> (Inl e, db1)
       | Inr x \<Rightarrow>
           (Inr (vs_id s, vs_alias s, ve_now env, vs_key_version s), store_put (rotated (ve_now env) x s) db1))"

definition delete_secret :: "vault_env \<Rightarrow> service_identity \<Rightarrow> string \<Rightarrow> string option \<Rightarrow> unit handler" where
  "delete_secret env i sid reason db = (case store_get sid db of
     None \<Rightarrow> (Inl not_found, db)
   | Some s \<Rightarrow>
      (let d = secret_access db i ''write'' s in
       if \<not> ad_allowed d \<and> \<not> si_is_admin i then (Inl (forbidden d), db)
       else let db1 = store_deactivate s (log_event env i s ''delete'' ''allowed'' (reason_or reason ''allowed'') db) in
         (Inr (), db1\<lparr>vd_notified := insert_row (vs_tenant_id s, vs_alias s @ '' (by '' @ si_service_id i @ '')'',
            ''secret-delete:'' @ sid) (vd_notified db1)\<rparr>)))"

definition create_policy :: "service_identity \<Rightarrow> vault_policy \<Rightarrow> vault_policy handler" where
  "create_policy i p db = (case require_admin i of
     Inl e \<Rightarrow> (Inl e, db)
   | Inr _ \<Rightarrow> if \<exists>q \<in> set (vd_policies db). vp_name q = vp_name p
       then (Inl (PyError ''IntegrityError'' ''vault_policies.name''), db)
       else (Inr (p\<lparr>vp_is_active := True\<rparr>), db\<lparr>vd_policies := insert_row (p\<lparr>vp_is_active := True\<rparr>) (vd_policies db)\<rparr>))"

definition list_policies :: "service_identity \<Rightarrow> vault_policy list handler" where
  "list_policies i db = (case require_admin i of
     Inl e \<Rightarrow> (Inl e, db)
   | Inr _ \<Rightarrow> (Inr (sort_key (\<lambda>p. - vp_priority p) (vd_policies db)), db))"

definition delete_policy :: "service_identity \<Rightarrow> string \<Rightarrow> unit handler" where
  "delete_policy i pid db = (case require_admin i of
     Inl e \<Rightarrow> (Inl e, db)
   | Inr _ \<Rightarrow> (case select_first (\<lambda>p. vp_id p = pid) (vd_policies db) of
       None \<Rightarrow> (Inl (HTTPException 404 ''Policy not found.''), db)
     | Some p \<Rightarrow> (Inr (), db\<lparr>vd_policies := update_rows (\<lambda>p. vp_id p = pid) (\<lambda>p. p\<lparr>vp_is_active := False\<rparr>) (vd_policies db)\<rparr>)))"

section \<open>Atomic requests\<close>

text \<open>A request scope that leaves the database alone when it answers an error.\<close>

locale transactional =
  fixes run :: "'db \<Rightarrow> 'a res \<times> 'db"
  assumes rolled_back: "run d = (Inl e, d') \<Longrightarrow> d' = d"
begin

lemma changed_only_by_success: "snd (run d) \<noteq> d \<Longrightarrow> \<exists>r. fst (run d) = Inr r"
  using rolled_back by (cases "run d"; cases "fst (run d)") auto

lemma invariant_by_success:
  assumes "I d" "\<And>r d'. run d = (Inr r, d') \<Longrightarrow> I d'"
  shows "I (snd (run d))"
proof (cases "run d")
  case (Pair res d')
  then show ?thesis using assms rolled_back[of d] by (cases res) auto
qed

end

lemma get_vault_db_Inr: "get_vault_db h db = (Inr r, db') \<longleftrightarrow> h db = (Inr r, db')"
  by (auto simp: get_vault_db_def split: prod.splits sum.splits)

lemma get_vault_db_Inl: "get_vault_db h db = (Inl e, db') \<Longrightarrow> db' = db"
  by (auto simp: get_vault_db_def split: prod.splits sum.splits)

interpretation vault_scope: transactional "get_vault_db h"
  by unfold_locales (rule get_vault_db_Inl)

section \<open>Who sees a plaintext\<close>

lemma reveal_secret_Inr:
  assumes "reveal_secret env i reason s db = (Inr r, db')"
  shows "ad_allowed (secret_access db i ''read'' s) \<and> get_plaintext env s = Inr (sr_value r)
    \<and> (\<exists>a \<in> set (vd_audit db'). va_alias a = vs_alias s \<and> va_service_id a = si_service_id i
          \<and> va_action a = ''read'' \<and> va_result a = ''allowed'')"
  using assms
  by (auto simp: reveal_secret_def Let_def log_event_def store_put_def verdict_def split: if_splits sum.splits)

lemma read_secret_value_Inr:
  assumes "read_secret_value env i sid reason db = (Inr r, db')"
  obtains s where "store_get sid db = Some s" "vs_is_active s" "reveal_secret env i reason s db = (Inr r, db')"
  using assms by (auto simp: read_secret_value_def split: option.splits if_splits)

lemma read_secret_by_alias_Inr:
  assumes "read_secret_by_alias env i a t e reason db = (Inr r, db')"
  obtains s where "store_get_by_alias a t e db = Some s" "vs_is_active s" "vs_alias s = a" "vs_tenant_id s = t" "vs_env s = e"
    "reveal_secret env i (Some reason) s db = (Inr r, db')"
  using assms
  by (auto simp: read_secret_by_alias_def store_get_by_alias_def split: option.splits if_splits dest: select_first_Some)


text \<open>a denied read is answered with 403 and the audit row of the denial is rolled back with the
  session, so the committed database is the one before the request.\<close>

theorem denied_read_not_audited:
  assumes "store_get sid db = Some s" "vs_is_active s" "\<not> ad_allowed (secret_access db i ''read'' s)"
  shows "get_vault_db (read_secret_value env i sid reason) db = (Inl (forbidden (secret_access db i ''read'' s)), db)
    \<and> (\<exists>a \<in> set (vd_audit (snd (read_secret_value env i sid reason db))). va_result a = ''denied'' \<and> va_alias a = vs_alias s)"
  using assms
  by (simp add: get_vault_db_def read_secret_value_def reveal_secret_def Let_def log_event_def verdict_def)

section \<open>The vault as a map of plaintexts\<close>

text \<open>What the vault promises is a map from identifiers to values; \<open>value_of\<close> reads it off the rows.\<close>

definition value_of :: "vault_env \<Rightarrow> vault_db \<Rightarrow> string \<Rightarrow> string option" where
  "value_of env db i = (case store_get i db of None \<Rightarrow> None
     | Some s \<Rightarrow> (case get_plaintext env s of Inl _ \<Rightarrow> None | Inr v \<Rightarrow> Some v))"

definition same_keys :: "vault_env \<Rightarrow> vault_env \<Rightarrow> bool" where
  "same_keys e e' = (ve_encrypt e = ve_encrypt e' \<and> ve_decrypt e = ve_decrypt e' \<and> ve_keys e = ve_keys e')"

lemma store_get_put [simp]:
  "store_get i (store_put s db) = (if i = vs_id s then map_option (\<lambda>_. s) (store_get i db) else store_get i db)"
proof -
  have "table_look vs_id (table_update vs_id (vs_id s) (\<lambda>r. if vs_id r = vs_id s then s else r) (vd_secrets db)) i
     = (if i = vs_id s then map_option (\<lambda>r. if vs_id r = vs_id s then s else r) (table_look vs_id (vd_secrets db) i)
        else table_look vs_id (vd_secrets db) i)"
    by (rule secrets_table.look_upd) simp
  moreover have "map_option (\<lambda>r. if vs_id r = vs_id s then s else r) (table_look vs_id (vd_secrets db) (vs_id s))
     = map_option (\<lambda>_. s) (table_look vs_id (vd_secrets db) (vs_id s))"
    using secrets_table.look_key[of "vd_secrets db" "vs_id s"] by (cases "table_look vs_id (vd_secrets db) (vs_id s)") auto
  ultimately show ?thesis by (simp add: store_get_def store_put_def)
qed

lemma store_get_Some: "store_get i db = Some s \<Longrightarrow> s \<in> set (vd_secrets db) \<and> vs_id s = i"
  by (auto simp: store_get_def table_look_def dest: select_first_Some)

lemma store_get_log [simp]: "store_get i (log_event env w s a r q db) = store_get i db"
  by (simp add: store_get_def log_event_def)

lemma store_get_notified [simp]: "store_get i (db\<lparr>vd_notified := n\<rparr>) = store_get i db"
  by (simp add: store_get_def)

lemma decrypt_secret_cong:
  "es_encrypted_dek x = es_encrypted_dek y \<Longrightarrow> es_ciphertext x = es_ciphertext y \<Longrightarrow>
     decrypt_secret dec e x = decrypt_secret dec e y"
  unfolding decrypt_secret_def by (simp cong: option.case_cong sum.case_cong)

lemma get_plaintext_cong:
  "vs_encrypted_dek s = vs_encrypted_dek t \<Longrightarrow> vs_ciphertext s = vs_ciphertext t \<Longrightarrow> get_plaintext env s = get_plaintext env t"
  unfolding get_plaintext_def by (rule decrypt_secret_cong) simp_all

lemma updated_meta_blob [simp]:
  "vs_id (updated_meta p s) = vs_id s" "vs_encrypted_dek (updated_meta p s) = vs_encrypted_dek s"
  "vs_ciphertext (updated_meta p s) = vs_ciphertext s"
  by (simp_all add: updated_meta_def upd_opt_def split: option.splits)

lemma reencrypted_blob [simp]: "vs_id (reencrypted x s) = vs_id s"
  by (simp add: reencrypted_def)

lemma rotated_blob [simp]:
  "vs_id (rotated t x s) = vs_id s" "vs_encrypted_dek (rotated t x s) = es_encrypted_dek x"
  "vs_ciphertext (rotated t x s) = es_ciphertext x" "vs_alias (rotated t x s) = vs_alias s"
  "vs_tenant_id (rotated t x s) = vs_tenant_id s" "vs_env (rotated t x s) = vs_env s"
  by (simp_all add: rotated_def reencrypted_def Let_def split: option.splits)

lemma get_plaintext_reencrypted:
  assumes "aead_ok (ve_encrypt env) (ve_decrypt env)" "entropy_ok (ve_entropy env)"
    and "encrypt_secret (ve_encrypt env) (ve_keys env) (ve_entropy env) v k = Inr x"
    and "vs_encrypted_dek s = es_encrypted_dek x" "vs_ciphertext s = es_ciphertext x"
  shows "get_plaintext env s = Inr v"
proof -
  have "decrypt_secret (ve_decrypt env) (ve_keys env) x = Inr v"
    using assms(1-3) by (auto simp: encrypt_secret_def decrypt_secret_def entropy_ok_def aes_gcm_roundtrip split: sum.splits)
  then show ?thesis unfolding get_plaintext_def
    by (subst decrypt_secret_cong[of _ x]) (simp_all add: assms(4,5))
qed

lemma value_of_put:
  assumes "store_get (vs_id s) db \<noteq> None"
  shows "value_of env (store_put s db) = (value_of env db)(vs_id s := case get_plaintext env s of Inl _ \<Rightarrow> None | Inr v \<Rightarrow> Some v)"
  using assms by (auto simp: value_of_def fun_eq_iff)

lemma value_of_frame [simp]:
  "value_of env (log_event env' w s a r q db) = value_of env db" "value_of env (db\<lparr>vd_notified := n\<rparr>) = value_of env db"
  by (simp_all add: value_of_def fun_eq_iff)

lemma store_create_Inr:
  assumes "store_create env p w db = (Inr s, db')"
  obtains x where "encrypt_secret (ve_encrypt env) (ve_keys env) (ve_entropy env) (sc_value p) 1 = Inr x"
    "vs_id s = ve_new_id env" "vs_encrypted_dek s = es_encrypted_dek x" "vs_ciphertext s = es_ciphertext x" "vs_is_active s"
    "vs_alias s = sc_alias p" "vs_tenant_id s = sc_tenant_id p" "vs_env s = sc_env p"
    "\<forall>t \<in> set (vd_secrets db). \<not> same_triple s t" "db' = db\<lparr>vd_secrets := insert_row s (vd_secrets db)\<rparr>"
  using assms by (auto simp: store_create_def Let_def split: sum.splits if_splits)

lemma create_secret_Inr:
  assumes "create_secret env i p db = (Inr s, db')"
  obtains d db1 db2 where "ad_allowed d" "d = access_for db i ''write'' (sc_alias p) (sc_tenant_id p) (sc_env p)"
    "db1 = log_event env i (blank_secret p) ''write'' (verdict d) (ad_reason d) db"
    "store_create env p (si_service_id i) db1 = (Inr s, db2)" "\<exists>n. db' = db2\<lparr>vd_notified := n\<rparr>"
  using assms by (auto simp: create_secret_def Let_def split: if_splits prod.splits sum.splits)

lemma create_secret_value:
  assumes "aead_ok (ve_encrypt env) (ve_decrypt env)" "entropy_ok (ve_entropy env)" "store_get (ve_new_id env) db = None"
    and "create_secret env i p db = (Inr s, db')"
  shows "value_of env db' = (value_of env db)(ve_new_id env \<mapsto> sc_value p)"
  using assms(4)
proof (rule create_secret_Inr)
  fix d db1 db2
  assume db1: "db1 = log_event env i (blank_secret p) ''write'' (verdict d) (ad_reason d) db"
    and sc: "store_create env p (si_service_id i) db1 = (Inr s, db2)" and n: "\<exists>n. db' = db2\<lparr>vd_notified := n\<rparr>"
  from sc show ?thesis
  proof (rule store_create_Inr)
    fix x
    assume x: "encrypt_secret (ve_encrypt env) (ve_keys env) (ve_entropy env) (sc_value p) 1 = Inr x" "vs_id s = ve_new_id env"
      "vs_encrypted_dek s = es_encrypted_dek x" "vs_ciphertext s = es_ciphertext x"
      and db2: "db2 = db1\<lparr>vd_secrets := insert_row s (vd_secrets db1)\<rparr>"
    have "table_look vs_id (vd_secrets db1) (vs_id s) = None"
      using assms(3) x(2) by (simp add: store_get_def db1 log_event_def)
    from secrets_table.look_ins[OF this]
    have "store_get k db2 = (if k = ve_new_id env then Some s else store_get k db)" for k
      using x(2) by (simp add: store_get_def db1 db2 log_event_def)
    then show ?thesis
      using n get_plaintext_reencrypted[OF assms(1,2) x(1,3,4)] by (auto simp: value_of_def fun_eq_iff)
  qed
qed

lemma rotate_secret_value:
  assumes "aead_ok (ve_encrypt env) (ve_decrypt env)" "entropy_ok (ve_entropy env)"
    and "rotate_secret env i sid v reason db = (Inr r, db')"
  shows "value_of env db' = (value_of env db)(sid \<mapsto> v)"
proof -
  obtain s x d where s: "store_get sid db = Some s"
    and x: "encrypt_secret (ve_encrypt env) (ve_keys env) (ve_entropy env) v (vs_key_version s) = Inr x"
    and db': "db' = store_put (rotated (ve_now env) x s)
        (log_event env i s ''rotate'' (verdict d) (reason_or reason (ad_reason d)) db)"
    using assms(3) by (auto simp: rotate_secret_def Let_def split: option.splits if_splits sum.splits)
  have sid: "vs_id s = sid" using s store_get_Some by metis
  have "get_plaintext env (rotated (ve_now env) x s) = Inr v"
    by (rule get_plaintext_reencrypted[OF assms(1,2) x]) simp_all
  then show ?thesis
    unfolding db' using s sid by (subst value_of_put) simp_all
qed

lemma update_secret_value:
  assumes "aead_ok (ve_encrypt env) (ve_decrypt env)" "entropy_ok (ve_entropy env)"
    and "update_secret env i sid p db = (Inr r, db')"
  shows "value_of env db' = (case su_value p of None \<Rightarrow> value_of env db | Some v \<Rightarrow> (value_of env db)(sid \<mapsto> v))"
proof -
  obtain s db1 where s: "store_get sid db = Some s" and u: "store_update env s p db = (Inr r, db1)"
    and db': "db' = log_event env i r ''write'' ''allowed'' ''Updated metadata'' db1"
    using assms(3) by (auto simp: update_secret_def Let_def split: option.splits if_splits prod.splits sum.splits)
  have sid: "vs_id s = sid" using s store_get_Some by metis
  show ?thesis
  proof (cases "su_value p")
    case None
    then have r: "r = updated_meta p s" "db1 = store_put r db"
      using u by (auto simp: store_update_def Let_def split: if_splits)
    have "get_plaintext env r = get_plaintext env s" by (rule get_plaintext_cong) (simp_all add: r)
    then show ?thesis
      using None r s sid value_of_put[of r db env] by (auto simp: db' value_of_def fun_eq_iff)
  next
    case (Some v)
    then obtain x where x: "encrypt_secret (ve_encrypt env) (ve_keys env) (ve_entropy env) v (vs_key_version s) = Inr x"
      and r: "r = updated_meta p (reencrypted x s)" "db1 = store_put r db"
      using u by (auto simp: store_update_def Let_def split: if_splits sum.splits)
    have "get_plaintext env r = Inr v"
      by (rule get_plaintext_reencrypted[OF assms(1,2) x]) (simp_all add: r reencrypted_def)
    then show ?thesis
      using Some r s sid value_of_put[of r db env] by (simp add: db')
  qed
qed

lemma reveal_secret_value:
  assumes "reveal_secret env i reason s db = (Inr r, db')" "store_get (vs_id s) db = Some s"
  shows "value_of env' db' = value_of env' db"
proof -
  obtain d where db': "db' = store_put (s\<lparr>vs_last_used_at := Some (ve_now env)\<rparr>)
      (log_event env i s ''read'' (verdict d) (reason_or reason (ad_reason d)) db)"
    using assms(1) by (auto simp: reveal_secret_def Let_def split: if_splits sum.splits)
  have "get_plaintext env' (s\<lparr>vs_last_used_at := Some (ve_now env)\<rparr>) = get_plaintext env' s"
    by (rule get_plaintext_cong) simp_all
  then show ?thesis using assms(2) by (auto simp: db' value_of_def fun_eq_iff)
qed

text \<open>C2: the vault implements a map of plaintexts.  With a working cipher, create adds exactly the new
  binding, rotate overwrites exactly the one it names, update overwrites it when it carries a value
  and is invisible otherwise, and a read answers the bound value and changes no binding.\<close>

theorem vault_refines_map:
  assumes "aead_ok (ve_encrypt env) (ve_decrypt env)" "entropy_ok (ve_entropy env)"
  shows "(store_get (ve_new_id env) db = None \<longrightarrow> create_secret env i c db = (Inr s, db1) \<longrightarrow>
            value_of env db1 = (value_of env db)(ve_new_id env \<mapsto> sc_value c))
       \<and> (rotate_secret env i sid v reason db = (Inr t, db2) \<longrightarrow> value_of env db2 = (value_of env db)(sid \<mapsto> v))
       \<and> (update_secret env i sid u db = (Inr s', db3) \<longrightarrow> value_of env db3 =
            (case su_value u of None \<Rightarrow> value_of env db | Some w \<Rightarrow> (value_of env db)(sid \<mapsto> w)))
       \<and> (read_secret_value env i sid reason db = (Inr r, db4) \<longrightarrow>
            value_of env db sid = Some (sr_value r) \<and> value_of env db4 = value_of env db)"
proof (intro conjI impI)
  assume a: "read_secret_value env i sid reason db = (Inr r, db4)"
  then obtain s where s: "store_get sid db = Some s" "reveal_secret env i reason s db = (Inr r, db4)"
    by (rule read_secret_value_Inr)
  have "vs_id s = sid" using s(1) store_get_Some by metis
  then show "value_of env db4 = value_of env db" using reveal_secret_value[OF s(2)] s(1) by simp
  show "value_of env db sid = Some (sr_value r)" using reveal_secret_Inr[OF s(2)] s(1) by (simp add: value_of_def)
next
  assume "store_get (ve_new_id env) db = None" "create_secret env i c db = (Inr s, db1)"
  then show "value_of env db1 = (value_of env db)(ve_new_id env \<mapsto> sc_value c)"
    by (rule create_secret_value[OF assms])
next
  assume "rotate_secret env i sid v reason db = (Inr t, db2)"
  then show "value_of env db2 = (value_of env db)(sid \<mapsto> v)" by (rule rotate_secret_value[OF assms])
next
  assume "update_secret env i sid u db = (Inr s', db3)"
  then show "value_of env db3 = (case su_value u of None \<Rightarrow> value_of env db | Some w \<Rightarrow> (value_of env db)(sid \<mapsto> w))"
    by (rule update_secret_value[OF assms])
qed

section \<open>Reachable vaults\<close>

text \<open>No two rows, active or not, share alias, tenant and environment, and identifiers are unique.\<close>

definition triple :: "vault_secret \<Rightarrow> string \<times> string \<times> string" where
  "triple s = (vs_alias s, vs_tenant_id s, vs_env s)"

definition vault_ok :: "vault_db \<Rightarrow> bool" where
  "vault_ok db = (distinct (List.map vs_id (vd_secrets db)) \<and> distinct (List.map triple (vd_secrets db)))"

inductive vault_step :: "vault_db \<Rightarrow> vault_db \<Rightarrow> bool" where
  create: "store_get (ve_new_id env) db = None \<Longrightarrow> vault_step db (snd (get_vault_db (create_secret env i c) db))"
| read_value: "vault_step db (snd (get_vault_db (read_secret_value env i sid reason) db))"
| read_alias: "vault_step db (snd (get_vault_db (read_secret_by_alias env i a t e rs) db))"
| update: "vault_step db (snd (get_vault_db (update_secret env i sid u) db))"
| rotate: "vault_step db (snd (get_vault_db (rotate_secret env i sid v reason) db))"
| delete: "vault_step db (snd (get_vault_db (delete_secret env i sid reason) db))"
| add_policy: "vault_step db (snd (get_vault_db (create_policy i p) db))"
| drop_policy: "vault_step db (snd (get_vault_db (delete_policy i pid) db))"

definition vault_empty :: vault_db where
  "vault_empty = \<lparr>vd_secrets = [], vd_policies = [], vd_audit = [], vd_notified = []\<rparr>"

inductive vault_reach :: "vault_db \<Rightarrow> bool" where
  start: "vault_reach vault_empty"
| step: "vault_reach db \<Longrightarrow> vault_step db db' \<Longrightarrow> vault_reach db'"

lemma same_triple_eq: "same_triple s t \<longleftrightarrow> triple s = triple t"
  by (auto simp: same_triple_def triple_def)

lemma vault_ok_frame:
  "vd_secrets db' = vd_secrets db \<Longrightarrow> vault_ok db' = vault_ok db"
  by (simp add: vault_ok_def)

lemma vault_ok_put:
  assumes "vault_ok db" "store_get (vs_id s) db \<noteq> None"
    and "\<forall>t \<in> set (vd_secrets db). vs_id t \<noteq> vs_id s \<longrightarrow> triple t \<noteq> triple s"
  shows "vault_ok (store_put s db)"
proof -
  let ?f = "\<lambda>r. if vs_id r = vs_id s then s else r"
  have eq: "vd_secrets (store_put s db) = List.map ?f (vd_secrets db)"
    by (simp add: store_put_def table_update_def update_rows_def)
  have ids: "List.map vs_id (List.map ?f (vd_secrets db)) = List.map vs_id (vd_secrets db)"
    by (simp cong: map_cong)
  have "inj_on (triple \<circ> ?f) (set (vd_secrets db))"
    using assms(1,3) by (auto simp: inj_on_def vault_ok_def distinct_map)
  moreover have "distinct (vd_secrets db)" using assms(1) by (simp add: vault_ok_def distinct_map)
  ultimately have "distinct (List.map triple (List.map ?f (vd_secrets db)))"
    by (simp add: distinct_map)
  then show ?thesis using assms(1) ids by (simp add: vault_ok_def eq del: map_map)
qed

lemma vault_ok_put_same:
  assumes "vault_ok db" "store_get (vs_id s) db = Some t" "triple s = triple t"
  shows "vault_ok (store_put s db)"
proof (rule vault_ok_put[OF assms(1)])
  show "store_get (vs_id s) db \<noteq> None" using assms(2) by simp
  show "\<forall>r \<in> set (vd_secrets db). vs_id r \<noteq> vs_id s \<longrightarrow> triple r \<noteq> triple s"
    using assms store_get_Some[OF assms(2)] by (auto simp: vault_ok_def distinct_map inj_on_def)
qed

lemma vault_ok_log [simp]: "vault_ok (log_event env i s a r q db) = vault_ok db"
  by (rule vault_ok_frame) (simp add: log_event_def)

lemma vault_ok_notified [simp]: "vault_ok (db\<lparr>vd_notified := n\<rparr>) = vault_ok db"
  by (rule vault_ok_frame) simp

lemma vault_ok_policies [simp]: "vault_ok (db\<lparr>vd_policies := n\<rparr>) = vault_ok db"
  by (rule vault_ok_frame) simp

lemma create_secret_ok:
  assumes "vault_ok db" "store_get (ve_new_id env) db = None" "create_secret env i c db = (Inr s, db')"
  shows "vault_ok db'"
  using assms(3)
proof (rule create_secret_Inr)
  fix d db1 db2
  assume db1: "db1 = log_event env i (blank_secret c) ''write'' (verdict d) (ad_reason d) db"
    and sc: "store_create env c (si_service_id i) db1 = (Inr s, db2)" and n: "\<exists>n. db' = db2\<lparr>vd_notified := n\<rparr>"
  have eq: "vd_secrets db1 = vd_secrets db" by (simp add: db1 log_event_def)
  have "vs_id s \<notin> vs_id ` set (vd_secrets db)"
    using assms(2) sc by (auto simp: store_get_def table_look_def select_first_None elim!: store_create_Inr)
  then have "vault_ok db2"
    using assms(1) sc by (auto simp: vault_ok_def insert_row_def same_triple_eq eq elim!: store_create_Inr)
  then show ?thesis using n by auto
qed

lemma reveal_secret_ok:
  assumes "vault_ok db" "reveal_secret env i reason s db = (Inr r, db')" "store_get (vs_id s) db = Some s"
  shows "vault_ok db'"
proof -
  obtain d where "db' = store_put (s\<lparr>vs_last_used_at := Some (ve_now env)\<rparr>)
      (log_event env i s ''read'' (verdict d) (reason_or reason (ad_reason d)) db)"
    using assms(2) by (auto simp: reveal_secret_def Let_def split: if_splits sum.splits)
  then show ?thesis using assms by (auto intro!: vault_ok_put_same[where t = s] simp: triple_def)
qed

lemma update_secret_ok:
  assumes "vault_ok db" "update_secret env i sid u db = (Inr r, db')"
  shows "vault_ok db'"
proof -
  obtain s db1 where s: "store_get sid db = Some s" and su: "store_update env s u db = (Inr r, db1)"
    and db': "db' = log_event env i r ''write'' ''allowed'' ''Updated metadata'' db1"
    using assms(2) by (auto simp: update_secret_def Let_def split: option.splits if_splits prod.splits sum.splits)
  then have "vs_id r = vs_id s" "db1 = store_put r db" "\<forall>t \<in> set (vd_secrets db). vs_id t \<noteq> vs_id s \<longrightarrow> \<not> same_triple r t"
    by (auto simp: store_update_def Let_def split: if_splits sum.splits option.splits)
  moreover have "vs_id s = sid" using s store_get_Some by metis
  ultimately show ?thesis
    using assms(1) s by (auto simp: db' same_triple_eq intro!: vault_ok_put)
qed

lemma store_get_by_alias_unique:
  assumes "vault_ok db" "store_get_by_alias a t e db = Some s"
  shows "store_get (vs_id s) db = Some s"
proof -
  have s: "s \<in> set (vd_secrets db)" using assms(2) by (auto simp: store_get_by_alias_def dest: select_first_Some)
  then obtain s' where "store_get (vs_id s) db = Some s'"
    by (cases "store_get (vs_id s) db") (auto simp: store_get_def table_look_def select_first_None)
  moreover from this have "s' = s"
    using assms(1) s store_get_Some[of "vs_id s" db s'] by (auto simp: vault_ok_def distinct_map inj_on_def)
  ultimately show ?thesis by simp
qed

lemma vault_step_ok: "vault_step db db' \<Longrightarrow> vault_ok db \<Longrightarrow> vault_ok db'"
proof (induction rule: vault_step.induct)
  case (create env db i c)
  then show ?case by (intro vault_scope.invariant_by_success[where I = vault_ok]) (auto simp: get_vault_db_Inr intro: create_secret_ok)
next
  case (read_value db env i sid reason)
  show ?case
  proof (rule vault_scope.invariant_by_success[where I = vault_ok, OF read_value])
    fix r d' assume "get_vault_db (read_secret_value env i sid reason) db = (Inr r, d')"
    then show "vault_ok d'"
      using read_value store_get_Some by (auto simp: get_vault_db_Inr elim!: read_secret_value_Inr intro: reveal_secret_ok)
  qed
next
  case (read_alias db env i a t e rs)
  show ?case
  proof (rule vault_scope.invariant_by_success[where I = vault_ok, OF read_alias])
    fix r d' assume "get_vault_db (read_secret_by_alias env i a t e rs) db = (Inr r, d')"
    then show "vault_ok d'"
      using read_alias store_get_by_alias_unique
      by (auto simp: get_vault_db_Inr elim!: read_secret_by_alias_Inr intro: reveal_secret_ok)
  qed
next
  case (update db env i sid u)
  then show ?case by (intro vault_scope.invariant_by_success[where I = vault_ok]) (auto simp: get_vault_db_Inr intro: update_secret_ok)
next
  case (rotate db env i sid v reason)
  show ?case
  proof (rule vault_scope.invariant_by_success[where I = vault_ok, OF rotate])
    fix r d' assume "get_vault_db (rotate_secret env i sid v reason) db = (Inr r, d')"
    then show "vault_ok d'"
      using rotate store_get_Some[of sid db]
      by (auto simp: get_vault_db_Inr rotate_secret_def Let_def triple_def split: option.splits if_splits sum.splits
          intro!: vault_ok_put_same)
  qed
next
  case (delete db env i sid reason)
  show ?case
  proof (rule vault_scope.invariant_by_success[where I = vault_ok, OF delete])
    fix r d' assume "get_vault_db (delete_secret env i sid reason) db = (Inr r, d')"
    then show "vault_ok d'"
      using delete store_get_Some[of sid db]
      by (auto simp: get_vault_db_Inr delete_secret_def Let_def triple_def store_deactivate_def
          split: option.splits if_splits sum.splits intro!: vault_ok_put_same)
  qed
next
  case (add_policy db i p)
  then show ?case
    by (intro vault_scope.invariant_by_success[where I = vault_ok])
      (auto simp: get_vault_db_Inr create_policy_def split: sum.splits if_splits)
next
  case (drop_policy db i pid)
  then show ?case
    by (intro vault_scope.invariant_by_success[where I = vault_ok])
      (auto simp: get_vault_db_Inr delete_policy_def split: sum.splits if_splits option.splits)
qed


section \<open>A concrete vault\<close>

definition ex_env :: vault_env where
  "ex_env = \<lparr>ve_encrypt = plain_enc, ve_decrypt = plain_dec, ve_keys = example_key_env, ve_entropy = example_entropy,
     ve_now = 100, ve_new_id = ''s1'', ve_audit_id = ''a1''\<rparr>"

definition ex_policy :: "string \<Rightarrow> string \<Rightarrow> string list \<Rightarrow> vault_policy" where
  "ex_policy n pat actions = \<lparr>vp_id = n, vp_name = n, vp_service_id = ''svc'', vp_alias_pattern = pat, vp_tenant_id = None,
     vp_env = None, vp_actions = actions, vp_priority = 100, vp_is_active = True\<rparr>"

definition ex_db :: vault_db where
  "ex_db = \<lparr>vd_secrets = [], vd_policies = [ex_policy ''p1'' ''a.*'' [''write''], ex_policy ''p2'' ''b.*'' [''read'', ''write'']],
     vd_audit = [], vd_notified = []\<rparr>"

definition ex_id :: service_identity where
  "ex_id = \<lparr>si_service_id = ''svc'', si_is_admin = False, si_request_id = ''r'', si_ip = None\<rparr>"

definition ex_create :: "string \<Rightarrow> secret_create" where
  "ex_create a = \<lparr>sc_alias = a, sc_tenant_id = ''t'', sc_env = ''prod'', sc_value = ''pw'', sc_description = None,
     sc_scope_tags = None, sc_rotation_interval_days = None\<rparr>"

definition ex_db1 :: "string \<Rightarrow> vault_db" where
  "ex_db1 a = snd (create_secret ex_env ex_id (ex_create a) ex_db)"

definition ex_secret :: "string \<Rightarrow> vault_secret" where
  "ex_secret a = (case fst (create_secret ex_env ex_id (ex_create a) ex_db) of Inr s \<Rightarrow> s)"

lemma ex_created: "create_secret ex_env ex_id (ex_create ''b.x'') ex_db = (Inr (ex_secret ''b.x''), ex_db1 ''b.x'')"
  by code_simp

lemma ex_created_a: "create_secret ex_env ex_id (ex_create ''a.x'') ex_db = (Inr (ex_secret ''a.x''), ex_db1 ''a.x'')"
  by code_simp

lemma ex_get_a: "store_get ''s1'' (ex_db1 ''a.x'') = Some (ex_secret ''a.x'')"
  by code_simp

lemma ex_active_a: "vs_is_active (ex_secret ''a.x'')"
  by code_simp

lemma ex_ok_a: "vault_ok (ex_db1 ''a.x'')"
  by code_simp

section \<open>Deleted aliases and renamed secrets\<close>

lemma create_secret_fails:
  assumes "ad_allowed (access_for db i ''write'' (sc_alias c) (sc_tenant_id c) (sc_env c))"
    and "store_get_by_alias (sc_alias c) (sc_tenant_id c) (sc_env c) db = None"
    and "\<exists>t \<in> set (vd_secrets db). triple t = (sc_alias c, sc_tenant_id c, sc_env c)"
    and "get_kek (ve_keys env) = Inr kek"
  shows "fst (create_secret env i c db) = Inl integrity_error"
proof -
  let ?d = "access_for db i ''write'' (sc_alias c) (sc_tenant_id c) (sc_env c)"
  let ?db1 = "log_event env i (blank_secret c) ''write'' (verdict ?d) (ad_reason ?d) db"
  have eq: "vd_secrets ?db1 = vd_secrets db" by (simp add: log_event_def)
  have "store_get_by_alias (sc_alias c) (sc_tenant_id c) (sc_env c) ?db1 = None"
    using assms(2) by (simp add: store_get_by_alias_def eq)
  moreover have "fst (store_create env c (si_service_id i) ?db1) = Inl integrity_error"
    using assms(3,4) unfolding store_create_def encrypt_secret_def Let_def
    by (simp add: eq same_triple_def triple_def) metis
  ultimately show ?thesis
    using assms(1) by (auto simp: create_secret_def Let_def split: prod.splits sum.splits)
qed

text \<open>deletion only clears the active flag, while the unique constraint covers inactive rows: once
  a secret was deleted, every permitted attempt to create it again ends in the database's
  integrity error, not in the 409 the handler keeps for duplicates.\<close>

theorem deleted_alias_blocked:
  assumes "delete_secret env i sid reason db = (Inr (), db1)" "vault_ok db" "store_get sid db = Some s"
    and "sc_alias c = vs_alias s" "sc_tenant_id c = vs_tenant_id s" "sc_env c = vs_env s"
    and "ad_allowed (access_for db1 i' ''write'' (sc_alias c) (sc_tenant_id c) (sc_env c))"
    and "get_kek (ve_keys env') = Inr kek"
  shows "get_vault_db (create_secret env' i' c) db1 = (Inl integrity_error, db1)"
proof -
  let ?s = "s\<lparr>vs_is_active := False\<rparr>"
  obtain l n where db1: "db1 = (store_put ?s (log_event env i s ''delete'' ''allowed'' l db))\<lparr>vd_notified := n\<rparr>"
    using assms(1,3) by (auto simp: delete_secret_def Let_def store_deactivate_def split: if_splits)
  have sid: "vs_id s = sid" "s \<in> set (vd_secrets db)" using store_get_Some[OF assms(3)] by auto
  have rows: "vd_secrets db1 = List.map (\<lambda>r. if vs_id r = sid then ?s else r) (vd_secrets db)"
    using sid by (simp add: db1 store_put_def log_event_def table_update_def update_rows_def cong: map_cong)
  have "\<not> vs_is_active r" if "r \<in> set (vd_secrets db1)" "triple r = triple s" for r
    using that assms(2) sid by (auto simp: rows vault_ok_def distinct_map inj_on_def)
  then have none: "store_get_by_alias (sc_alias c) (sc_tenant_id c) (sc_env c) db1 = None"
    using assms(4-6) by (auto simp: store_get_by_alias_def select_first_None triple_def)
  have "?s \<in> set (vd_secrets db1)" using sid by (auto simp: rows)
  then have "\<exists>t \<in> set (vd_secrets db1). triple t = (sc_alias c, sc_tenant_id c, sc_env c)"
    using assms(4-6) by (intro bexI[of _ ?s]) (auto simp: triple_def)
  from create_secret_fails[OF assms(7) none this assms(8)]
  show ?thesis by (cases "create_secret env' i' c db1") (simp add: get_vault_db_def)
qed

text \<open>an update is authorised against the old alias only.  A service that may write one alias and
  read another, but not read the first, obtains the first secret's value by renaming it to the second
  and reading it there.\<close>

theorem rename_then_read:
  assumes "store_get sid db = Some s" "vs_is_active s" "get_plaintext env s = Inr v"
    and "ad_allowed (secret_access db i ''write'' s)"
    and "ad_allowed (access_for db i ''read'' alias (vs_tenant_id s) (vs_env s))"
    and "\<forall>t \<in> set (vd_secrets db). vs_id t = sid \<or> triple t \<noteq> (alias, vs_tenant_id s, vs_env s)"
  shows "\<exists>s' db1 r db2. get_vault_db (update_secret env i sid \<lparr>su_alias = Some alias, su_tenant_id = None, su_env = None,
            su_value = None, su_description = None, su_scope_tags = None, su_rotation_interval_days = None,
            su_is_active = None\<rparr>) db = (Inr s', db1)
     \<and> get_vault_db (read_secret_value env i sid reason) db1 = (Inr r, db2) \<and> sr_value r = v"
proof -
  let ?u = "\<lparr>su_alias = Some alias, su_tenant_id = None, su_env = None, su_value = None, su_description = None,
     su_scope_tags = None, su_rotation_interval_days = None, su_is_active = None\<rparr>"
  let ?s = "s\<lparr>vs_alias := alias\<rparr>"
  let ?db1 = "log_event env i ?s ''write'' ''allowed'' ''Updated metadata'' (store_put ?s db)"
  have sid: "vs_id s = sid" using store_get_Some[OF assms(1)] by simp
  have "\<not> (\<exists>t \<in> set (vd_secrets db). vs_id t \<noteq> vs_id s \<and> same_triple ?s t)"
    using assms(6) sid by (auto simp: same_triple_def triple_def)
  then have up: "update_secret env i sid ?u db = (Inr ?s, ?db1)"
    using assms(1,2,4) by (simp add: update_secret_def Let_def store_update_def updated_meta_def upd_opt_def)
  have pol: "vd_policies ?db1 = vd_policies db" by (simp add: log_event_def store_put_def)
  have acc: "secret_access ?db1 i ''read'' ?s = access_for db i ''read'' alias (vs_tenant_id s) (vs_env s)"
    by (simp add: secret_access_def access_for_def get_policy_engine_def pol)
  have pt: "get_plaintext env ?s = Inr v" using assms(3) get_plaintext_cong[of ?s s env] by simp
  have get: "store_get sid ?db1 = Some ?s" using assms(1) sid by simp
  have "\<exists>r db2. read_secret_value env i sid reason ?db1 = (Inr r, db2) \<and> sr_value r = v"
    unfolding read_secret_value_def get using assms(2,5) pt acc
    by (simp add: reveal_secret_def Let_def)
  then show ?thesis using up by (auto simp: get_vault_db_Inr)
qed

theorem rename_then_read_witness:
  "\<exists>u s' db1 r db2. get_vault_db (update_secret ex_env ex_id ''s1'' u) (ex_db1 ''a.x'') = (Inr s', db1)
     \<and> get_vault_db (read_secret_value ex_env ex_id ''s1'' None) db1 = (Inr r, db2) \<and> sr_value r = ''pw''"
proof -
  have "get_plaintext ex_env (ex_secret ''a.x'') = Inr ''pw''" by code_simp
  moreover have "ad_allowed (secret_access (ex_db1 ''a.x'') ex_id ''write'' (ex_secret ''a.x''))" by code_simp
  moreover have "ad_allowed (access_for (ex_db1 ''a.x'') ex_id ''read'' ''b.x'' (vs_tenant_id (ex_secret ''a.x''))
      (vs_env (ex_secret ''a.x'')))" by code_simp
  moreover have "\<forall>t \<in> set (vd_secrets (ex_db1 ''a.x'')). vs_id t = ''s1''
      \<or> triple t \<noteq> (''b.x'', vs_tenant_id (ex_secret ''a.x''), vs_env (ex_secret ''a.x''))" by code_simp
  ultimately show ?thesis using rename_then_read[OF ex_get_a ex_active_a] by blast
qed

theorem deleted_alias_blocked_witness:
  "get_vault_db (create_secret ex_env ex_id (ex_create ''a.x''))
     (snd (delete_secret ex_env ex_id ''s1'' None (ex_db1 ''a.x'')))
   = (Inl integrity_error, snd (delete_secret ex_env ex_id ''s1'' None (ex_db1 ''a.x'')))"
proof -
  have "delete_secret ex_env ex_id ''s1'' None (ex_db1 ''a.x'')
      = (Inr (), snd (delete_secret ex_env ex_id ''s1'' None (ex_db1 ''a.x'')))" by code_simp
  moreover have "sc_alias (ex_create ''a.x'') = vs_alias (ex_secret ''a.x'')"
    "sc_tenant_id (ex_create ''a.x'') = vs_tenant_id (ex_secret ''a.x'')"
    "sc_env (ex_create ''a.x'') = vs_env (ex_secret ''a.x'')" by code_simp+
  moreover have "ad_allowed (access_for (snd (delete_secret ex_env ex_id ''s1'' None (ex_db1 ''a.x''))) ex_id ''write''
      (sc_alias (ex_create ''a.x'')) (sc_tenant_id (ex_create ''a.x'')) (sc_env (ex_create ''a.x'')))" by code_simp
  moreover obtain kek where "get_kek (ve_keys ex_env) = Inr kek"
    using example_encrypt by (auto simp: encrypt_secret_def ex_env_def split: sum.splits)
  ultimately show ?thesis using deleted_alias_blocked[OF _ ex_ok_a ex_get_a] by blast
qed


theorem vault_refines_map_witness: "value_of ex_env (ex_db1 ''b.x'') ''s1'' = Some ''pw''"
proof -
  have "aead_ok (ve_encrypt ex_env) (ve_decrypt ex_env)" "entropy_ok (ve_entropy ex_env)"
    by (simp_all add: ex_env_def plain_aead_ok example_entropy_ok)
  note vault_refines_map[OF this, of ex_db ex_id "ex_create ''b.x''" "ex_secret ''b.x''" "ex_db1 ''b.x''"]
  moreover have "store_get (ve_new_id ex_env) ex_db = None" by code_simp
  ultimately have "value_of ex_env (ex_db1 ''b.x'') = (value_of ex_env ex_db)(ve_new_id ex_env \<mapsto> sc_value (ex_create ''b.x''))"
    using ex_created by blast
  then show ?thesis by (simp add: ex_env_def ex_create_def)
qed


theorem denied_read_not_audited_witness:
  "snd (get_vault_db (read_secret_value ex_env ex_id ''s1'' None) (ex_db1 ''a.x'')) = ex_db1 ''a.x''"
proof -
  have "\<not> ad_allowed (secret_access (ex_db1 ''a.x'') ex_id ''read'' (ex_secret ''a.x''))" by code_simp
  from denied_read_not_audited[OF ex_get_a ex_active_a this] show ?thesis by simp
qed

end
