(* ===== verification/Redaction.thy ===== *)
theory Redaction
  imports JsonText
begin

text \<open>
  The three redactors: \<open>redact_dict\<close> of \<open>packages/shared/logging.py\<close> (log records and the event
  store), \<open>sanitize_dict\<close> of the vault (\<open>apps/secrets_agent/crypto/redaction.py\<close>) and the one the
  automation agent runs over step outputs (\<open>apps/automation_agent/redaction/logs.py\<close>), which also
  rewrites strings by a regular expression.
\<close>

section \<open>Log records and events\<close>

definition REDACTED :: string where
  "REDACTED = ''***REDACTED***''"

definition redact_words :: "string list" where
  "redact_words = [''password'', ''secret'', ''token'', ''api_key'', ''authorization'', ''cookie'', ''set-cookie'']"

definition redact_key :: "string \<Rightarrow> bool" where
  "redact_key k = list_ex (\<lambda>w. contains w (lower k)) redact_words"

fun redact_json :: "json \<Rightarrow> json" where
  "redact_json (JObj d) = JObj (List.map (\<lambda>(k, v). (k, if redact_key k then JStr REDACTED else redact_json v)) d)"
| "redact_json (JList xs) = JList (List.map redact_json xs)"
| "redact_json v = v"

text \<open>\<open>redaction_processor\<close>: redact the record, then a raw authorization header in \<open>headers\<close>.\<close>

definition redaction_processor :: "dict \<Rightarrow> dict" where
  "redaction_processor d =
     (case redact_json (JObj d) of
        JObj d' \<Rightarrow> (case map_of d' ''headers'' of
           Some (JObj h) \<Rightarrow> if dhas ''authorization'' h
             then dset ''headers'' (JObj (dset ''authorization'' (JStr REDACTED) h)) d' else d'
         | _ \<Rightarrow> d')
      | _ \<Rightarrow> d)"

text \<open>No dictionary at any depth, inside lists too, holds anything but the mask under a secret key.\<close>

fun masked :: "json \<Rightarrow> bool" where
  "masked (JObj d) = (\<forall>kv \<in> set d. if redact_key (fst kv) then snd kv = JStr REDACTED else masked (snd kv))"
| "masked (JList xs) = (\<forall>x \<in> set xs. masked x)"
| "masked v = True"

lemma masked_redact: "masked (redact_json v)"
  by (induction v) (auto split: prod.splits)

lemma redact_masked: "masked v \<Longrightarrow> redact_json v = v"
proof (induction v)
  case (JList xs)
  then show ?case by (simp add: map_idI)
next
  case (JObj d)
  have "(if redact_key (fst kv) then JStr REDACTED else redact_json (snd kv)) = snd kv" if "kv \<in> set d" for kv
  proof -
    obtain k v where kv: "kv = (k, v)" by (cases kv)
    show ?thesis using that JObj.prems JObj.IH[of kv v] kv by (auto split: if_splits)
  qed
  then show ?case by (auto simp: map_idI split_beta)
qed auto

lemma redact_keys: "redact_json (JObj d) = JObj d' \<Longrightarrow> List.map fst d' = List.map fst d"
  by (auto simp: split_beta)

text \<open>what the log processor lets through is masked at every depth, processing it again changes
  nothing, and no key is lost or added.\<close>

theorem redaction_processor_masks:
  "masked (JObj (redaction_processor d)) \<and> redaction_processor (redaction_processor d) = redaction_processor d
   \<and> List.map fst (redaction_processor d) = List.map fst d"
proof -
  obtain d' where d': "redact_json (JObj d) = JObj d'" by simp
  have m: "masked (JObj d')" using masked_redact[of "JObj d"] d' by (metis)
  have a: "redact_key ''authorization''" by code_simp
  have same: "redaction_processor x = x" if "masked (JObj x)" for x
  proof (cases "map_of x ''headers''")
    case None
    then show ?thesis using redact_masked[OF that] by (simp add: redaction_processor_def del: redact_json.simps)
  next
    case (Some h)
    have "AList.update k v y = y" if "map_of y k = Some v" for k y and v :: json
      using that by (induction y) (auto split: if_splits)
    note upd = this
    have nh: "\<not> redact_key ''headers''" by code_simp
    have mh: "masked h" using \<open>masked (JObj x)\<close> map_of_SomeD[OF Some] nh by auto
    show ?thesis
    proof (cases h)
      case (JObj hh)
      have "AList.update ''authorization'' (JStr REDACTED) hh = hh" if auth: "dhas ''authorization'' hh"
      proof -
        obtain v where v: "map_of hh ''authorization'' = Some v" using auth by (auto simp: dhas_def)
        then have "v = JStr REDACTED" using mh JObj map_of_SomeD[OF v] a by auto
        with v upd show ?thesis by simp
      qed
      then show ?thesis using redact_masked[OF that] Some JObj upd[OF Some]
        by (simp add: redaction_processor_def dset_def del: redact_json.simps)
    qed (use redact_masked[OF that] Some in \<open>simp_all add: redaction_processor_def del: redact_json.simps\<close>)
  qed
  have "redaction_processor d = redaction_processor d'"
    using d' redact_masked[OF m] by (simp add: redaction_processor_def del: redact_json.simps)
  then have "redaction_processor d = d'" using same[OF m] by simp
  then show ?thesis using m same[OF m] redact_keys[OF d'] by simp
qed

section \<open>The vault's sanitizer\<close>

definition vault_secret_key :: "string \<Rightarrow> bool" where
  "vault_secret_key k = list_ex (\<lambda>w. contains w (lower k))
     [''password'', ''secret'', ''token'', ''api_key'', ''private_key'', ''credential'']"

definition VAULT_REDACTED :: string where
  "VAULT_REDACTED = ''[REDACTED]''"

fun sanitize :: "nat \<Rightarrow> json \<Rightarrow> json" where
  "sanitize depth (JObj d) =
     (if depth > 5 then JObj d
      else JObj (List.map (\<lambda>(k, v). (k,
        case v of JObj _ \<Rightarrow> sanitize (depth + 1) v
        | _ \<Rightarrow> if vault_secret_key k then JStr VAULT_REDACTED else v)) d))"
| "sanitize depth v = v"

definition sanitize_dict :: "dict \<Rightarrow> dict" where
  "sanitize_dict d = (case sanitize 0 (JObj d) of JObj d' \<Rightarrow> d' | _ \<Rightarrow> d)"

text \<open>A secret reached through nested dictionaries alone: a path of keys whose last one is secret.\<close>

fun at_path :: "string list \<Rightarrow> json \<Rightarrow> json option" where
  "at_path [] v = Some v"
| "at_path (k # ks) (JObj d) = (case map_of d k of None \<Rightarrow> None | Some v \<Rightarrow> at_path ks v)"
| "at_path (k # ks) _ = None"

lemma map_of_sanitize:
  "map_of (List.map (\<lambda>(k, v). (k, f k v)) d) k = map_option (f k) (map_of d k)"
  by (induction d) auto

definition sanitize_entry :: "nat \<Rightarrow> string \<Rightarrow> json \<Rightarrow> json" where
  "sanitize_entry n k v = (case v of JObj _ \<Rightarrow> sanitize (n + 1) v
     | _ \<Rightarrow> if vault_secret_key k then JStr VAULT_REDACTED else v)"

lemma sanitize_obj: "n \<le> 5 \<Longrightarrow> sanitize n (JObj d) = JObj (List.map (\<lambda>(k, v). (k, sanitize_entry n k v)) d)"
  unfolding sanitize_entry_def by simp

declare sanitize.simps [simp del]

lemma sanitize_deep: "5 < n \<Longrightarrow> sanitize n (JObj d) = JObj d"
  by (simp add: sanitize.simps)

lemma sanitize_lookup: "map_of (sanitize_dict d) k = map_option (sanitize_entry 0 k) (map_of d k)"
  by (simp add: sanitize_dict_def sanitize_obj map_of_sanitize)

lemma sanitize_at_path:
  "n + length ks \<le> 6 \<Longrightarrow> ks \<noteq> [] \<Longrightarrow> at_path ks (JObj d) = Some v \<Longrightarrow> vault_secret_key (last ks) \<Longrightarrow> (\<And>e. v \<noteq> JObj e)
   \<Longrightarrow> at_path ks (sanitize n (JObj d)) = Some (JStr VAULT_REDACTED)"
proof (induction ks arbitrary: n d)
  case (Cons k ks)
  have n: "\<not> n > 5" using Cons.prems(1) by simp
  obtain w where w: "map_of d k = Some w" using Cons.prems(3) by (auto split: option.splits)
  show ?case
  proof (cases ks)
    case Nil
    then have "w = v" "vault_secret_key k" using Cons.prems w by auto
    then show ?thesis using n w Cons.prems(5) Nil
      by (cases v) (auto simp: sanitize_obj map_of_sanitize sanitize_entry_def)
  next
    case (Cons k' ks')
    then obtain e where e: "w = JObj e" using Cons.prems(3) w by (cases w) auto
    have "at_path ks (sanitize (Suc n) (JObj e)) = Some (JStr VAULT_REDACTED)"
      using Cons.IH[of "Suc n" e] Cons.prems Cons w e by auto
    then show ?thesis using n w e
      by (simp add: sanitize_obj[of n] map_of_sanitize sanitize_entry_def)
  qed
qed simp

text \<open>the sanitizer masks a secret under a chain of dictionaries up to six keys deep, but it
  does not look into lists at all, and below six dictionaries it hands the data back as they are.\<close>

theorem sanitize_reach:
  "(\<forall>ks v. at_path ks (JObj d) = Some v \<and> ks \<noteq> [] \<and> length ks \<le> 6 \<and> vault_secret_key (last ks) \<and> (\<forall>e. v \<noteq> JObj e)
      \<longrightarrow> at_path ks (JObj (sanitize_dict d)) = Some (JStr VAULT_REDACTED))
   \<and> (\<forall>k xs. map_of d k = Some (JList xs) \<and> \<not> vault_secret_key k \<longrightarrow> map_of (sanitize_dict d) k = Some (JList xs))
   \<and> sanitize 6 (JObj d) = JObj d"
proof (intro conjI allI impI)
  fix ks v
  assume "at_path ks (JObj d) = Some v \<and> ks \<noteq> [] \<and> length ks \<le> 6 \<and> vault_secret_key (last ks) \<and> (\<forall>e. v \<noteq> JObj e)"
  then have "at_path ks (sanitize 0 (JObj d)) = Some (JStr VAULT_REDACTED)"
    by (intro sanitize_at_path) auto
  moreover obtain d' where "sanitize 0 (JObj d) = JObj d'" by (simp add: sanitize_obj)
  ultimately show "at_path ks (JObj (sanitize_dict d)) = Some (JStr VAULT_REDACTED)"
    by (simp add: sanitize_dict_def)
next
  fix k xs
  assume "map_of d k = Some (JList xs) \<and> \<not> vault_secret_key k"
  then show "map_of (sanitize_dict d) k = Some (JList xs)"
    by (simp add: sanitize_lookup sanitize_entry_def)
qed (simp add: sanitize_deep)

theorem sanitize_reach_witness:
  "map_of (sanitize_dict [(''items'', JList [JObj [(''password'', JStr ''pw'')]])]) ''items''
     = Some (JList [JObj [(''password'', JStr ''pw'')]])"
proof -
  have "\<not> vault_secret_key ''items''" by code_simp
  then show ?thesis
    using sanitize_reach[of "[(''items'', JList [JObj [(''password'', JStr ''pw'')]])]"] by auto
qed

section \<open>The automation agent's redactor\<close>

text \<open>The regular expression \<open>(password|secret|token|key|pwd|auth|credential)[\s=:]+['"]?([^\s'"]+)['"]?\<close>,
  case-insensitive.  \<open>match_value\<close> is the part behind the keyword: separators are taken greedily and
  given back one by one, as the regular expression engine does.\<close>

definition cred_words :: "string list" where
  "cred_words = [''password'', ''secret'', ''token'', ''key'', ''pwd'', ''auth'', ''credential'']"

definition is_quote :: "char \<Rightarrow> bool" where
  "is_quote c = (c = CHR 0x22 \<or> c = CHR 0x27)"

definition is_sep :: "char \<Rightarrow> bool" where
  "is_sep c = (is_space c \<or> c = CHR ''='' \<or> c = CHR '':'')"

definition value_char :: "char \<Rightarrow> bool" where
  "value_char c = (\<not> is_space c \<and> \<not> is_quote c)"

definition drop_quote :: "string \<Rightarrow> string" where
  "drop_quote s = (case s of c # t \<Rightarrow> if is_quote c then t else s | [] \<Rightarrow> [])"

text \<open>What is left of the text behind a match of the value.\<close>

definition value_rest :: "string \<Rightarrow> string option" where
  "value_rest s = (let t = drop_quote s in
     if takeWhile value_char t = [] then None else Some (drop_quote (dropWhile value_char t)))"

fun match_value :: "nat \<Rightarrow> string \<Rightarrow> string option" where
  "match_value 0 s = None"
| "match_value (Suc n) s = (case value_rest (drop (Suc n) s) of Some r \<Rightarrow> Some r | None \<Rightarrow> match_value n s)"

definition match_cred :: "string \<Rightarrow> (string \<times> string) option" where
  "match_cred s = (case List.find (\<lambda>w. prefix w (lower s)) cred_words of
     None \<Rightarrow> None
   | Some w \<Rightarrow> (let t = drop (length w) s in
       case match_value (length (takeWhile is_sep t)) t of
         None \<Rightarrow> None | Some r \<Rightarrow> Some (take (length w) s, r)))"

fun sub_cred :: "nat \<Rightarrow> string \<Rightarrow> string" where
  "sub_cred 0 s = s"
| "sub_cred (Suc f) [] = []"
| "sub_cred (Suc f) (c # s) = (case match_cred (c # s) of
     None \<Rightarrow> c # sub_cred f s
   | Some (w, r) \<Rightarrow> w @ ''='' @ REDACTED @ sub_cred f r)"

definition redact_string :: "string \<Rightarrow> string" where
  "redact_string s = sub_cred (length s) s"

definition automation_key :: "string \<Rightarrow> bool" where
  "automation_key k = list_ex (\<lambda>w. contains w (lower k)) [''password'', ''secret'', ''token'', ''key'', ''auth'']"

fun automation_redact :: "json \<Rightarrow> json" and redact_item :: "json \<Rightarrow> json" where
  "automation_redact (JObj d) = JObj (List.map (\<lambda>(k, v). (k,
     if automation_key k then JStr REDACTED
     else case v of
       JObj _ \<Rightarrow> automation_redact v
     | JList xs \<Rightarrow> JList (List.map redact_item xs)
     | JStr s \<Rightarrow> JStr (redact_string s)
     | _ \<Rightarrow> v)) d)"
| "automation_redact v = v"
| "redact_item (JObj d) = automation_redact (JObj d)"
| "redact_item (JStr s) = JStr (redact_string s)"
| "redact_item v = v"

text \<open>\<open>pystr\<close> is Python's \<open>str\<close> of a value that is neither a dictionary nor a string.\<close>

definition ensure_safe_output :: "(json \<Rightarrow> string) \<Rightarrow> json \<Rightarrow> json" where
  "ensure_safe_output pystr v =
     (case v of
        JObj d \<Rightarrow> automation_redact v
      | JStr s \<Rightarrow> (case loads s of Some w \<Rightarrow> automation_redact w | None \<Rightarrow> automation_redact (JObj [(''raw_output'', JStr s)]))
      | _ \<Rightarrow> automation_redact (JObj [(''output'', JStr (pystr v))]))"

lemma value_rest_shorter: "value_rest s = Some r \<Longrightarrow> length r < length s"
proof -
  have dq: "length (drop_quote t) \<le> length t" for t by (cases t) (auto simp: drop_quote_def)
  assume "value_rest s = Some r"
  then have t: "takeWhile value_char (drop_quote s) \<noteq> []" "r = drop_quote (dropWhile value_char (drop_quote s))"
    by (auto simp: value_rest_def Let_def split: if_splits)
  have "length (dropWhile value_char (drop_quote s)) < length (drop_quote s)"
    using t(1) by (metis add_diff_cancel_right' append_Nil length_append length_dropWhile_le le_neq_implies_less
        append_same_eq takeWhile_dropWhile_id append_eq_append_conv)
  then show ?thesis unfolding t(2) using dq[of s] dq[of "dropWhile value_char (drop_quote s)"] by linarith
qed

lemma match_value_shorter: "match_value n s = Some r \<Longrightarrow> length r < length s"
  by (induction n s rule: match_value.induct)
    (auto split: option.splits dest!: value_rest_shorter)

lemma match_cred_shorter: "match_cred s = Some (w, r) \<Longrightarrow> length r < length s"
  by (auto simp: match_cred_def Let_def split: option.splits dest!: match_value_shorter)

lemma sub_cred_fuel: "length s \<le> f \<Longrightarrow> length s \<le> g \<Longrightarrow> sub_cred f s = sub_cred g s"
proof (induction f s arbitrary: g rule: sub_cred.induct)
  case (1 s)
  then show ?case by (cases g) auto
next
  case (2 f)
  then show ?case by (cases g) auto
next
  case (3 f c s)
  then obtain g' where g: "g = Suc g'" by (cases g) auto
  show ?case
  proof (cases "match_cred (c # s)")
    case None
    then show ?thesis using 3(1)[OF None, of g'] 3(3,4) g by simp
  next
    case (Some wr)
    then obtain w r where wr: "match_cred (c # s) = Some (w, r)" by (cases wr) auto
    then have "length r \<le> length s" using match_cred_shorter by fastforce
    then show ?thesis using 3(2)[OF wr refl, of g'] 3(3,4) wr g by simp
  qed
qed

text \<open>The scan always has fuel left: one recursion equation describes it on every text.\<close>

lemma redact_string_unfold:
  "redact_string (c # s) = (case match_cred (c # s) of
     None \<Rightarrow> c # redact_string s | Some (w, r) \<Rightarrow> w @ ''='' @ REDACTED @ redact_string r)"
proof (cases "match_cred (c # s)")
  case (Some wr)
  then obtain w r where wr: "match_cred (c # s) = Some (w, r)" by (cases wr) auto
  then have "length r \<le> length s" using match_cred_shorter by fastforce
  then have "sub_cred (length s) r = sub_cred (length r) r" by (intro sub_cred_fuel) auto
  then show ?thesis using wr by (simp add: redact_string_def)
qed (simp add: redact_string_def)

text \<open>Dictionaries, and dictionaries directly inside lists, are masked; a list inside a list is not
  looked into.\<close>

fun amasked :: "json \<Rightarrow> bool" and amasked_item :: "json \<Rightarrow> bool" where
  "amasked (JObj d) = (\<forall>kv \<in> set d. if automation_key (fst kv) then snd kv = JStr REDACTED
     else case snd kv of JObj _ \<Rightarrow> amasked (snd kv) | JList xs \<Rightarrow> (\<forall>x \<in> set xs. amasked_item x) | _ \<Rightarrow> True)"
| "amasked v = True"
| "amasked_item (JObj d) = amasked (JObj d)"
| "amasked_item v = True"

definition automation_entry :: "string \<Rightarrow> json \<Rightarrow> json" where
  "automation_entry k v = (if automation_key k then JStr REDACTED
     else case v of
       JObj _ \<Rightarrow> automation_redact v
     | JList xs \<Rightarrow> JList (List.map redact_item xs)
     | JStr s \<Rightarrow> JStr (redact_string s)
     | _ \<Rightarrow> v)"

definition amasked_entry :: "string \<Rightarrow> json \<Rightarrow> bool" where
  "amasked_entry k v = (if automation_key k then v = JStr REDACTED
     else case v of JObj _ \<Rightarrow> amasked v | JList xs \<Rightarrow> (\<forall>x \<in> set xs. amasked_item x) | _ \<Rightarrow> True)"

lemma automation_redact_obj: "automation_redact (JObj d) = JObj (List.map (\<lambda>(k, v). (k, automation_entry k v)) d)"
  unfolding automation_entry_def by simp

lemma amasked_obj: "amasked (JObj d) = (\<forall>kv \<in> set d. amasked_entry (fst kv) (snd kv))"
  unfolding amasked_entry_def by simp

lemma amasked_redact: "amasked (automation_redact v)" "amasked_item (redact_item w)"
proof (induction v and w rule: automation_redact_redact_item.induct)
  case (1 d)
  have "amasked_entry k (automation_entry k v)" if "(k, v) \<in> set d" for k v
    using 1[OF that refl] by (cases v) (auto simp: amasked_entry_def automation_entry_def automation_redact_obj)
  then show ?case by (auto simp: automation_redact_obj amasked_obj simp del: automation_redact.simps amasked.simps)
qed auto

text \<open>whatever a step returns, the dictionary stored for it has the mask under every key that
  names a credential, in dictionaries nested in dictionaries or directly in lists.\<close>

theorem stored_output_masked: "amasked (ensure_safe_output pystr v)"
  by (cases v) (simp_all only: ensure_safe_output_def json.case amasked_redact split: option.splits, auto simp: amasked_redact)

section \<open>Long runs of token characters\<close>

text \<open>\<open>re.sub("[...]{32,}", "[REDACTED]", text)\<close> for a class of characters: what several services do to
  an error text before they store it.\<close>

function redact_runs :: "(char \<Rightarrow> bool) \<Rightarrow> string \<Rightarrow> string" where
  "redact_runs p [] = []"
| "redact_runs p (c # s) =
     (if p c then
        (let run = takeWhile p (c # s) in
         (if length run \<ge> 32 then ''[REDACTED]'' else run) @ redact_runs p (dropWhile p (c # s)))
      else c # redact_runs p s)"
  by pat_completeness auto
termination
proof (relation "measure (length \<circ> snd)")
  fix p :: "char \<Rightarrow> bool" and c s assume "p c"
  then show "((p, dropWhile p (c # s)), p, c # s) \<in> measure (length \<circ> snd)"
    using length_dropWhile_le[of p s] by simp
qed simp_all

text \<open>No run of 32 or more characters of the class is left in a text.\<close>

definition runless :: "(char \<Rightarrow> bool) \<Rightarrow> string \<Rightarrow> bool" where
  "runless p e = (\<forall>u. sublist u e \<and> list_all p u \<longrightarrow> length u < 32)"

lemma runless_short: "length e < 32 \<Longrightarrow> runless p e"
  by (auto simp: runless_def dest: sublist_length_le)

lemma runless_append:
  assumes "runless p a" "runless p b" "b = [] \<or> \<not> p (hd b)"
  shows "runless p (a @ b)"
  unfolding runless_def
proof (intro allI impI, elim conjE)
  fix u assume u: "sublist u (a @ b)" "list_all p u"
  from u(1) consider "sublist u a" | "sublist u b" | u1 u2 where "u = u1 @ u2" "suffix u1 a" "prefix u2 b"
    by (auto simp: sublist_append)
  then show "length u < 32"
  proof cases
    case 3
    then have "u2 = []" using assms(3) u(2) by (cases u2) (auto simp: prefix_def)
    with 3 have "sublist u a" by (simp add: suffix_imp_sublist)
    with assms(1) u(2) show ?thesis by (simp add: runless_def)
  qed (use assms u in \<open>auto simp: runless_def\<close>)
qed

lemma runless_take: "runless p e \<Longrightarrow> runless p (take n e)"
  unfolding runless_def by (meson prefix_imp_sublist sublist_order.order_trans take_is_prefix)

lemma redact_runs_head: "redact_runs p s = [] \<or> p (hd s) \<or> \<not> p (hd (redact_runs p s))"
  by (cases s) (auto simp: Let_def)

lemma runless_Cons:
  assumes "runless p s" "\<not> p c"
  shows "runless p (c # s)"
  unfolding runless_def
proof (intro allI impI, elim conjE)
  fix u assume u: "sublist u (c # s)" "list_all p u"
  have "\<not> prefix u (c # s) \<or> u = []" using u(2) assms(2) by (cases u) auto
  then show "length u < 32" using u assms(1) by (auto simp: runless_def sublist_Cons_right)
qed

lemma redact_runs_runless: "runless p (redact_runs p s)"
proof (induction p s rule: redact_runs.induct)
  case (1 p)
  then show ?case by (simp add: runless_short)
next
  case (2 p c s)
  show ?case
  proof (cases "p c")
    case True
    let ?run = "takeWhile p (c # s)" and ?rest = "dropWhile p (c # s)"
    have "runless p (if length ?run \<ge> 32 then ''[REDACTED]'' else ?run)"
      by (auto intro: runless_short)
    moreover have "redact_runs p ?rest = [] \<or> \<not> p (hd (redact_runs p ?rest))"
      using redact_runs_head[of p ?rest] hd_dropWhile[of p "c # s"]
      by (cases "?rest = []") auto
    ultimately show ?thesis using 2(1)[OF True refl] True
      by (simp add: Let_def runless_append del: takeWhile.simps dropWhile.simps)
  next
    case False
    with 2(2)[OF False] show ?thesis by (simp add: runless_Cons)
  qed
qed

end
