(* ===== verification/EventBus.thy ===== *)
theory EventBus
  imports Redaction
begin

text \<open>
  The event bus of \<open>packages/shared/events\<close>: the envelope and its flat encoding for Redis streams
  (\<open>schema.py\<close>), one consumer iteration with acknowledgement, redelivery and dead-letter queue
  (\<open>transport.py\<close>), the event store (\<open>store.py\<close>) and \<open>emit_event\<close> (\<open>api.py\<close>).  Redis is not part of the
  repository: what it answers to XREADGROUP, XAUTOCLAIM, XPENDING, XRANGE and SCAN comes in as
  arguments, what the code asks it to change comes out as a list of commands.  A handler is a
  function on a state of its own.
\<close>

section \<open>The envelope\<close>

record event_actor =
  act_type :: string
  act_id :: string

record nexus_event =
  ne_event_id :: string
  ne_event_type :: string
  ne_event_version :: int
  ne_occurred_at :: string
  ne_produced_by :: string
  ne_correlation_id :: string
  ne_causation_id :: "string option"
  ne_actor :: event_actor
  ne_tenant_id :: "string option"
  ne_severity :: string
  ne_tags :: "string list"
  ne_payload :: dict
  ne_payload_schema_version :: int
  ne_idempotency_key :: "string option"
  ne_signature :: "string option"

record event_defaults =
  df_event_id :: string
  df_occurred_at :: string
  df_correlation_id :: string

type_synonym fields = "(string \<times> string) list"

definition opt_str :: "string option \<Rightarrow> string" where
  "opt_str s = (case s of None \<Rightarrow> [] | Some x \<Rightarrow> x)"

definition actor_json :: "event_actor \<Rightarrow> json" where
  "actor_json a = JObj [(''type'', JStr (act_type a)), (''id'', JStr (act_id a))]"

definition to_stream_dict :: "nexus_event \<Rightarrow> fields" where
  "to_stream_dict e =
     [(''event_id'', ne_event_id e), (''event_type'', ne_event_type e),
      (''event_version'', str_int (ne_event_version e)), (''occurred_at'', ne_occurred_at e),
      (''produced_by'', ne_produced_by e), (''correlation_id'', ne_correlation_id e),
      (''causation_id'', opt_str (ne_causation_id e)), (''actor'', dumps (actor_json (ne_actor e))),
      (''tenant_id'', opt_str (ne_tenant_id e)), (''severity'', ne_severity e),
      (''tags'', dumps (JList (List.map JStr (ne_tags e)))), (''payload'', dumps (JObj (ne_payload e))),
      (''payload_schema_version'', str_int (ne_payload_schema_version e)),
      (''idempotency_key'', opt_str (ne_idempotency_key e)), (''signature'', opt_str (ne_signature e))]"

definition json_decode_error :: exn where
  "json_decode_error = PyError ''JSONDecodeError'' []"

definition validation_error :: "string \<Rightarrow> exn" where
  "validation_error f = PyError ''ValidationError'' f"

definition str_field :: "fields \<Rightarrow> string \<Rightarrow> string option \<Rightarrow> string res" where
  "str_field raw k dflt = (case map_of raw k of Some s \<Rightarrow> Inr s
     | None \<Rightarrow> (case dflt of Some d \<Rightarrow> Inr d | None \<Rightarrow> Inl (validation_error k)))"

definition opt_field :: "fields \<Rightarrow> string \<Rightarrow> string option" where
  "opt_field raw k = (case map_of raw k of None \<Rightarrow> None
     | Some s \<Rightarrow> if s = [] \<or> s = ''None'' then None else Some s)"

definition int_field :: "fields \<Rightarrow> string \<Rightarrow> int res" where
  "int_field raw k = (case map_of raw k of None \<Rightarrow> Inr 1
     | Some s \<Rightarrow> of_opt (PyError ''ValueError'' ''invalid literal for int() with base 10'') (py_int s))"

definition json_field :: "fields \<Rightarrow> string \<Rightarrow> string \<Rightarrow> json res" where
  "json_field raw k dflt = of_opt json_decode_error (loads (case map_of raw k of None \<Rightarrow> dflt | Some s \<Rightarrow> s))"

fun json_strs :: "json list \<Rightarrow> string list option" where
  "json_strs [] = Some []"
| "json_strs (JStr s # xs) = map_option ((#) s) (json_strs xs)"
| "json_strs (_ # xs) = None"

definition valid_actor :: "json \<Rightarrow> event_actor res" where
  "valid_actor v = (case v of
     JObj d \<Rightarrow> (case (dget d ''type'' (JStr ''service''), dget d ''id'' (JStr [])) of
        (JStr t, JStr i) \<Rightarrow> Inr \<lparr>act_type = t, act_id = i\<rparr>
      | _ \<Rightarrow> Inl (validation_error ''actor''))
   | _ \<Rightarrow> Inl (validation_error ''actor''))"

definition valid_tags :: "json \<Rightarrow> string list res" where
  "valid_tags v = (case v of JList xs \<Rightarrow> of_opt (validation_error ''tags'') (json_strs xs)
     | _ \<Rightarrow> Inl (validation_error ''tags''))"

definition valid_payload :: "json \<Rightarrow> dict res" where
  "valid_payload v = (case v of JObj d \<Rightarrow> Inr d | _ \<Rightarrow> Inl (validation_error ''payload''))"

definition from_stream_dict :: "event_defaults \<Rightarrow> fields \<Rightarrow> nexus_event res" where
  "from_stream_dict df raw =
     bind_res (json_field raw ''actor'' ''{}'') (\<lambda>actor.
     bind_res (json_field raw ''payload'' ''{}'') (\<lambda>payload.
     bind_res (json_field raw ''tags'' ''[]'') (\<lambda>tags.
     bind_res (int_field raw ''event_version'') (\<lambda>version.
     bind_res (int_field raw ''payload_schema_version'') (\<lambda>psv.
     bind_res (str_field raw ''event_id'' (Some (df_event_id df))) (\<lambda>event_id.
     bind_res (str_field raw ''event_type'' None) (\<lambda>event_type.
     bind_res (str_field raw ''occurred_at'' (Some (df_occurred_at df))) (\<lambda>occurred_at.
     bind_res (str_field raw ''produced_by'' None) (\<lambda>produced_by.
     bind_res (str_field raw ''correlation_id'' (Some (df_correlation_id df))) (\<lambda>correlation_id.
     bind_res (str_field raw ''severity'' (Some ''info'')) (\<lambda>severity.
     bind_res (valid_actor actor) (\<lambda>act.
     bind_res (valid_tags tags) (\<lambda>tgs.
     bind_res (valid_payload payload) (\<lambda>pl.
       Inr \<lparr>ne_event_id = event_id, ne_event_type = event_type, ne_event_version = version,
            ne_occurred_at = occurred_at, ne_produced_by = produced_by, ne_correlation_id = correlation_id,
            ne_causation_id = opt_field raw ''causation_id'', ne_actor = act, ne_tenant_id = opt_field raw ''tenant_id'',
            ne_severity = severity, ne_tags = tgs, ne_payload = pl, ne_payload_schema_version = psv,
            ne_idempotency_key = opt_field raw ''idempotency_key'', ne_signature = opt_field raw ''signature''\<rparr>))))))))))))))"

definition stream_key :: "string \<Rightarrow> string" where
  "stream_key event_type = ''nexus:events:'' @ event_type"

text \<open>Events the flat encoding can carry: an optional field is not the empty string nor the word None,
  and the payload is a Python value.\<close>

definition carried :: "string option \<Rightarrow> bool" where
  "carried s = (s \<noteq> Some [] \<and> s \<noteq> Some ''None'')"

definition streamable :: "nexus_event \<Rightarrow> bool" where
  "streamable e = (carried (ne_causation_id e) \<and> carried (ne_tenant_id e) \<and> carried (ne_idempotency_key e)
     \<and> carried (ne_signature e) \<and> wf_json (JObj (ne_payload e)))"

lemma json_strs_JStr [simp]: "json_strs (List.map JStr xs) = Some xs"
  by (induction xs) auto

lemma opt_field_carried:
  "map_of raw k = Some (opt_str s) \<Longrightarrow> carried s \<Longrightarrow> opt_field raw k = s"
  by (cases s) (auto simp: opt_field_def opt_str_def carried_def)

lemma json_field_dumps: "map_of raw k = Some (dumps v) \<Longrightarrow> wf_json v \<Longrightarrow> json_field raw k d = Inr v"
  by (simp add: json_field_def loads_dumps)

lemma valid_actor_json [simp]: "valid_actor (actor_json a) = Inr a"
  by (simp add: valid_actor_def actor_json_def dget_def)

text \<open>an event survives the stream: reading back what was written yields the same event, whatever
  other fields a relay has added behind.\<close>

theorem stream_roundtrip:
  assumes "streamable e"
  shows "from_stream_dict df (to_stream_dict e @ extra) = Inr e"
proof -
  let ?r = "to_stream_dict e @ extra"
  have j: "json_field ?r ''actor'' d = Inr (actor_json (ne_actor e))" "json_field ?r ''payload'' d = Inr (JObj (ne_payload e))"
    "json_field ?r ''tags'' d = Inr (JList (List.map JStr (ne_tags e)))" for d
    using assms by (auto intro!: json_field_dumps simp: to_stream_dict_def actor_json_def streamable_def)
  have i: "int_field ?r ''event_version'' = Inr (ne_event_version e)"
    "int_field ?r ''payload_schema_version'' = Inr (ne_payload_schema_version e)"
    by (simp_all add: int_field_def to_stream_dict_def)
  have s: "str_field ?r ''event_id'' x = Inr (ne_event_id e)" "str_field ?r ''event_type'' x = Inr (ne_event_type e)"
    "str_field ?r ''occurred_at'' x = Inr (ne_occurred_at e)" "str_field ?r ''produced_by'' x = Inr (ne_produced_by e)"
    "str_field ?r ''correlation_id'' x = Inr (ne_correlation_id e)" "str_field ?r ''severity'' x = Inr (ne_severity e)" for x
    by (simp_all add: str_field_def to_stream_dict_def)
  have o: "opt_field ?r ''causation_id'' = ne_causation_id e" "opt_field ?r ''tenant_id'' = ne_tenant_id e"
    "opt_field ?r ''idempotency_key'' = ne_idempotency_key e" "opt_field ?r ''signature'' = ne_signature e"
    using assms by (auto intro!: opt_field_carried simp: to_stream_dict_def streamable_def)
  show ?thesis
    unfolding from_stream_dict_def j i s o by (simp add: valid_tags_def valid_payload_def)
qed

definition example_defaults :: event_defaults where
  "example_defaults = \<lparr>df_event_id = ''e0'', df_occurred_at = ''now'', df_correlation_id = ''c0''\<rparr>"

definition example_event :: nexus_event where
  "example_event = \<lparr>ne_event_id = ''e1'', ne_event_type = ''dns.zone'', ne_event_version = 2, ne_occurred_at = ''t'',
     ne_produced_by = ''dns-agent'', ne_correlation_id = ''c'', ne_causation_id = None,
     ne_actor = \<lparr>act_type = ''service'', act_id = ''dns-agent''\<rparr>, ne_tenant_id = Some ''nexus'', ne_severity = ''info'',
     ne_tags = [''a''], ne_payload = [(''zone'', JStr ''x.com''), (''n'', JInt (-3))], ne_payload_schema_version = 1,
     ne_idempotency_key = None, ne_signature = None\<rparr>"

theorem stream_roundtrip_witness: "from_stream_dict example_defaults (to_stream_dict example_event @ []) = Inr example_event"
  by (rule stream_roundtrip) (simp add: streamable_def carried_def example_event_def)

section \<open>One consumer iteration\<close>

definition MAX_DELIVERY_ATTEMPTS :: nat where
  "MAX_DELIVERY_ATTEMPTS = 3"

definition DLQ_STREAM :: string where
  "DLQ_STREAM = ''nexus:events:dlq''"

datatype redis_cmd =
    XAdd string fields
  | XAck string string string

type_synonym 'h handler = "'h \<Rightarrow> nexus_event \<Rightarrow> unit res \<times> 'h"
type_synonym pending_answer = "string \<Rightarrow> string \<Rightarrow> nat option res"

definition publish :: "nexus_event \<Rightarrow> redis_cmd list" where
  "publish e = [XAdd (stream_key (ne_event_type e)) (to_stream_dict e)]"

definition dlq_fields :: "fields \<Rightarrow> string \<Rightarrow> string \<Rightarrow> nat \<Rightarrow> fields" where
  "dlq_fields raw stream entry_id n =
     dset ''_delivery_attempts'' (str_int (int n)) (dset ''_original_entry_id'' entry_id (dset ''_original_stream'' stream raw))"

text \<open>\<open>_maybe_dlq\<close>; the answer is XPENDING's count for the entry, an error is logged and ignored.\<close>

definition maybe_dlq :: "string \<Rightarrow> string \<Rightarrow> string \<Rightarrow> fields \<Rightarrow> nat option res \<Rightarrow> redis_cmd list" where
  "maybe_dlq stream grp entry_id raw answer =
     (case answer of
        Inr (Some n) \<Rightarrow> if n \<ge> MAX_DELIVERY_ATTEMPTS
          then [XAdd DLQ_STREAM (dlq_fields raw stream entry_id n), XAck stream grp entry_id] else []
      | _ \<Rightarrow> [])"

definition process_entry ::
  "event_defaults \<Rightarrow> 'h handler \<Rightarrow> string \<Rightarrow> string \<Rightarrow> pending_answer \<Rightarrow> string \<times> fields \<Rightarrow> 'h \<Rightarrow> redis_cmd list \<times> 'h" where
  "process_entry df h stream grp pending entry st =
     (case entry of (entry_id, raw) \<Rightarrow>
       (case from_stream_dict df raw of
          Inl _ \<Rightarrow> (maybe_dlq stream grp entry_id raw (pending stream entry_id), st)
        | Inr e \<Rightarrow> (case h st e of
            (Inl _, st') \<Rightarrow> (maybe_dlq stream grp entry_id raw (pending stream entry_id), st')
          | (Inr _, st') \<Rightarrow> ([XAck stream grp entry_id], st'))))"

fun process_entries ::
  "event_defaults \<Rightarrow> 'h handler \<Rightarrow> string \<Rightarrow> string \<Rightarrow> pending_answer \<Rightarrow> (string \<times> fields) list \<Rightarrow> 'h \<Rightarrow> redis_cmd list \<times> 'h" where
  "process_entries df h stream grp pending [] st = ([], st)"
| "process_entries df h stream grp pending (x # xs) st =
     (case process_entry df h stream grp pending x st of
        (c1, st1) \<Rightarrow> (case process_entries df h stream grp pending xs st1 of (c2, st2) \<Rightarrow> (c1 @ c2, st2)))"

fun poll_and_process ::
  "event_defaults \<Rightarrow> 'h handler \<Rightarrow> string \<Rightarrow> pending_answer \<Rightarrow> (string \<times> (string \<times> fields) list) list \<Rightarrow> 'h \<Rightarrow> redis_cmd list \<times> 'h" where
  "poll_and_process df h grp pending [] st = ([], st)"
| "poll_and_process df h grp pending ((stream, entries) # rest) st =
     (case process_entries df h stream grp pending entries st of
        (c1, st1) \<Rightarrow> (case poll_and_process df h grp pending rest st1 of (c2, st2) \<Rightarrow> (c1 @ c2, st2)))"

text \<open>\<open>_claim_pending\<close>: per stream the claimed entries, or the error XAUTOCLAIM ended in.\<close>

fun claim_pending ::
  "event_defaults \<Rightarrow> 'h handler \<Rightarrow> string \<Rightarrow> pending_answer \<Rightarrow> (string \<Rightarrow> (string \<times> fields) list res) \<Rightarrow> string list \<Rightarrow> 'h \<Rightarrow> redis_cmd list \<times> 'h" where
  "claim_pending df h grp pending claimed [] st = ([], st)"
| "claim_pending df h grp pending claimed (stream # rest) st =
     (case (case claimed stream of Inl _ \<Rightarrow> ([], st) | Inr entries \<Rightarrow> process_entries df h stream grp pending entries st) of
        (c1, st1) \<Rightarrow> (case claim_pending df h grp pending claimed rest st1 of (c2, st2) \<Rightarrow> (c1 @ c2, st2)))"

record bus_answers =
  ba_read :: "(string \<times> (string \<times> fields) list) list res"
  ba_pending :: pending_answer
  ba_claimed :: "string \<Rightarrow> (string \<times> fields) list res"

definition subscribe_round :: "event_defaults \<Rightarrow> 'h handler \<Rightarrow> string \<Rightarrow> string list \<Rightarrow> bus_answers \<Rightarrow> 'h \<Rightarrow> redis_cmd list \<times> 'h" where
  "subscribe_round df h grp streams a st =
     (case ba_read a of
        Inl _ \<Rightarrow> ([], st)
      | Inr results \<Rightarrow> (case poll_and_process df h grp (ba_pending a) results st of
          (c1, st1) \<Rightarrow> (case claim_pending df h grp (ba_pending a) (ba_claimed a) streams st1 of
            (c2, st2) \<Rightarrow> (c1 @ c2, st2))))"

fun subscribe :: "event_defaults \<Rightarrow> 'h handler \<Rightarrow> string \<Rightarrow> string list \<Rightarrow> bus_answers list \<Rightarrow> 'h \<Rightarrow> redis_cmd list \<times> 'h" where
  "subscribe df h grp streams [] st = ([], st)"
| "subscribe df h grp streams (a # as) st =
     (case subscribe_round df h grp streams a st of
        (c1, st1) \<Rightarrow> (case subscribe df h grp streams as st1 of (c2, st2) \<Rightarrow> (c1 @ c2, st2)))"

definition resolve_streams :: "(string \<Rightarrow> string list) \<Rightarrow> string list \<Rightarrow> string list" where
  "resolve_streams scan patterns = sort (remdups (concat (List.map (\<lambda>p.
     if CHR ''*'' \<in> set p \<or> CHR ''?'' \<in> set p then scan (stream_key p) else [stream_key p]) patterns)))"

fun replay :: "event_defaults \<Rightarrow> 'h handler \<Rightarrow> (string \<times> fields) list \<Rightarrow> nat \<Rightarrow> 'h \<Rightarrow> nat res \<times> 'h" where
  "replay df h [] cnt st = (Inr cnt, st)"
| "replay df h ((i, raw) # rest) cnt st =
     (case from_stream_dict df raw of
        Inl e \<Rightarrow> (Inl e, st)
      | Inr ev \<Rightarrow> (case h st ev of (Inl e, st') \<Rightarrow> (Inl e, st') | (Inr _, st') \<Rightarrow> replay df h rest (Suc cnt) st'))"

datatype dlq_entry =
    DlqEvent string nexus_event "string option" "string option" "string option"
  | DlqRaw string fields

definition read_dlq :: "event_defaults \<Rightarrow> (string \<times> fields) list \<Rightarrow> dlq_entry list" where
  "read_dlq df entries = List.map (\<lambda>(i, raw). case from_stream_dict df raw of
     Inr e \<Rightarrow> DlqEvent i e (map_of raw ''_original_stream'') (map_of raw ''_original_entry_id'') (map_of raw ''_delivery_attempts'')
   | Inl _ \<Rightarrow> DlqRaw i raw) entries"

section \<open>Acknowledgement and dead letters\<close>

text \<open>An acknowledgement is justified when the entry was handled, or when its dead letter was written
  just before.\<close>

fun acks_justified :: "(string \<Rightarrow> string \<Rightarrow> bool) \<Rightarrow> redis_cmd list \<Rightarrow> bool" where
  "acks_justified handled [] = True"
| "acks_justified handled (XAck s g i # cs) = (handled s i \<and> acks_justified handled cs)"
| "acks_justified handled [XAdd s f] = False"
| "acks_justified handled (XAdd s f # XAck s' g i # cs) =
     (s = DLQ_STREAM \<and> map_of f ''_original_stream'' = Some s' \<and> map_of f ''_original_entry_id'' = Some i \<and> acks_justified handled cs)"
| "acks_justified handled (XAdd s f # XAdd s' f' # cs) = False"

lemma acks_justified_append:
  "acks_justified P c1 \<Longrightarrow> acks_justified P c2 \<Longrightarrow> acks_justified P (c1 @ c2)"
  by (induction P c1 rule: acks_justified.induct) auto

text \<open>Whether the handler, run on an entry in some state, returns.\<close>

definition handles :: "event_defaults \<Rightarrow> 'h handler \<Rightarrow> fields \<Rightarrow> bool" where
  "handles df h raw = (\<exists>e st st'. from_stream_dict df raw = Inr e \<and> h st e = (Inr (), st'))"

lemma maybe_dlq_justified: "acks_justified P (maybe_dlq s g i raw a)"
  by (auto simp: maybe_dlq_def dlq_fields_def split: sum.splits option.splits)

lemma process_entry_justified:
  "process_entry df h s g pd x st = (c, st') \<Longrightarrow> (handles df h (snd x) \<longrightarrow> P s (fst x)) \<Longrightarrow> acks_justified P c"
  by (cases x) (auto simp: process_entry_def handles_def maybe_dlq_justified split: sum.splits prod.splits)

lemma process_entries_justified:
  "process_entries df h s g pd xs st = (c, st') \<Longrightarrow> (\<forall>x \<in> set xs. handles df h (snd x) \<longrightarrow> P s (fst x)) \<Longrightarrow> acks_justified P c"
proof (induction xs arbitrary: st c)
  case (Cons x xs)
  then show ?case
    by (auto split: prod.splits intro!: acks_justified_append dest: process_entry_justified)
qed simp

lemma poll_justified:
  "poll_and_process df h g pd res st = (c, st') \<Longrightarrow>
   (\<forall>(s, xs) \<in> set res. \<forall>x \<in> set xs. handles df h (snd x) \<longrightarrow> P s (fst x)) \<Longrightarrow> acks_justified P c"
proof (induction df h g pd res st arbitrary: c st' rule: poll_and_process.induct)
  case (2 df h g pd s xs rest st)
  then show ?case
    by (auto split: prod.splits intro!: acks_justified_append dest: process_entries_justified)
qed simp

lemma claim_justified:
  "claim_pending df h g pd cl ss st = (c, st') \<Longrightarrow>
   (\<forall>s \<in> set ss. \<forall>xs. cl s = Inr xs \<longrightarrow> (\<forall>x \<in> set xs. handles df h (snd x) \<longrightarrow> P s (fst x))) \<Longrightarrow> acks_justified P c"
proof (induction ss arbitrary: st c)
  case (Cons s ss)
  then show ?case
    by (auto split: prod.splits sum.splits intro!: acks_justified_append dest: process_entries_justified)
qed simp

text \<open>The entries a sequence of rounds has been given to read or to claim.\<close>

definition delivered :: "string list \<Rightarrow> bus_answers list \<Rightarrow> (string \<times> string \<times> fields) set" where
  "delivered ss as = {(s, i, raw). \<exists>a \<in> set as.
      (\<exists>res xs. ba_read a = Inr res \<and> (s, xs) \<in> set res \<and> (i, raw) \<in> set xs)
    \<or> (\<exists>xs. s \<in> set ss \<and> ba_claimed a s = Inr xs \<and> (i, raw) \<in> set xs)}"

lemma round_justified:
  assumes "subscribe_round df h g ss a st = (c, st')"
    and "\<forall>s i raw. (s, i, raw) \<in> delivered ss [a] \<and> handles df h raw \<longrightarrow> P s i"
  shows "acks_justified P c"
proof (cases "ba_read a")
  case (Inl e)
  then show ?thesis using assms(1) by (simp add: subscribe_round_def)
next
  case (Inr res)
  obtain c1 st1 c2 where p: "poll_and_process df h g (ba_pending a) res st = (c1, st1)"
    "claim_pending df h g (ba_pending a) (ba_claimed a) ss st1 = (c2, st')" "c = c1 @ c2"
    using assms(1) Inr by (auto simp: subscribe_round_def split: prod.splits)
  have "acks_justified P c1"
    by (rule poll_justified[OF p(1)]) (use assms(2) Inr in \<open>fastforce simp: delivered_def\<close>)
  moreover have "acks_justified P c2"
    by (rule claim_justified[OF p(2)]) (use assms(2) in \<open>fastforce simp: delivered_def\<close>)
  ultimately show ?thesis unfolding p(3) by (rule acks_justified_append)
qed

text \<open>C5: over any run of the consumer loop every acknowledgement is justified: either the handler
  returned on a delivered entry with that identifier, or the entry was copied to the dead-letter
  stream, with its origin, in the command right before.  Nothing else is ever written.\<close>

theorem subscribe_acks_justified:
  "acks_justified (\<lambda>s i. \<exists>raw. (s, i, raw) \<in> delivered ss as \<and> handles df h raw) (fst (subscribe df h g ss as st))"
proof -
  have "subscribe df h g ss bs st = (c, st') \<Longrightarrow> set bs \<subseteq> set as \<Longrightarrow>
      acks_justified (\<lambda>s i. \<exists>raw. (s, i, raw) \<in> delivered ss as \<and> handles df h raw) c" for bs c st st'
  proof (induction bs arbitrary: st c)
    case (Cons b bs)
    then obtain c1 st1 c2 where r: "subscribe_round df h g ss b st = (c1, st1)"
      "subscribe df h g ss bs st1 = (c2, st')" "c = c1 @ c2" by (auto split: prod.splits)
    have "acks_justified (\<lambda>s i. \<exists>raw. (s, i, raw) \<in> delivered ss as \<and> handles df h raw) c1"
      by (rule round_justified[OF r(1)]) (use Cons.prems(2) in \<open>fastforce simp: delivered_def\<close>)
    then show ?case using Cons.IH[OF r(2)] Cons.prems(2) by (simp add: r(3) acks_justified_append)
  qed simp
  then show ?thesis by (cases "subscribe df h g ss as st") auto
qed

text \<open>Redelivery of one entry: Redis counts the deliveries of an entry and answers XPENDING with that
  count, so the \<open>n\<close>-th delivery is processed under the answer \<open>n\<close>.  An acknowledged entry is not
  delivered again.\<close>

fun redeliver :: "event_defaults \<Rightarrow> 'h handler \<Rightarrow> string \<Rightarrow> string \<Rightarrow> string \<times> fields \<Rightarrow> nat \<Rightarrow> nat \<Rightarrow> 'h \<Rightarrow> redis_cmd list \<times> 'h" where
  "redeliver df h s g x n 0 st = ([], st)"
| "redeliver df h s g x n (Suc k) st =
     (case process_entry df h s g (\<lambda>_ _. Inr (Some n)) x st of
        (c1, st1) \<Rightarrow> if XAck s g (fst x) \<in> set c1 then (c1, st1)
          else (case redeliver df h s g x (Suc n) k st1 of (c2, st2) \<Rightarrow> (c1 @ c2, st2)))"

lemma process_entry_fails:
  "process_entry df h s g (\<lambda>_ _. Inr (Some n)) (i, raw) st = (c, st') \<Longrightarrow>
     c = [XAck s g i] \<or> n < MAX_DELIVERY_ATTEMPTS \<and> c = []
     \<or> n \<ge> MAX_DELIVERY_ATTEMPTS \<and> c = [XAdd DLQ_STREAM (dlq_fields raw s i n), XAck s g i]"
  by (auto simp: process_entry_def maybe_dlq_def split: sum.splits prod.splits if_splits)

text \<open>C17: no entry is redelivered for ever and none is lost: at the latest with the third delivery it
  is acknowledged, and what the consumer wrote for it is either just that acknowledgement or the dead
  letter with the count three and the acknowledgement; later deliveries would add nothing.\<close>

theorem redelivery_ends:
  assumes "3 \<le> k"
  shows "fst (redeliver df h s g (i, raw) 1 k st) \<in>
    {[XAck s g i], [XAdd DLQ_STREAM (dlq_fields raw s i 3), XAck s g i]}"
proof -
  have "k = Suc (Suc (Suc (k - 3)))" using assms by simp
  then obtain m where k: "k = Suc (Suc (Suc m))" by blast
  obtain c1 s1 where 1: "process_entry df h s g (\<lambda>_ _. Inr (Some 1)) (i, raw) st = (c1, s1)" by fastforce
  obtain c2 s2 where 2: "process_entry df h s g (\<lambda>_ _. Inr (Some (Suc 1))) (i, raw) s1 = (c2, s2)" by fastforce
  obtain c3 s3 where 3: "process_entry df h s g (\<lambda>_ _. Inr (Some (Suc (Suc 1)))) (i, raw) s2 = (c3, s3)" by fastforce
  let ?a = "XAck s g i" and ?d = "XAdd DLQ_STREAM (dlq_fields raw s i 3)"
  have d: "c1 = [?a] \<or> c1 = []" "c2 = [?a] \<or> c2 = []" "c3 = [?a] \<or> c3 = [?d, ?a]"
    using process_entry_fails[OF 1] process_entry_fails[OF 2] process_entry_fails[OF 3]
    by (auto simp: MAX_DELIVERY_ATTEMPTS_def numeral_3_eq_3)
  obtain c4 where r: "fst (redeliver df h s g (i, raw) 1 k st) =
     (if ?a \<in> set c1 then c1 else c1 @ (if ?a \<in> set c2 then c2 else c2 @ (if ?a \<in> set c3 then c3 else c3 @ c4)))"
  proof
    let ?c4 = "fst (redeliver df h s g (i, raw) (Suc (Suc (Suc 1))) m s3)"
    show "fst (redeliver df h s g (i, raw) 1 k st) =
     (if ?a \<in> set c1 then c1 else c1 @ (if ?a \<in> set c2 then c2 else c2 @ (if ?a \<in> set c3 then c3 else c3 @ ?c4)))"
      unfolding k by (simp only: redeliver.simps 1 2 3 prod.case fst_conv snd_conv split_beta if_distrib[of fst])
  qed
  show ?thesis unfolding r using d by auto
qed

theorem redelivery_ends_witness:
  "fst (redeliver example_defaults (\<lambda>st e. (Inl (PyError ''Exception'' []), st)) ''s'' ''g'' (''1-0'', to_stream_dict example_event) 1 3 ())
     \<in> {[XAck ''s'' ''g'' ''1-0''], [XAdd DLQ_STREAM (dlq_fields (to_stream_dict example_event) ''s'' ''1-0'' 3), XAck ''s'' ''g'' ''1-0'']}"
  by (rule redelivery_ends) simp

section \<open>The event store\<close>

record bus_event =
  be_event :: nexus_event
  be_stream_id :: "string option"
  be_created_at :: int

text \<open>\<open>persist_event\<close>: the identifier is the primary key; the payload is stored redacted.\<close>

definition redact_payload :: "dict \<Rightarrow> dict" where
  "redact_payload d = (case redact_json (JObj d) of JObj d' \<Rightarrow> d' | _ \<Rightarrow> d)"

definition persist_event :: "int \<Rightarrow> nexus_event \<Rightarrow> string option \<Rightarrow> bus_event list \<Rightarrow> bus_event list res" where
  "persist_event now e stream_id rows =
     (if \<exists>r \<in> set rows. ne_event_id (be_event r) = ne_event_id e
      then Inl (PyError ''IntegrityError'' ''bus_events.id'')
      else Inr (insert_row \<lparr>be_event = e\<lparr>ne_payload := redact_payload (ne_payload e)\<rparr>,
                  be_stream_id = stream_id, be_created_at = now\<rparr> rows))"

definition given :: "string option \<Rightarrow> bool" where
  "given s = (s \<noteq> None \<and> s \<noteq> Some [])"

definition query_events ::
  "string option \<Rightarrow> string option \<Rightarrow> string option \<Rightarrow> string option \<Rightarrow> nat \<Rightarrow> nat \<Rightarrow> bus_event list \<Rightarrow> bus_event list" where
  "query_events event_type correlation_id tenant_id produced_by limit offset rows =
     take limit (drop offset (sort_key (\<lambda>r. - be_created_at r) (select_all (\<lambda>r. let e = be_event r in
        (given event_type \<longrightarrow> event_type = Some (ne_event_type e)) \<and>
        (given correlation_id \<longrightarrow> correlation_id = Some (ne_correlation_id e)) \<and>
        (given tenant_id \<longrightarrow> ne_tenant_id e = tenant_id) \<and>
        (given produced_by \<longrightarrow> produced_by = Some (ne_produced_by e))) rows)))"

record emit_args =
  em_event_type :: string
  em_payload :: dict
  em_produced_by :: string
  em_tenant_id :: "string option"
  em_correlation_id :: "string option"
  em_causation_id :: "string option"
  em_actor_type :: string
  em_actor_id :: "string option"
  em_severity :: string
  em_tags :: "string list"
  em_idempotency_key :: "string option"
  em_event_version :: int
  em_payload_schema_version :: int

definition or_str :: "string option \<Rightarrow> string \<Rightarrow> string" where
  "or_str s d = (case s of Some (c # t) \<Rightarrow> c # t | _ \<Rightarrow> d)"

definition build_event :: "event_defaults \<Rightarrow> string option \<Rightarrow> emit_args \<Rightarrow> nexus_event" where
  "build_event df context_correlation a =
     \<lparr>ne_event_id = df_event_id df, ne_event_type = em_event_type a, ne_event_version = em_event_version a,
      ne_occurred_at = df_occurred_at df, ne_produced_by = em_produced_by a,
      ne_correlation_id = or_str (case em_correlation_id a of None \<Rightarrow> context_correlation | Some c \<Rightarrow> Some c) [],
      ne_causation_id = em_causation_id a,
      ne_actor = \<lparr>act_type = em_actor_type a, act_id = or_str (em_actor_id a) (em_produced_by a)\<rparr>,
      ne_tenant_id = em_tenant_id a, ne_severity = em_severity a, ne_tags = em_tags a, ne_payload = em_payload a,
      ne_payload_schema_version = em_payload_schema_version a, ne_idempotency_key = em_idempotency_key a,
      ne_signature = None\<rparr>"

text \<open>\<open>emit_event\<close>: publish first (Redis answers the entry identifier or fails), then store the event
  when a session was passed; a failure of the store is logged and swallowed.\<close>

definition emit_event ::
  "event_defaults \<Rightarrow> int \<Rightarrow> string option \<Rightarrow> emit_args \<Rightarrow> string res \<Rightarrow> bus_event list option
    \<Rightarrow> (nexus_event \<times> redis_cmd list \<times> bus_event list option) res" where
  "emit_event df now context_correlation a xadd_answer db =
     (let e = build_event df context_correlation a in
      case xadd_answer of
        Inl er \<Rightarrow> Inl er
      | Inr stream_id \<Rightarrow> Inr (e, publish e, (case db of None \<Rightarrow> None
          | Some rows \<Rightarrow> Some (case persist_event now e (Some stream_id) rows of Inl _ \<Rightarrow> rows | Inr rows' \<Rightarrow> rows'))))"

text \<open>what is emitted is what is published, and the row the store keeps of it carries the same
  event with a fully masked payload under the stream identifier Redis assigned; an identifier that is
  already stored leaves the store unchanged without failing the emission.\<close>

theorem emit_event_stored:
  assumes "emit_event df now ctx a (Inr sid) (Some rows) = Inr (e, cmds, Some rows')"
  shows "cmds = publish e \<and>
    (if \<exists>r \<in> set rows. ne_event_id (be_event r) = ne_event_id e then rows' = rows
     else \<exists>r. rows' = rows @ [r] \<and> be_stream_id r = Some sid \<and> masked (JObj (ne_payload (be_event r)))
        \<and> be_event r = e\<lparr>ne_payload := redact_payload (ne_payload e)\<rparr>)"
proof -
  have "masked (JObj (redact_payload d))" for d
    using masked_redact[of "JObj d"] by (simp add: redact_payload_def)
  then show ?thesis
    using assms by (auto simp: emit_event_def Let_def persist_event_def insert_row_def split: if_splits)
qed

definition example_emit :: emit_args where
  "example_emit = \<lparr>em_event_type = ''auth.login'', em_payload = [(''user'', JStr ''u''), (''password'', JStr ''pw'')],
     em_produced_by = ''nexus-api'', em_tenant_id = None, em_correlation_id = None, em_causation_id = None,
     em_actor_type = ''user'', em_actor_id = None, em_severity = ''info'', em_tags = [], em_idempotency_key = None,
     em_event_version = 1, em_payload_schema_version = 1\<rparr>"

theorem emit_event_stored_witness:
  "\<exists>e cmds rows. emit_event \<lparr>df_event_id = ''e1'', df_occurred_at = ''t'', df_correlation_id = ''c''\<rparr> 5 None example_emit
      (Inr ''1-0'') (Some []) = Inr (e, cmds, Some rows) \<and> (\<exists>r. rows = [r] \<and> masked (JObj (ne_payload (be_event r))))"
proof -
  obtain e cmds rows where r: "emit_event \<lparr>df_event_id = ''e1'', df_occurred_at = ''t'', df_correlation_id = ''c''\<rparr> 5 None example_emit
      (Inr ''1-0'') (Some []) = Inr (e, cmds, Some rows)"
    by (simp add: emit_event_def Let_def)
  from emit_event_stored[OF r] r show ?thesis by auto
qed

end
