(* ===== verification/Automation.thy ===== *)
theory Automation
  imports Redaction
begin

text \<open>
  The automation agent: definitions, runs, step runs, dead letters and audit rows
  (\<open>apps/automation_agent/models.py\<close>, \<open>store/postgres.py\<close>), templating and the call of another agent
  (\<open>executor/templating.py\<close>, \<open>executor/http.py\<close>), the execution of one run and the worker tick
  (\<open>executor/worker.py\<close>), the scheduler tick (\<open>scheduler/cron.py\<close>), and the handlers of
  \<open>api/automations.py\<close>, \<open>api/runs.py\<close> and \<open>api/dlq.py\<close>.  The workflow of an automation has been
  validated by pydantic when it was stored, so a step is a record.  What other services answer, the
  clock, fresh identifiers and Jinja come in records of answers.
\<close>

section \<open>Tables\<close>

record workflow_step =
  ws_step_id :: string
  ws_agent_name :: string
  ws_action :: string
  ws_input :: dict
  ws_timeout_seconds :: int
  ws_max_attempts :: int
  ws_backoff_ms :: int

record automation =
  am_id :: string
  am_tenant_id :: string
  am_env :: string
  am_name :: string
  am_description :: "string option"
  am_schedule_cron :: "string option"
  am_enabled :: bool
  am_steps :: "workflow_step list"
  am_max_concurrent_runs :: int
  am_notify_on_failure :: bool
  am_notify_on_success :: bool
  am_created_at :: int

record automation_run =
  ar_id :: string
  ar_automation_id :: "string option"
  ar_tenant :: string
  ar_envname :: string
  ar_status :: string
  ar_idempotency_key :: string
  ar_correlation_id :: string
  ar_started_at :: "int option"
  ar_ended_at :: "int option"
  ar_error_summary :: "string option"
  ar_created_at :: int

record step_run =
  st_id :: string
  st_run_id :: string
  st_step_id :: string
  st_status :: string
  st_target_agent :: string
  st_attempt :: int
  st_output_summary :: "json option"
  st_last_error :: "string option"
  st_duration_ms :: "int option"
  st_started_at :: "int option"
  st_ended_at :: "int option"

record dlq_row =
  dl_run_id :: string
  dl_failed_at :: int
  dl_replay_count :: int
  dl_last_replay_at :: "int option"

record automation_audit =
  aa_correlation_id :: string
  aa_service_id :: string
  aa_action :: string
  aa_result :: string
  aa_tenant_id :: string
  aa_env :: string
  aa_automation_id :: "string option"
  aa_run_id :: "string option"
  aa_detail :: "string option"

text \<open>\<open>ad_sent\<close> holds severity, subject and idempotency key of the messages sent.\<close>

record automation_db =
  ad_automations :: "automation list"
  ad_runs :: "automation_run list"
  ad_steps :: "step_run list"
  ad_dlq :: "dlq_row list"
  ad_audit :: "automation_audit list"
  ad_sent :: "(string \<times> string \<times> string) list"

section \<open>Templating\<close>

type_synonym jinja = "string \<Rightarrow> dict \<Rightarrow> string option"

definition render_template :: "jinja \<Rightarrow> dict \<Rightarrow> string \<Rightarrow> string" where
  "render_template jj ctx s = (case jj s ctx of Some r \<Rightarrow> r | None \<Rightarrow> s)"

fun render_json :: "jinja \<Rightarrow> dict \<Rightarrow> json \<Rightarrow> json" and render_item :: "jinja \<Rightarrow> dict \<Rightarrow> json \<Rightarrow> json" where
  "render_json jj ctx (JObj d) = JObj (List.map (\<lambda>(k, v). (k, case v of
     JObj _ \<Rightarrow> render_json jj ctx v
   | JList xs \<Rightarrow> JList (List.map (render_item jj ctx) xs)
   | JStr s \<Rightarrow> JStr (render_template jj ctx s)
   | _ \<Rightarrow> v)) d)"
| "render_json jj ctx v = v"
| "render_item jj ctx (JObj d) = render_json jj ctx (JObj d)"
| "render_item jj ctx (JStr s) = JStr (render_template jj ctx s)"
| "render_item jj ctx v = v"

definition render_dict :: "jinja \<Rightarrow> dict \<Rightarrow> dict \<Rightarrow> dict" where
  "render_dict jj ctx d = (case render_json jj ctx (JObj d) of JObj d' \<Rightarrow> d' | _ \<Rightarrow> d)"

definition extract_variables :: "string \<Rightarrow> string \<Rightarrow> string \<Rightarrow> string \<Rightarrow> dict" where
  "extract_variables run_id tenant env now =
     [(''run_id'', JStr run_id), (''tenant_id'', JStr tenant), (''env'', JStr env), (''now'', JStr now), (''steps'', JObj [])]"

definition set_step_context :: "string \<Rightarrow> dict \<Rightarrow> dict \<Rightarrow> dict" where
  "set_step_context step_id v ctx =
     (case map_of ctx ''steps'' of
        Some (JObj s) \<Rightarrow> dset ''steps'' (JObj (dset step_id (JObj v) s)) ctx
      | _ \<Rightarrow> ctx)"

section \<open>Calling another agent\<close>

record resolved_agent =
  ra_base_url :: string
  ra_auth_scheme :: string
  ra_auth_secret_alias :: "string option"

record http_request =
  hq_method :: string
  hq_url :: string
  hq_headers :: "(string \<times> string) list"
  hq_json :: "dict option"
  hq_params :: "dict option"

datatype http_outcome =
    HTimeout
  | HFailure string
  | HResponse int json

record action_answers =
  an_resolve :: "resolved_agent res"
  an_secret :: "string option res"
  an_http :: "http_request \<Rightarrow> http_outcome"

definition upper_char :: "char \<Rightarrow> char" where
  "upper_char c = (let n = of_char c :: nat in if 97 \<le> n \<and> n \<le> 122 then char_of (n - 32) else c)"

fun exn_text :: "exn \<Rightarrow> string" where
  "exn_text (HTTPException n d) = str_int n @ '': '' @ d"
| "exn_text (SoRValidationError d c) = d"
| "exn_text (PyError k m) = m"

text \<open>\<open>action.strip().split(" ", 1)\<close> when there is a space to split at.\<close>

definition split_action :: "string \<Rightarrow> (string \<times> string) option" where
  "split_action a = (let s = strip a in
     case dropWhile (\<lambda>c. c \<noteq> CHR '' '') s of [] \<Rightarrow> None | _ # path \<Rightarrow> Some (takeWhile (\<lambda>c. c \<noteq> CHR '' '') s, path))"

definition build_request :: "resolved_agent \<Rightarrow> string \<Rightarrow> string \<Rightarrow> string \<Rightarrow> string \<Rightarrow> dict \<Rightarrow> http_request" where
  "build_request agent meth path secret correlation_id input =
     \<lparr>hq_method = meth,
      hq_url = ra_base_url agent @ (if prefix ''/'' path then path else ''/'' @ path),
      hq_headers = [(''X-Service-ID'', ''automation-agent''), (''X-Correlation-ID'', correlation_id),
        (''Content-Type'', ''application/json''), (''X-Agent-Key'', secret)],
      hq_json = (if meth \<in> {''POST'', ''PUT'', ''PATCH''} then Some input else None),
      hq_params = (if meth = ''GET'' then Some input else None)\<rparr>"

definition execute_agent_action ::
  "action_answers \<Rightarrow> string \<Rightarrow> string \<Rightarrow> dict \<Rightarrow> string \<Rightarrow> (bool \<times> json) res" where
  "execute_agent_action an agent_name action input correlation_id =
    (case an_resolve an of
       Inl e \<Rightarrow> Inr (False, JStr (''Resolution failed: '' @ exn_text e))
     | Inr agent \<Rightarrow>
       (case split_action action of
          None \<Rightarrow> Inr (False, JStr (''Invalid action format '' @ [CHR 0x27] @ action @ [CHR 0x27] @ ''. Expected '' @ [CHR 0x27] @ ''METHOD /path'' @ [CHR 0x27]))
        | Some (m, path) \<Rightarrow>
          (if ra_auth_scheme agent \<noteq> ''headers''
           then Inr (False, JStr (''Unsupported auth scheme '' @ [CHR 0x27] @ ra_auth_scheme agent @ [CHR 0x27] @ '' for agent '' @ agent_name))
           else case ra_auth_secret_alias agent of
             Some (c # alias) \<Rightarrow>
               (case an_secret an of
                  Inl e \<Rightarrow> Inl e
                | Inr (Some (k # key)) \<Rightarrow>
                   (case an_http an (build_request agent (List.map upper_char m) path (k # key) correlation_id input) of
                      HTimeout \<Rightarrow> Inr (False, JStr ''Agent request timed out'')
                    | HFailure msg \<Rightarrow> Inr (False, JStr msg)
                    | HResponse status body \<Rightarrow> Inr (\<not> (400 \<le> status \<and> status \<le> 599), body))
                | Inr _ \<Rightarrow> Inr (False, JStr (''Failed to retrieve auth secret '' @ [CHR 0x27] @ (c # alias) @ [CHR 0x27] @ '' from secrets-agent.'')))
           | _ \<Rightarrow> Inr (False, JStr (''Agent '' @ agent_name @ '' requires header auth but no secret alias is registered in registry.'')))))"

section \<open>One run\<close>

record run_env =
  re_now :: int
  re_now_iso :: string
  re_step_run_id :: "nat \<Rightarrow> string"
  re_step_start :: "nat \<Rightarrow> int"
  re_step_end :: "nat \<Rightarrow> int"
  re_end :: int
  re_answers :: "nat \<Rightarrow> nat \<Rightarrow> action_answers"
  re_jinja :: jinja
  re_pystr :: "json \<Rightarrow> string"

definition upd_run :: "string \<Rightarrow> (automation_run \<Rightarrow> automation_run) \<Rightarrow> automation_db \<Rightarrow> automation_db" where
  "upd_run i f db = db\<lparr>ad_runs := table_update ar_id i f (ad_runs db)\<rparr>"

definition upd_step :: "string \<Rightarrow> (step_run \<Rightarrow> step_run) \<Rightarrow> automation_db \<Rightarrow> automation_db" where
  "upd_step i f db = db\<lparr>ad_steps := table_update st_id i f (ad_steps db)\<rparr>"

definition create_step_runs :: "(nat \<Rightarrow> string) \<Rightarrow> string \<Rightarrow> workflow_step list \<Rightarrow> automation_db \<Rightarrow> automation_db" where
  "create_step_runs fresh run_id steps db = db\<lparr>ad_steps := ad_steps db @
     List.map (\<lambda>(i, s). \<lparr>st_id = fresh i, st_run_id = run_id, st_step_id = ws_step_id s, st_status = ''pending'',
        st_target_agent = ws_agent_name s, st_attempt = 1, st_output_summary = None, st_last_error = None,
        st_duration_ms = None, st_started_at = None, st_ended_at = None\<rparr>) (enumerate 0 steps)\<rparr>"

text \<open>The retry loop from one attempt on: a result, or the exception the call let through; the last
  error is kept across attempts.\<close>

fun run_attempts ::
  "run_env \<Rightarrow> automation_run \<Rightarrow> nat \<Rightarrow> workflow_step \<Rightarrow> dict \<Rightarrow> nat \<Rightarrow> nat \<Rightarrow> string option \<Rightarrow> automation_db
    \<Rightarrow> (json option \<times> string option) res \<times> automation_db" where
  "run_attempts env run i s input attempt 0 last_err db = (Inr (None, last_err), db)"
| "run_attempts env run i s input attempt (Suc k) last_err db =
     (let db1 = upd_step (re_step_run_id env i) (\<lambda>r. r\<lparr>st_attempt := int attempt\<rparr>) db in
      case execute_agent_action (re_answers env i attempt) (ws_agent_name s) (ws_action s) input (ar_correlation_id run) of
        Inl e \<Rightarrow> (Inl e, db1)
      | Inr (True, out) \<Rightarrow> (Inr (Some out, last_err), db1)
      | Inr (False, out) \<Rightarrow> run_attempts env run i s input (Suc attempt) k (Some (re_pystr env out)) db1)"

definition none_text :: "string option \<Rightarrow> string" where
  "none_text s = (case s of None \<Rightarrow> ''None'' | Some t \<Rightarrow> t)"

definition finish_step :: "run_env \<Rightarrow> nat \<Rightarrow> json option \<times> string option \<Rightarrow> step_run \<Rightarrow> step_run" where
  "finish_step env i res r =
     (let r1 = r\<lparr>st_ended_at := Some (re_step_end env i),
                 st_duration_ms := Some ((re_step_end env i - re_step_start env i) div 1000)\<rparr> in
      case res of
        (Some out, _) \<Rightarrow> r1\<lparr>st_status := ''succeeded'', st_output_summary := Some (ensure_safe_output (re_pystr env) out)\<rparr>
      | (None, err) \<Rightarrow> r1\<lparr>st_status := ''failed'', st_last_error := err\<rparr>)"

text \<open>The step loop from index \<open>i\<close> on; the result is the error summary of the failed step, if any.  On
  an exception the database is the one last committed.\<close>

fun run_steps ::
  "run_env \<Rightarrow> automation_run \<Rightarrow> nat \<Rightarrow> workflow_step list \<Rightarrow> dict \<Rightarrow> automation_db \<Rightarrow> string option res \<times> automation_db" where
  "run_steps env run i [] ctx db = (Inr None, db)"
| "run_steps env run i (s # ss) ctx db =
     (let sid = re_step_run_id env i;
          db1 = upd_step sid (\<lambda>r. r\<lparr>st_status := ''running'', st_started_at := Some (re_step_start env i)\<rparr>) db;
          input = render_dict (re_jinja env) ctx (ws_input s) in
      case run_attempts env run i s input 1 (nat (ws_max_attempts s)) None db1 of
        (Inl e, db2) \<Rightarrow> (Inl e, db2)
      | (Inr (Some out, err), db2) \<Rightarrow>
          run_steps env run (Suc i) ss
            (set_step_context (ws_step_id s) [(''output'', out), (''status'', JStr ''succeeded'')] ctx)
            (upd_step sid (finish_step env i (Some out, err)) db2)
      | (Inr (None, err), db2) \<Rightarrow>
          (Inr (Some (''Step '' @ [CHR 0x27] @ ws_step_id s @ [CHR 0x27] @ '' failed: '' @ none_text err)),
           upd_step sid (finish_step env i (None, err)) db2))"

definition write_audit ::
  "automation_run \<Rightarrow> automation \<Rightarrow> string \<Rightarrow> string option \<Rightarrow> automation_db \<Rightarrow> automation_db" where
  "write_audit run am result detail db = db\<lparr>ad_audit := insert_row
     \<lparr>aa_correlation_id = ar_correlation_id run, aa_service_id = ''automation-agent'', aa_action = ''run_workflow'',
      aa_result = result, aa_tenant_id = ar_tenant run, aa_env = ar_envname run, aa_automation_id = Some (am_id am),
      aa_run_id = Some (ar_id run), aa_detail = detail\<rparr> (ad_audit db)\<rparr>"

definition send_notification :: "string \<Rightarrow> string \<Rightarrow> string \<Rightarrow> automation_db \<Rightarrow> automation_db" where
  "send_notification severity subject key db = db\<lparr>ad_sent := insert_row (severity, subject, key) (ad_sent db)\<rparr>"

definition create_dlq_entry :: "int \<Rightarrow> string \<Rightarrow> automation_db \<Rightarrow> automation_db res" where
  "create_dlq_entry now run_id db =
     (if \<exists>d \<in> set (ad_dlq db). dl_run_id d = run_id then Inl (PyError ''IntegrityError'' ''automation_dlq.run_id'')
      else Inr (db\<lparr>ad_dlq := insert_row \<lparr>dl_run_id = run_id, dl_failed_at = now, dl_replay_count = 0,
        dl_last_replay_at = None\<rparr> (ad_dlq db)\<rparr>))"

definition find_automation :: "automation_run \<Rightarrow> automation_db \<Rightarrow> automation option" where
  "find_automation run db = (case ar_automation_id run of None \<Rightarrow> None
     | Some i \<Rightarrow> select_first (\<lambda>a. am_id a = i) (ad_automations db))"

definition finish_run ::
  "run_env \<Rightarrow> automation_run \<Rightarrow> automation \<Rightarrow> string option \<Rightarrow> automation_db \<Rightarrow> unit res \<times> automation_db" where
  "finish_run env run am error db =
    (case error of
       None \<Rightarrow>
         (let db1 = write_audit run am ''success'' None
                (upd_run (ar_id run) (\<lambda>r. r\<lparr>ar_ended_at := Some (re_end env), ar_status := ''succeeded''\<rparr>) db) in
          (Inr (), if am_notify_on_success am
             then send_notification ''info'' (''Automation Succeeded: '' @ am_name am) (''notify_success_'' @ ar_id run) db1
             else db1))
     | Some msg \<Rightarrow>
         (let db1 = upd_run (ar_id run) (\<lambda>r. r\<lparr>ar_ended_at := Some (re_end env), ar_status := ''failed'',
                ar_error_summary := Some msg\<rparr>) db in
          case create_dlq_entry (re_end env) (ar_id run) db1 of
            Inl e \<Rightarrow> (Inl e, db)
          | Inr db2 \<Rightarrow>
             (let db3 = write_audit run am ''failure'' (Some msg) db2 in
              (Inr (), if am_notify_on_failure am
                 then send_notification ''critical'' (''Automation Failed: '' @ am_name am) (''notify_failure_'' @ ar_id run) db3
                 else db3))))"

definition process_run :: "run_env \<Rightarrow> automation_run \<Rightarrow> automation_db \<Rightarrow> unit res \<times> automation_db" where
  "process_run env run db =
    (let db1 = upd_run (ar_id run) (\<lambda>r. r\<lparr>ar_status := ''running'', ar_started_at := Some (re_now env)\<rparr>) db in
     case find_automation run db1 of
       None \<Rightarrow> (Inr (), upd_run (ar_id run) (\<lambda>r. r\<lparr>ar_status := ''failed'',
           ar_error_summary := Some ''Parent automation definition not found'', ar_ended_at := Some (re_end env)\<rparr>) db1)
     | Some am \<Rightarrow>
        (case run_steps env run 0 (am_steps am) (extract_variables (ar_id run) (ar_tenant run) (ar_envname run) (re_now_iso env))
               (create_step_runs (re_step_run_id env) (ar_id run) (am_steps am) db1) of
           (Inl e, db2) \<Rightarrow> (Inl e, db2)
         | (Inr error, db2) \<Rightarrow> finish_run env run am error db2))"

section \<open>Store operations and the worker tick\<close>

definition get_automation :: "string \<Rightarrow> string \<Rightarrow> string \<Rightarrow> automation_db \<Rightarrow> automation option" where
  "get_automation i tenant env db =
     select_first (\<lambda>a. am_id a = i \<and> am_tenant_id a = tenant \<and> am_env a = env) (ad_automations db)"

definition list_automations :: "string \<Rightarrow> string \<Rightarrow> nat \<Rightarrow> automation_db \<Rightarrow> automation list" where
  "list_automations tenant env limit db = take limit (sort_key (\<lambda>a. - am_created_at a)
     (select_all (\<lambda>a. am_tenant_id a = tenant \<and> am_env a = env) (ad_automations db)))"

definition get_due_cron_automations :: "automation_db \<Rightarrow> automation list" where
  "get_due_cron_automations db =
     select_all (\<lambda>a. column_is_True (am_enabled a) \<and> am_schedule_cron a \<noteq> None) (ad_automations db)"

definition get_run_by_idempotency_key :: "string \<Rightarrow> automation_db \<Rightarrow> automation_run option" where
  "get_run_by_idempotency_key key db = select_first (\<lambda>r. ar_idempotency_key r = key) (ad_runs db)"

definition create_run ::
  "string \<Rightarrow> int \<Rightarrow> string \<Rightarrow> string \<Rightarrow> string \<Rightarrow> string \<Rightarrow> string option \<Rightarrow> automation_db \<Rightarrow> (automation_run \<times> automation_db) res" where
  "create_run new_id now tenant env key correlation_id automation_id db =
     (if \<exists>r \<in> set (ad_runs db). ar_idempotency_key r = key
      then Inl (PyError ''IntegrityError'' ''duplicate key value violates unique constraint'')
      else let r = \<lparr>ar_id = new_id, ar_automation_id = automation_id, ar_tenant = tenant, ar_envname = env,
             ar_status = ''pending'', ar_idempotency_key = key, ar_correlation_id = correlation_id, ar_started_at = None,
             ar_ended_at = None, ar_error_summary = None, ar_created_at = now\<rparr>
           in Inr (r, db\<lparr>ad_runs := insert_row r (ad_runs db)\<rparr>))"

definition get_run :: "string \<Rightarrow> string \<Rightarrow> string \<Rightarrow> automation_db \<Rightarrow> automation_run option" where
  "get_run i tenant env db = select_first (\<lambda>r. ar_id r = i \<and> ar_tenant r = tenant \<and> ar_envname r = env) (ad_runs db)"

definition list_runs :: "string \<Rightarrow> string \<Rightarrow> nat \<Rightarrow> automation_db \<Rightarrow> automation_run list" where
  "list_runs tenant env limit db = take limit (sort_key (\<lambda>r. - ar_created_at r)
     (select_all (\<lambda>r. ar_tenant r = tenant \<and> ar_envname r = env) (ad_runs db)))"

definition list_run_steps :: "string \<Rightarrow> string \<Rightarrow> string \<Rightarrow> automation_db \<Rightarrow> step_run list res" where
  "list_run_steps i tenant env db = (case get_run i tenant env db of
     None \<Rightarrow> Inl (HTTPException 404 ''Run not found'')
   | Some _ \<Rightarrow> Inr (select_all (\<lambda>s. st_run_id s = i) (ad_steps db)))"

definition get_pending_runs :: "nat \<Rightarrow> automation_db \<Rightarrow> automation_run list" where
  "get_pending_runs limit db = take limit (sort_key ar_created_at
     (select_all (\<lambda>r. ar_status r = ''pending'') (ad_runs db)))"

definition look_run :: "string \<Rightarrow> automation_db \<Rightarrow> automation_run option" where
  "look_run i db = table_look ar_id (ad_runs db) i"

text \<open>\<open>process_with_semaphore\<close>: an exception is logged and the run is left as it was committed.\<close>

definition process_one :: "(string \<Rightarrow> run_env) \<Rightarrow> string \<Rightarrow> automation_db \<Rightarrow> automation_db" where
  "process_one envs i db = (case look_run i db of
     None \<Rightarrow> db
   | Some run \<Rightarrow> if ar_status run = ''pending'' \<or> ar_status run = ''running'' then snd (process_run (envs i) run db) else db)"

definition mark_running :: "string list \<Rightarrow> automation_db \<Rightarrow> automation_db" where
  "mark_running ids db = foldl (\<lambda>d i. upd_run i (\<lambda>r. r\<lparr>ar_status := ''running''\<rparr>) d) db ids"

definition worker_tick :: "(string \<Rightarrow> run_env) \<Rightarrow> nat \<Rightarrow> automation_db \<Rightarrow> automation_db" where
  "worker_tick envs concurrency db =
     (let ids = List.map ar_id (get_pending_runs concurrency db) in
      foldl (\<lambda>d i. process_one envs i d) (mark_running ids db) ids)"

section \<open>The scheduler tick\<close>

record cron_env =
  ce_now :: int
  ce_time_key :: string
  ce_due :: "string \<Rightarrow> bool res"
  ce_run_id :: "string \<Rightarrow> string"
  ce_correlation_id :: "string \<Rightarrow> string"

definition sub_hourly :: "string \<Rightarrow> bool option" where
  "sub_hourly cron =
     (let field = takeWhile (\<lambda>c. \<not> is_space c) (lstrip cron); m = (if field = [] then ''*'' else field) in
      if m = ''*'' then Some True
      else if prefix ''*/'' m then map_option (\<lambda>n. n < 60) (py_int (drop 2 m)) else Some False)"

definition cron_one :: "cron_env \<Rightarrow> automation_db \<Rightarrow> automation \<Rightarrow> automation_db" where
  "cron_one env db a =
    (case ce_due env (case am_schedule_cron a of None \<Rightarrow> [] | Some c \<Rightarrow> c) of
       Inl _ \<Rightarrow> db
     | Inr False \<Rightarrow> db
     | Inr True \<Rightarrow>
        (let key = ''cron_'' @ am_id a @ ''_'' @ ce_time_key env in
         case create_run (ce_run_id env (am_id a)) (ce_now env) (am_tenant_id a) (am_env a) key
                (ce_correlation_id env (am_id a)) (Some (am_id a)) db of
           Inl _ \<Rightarrow> db
         | Inr (r, db1) \<Rightarrow>
            (if sub_hourly (case am_schedule_cron a of None \<Rightarrow> [] | Some c \<Rightarrow> c) = Some False
             then send_notification ''info'' ''Scheduled Automation'' (''auto-cron:'' @ key) db1 else db1)))"

definition check_cron_schedules :: "cron_env \<Rightarrow> automation_db \<Rightarrow> automation_db" where
  "check_cron_schedules env db = foldl (cron_one env) db (get_due_cron_automations db)"

section \<open>Handlers\<close>

record automation_identity =
  ai_service_id :: string
  ai_correlation_id :: string

definition automation_is_admin :: "automation_identity \<Rightarrow> bool" where
  "automation_is_admin i = (ai_service_id i = ''admin'')"

definition automation_service_identity ::
  "(string \<times> string) list \<Rightarrow> string \<Rightarrow> string \<Rightarrow> string option \<Rightarrow> string option \<Rightarrow> string \<Rightarrow> automation_identity res" where
  "automation_service_identity keys service_id key correlation request fresh =
     (case map_of keys service_id of
        Some (k # ks) \<Rightarrow> if k # ks = key
          then Inr \<lparr>ai_service_id = service_id, ai_correlation_id =
                 (case correlation of Some (c # cs) \<Rightarrow> c # cs
                  | _ \<Rightarrow> (case request of Some (r # rs) \<Rightarrow> r # rs | _ \<Rightarrow> fresh))\<rparr>
          else Inl (HTTPException 401 ''Invalid service credentials.'')
      | _ \<Rightarrow> Inl (HTTPException 401 ''Invalid service credentials.''))"

definition api_audit ::
  "automation_identity \<Rightarrow> string \<Rightarrow> string \<Rightarrow> string \<Rightarrow> string option \<Rightarrow> string option \<Rightarrow> automation_db \<Rightarrow> automation_db" where
  "api_audit i action tenant env automation_id run_id db = db\<lparr>ad_audit := insert_row
     \<lparr>aa_correlation_id = ai_correlation_id i, aa_service_id = ai_service_id i, aa_action = action, aa_result = ''success'',
      aa_tenant_id = tenant, aa_env = env, aa_automation_id = automation_id, aa_run_id = run_id, aa_detail = None\<rparr> (ad_audit db)\<rparr>"

definition create_automation :: "automation_identity \<Rightarrow> automation \<Rightarrow> automation_db \<Rightarrow> automation \<times> automation_db" where
  "create_automation i a db = (a, api_audit i ''create_automation'' (am_tenant_id a) (am_env a) (Some (am_id a)) None
     (db\<lparr>ad_automations := insert_row a (ad_automations db)\<rparr>))"

text \<open>A field of a PATCH body: not sent, sent as null, or sent with a value.\<close>

datatype 'a patch =
    Unset
  | SetNull
  | SetTo 'a

record automation_update =
  au_name :: "string patch"
  au_description :: "string patch"
  au_schedule_cron :: "string patch"
  au_enabled :: "bool patch"
  au_steps :: "workflow_step list patch"
  au_max_concurrent_runs :: "int patch"
  au_notify_on_failure :: "bool patch"
  au_notify_on_success :: "bool patch"

definition patched :: "'a \<Rightarrow> 'a patch \<Rightarrow> 'a" where
  "patched old p = (case p of SetTo v \<Rightarrow> v | _ \<Rightarrow> old)"

definition patched_opt :: "'a option \<Rightarrow> 'a patch \<Rightarrow> 'a option" where
  "patched_opt old p = (case p of SetTo v \<Rightarrow> Some v | SetNull \<Rightarrow> None | Unset \<Rightarrow> old)"

definition update_automation ::
  "automation_identity \<Rightarrow> string \<Rightarrow> automation_update \<Rightarrow> string \<Rightarrow> string \<Rightarrow> automation_db \<Rightarrow> (automation \<times> automation_db) res" where
  "update_automation i aid u tenant env db =
    (case get_automation aid tenant env db of
       None \<Rightarrow> Inl (HTTPException 404 ''Automation not found'')
     | Some a \<Rightarrow>
        if au_name u = SetNull \<or> au_enabled u = SetNull \<or> au_steps u = SetNull \<or> au_max_concurrent_runs u = SetNull
           \<or> au_notify_on_failure u = SetNull \<or> au_notify_on_success u = SetNull
        then Inl (PyError ''IntegrityError'' ''not-null constraint'')
        else let a' = a\<lparr>am_name := patched (am_name a) (au_name u), am_description := patched_opt (am_description a) (au_description u),
                am_schedule_cron := patched_opt (am_schedule_cron a) (au_schedule_cron u),
                am_enabled := patched (am_enabled a) (au_enabled u), am_steps := patched (am_steps a) (au_steps u),
                am_max_concurrent_runs := patched (am_max_concurrent_runs a) (au_max_concurrent_runs u),
                am_notify_on_failure := patched (am_notify_on_failure a) (au_notify_on_failure u),
                am_notify_on_success := patched (am_notify_on_success a) (au_notify_on_success u)\<rparr>
             in Inr (a', api_audit i ''update_automation'' tenant env (Some aid) None
                  (db\<lparr>ad_automations := table_update am_id aid (\<lambda>_. a') (ad_automations db)\<rparr>)))"

record trigger_request =
  tq_tenant_id :: "string option"
  tq_env :: "string option"
  tq_idempotency_key :: string
  tq_correlation_id :: "string option"

definition str_or :: "string option \<Rightarrow> string \<Rightarrow> string" where
  "str_or s d = (case s of Some (c # t) \<Rightarrow> c # t | _ \<Rightarrow> d)"

definition trigger_run ::
  "string \<Rightarrow> int \<Rightarrow> automation_identity \<Rightarrow> string \<Rightarrow> trigger_request \<Rightarrow> automation_db \<Rightarrow> (automation_run \<times> automation_db) res" where
  "trigger_run new_id now i aid q db =
    (let tenant = str_or (tq_tenant_id q) (ai_service_id i); env = str_or (tq_env q) ''prod'' in
     case get_automation aid tenant env db of
       None \<Rightarrow> Inl (HTTPException 404 (''Automation '' @ aid @ '' not found for tenant='' @ tenant @ '' env='' @ env))
     | Some a \<Rightarrow>
        (case get_run_by_idempotency_key (tq_idempotency_key q) db of
           Some r \<Rightarrow> Inr (r, db)
         | None \<Rightarrow>
            (case create_run new_id now tenant env (tq_idempotency_key q) (str_or (tq_correlation_id q) (ai_correlation_id i))
                    (Some (am_id a)) db of
               Inl e \<Rightarrow> Inl (HTTPException 500 (exn_text e))
             | Inr (r, db1) \<Rightarrow> Inr (r, send_notification ''info'' ''Automation Triggered'' (''auto-trigger:'' @ ar_id r)
                 (api_audit i ''trigger_run'' tenant env (Some (am_id a)) (Some (ar_id r)) db1)))))"

definition replay_dlq_run :: "int \<Rightarrow> automation_identity \<Rightarrow> string \<Rightarrow> automation_db \<Rightarrow> (string \<times> automation_db) res" where
  "replay_dlq_run now i run_id db =
    (if \<not> automation_is_admin i then Inl (HTTPException 403 ''Admin only'')
     else case select_first (\<lambda>r. ar_id r = run_id \<and> (\<exists>d \<in> set (ad_dlq db). dl_run_id d = ar_id r)) (ad_runs db) of
       None \<Rightarrow> Inl (HTTPException 404 ''DLQ entry not found for run'')
     | Some r \<Rightarrow> Inr (''requeued'',
         api_audit i ''replay_dlq'' (ar_tenant r) (ar_envname r) (ar_automation_id r) (Some run_id)
          ((upd_run run_id (\<lambda>r. r\<lparr>ar_status := ''pending'', ar_error_summary := None\<rparr>) db)
             \<lparr>ad_dlq := update_rows (\<lambda>d. dl_run_id d = run_id)
                (\<lambda>d. d\<lparr>dl_replay_count := dl_replay_count d + 1, dl_last_replay_at := Some now\<rparr>) (ad_dlq db)\<rparr>)))"

interpretation runs_table: keyed_table ar_id "table_look ar_id" insert_row "table_update ar_id"
  by (rule keyed_table_rows)

interpretation steps_table: keyed_table st_id "table_look st_id" insert_row "table_update st_id"
  by (rule keyed_table_rows)

section \<open>The retry loop\<close>

definition step_call :: "run_env \<Rightarrow> automation_run \<Rightarrow> nat \<Rightarrow> workflow_step \<Rightarrow> dict \<Rightarrow> nat \<Rightarrow> (bool \<times> json) res" where
  "step_call env run i s input n =
     execute_agent_action (re_answers env i n) (ws_agent_name s) (ws_action s) input (ar_correlation_id run)"

definition look_step :: "string \<Rightarrow> automation_db \<Rightarrow> step_run option" where
  "look_step i db = table_look st_id (ad_steps db) i"

definition step_status :: "automation_db \<Rightarrow> string \<Rightarrow> string option" where
  "step_status db i = map_option st_status (look_step i db)"

definition run_status :: "automation_db \<Rightarrow> string \<Rightarrow> string option" where
  "run_status db i = map_option ar_status (look_run i db)"

lemma look_step_upd [simp]:
  assumes "\<And>r. st_id (f r) = st_id r"
  shows "look_step j (upd_step i f db) = (if j = i then map_option f (look_step j db) else look_step j db)"
  using assms by (simp add: look_step_def upd_step_def steps_table.look_upd)

lemma look_run_upd [simp]:
  assumes "\<And>r. ar_id (f r) = ar_id r"
  shows "look_run j (upd_run i f db) = (if j = i then map_option f (look_run j db) else look_run j db)"
  using assms by (simp add: look_run_def upd_run_def runs_table.look_upd)

lemma upd_frame [simp]:
  "look_run j (upd_step i f db) = look_run j db" "look_step j (upd_run i g db) = look_step j db"
  "ad_dlq (upd_step i f db) = ad_dlq db" "ad_dlq (upd_run i g db) = ad_dlq db"
  "ad_runs (upd_step i f db) = ad_runs db" "ad_steps (upd_run i g db) = ad_steps db"
  "ad_automations (upd_step i f db) = ad_automations db" "ad_automations (upd_run i g db) = ad_automations db"
  by (simp_all add: look_run_def look_step_def upd_run_def upd_step_def)

lemma run_attempts_frame:
  assumes "run_attempts env run i s input a k err db = (res, db')"
  shows "ad_runs db' = ad_runs db \<and> ad_dlq db' = ad_dlq db \<and> ad_automations db' = ad_automations db
    \<and> step_status db' = step_status db"
  using assms
proof (induction k arbitrary: a err db)
  case (Suc k)
  let ?db1 = "upd_step (re_step_run_id env i) (\<lambda>r. r\<lparr>st_attempt := int a\<rparr>) db"
  have st: "step_status ?db1 = step_status db" by (auto simp: step_status_def fun_eq_iff option.map_comp comp_def)
  show ?case
    using Suc.prems Suc.IH[of "Suc a" _ ?db1] st
    by (auto simp: Let_def split: sum.splits prod.splits bool.splits)
qed simp

text \<open>the retry loop makes its calls one after the other from the first attempt: it stops at the
  first attempt that succeeds, with that attempt's output, and gives up exactly when every one of the
  allowed attempts was answered with a failure.\<close>

theorem run_attempts_first_success:
  assumes "fst (run_attempts env run i s input a k err db) = Inr (out, err')"
  shows "case out of
     Some v \<Rightarrow> \<exists>n. a \<le> n \<and> n < a + k \<and> step_call env run i s input n = Inr (True, v)
                \<and> (\<forall>m. a \<le> m \<and> m < n \<longrightarrow> (\<exists>w. step_call env run i s input m = Inr (False, w)))
   | None \<Rightarrow> \<forall>m. a \<le> m \<and> m < a + k \<longrightarrow> (\<exists>w. step_call env run i s input m = Inr (False, w))"
  using assms
proof (induction k arbitrary: a err db)
  case 0
  then show ?case by (auto split: option.splits)
next
  case (Suc k)
  note call = step_call_def[of env run i s input a]
  show ?case
  proof (cases "step_call env run i s input a")
    case (Inl e)
    then show ?thesis using Suc.prems by (simp add: call Let_def)
  next
    case (Inr b)
    obtain ok w where b: "b = (ok, w)" by (cases b)
    show ?thesis
    proof (cases ok)
      case True
      then show ?thesis using Suc.prems Inr b by (auto simp: call Let_def intro!: exI[of _ a])
    next
      case False
      then have rec: "fst (run_attempts env run i s input (Suc a) k (Some (re_pystr env w))
          (upd_step (re_step_run_id env i) (\<lambda>r. r\<lparr>st_attempt := int a\<rparr>) db)) = Inr (out, err')"
        using Suc.prems Inr b by (simp add: call Let_def)
      have here: "step_call env run i s input a = Inr (False, w)" using Inr b False by simp
      have split: "a \<le> m \<Longrightarrow> m = a \<or> Suc a \<le> m" for m by auto
      show ?thesis
      proof (cases out)
        case None
        then show ?thesis using Suc.IH[OF rec] here split by (auto simp: less_Suc_eq_le)
      next
        case (Some v)
        then obtain n where "Suc a \<le> n" "n < Suc a + k" "step_call env run i s input n = Inr (True, v)"
          "\<forall>m. Suc a \<le> m \<and> m < n \<longrightarrow> (\<exists>w. step_call env run i s input m = Inr (False, w))"
          using Suc.IH[OF rec] by auto
        then show ?thesis using Some here split by (auto intro!: exI[of _ n])
      qed
    qed
  qed
qed

section \<open>The step loop\<close>

lemma step_status_upd:
  assumes "\<And>r. st_id (f r) = st_id r"
  shows "step_status (upd_step i f db) = (step_status db)(i := map_option (\<lambda>r. st_status (f r)) (look_step i db))"
  using assms by (auto simp: step_status_def fun_eq_iff option.map_comp comp_def)

lemma finish_step_status:
  "st_id (finish_step env i res r) = st_id r"
  "st_status (finish_step env i res r) = (if fst res = None then ''failed'' else ''succeeded'')"
  by (cases res; cases "fst res"; simp add: finish_step_def Let_def)+

lemma run_steps_status:
  assumes "run_steps env run i ss ctx db = (Inr e, db')" "inj (re_step_run_id env)"
    and "\<forall>j < length ss. step_status db (re_step_run_id env (i + j)) = Some ''pending''"
  shows "\<exists>k \<le> length ss. (e = None \<longleftrightarrow> k = length ss) \<and>
     (\<forall>j < length ss. step_status db' (re_step_run_id env (i + j)) =
        Some (if j < k then ''succeeded'' else if j = k then ''failed'' else ''pending'')) \<and>
     (\<forall>x. x \<notin> re_step_run_id env ` {i..<i + length ss} \<longrightarrow> step_status db' x = step_status db x) \<and>
     ad_runs db' = ad_runs db \<and> ad_dlq db' = ad_dlq db \<and> ad_automations db' = ad_automations db"
  using assms(1,3)
proof (induction ss arbitrary: i ctx db)
  case Nil
  then show ?case by auto
next
  case (Cons s ss)
  let ?sid = "re_step_run_id env i"
  let ?db1 = "upd_step ?sid (\<lambda>r. r\<lparr>st_status := ''running'', st_started_at := Some (re_step_start env i)\<rparr>) db"
  let ?input = "render_dict (re_jinja env) ctx (ws_input s)"
  have here: "step_status db ?sid = Some ''pending''" using Cons.prems(2)[rule_format, of 0] by simp
  obtain res db2 where ra: "run_attempts env run i s ?input 1 (nat (ws_max_attempts s)) None ?db1 = (res, db2)" by fastforce
  obtain out err where res: "res = Inr (out, err)"
    using Cons.prems(1) ra by (cases res) (auto simp: Let_def)
  note fr = run_attempts_frame[OF ra]
  have st2: "step_status db2 = (step_status db)(?sid := Some ''running'')"
    using fr here by (simp add: step_status_upd) (auto simp: step_status_def)
  let ?db3 = "upd_step ?sid (finish_step env i (out, err)) db2"
  have st3: "step_status ?db3 = (step_status db)(?sid := Some (if out = None then ''failed'' else ''succeeded''))"
  proof -
    have "look_step ?sid db2 \<noteq> None" using st2 by (auto simp: step_status_def fun_eq_iff split: if_splits)
    then show ?thesis using st2 by (auto simp: step_status_upd finish_step_status)
  qed
  have other: "?sid \<noteq> re_step_run_id env (Suc i + j)" for j
    using assms(2) by (auto dest: injD)
  have keep: "ad_runs ?db3 = ad_runs db" "ad_dlq ?db3 = ad_dlq db" "ad_automations ?db3 = ad_automations db" using fr by simp_all
  show ?case
  proof (cases out)
    case None
    then have e: "e \<noteq> None" "db' = ?db3" using Cons.prems(1) ra res by (auto simp: Let_def)
    have "step_status db' (re_step_run_id env (i + j)) = Some (if j = 0 then ''failed'' else ''pending'')"
      if "j < length (s # ss)" for j
      using that e st3 None Cons.prems(2)[rule_format, of j] other[of "j - 1"] by (cases j) auto
    then show ?thesis
      using e st3 None keep by (intro exI[of _ 0]) auto
  next
    case (Some v)
    let ?ctx = "set_step_context (ws_step_id s) [(''output'', v), (''status'', JStr ''succeeded'')] ctx"
    have rec: "run_steps env run (Suc i) ss ?ctx ?db3 = (Inr e, db')"
      using Cons.prems(1) ra res Some by (simp add: Let_def)
    have pend: "\<forall>j < length ss. step_status ?db3 (re_step_run_id env (Suc i + j)) = Some ''pending''"
    proof (intro allI impI)
      fix j assume "j < length ss"
      then show "step_status ?db3 (re_step_run_id env (Suc i + j)) = Some ''pending''"
        using Cons.prems(2)[rule_format, of "Suc j"] st3 other[of j] by simp
    qed
    obtain k where k: "k \<le> length ss" "(e = None) = (k = length ss)"
      "\<forall>j < length ss. step_status db' (re_step_run_id env (Suc i + j)) =
        Some (if j < k then ''succeeded'' else if j = k then ''failed'' else ''pending'')"
      "\<forall>x. x \<notin> re_step_run_id env ` {Suc i..<Suc i + length ss} \<longrightarrow> step_status db' x = step_status ?db3 x"
      "ad_runs db' = ad_runs ?db3" "ad_dlq db' = ad_dlq ?db3" "ad_automations db' = ad_automations ?db3"
      using Cons.IH[OF rec pend] by blast
    have first: "step_status db' ?sid = Some ''succeeded''"
    proof -
      have "?sid \<notin> re_step_run_id env ` {Suc i..<Suc i + length ss}" using assms(2) by (auto dest: injD)
      then show ?thesis using k(4) st3 Some by simp
    qed
    have "step_status db' (re_step_run_id env (i + j)) =
        Some (if j < Suc k then ''succeeded'' else if j = Suc k then ''failed'' else ''pending'')"
      if "j < length (s # ss)" for j
      using that first k(3)[rule_format, of "j - 1"] by (cases j) auto
    moreover have "step_status db' x = step_status db x" if "x \<notin> re_step_run_id env ` {i..<i + length (s # ss)}" for x
    proof -
      have "x \<notin> re_step_run_id env ` {Suc i..<Suc i + length ss}" "x \<noteq> ?sid" using that by auto
      then show ?thesis using k(4) st3 by simp
    qed
    ultimately show ?thesis
      using k keep by (intro exI[of _ "Suc k"]) auto
  qed
qed

section \<open>What a run leaves behind\<close>

lemma create_step_runs_pending:
  assumes "look_step (fresh j) db = None" "j < length ss"
  shows "step_status (create_step_runs fresh rid ss db) (fresh j) = Some ''pending''"
proof -
  let ?new = "List.map (\<lambda>(i, s). \<lparr>st_id = fresh i, st_run_id = rid, st_step_id = ws_step_id s, st_status = ''pending'',
        st_target_agent = ws_agent_name s, st_attempt = 1, st_output_summary = None, st_last_error = None,
        st_duration_ms = None, st_started_at = None, st_ended_at = None\<rparr>) (enumerate 0 ss)"
  have "(j, ss ! j) \<in> set (enumerate 0 ss)"
    using assms(2) by (auto simp: in_set_enumerate_eq)
  then have "\<exists>r \<in> set ?new. st_id r = fresh j" by force
  then obtain r where r: "select_first (\<lambda>r. st_id r = fresh j) ?new = Some r"
    by (cases "select_first (\<lambda>r. st_id r = fresh j) ?new") (auto simp: select_first_None)
  then have "st_status r = ''pending''" using select_first_Some[OF r] by auto
  then show ?thesis
    using assms(1) r by (simp add: step_status_def look_step_def table_look_def create_step_runs_def select_first_append)
qed

lemma create_step_runs_frame [simp]:
  "ad_runs (create_step_runs f r ss db) = ad_runs db" "ad_dlq (create_step_runs f r ss db) = ad_dlq db"
  "ad_automations (create_step_runs f r ss db) = ad_automations db"
  by (simp_all add: create_step_runs_def)

lemma audit_frame [simp]:
  "look_run j (write_audit run am res det db) = look_run j db" "step_status (write_audit run am res det db) = step_status db"
  "ad_dlq (write_audit run am res det db) = ad_dlq db" "ad_runs (write_audit run am res det db) = ad_runs db"
  "look_run j (send_notification a b c db) = look_run j db" "step_status (send_notification a b c db) = step_status db"
  "ad_dlq (send_notification a b c db) = ad_dlq db" "ad_runs (send_notification a b c db) = ad_runs db"
  by (simp_all add: look_run_def step_status_def look_step_def write_audit_def send_notification_def fun_eq_iff)

lemma step_status_upd_run [simp]: "step_status (upd_run i f db) = step_status db"
  by (simp add: step_status_def fun_eq_iff)

definition in_dlq :: "string \<Rightarrow> automation_db \<Rightarrow> bool" where
  "in_dlq i db = (\<exists>d \<in> set (ad_dlq db). dl_run_id d = i)"

lemma finish_run_Inr:
  assumes "finish_run env run am e db = (Inr (), db')" "look_run (ar_id run) db \<noteq> None"
  shows "run_status db' (ar_id run) = Some (if e = None then ''succeeded'' else ''failed'')
    \<and> step_status db' = step_status db \<and> (in_dlq (ar_id run) db' \<longleftrightarrow> e \<noteq> None \<or> in_dlq (ar_id run) db)
    \<and> (e \<noteq> None \<longrightarrow> \<not> in_dlq (ar_id run) db)"
  using assms
  by (auto simp: finish_run_def run_status_def Let_def create_dlq_entry_def in_dlq_def step_status_def look_step_def look_run_def
      upd_run_def fun_eq_iff runs_table.look_upd write_audit_def send_notification_def split: option.splits sum.splits if_splits)

text \<open>C19: a run that ends normally went through its steps in order: a prefix succeeded, the step behind
  it, if there is one, failed, and nothing after it was started.  The run is marked succeeded exactly
  when no step failed, and a failed run, and only that, got its dead-letter entry.\<close>

theorem process_run_outcome:
  assumes "process_run env run db = (Inr (), db')" "find_automation run db = Some am" "inj (re_step_run_id env)"
    and "\<forall>j. look_step (re_step_run_id env j) db = None" "look_run (ar_id run) db \<noteq> None"
  shows "\<exists>k \<le> length (am_steps am).
     (\<forall>j < length (am_steps am). step_status db' (re_step_run_id env j) =
        Some (if j < k then ''succeeded'' else if j = k then ''failed'' else ''pending''))
   \<and> run_status db' (ar_id run) = Some (if k = length (am_steps am) then ''succeeded'' else ''failed'')
   \<and> (in_dlq (ar_id run) db' \<longleftrightarrow> k < length (am_steps am) \<or> in_dlq (ar_id run) db)"
proof -
  let ?db1 = "upd_run (ar_id run) (\<lambda>r. r\<lparr>ar_status := ''running'', ar_started_at := Some (re_now env)\<rparr>) db"
  let ?db2 = "create_step_runs (re_step_run_id env) (ar_id run) (am_steps am) ?db1"
  let ?ctx = "extract_variables (ar_id run) (ar_tenant run) (ar_envname run) (re_now_iso env)"
  have fa: "find_automation run ?db1 = Some am" using assms(2) by (simp add: find_automation_def split: option.splits)
  obtain e db3 where rs: "run_steps env run 0 (am_steps am) ?ctx ?db2 = (Inr e, db3)" "finish_run env run am e db3 = (Inr (), db')"
    using assms(1) fa by (auto simp: process_run_def Let_def split: prod.splits sum.splits)
  have pend: "\<forall>j < length (am_steps am). step_status ?db2 (re_step_run_id env (0 + j)) = Some ''pending''"
    using create_step_runs_pending[where db = ?db1] assms(4) by simp
  obtain k where k: "k \<le> length (am_steps am)" "(e = None) = (k = length (am_steps am))"
    "\<forall>j < length (am_steps am). step_status db3 (re_step_run_id env j) =
        Some (if j < k then ''succeeded'' else if j = k then ''failed'' else ''pending'')"
    "ad_runs db3 = ad_runs ?db2" "ad_dlq db3 = ad_dlq ?db2"
    using run_steps_status[OF rs(1) assms(3) pend] by auto
  have "look_run (ar_id run) db3 \<noteq> None"
    using assms(5) k(4) look_run_upd[of "\<lambda>r. r\<lparr>ar_status := ''running'', ar_started_at := Some (re_now env)\<rparr>" "ar_id run" "ar_id run" db]
    by (simp add: look_run_def)
  note fin = finish_run_Inr[OF rs(2) this]
  have "in_dlq (ar_id run) db3 = in_dlq (ar_id run) db" using k(5) by (simp add: in_dlq_def)
  then show ?thesis using fin k(1-3) by (intro exI[of _ k]) auto
qed

text \<open>a replayed run that fails once more hits the unique constraint of the dead-letter table: the
  call ends with the database's error, and the run stays in status running, where no worker tick finds
  it again.\<close>

theorem replayed_failure_stuck:
  assumes "find_automation run db = Some am" "look_run (ar_id run) db \<noteq> None" "in_dlq (ar_id run) db"
    and "run_steps env run 0 (am_steps am) (extract_variables (ar_id run) (ar_tenant run) (ar_envname run) (re_now_iso env))
       (create_step_runs (re_step_run_id env) (ar_id run) (am_steps am)
         (upd_run (ar_id run) (\<lambda>r. r\<lparr>ar_status := ''running'', ar_started_at := Some (re_now env)\<rparr>) db)) = (Inr (Some msg), db2)"
    and "inj (re_step_run_id env)" "\<forall>j. look_step (re_step_run_id env j) db = None"
  shows "isl (fst (process_run env run db)) \<and> run_status (snd (process_run env run db)) (ar_id run) = Some ''running''
    \<and> (\<forall>n. \<forall>r \<in> set (get_pending_runs n (snd (process_run env run db))). ar_status r \<noteq> ''running'')"
proof -
  let ?db1 = "upd_run (ar_id run) (\<lambda>r. r\<lparr>ar_status := ''running'', ar_started_at := Some (re_now env)\<rparr>) db"
  have fa: "find_automation run ?db1 = Some am" using assms(1) by (simp add: find_automation_def split: option.splits)
  have pend: "\<forall>j < length (am_steps am). step_status (create_step_runs (re_step_run_id env) (ar_id run) (am_steps am) ?db1)
      (re_step_run_id env (0 + j)) = Some ''pending''"
    using create_step_runs_pending[where db = ?db1] assms(6) by simp
  have fr: "ad_runs db2 = ad_runs ?db1" "ad_dlq db2 = ad_dlq db"
    using run_steps_status[OF assms(4,5) pend] by auto
  have "finish_run env run am (Some msg) db2 = (Inl (PyError ''IntegrityError'' ''automation_dlq.run_id''), db2)"
    using assms(3) fr(2) by (auto simp: finish_run_def Let_def create_dlq_entry_def in_dlq_def)
  then have pr: "process_run env run db = (Inl (PyError ''IntegrityError'' ''automation_dlq.run_id''), db2)"
    using assms(4) fa by (simp add: process_run_def Let_def)
  have "run_status db2 (ar_id run) = Some ''running''"
    using assms(2) fr(1) look_run_upd[of "\<lambda>r. r\<lparr>ar_status := ''running'', ar_started_at := Some (re_now env)\<rparr>" "ar_id run" "ar_id run" db]
    by (auto simp: run_status_def look_run_def)
  then show ?thesis
    using pr by (auto simp: get_pending_runs_def select_all_def dest: in_set_takeD)
qed

text \<open>the scheduler tick never enqueues a run, whatever automations are enabled and due: the filter
  compares the column object with True in Python, which selects no row.\<close>

theorem cron_never_enqueues: "check_cron_schedules env db = db"
  by (simp add: check_cron_schedules_def get_due_cron_automations_def select_all_def)

lemma trigger_run_cases:
  assumes "trigger_run nid now i aid q db = Inr (r, db')"
  obtains "get_run_by_idempotency_key (tq_idempotency_key q) db = Some r" "db' = db"
  | "get_run_by_idempotency_key (tq_idempotency_key q) db = None" "ar_idempotency_key r = tq_idempotency_key q" "ar_id r = nid"
    "ar_status r = ''pending''" "ad_runs db' = insert_row r (ad_runs db)" "ad_automations db' = ad_automations db"
    "ad_dlq db' = ad_dlq db"
  using assms
  by (auto simp: trigger_run_def Let_def create_run_def send_notification_def api_audit_def split: option.splits sum.splits if_splits)

text \<open>A trigger is recorded when its automation is visible and its key is taken.\<close>

definition trigger_recorded :: "automation_identity \<times> string \<times> trigger_request \<Rightarrow> automation_db \<Rightarrow> bool" where
  "trigger_recorded = (\<lambda>(i, aid, q) db. get_automation aid (str_or (tq_tenant_id q) (ai_service_id i)) (str_or (tq_env q) ''prod'') db \<noteq> None
     \<and> get_run_by_idempotency_key (tq_idempotency_key q) db \<noteq> None)"

lemma trigger_run_records:
  assumes "trigger_run nid now i aid q db = Inr (r, db')"
  shows "trigger_recorded (i, aid, q) db'"
proof -
  have "get_automation aid (str_or (tq_tenant_id q) (ai_service_id i)) (str_or (tq_env q) ''prod'') db \<noteq> None"
    using assms by (auto simp: trigger_run_def Let_def split: option.splits)
  then show ?thesis
    by (rule_tac trigger_run_cases[OF assms])
      (auto simp: trigger_recorded_def get_automation_def get_run_by_idempotency_key_def split: option.splits)
qed

interpretation trigger: idempotent_op "\<lambda>(nid, now, t) db. (\<lambda>(i, aid, q). trigger_run nid now i aid q db) t"
  "\<lambda>(nid, now, t). trigger_recorded t"
proof (unfold_locales, goal_cases)
  case (1 x d)
  then show ?case by (auto simp: trigger_recorded_def trigger_run_def Let_def split: prod.splits option.splits)
next
  case (2 x d r d')
  then show ?case by (auto dest: trigger_run_records split: prod.splits)
qed

text \<open>a manual trigger repeated under its idempotency key answers a run with that key and starts
  nothing: no table changes, whatever fresh identifier and time the repetition has.\<close>

theorem trigger_run_idempotent:
  assumes "trigger_run nid now i aid q db = Inr (r, db')"
  shows "\<exists>r'. trigger_run nid2 now2 i aid q db' = Inr (r', db') \<and> ar_idempotency_key r' = tq_idempotency_key q"
proof -
  obtain r' where r': "trigger_run nid2 now2 i aid q db' = Inr (r', db')"
    using trigger.recorded_same[of "(nid2, now2, i, aid, q)" db'] trigger.exec_records[of "(nid, now, i, aid, q)" db r db'] assms
    by auto
  have "get_run_by_idempotency_key (tq_idempotency_key q) db' \<noteq> None"
    using trigger_run_records[OF assms] by (simp add: trigger_recorded_def)
  then have "get_run_by_idempotency_key (tq_idempotency_key q) db' = Some r'"
    by (rule_tac trigger_run_cases[OF r']) auto
  then have "ar_idempotency_key r' = tq_idempotency_key q"
    by (auto simp: get_run_by_idempotency_key_def dest: select_first_Some)
  then show ?thesis using r' by blast
qed


section \<open>Witnesses\<close>

definition demo_answers :: "nat \<Rightarrow> nat \<Rightarrow> action_answers" where
  "demo_answers i n = \<lparr>an_resolve = Inr \<lparr>ra_base_url = ''http://dns'', ra_auth_scheme = ''headers'', ra_auth_secret_alias = Some ''k''\<rparr>,
     an_secret = Inr (Some ''key''),
     an_http = (\<lambda>q. if i = 0 \<and> n = 2 then HResponse 200 (JObj [(''id'', JInt 7)]) else HResponse 503 (JStr ''busy''))\<rparr>"

definition demo_env :: run_env where
  "demo_env = \<lparr>re_now = 10, re_now_iso = ''2024-01-01'', re_step_run_id = (\<lambda>n. replicate n CHR ''s''), re_step_start = (\<lambda>_. 10),
     re_step_end = (\<lambda>_. 4010), re_end = 20, re_answers = demo_answers, re_jinja = (\<lambda>s ctx. Some s), re_pystr = (\<lambda>_. ''busy'')\<rparr>"

definition demo_step :: "string \<Rightarrow> workflow_step" where
  "demo_step i = \<lparr>ws_step_id = i, ws_agent_name = ''dns-agent'', ws_action = ''POST /v1/records'', ws_input = [(''zone'', JStr ''a.org'')],
     ws_timeout_seconds = 30, ws_max_attempts = 3, ws_backoff_ms = 500\<rparr>"

definition demo_automation :: automation where
  "demo_automation = \<lparr>am_id = ''A'', am_tenant_id = ''t'', am_env = ''prod'', am_name = ''sync'', am_description = None,
     am_schedule_cron = None, am_enabled = True, am_steps = [demo_step ''one'', demo_step ''two'', demo_step ''three''],
     am_max_concurrent_runs = 1, am_notify_on_failure = True, am_notify_on_success = False, am_created_at = 1\<rparr>"

definition demo_run :: automation_run where
  "demo_run = \<lparr>ar_id = ''R'', ar_automation_id = Some ''A'', ar_tenant = ''t'', ar_envname = ''prod'', ar_status = ''pending'',
     ar_idempotency_key = ''k'', ar_correlation_id = ''c'', ar_started_at = None, ar_ended_at = None, ar_error_summary = None,
     ar_created_at = 5\<rparr>"

definition demo_db :: automation_db where
  "demo_db = \<lparr>ad_automations = [demo_automation], ad_runs = [demo_run], ad_steps = [], ad_dlq = [], ad_audit = [], ad_sent = []\<rparr>"

definition demo_dlq_db :: automation_db where
  "demo_dlq_db = demo_db\<lparr>ad_dlq := [\<lparr>dl_run_id = ''R'', dl_failed_at = 3, dl_replay_count = 1, dl_last_replay_at = Some 4\<rparr>]\<rparr>"

definition demo_caller :: automation_identity where
  "demo_caller = \<lparr>ai_service_id = ''t'', ai_correlation_id = ''c''\<rparr>"

definition demo_trigger :: trigger_request where
  "demo_trigger = \<lparr>tq_tenant_id = None, tq_env = None, tq_idempotency_key = ''fresh'', tq_correlation_id = None\<rparr>"

lemma demo_steps_free: "inj (re_step_run_id demo_env)" "look_step j demo_db = None" "look_step j demo_dlq_db = None"
  by (auto simp: demo_env_def demo_db_def demo_dlq_db_def look_step_def table_look_def select_first_def inj_def
      dest: arg_cong[where f = length])

lemma run_attempts_first_success_witness:
  "case Some (JObj [(''id'', JInt 7)]) of
     Some v \<Rightarrow> \<exists>n. 1 \<le> n \<and> n < 1 + 3 \<and> step_call demo_env demo_run 0 (demo_step ''one'') [] n = Inr (True, v)
                \<and> (\<forall>m. 1 \<le> m \<and> m < n \<longrightarrow> (\<exists>w. step_call demo_env demo_run 0 (demo_step ''one'') [] m = Inr (False, w)))
   | None \<Rightarrow> \<forall>m. 1 \<le> m \<and> m < 1 + 3 \<longrightarrow> (\<exists>w. step_call demo_env demo_run 0 (demo_step ''one'') [] m = Inr (False, w))"
proof (rule run_attempts_first_success)
  show "fst (run_attempts demo_env demo_run 0 (demo_step ''one'') [] 1 3 None demo_db) = Inr (Some (JObj [(''id'', JInt 7)]), Some ''busy'')"
    by code_simp
qed

lemma process_run_outcome_witness:
  "\<exists>k \<le> 3. run_status (snd (process_run demo_env demo_run demo_db)) ''R'' = Some (if k = 3 then ''succeeded'' else ''failed'')
     \<and> (in_dlq ''R'' (snd (process_run demo_env demo_run demo_db)) \<longleftrightarrow> k < (3::nat) \<or> in_dlq ''R'' demo_db)"
proof -
  have ok: "\<not> isl (fst (process_run demo_env demo_run demo_db))" by code_simp
  obtain db' where run: "process_run demo_env demo_run demo_db = (Inr (), db')"
    using ok by (cases "process_run demo_env demo_run demo_db"; cases "fst (process_run demo_env demo_run demo_db)") auto
  have am: "find_automation demo_run demo_db = Some demo_automation" by code_simp
  have lk: "look_run (ar_id demo_run) demo_db \<noteq> None" by code_simp
  have n: "length (am_steps demo_automation) = 3" "ar_id demo_run = ''R''" by code_simp+
  have free: "\<forall>j. look_step (re_step_run_id demo_env j) demo_db = None" using demo_steps_free(2) by simp
  show ?thesis
    using process_run_outcome[OF run am demo_steps_free(1) free lk] unfolding n run snd_conv by blast
qed

definition demo_steps_result :: "string option res \<times> automation_db" where
  "demo_steps_result = run_steps demo_env demo_run 0 (am_steps demo_automation)
     (extract_variables (ar_id demo_run) (ar_tenant demo_run) (ar_envname demo_run) (re_now_iso demo_env))
     (create_step_runs (re_step_run_id demo_env) (ar_id demo_run) (am_steps demo_automation)
       (upd_run (ar_id demo_run) (\<lambda>r. r\<lparr>ar_status := ''running'', ar_started_at := Some (re_now demo_env)\<rparr>) demo_dlq_db))"

lemma replayed_failure_stuck_witness:
  "run_status (snd (process_run demo_env demo_run demo_dlq_db)) (ar_id demo_run) = Some ''running''"
proof -
  have "\<exists>m. fst demo_steps_result = Inr (Some m)" by (rule exI[of _ "''Step '' @ [CHR 0x27] @ ''two'' @ [CHR 0x27] @ '' failed: busy''"]) code_simp
  then obtain m d where res: "demo_steps_result = (Inr (Some m), d)" by (metis prod.collapse)
  have am: "find_automation demo_run demo_dlq_db = Some demo_automation" by code_simp
  have lk: "look_run (ar_id demo_run) demo_dlq_db \<noteq> None" by code_simp
  have dl: "in_dlq (ar_id demo_run) demo_dlq_db" by code_simp
  show ?thesis
    using replayed_failure_stuck[OF am lk dl res[unfolded demo_steps_result_def] demo_steps_free(1)] demo_steps_free(3) by blast
qed

lemma trigger_run_idempotent_witness:
  "\<exists>r db r'. trigger_run ''R2'' 7 demo_caller ''A'' demo_trigger demo_db = Inr (r, db)
     \<and> trigger_run ''R3'' 9 demo_caller ''A'' demo_trigger db = Inr (r', db)"
proof -
  have "\<not> isl (trigger_run ''R2'' 7 demo_caller ''A'' demo_trigger demo_db)" by code_simp
  then obtain r db where run: "trigger_run ''R2'' 7 demo_caller ''A'' demo_trigger demo_db = Inr (r, db)"
    by (cases "trigger_run ''R2'' 7 demo_caller ''A'' demo_trigger demo_db") auto
  show ?thesis using run trigger_run_idempotent[OF run, of "''R3''" 9] by blast
qed

end
