(* ===== verification/AutomationReach.thy ===== *)
theory AutomationReach
  imports Automation
begin

text \<open>
  The automation agent as a state machine over its database: the handlers, the scheduler tick and the
  steps of the worker in any order, whatever the other services answer, with the invariant that holds
  of every state they reach.
\<close>

section \<open>The step relation\<close>

inductive automation_step :: "automation_db \<Rightarrow> automation_db \<Rightarrow> bool" where
  s_create: "create_automation i a db = (a', db') \<Longrightarrow> automation_step db db'"
| s_update: "update_automation i aid u tenant env db = Inr (a, db') \<Longrightarrow> automation_step db db'"
| s_trigger: "trigger_run nid now i aid q db = Inr (r, db') \<Longrightarrow> automation_step db db'"
| s_replay: "replay_dlq_run now i rid db = Inr (msg, db') \<Longrightarrow> automation_step db db'"
| s_cron: "automation_step db (check_cron_schedules cenv db)"
| s_mark: "automation_step db (mark_running (List.map ar_id (get_pending_runs n db)) db)"
| s_process: "automation_step db (process_one envs rid db)"

inductive automation_reach :: "automation_db \<Rightarrow> bool" where
  r_empty: "automation_reach \<lparr>ad_automations = [], ad_runs = [], ad_steps = [], ad_dlq = [], ad_audit = [], ad_sent = []\<rparr>"
| r_step: "automation_reach db \<Longrightarrow> automation_step db db' \<Longrightarrow> automation_reach db'"

section \<open>The invariant\<close>

definition run_ok :: "automation_db \<Rightarrow> automation_run \<Rightarrow> bool" where
  "run_ok db r = (ar_status r \<in> {''pending'', ''running'', ''succeeded'', ''failed''}
     \<and> (\<exists>a \<in> set (ad_automations db). ar_automation_id r = Some (am_id a))
     \<and> (ar_status r = ''failed'' \<longrightarrow> in_dlq (ar_id r) db))"

definition automation_ok :: "automation_db \<Rightarrow> bool" where
  "automation_ok db = (distinct (List.map ar_idempotency_key (ad_runs db)) \<and> distinct (List.map dl_run_id (ad_dlq db))
     \<and> dl_run_id ` set (ad_dlq db) \<subseteq> ar_id ` set (ad_runs db) \<and> (\<forall>r \<in> set (ad_runs db). run_ok db r))"

lemma automation_okI:
  assumes "distinct (List.map ar_idempotency_key (ad_runs db))" "distinct (List.map dl_run_id (ad_dlq db))"
    "dl_run_id ` set (ad_dlq db) \<subseteq> ar_id ` set (ad_runs db)" "\<And>r. r \<in> set (ad_runs db) \<Longrightarrow> run_ok db r"
  shows "automation_ok db"
  using assms by (simp add: automation_ok_def)

lemma automation_ok_cong:
  assumes "automation_ok db" "ad_runs db' = ad_runs db" "ad_dlq db' = ad_dlq db"
    "am_id ` set (ad_automations db) \<subseteq> am_id ` set (ad_automations db')"
  shows "automation_ok db'"
proof -
  have "run_ok db' r" if "run_ok db r" for r
    using that assms(3,4) by (auto simp: run_ok_def in_dlq_def image_iff subset_iff) metis+
  then show ?thesis using assms by (auto simp: automation_ok_def)
qed

lemma in_dlq_ids: "in_dlq i db \<longleftrightarrow> i \<in> set (List.map dl_run_id (ad_dlq db))"
  by (auto simp: in_dlq_def)

lemma automation_ok_dlq:
  assumes "automation_ok db" "List.map dl_run_id rows = List.map dl_run_id (ad_dlq db)"
  shows "automation_ok (db\<lparr>ad_dlq := rows\<rparr>)"
proof -
  have "in_dlq j (db\<lparr>ad_dlq := rows\<rparr>) = in_dlq j db" for j using assms(2) by (simp add: in_dlq_ids del: set_map)
  moreover have "dl_run_id ` set rows = dl_run_id ` set (ad_dlq db)" using assms(2) by (metis list.set_map)
  ultimately show ?thesis using assms by (simp add: automation_ok_def run_ok_def)
qed

lemma map_table_update [simp]:
  assumes "\<And>r. g (f r) = g r"
  shows "List.map g (table_update key i f rows) = List.map g rows"
  using assms by (induction rows) (auto simp: table_update_def update_rows_def)

lemma in_table_update:
  "r \<in> set (table_update key i f rows) \<Longrightarrow> (\<exists>r0 \<in> set rows. key r0 = i \<and> r = f r0) \<or> (r \<in> set rows \<and> key r \<noteq> i)"
  by (auto simp: table_update_def update_rows_def split: if_splits)

lemma upd_run_ids:
  assumes "\<And>r. ar_id (f r) = ar_id r"
  shows "ar_id ` set (ad_runs (upd_run i f db)) = ar_id ` set (ad_runs db)"
proof -
  have "List.map ar_id (ad_runs (upd_run i f db)) = List.map ar_id (ad_runs db)" using assms by (simp add: upd_run_def)
  then show ?thesis by (metis list.set_map)
qed

lemma in_dlq_upd_run [simp]: "in_dlq j (upd_run i f db) = in_dlq j db"
  by (simp add: in_dlq_def)

text \<open>An update of a run keeps the invariant when it keeps the run's keys and gives it a status that is
  justified.\<close>

lemma automation_ok_upd_run:
  assumes "automation_ok db" "\<And>r. ar_id (f r) = ar_id r" "\<And>r. ar_idempotency_key (f r) = ar_idempotency_key r"
    "\<And>r. ar_automation_id (f r) = ar_automation_id r"
    "\<And>r. ar_status (f r) \<in> {''pending'', ''running'', ''succeeded'', ''failed''}"
    "\<And>r. ar_status (f r) = ''failed'' \<Longrightarrow> in_dlq i db"
  shows "automation_ok (upd_run i f db)"
proof (rule automation_okI)
  have keys: "List.map ar_idempotency_key (ad_runs (upd_run i f db)) = List.map ar_idempotency_key (ad_runs db)"
    and ids: "List.map ar_id (ad_runs (upd_run i f db)) = List.map ar_id (ad_runs db)"
    using assms(2,3) by (simp_all add: upd_run_def)
  show "distinct (List.map ar_idempotency_key (ad_runs (upd_run i f db)))"
    using keys assms(1) by (simp add: automation_ok_def)
  show "dl_run_id ` set (ad_dlq (upd_run i f db)) \<subseteq> ar_id ` set (ad_runs (upd_run i f db))"
    using arg_cong[OF ids, of set] assms(1) by (simp add: automation_ok_def)
next
  show "distinct (List.map dl_run_id (ad_dlq (upd_run i f db)))" using assms(1) by (simp add: automation_ok_def)
next
  fix r assume "r \<in> set (ad_runs (upd_run i f db))"
  then have "(\<exists>r0 \<in> set (ad_runs db). ar_id r0 = i \<and> r = f r0) \<or> r \<in> set (ad_runs db)"
    using in_table_update[of r ar_id i f "ad_runs db"] by (auto simp: upd_run_def)
  moreover have "run_ok db (f r0)" if "run_ok db r0" "ar_id r0 = i" for r0
    using that assms(2,4-6) by (auto simp: run_ok_def)
  ultimately have "run_ok db r" using assms(1) by (auto simp: automation_ok_def)
  then show "run_ok (upd_run i f db) r" by (simp add: run_ok_def)
qed

section \<open>Every operation keeps it\<close>

lemma create_run_ok:
  assumes "create_run nid now tenant env key c (Some aid) db = Inr (r, db')" "automation_ok db"
    "\<exists>a \<in> set (ad_automations db). am_id a = aid"
  shows "automation_ok db' \<and> ad_automations db' = ad_automations db"
proof -
  have db': "db' = db\<lparr>ad_runs := ad_runs db @ [r]\<rparr>" "ar_status r = ''pending''" "ar_automation_id r = Some aid"
    "ar_idempotency_key r \<notin> ar_idempotency_key ` set (ad_runs db)"
    using assms(1) by (auto simp: create_run_def Let_def insert_row_def split: if_splits)
  have "run_ok db' r" using db' assms(3) by (auto simp: run_ok_def)
  moreover have "run_ok db' x" if "run_ok db x" for x using that db' by (simp add: run_ok_def in_dlq_def)
  ultimately show ?thesis using assms(2) db' by (auto simp: automation_ok_def)
qed

lemma ok_frame [simp]:
  "automation_ok (send_notification a b c db) = automation_ok db" "automation_ok (api_audit who x t e y z db) = automation_ok db"
  "automation_ok (write_audit run am res det db) = automation_ok db" "automation_ok (upd_step i f db) = automation_ok db"
  by (simp_all add: send_notification_def api_audit_def write_audit_def upd_step_def automation_ok_def run_ok_def[abs_def] in_dlq_def)

lemma trigger_run_ok:
  assumes "trigger_run nid now i aid q db = Inr (r, db')" "automation_ok db"
  shows "automation_ok db'"
  using assms
  by (auto simp: trigger_run_def Let_def get_automation_def split: option.splits sum.splits
      dest!: select_first_Some dest: create_run_ok)

lemma cron_one_ok:
  assumes "automation_ok db" "a \<in> set (ad_automations db)"
  shows "automation_ok (cron_one env db a) \<and> ad_automations (cron_one env db a) = ad_automations db"
proof (cases "create_run (ce_run_id env (am_id a)) (ce_now env) (am_tenant_id a) (am_env a)
    (''cron_'' @ am_id a @ ''_'' @ ce_time_key env) (ce_correlation_id env (am_id a)) (Some (am_id a)) db")
  case (Inl e)
  then show ?thesis using assms(1) by (auto simp: cron_one_def split: sum.splits bool.splits)
next
  case (Inr p)
  then obtain r db1 where c: "create_run (ce_run_id env (am_id a)) (ce_now env) (am_tenant_id a) (am_env a)
    (''cron_'' @ am_id a @ ''_'' @ ce_time_key env) (ce_correlation_id env (am_id a)) (Some (am_id a)) db = Inr (r, db1)"
    by (cases p) simp
  have "automation_ok db1 \<and> ad_automations db1 = ad_automations db" using create_run_ok[OF c assms(1)] assms(2) by blast
  then show ?thesis using c assms(1)
    by (auto simp: cron_one_def send_notification_def[of _ _ _ db1] split: sum.splits bool.splits)
      (simp_all add: send_notification_def[symmetric])
qed

lemma check_cron_ok:
  assumes "automation_ok db"
  shows "automation_ok (check_cron_schedules env db)"
proof -
  have "automation_ok (foldl (cron_one env) d as)" if "automation_ok d" "set as \<subseteq> set (ad_automations d)" for d as
    using that
  proof (induction as arbitrary: d)
    case (Cons a as)
    then show ?case using cron_one_ok[of d a env] by simp
  qed simp
  then show ?thesis
    using assms by (auto simp: check_cron_schedules_def get_due_cron_automations_def select_all_def)
qed

lemma replay_ok:
  assumes "replay_dlq_run now i rid db = Inr (msg, db')" "automation_ok db"
  shows "automation_ok db'"
proof -
  let ?f = "\<lambda>r. r\<lparr>ar_status := ''pending'', ar_error_summary := None\<rparr>"
  let ?g = "\<lambda>d. d\<lparr>dl_replay_count := dl_replay_count d + 1, dl_last_replay_at := Some now\<rparr>"
  have ids: "List.map dl_run_id (update_rows P ?g rows) = List.map dl_run_id rows" for P rows
    by (induction rows) (auto simp: update_rows_def)
  have "automation_ok (upd_run rid ?f db)" using assms(2) by (rule automation_ok_upd_run) auto
  then have "automation_ok ((upd_run rid ?f db)\<lparr>ad_dlq := update_rows (\<lambda>d. dl_run_id d = rid) ?g (ad_dlq db)\<rparr>)"
    by (rule automation_ok_dlq) (simp add: ids)
  then show ?thesis using assms(1) by (auto simp: replay_dlq_run_def split: if_splits option.splits)
qed

lemma mark_running_ok: "automation_ok db \<Longrightarrow> automation_ok (mark_running ids db)"
  unfolding mark_running_def
proof (induction ids arbitrary: db)
  case (Cons i ids)
  have "automation_ok (upd_run i (\<lambda>r. r\<lparr>ar_status := ''running''\<rparr>) db)"
    using Cons.prems by (rule automation_ok_upd_run) auto
  then show ?case using Cons.IH by simp
qed simp

lemma update_automation_frame:
  assumes "update_automation i aid u tenant env db = Inr (a, db')"
  shows "am_id a = aid \<and> db' = api_audit i ''update_automation'' tenant env (Some aid) None
    (db\<lparr>ad_automations := table_update am_id aid (\<lambda>_. a) (ad_automations db)\<rparr>)"
proof (cases "get_automation aid tenant env db")
  case None
  then show ?thesis using assms by (simp add: update_automation_def)
next
  case (Some a0)
  then have "am_id a0 = aid" by (auto simp: get_automation_def dest: select_first_Some)
  then show ?thesis using assms Some by (auto simp: update_automation_def Let_def split: if_splits)
qed

lemma update_automation_ok:
  assumes "update_automation i aid u tenant env db = Inr (a, db')" "automation_ok db"
  shows "automation_ok db'"
proof -
  note fr = update_automation_frame[OF assms(1)]
  have "am_id ` set (ad_automations db) \<subseteq> am_id ` set (table_update am_id aid (\<lambda>_. a) (ad_automations db))"
    using fr by (auto simp: table_update_def update_rows_def image_iff)
  then have "automation_ok (db\<lparr>ad_automations := table_update am_id aid (\<lambda>_. a) (ad_automations db)\<rparr>)"
    by (intro automation_ok_cong[OF assms(2)]) simp_all
  then show ?thesis using fr by simp
qed

lemma run_steps_frame:
  "ad_runs (snd (run_steps env run i ss ctx db)) = ad_runs db \<and> ad_dlq (snd (run_steps env run i ss ctx db)) = ad_dlq db
    \<and> ad_automations (snd (run_steps env run i ss ctx db)) = ad_automations db"
proof (induction ss arbitrary: i ctx db)
  case (Cons s ss)
  let ?db1 = "upd_step (re_step_run_id env i) (\<lambda>r. r\<lparr>st_status := ''running'', st_started_at := Some (re_step_start env i)\<rparr>) db"
  obtain res db2 where ra: "run_attempts env run i s (render_dict (re_jinja env) ctx (ws_input s)) 1 (nat (ws_max_attempts s)) None ?db1 = (res, db2)"
    by fastforce
  note fr = run_attempts_frame[OF ra]
  show ?case using fr ra Cons.IH by (auto simp: Let_def split: sum.splits option.splits prod.splits)
qed simp

lemma finish_run_ok:
  assumes "finish_run env run am e db = (res, db')" "automation_ok db" "ar_id run \<in> ar_id ` set (ad_runs db)"
  shows "automation_ok db'"
proof (cases e)
  case None
  have "automation_ok (upd_run (ar_id run) (\<lambda>r. r\<lparr>ar_ended_at := Some (re_end env), ar_status := ''succeeded''\<rparr>) db)"
    using assms(2) by (rule automation_ok_upd_run) auto
  then show ?thesis using assms(1) None by (auto simp: finish_run_def Let_def)
next
  case (Some msg)
  let ?f = "\<lambda>r. r\<lparr>ar_ended_at := Some (re_end env), ar_status := ''failed'', ar_error_summary := Some msg\<rparr>"
  let ?row = "\<lparr>dl_run_id = ar_id run, dl_failed_at = re_end env, dl_replay_count = 0, dl_last_replay_at = None\<rparr>"
  let ?db1 = "db\<lparr>ad_dlq := insert_row ?row (ad_dlq db)\<rparr>"
  have "automation_ok (upd_run (ar_id run) ?f ?db1)" if "\<not> in_dlq (ar_id run) db"
  proof (rule automation_ok_upd_run)
    show "automation_ok ?db1"
      using that assms(2,3) by (auto simp: automation_ok_def insert_row_def in_dlq_def run_ok_def)
    show "in_dlq (ar_id run) ?db1" by (auto simp: in_dlq_def insert_row_def)
  qed auto
  moreover have "(upd_run (ar_id run) ?f db)\<lparr>ad_dlq := X\<rparr> = upd_run (ar_id run) ?f (db\<lparr>ad_dlq := X\<rparr>)" for X
    by (simp add: upd_run_def)
  ultimately show ?thesis
    using assms(1,2) Some by (auto simp: finish_run_def Let_def create_dlq_entry_def in_dlq_def split: if_splits)
qed

lemma process_run_ok:
  assumes "automation_ok db" "run \<in> set (ad_runs db)"
  shows "automation_ok (snd (process_run env run db))"
proof -
  let ?db1 = "upd_run (ar_id run) (\<lambda>r. r\<lparr>ar_status := ''running'', ar_started_at := Some (re_now env)\<rparr>) db"
  let ?db2 = "\<lambda>am. create_step_runs (re_step_run_id env) (ar_id run) (am_steps am) ?db1"
  let ?ctx = "extract_variables (ar_id run) (ar_tenant run) (ar_envname run) (re_now_iso env)"
  have ok1: "automation_ok ?db1" using assms(1) by (rule automation_ok_upd_run) auto
  have id: "ar_id run \<in> ar_id ` set (ad_runs ?db1)"
    using assms(2) by (subst upd_run_ids) auto
  obtain a where a: "a \<in> set (ad_automations db)" "ar_automation_id run = Some (am_id a)"
    using assms by (auto simp: automation_ok_def run_ok_def)
  obtain am where am: "find_automation run ?db1 = Some am"
    using a by (cases "find_automation run ?db1") (auto simp: find_automation_def select_first_None)
  obtain res db3 where rs: "run_steps env run 0 (am_steps am) ?ctx (?db2 am) = (res, db3)" by fastforce
  have fr: "ad_runs db3 = ad_runs ?db1" "ad_dlq db3 = ad_dlq ?db1" "ad_automations db3 = ad_automations ?db1"
    using run_steps_frame[of env run 0 "am_steps am" ?ctx "?db2 am"] rs by simp_all
  have ok3: "automation_ok db3" using ok1 fr(1,2) by (rule automation_ok_cong) (simp add: fr)
  show ?thesis
    using am rs ok3 id fr(1) finish_run_ok[of env run am _ db3, OF surjective_pairing ok3]
    by (cases res) (auto simp: process_run_def Let_def)
qed

lemma process_one_ok: "automation_ok db \<Longrightarrow> automation_ok (process_one envs i db)"
  by (auto simp: process_one_def look_run_def table_look_def split: option.splits dest: select_first_Some intro: process_run_ok)

lemma automation_step_ok: "automation_step db db' \<Longrightarrow> automation_ok db \<Longrightarrow> automation_ok db'"
proof (induction rule: automation_step.induct)
  case (s_create i a db a' db')
  have "automation_ok (db\<lparr>ad_automations := insert_row a (ad_automations db)\<rparr>)"
    by (rule automation_ok_cong[OF s_create.prems]) (auto simp: insert_row_def)
  then show ?case using s_create.hyps by (auto simp: create_automation_def)
qed (auto intro: update_automation_ok trigger_run_ok replay_ok check_cron_ok mark_running_ok process_one_ok)


definition demo_created :: "automation \<times> automation_db" where
  "demo_created = create_automation demo_caller demo_automation
     \<lparr>ad_automations = [], ad_runs = [], ad_steps = [], ad_dlq = [], ad_audit = [], ad_sent = []\<rparr>"


end
