(* ===== verification/TaskDispatch.thy ===== *)
theory TaskDispatch
  imports PersonaPolicy SystemOfRecord VaultCrypto
begin

text \<open>
  The worker's job \<open>_dispatch_task\<close> (\<open>apps/nexus_worker/jobs.py\<close>): resolution of the persona and the
  route, the persona policy, the selection of an agent, the retrieval context, the call of the agent,
  and what its answer does to the system of record: proposed writes, proposed tasks and the job
  summary.  The session has \<open>autoflush\<close> off, so rows added since the last flush are not seen by a
  select: \<open>wd_pending\<close> holds the idempotency keys added and not yet flushed.  A flush that violates a
  constraint rolls the session back and leaves it unusable: the handlers that print the task fail as
  well, and what stands is the last commit.  The answers of the agent and of the object store, the
  decryption, fresh identifiers and lazily loaded names come in the record \<open>dispatch_env\<close>.
\<close>

section \<open>Tables\<close>

record task_row =
  tk_id :: int
  tk_type :: string
  tk_status :: string
  tk_priority :: int
  tk_payload :: dict
  tk_persona_version_id :: "int option"
  tk_requested_by_user_id :: "int option"
  tk_requested_by_agent_id :: "int option"
  tk_assigned_agent_id :: "int option"

record persona_version =
  pv_id :: int
  pv_version :: string
  pv_system_prompt :: string
  pv_tools_policy :: "dict option"

record persona_default =
  pd_scope_type :: string
  pd_scope_value :: "string option"
  pd_persona_version_id :: int
  pd_is_active :: bool

record task_route =
  tr_task_type :: string
  tr_required_capabilities :: "string list"
  tr_preferred_agent_id :: "int option"
  tr_is_active :: bool
  tr_needs_rag :: bool
  tr_rag_namespaces :: "string list option"
  tr_rag_top_k :: "int option"

record agent_row =
  ag_id :: int
  ag_name :: string
  ag_base_url :: string
  ag_auth_type :: string
  ag_is_active :: bool
  ag_capabilities :: "dict option"
  ag_status :: string
  ag_max_concurrency :: int
  ag_timeout_seconds :: int

record secret_row =
  sc_owner_type :: string
  sc_owner_id :: "int option"
  sc_purpose :: string
  sc_ciphertext :: bytes

record task_link =
  tl_id :: string
  tl_task_id :: int
  tl_entity_id :: string
  tl_rel :: string

record summary_job =
  sj_id :: string
  sj_target :: json
  sj_task_id :: int
  sj_kind :: string
  sj_status :: string
  sj_summary :: "dict option"

record artifact_row =
  at_task_id :: int
  at_object_key :: string
  at_byte_size :: nat

record persona_block =
  pb_id :: string
  pb_name :: string
  pb_version :: string
  pb_system_prompt :: string
  pb_tools_policy :: "dict option"

record agent_call =
  ac_url :: string
  ac_headers :: "(string \<times> string) list"
  ac_type :: string
  ac_payload :: dict
  ac_persona :: "persona_block option"
  ac_context :: "kb_row list option"
  ac_attempt :: int
  ac_timeout :: int

record agent_write = proposed_write +
  aw_full_state :: "dict option"

record proposed_task =
  pt_type :: string
  pt_priority :: string
  pt_payload :: dict
  pt_persona_version_id :: "int option"
  pt_idempotency_key :: string

record job_summary =
  js_kind :: string
  js_status :: string
  js_details :: "dict option"

record agent_response =
  rs_ok :: bool
  rs_result :: "dict option"
  rs_writes :: "agent_write list option"
  rs_tasks :: "proposed_task list option"
  rs_summary :: "job_summary option"

text \<open>\<open>wd_sent\<close> holds the calls made to agents; the two lists of targets are the identifiers in the
  tables the foreign keys of \<open>storage_jobs\<close> and \<open>carrier_snapshots\<close> refer to.\<close>

record worker_db =
  wd_tasks :: "task_row list"
  wd_versions :: "persona_version list"
  wd_defaults :: "persona_default list"
  wd_routes :: "task_route list"
  wd_agents :: "agent_row list"
  wd_secrets :: "secret_row list"
  wd_kb :: "kb_row list"
  wd_sor :: sor_db
  wd_pending :: "idempotency_row list"
  wd_links :: "task_link list"
  wd_storage_jobs :: "summary_job list"
  wd_carrier_snapshots :: "summary_job list"
  wd_artifacts :: "artifact_row list"
  wd_metrics :: "(string \<times> int) list"
  wd_storage_targets :: "string list"
  wd_carrier_targets :: "string list"
  wd_sent :: "agent_call list"

record dispatch_env =
  de_now :: int
  de_sha :: "string \<Rightarrow> string"
  de_persona_name :: "int \<Rightarrow> string res"
  de_distance :: "string \<Rightarrow> kb_row \<Rightarrow> int"
  de_embed_error :: "json \<Rightarrow> exn"
  de_dec :: aead_dec
  de_master_key :: "string option"
  de_post :: "agent_call \<Rightarrow> agent_response res"
  de_put :: "string \<Rightarrow> string \<Rightarrow> unit res"
  de_entity_id :: "nat \<Rightarrow> string"
  de_event_id :: "nat \<Rightarrow> string"
  de_idem_id :: "nat \<Rightarrow> string"
  de_link_id :: "nat \<Rightarrow> string"
  de_task_id :: "nat \<Rightarrow> int"
  de_task_idem_id :: "nat \<Rightarrow> string"
  de_task_link_id :: "nat \<Rightarrow> nat \<Rightarrow> string"
  de_job_id :: string
  de_snapshot_id :: string

section \<open>Flush and commit\<close>

definition poisoned :: exn where
  "poisoned = PyError ''PendingRollbackError'' []"

fun flush_keys :: "idempotency_row list \<Rightarrow> idempotency_row list \<Rightarrow> idempotency_row list option" where
  "flush_keys [] t = Some t"
| "flush_keys (r # rs) t = (if \<exists>x \<in> set t. ik_key x = ik_key r then None else flush_keys rs (insert_row r t))"

definition flush :: "worker_db \<Rightarrow> worker_db option" where
  "flush db = (case flush_keys (wd_pending db) (sd_idem (wd_sor db)) of
     None \<Rightarrow> None
   | Some t \<Rightarrow> Some (db\<lparr>wd_sor := (wd_sor db)\<lparr>sd_idem := t\<rparr>, wd_pending := []\<rparr>))"

definition target_known :: "string list \<Rightarrow> summary_job \<Rightarrow> bool" where
  "target_known ts j = (case sj_target j of JStr s \<Rightarrow> s \<in> set ts | _ \<Rightarrow> False)"

definition commit :: "worker_db \<Rightarrow> worker_db option" where
  "commit db = (if list_all (target_known (wd_storage_targets db)) (wd_storage_jobs db)
      \<and> list_all (target_known (wd_carrier_targets db)) (wd_carrier_snapshots db) then flush db else None)"

definition set_task_status :: "int \<Rightarrow> string \<Rightarrow> worker_db \<Rightarrow> worker_db" where
  "set_task_status i s db = db\<lparr>wd_tasks := table_update tk_id i (\<lambda>t. t\<lparr>tk_status := s\<rparr>) (wd_tasks db)\<rparr>"

definition emit_metric :: "string \<Rightarrow> int \<Rightarrow> worker_db \<Rightarrow> worker_db" where
  "emit_metric name i db = db\<lparr>wd_metrics := insert_row (name, i) (wd_metrics db)\<rparr>"

definition agent_audit :: "agent_row \<Rightarrow> string \<Rightarrow> string \<Rightarrow> dict \<Rightarrow> sor_db \<Rightarrow> sor_db" where
  "agent_audit agent action target meta s = s\<lparr>sd_audit := insert_row \<lparr>ae_actor_type = Some ''agent'',
     ae_actor_id = Some (ag_id agent), ae_action = action, ae_target_type = target, ae_target_id = 0, ae_meta = meta\<rparr> (sd_audit s)\<rparr>"

section \<open>The answer of the agent\<close>

text \<open>What a stage of the inner \<open>try\<close> does: it goes on, it raises what the handlers catch with the
  session as it stands, or it breaks the session.\<close>

datatype applied =
    Applied worker_db
  | Rejected exn worker_db
  | Poisoned

definition write_dict :: "agent_write \<Rightarrow> json" where
  "write_dict w = JObj [(''entity_kind'', JStr (pw_entity_kind w)), (''external_ref'', json_str_opt (pw_external_ref w)),
     (''action'', JStr (pw_action w)), (''patch'', JObj (pw_patch w)),
     (''full_state'', case aw_full_state w of None \<Rightarrow> JNull | Some d \<Rightarrow> JObj d), (''idempotency_key'', JStr (pw_idempotency_key w))]"

definition find_entity :: "agent_write \<Rightarrow> sor_db \<Rightarrow> entity option" where
  "find_entity w s = (if pw_external_ref w \<in> {None, Some []} then None
     else select_first (\<lambda>e. en_kind e = pw_entity_kind w \<and> en_external_ref e = pw_external_ref w) (sd_entities s))"

definition merge_entity :: "dispatch_env \<Rightarrow> nat \<Rightarrow> agent_write \<Rightarrow> sor_db \<Rightarrow> entity \<times> sor_db" where
  "merge_entity env i w s = (case find_entity w s of
     Some e \<Rightarrow>
       (let data = (case en_data e of None \<Rightarrow> [] | Some d \<Rightarrow> d);
            e' = e\<lparr>en_data := Some (apply_json_merge_patch data (pw_patch w)), en_version := en_version e + 1, en_updated_at := de_now env\<rparr>
        in (e', s\<lparr>sd_entities := update_rows (\<lambda>r. en_id r = en_id e) (\<lambda>_. e') (sd_entities s)\<rparr>))
   | None \<Rightarrow>
       (let e' = \<lparr>en_id = de_entity_id env i, en_kind = pw_entity_kind w, en_external_ref = pw_external_ref w,
              en_status = ''active'', en_data = Some (pw_patch w), en_version = 1, en_created_at = de_now env, en_updated_at = de_now env\<rparr>
        in (e', s\<lparr>sd_entities := insert_row e' (sd_entities s)\<rparr>)))"

definition write_event :: "dispatch_env \<Rightarrow> task_row \<Rightarrow> agent_row \<Rightarrow> nat \<Rightarrow> agent_write \<Rightarrow> entity option \<Rightarrow> entity \<Rightarrow> entity_event" where
  "write_event env task agent i w old e =
     \<lparr>ev_id = de_event_id env i, ev_entity_id = en_id e, ev_actor_type = ''agent'', ev_actor_id = str_int (ag_id agent),
      ev_action = (if old = None then ''create'' else ''update''),
      ev_before = (case old of None \<Rightarrow> None | Some o' \<Rightarrow> (case en_data o' of Some (x # xs) \<Rightarrow> Some (x # xs) | _ \<Rightarrow> None)),
      ev_after = (case en_data e of None \<Rightarrow> [] | Some d \<Rightarrow> d), ev_diff = pw_patch w,
      ev_correlation_id = Some (str_int (tk_id task)), ev_idempotency_key = pw_idempotency_key w, ev_created_at = de_now env\<rparr>"

definition write_key :: "dispatch_env \<Rightarrow> nat \<Rightarrow> agent_write \<Rightarrow> entity \<Rightarrow> idempotency_row" where
  "write_key env i w e = \<lparr>ik_id = de_idem_id env i, ik_key = pw_idempotency_key w, ik_scope = ''entity_write'',
     ik_request_hash = request_hash (de_sha env) (write_dict w),
     ik_response = JObj [(''status'', JStr ''applied''), (''entity_id'', JStr (en_id e))], ik_expires_at = de_now env + 7 * 86400\<rparr>"

definition record_agent_write ::
  "dispatch_env \<Rightarrow> task_row \<Rightarrow> agent_row \<Rightarrow> nat \<Rightarrow> agent_write \<Rightarrow> entity option \<Rightarrow> entity \<Rightarrow> worker_db \<Rightarrow> worker_db" where
  "record_agent_write env task agent i w old e db = db
     \<lparr>wd_sor := agent_audit agent (''entity_'' @ (if old = None then ''create'' else ''update'')) ''entity'' [(''entity_id'', JStr (en_id e))]
        ((wd_sor db)\<lparr>sd_events := insert_row (write_event env task agent i w old e) (sd_events (wd_sor db))\<rparr>),
      wd_links := insert_row \<lparr>tl_id = de_link_id env i, tl_task_id = tk_id task, tl_entity_id = en_id e,
        tl_rel = (if old = None then ''created'' else ''updated'')\<rparr> (wd_links db),
      wd_pending := insert_row (write_key env i w e) (wd_pending db)\<rparr>"

definition write_done :: "dispatch_env \<Rightarrow> agent_write \<Rightarrow> worker_db \<Rightarrow> bool res" where
  "write_done env w db = (case validate_proposed_write (proposed_write.truncate w) of
     Inl e \<Rightarrow> Inl e
   | Inr _ \<Rightarrow> (case check_idempotency (de_sha env) (sd_idem (wd_sor db)) (pw_idempotency_key w) ''entity_write'' (write_dict w) of
       Inl e \<Rightarrow> Inl e
     | Inr stored \<Rightarrow> Inr (case stored of Some v \<Rightarrow> truthy v | None \<Rightarrow> False)))"

definition apply_write :: "dispatch_env \<Rightarrow> task_row \<Rightarrow> agent_row \<Rightarrow> nat \<Rightarrow> agent_write \<Rightarrow> worker_db \<Rightarrow> applied" where
  "apply_write env task agent i w db =
    (case write_done env w db of
       Inl e \<Rightarrow> Rejected e db
     | Inr True \<Rightarrow> Applied db
     | Inr False \<Rightarrow>
        (case merge_entity env i w (wd_sor db) of (e, s) \<Rightarrow>
          (case flush (db\<lparr>wd_sor := s\<rparr>) of
             None \<Rightarrow> Poisoned
           | Some db1 \<Rightarrow> Applied (record_agent_write env task agent i w (find_entity w (wd_sor db)) e db1))))"

fun apply_writes :: "dispatch_env \<Rightarrow> task_row \<Rightarrow> agent_row \<Rightarrow> nat \<Rightarrow> agent_write list \<Rightarrow> worker_db \<Rightarrow> applied" where
  "apply_writes env task agent i [] db = Applied db"
| "apply_writes env task agent i (w # ws) db = (case apply_write env task agent i w db of
     Applied db' \<Rightarrow> apply_writes env task agent (Suc i) ws db' | a \<Rightarrow> a)"

definition trigger_links :: "dispatch_env \<Rightarrow> nat \<Rightarrow> int \<Rightarrow> agent_write list \<Rightarrow> sor_db \<Rightarrow> task_link list" where
  "trigger_links env i tid ws s = concat (List.map (\<lambda>(j, w).
     case select_first (\<lambda>e. en_kind e = pw_entity_kind w \<and> en_external_ref e = pw_external_ref w) (sd_entities s) of
       None \<Rightarrow> []
     | Some e \<Rightarrow> [\<lparr>tl_id = de_task_link_id env i j, tl_task_id = tid, tl_entity_id = en_id e, tl_rel = ''alert_trigger''\<rparr>]) (enumerate 0 ws))"

definition apply_task :: "dispatch_env \<Rightarrow> task_row \<Rightarrow> agent_write list \<Rightarrow> nat \<Rightarrow> proposed_task \<Rightarrow> worker_db \<Rightarrow> applied" where
  "apply_task env task ws i p db =
    (if \<exists>r \<in> set (sd_idem (wd_sor db)). ik_key r = pt_idempotency_key p then Applied db
     else let key = \<lparr>ik_id = de_task_idem_id env i, ik_key = pt_idempotency_key p, ik_scope = ''task_creation'', ik_request_hash = [],
                ik_response = JObj [(''status'', JStr ''created'')], ik_expires_at = de_now env + 7 * 86400\<rparr>;
              t = \<lparr>tk_id = de_task_id env i, tk_type = pt_type p, tk_status = ''queued'',
                tk_priority = (if pt_priority p = ''high'' then 1 else 0), tk_payload = pt_payload p,
                tk_persona_version_id = pt_persona_version_id p, tk_requested_by_user_id = tk_requested_by_user_id task,
                tk_requested_by_agent_id = tk_requested_by_agent_id task, tk_assigned_agent_id = None\<rparr>
          in if (case pt_persona_version_id p of None \<Rightarrow> True | Some v \<Rightarrow> v \<in> pv_id ` set (wd_versions db))
             then (case flush (db\<lparr>wd_pending := insert_row key (wd_pending db), wd_tasks := insert_row t (wd_tasks db)\<rparr>) of
                None \<Rightarrow> Poisoned
              | Some db1 \<Rightarrow> Applied (db1\<lparr>wd_links := wd_links db1 @ trigger_links env i (tk_id t) ws (wd_sor db1)\<rparr>))
             else Poisoned)"

fun apply_task_list :: "dispatch_env \<Rightarrow> task_row \<Rightarrow> agent_write list \<Rightarrow> nat \<Rightarrow> proposed_task list \<Rightarrow> worker_db \<Rightarrow> applied" where
  "apply_task_list env task ws i [] db = Applied db"
| "apply_task_list env task ws i (p # ps) db = (case apply_task env task ws i p db of
     Applied db' \<Rightarrow> apply_task_list env task ws (Suc i) ps db' | a \<Rightarrow> a)"

text \<open>The persona as the response handler finds it: the version identifier, the block, its policy.\<close>

type_synonym persona_state = "int option \<times> persona_block option \<times> dict option"

definition truthy_id :: "int option \<Rightarrow> bool" where
  "truthy_id i = (case i of None \<Rightarrow> False | Some n \<Rightarrow> n \<noteq> 0)"

definition list_or_empty :: "'a list option \<Rightarrow> 'a list" where
  "list_or_empty xs = (case xs of None \<Rightarrow> [] | Some ys \<Rightarrow> ys)"

definition apply_tasks ::
  "dispatch_env \<Rightarrow> task_row \<Rightarrow> persona_state \<Rightarrow> agent_write list \<Rightarrow> proposed_task list \<Rightarrow> worker_db \<Rightarrow> applied" where
  "apply_tasks env task p ws ps db = (case p of (pvid, block, tools) \<Rightarrow>
    if ps = [] then Applied db
    else if \<not> truthy_id pvid \<or> block = None
    then Rejected (SoRValidationError ''proposed_tasks rejected: persona inactive or missing'' ''sor_validation_failed'') db
    else case tools of
      None \<Rightarrow> Rejected attribute_error db
    | Some tp \<Rightarrow>
       (case py_in ''monitoring.alert_to_task'' (dget tp ''allowed_capabilities'' (JList [])) of
          None \<Rightarrow> Rejected type_error db
        | Some False \<Rightarrow> Rejected (SoRValidationError ''proposed_tasks rejected: persona lacks monitoring.alert_to_task capability''
            ''sor_validation_failed'') db
        | Some True \<Rightarrow> apply_task_list env task ws 0 ps db))"

definition apply_summary :: "dispatch_env \<Rightarrow> task_row \<Rightarrow> agent_row \<Rightarrow> job_summary option \<Rightarrow> worker_db \<Rightarrow> worker_db" where
  "apply_summary env task agent js db = (case js of
     None \<Rightarrow> db
   | Some j \<Rightarrow>
      (let st = dget (tk_payload task) ''storage_target_id'' JNull; ct = dget (tk_payload task) ''carrier_target_id'' JNull;
           row = (\<lambda>i t. \<lparr>sj_id = i, sj_target = t, sj_task_id = tk_id task, sj_kind = js_kind j, sj_status = js_status j, sj_summary = js_details j\<rparr>);
           db1 = (if truthy st \<and> js_kind j \<in> {''copy'', ''lifecycle_propose'', ''lifecycle_apply'', ''delete''}
             then db\<lparr>wd_storage_jobs := insert_row (row (de_job_id env) st) (wd_storage_jobs db),
                wd_sor := agent_audit agent (''storage_job_'' @ js_status j) ''storage_job''
                  [(''job_id'', JStr (de_job_id env)), (''kind'', JStr (js_kind j))] (wd_sor db)\<rparr> else db)
       in if truthy ct \<and> js_kind j = ''carrier_snapshot''
          then db1\<lparr>wd_carrier_snapshots := insert_row (row (de_snapshot_id env) ct) (wd_carrier_snapshots db1),
             wd_sor := agent_audit agent (''carrier_snapshot_'' @ js_status j) ''carrier_snapshot''
               [(''snapshot_id'', JStr (de_snapshot_id env))] (wd_sor db1)\<rparr> else db1))"

definition apply_response :: "dispatch_env \<Rightarrow> task_row \<Rightarrow> agent_row \<Rightarrow> persona_state \<Rightarrow> agent_response \<Rightarrow> worker_db \<Rightarrow> applied" where
  "apply_response env task agent p rs db =
    (let ws = list_or_empty (rs_writes rs) in
     if ws = [] then Applied db
     else case apply_writes env task agent 0 ws db of
       Applied db1 \<Rightarrow>
         (case apply_tasks env task p ws (list_or_empty (rs_tasks rs)) db1 of
            Applied db2 \<Rightarrow> Applied (apply_summary env task agent (rs_summary rs) db2)
          | a \<Rightarrow> a)
     | a \<Rightarrow> a)"

definition result_bytes :: "agent_response \<Rightarrow> string" where
  "result_bytes rs = dumps (case rs_result rs of None \<Rightarrow> JNull | Some d \<Rightarrow> JObj d)"

definition result_key :: "task_row \<Rightarrow> string" where
  "result_key task = ''artifacts/tasks/'' @ str_int (tk_id task) @ ''/result.json''"

definition record_artifact :: "task_row \<Rightarrow> agent_response \<Rightarrow> worker_db \<Rightarrow> worker_db" where
  "record_artifact task rs db = (let db1 = emit_metric ''task_succeeded'' (tk_id task) db in
     db1\<lparr>wd_artifacts := insert_row \<lparr>at_task_id = tk_id task, at_object_key = result_key task,
       at_byte_size = length (result_bytes rs)\<rparr> (wd_artifacts db1)\<rparr>)"

definition finish_task :: "task_row \<Rightarrow> worker_db \<Rightarrow> string \<Rightarrow> worker_db \<Rightarrow> unit res \<times> worker_db" where
  "finish_task task committed s d = (case commit (set_task_status (tk_id task) s d) of
     None \<Rightarrow> (Inl poisoned, committed) | Some d' \<Rightarrow> (Inr (), d'))"

text \<open>The outer \<open>try\<close> from the parsed answer to the commit; \<open>db\<close> is what was last committed.\<close>

definition handle_response ::
  "dispatch_env \<Rightarrow> task_row \<Rightarrow> agent_row \<Rightarrow> persona_state \<Rightarrow> agent_response res \<Rightarrow> worker_db \<Rightarrow> unit res \<times> worker_db" where
  "handle_response env task agent p answer db =
    (let failed = (Inr (), set_task_status (tk_id task) ''failed'' db) in
     case answer of
       Inl e \<Rightarrow> failed
     | Inr rs \<Rightarrow>
        if \<not> rs_ok rs then failed
        else case de_put env (result_key task) (result_bytes rs) of
            Inl e \<Rightarrow> failed
          | Inr _ \<Rightarrow>
             (case apply_response env task agent p rs (record_artifact task rs db) of
                Applied d \<Rightarrow> finish_task task db ''succeeded'' d
              | Rejected e d \<Rightarrow> finish_task task db ''failed'' d
              | Poisoned \<Rightarrow> (Inl poisoned, db)))"

section \<open>Persona, route and agent\<close>

definition persona_block_of :: "dispatch_env \<Rightarrow> persona_version \<Rightarrow> persona_block res" where
  "persona_block_of env v = (case de_persona_name env (pv_id v) of
     Inl e \<Rightarrow> Inl e
   | Inr name \<Rightarrow> Inr \<lparr>pb_id = str_int (pv_id v), pb_name = name, pb_version = pv_version v,
       pb_system_prompt = pv_system_prompt v, pb_tools_policy = pv_tools_policy v\<rparr>)"

definition find_version :: "int \<Rightarrow> worker_db \<Rightarrow> persona_version option" where
  "find_version i db = select_first (\<lambda>v. pv_id v = i) (wd_versions db)"

definition default_version :: "string \<Rightarrow> string option \<Rightarrow> worker_db \<Rightarrow> int option" where
  "default_version scope val db = map_option pd_persona_version_id (select_first
     (\<lambda>d. pd_scope_type d = scope \<and> (val = None \<or> pd_scope_value d = val) \<and> column_is_True (pd_is_active d)) (wd_defaults db))"

definition resolve_persona :: "dispatch_env \<Rightarrow> task_row \<Rightarrow> worker_db \<Rightarrow> persona_state res" where
  "resolve_persona env task db =
    (let pvid = (if truthy_id (tk_persona_version_id task) then tk_persona_version_id task
                 else (case default_version ''task_type'' (Some (tk_type task)) db of
                   None \<Rightarrow> tk_persona_version_id task | Some i \<Rightarrow> Some i)) in
     case (if truthy_id pvid then find_version (the pvid) db else None) of
       None \<Rightarrow> Inr (pvid, None, None)
     | Some v \<Rightarrow> (case persona_block_of env v of
         Inl e \<Rightarrow> Inl e | Inr b \<Rightarrow> Inr (pvid, Some b, pv_tools_policy v)))"

definition find_route :: "task_row \<Rightarrow> worker_db \<Rightarrow> task_route option" where
  "find_route task db = select_first (\<lambda>r. tr_task_type r = tk_type task \<and> column_is_True (tr_is_active r)) (wd_routes db)"

definition route_caps :: "task_route option \<Rightarrow> string list" where
  "route_caps r = (case r of None \<Rightarrow> [] | Some x \<Rightarrow> tr_required_capabilities x)"

definition hashable :: "json \<Rightarrow> bool" where
  "hashable v = (case v of JObj _ \<Rightarrow> False | JList _ \<Rightarrow> False | _ \<Rightarrow> True)"

definition agent_eligible :: "string list \<Rightarrow> agent_row \<Rightarrow> bool option" where
  "agent_eligible caps a =
    (if ag_status a \<notin> {''healthy'', ''unknown''} then Some False
     else case py_iter (dget (case ag_capabilities a of None \<Rightarrow> [] | Some d \<Rightarrow> d) ''capabilities'' (JList [])) of
       None \<Rightarrow> None
     | Some xs \<Rightarrow> if list_all hashable xs then Some (list_all (\<lambda>c. JStr c \<in> set xs) caps) else None)"

fun eligible_agents :: "string list \<Rightarrow> agent_row list \<Rightarrow> agent_row list option" where
  "eligible_agents caps [] = Some []"
| "eligible_agents caps (a # as) = (case agent_eligible caps a of
     None \<Rightarrow> None
   | Some ok \<Rightarrow> map_option (\<lambda>rest. if ok then a # rest else rest) (eligible_agents caps as))"

definition pick_agent :: "task_route option \<Rightarrow> agent_row list \<Rightarrow> agent_row option" where
  "pick_agent route as =
    (case (case route of None \<Rightarrow> None | Some r \<Rightarrow> if truthy_id (tr_preferred_agent_id r)
             then select_first (\<lambda>a. Some (ag_id a) = tr_preferred_agent_id r) as else None) of
       Some a \<Rightarrow> Some a
     | None \<Rightarrow> (case as of [] \<Rightarrow> None | a # _ \<Rightarrow> Some a))"

definition select_agent :: "task_row \<Rightarrow> task_route option \<Rightarrow> worker_db \<Rightarrow> agent_row option res" where
  "select_agent task route db =
    (if truthy_id (tk_assigned_agent_id task)
     then Inr (select_first (\<lambda>a. Some (ag_id a) = tk_assigned_agent_id task \<and> column_is_True (ag_is_active a)) (wd_agents db))
     else case eligible_agents (route_caps route) (select_all (\<lambda>a. column_is_True (ag_is_active a)) (wd_agents db)) of
       None \<Rightarrow> Inl type_error
     | Some as \<Rightarrow> Inr (pick_agent route as))"

section \<open>The retrieval context\<close>

fun take_context :: "json \<Rightarrow> int \<Rightarrow> kb_row list \<Rightarrow> kb_row list option" where
  "take_context m used [] = Some []"
| "take_context m used (r # rs) = (case py_num m of
     None \<Rightarrow> None
   | Some n \<Rightarrow> if used + int (length (kr_text r)) \<le> n
       then map_option ((#) r) (take_context m (used + int (length (kr_text r))) rs) else Some [])"

definition context_limit :: "dict option \<Rightarrow> json res" where
  "context_limit tools = (case tools of None \<Rightarrow> Inr (JInt 6000)
   | Some tp \<Rightarrow> (case map_of tp ''rag'' of
       None \<Rightarrow> Inr (JInt 6000)
     | Some (JObj d) \<Rightarrow> Inr (dget d ''max_context_chars'' (JInt 6000))
     | Some _ \<Rightarrow> Inl attribute_error))"

definition task_query :: "dict \<Rightarrow> json" where
  "task_query payload = (case map_of payload ''query'' of Some q \<Rightarrow> q
     | None \<Rightarrow> (case map_of payload ''message'' of Some m \<Rightarrow> m | None \<Rightarrow> JStr []))"

definition is_value_error :: "exn \<Rightarrow> bool" where
  "is_value_error e = (case e of PyError k _ \<Rightarrow> k = ''ValueError'' | _ \<Rightarrow> False)"

datatype context_result =
    Context "kb_row list option"
  | Blocked
  | Raised exn

definition rag_context :: "dispatch_env \<Rightarrow> task_row \<Rightarrow> task_route option \<Rightarrow> persona_state \<Rightarrow> worker_db \<Rightarrow> context_result" where
  "rag_context env task route p db = (case p of (pvid, block, tools) \<Rightarrow>
    (case route of
       None \<Rightarrow> Context None
     | Some r \<Rightarrow>
        if \<not> tr_needs_rag r then Context None
        else let nss = (case tr_rag_namespaces r of Some (n # ns) \<Rightarrow> n # ns | _ \<Rightarrow> [''global''])
                   @ (if truthy_id pvid then [''persona:'' @ str_int (the pvid)] else []);
                 top_k = (if truthy_id (tr_rag_top_k r) then the (tr_rag_top_k r) else 4);
                 found = (case task_query (tk_payload task) of
                   JStr q \<Rightarrow> internal_kb_search (de_distance env) (\<lambda>i. case find_version i db of None \<Rightarrow> None
                       | Some v \<Rightarrow> Some (case pv_tools_policy v of None \<Rightarrow> [] | Some d \<Rightarrow> d)) q nss top_k pvid (wd_kb db)
                 | q \<Rightarrow> Inl (de_embed_error env q)) in
          case found of
            Inl e \<Rightarrow> if is_value_error e then (if e = PyError ''ValueError'' ''persona_policy_violation'' then Blocked else Context None)
                      else Raised e
          | Inr rows \<Rightarrow> (case context_limit tools of
              Inl e \<Rightarrow> Raised e
            | Inr m \<Rightarrow> (case take_context m 0 rows of None \<Rightarrow> Raised type_error | Some c \<Rightarrow> Context (Some c)))))"

section \<open>The job\<close>

text \<open>The key sent to an agent with \<open>api_key\<close> authentication; \<open>Inl\<close> when it does not decrypt.\<close>

definition outbound_headers :: "dispatch_env \<Rightarrow> task_row \<Rightarrow> agent_row \<Rightarrow> worker_db \<Rightarrow> (string \<times> string) list res" where
  "outbound_headers env task agent db =
    (let base = [(''X-Correlation-Id'', str_int (tk_id task))] in
     if ag_auth_type agent \<noteq> ''api_key'' then Inr base
     else case select_first (\<lambda>s. sc_owner_type s = ''agent'' \<and> sc_owner_id s = Some (ag_id agent)
                 \<and> sc_purpose s = ''agent_outbound_key'') (wd_secrets db) of
       None \<Rightarrow> Inr base
     | Some s \<Rightarrow> (case shared_decrypt_secret (de_dec env) (de_master_key env) (sc_ciphertext s) of
         Inl e \<Rightarrow> Inl e | Inr k \<Rightarrow> Inr (base @ [(''X-Nexus-Agent-Key'', k)])))"

definition later_persona :: "dispatch_env \<Rightarrow> agent_row \<Rightarrow> persona_state \<Rightarrow> worker_db \<Rightarrow> persona_state res" where
  "later_persona env agent p db = (case p of (pvid, block, tools) \<Rightarrow>
    if truthy_id pvid then Inr p
    else case (case default_version ''agent_id'' (Some (str_int (ag_id agent))) db of
                 Some i \<Rightarrow> Some i | None \<Rightarrow> default_version ''global'' None db) of
      None \<Rightarrow> Inr p
    | Some i \<Rightarrow> (case find_version i db of
        None \<Rightarrow> Inr p
      | Some v \<Rightarrow> (case persona_block_of env v of Inl e \<Rightarrow> Inl e | Inr b \<Rightarrow> Inr (pvid, Some b, tools))))"

text \<open>From the chosen agent to the end of the job, with the timeout the persona left.\<close>

definition run_on_agent ::
  "dispatch_env \<Rightarrow> int \<Rightarrow> task_row \<Rightarrow> persona_state \<Rightarrow> task_route option \<Rightarrow> agent_row \<Rightarrow> int \<Rightarrow> worker_db \<Rightarrow> unit res \<times> worker_db" where
  "run_on_agent env attempt task p0 route agent persona_timeout db =
    (let timeout = (if ag_timeout_seconds agent \<noteq> 0 \<and> ag_timeout_seconds agent < persona_timeout
                    then ag_timeout_seconds agent else persona_timeout);
         db1 = set_task_status (tk_id task) ''running'' db;
         failed = (Inr (), set_task_status (tk_id task) ''failed'' db) in
     case later_persona env agent p0 db1 of
       Inl e \<Rightarrow> (Inl e, db1)
     | Inr p \<Rightarrow>
       (case rag_context env task route p db1 of
          Raised e \<Rightarrow> (Inl e, db1)
        | Blocked \<Rightarrow> failed
        | Context ctx \<Rightarrow>
          (case outbound_headers env task agent db1 of
             Inl e \<Rightarrow> failed
           | Inr headers \<Rightarrow>
             (let call = \<lparr>ac_url = ag_base_url agent @ ''/execute'', ac_headers = headers, ac_type = tk_type task,
                    ac_payload = tk_payload task, ac_persona = fst (snd p), ac_context = ctx, ac_attempt = attempt, ac_timeout = timeout\<rparr>;
                  db2 = db1\<lparr>wd_sent := insert_row call (wd_sent db1)\<rparr> in
              handle_response env task agent p (de_post env call) db2))))"

definition persona_gate :: "task_row \<Rightarrow> task_route option \<Rightarrow> dict option \<Rightarrow> json res" where
  "persona_gate task route tools = (case tools of
     None \<Rightarrow> Inr (JInt 30)
   | Some tp \<Rightarrow> enforce_persona_policy (tk_type task) (route_caps route) (Some 30) tp)"

definition dispatch_task :: "dispatch_env \<Rightarrow> int \<Rightarrow> int \<Rightarrow> worker_db \<Rightarrow> unit res \<times> worker_db" where
  "dispatch_task env attempt task_id db =
    (case select_first (\<lambda>t. tk_id t = task_id) (wd_tasks db) of
       None \<Rightarrow> (Inr (), db)
     | Some task \<Rightarrow>
       (case resolve_persona env task db of
          Inl e \<Rightarrow> (Inl e, db)
        | Inr p \<Rightarrow>
          (let route = find_route task db in
           case persona_gate task route (snd (snd p)) of
             Inl (HTTPException st d) \<Rightarrow>
               (Inr (), emit_metric ''persona_policy_violation'' (tk_id task) (set_task_status (tk_id task) ''failed'' db))
           | Inl e \<Rightarrow> (Inl e, db)
           | Inr limit \<Rightarrow>
             (case select_agent task route db of
                Inl e \<Rightarrow> (Inl e, db)
              | Inr None \<Rightarrow> (Inr (), db)
              | Inr (Some agent) \<Rightarrow>
                  run_on_agent env attempt task p route agent (case py_num limit of None \<Rightarrow> 30 | Some n \<Rightarrow> n) db))))"

section \<open>The job as shipped\<close>

lemma no_active_agent: "select_agent task route db = Inr None"
proof -
  have "select_all (\<lambda>a. column_is_True (ag_is_active a)) (wd_agents db) = []" by (simp add: select_all_def)
  then have "eligible_agents (route_caps route) (select_all (\<lambda>a. column_is_True (ag_is_active a)) (wd_agents db)) = Some []"
    by simp
  moreover have "pick_agent route [] = None" by (auto simp: pick_agent_def split: option.splits)
  moreover have "select_first (\<lambda>a. Some (ag_id a) = tk_assigned_agent_id task \<and> column_is_True (ag_is_active a)) (wd_agents db) = None"
    by (simp add: select_first_None)
  ultimately show ?thesis by (simp add: select_agent_def)
qed

text \<open>the job never contacts an agent and never writes to the system of record, whatever tasks,
  routes, agents and personas are stored: the filters on the column \<open>is_active\<close> select nothing.  The
  only change it can make is to fail a task its persona forbids.\<close>

theorem dispatch_never_contacts_agent:
  "\<exists>db'. snd (dispatch_task env attempt tid db) = db' \<and> wd_sent db' = wd_sent db \<and> wd_sor db' = wd_sor db
     \<and> (db' = db \<or> db' = emit_metric ''persona_policy_violation'' tid (set_task_status tid ''failed'' db))"
  by (auto simp: dispatch_task_def Let_def no_active_agent emit_metric_def set_task_status_def
      split: option.splits sum.splits exn.splits dest: select_first_Some)

section \<open>Writes keep the history\<close>

lemma flush_Some:
  assumes "flush db = Some db'"
  shows "\<exists>t. db' = db\<lparr>wd_sor := (wd_sor db)\<lparr>sd_idem := t\<rparr>, wd_pending := []\<rparr>"
  using assms by (auto simp: flush_def split: option.splits)

lemma apply_write_cases:
  assumes "apply_write env task agent i w db = Applied db'"
  obtains (replayed) "db' = db"
  | (written) e s t where "merge_entity env i w (wd_sor db) = (e, s)" "write_done env w db = Inr False"
    "flush (db\<lparr>wd_sor := s\<rparr>) = Some (db\<lparr>wd_sor := s\<lparr>sd_idem := t\<rparr>, wd_pending := []\<rparr>)"
    "db' = record_agent_write env task agent i w (find_entity w (wd_sor db)) e (db\<lparr>wd_sor := s\<lparr>sd_idem := t\<rparr>, wd_pending := []\<rparr>)"
proof (cases "write_done env w db")
  case (Inl e)
  then show ?thesis using assms by (simp add: apply_write_def)
next
  case (Inr b)
  show ?thesis
  proof (cases b)
    case True
    then show ?thesis using assms Inr that(1) by (simp add: apply_write_def)
  next
    case False
    obtain e s where m: "merge_entity env i w (wd_sor db) = (e, s)" by fastforce
    then obtain db1 where fl: "flush (db\<lparr>wd_sor := s\<rparr>) = Some db1"
      using assms Inr False by (simp add: apply_write_def split: option.splits)
    then obtain t where "db1 = db\<lparr>wd_sor := s\<lparr>sd_idem := t\<rparr>, wd_pending := []\<rparr>"
      using flush_Some[OF fl] by auto
    then show ?thesis using that(2)[OF m] assms Inr False m fl by (simp add: apply_write_def)
  qed
qed

lemma apply_write_Rejected: "apply_write env task agent i w db = Rejected e d \<Longrightarrow> d = db"
  by (auto simp: apply_write_def split: sum.splits bool.splits prod.splits option.splits)

definition entity_ids :: "worker_db \<Rightarrow> string set" where
  "entity_ids db = en_id ` set (sd_entities (wd_sor db))"

lemma record_agent_write_sor [simp]:
  "sd_entities (wd_sor (record_agent_write env task agent i w old e db)) = sd_entities (wd_sor db)"
  "sd_events (wd_sor (record_agent_write env task agent i w old e db)) =
     sd_events (wd_sor db) @ [write_event env task agent i w old e]"
  "wd_tasks (record_agent_write env task agent i w old e db) = wd_tasks db"
  "wd_pending (record_agent_write env task agent i w old e db) = insert_row (write_key env i w e) (wd_pending db)"
  "sd_idem (wd_sor (record_agent_write env task agent i w old e db)) = sd_idem (wd_sor db)"
  by (simp_all add: record_agent_write_def agent_audit_def insert_row_def)

lemma find_entity_in: "find_entity w s = Some e \<Longrightarrow> e \<in> set (sd_entities s)"
  by (auto simp: find_entity_def split: if_splits dest: select_first_Some)

lemma apply_write_history:
  assumes "apply_write env task agent i w db = Applied db'" "history_ok (wd_sor db)" "de_entity_id env i \<notin> entity_ids db"
  shows "history_ok (wd_sor db') \<and> entity_ids db' \<subseteq> insert (de_entity_id env i) (entity_ids db)"
  using assms(1)
proof (cases rule: apply_write_cases)
  case replayed
  then show ?thesis using assms by auto
next
  case (written e s t)
  show ?thesis
  proof (cases "find_entity w (wd_sor db)")
    case None
    then have m: "s = (wd_sor db)\<lparr>sd_entities := insert_row e (sd_entities (wd_sor db))\<rparr>" "en_id e = de_entity_id env i"
      "en_version e = 1" "en_data e = Some (pw_patch w)"
      using written(1) by (auto simp: merge_entity_def Let_def)
    have "history_ok (wd_sor db')"
      by (rule history_ok_create[OF assms(2), of e _ "write_event env task agent i w None e"])
        (use m assms(3) written(4) None in \<open>auto simp: entity_ids_def write_event_def\<close>)
    then show ?thesis using m written(4) by (auto simp: entity_ids_def)
  next
    case (Some e0)
    then have m: "s = (wd_sor db)\<lparr>sd_entities := update_rows (\<lambda>r. en_id r = en_id e0) (\<lambda>_. e) (sd_entities (wd_sor db))\<rparr>"
      "en_id e = en_id e0" "en_version e = en_version e0 + 1" "\<exists>d. en_data e = Some d"
      using written(1) by (auto simp: merge_entity_def Let_def)
    have "history_ok (wd_sor db')"
      by (rule history_ok_update[OF assms(2) find_entity_in[OF Some], of e _ "write_event env task agent i w (Some e0) e"])
        (use m written(4) Some in \<open>auto simp: write_event_def\<close>)
    then show ?thesis using m written(4) find_entity_in[OF Some] by (auto simp: entity_ids_def set_update_rows)
  qed
qed

text \<open>What a stage leaves in the session, if it leaves one.\<close>

definition left_by :: "applied \<Rightarrow> worker_db option" where
  "left_by a = (case a of Applied d \<Rightarrow> Some d | Rejected e d \<Rightarrow> Some d | Poisoned \<Rightarrow> None)"

lemma left_by_simps [simp]:
  "left_by (Applied d) = Some d" "left_by (Rejected e d) = Some d" "left_by Poisoned = None"
  by (simp_all add: left_by_def)

definition fresh_entities :: "dispatch_env \<Rightarrow> nat \<Rightarrow> worker_db \<Rightarrow> bool" where
  "fresh_entities env i db = (\<forall>j \<ge> i. de_entity_id env j \<notin> entity_ids db)"

lemma apply_writes_history:
  assumes "left_by (apply_writes env task agent i ws db) = Some d" "history_ok (wd_sor db)" "fresh_entities env i db"
    "inj (de_entity_id env)"
  shows "history_ok (wd_sor d)"
  using assms(1-3)
proof (induction ws arbitrary: i db)
  case (Cons w ws)
  show ?case
  proof (cases "apply_write env task agent i w db")
    case (Applied db1)
    have h: "history_ok (wd_sor db1)" "entity_ids db1 \<subseteq> insert (de_entity_id env i) (entity_ids db)"
      using apply_write_history[OF Applied Cons.prems(2)] Cons.prems(3) by (auto simp: fresh_entities_def)
    have "fresh_entities env (Suc i) db1"
      unfolding fresh_entities_def
    proof (intro allI impI)
      fix j assume "Suc i \<le> j"
      then have "de_entity_id env j \<noteq> de_entity_id env i" "de_entity_id env j \<notin> entity_ids db"
        using Cons.prems(3) assms(4) by (auto simp: fresh_entities_def inj_eq)
      then show "de_entity_id env j \<notin> entity_ids db1" using h(2) by blast
    qed
    then show ?thesis using Cons.IH[of "Suc i" db1] Cons.prems(1) h(1) Applied by simp
  next
    case (Rejected e d1)
    then show ?thesis using Cons.prems by (auto dest: apply_write_Rejected)
  qed (use Cons.prems in simp)
qed simp

lemma flush_sor:
  assumes "flush db = Some db'"
  shows "sd_entities (wd_sor db') = sd_entities (wd_sor db)" "sd_events (wd_sor db') = sd_events (wd_sor db)"
    "wd_tasks db' = wd_tasks db" "wd_sent db' = wd_sent db"
  using flush_Some[OF assms] by auto

lemma apply_task_sor:
  assumes "apply_task env task ws i p db = Applied db'"
  shows "sd_entities (wd_sor db') = sd_entities (wd_sor db) \<and> sd_events (wd_sor db') = sd_events (wd_sor db)"
  using assms by (auto simp: apply_task_def Let_def split: if_splits option.splits dest: flush_sor)

lemma apply_task_not_Rejected: "apply_task env task ws i p db \<noteq> Rejected e d"
  by (auto simp: apply_task_def Let_def split: option.splits)

lemma apply_task_list_sor:
  assumes "left_by (apply_task_list env task ws i ps db) = Some d"
  shows "sd_entities (wd_sor d) = sd_entities (wd_sor db) \<and> sd_events (wd_sor d) = sd_events (wd_sor db)"
  using assms
proof (induction ps arbitrary: i db)
  case (Cons p ps)
  then show ?case
    by (cases "apply_task env task ws i p db") (auto simp: apply_task_not_Rejected dest: apply_task_sor)
qed simp

lemma apply_tasks_sor:
  assumes "left_by (apply_tasks env task p ws ps db) = Some d"
  shows "sd_entities (wd_sor d) = sd_entities (wd_sor db) \<and> sd_events (wd_sor d) = sd_events (wd_sor db)"
  using assms
  by (auto simp: apply_tasks_def split: prod.splits if_splits option.splits bool.splits dest: apply_task_list_sor)

lemma apply_summary_frame [simp]:
  "sd_entities (wd_sor (apply_summary env task agent js db)) = sd_entities (wd_sor db)"
  "sd_events (wd_sor (apply_summary env task agent js db)) = sd_events (wd_sor db)"
  "sd_idem (wd_sor (apply_summary env task agent js db)) = sd_idem (wd_sor db)"
  "wd_pending (apply_summary env task agent js db) = wd_pending db"
  "wd_tasks (apply_summary env task agent js db) = wd_tasks db"
  by (auto simp: apply_summary_def agent_audit_def Let_def split: option.splits)

lemma apply_response_history:
  assumes "left_by (apply_response env task agent p rs db) = Some d" "history_ok (wd_sor db)" "fresh_entities env 0 db"
    "inj (de_entity_id env)"
  shows "history_ok (wd_sor d)"
proof (cases "list_or_empty (rs_writes rs) = []")
  case True
  then show ?thesis using assms(1,2) by (simp add: apply_response_def)
next
  case False
  let ?ws = "list_or_empty (rs_writes rs)"
  show ?thesis
  proof (cases "apply_writes env task agent 0 ?ws db")
    case (Applied db1)
    have h1: "history_ok (wd_sor db1)" using apply_writes_history[of env task agent 0 ?ws db db1] assms Applied by simp
    then show ?thesis
    proof (cases "apply_tasks env task p ?ws (list_or_empty (rs_tasks rs)) db1")
      case a: (Applied db2)
      then show ?thesis using assms(1) False Applied h1 apply_tasks_sor[of env task p ?ws "list_or_empty (rs_tasks rs)" db1 db2]
        by (auto simp: apply_response_def cong: history_ok_cong)
    next
      case r: (Rejected e db2)
      then show ?thesis using assms(1) False Applied h1 apply_tasks_sor[of env task p ?ws "list_or_empty (rs_tasks rs)" db1 db2]
        by (auto simp: apply_response_def cong: history_ok_cong)
    next
      case Poisoned
      then show ?thesis using assms(1) False Applied by (simp add: apply_response_def)
    qed
  next
    case (Rejected e db1)
    then show ?thesis using assms False apply_writes_history[of env task agent 0 ?ws db db1] by (simp add: apply_response_def)
  next
    case Poisoned
    then show ?thesis using assms(1) False by (simp add: apply_response_def)
  qed
qed

lemma commit_Some:
  assumes "commit db = Some db'"
  shows "flush db = Some db'"
  using assms by (simp add: commit_def split: if_splits)

lemma finish_task_sor:
  assumes "finish_task task c s d = (r, d')"
  shows "(d' = c \<and> r = Inl poisoned) \<or> (sd_entities (wd_sor d') = sd_entities (wd_sor d) \<and> sd_events (wd_sor d') = sd_events (wd_sor d)
     \<and> wd_tasks d' = wd_tasks (set_task_status (tk_id task) s d) \<and> r = Inr ())"
  using assms by (auto simp: finish_task_def split: option.splits dest!: commit_Some dest: flush_sor) (simp_all add: flush_sor set_task_status_def)

lemma record_artifact_frame [simp]:
  "wd_sor (record_artifact task rs db) = wd_sor db" "wd_tasks (record_artifact task rs db) = wd_tasks db"
  "wd_pending (record_artifact task rs db) = wd_pending db" "entity_ids (record_artifact task rs db) = entity_ids db"
  "fresh_entities env i (record_artifact task rs db) = fresh_entities env i db"
  by (simp_all add: record_artifact_def emit_metric_def Let_def entity_ids_def fresh_entities_def)

lemma handle_response_history:
  assumes "history_ok (wd_sor db)" "fresh_entities env 0 db" "inj (de_entity_id env)"
  shows "history_ok (wd_sor (snd (handle_response env task agent p answer db)))"
proof -
  have fin: "history_ok (wd_sor (snd (finish_task task db s d)))" if "history_ok (wd_sor d)" for s d
    using that assms(1) finish_task_sor[of task db s d "fst (finish_task task db s d)" "snd (finish_task task db s d)"]
    by (auto cong: history_ok_cong)
  have left: "left_by (apply_response env task agent p rs (record_artifact task rs db)) = Some d \<Longrightarrow> history_ok (wd_sor d)" for rs d
    using apply_response_history[of env task agent p rs "record_artifact task rs db" d] assms by simp
  have left_A: "apply_response env task agent p rs (record_artifact task rs db) = Applied d \<Longrightarrow> history_ok (wd_sor d)"
    and left_R: "apply_response env task agent p rs (record_artifact task rs db) = Rejected e d \<Longrightarrow> history_ok (wd_sor d)" for rs d e
    using left[of rs d] by simp_all
  show ?thesis
    using assms(1) fin left_A left_R
    by (auto simp: handle_response_def Let_def set_task_status_def split: sum.splits applied.splits)
qed

text \<open>C7: the worker keeps the history of the system of record that the entity API keeps: whatever an
  agent proposes, accepted, refused or broken off half way, every entity has as many events as its
  version counts and its data are what its last event recorded.\<close>

theorem agent_writes_keep_history:
  assumes "history_ok (wd_sor db)" "inj (de_entity_id env)" "\<forall>i. de_entity_id env i \<notin> entity_ids db"
  shows "history_ok (wd_sor (snd (run_on_agent env attempt task p route agent limit db)))"
proof -
  have "history_ok (wd_sor (snd (handle_response env task agent p' a
      ((set_task_status (tk_id task) ''running'' db)\<lparr>wd_sent := c\<rparr>))))" for p' a c
    by (rule handle_response_history) (use assms in \<open>auto simp: set_task_status_def fresh_entities_def entity_ids_def\<close>)
  then show ?thesis
    using assms(1)
    by (auto simp: run_on_agent_def Let_def split: sum.splits context_result.splits)
      (auto simp: set_task_status_def)
qed

section \<open>Proposed tasks, refused writes and repeated keys\<close>

definition may_propose :: "persona_state \<Rightarrow> bool" where
  "may_propose p = (case p of (pvid, block, tools) \<Rightarrow> truthy_id pvid \<and> block \<noteq> None \<and>
     (\<exists>tp. tools = Some tp \<and> py_in ''monitoring.alert_to_task'' (dget tp ''allowed_capabilities'' (JList [])) = Some True))"

definition task_ids :: "worker_db \<Rightarrow> int set" where
  "task_ids db = tk_id ` set (wd_tasks db)"

lemma task_ids_status [simp]: "task_ids (set_task_status i s db) = task_ids db"
proof -
  have "List.map tk_id (wd_tasks (set_task_status i s db)) = List.map tk_id (wd_tasks db)"
    unfolding set_task_status_def table_update_def by (simp add: map_update_rows)
  then show ?thesis unfolding task_ids_def by (metis list.set_map)
qed

lemma apply_write_tasks:
  assumes "apply_write env task agent i w db = Applied db'"
  shows "wd_tasks db' = wd_tasks db"
  using assms by (cases rule: apply_write_cases) auto

lemma apply_writes_tasks: "left_by (apply_writes env task agent i ws db) = Some d \<Longrightarrow> wd_tasks d = wd_tasks db"
proof (induction ws arbitrary: i db)
  case (Cons w ws)
  then show ?case
    by (cases "apply_write env task agent i w db") (auto dest: apply_write_tasks apply_write_Rejected)
qed simp

lemma apply_tasks_refused:
  assumes "left_by (apply_tasks env task p ws ps db) = Some d" "\<not> may_propose p"
  shows "d = db"
  using assms by (auto simp: apply_tasks_def may_propose_def split: prod.splits if_splits option.splits bool.splits)

lemma apply_response_tasks:
  assumes "left_by (apply_response env task agent p rs db) = Some d" "wd_tasks d \<noteq> wd_tasks db"
  shows "may_propose p \<and> list_or_empty (rs_writes rs) \<noteq> [] \<and> list_or_empty (rs_tasks rs) \<noteq> []"
proof -
  let ?ws = "list_or_empty (rs_writes rs)"
  have ne: "?ws \<noteq> []"
  proof
    assume "?ws = []"
    then have "d = db" using assms(1) by (simp add: apply_response_def)
    then show False using assms(2) by simp
  qed
  have "\<exists>db1. apply_writes env task agent 0 ?ws db = Applied db1"
  proof (cases "apply_writes env task agent 0 ?ws db")
    case (Rejected e d1)
    then have "d1 = d" using assms(1) ne by (simp add: apply_response_def)
    then show ?thesis using apply_writes_tasks[of env task agent 0 ?ws db d] Rejected assms(2) by simp
  next
    case Poisoned
    then show ?thesis using assms(1) ne by (simp add: apply_response_def)
  qed simp
  then obtain db1 where w: "apply_writes env task agent 0 ?ws db = Applied db1" by blast
  have t1: "wd_tasks db1 = wd_tasks db" using apply_writes_tasks[of env task agent 0 ?ws db db1] w by simp
  let ?t = "apply_tasks env task p ?ws (list_or_empty (rs_tasks rs)) db1"
  have resp: "apply_response env task agent p rs db = (case ?t of Applied db2 \<Rightarrow> Applied (apply_summary env task agent (rs_summary rs) db2) | a \<Rightarrow> a)"
    using ne w by (simp add: apply_response_def)
  have "\<exists>d2. left_by ?t = Some d2 \<and> wd_tasks d = wd_tasks d2"
    using assms(1) unfolding resp by (cases ?t) auto
  then obtain d2 where d2: "left_by ?t = Some d2" "wd_tasks d = wd_tasks d2" by blast
  have "list_or_empty (rs_tasks rs) \<noteq> []" using d2 t1 assms(2) by (auto simp: apply_tasks_def split: prod.splits)
  moreover have "may_propose p" using apply_tasks_refused[OF d2(1)] d2(2) t1 assms(2) by auto
  ultimately show ?thesis using ne by simp
qed

text \<open>an agent can only create tasks when the task runs under a persona version with the capability
  to do so, and then only beside at least one proposed write; an answer that proposes tasks alone
  creates none.\<close>

theorem tasks_need_capability:
  assumes "handle_response env task agent p answer db = (r, db')" "task_ids db' \<noteq> task_ids db"
  shows "may_propose p \<and> (\<exists>rs. answer = Inr rs \<and> rs_ok rs \<and> list_or_empty (rs_writes rs) \<noteq> [] \<and> list_or_empty (rs_tasks rs) \<noteq> [])"
proof -
  obtain rs where rs: "answer = Inr rs" "rs_ok rs" "de_put env (result_key task) (result_bytes rs) = Inr ()"
    using assms by (auto simp: handle_response_def Let_def split: sum.splits if_splits)
  let ?a = "apply_response env task agent p rs (record_artifact task rs db)"
  obtain d s where d: "left_by ?a = Some d" "finish_task task db s d = (r, db')"
    using assms rs by (cases ?a) (auto simp: handle_response_def Let_def)
  have "wd_tasks d \<noteq> wd_tasks db"
  proof
    assume "wd_tasks d = wd_tasks db"
    then have "task_ids d = task_ids db" by (simp add: task_ids_def)
    moreover have "db' = db \<or> wd_tasks db' = wd_tasks (set_task_status (tk_id task) s d)"
      using finish_task_sor[OF d(2)] by blast
    then have "db' = db \<or> task_ids db' = task_ids d"
      using task_ids_status[of "tk_id task" s d] by (metis task_ids_def)
    ultimately show False using assms(2) by auto
  qed
  then show ?thesis using apply_response_tasks[OF d(1)] rs by auto
qed

lemma apply_writes_append:
  "apply_writes env task agent i (ws @ us) db = (case apply_writes env task agent i ws db of
     Applied d \<Rightarrow> apply_writes env task agent (i + length ws) us d | a \<Rightarrow> a)"
  by (induction ws arbitrary: i db) (auto split: applied.splits)

lemma set_status_all: "t \<in> set (wd_tasks (set_task_status i s db)) \<Longrightarrow> tk_id t = i \<Longrightarrow> tk_status t = s"
  unfolding set_task_status_def table_update_def by (simp add: set_update_rows) (metis task_row.select_convs(1) task_row.select_convs(3) task_row.surjective task_row.update_convs(3))

text \<open>an answer is not applied all or nothing: when one of the proposed writes is refused, the task
  fails, the later writes are dropped, and the earlier ones are committed with it.\<close>

theorem refused_write_keeps_earlier:
  assumes "rs_ok rs" "de_put env (result_key task) (result_bytes rs) = Inr ()" "rs_writes rs = Some (ws @ w # us)"
    and "apply_writes env task agent 0 ws (record_artifact task rs db) = Applied d" "write_done env w d = Inl e"
    and "handle_response env task agent p (Inr rs) db = (Inr (), db')"
  shows "sd_entities (wd_sor db') = sd_entities (wd_sor d) \<and> sd_events (wd_sor db') = sd_events (wd_sor d)
    \<and> (\<forall>t \<in> set (wd_tasks db'). tk_id t = tk_id task \<longrightarrow> tk_status t = ''failed'')"
proof -
  have "apply_writes env task agent 0 (ws @ w # us) (record_artifact task rs db) = Rejected e d"
    using assms(4,5) by (simp add: apply_writes_append apply_write_def)
  then have "apply_response env task agent p rs (record_artifact task rs db) = Rejected e d"
    using assms(3) by (simp add: apply_response_def list_or_empty_def)
  then have fin: "finish_task task db ''failed'' d = (Inr (), db')"
    using assms(1,2,6) by (simp add: handle_response_def)
  then obtain d' where c: "commit (set_task_status (tk_id task) ''failed'' d) = Some d'" "db' = d'"
    by (auto simp: finish_task_def split: option.splits)
  note fl = flush_sor[OF commit_Some[OF c(1)]]
  have "wd_sor (set_task_status (tk_id task) ''failed'' d) = wd_sor d" by (simp add: set_task_status_def)
  then show ?thesis using fl c(2) set_status_all by metis
qed

section \<open>Repeated keys\<close>

text \<open>A pending key that is already in the table makes every later flush fail.\<close>

definition doomed :: "worker_db \<Rightarrow> bool" where
  "doomed db = (\<exists>r. wd_pending db = [r] \<and> (\<exists>x \<in> set (sd_idem (wd_sor db)). ik_key x = ik_key r))"

lemma doomed_flush: "doomed db \<Longrightarrow> flush (db\<lparr>wd_pending := wd_pending db @ rest, wd_tasks := ts\<rparr>) = None"
  by (auto simp: doomed_def flush_def)

lemma doomed_apply_task: "doomed db \<Longrightarrow> apply_task env task ws i p db \<in> {Applied db, Poisoned}"
  by (simp add: apply_task_def Let_def insert_row_def doomed_flush)

lemma doomed_apply_task_list: "doomed db \<Longrightarrow> apply_task_list env task ws i ps db \<in> {Applied db, Poisoned}"
proof (induction ps arbitrary: i)
  case (Cons p ps)
  then show ?case
    using doomed_apply_task[OF Cons.prems, of env task ws i p] Cons.IH[OF Cons.prems, of "Suc i"]
    by (cases "apply_task env task ws i p db") auto
qed simp

lemma doomed_apply_tasks:
  assumes "doomed db"
  shows "apply_tasks env task p ws ps db = Poisoned \<or> left_by (apply_tasks env task p ws ps db) = Some db"
  using doomed_apply_task_list[OF assms, of env task ws 0 ps]
  by (auto simp: apply_tasks_def split: prod.splits option.splits bool.splits)

lemma doomed_finish:
  assumes "doomed d"
  shows "finish_task task c s d = (Inl poisoned, c)"
proof -
  have "flush (set_task_status (tk_id task) s d) = None"
    using assms by (auto simp: doomed_def flush_def set_task_status_def)
  then show ?thesis by (simp add: finish_task_def commit_def)
qed

lemma doomed_summary: "doomed (apply_summary env task agent js d) = doomed d"
  by (simp add: doomed_def)

lemma merge_entity_idem: "merge_entity env i w s = (e, s') \<Longrightarrow> sd_idem s' = sd_idem s"
  by (auto simp: merge_entity_def Let_def split: option.splits)

lemma new_write_done:
  assumes "validate_proposed_write (proposed_write.truncate w) = Inr ()" "\<forall>r \<in> set (sd_idem (wd_sor db)). ik_key r \<noteq> pw_idempotency_key w"
  shows "write_done env w db = Inr False"
proof -
  have "select_first (\<lambda>r. ik_key r = pw_idempotency_key w) (sd_idem (wd_sor db)) = None"
    using assms(2) by (auto simp: select_first_None)
  then show ?thesis using assms(1) by (simp add: write_done_def check_idempotency_def)
qed

text \<open>two new writes of one answer under the same idempotency key are not recognised as one, because
  the first key is not flushed when the second is looked up: the second insert breaks the session, the
  whole answer is lost and the task stays as it was last committed, in status running.\<close>

theorem repeated_key_breaks_session:
  assumes "rs_ok rs" "de_put env (result_key task) (result_bytes rs) = Inr ()" "rs_writes rs = Some [w, u]"
    and "pw_idempotency_key u = pw_idempotency_key w" "\<forall>r \<in> set (sd_idem (wd_sor db)). ik_key r \<noteq> pw_idempotency_key w"
    and "validate_proposed_write (proposed_write.truncate w) = Inr ()" "validate_proposed_write (proposed_write.truncate u) = Inr ()"
    and "wd_pending db = []"
  shows "handle_response env task agent p (Inr rs) db = (Inl poisoned, db)"
proof -
  let ?db0 = "record_artifact task rs db"
  obtain e s where m: "merge_entity env 0 w (wd_sor ?db0) = (e, s)" by fastforce
  have "write_done env w ?db0 = Inr False" using new_write_done[OF assms(6)] assms(5) by simp
  moreover have "flush (?db0\<lparr>wd_sor := s\<rparr>) = Some (?db0\<lparr>wd_sor := s\<rparr>)"
    using assms(8) by (simp add: flush_def)
  ultimately obtain db1 where w: "apply_write env task agent 0 w ?db0 = Applied db1"
    "wd_pending db1 = [write_key env 0 w e]" "sd_idem (wd_sor db1) = sd_idem (wd_sor db)"
    using m assms(8) merge_entity_idem[OF m] by (auto simp: apply_write_def insert_row_def)
  obtain e2 s2 where m2: "merge_entity env 1 u (wd_sor db1) = (e2, s2)" by fastforce
  have k: "\<not> (\<exists>x \<in> set (sd_idem (wd_sor db)). ik_key x = ik_key (write_key env 0 w e))"
    using assms(5) by (auto simp: write_key_def)
  have "write_done env u db1 = Inr False" using new_write_done[OF assms(7)] assms(4,5) w(3) by simp
  moreover have "flush (db1\<lparr>wd_sor := s2\<rparr>) = Some (db1\<lparr>wd_sor := s2\<lparr>sd_idem := insert_row (write_key env 0 w e) (sd_idem (wd_sor db))\<rparr>, wd_pending := []\<rparr>)"
    using w(2,3) k merge_entity_idem[OF m2] by (simp add: flush_def)
  ultimately obtain db2 where u: "apply_write env task agent 1 u db1 = Applied db2"
    "wd_pending db2 = [write_key env 1 u e2]" "sd_idem (wd_sor db2) = insert_row (write_key env 0 w e) (sd_idem (wd_sor db))"
    using m2 by (auto simp: apply_write_def insert_row_def)
  have doom: "doomed db2" using u(2,3) assms(4) by (auto simp: doomed_def write_key_def)
  have resp: "apply_response env task agent p rs ?db0 = (case apply_tasks env task p [w, u] (list_or_empty (rs_tasks rs)) db2 of
      Applied d \<Rightarrow> Applied (apply_summary env task agent (rs_summary rs) d) | a \<Rightarrow> a)"
    using assms(3) w(1) u(1) by (simp add: apply_response_def list_or_empty_def)
  have "apply_response env task agent p rs ?db0 = Poisoned
      \<or> (\<exists>d. doomed d \<and> (apply_response env task agent p rs ?db0 = Applied d \<or> (\<exists>e. apply_response env task agent p rs ?db0 = Rejected e d)))"
    unfolding resp using doomed_apply_tasks[OF doom, of env task p "[w, u]" "list_or_empty (rs_tasks rs)"] doom
    by (cases "apply_tasks env task p [w, u] (list_or_empty (rs_tasks rs)) db2") (auto simp: doomed_summary)
  then show ?thesis using assms(1,2) doomed_finish by (auto simp: handle_response_def)
qed

section \<open>Witnesses\<close>

definition sample_write :: "string \<Rightarrow> string \<Rightarrow> string \<Rightarrow> agent_write" where
  "sample_write kind ref key = \<lparr>pw_entity_kind = kind, pw_external_ref = Some ref, pw_action = ''upsert'',
     pw_patch = [(''name'', JStr ''a''), (''record_type'', JStr ''A''), (''value'', JStr ''1.2.3.4''), (''ttl'', JInt 60)],
     pw_idempotency_key = key, aw_full_state = None\<rparr>"

definition sample_response :: "agent_write list \<Rightarrow> agent_response" where
  "sample_response ws = \<lparr>rs_ok = True, rs_result = None, rs_writes = Some ws,
     rs_tasks = Some [\<lparr>pt_type = ''dns.check'', pt_priority = ''high'', pt_payload = [], pt_persona_version_id = None, pt_idempotency_key = ''t1''\<rparr>],
     rs_summary = None\<rparr>"

definition sample_env :: "agent_response res \<Rightarrow> dispatch_env" where
  "sample_env answer = \<lparr>de_now = 5, de_sha = (\<lambda>s. s), de_persona_name = (\<lambda>_. Inr ''ops''), de_distance = (\<lambda>_ _. 1), de_embed_error = (\<lambda>_. type_error),
     de_dec = (\<lambda>_ _ _ _. None), de_master_key = None, de_post = (\<lambda>_. answer), de_put = (\<lambda>_ _. Inr ()),
     de_entity_id = (\<lambda>i. replicate i CHR ''e''), de_event_id = (\<lambda>_. ''ev''), de_idem_id = (\<lambda>_. ''ik''), de_link_id = (\<lambda>_. ''l''),
     de_task_id = (\<lambda>i. 100 + int i), de_task_idem_id = (\<lambda>_. ''ti''), de_task_link_id = (\<lambda>_ _. ''tl''), de_job_id = ''j'', de_snapshot_id = ''s''\<rparr>"

definition sample_task :: task_row where
  "sample_task = \<lparr>tk_id = 1, tk_type = ''dns.sync'', tk_status = ''running'', tk_priority = 1, tk_payload = [], tk_persona_version_id = Some 7,
     tk_requested_by_user_id = Some 1, tk_requested_by_agent_id = None, tk_assigned_agent_id = None\<rparr>"

definition sample_agent :: agent_row where
  "sample_agent = \<lparr>ag_id = 3, ag_name = ''dns-agent'', ag_base_url = ''http://dns'', ag_auth_type = ''none'', ag_is_active = True,
     ag_capabilities = None, ag_status = ''healthy'', ag_max_concurrency = 2, ag_timeout_seconds = 30\<rparr>"

definition sample_persona :: persona_state where
  "sample_persona = (Some 7, Some \<lparr>pb_id = ''7'', pb_name = ''ops'', pb_version = ''1'', pb_system_prompt = [], pb_tools_policy = None\<rparr>,
     Some [(''allowed_capabilities'', JList [JStr ''monitoring.alert_to_task''])])"

definition sample_worker :: worker_db where
  "sample_worker = \<lparr>wd_tasks = [sample_task], wd_versions = [], wd_defaults = [], wd_routes = [], wd_agents = [sample_agent], wd_secrets = [],
     wd_kb = [], wd_sor = sor_empty, wd_pending = [], wd_links = [], wd_storage_jobs = [], wd_carrier_snapshots = [], wd_artifacts = [],
     wd_metrics = [], wd_storage_targets = [], wd_carrier_targets = [], wd_sent = []\<rparr>"

definition sample_handled :: "agent_write list \<Rightarrow> unit res \<times> worker_db" where
  "sample_handled ws = handle_response (sample_env (Inr (sample_response ws))) sample_task sample_agent sample_persona
     (Inr (sample_response ws)) sample_worker"

theorem agent_writes_keep_history_witness:
  "history_ok (wd_sor (snd (run_on_agent (sample_env (Inr (sample_response [sample_write ''dns_record'' ''z'' ''k1'']))) 1 sample_task
     sample_persona None sample_agent 30 sample_worker)))"
proof (rule agent_writes_keep_history)
  show "history_ok (wd_sor sample_worker)" by (simp add: sample_worker_def history_ok_def sor_empty_def)
  show "inj (de_entity_id (sample_env (Inr (sample_response [sample_write ''dns_record'' ''z'' ''k1'']))))"
    by (auto simp: sample_env_def inj_def dest: arg_cong[where f = length])
  show "\<forall>i. de_entity_id (sample_env (Inr (sample_response [sample_write ''dns_record'' ''z'' ''k1'']))) i \<notin> entity_ids sample_worker"
    by (simp add: entity_ids_def sample_worker_def sor_empty_def)
qed

theorem tasks_need_capability_witness: "may_propose sample_persona"
proof -
  obtain r d where run: "sample_handled [sample_write ''dns_record'' ''z'' ''k1''] = (r, d)" by fastforce
  have "List.map tk_id (wd_tasks (snd (sample_handled [sample_write ''dns_record'' ''z'' ''k1'']))) = [1, 100]" by code_simp
  then have "task_ids d = {1, 100}" using run unfolding task_ids_def by (metis list.set(1,2) list.set_map snd_conv)
  moreover have "task_ids sample_worker = {1}" by (simp add: task_ids_def sample_worker_def sample_task_def)
  ultimately have "task_ids d \<noteq> task_ids sample_worker" by auto
  then show ?thesis using tasks_need_capability[OF run[unfolded sample_handled_def]] by simp
qed

theorem refused_write_keeps_earlier_witness:
  "\<exists>d'. sample_handled [sample_write ''dns_record'' ''z'' ''k1'', sample_write ''vm'' ''y'' ''k2''] = (Inr (), d') \<and> length (sd_entities (wd_sor d')) = 1"
proof -
  let ?ws = "[sample_write ''dns_record'' ''z'' ''k1'']" and ?w = "sample_write ''vm'' ''y'' ''k2''"
  let ?rs = "sample_response (?ws @ ?w # [])" and ?env = "sample_env (Inr (sample_response (?ws @ ?w # [])))"
  have ok: "fst (sample_handled (?ws @ ?w # [])) = Inr ()" by code_simp
  then obtain d' where run: "sample_handled (?ws @ ?w # []) = (Inr (), d')" by (metis prod.collapse)
  have "\<exists>d. apply_writes ?env sample_task sample_agent 0 ?ws (record_artifact sample_task ?rs sample_worker) = Applied d
      \<and> isl (write_done ?env ?w d) \<and> length (sd_entities (wd_sor d)) = 1"
  proof (cases "apply_writes ?env sample_task sample_agent 0 ?ws (record_artifact sample_task ?rs sample_worker)")
    case (Applied d)
    have "case apply_writes ?env sample_task sample_agent 0 ?ws (record_artifact sample_task ?rs sample_worker) of
        Applied d \<Rightarrow> isl (write_done ?env ?w d) \<and> length (sd_entities (wd_sor d)) = 1 | _ \<Rightarrow> False" by code_simp
    then show ?thesis using Applied by simp
  next
    case (Rejected e d)
    have "case apply_writes ?env sample_task sample_agent 0 ?ws (record_artifact sample_task ?rs sample_worker) of
        Applied d \<Rightarrow> True | _ \<Rightarrow> False" by code_simp
    then show ?thesis using Rejected by simp
  next
    case Poisoned
    have "case apply_writes ?env sample_task sample_agent 0 ?ws (record_artifact sample_task ?rs sample_worker) of
        Applied d \<Rightarrow> True | _ \<Rightarrow> False" by code_simp
    then show ?thesis using Poisoned by simp
  qed
  then obtain d e where d: "apply_writes ?env sample_task sample_agent 0 ?ws (record_artifact sample_task ?rs sample_worker) = Applied d"
    "write_done ?env ?w d = Inl e" "length (sd_entities (wd_sor d)) = 1" by (auto simp: isl_def)
  have "rs_ok ?rs" "de_put ?env (result_key sample_task) (result_bytes ?rs) = Inr ()" "rs_writes ?rs = Some (?ws @ ?w # [])"
    by (simp_all add: sample_response_def sample_env_def)
  from refused_write_keeps_earlier[OF this d(1,2) run[unfolded sample_handled_def]] show ?thesis using run d(3) by simp
qed

theorem repeated_key_breaks_session_witness:
  "sample_handled [sample_write ''dns_record'' ''z'' ''k1'', sample_write ''dns_record'' ''y'' ''k1''] = (Inl poisoned, sample_worker)"
  unfolding sample_handled_def
  by (rule repeated_key_breaks_session[of _ _ _ "sample_write ''dns_record'' ''z'' ''k1''" "sample_write ''dns_record'' ''y'' ''k1''"])
    (simp_all add: sample_response_def sample_env_def sample_write_def sample_worker_def sor_empty_def proposed_write.defs
      validate_proposed_write_def ALLOWED_ENTITIES_def dhas_def)

end
