(* ===== verification/Notifications.thy ===== *)
theory Notifications
  imports JsonText
begin

text \<open>
  The notifications agent (\<open>apps/notifications_agent\<close>): its tables and store (\<open>models.py\<close>,
  \<open>store/postgres.py\<close>), routing (\<open>routing/engine.py\<close>), templates (\<open>templates/engine.py\<close>), the channel
  factory and adapters (\<open>channels/\<close>), the delivery runner (\<open>queue/runner.py\<close>) and the handlers of
  \<open>api/notify.py\<close>, \<open>api/templates.py\<close> and \<open>api/routing_rules.py\<close>.  What vault and providers answer, the
  clock and fresh identifiers are arguments.  A delivery runs after the request that queued it; its
  steps are operations of their own, interleaved in any order by the step relation at the end.
\<close>

section \<open>Tables\<close>

record notif_job =
  nj_id :: string
  nj_tenant_id :: string
  nj_env :: string
  nj_severity :: string
  nj_template_id :: "string option"
  nj_subject :: "string option"
  nj_body_hash :: string
  nj_body_stored :: "string option"
  nj_sensitivity :: string
  nj_channels :: "string list"
  nj_context :: dict
  nj_status :: string
  nj_max_attempts :: nat
  nj_idempotency_key :: string
  nj_expires_at :: int
  nj_correlation_id :: string
  nj_service_id :: string
  nj_created_at :: int
  nj_completed_at :: "int option"

record delivery =
  dv_id :: string
  dv_job_id :: string
  dv_channel :: string
  dv_destination_hash :: string
  dv_status :: string
  dv_provider_msg_id :: "string option"
  dv_attempt :: nat
  dv_error_code :: "string option"
  dv_error_detail :: "string option"
  dv_sent_at :: "int option"

record notif_template =
  nt_id :: string
  nt_name :: string
  nt_channel :: string
  nt_subject :: "string option"
  nt_body :: string
  nt_storage_policy :: string

record routing_rule =
  rr_id :: string
  rr_tenant_id :: string
  rr_env :: string
  rr_severity :: string
  rr_channels :: "string list"
  rr_config :: "dict option"
  rr_enabled :: bool

record notif_audit =
  na_correlation_id :: string
  na_service_id :: string
  na_tenant_id :: string
  na_env :: string
  na_action :: string
  na_result :: string
  na_job_id :: "string option"

text \<open>\<open>nd_sends\<close> holds job, channel, attempt and success of every message handed to a channel.\<close>

record notif_db =
  nd_jobs :: "notif_job list"
  nd_deliveries :: "delivery list"
  nd_templates :: "notif_template list"
  nd_rules :: "routing_rule list"
  nd_audit :: "notif_audit list"
  nd_sends :: "(string \<times> string \<times> nat \<times> bool) list"

section \<open>Store\<close>

definition get_job_by_idempotency_key :: "int \<Rightarrow> string \<Rightarrow> notif_db \<Rightarrow> notif_job option" where
  "get_job_by_idempotency_key now key db =
     select_first (\<lambda>j. nj_idempotency_key j = key \<and> nj_expires_at j > now) (nd_jobs db)"

definition get_job :: "string \<Rightarrow> notif_db \<Rightarrow> notif_job option" where
  "get_job i db = select_first (\<lambda>j. nj_id j = i) (nd_jobs db)"

definition list_jobs :: "string \<Rightarrow> string option \<Rightarrow> string option \<Rightarrow> nat \<Rightarrow> notif_db \<Rightarrow> notif_job list" where
  "list_jobs tenant env status limit db = take limit (sort_key (\<lambda>j. - nj_created_at j) (select_all
     (\<lambda>j. nj_tenant_id j = tenant \<and> (env \<in> {None, Some []} \<or> env = Some (nj_env j))
        \<and> (status \<in> {None, Some []} \<or> status = Some (nj_status j))) (nd_jobs db)))"

definition set_job_status :: "string \<Rightarrow> string \<Rightarrow> int option \<Rightarrow> notif_db \<Rightarrow> notif_db" where
  "set_job_status i s done db = db\<lparr>nd_jobs := update_rows (\<lambda>j. nj_id j = i)
     (\<lambda>j. j\<lparr>nj_status := s, nj_completed_at := (case done of None \<Rightarrow> nj_completed_at j | Some t \<Rightarrow> Some t)\<rparr>) (nd_jobs db)\<rparr>"

definition get_template :: "string \<Rightarrow> notif_db \<Rightarrow> notif_template option" where
  "get_template i db = select_first (\<lambda>t. nt_id t = i) (nd_templates db)"

definition upsert_template :: "notif_template \<Rightarrow> notif_db \<Rightarrow> notif_template \<times> notif_db" where
  "upsert_template t db = (t, db\<lparr>nd_templates := (if get_template (nt_id t) db = None then insert_row t (nd_templates db)
     else update_rows (\<lambda>r. nt_id r = nt_id t) (\<lambda>_. t) (nd_templates db))\<rparr>)"

definition same_route :: "routing_rule \<Rightarrow> routing_rule \<Rightarrow> bool" where
  "same_route r q = (rr_tenant_id r = rr_tenant_id q \<and> rr_env r = rr_env q \<and> rr_severity r = rr_severity q)"

text \<open>The rule passed in carries a fresh identifier, which an existing row does not take over.\<close>

definition upsert_routing_rule :: "routing_rule \<Rightarrow> notif_db \<Rightarrow> routing_rule \<times> notif_db" where
  "upsert_routing_rule q db = (case select_first (\<lambda>r. same_route r q) (nd_rules db) of
     Some old \<Rightarrow> (let r = q\<lparr>rr_id := rr_id old\<rparr> in (r, db\<lparr>nd_rules := update_rows (\<lambda>x. rr_id x = rr_id old) (\<lambda>_. r) (nd_rules db)\<rparr>))
   | None \<Rightarrow> (q, db\<lparr>nd_rules := insert_row q (nd_rules db)\<rparr>))"

definition list_routing_rules :: "string \<Rightarrow> string option \<Rightarrow> notif_db \<Rightarrow> routing_rule list" where
  "list_routing_rules tenant env db = select_all
     (\<lambda>r. rr_tenant_id r = tenant \<and> (env \<in> {None, Some []} \<or> env = Some (rr_env r))) (nd_rules db)"

definition resolve_routing_rule :: "string \<Rightarrow> string \<Rightarrow> string \<Rightarrow> notif_db \<Rightarrow> routing_rule option" where
  "resolve_routing_rule tenant env severity db =
    (let look = (\<lambda>sev. select_first (\<lambda>r. rr_tenant_id r = tenant \<and> rr_env r = env \<and> rr_severity r = sev
           \<and> column_is_True (rr_enabled r)) (nd_rules db)) in
     case look severity of Some r \<Rightarrow> Some r | None \<Rightarrow> look ''*'')"

section \<open>Routing\<close>

definition DEFAULT_ROUTES :: "(string \<times> string list) list" where
  "DEFAULT_ROUTES = [(''critical'', [''telegram'', ''email'']), (''error'', [''telegram'']), (''warn'', [''telegram'']), (''info'', [''telegram''])]"

definition resolve_channels :: "string \<Rightarrow> string \<Rightarrow> string \<Rightarrow> string list option \<Rightarrow> notif_db \<Rightarrow> string list \<times> dict option" where
  "resolve_channels tenant env severity requested db =
    (case requested of
       Some (c # cs) \<Rightarrow> (c # cs, None)
     | _ \<Rightarrow> (case resolve_routing_rule tenant env severity db of
         Some r \<Rightarrow> (rr_channels r, Some (case rr_config r of None \<Rightarrow> [] | Some d \<Rightarrow> d))
       | None \<Rightarrow> ((case map_of DEFAULT_ROUTES severity of None \<Rightarrow> [''telegram''] | Some cs \<Rightarrow> cs), None)))"

section \<open>Templates\<close>

text \<open>\<open>\\w\<close> on the characters up to 255.\<close>

definition word_char :: "char \<Rightarrow> bool" where
  "word_char c = (let n = of_char c :: nat in (48 \<le> n \<and> n \<le> 57) \<or> (65 \<le> n \<and> n \<le> 90) \<or> n = 95 \<or> (97 \<le> n \<and> n \<le> 122)
     \<or> n \<in> {170, 178, 179, 181, 185, 186, 188, 189, 190} \<or> (192 \<le> n \<and> n \<noteq> 215 \<and> n \<noteq> 247))"

definition match_placeholder :: "string \<Rightarrow> (string \<times> string) option" where
  "match_placeholder s = (case s of
     c # t \<Rightarrow> if c = CHR ''{'' then
         (let key = takeWhile word_char t in
          case dropWhile word_char t of
            d # rest \<Rightarrow> if d = CHR ''}'' \<and> key \<noteq> [] then Some (key, rest) else None
          | [] \<Rightarrow> None)
       else None
   | [] \<Rightarrow> None)"

lemma match_placeholder_shorter: "match_placeholder s = Some (k, r) \<Longrightarrow> length r < length s"
proof -
  assume a: "match_placeholder s = Some (k, r)"
  then obtain c t where s: "s = c # t" by (cases s) (auto simp: match_placeholder_def)
  have "length (dropWhile word_char t) \<le> length t" by (rule length_dropWhile_le)
  then show ?thesis using a s
    by (auto simp: match_placeholder_def Let_def split: list.splits if_splits)
qed

function substitute :: "(json \<Rightarrow> string) \<Rightarrow> dict \<Rightarrow> string \<Rightarrow> string" where
  "substitute pystr ctx [] = []"
| "substitute pystr ctx (c # s) = (case match_placeholder (c # s) of
     Some (key, rest) \<Rightarrow> (case map_of ctx key of
         Some v \<Rightarrow> pystr v | None \<Rightarrow> [CHR ''{''] @ key @ [CHR ''}'']) @ substitute pystr ctx rest
   | None \<Rightarrow> c # substitute pystr ctx s)"
  by pat_completeness auto
termination by (relation "measure (\<lambda>(_, _, s). length s)") (auto dest: match_placeholder_shorter)

text \<open>\<open>builtin\<close> holds subject and body of the built-in templates.\<close>

definition notif_render ::
  "(json \<Rightarrow> string) \<Rightarrow> (string \<times> string \<times> string) list \<Rightarrow> string \<Rightarrow> string \<Rightarrow> dict option \<Rightarrow> string option \<Rightarrow> string option
    \<Rightarrow> notif_template option \<Rightarrow> string option \<times> string" where
  "notif_render pystr builtin now template_id context subj body tpl =
    (let truth = (\<lambda>s. s \<noteq> None \<and> s \<noteq> Some []);
         txt = (\<lambda>s. case s of None \<Rightarrow> [] | Some t \<Rightarrow> t);
         c0 = (case context of None \<Rightarrow> [] | Some d \<Rightarrow> d);
         c1 = (if truth subj \<and> \<not> dhas ''subject'' c0 then dset ''subject'' (JStr (txt subj)) c0 else c0);
         c2 = (if truth body \<and> \<not> dhas ''body'' c1 then dset ''body'' (JStr (txt body)) c1 else c1);
         c3 = (if \<not> dhas ''timestamp'' c2 then dset ''timestamp'' (JStr now) c2 else c2);
         (st, bt) = (case (case tpl of None \<Rightarrow> None | Some t \<Rightarrow> if nt_body t = [] then None else Some t) of
             Some t \<Rightarrow> (txt (nt_subject t), nt_body t)
           | None \<Rightarrow> (case (if template_id = [] then None else map_of builtin template_id) of
               Some (s, b) \<Rightarrow> (s, b)
             | None \<Rightarrow> (txt subj, txt body)))
     in ((if st = [] then None else Some (substitute pystr c3 st)), substitute pystr c3 bt))"

section \<open>Channels\<close>

record send_result =
  sn_success :: bool
  sn_provider_msg_id :: "string option"
  sn_error_code :: "string option"
  sn_error_detail :: "string option"
  sn_destination_hash :: string

datatype channel_adapter =
    Telegram string string
  | Smtp string int string string string bool
  | Sms string string string
  | SmsNotConfigured
  | Webhook string
  | Slack
  | Teams

definition is_vault_error :: "exn \<Rightarrow> bool" where
  "is_vault_error e = (case e of PyError k _ \<Rightarrow> k = ''VaultError'' | _ \<Rightarrow> False)"

text \<open>\<open>vault\<close> answers the plaintext under an alias; credentials are fetched anew for every attempt.\<close>

definition build_channel :: "(string \<Rightarrow> string res) \<Rightarrow> string \<Rightarrow> string \<Rightarrow> dict \<Rightarrow> channel_adapter res" where
  "build_channel vault tenant name cfg =
    (if name = ''telegram'' then
       bind_res (vault ''telegram.bot_token'') (\<lambda>token.
       bind_res (case dget cfg ''chat_id'' JNull of JStr (c # cs) \<Rightarrow> Inr (c # cs) | _ \<Rightarrow> vault ''telegram.default_chat_id'') (\<lambda>chat.
       Inr (Telegram token chat)))
     else if name = ''email'' then
       bind_res (vault ''smtp.host'') (\<lambda>host. bind_res (vault ''smtp.port'') (\<lambda>port_str.
       bind_res (vault ''smtp.username'') (\<lambda>user. bind_res (vault ''smtp.password'') (\<lambda>pass.
       bind_res (vault ''smtp.from_address'') (\<lambda>frm.
       case py_int port_str of
         None \<Rightarrow> Inl (PyError ''ValueError'' ''invalid literal for int()'')
       | Some port \<Rightarrow> Inr (Smtp host port user pass frm (port = 465)))))))
     else if name = ''sms'' then
       (case bind_res (vault ''sms.twilio.account_sid'') (\<lambda>sid. bind_res (vault ''sms.twilio.auth_token'') (\<lambda>tok.
             bind_res (vault ''sms.twilio.from_number'') (\<lambda>frm. Inr (Sms sid tok frm)))) of
          Inl e \<Rightarrow> if is_vault_error e then Inr SmsNotConfigured else Inl e
        | Inr c \<Rightarrow> Inr c)
     else if name = ''webhook'' then bind_res (vault (''webhook.'' @ tenant @ ''.signing_secret'')) (\<lambda>s. Inr (Webhook s))
     else if name = ''slack'' then Inr Slack
     else if name = ''teams'' then Inr Teams
     else Inl (PyError ''ValueError'' (''Unknown channel: '' @ name)))"

definition md_special :: "char \<Rightarrow> bool" where
  "md_special c = (c \<in> set ''_*[]()~>#+-=|{}.!'' \<or> c = CHR 0x5C \<or> c = CHR 0x60)"

definition escape_markdown_v2 :: "string \<Rightarrow> string" where
  "escape_markdown_v2 s = concat (List.map (\<lambda>c. if md_special c then [CHR 0x5C, c] else [c]) s)"

definition telegram_message :: "string option \<Rightarrow> string \<Rightarrow> string" where
  "telegram_message subject body = (case subject of
     Some (c # cs) \<Rightarrow> ''*'' @ escape_markdown_v2 (c # cs) @ ''*'' @ [CHR 0x0A, CHR 0x0A] @ escape_markdown_v2 body
   | _ \<Rightarrow> escape_markdown_v2 body)"

text \<open>\<open>_tg_post\<close> over the answers of the three attempts: a rate limit, a timeout, another exception or
  the decoded body.\<close>

datatype tg_answer =
    RateLimited
  | TgTimeout string
  | TgRaise exn
  | TgData dict

definition tg_failed :: "string option \<Rightarrow> exn" where
  "tg_failed e = PyError ''RuntimeError'' (''Telegram request failed after 3 attempts: '' @ (case e of None \<Rightarrow> ''None'' | Some m \<Rightarrow> m))"

fun tg_post :: "(json \<Rightarrow> string) \<Rightarrow> tg_answer list \<Rightarrow> string option \<Rightarrow> dict res" where
  "tg_post pystr [] last_exc = Inl (tg_failed last_exc)"
| "tg_post pystr (a # as) last_exc = (case a of
     RateLimited \<Rightarrow> tg_post pystr as last_exc
   | TgTimeout m \<Rightarrow> tg_post pystr as (Some m)
   | TgRaise e \<Rightarrow> Inl e
   | TgData d \<Rightarrow> if truthy (dget d ''ok'' JNull) then Inr d
       else Inl (PyError ''RuntimeError'' (''Telegram API error '' @ pystr (dget d ''error_code'' (JStr [])) @ '': '' @ pystr (dget d ''description'' (JStr ''unknown'')))))"

text \<open>The suffix of a truncated message holds an ellipsis, which is not a HOL character: it is an argument.\<close>

definition tg_truncate :: "string \<Rightarrow> string \<Rightarrow> string" where
  "tg_truncate suf text = (if length text \<le> 4096 then text else take (4096 - length suf) text @ suf)"

definition b64_char :: "char \<Rightarrow> bool" where
  "b64_char c = (let n = of_char c :: nat in (48 \<le> n \<and> n \<le> 57) \<or> (65 \<le> n \<and> n \<le> 90) \<or> (97 \<le> n \<and> n \<le> 122) \<or> n \<in> {43, 47, 61})"

function mask_runs :: "string \<Rightarrow> string" where
  "mask_runs [] = []"
| "mask_runs (c # s) = (if b64_char c
     then (let run = takeWhile b64_char (c # s) in
       (if 32 \<le> length run then ''[REDACTED]'' else run) @ mask_runs (dropWhile b64_char s))
     else c # mask_runs s)"
  by pat_completeness auto
termination by (relation "measure length") (auto simp: le_imp_less_Suc length_dropWhile_le)

definition sms_body :: "string option \<Rightarrow> string \<Rightarrow> string" where
  "sms_body subject body = (case subject of
     Some (c # cs) \<Rightarrow> take 1600 (''['' @ (c # cs) @ ''] '' @ take 1600 body)
   | _ \<Rightarrow> take 1600 body)"

definition refused :: "string \<Rightarrow> string \<Rightarrow> send_result" where
  "refused code detail = \<lparr>sn_success = False, sn_provider_msg_id = None, sn_error_code = Some code, sn_error_detail = Some detail,
     sn_destination_hash = []\<rparr>"

text \<open>What the providers answer: Telegram, the mail server, Twilio (status and body) and the webhook
  (status and text).  An adapter catches every exception of its call.\<close>

record provider =
  pr_suffix :: string
  pr_telegram :: "string \<Rightarrow> string \<Rightarrow> tg_answer list"
  pr_smtp :: "string option \<Rightarrow> string \<Rightarrow> string option \<Rightarrow> send_result"
  pr_sms :: "string \<Rightarrow> string \<Rightarrow> (int \<times> string \<times> dict) res"
  pr_webhook :: "string \<Rightarrow> (int \<times> string) res"
  pr_sha :: "string \<Rightarrow> string"
  pr_str :: "json \<Rightarrow> string"
  pr_error_text :: "exn \<Rightarrow> string"

definition sent_to :: "provider \<Rightarrow> string \<Rightarrow> string \<Rightarrow> send_result" where
  "sent_to pr dest msg_id = \<lparr>sn_success = True, sn_provider_msg_id = Some msg_id, sn_error_code = None, sn_error_detail = None,
     sn_destination_hash = pr_sha pr dest\<rparr>"

definition failed_to :: "provider \<Rightarrow> string \<Rightarrow> string \<Rightarrow> string \<Rightarrow> send_result" where
  "failed_to pr dest code detail = (refused code detail)\<lparr>sn_destination_hash := pr_sha pr dest\<rparr>"

definition str_of :: "string option \<Rightarrow> string" where
  "str_of s = (case s of None \<Rightarrow> [] | Some t \<Rightarrow> t)"

definition channel_send :: "provider \<Rightarrow> channel_adapter \<Rightarrow> string option \<Rightarrow> string \<Rightarrow> string option \<Rightarrow> send_result" where
  "channel_send pr ch subject body destination =
    (case ch of
       Telegram token chat \<Rightarrow>
         (let dest = (if str_of destination = [] then chat else str_of destination) in
          if dest = [] then refused ''no_destination'' ''No chat_id configured''
          else case tg_post (pr_str pr) (pr_telegram pr dest (tg_truncate (pr_suffix pr) (telegram_message subject body))) None of
            Inl e \<Rightarrow> failed_to pr dest ''telegram_error'' (take 500 (pr_error_text pr e))
          | Inr d \<Rightarrow> (case dget d ''result'' (JObj []) of
              JObj r \<Rightarrow> sent_to pr dest (pr_str pr (dget r ''message_id'' (JStr [])))
            | _ \<Rightarrow> failed_to pr dest ''telegram_error'' []))
     | Smtp _ _ _ _ _ _ \<Rightarrow> pr_smtp pr subject body destination
     | Sms sid tok frm \<Rightarrow>
         (let dest = str_of destination in
          if dest = [] then refused ''no_destination'' ''No phone number provided''
          else case pr_sms pr dest (sms_body subject body) of
            Inl e \<Rightarrow> failed_to pr dest ''sms_error'' (take 500 (mask_runs (pr_error_text pr e)))
          | Inr (status, text, d) \<Rightarrow> if 400 \<le> status
              then failed_to pr dest (pr_str pr (dget d ''code'' (JStr ''twilio_error''))) (take 500 (pr_str pr (dget d ''message'' (JStr (take 200 text)))))
              else sent_to pr dest (pr_str pr (dget d ''sid'' (JStr []))))
     | SmsNotConfigured \<Rightarrow> refused ''channel_not_configured'' ''SMS provider (Twilio) credentials not registered in vault''
     | Webhook secret \<Rightarrow>
         (let dest = str_of destination in
          if dest = [] then refused ''no_destination'' ''No webhook URL configured''
          else case pr_webhook pr dest of
            Inl e \<Rightarrow> failed_to pr dest ''webhook_error'' (take 500 (mask_runs (pr_error_text pr e)))
          | Inr (status, text) \<Rightarrow> if 400 \<le> status then failed_to pr dest (''http_'' @ str_int status) (take 300 text)
              else sent_to pr dest (str_int status))
     | Slack \<Rightarrow> refused ''not_implemented'' ''Slack channel not implemented in V1''
     | Teams \<Rightarrow> refused ''not_implemented'' ''Teams channel not implemented in V1'')"

section \<open>The delivery runner\<close>

text \<open>One attempt raises (vault or channel construction) or answers with a result of the channel.\<close>

type_synonym attempt_answers = "nat \<Rightarrow> send_result res"

definition attempt_answer ::
  "(nat \<Rightarrow> string \<Rightarrow> string res) \<Rightarrow> (nat \<Rightarrow> provider) \<Rightarrow> string \<Rightarrow> string \<Rightarrow> dict \<Rightarrow> string option \<Rightarrow> string \<Rightarrow> string option \<Rightarrow> attempt_answers" where
  "attempt_answer vault pr tenant channel cfg subject body dest n =
     (case build_channel (vault n) tenant channel cfg of Inl e \<Rightarrow> Inl e | Inr ch \<Rightarrow> Inr (channel_send (pr n) ch subject body dest))"

text \<open>The retry loop from attempt \<open>n\<close> with \<open>k\<close> attempts left: the result kept for the bookkeeping with its
  attempt, and the messages handed to the channel.\<close>

fun deliver_loop ::
  "attempt_answers \<Rightarrow> nat \<Rightarrow> nat \<Rightarrow> (send_result option \<times> nat) \<Rightarrow> (nat \<times> bool) list \<Rightarrow> (send_result option \<times> nat) \<times> (nat \<times> bool) list" where
  "deliver_loop ans n 0 kept sends = (kept, sends)"
| "deliver_loop ans n (Suc k) kept sends = (case ans n of
     Inl e \<Rightarrow> deliver_loop ans (Suc n) k kept sends
   | Inr r \<Rightarrow>
      (if sn_success r then ((Some r, n), sends @ [(n, True)])
       else deliver_loop ans (Suc n) k ((if k = 0 then Some r else None), n) (sends @ [(n, False)])))"

text \<open>The bookkeeping; the foreign key needs the job to be committed, and \<open>db_up\<close> says whether the
  database answers.\<close>

definition book_delivery :: "bool \<Rightarrow> string \<Rightarrow> int \<Rightarrow> string \<Rightarrow> string \<Rightarrow> send_result \<Rightarrow> nat \<Rightarrow> notif_db \<Rightarrow> notif_db" where
  "book_delivery db_up new_id now job_id channel r n db =
    (if \<not> db_up \<or> get_job job_id db = None then db
     else db\<lparr>nd_deliveries := insert_row \<lparr>dv_id = new_id, dv_job_id = job_id, dv_channel = channel,
       dv_destination_hash = sn_destination_hash r, dv_status = (if sn_success r then ''sent'' else ''failed''),
       dv_provider_msg_id = (if sn_success r then sn_provider_msg_id r else None), dv_attempt = n,
       dv_error_code = (if sn_success r then None else sn_error_code r),
       dv_error_detail = (if sn_success r then None else sn_error_detail r),
       dv_sent_at = (if sn_success r then Some now else None)\<rparr> (nd_deliveries db)\<rparr>)"

definition deliver_channel :: "attempt_answers \<Rightarrow> bool \<Rightarrow> string \<Rightarrow> int \<Rightarrow> string \<Rightarrow> string \<Rightarrow> nat \<Rightarrow> notif_db \<Rightarrow> unit res \<times> notif_db" where
  "deliver_channel ans db_up new_id now job_id channel max_attempts db =
    (case deliver_loop ans 1 max_attempts (None, 0) [] of ((kept, n), sends) \<Rightarrow>
      (let db1 = db\<lparr>nd_sends := nd_sends db @ List.map (\<lambda>(a, ok). (job_id, channel, a, ok)) sends\<rparr> in
       (Inr (), case kept of None \<Rightarrow> db1 | Some r \<Rightarrow> book_delivery db_up new_id now job_id channel r n db1)))"

definition finalize_job :: "string \<Rightarrow> int \<Rightarrow> unit res list \<Rightarrow> notif_db \<Rightarrow> notif_db" where
  "finalize_job job_id now results db =
     set_job_status job_id (if list_ex isl results then ''partial'' else ''succeeded'') (Some now) db"

text \<open>What a handler hands to \<open>dispatch_job\<close>, and its tasks, here one channel after the other, then the
  finalizer.\<close>

record dispatch_order =
  do_job_id :: string
  do_tenant_id :: string
  do_channels :: "string list"
  do_subject :: "string option"
  do_body :: string
  do_destinations :: "(string \<times> string) list"
  do_configs :: "(string \<times> dict) list"

record runner_env =
  rn_vault :: "nat \<Rightarrow> nat \<Rightarrow> string \<Rightarrow> string res"
  rn_provider :: "nat \<Rightarrow> nat \<Rightarrow> provider"
  rn_db_up :: "nat \<Rightarrow> bool"
  rn_delivery_id :: "nat \<Rightarrow> string"
  rn_now :: int

definition order_answers :: "runner_env \<Rightarrow> dispatch_order \<Rightarrow> nat \<Rightarrow> string \<Rightarrow> attempt_answers" where
  "order_answers env o' i c = attempt_answer (rn_vault env i) (rn_provider env i) (do_tenant_id o') c
     (case map_of (do_configs o') c of None \<Rightarrow> [] | Some d \<Rightarrow> d) (do_subject o') (do_body o') (map_of (do_destinations o') c)"

fun deliver_all :: "runner_env \<Rightarrow> dispatch_order \<Rightarrow> nat \<Rightarrow> nat \<Rightarrow> string list \<Rightarrow> notif_db \<Rightarrow> unit res list \<times> notif_db" where
  "deliver_all env o' m i [] db = ([], db)"
| "deliver_all env o' m i (c # cs) db =
     (case deliver_channel (order_answers env o' i c) (rn_db_up env i) (rn_delivery_id env i) (rn_now env) (do_job_id o') c m db of
        (r, db1) \<Rightarrow> (case deliver_all env o' m (Suc i) cs db1 of (rs, db2) \<Rightarrow> (r # rs, db2)))"

definition dispatch_job :: "runner_env \<Rightarrow> dispatch_order \<Rightarrow> nat \<Rightarrow> notif_db \<Rightarrow> notif_db" where
  "dispatch_job env o' m db = (case deliver_all env o' m 0 (do_channels o') db of (rs, db1) \<Rightarrow> finalize_job (do_job_id o') (rn_now env) rs db1)"

section \<open>Handlers\<close>

record notif_identity =
  ni_service_id :: string
  ni_correlation_id :: string

definition notif_identity_of ::
  "(string \<times> string) list \<Rightarrow> string \<Rightarrow> string \<Rightarrow> string option \<Rightarrow> string option \<Rightarrow> string \<Rightarrow> notif_identity res" where
  "notif_identity_of keys service_id key correlation request fresh =
    (case map_of keys service_id of
       Some (k # ks) \<Rightarrow> if k # ks = key
         then Inr \<lparr>ni_service_id = service_id, ni_correlation_id =
           (if str_of correlation \<noteq> [] then str_of correlation else if str_of request \<noteq> [] then str_of request else fresh)\<rparr>
         else Inl (HTTPException 401 ''Invalid service credentials.'')
     | _ \<Rightarrow> Inl (HTTPException 401 ''Invalid service credentials.''))"

definition notif_require_admin :: "notif_identity \<Rightarrow> unit res" where
  "notif_require_admin i = (if ni_service_id i = ''admin'' then Inr () else Inl (HTTPException 403 ''Admin access required.''))"

record notify_request =
  nq_tenant_id :: string
  nq_env :: string
  nq_severity :: string
  nq_channels :: "string list option"
  nq_template_id :: "string option"
  nq_subject :: "string option"
  nq_body :: "string option"
  nq_context :: "dict option"
  nq_idempotency_key :: string
  nq_correlation_id :: "string option"
  nq_sensitivity :: string
  nq_destinations :: "(string \<times> string) list option"

record notify_env =
  ne_now :: int
  ne_now_text :: string
  ne_job_id :: string
  ne_ttl_seconds :: int
  ne_sha :: "string \<Rightarrow> string"
  ne_str :: "json \<Rightarrow> string"
  ne_builtin :: "(string \<times> string \<times> string) list"

record notify_response =
  np_job_id :: string
  np_status :: string
  np_key :: string

definition notif_write_audit :: "string \<Rightarrow> notif_identity \<Rightarrow> notify_request \<Rightarrow> string \<Rightarrow> string \<Rightarrow> notif_db \<Rightarrow> notif_db" where
  "notif_write_audit corr i q result job_id db = db\<lparr>nd_audit := insert_row \<lparr>na_correlation_id = corr, na_service_id = ni_service_id i,
     na_tenant_id = nq_tenant_id q, na_env = nq_env q, na_action = ''notify'', na_result = result, na_job_id = Some job_id\<rparr> (nd_audit db)\<rparr>"

definition create_job :: "notify_env \<Rightarrow> notif_identity \<Rightarrow> notify_request \<Rightarrow> string \<Rightarrow> string list \<Rightarrow> string option \<Rightarrow> string \<Rightarrow> notif_job" where
  "create_job env i q corr channels subject body =
     \<lparr>nj_id = ne_job_id env, nj_tenant_id = nq_tenant_id q, nj_env = nq_env q, nj_severity = nq_severity q, nj_template_id = nq_template_id q,
      nj_subject = subject, nj_body_hash = ne_sha env body, nj_body_stored = (if nq_sensitivity q = ''normal'' then Some body else None),
      nj_sensitivity = nq_sensitivity q, nj_channels = channels, nj_context = (case nq_context q of None \<Rightarrow> [] | Some d \<Rightarrow> d),
      nj_status = ''pending'', nj_max_attempts = 3, nj_idempotency_key = nq_idempotency_key q,
      nj_expires_at = ne_now env + ne_ttl_seconds env, nj_correlation_id = corr, nj_service_id = ni_service_id i,
      nj_created_at = ne_now env, nj_completed_at = None\<rparr>"

definition order_of :: "notif_job \<Rightarrow> notify_request \<Rightarrow> string list \<Rightarrow> string \<Rightarrow> dict option \<Rightarrow> dispatch_order" where
  "order_of j q channels body cfg =
     \<lparr>do_job_id = nj_id j, do_tenant_id = nq_tenant_id q, do_channels = channels, do_subject = nj_subject j, do_body = body,
      do_destinations = (case nq_destinations q of None \<Rightarrow> [] | Some d \<Rightarrow> d),
      do_configs = (case cfg of Some (x # xs) \<Rightarrow>
          List.map (\<lambda>c. (c, foldl (\<lambda>d (k, v). dset k v d) [(''severity'', JStr (nq_severity q))] (x # xs))) channels
        | _ \<Rightarrow> [])\<rparr>"

text \<open>The handler answers and, when it created a job, hands channels and body to the runner; the commit
  comes last, so a violated constraint loses the rows but not the dispatch.\<close>

definition notify ::
  "notify_env \<Rightarrow> notif_identity \<Rightarrow> notify_request \<Rightarrow> notif_db \<Rightarrow> notify_response res \<times> dispatch_order option \<times> notif_db" where
  "notify env i q db =
    (let corr = (if str_of (nq_correlation_id q) \<noteq> [] then str_of (nq_correlation_id q) else ni_correlation_id i) in
     case get_job_by_idempotency_key (ne_now env) (nq_idempotency_key q) db of
       Some j \<Rightarrow> (Inr \<lparr>np_job_id = nj_id j, np_status = nj_status j, np_key = nq_idempotency_key q\<rparr>, None,
                  notif_write_audit corr i q ''dedup'' (nj_id j) db)
     | None \<Rightarrow>
        (case resolve_channels (nq_tenant_id q) (nq_env q) (nq_severity q) (nq_channels q) db of (channels, cfg) \<Rightarrow>
          if channels = [] then (Inl (HTTPException 400 ''No channels resolved for this notification.''), None, db)
          else case notif_render (ne_str env) (ne_builtin env) (ne_now_text env)
                 (if str_of (nq_template_id q) = [] then ''generic'' else str_of (nq_template_id q)) (nq_context q) (nq_subject q) (nq_body q)
                 (if str_of (nq_template_id q) = [] then None else get_template (str_of (nq_template_id q)) db) of
            (subject, body) \<Rightarrow>
             (if body = [] then (Inl (HTTPException 400 ''Message body is empty after rendering.''), None, db)
              else let j = create_job env i q corr channels subject body; order = order_of j q channels body cfg in
               if \<exists>x \<in> set (nd_jobs db). nj_idempotency_key x = nq_idempotency_key q
               then (Inl (PyError ''IntegrityError'' ''notification_jobs.idempotency_key''), Some order, db)
               else (Inr \<lparr>np_job_id = nj_id j, np_status = ''pending'', np_key = nq_idempotency_key q\<rparr>, Some order,
                     notif_write_audit corr i q ''ok'' (nj_id j) (db\<lparr>nd_jobs := insert_row j (nd_jobs db)\<rparr>)))))"

definition get_notification :: "string \<Rightarrow> notif_db \<Rightarrow> notif_job res" where
  "get_notification i db = (case get_job i db of None \<Rightarrow> Inl (HTTPException 404 ''Job not found.'') | Some j \<Rightarrow> Inr j)"

definition replay_job :: "notif_identity \<Rightarrow> string \<Rightarrow> notif_db \<Rightarrow> (dispatch_order \<times> notif_db) res" where
  "replay_job i job_id db =
    (if ni_service_id i \<noteq> ''admin'' then Inl (HTTPException 403 ''Admin access required.'')
     else case get_job job_id db of
       None \<Rightarrow> Inl (HTTPException 404 ''Job not found.'')
     | Some j \<Rightarrow>
        if nj_status j \<notin> {''failed'', ''partial''}
        then Inl (HTTPException 409 (''Job status is '' @ [CHR 0x27] @ nj_status j @ [CHR 0x27] @ ''; only failed/partial jobs can be replayed.''))
        else if str_of (nj_body_stored j) = []
        then Inl (HTTPException 422 ''Cannot replay: body was not stored (sensitivity=sensitive).'')
        else Inr (\<lparr>do_job_id = job_id, do_tenant_id = nj_tenant_id j, do_channels = nj_channels j, do_subject = nj_subject j,
            do_body = str_of (nj_body_stored j), do_destinations = [], do_configs = []\<rparr>, set_job_status job_id ''pending'' None db))"

definition create_template :: "notif_identity \<Rightarrow> notif_template \<Rightarrow> notif_db \<Rightarrow> (notif_template \<times> notif_db) res" where
  "create_template i t db = (case notif_require_admin i of Inl e \<Rightarrow> Inl e | Inr _ \<Rightarrow> Inr (upsert_template t db))"

definition create_routing_rule :: "notif_identity \<Rightarrow> routing_rule \<Rightarrow> notif_db \<Rightarrow> (routing_rule \<times> notif_db) res" where
  "create_routing_rule i r db = (case notif_require_admin i of Inl e \<Rightarrow> Inl e | Inr _ \<Rightarrow> Inr (upsert_routing_rule r db))"

section \<open>The retry loop\<close>

definition good_trace :: "nat \<Rightarrow> nat \<Rightarrow> (nat \<times> bool) list \<Rightarrow> bool" where
  "good_trace n k new = (length new \<le> k \<and> (\<forall>x \<in> set (butlast new). \<not> snd x) \<and> (\<forall>x \<in> set new. n \<le> fst x) \<and> distinct (List.map fst new))"

lemma good_trace_failed:
  assumes "good_trace (Suc n) k new"
  shows "good_trace n (Suc k) ((n, False) # new)"
proof -
  have "n \<notin> fst ` set new" using assms by (auto simp: good_trace_def)
  moreover have "\<forall>x \<in> set new. n \<le> fst x" using assms by (auto simp: good_trace_def)
  ultimately show ?thesis using assms by (simp add: good_trace_def)
qed

lemma good_trace_mono: "good_trace (Suc n) k new \<Longrightarrow> good_trace n (Suc k) new"
  by (auto simp: good_trace_def)

lemma deliver_loop_trace:
  "\<exists>new. snd (deliver_loop ans n k kept sends) = sends @ new \<and> good_trace n k new"
proof (induction k arbitrary: n kept sends)
  case 0
  show ?case by (simp add: good_trace_def)
next
  case (Suc k)
  show ?case
  proof (cases "ans n")
    case (Inl e)
    then show ?thesis using Suc.IH[of "Suc n" kept sends] good_trace_mono by auto
  next
    case (Inr x)
    show ?thesis
    proof (cases "sn_success x")
      case True
      then show ?thesis using Inr by (intro exI[of _ "[(n, True)]"]) (simp add: good_trace_def)
    next
      case False
      obtain new where "snd (deliver_loop ans (Suc n) k ((if k = 0 then Some x else None), n) (sends @ [(n, False)])) = (sends @ [(n, False)]) @ new"
        "good_trace (Suc n) k new"
        using Suc.IH[of "Suc n" "((if k = 0 then Some x else None), n)" "sends @ [(n, False)]"] by blast
      then show ?thesis using Inr False good_trace_failed by (intro exI[of _ "(n, False) # new"]) simp
    qed
  qed
qed

text \<open>The messages of one job to one channel.\<close>

definition channel_sends :: "string \<Rightarrow> string \<Rightarrow> notif_db \<Rightarrow> (nat \<times> bool) list" where
  "channel_sends job c db = List.map (\<lambda>(j, ch, x). x) (filter (\<lambda>(j, ch, x). j = job \<and> ch = c) (nd_sends db))"

text \<open>C21: a delivery hands its channel at most as many messages as attempts allowed, never twice in one
  attempt, and after a message the channel accepted it never sends again, whatever the vault, the
  provider and the database do.\<close>

theorem never_resent:
  assumes "deliver_channel ans up fresh now job c m db = (r, db')"
  shows "\<exists>new. channel_sends job c db' = channel_sends job c db @ new \<and> length new \<le> m \<and> distinct (List.map fst new)
     \<and> (\<forall>i < length new. snd (new ! i) \<longrightarrow> i = length new - 1)"
proof -
  obtain res a sends where l: "deliver_loop ans 1 m (None, 0) [] = ((res, a), sends)" by (metis prod.exhaust)
  obtain new where n: "sends = new" "length new \<le> m" "\<forall>x \<in> set (butlast new). \<not> snd x" "distinct (List.map fst new)"
    using deliver_loop_trace[of ans 1 m "(None, 0)" "[]"] l by (auto simp: good_trace_def)
  have "nd_sends db' = nd_sends db @ List.map (\<lambda>(a, ok). (job, c, a, ok)) sends"
    using assms l by (auto simp: deliver_channel_def book_delivery_def Let_def split: option.splits if_splits)
  then have "channel_sends job c db' = channel_sends job c db @ new"
    using n(1) by (auto simp: channel_sends_def filter_map comp_def case_prod_unfold)
  moreover have "i = length new - 1" if "i < length new" "snd (new ! i)" for i
  proof (rule ccontr)
    assume "i \<noteq> length new - 1"
    then have "i < length (butlast new)" using that(1) by simp
    then show False using n(3) that(2) nth_mem[of i "butlast new"] by (simp add: nth_butlast)
  qed
  ultimately show ?thesis using n by blast
qed

section \<open>Reachable states\<close>

inductive notif_step :: "notif_db \<Rightarrow> notif_db \<Rightarrow> bool" where
  n_notify: "notify env i q db = (r, ord, db') \<Longrightarrow> notif_step db db'"
| n_deliver: "deliver_channel ans up fresh now job c m db = (r, db') \<Longrightarrow> notif_step db db'"
| n_dispatch: "notif_step db (dispatch_job renv ord m db)"
| n_replay: "replay_job i job db = Inr (ord, db') \<Longrightarrow> notif_step db db'"
| n_template: "create_template i t db = Inr (t', db') \<Longrightarrow> notif_step db db'"
| n_rule: "create_routing_rule i q db = Inr (q', db') \<Longrightarrow> notif_step db db'"

inductive notif_reach :: "notif_db \<Rightarrow> bool" where
  nr_empty: "notif_reach \<lparr>nd_jobs = [], nd_deliveries = [], nd_templates = [], nd_rules = [], nd_audit = [], nd_sends = []\<rparr>"
| nr_step: "notif_reach db \<Longrightarrow> notif_step db db' \<Longrightarrow> notif_reach db'"

definition job_ok :: "notif_job \<Rightarrow> bool" where
  "job_ok j = (nj_status j \<in> {''pending'', ''succeeded''} \<and> (nj_sensitivity j \<noteq> ''normal'' \<longrightarrow> nj_body_stored j = None))"

definition jobs_ok :: "notif_db \<Rightarrow> bool" where
  "jobs_ok db = (distinct (List.map nj_idempotency_key (nd_jobs db)) \<and> (\<forall>j \<in> set (nd_jobs db). job_ok j))"

lemma jobs_ok_cong: "nd_jobs db' = nd_jobs db \<Longrightarrow> jobs_ok db' = jobs_ok db"
  by (simp add: jobs_ok_def)

lemma create_job_ok [simp]:
  "job_ok (create_job env i q corr channels subj body)"
  "nj_idempotency_key (create_job env i q corr channels subj body) = nq_idempotency_key q"
  "nj_expires_at (create_job env i q corr channels subj body) = ne_now env + ne_ttl_seconds env"
  "nj_id (create_job env i q corr channels subj body) = ne_job_id env"
  by (simp_all add: job_ok_def create_job_def)

definition notify_channels :: "notify_request \<Rightarrow> notif_db \<Rightarrow> string list" where
  "notify_channels q db = fst (resolve_channels (nq_tenant_id q) (nq_env q) (nq_severity q) (nq_channels q) db)"

definition notify_text :: "notify_env \<Rightarrow> notify_request \<Rightarrow> notif_db \<Rightarrow> string option \<times> string" where
  "notify_text env q db = notif_render (ne_str env) (ne_builtin env) (ne_now_text env)
     (if str_of (nq_template_id q) = [] then ''generic'' else str_of (nq_template_id q)) (nq_context q) (nq_subject q) (nq_body q)
     (if str_of (nq_template_id q) = [] then None else get_template (str_of (nq_template_id q)) db)"

text \<open>The four ways through the handler.\<close>

lemma notify_cases:
  obtains (dedup) j where "get_job_by_idempotency_key (ne_now env) (nq_idempotency_key q) db = Some j"
    "fst (notify env i q db) = Inr \<lparr>np_job_id = nj_id j, np_status = nj_status j, np_key = nq_idempotency_key q\<rparr>"
    "fst (snd (notify env i q db)) = None" "nd_jobs (snd (snd (notify env i q db))) = nd_jobs db"
    "nd_sends (snd (snd (notify env i q db))) = nd_sends db"
  | (refused) e where "fst (notify env i q db) = Inl e" "fst (snd (notify env i q db)) = None" "snd (snd (notify env i q db)) = db"
    "notify_channels q db = [] \<or> snd (notify_text env q db) = []"
  | (broken) ord where "get_job_by_idempotency_key (ne_now env) (nq_idempotency_key q) db = None"
    "\<exists>x \<in> set (nd_jobs db). nj_idempotency_key x = nq_idempotency_key q"
    "notify env i q db = (Inl (PyError ''IntegrityError'' ''notification_jobs.idempotency_key''), Some ord, db)"
  | (created) ord j corr subj body where "\<forall>x \<in> set (nd_jobs db). nj_idempotency_key x \<noteq> nq_idempotency_key q"
    "fst (notify env i q db) = Inr \<lparr>np_job_id = ne_job_id env, np_status = ''pending'', np_key = nq_idempotency_key q\<rparr>"
    "j = create_job env i q corr (notify_channels q db) subj body" "fst (snd (notify env i q db)) = Some ord"
    "nd_jobs (snd (snd (notify env i q db))) = nd_jobs db @ [j]" "nd_rules (snd (snd (notify env i q db))) = nd_rules db"
    "nd_templates (snd (snd (notify env i q db))) = nd_templates db" "notify_channels q db \<noteq> []" "snd (notify_text env q db) \<noteq> []"
proof (cases "get_job_by_idempotency_key (ne_now env) (nq_idempotency_key q) db")
  case (Some j)
  then show ?thesis using dedup[of j] by (simp add: notify_def notif_write_audit_def)
next
  case None
  obtain channels cfg where ch: "resolve_channels (nq_tenant_id q) (nq_env q) (nq_severity q) (nq_channels q) db = (channels, cfg)" by fastforce
  obtain subj body where tx: "notify_text env q db = (subj, body)" by fastforce
  let ?corr = "if str_of (nq_correlation_id q) \<noteq> [] then str_of (nq_correlation_id q) else ni_correlation_id i"
  let ?j = "create_job env i q ?corr channels subj body"
  note n = notify_def[of env i q db, unfolded notify_text_def[symmetric] Let_def None ch tx option.case prod.case]
  have cs: "notify_channels q db = channels" using ch by (simp add: notify_channels_def)
  show ?thesis
  proof (cases "channels = [] \<or> body = []")
    case True
    then have "\<exists>e. fst (notify env i q db) = Inl e \<and> fst (snd (notify env i q db)) = None \<and> snd (snd (notify env i q db)) = db"
      unfolding n by auto
    then show ?thesis using refused True cs tx by auto
  next
    case False
    show ?thesis
    proof (cases "\<exists>x \<in> set (nd_jobs db). nj_idempotency_key x = nq_idempotency_key q")
      case True
      then show ?thesis using broken[OF None True] False unfolding n by simp
    next
      case new: False
      then show ?thesis using created[of ?j ?corr subj body "order_of ?j q channels body cfg"] False cs tx unfolding n
        by (simp add: notif_write_audit_def insert_row_def)
    qed
  qed
qed

lemma notify_jobs:
  assumes "notify env i q db = (r, ord, db')"
  shows "nd_jobs db' = nd_jobs db \<or> (\<exists>j. nd_jobs db' = nd_jobs db @ [j] \<and> job_ok j
     \<and> (\<forall>x \<in> set (nd_jobs db). nj_idempotency_key x \<noteq> nj_idempotency_key j))"
  by (rule notify_cases[of env q db i]) (use assms in auto)

text \<open>a notification under an idempotency key is created once: within the lifetime of the key a
  repetition answers with the same job, stores no job and dispatches nothing.  After it, the repetition
  is dispatched to the channels again, while its own row violates the unique constraint and the request
  ends in the database's error.\<close>

theorem notify_once_per_key:
  assumes "notify env i q db = (Inr r, Some ord, db')"
  shows "(t < ne_now env + ne_ttl_seconds env \<longrightarrow>
       (\<exists>r' db''. notify (env\<lparr>ne_now := t, ne_job_id := k\<rparr>) i q db' = (Inr r', None, db'') \<and> np_job_id r' = np_job_id r
          \<and> nd_jobs db'' = nd_jobs db' \<and> nd_sends db'' = nd_sends db'))
     \<and> (ne_now env + ne_ttl_seconds env \<le> t \<longrightarrow>
       (\<exists>e ord'. notify (env\<lparr>ne_now := t, ne_job_id := k\<rparr>) i q db' = (Inl e, Some ord', db')))"
proof (rule notify_cases[of env q db i])
  fix ord' j corr subj body
  assume c: "\<forall>x \<in> set (nd_jobs db). nj_idempotency_key x \<noteq> nq_idempotency_key q"
    "fst (notify env i q db) = Inr \<lparr>np_job_id = ne_job_id env, np_status = ''pending'', np_key = nq_idempotency_key q\<rparr>"
    "j = create_job env i q corr (notify_channels q db) subj body"
    "nd_jobs (snd (snd (notify env i q db))) = nd_jobs db @ [j]" "nd_rules (snd (snd (notify env i q db))) = nd_rules db"
    "nd_templates (snd (snd (notify env i q db))) = nd_templates db" "notify_channels q db \<noteq> []" "snd (notify_text env q db) \<noteq> []"
  let ?env = "env\<lparr>ne_now := t, ne_job_id := k\<rparr>"
  have r: "np_job_id r = nj_id j" using c(2,3) assms by simp
  have jobs: "nd_jobs db' = nd_jobs db @ [j]" using c(4) assms by simp
  have "select_first (\<lambda>j. nj_idempotency_key j = nq_idempotency_key q \<and> t < nj_expires_at j) (nd_jobs db) = None"
    using c(1) by (auto simp: select_first_None)
  then have look: "get_job_by_idempotency_key t (nq_idempotency_key q) db' = (if t < ne_now env + ne_ttl_seconds env then Some j else None)"
    using c(3) jobs by (simp add: get_job_by_idempotency_key_def select_first_append)
  have same: "notify_channels q db' = notify_channels q db" "notify_text ?env q db' = notify_text env q db"
    using c(5,6) assms
    by (auto simp: notify_channels_def resolve_channels_def resolve_routing_rule_def notify_text_def get_template_def split: list.splits option.splits)
  have key: "\<exists>x \<in> set (nd_jobs db'). nj_idempotency_key x = nq_idempotency_key q" using jobs c(3) by simp
  show ?thesis
  proof (rule notify_cases[of ?env q db' i])
    fix j' assume d: "get_job_by_idempotency_key (ne_now ?env) (nq_idempotency_key q) db' = Some j'"
      "fst (notify ?env i q db') = Inr \<lparr>np_job_id = nj_id j', np_status = nj_status j', np_key = nq_idempotency_key q\<rparr>"
      "fst (snd (notify ?env i q db')) = None" "nd_jobs (snd (snd (notify ?env i q db'))) = nd_jobs db'"
      "nd_sends (snd (snd (notify ?env i q db'))) = nd_sends db'"
    then have "t < ne_now env + ne_ttl_seconds env" "j' = j" using look by (auto split: if_splits)
    then show ?thesis using d r by (cases "notify ?env i q db'") auto
  next
    fix e assume d: "fst (notify ?env i q db') = Inl e" "notify_channels q db' = [] \<or> snd (notify_text ?env q db') = []"
    then show ?thesis using same c(7,8) by simp
  next
    fix ord2 assume d: "get_job_by_idempotency_key (ne_now ?env) (nq_idempotency_key q) db' = None"
      "notify ?env i q db' = (Inl (PyError ''IntegrityError'' ''notification_jobs.idempotency_key''), Some ord2, db')"
    then have "\<not> t < ne_now env + ne_ttl_seconds env" using look by (auto split: if_splits)
    then show ?thesis using d by auto
  next
    assume "\<forall>x \<in> set (nd_jobs db'). nj_idempotency_key x \<noteq> nq_idempotency_key q"
    then show ?thesis using key by blast
  qed
qed (use assms in auto)

lemma deliver_channel_jobs: "nd_jobs (snd (deliver_channel ans up fresh now job c m db)) = nd_jobs db"
  and deliver_channel_ok: "\<not> isl (fst (deliver_channel ans up fresh now job c m db))"
  by (auto simp: deliver_channel_def book_delivery_def Let_def split: prod.splits option.splits)

lemma deliver_all_jobs:
  "nd_jobs (snd (deliver_all env o' m i cs db)) = nd_jobs db \<and> \<not> list_ex isl (fst (deliver_all env o' m i cs db))"
proof (induction cs arbitrary: i db)
  case (Cons c cs)
  obtain r db1 where d: "deliver_channel (order_answers env o' i c) (rn_db_up env i) (rn_delivery_id env i) (rn_now env) (do_job_id o') c m db = (r, db1)"
    by fastforce
  have "nd_jobs db1 = nd_jobs db" "\<not> isl r"
    using deliver_channel_jobs[of "order_answers env o' i c" "rn_db_up env i" "rn_delivery_id env i" "rn_now env" "do_job_id o'" c m db]
      deliver_channel_ok[of "order_answers env o' i c" "rn_db_up env i" "rn_delivery_id env i" "rn_now env" "do_job_id o'" c m db] d
    by simp_all
  then show ?case using d Cons.IH[of "Suc i" db1] by (simp add: case_prod_unfold)
qed simp

lemma job_ok_status: "job_ok j \<Longrightarrow> s \<in> {''pending'', ''succeeded''} \<Longrightarrow> job_ok (j\<lparr>nj_status := s, nj_completed_at := t\<rparr>)"
  by (simp add: job_ok_def)

lemma jobs_ok_status:
  assumes "jobs_ok db" "s \<in> {''pending'', ''succeeded''}"
  shows "jobs_ok (set_job_status i s done' db)"
proof -
  have "List.map nj_idempotency_key (nd_jobs (set_job_status i s done' db)) = List.map nj_idempotency_key (nd_jobs db)"
    by (simp add: set_job_status_def map_update_rows)
  moreover have "job_ok j" if "j \<in> set (nd_jobs (set_job_status i s done' db))" for j
    using that assms job_ok_status by (auto simp: jobs_ok_def set_job_status_def set_update_rows split: if_splits)
  ultimately show ?thesis using assms by (simp add: jobs_ok_def)
qed

lemma dispatch_job_ok:
  assumes "jobs_ok db"
  shows "jobs_ok (dispatch_job env o' m db)"
proof -
  obtain rs d where r: "deliver_all env o' m 0 (do_channels o') db = (rs, d)" by fastforce
  then have "nd_jobs d = nd_jobs db" "\<not> list_ex isl rs" using deliver_all_jobs[of env o' m 0 "do_channels o'" db] by auto
  then show ?thesis using r assms jobs_ok_cong[of d db] by (simp add: dispatch_job_def finalize_job_def jobs_ok_status)
qed

lemma replay_refused:
  assumes "jobs_ok db"
  shows "\<exists>e. replay_job i job db = Inl e"
proof (cases "get_job job db")
  case (Some j)
  then have "nj_status j \<in> {''pending'', ''succeeded''}"
    using assms by (auto simp: get_job_def jobs_ok_def job_ok_def dest!: select_first_Some)
  then show ?thesis using Some by (auto simp: replay_job_def)
qed (simp add: replay_job_def)

lemma notif_step_ok:
  assumes "notif_step db db'" "jobs_ok db"
  shows "jobs_ok db'"
  using assms(1)
proof cases
  case (n_notify env i q r ord)
  then show ?thesis using notify_jobs[OF n_notify] assms(2) by (fastforce simp: jobs_ok_def)
next
  case (n_deliver ans up fresh now job c m r)
  then show ?thesis using deliver_channel_jobs[of ans up fresh now job c m db] assms(2) jobs_ok_cong[of db' db] by simp
next
  case (n_dispatch renv ord m)
  then show ?thesis using dispatch_job_ok[OF assms(2)] by simp
next
  case (n_replay i job ord)
  then show ?thesis using replay_refused[OF assms(2), of i job] by auto
next
  case (n_template i t t')
  then have "nd_jobs db' = nd_jobs db" by (auto simp: create_template_def upsert_template_def split: sum.splits)
  then show ?thesis using assms(2) jobs_ok_cong[of db' db] by simp
next
  case (n_rule i q q')
  then have "nd_jobs db' = nd_jobs db" by (auto simp: create_routing_rule_def upsert_routing_rule_def Let_def split: sum.splits option.splits)
  then show ?thesis using assms(2) jobs_ok_cong[of db' db] by simp
qed

text \<open>in every state the agent can reach no job has failed, however many deliveries did, so the
  replay of a dead job is always refused; and the body of a sensitive message is never stored.\<close>

theorem replay_always_refused:
  assumes "notif_reach db"
  shows "(\<exists>e. replay_job i job db = Inl e) \<and> (\<forall>j \<in> set (nd_jobs db). nj_status j \<in> {''pending'', ''succeeded''}
     \<and> (nj_sensitivity j \<noteq> ''normal'' \<longrightarrow> nj_body_stored j = None))"
proof -
  have "jobs_ok db"
    using assms
  proof induction
    case nr_empty
    then show ?case by (simp add: jobs_ok_def)
  next
    case (nr_step db db')
    then show ?case using notif_step_ok by blast
  qed
  then show ?thesis using replay_refused by (auto simp: jobs_ok_def job_ok_def)
qed

section \<open>Witnesses\<close>

definition sample_request :: notify_request where
  "sample_request = \<lparr>nq_tenant_id = ''t'', nq_env = ''prod'', nq_severity = ''error'', nq_channels = Some [''slack''], nq_template_id = None,
     nq_subject = Some ''down'', nq_body = Some ''db is down'', nq_context = None, nq_idempotency_key = ''k'', nq_correlation_id = None,
     nq_sensitivity = ''sensitive'', nq_destinations = None\<rparr>"

definition sample_notify_env :: "int \<Rightarrow> string \<Rightarrow> notify_env" where
  "sample_notify_env now i = \<lparr>ne_now = now, ne_now_text = ''now'', ne_job_id = i, ne_ttl_seconds = 86400, ne_sha = (\<lambda>s. s),
     ne_str = (\<lambda>v. case v of JStr s \<Rightarrow> s | _ \<Rightarrow> []), ne_builtin = [(''generic'', ''{subject}'', ''{body}'')]\<rparr>"

definition sample_caller :: notif_identity where
  "sample_caller = \<lparr>ni_service_id = ''admin'', ni_correlation_id = ''c''\<rparr>"

definition no_notifications :: notif_db where
  "no_notifications = \<lparr>nd_jobs = [], nd_deliveries = [], nd_templates = [], nd_rules = [], nd_audit = [], nd_sends = []\<rparr>"

lemma sample_notified:
  "\<exists>r ord db. notify (sample_notify_env 5 ''J'') sample_caller sample_request no_notifications = (Inr r, Some ord, db) \<and> np_job_id r = ''J''"
proof -
  have a: "map_sum (\<lambda>_. ()) np_job_id (fst (notify (sample_notify_env 5 ''J'') sample_caller sample_request no_notifications)) = Inr ''J''"
    by code_simp
  have b: "map_option (\<lambda>_. ()) (fst (snd (notify (sample_notify_env 5 ''J'') sample_caller sample_request no_notifications))) = Some ()"
    by code_simp
  obtain x y d where "notify (sample_notify_env 5 ''J'') sample_caller sample_request no_notifications = (x, y, d)" by (metis prod.exhaust)
  then show ?thesis using a b by (cases x; cases y) auto
qed

theorem notify_once_per_key_witness:
  "\<exists>r db. fst (notify (sample_notify_env 5 ''J'') sample_caller sample_request no_notifications) = Inr r
     \<and> (\<exists>r' db''. notify (sample_notify_env 9 ''K'') sample_caller sample_request db = (Inr r', None, db'') \<and> np_job_id r' = np_job_id r)
     \<and> (\<exists>e ord'. notify (sample_notify_env 90000 ''K'') sample_caller sample_request db = (Inl e, Some ord', db))"
proof -
  obtain r ord db where n: "notify (sample_notify_env 5 ''J'') sample_caller sample_request no_notifications = (Inr r, Some ord, db)"
    using sample_notified by blast
  have env: "(sample_notify_env 5 ''J'')\<lparr>ne_now := t, ne_job_id := ''K''\<rparr> = sample_notify_env t ''K''" for t
    by (simp add: sample_notify_env_def)
  have life: "ne_now (sample_notify_env 5 ''J'') + ne_ttl_seconds (sample_notify_env 5 ''J'') = 86405" by (simp add: sample_notify_env_def)
  show ?thesis
    using notify_once_per_key[OF n, of 9 "''K''"] notify_once_per_key[OF n, of 90000 "''K''"] n unfolding env life by force
qed

theorem replay_always_refused_witness:
  "\<exists>r ord db. notify (sample_notify_env 5 ''J'') sample_caller sample_request no_notifications = (Inr r, Some ord, db)
     \<and> (\<exists>e. replay_job sample_caller ''J'' db = Inl e)"
proof -
  obtain r ord db where n: "notify (sample_notify_env 5 ''J'') sample_caller sample_request no_notifications = (Inr r, Some ord, db)"
    using sample_notified by blast
  have "notif_reach no_notifications" unfolding no_notifications_def by (rule nr_empty)
  then have "notif_reach db" using n by (blast intro: nr_step n_notify)
  then show ?thesis using n replay_always_refused by blast
qed

theorem never_resent_witness:
  "\<exists>new. channel_sends ''J'' ''slack'' (snd (deliver_channel (\<lambda>_. Inr (refused ''e'' ''d'')) True ''d'' 1 ''J'' ''slack'' 3 no_notifications))
     = channel_sends ''J'' ''slack'' no_notifications @ new \<and> length new \<le> 3"
  using never_resent[of "\<lambda>_. Inr (refused ''e'' ''d'')" True "''d''" 1 "''J''" "''slack''" 3 no_notifications, OF surjective_pairing] by blast

end
