(* ===== verification/Access.thy ===== *)
theory Access
  imports TaskDispatch
begin

text \<open>
  Who may call the API: the tables \<open>users\<close> and \<open>api_keys\<close>, the dependencies of
  \<open>apps/nexus_api/dependencies.py\<close> (tokens, the current user, the current agent, roles, module
  permissions) and the login rate limiter of \<open>apps/nexus_api/routers/auth.py\<close>.  The password hash
  and the signed tokens (passlib, python-jose) are arguments, collected in the record \<open>crypto\<close>; the
  clock, the client address, the salt and the random key a request draws come in \<open>auth_env\<close>.
  Times are in microseconds; a token carries its expiry in whole seconds, as jose encodes it.
\<close>

section \<open>Tables and the outside world\<close>

record user_row =
  us_id :: int
  us_email :: string
  us_password_hash :: string
  us_refresh_token_hash :: "string option"
  us_role :: string
  us_is_active :: bool
  us_module_permissions :: "(string \<times> string) list option"
  us_created_at :: int

record api_key_row =
  ky_id :: int
  ky_owner_type :: string
  ky_owner_id :: int
  ky_key_hash :: string
  ky_name :: string
  ky_is_active :: bool
  ky_created_at :: int

record access_db =
  ac_users :: "user_row list"
  ac_keys :: "api_key_row list"
  ac_agents :: "agent_row list"
  ac_audit :: "audit_event list"
  ac_rate :: "string \<Rightarrow> int list option"

record crypto =
  cr_hash :: "string \<Rightarrow> string \<Rightarrow> string"
  cr_verify :: "string \<Rightarrow> string \<Rightarrow> bool"
  cr_encode :: "dict \<Rightarrow> string"
  cr_decode :: "int \<Rightarrow> string \<Rightarrow> dict option"
  cr_sha :: "string \<Rightarrow> string"
  cr_key_out :: "api_key_row \<Rightarrow> string \<Rightarrow> (api_key_row \<times> string) res"

record auth_env =
  au_now :: int
  au_ip :: string
  au_salt :: string
  au_new_id :: int
  au_raw_key :: string

definition seconds :: "int \<Rightarrow> int" where
  "seconds t = t div 1000000"

section \<open>Tokens\<close>

definition get_password_hash :: "crypto \<Rightarrow> auth_env \<Rightarrow> string \<Rightarrow> string" where
  "get_password_hash cr env password = cr_hash cr (au_salt env) password"

definition create_access_token :: "crypto \<Rightarrow> auth_env \<Rightarrow> dict \<Rightarrow> int option \<Rightarrow> string" where
  "create_access_token cr env data delta =
     (let expire = (case delta of Some d \<Rightarrow> if d \<noteq> 0 then seconds (au_now env) + d else seconds (au_now env) + 15 * 60
                    | None \<Rightarrow> seconds (au_now env) + 15 * 60) in
      cr_encode cr (dset ''exp'' (JInt expire) data))"

definition create_refresh_token :: "crypto \<Rightarrow> auth_env \<Rightarrow> dict \<Rightarrow> int option \<Rightarrow> string" where
  "create_refresh_token cr env data delta =
     (let expire = (case delta of Some d \<Rightarrow> if d \<noteq> 0 then seconds (au_now env) + d
                        else seconds (au_now env) + 7 * 86400
                    | None \<Rightarrow> seconds (au_now env) + 7 * 86400) in
      cr_encode cr (dset ''type'' (JStr ''refresh'') (dset ''exp'' (JInt expire) data)))"

text \<open>A token whose subject is not a string is refused by jose itself.\<close>

definition get_current_user :: "crypto \<Rightarrow> auth_env \<Rightarrow> string option \<Rightarrow> access_db \<Rightarrow> user_row option" where
  "get_current_user cr env token db =
     (if token \<in> {None, Some []} then None
      else case cr_decode cr (seconds (au_now env)) (the token) of
        None \<Rightarrow> None
      | Some payload \<Rightarrow>
          (case dget payload ''sub'' JNull of
             JStr email \<Rightarrow> select_first (\<lambda>u. us_email u = email) (ac_users db)
           | _ \<Rightarrow> None))"

definition get_current_agent_by_key :: "crypto \<Rightarrow> string option \<Rightarrow> access_db \<Rightarrow> agent_row option" where
  "get_current_agent_by_key cr api_key db =
     (if api_key \<in> {None, Some []} then None
      else case select_first (\<lambda>k. ky_key_hash k = cr_sha cr (the api_key)) (ac_keys db) of
        None \<Rightarrow> None
      | Some k \<Rightarrow> if ky_owner_type k = ''agent''
          then select_first (\<lambda>a. ag_id a = ky_owner_id k) (ac_agents db) else None)"

datatype caller =
    CallerUser user_row
  | CallerAgent agent_row

definition get_current_identity :: "user_row option \<Rightarrow> agent_row option \<Rightarrow> caller res" where
  "get_current_identity user agent =
     (case user of
        Some u \<Rightarrow> if \<not> us_is_active u then Inl (HTTPException 400 ''Inactive user'') else Inr (CallerUser u)
      | None \<Rightarrow>
          (case agent of
             Some a \<Rightarrow> if \<not> ag_is_active a then Inl (HTTPException 400 ''Inactive agent'') else Inr (CallerAgent a)
           | None \<Rightarrow> Inl (HTTPException 401 ''Could not validate credentials'')))"

section \<open>Roles and module permissions\<close>

definition RequireRole :: "string list \<Rightarrow> user_row option \<Rightarrow> user_row res" where
  "RequireRole allowed_roles user =
     (case user of
        None \<Rightarrow> Inl (HTTPException 401 ''Not authenticated'')
      | Some u \<Rightarrow> if us_role u \<notin> set allowed_roles then Inl (HTTPException 403 ''Not enough permissions'')
                  else Inr u)"

definition ALL_MODULES :: "string list" where
  "ALL_MODULES = [''dashboard'', ''orchestration'', ''personas'', ''knowledge_base'', ''entities'', ''secrets'',
     ''audit'', ''pbx'', ''monitoring'', ''storage'', ''carrier'', ''email'', ''dns'', ''servers'',
     ''integrations'', ''users'', ''api_keys'', ''ip_allowlist'', ''backup'']"

definition ACCESS_LEVELS :: "(string \<times> nat) list" where
  "ACCESS_LEVELS = [(''none'', 0), (''read'', 1), (''manage'', 2)]"

text \<open>\<open>d | e\<close> on dictionaries: the keys of \<open>e\<close> overwrite.\<close>

definition dict_or :: "(string \<times> 'v) list \<Rightarrow> (string \<times> 'v) list \<Rightarrow> (string \<times> 'v) list" where
  "dict_or d e = foldl (\<lambda>r kv. dset (fst kv) (snd kv) r) d e"

definition admin_defaults :: "(string \<times> string) list" where
  "admin_defaults = dict_or (List.map (\<lambda>m. (m, ''manage'')) ALL_MODULES) [(''audit'', ''read'')]"

definition operator_defaults :: "(string \<times> string) list" where
  "operator_defaults = [(''dashboard'', ''read''), (''orchestration'', ''manage''), (''personas'', ''manage''),
     (''knowledge_base'', ''manage''), (''entities'', ''read''), (''secrets'', ''read''), (''audit'', ''read''),
     (''pbx'', ''manage''), (''monitoring'', ''manage''), (''storage'', ''manage''), (''carrier'', ''manage''),
     (''email'', ''manage''), (''dns'', ''manage''), (''servers'', ''manage''), (''integrations'', ''read''),
     (''users'', ''none''), (''api_keys'', ''none''), (''ip_allowlist'', ''none''), (''backup'', ''none'')]"

definition reader_defaults :: "(string \<times> string) list" where
  "reader_defaults = dict_or (List.map (\<lambda>m. (m, ''read'')) ALL_MODULES)
     [(''secrets'', ''none''), (''integrations'', ''none''), (''users'', ''none''), (''api_keys'', ''none''),
      (''ip_allowlist'', ''none''), (''backup'', ''none'')]"

definition ROLE_PERMISSION_DEFAULTS :: "(string \<times> (string \<times> string) list) list" where
  "ROLE_PERMISSION_DEFAULTS =
     [(''admin'', admin_defaults), (''operator'', operator_defaults), (''reader'', reader_defaults)]"

definition lookup_or :: "(string \<times> 'v) list \<Rightarrow> string \<Rightarrow> 'v \<Rightarrow> 'v" where
  "lookup_or d k dflt = (case map_of d k of Some v \<Rightarrow> v | None \<Rightarrow> dflt)"

definition get_effective_permissions :: "user_row \<Rightarrow> (string \<times> string) list" where
  "get_effective_permissions u =
     (if us_role u = ''admin'' then admin_defaults
      else if us_module_permissions u \<notin> {None, Some []} then the (us_module_permissions u)
      else lookup_or ROLE_PERMISSION_DEFAULTS (us_role u) reader_defaults)"

definition level_rank :: "string \<Rightarrow> nat" where
  "level_rank l = lookup_or ACCESS_LEVELS l 0"

definition RequireModuleAccess :: "string \<Rightarrow> string \<Rightarrow> user_row option \<Rightarrow> user_row res" where
  "RequireModuleAccess module min_level user =
     (case user of
        None \<Rightarrow> Inl (HTTPException 401 ''Not authenticated'')
      | Some u \<Rightarrow>
          if us_role u = ''admin'' then Inr u
          else if level_rank (lookup_or (get_effective_permissions u) module ''none'') < level_rank min_level
          then Inl (HTTPException 403 (''No '' @ min_level @ '' access to '' @ module))
          else Inr u)"

section \<open>The rate limiter\<close>

definition rate_window :: int where
  "rate_window = 60 * 1000000"

definition check_rate_limit :: "auth_env \<Rightarrow> access_db \<Rightarrow> unit res \<times> access_db" where
  "check_rate_limit env db =
     (let ip = au_ip env; now = au_now env;
          cleaned = (case ac_rate db ip of
              Some ts \<Rightarrow> (ac_rate db)(ip := Some (filter (\<lambda>t. now - t < rate_window) ts))
            | None \<Rightarrow> ac_rate db);
          reqs = (case cleaned ip of Some ts \<Rightarrow> ts | None \<Rightarrow> []) in
      if length reqs \<ge> 15 then (Inl (HTTPException 429 ''Too many requests''), db\<lparr>ac_rate := cleaned\<rparr>)
      else (Inr (), db\<lparr>ac_rate := cleaned(ip := Some (reqs @ [now]))\<rparr>))"


fun limited_run :: "auth_env list \<Rightarrow> access_db \<Rightarrow> (string \<times> int) list \<times> access_db" where
  "limited_run [] db = ([], db)"
| "limited_run (e # es) db =
     (case check_rate_limit e db of
        (Inl _, db') \<Rightarrow> limited_run es db'
      | (Inr _, db') \<Rightarrow> (case limited_run es db' of (acc, db'') \<Rightarrow> ((au_ip e, au_now e) # acc, db'')))"

text \<open>The reference: a sliding window over the whole history of accepted calls.\<close>

definition recent :: "string \<Rightarrow> int \<Rightarrow> (string \<times> int) list \<Rightarrow> int list" where
  "recent ip now hist = filter (\<lambda>t. now - t < rate_window) (List.map snd (filter (\<lambda>c. fst c = ip) hist))"

fun window_run :: "auth_env list \<Rightarrow> (string \<times> int) list \<Rightarrow> (string \<times> int) list" where
  "window_run [] hist = hist"
| "window_run (e # es) hist =
     (if length (recent (au_ip e) (au_now e) hist) < 15 then window_run es (hist @ [(au_ip e, au_now e)])
      else window_run es hist)"

definition stored_times :: "access_db \<Rightarrow> string \<Rightarrow> int list" where
  "stored_times db ip = (case ac_rate db ip of None \<Rightarrow> [] | Some ts \<Rightarrow> ts)"

text \<open>What the store keeps agrees with the history on everything that can still count.\<close>

definition rate_agrees :: "int \<Rightarrow> (string \<times> int) list \<Rightarrow> access_db \<Rightarrow> bool" where
  "rate_agrees n hist db \<longleftrightarrow>
     (\<forall>ip now. n \<le> now \<longrightarrow> filter (\<lambda>t. now - t < rate_window) (stored_times db ip) = recent ip now hist)"

lemma recent_snoc:
  "recent ip now (hist @ [(ip', t)]) = recent ip now hist @ (if ip' = ip \<and> now - t < rate_window then [t] else [])"
  by (simp add: recent_def)

lemma recent_recent:
  "now \<le> now' \<Longrightarrow> filter (\<lambda>t. now' - t < rate_window) (recent ip now hist) = recent ip now' hist"
  by (auto simp: recent_def filter_filter intro!: filter_cong)

lemma rate_agreesD:
  "rate_agrees n hist db \<Longrightarrow> n \<le> now \<Longrightarrow>
     filter (\<lambda>t. now - t < rate_window) (stored_times db ip) = recent ip now hist"
  by (simp add: rate_agrees_def)

lemma check_rate_limit_stored:
  fixes e db
  defines "ts \<equiv> filter (\<lambda>t. au_now e - t < rate_window) (stored_times db (au_ip e))"
  shows "fst (check_rate_limit e db) =
      (if length ts < 15 then Inr () else Inl (HTTPException 429 ''Too many requests''))"
    and "stored_times (snd (check_rate_limit e db)) ip =
      (if ip = au_ip e then if length ts < 15 then ts @ [au_now e] else ts else stored_times db ip)"
  unfolding ts_def
  by (simp_all add: check_rate_limit_def Let_def stored_times_def split: option.splits) (simp_all add: not_less)?

lemma check_rate_limit_cases:
  assumes "rate_agrees n hist db" and "n \<le> au_now e"
  obtains "length (recent (au_ip e) (au_now e) hist) < 15" "fst (check_rate_limit e db) = Inr ()"
      "rate_agrees (au_now e) (hist @ [(au_ip e, au_now e)]) (snd (check_rate_limit e db))"
  | "\<not> length (recent (au_ip e) (au_now e) hist) < 15"
      "fst (check_rate_limit e db) = Inl (HTTPException 429 ''Too many requests'')"
      "rate_agrees (au_now e) hist (snd (check_rate_limit e db))"
proof -
  let ?r = "recent (au_ip e) (au_now e) hist"
  note st = check_rate_limit_stored[of e db, unfolded rate_agreesD[OF assms]]
  have other: "filter (\<lambda>t. now - t < rate_window) (stored_times db ip) = recent ip now hist"
    if "au_now e \<le> now" for now ip
    using rate_agreesD[OF assms(1)] assms(2) that by (meson order_trans)
  show thesis
  proof (cases "length ?r < 15")
    case True
    then have "rate_agrees (au_now e) (hist @ [(au_ip e, au_now e)]) (snd (check_rate_limit e db))"
      unfolding rate_agrees_def st(2) by (simp add: other recent_recent recent_snoc)
    then show thesis using that(1) True st(1) by simp
  next
    case False
    then have "rate_agrees (au_now e) hist (snd (check_rate_limit e db))"
      unfolding rate_agrees_def st(2) by (simp add: other recent_recent)
    then show thesis using that(2) False st(1) by simp
  qed
qed

lemma limited_run_window:
  assumes "rate_agrees n hist db" and "sorted (n # List.map au_now es)"
  shows "window_run es hist = hist @ fst (limited_run es db)"
  using assms
proof (induction es arbitrary: n hist db)
  case (Cons e es)
  have le: "n \<le> au_now e" and so: "sorted (au_now e # List.map au_now es)" using Cons.prems(2) by auto
  obtain o1 db1 where c: "check_rate_limit e db = (o1, db1)" by fastforce
  from Cons.prems(1) le show ?case
  proof (cases rule: check_rate_limit_cases)
    case 1
    then have "o1 = Inr ()" and "rate_agrees (au_now e) (hist @ [(au_ip e, au_now e)]) db1" using c by simp_all
    then show ?thesis using Cons.IH[OF _ so, of "hist @ [(au_ip e, au_now e)]" db1] 1(1) c
      by (simp split: prod.split)
  next
    case 2
    then have "o1 = Inl (HTTPException 429 ''Too many requests'')" and "rate_agrees (au_now e) hist db1" using c by simp_all
    then show ?thesis using Cons.IH[OF _ so, of hist db1] 2(1) c by simp
  qed
qed simp

text \<open>C22: The rate limiter forgets old calls, and forgetting is exact: from the start of the process and for calls at
  non-decreasing times it accepts precisely the calls a sliding window over the complete history of accepted calls
  accepts, that is those whose address had fewer than 15 accepted calls in the last 60 seconds.\<close>

theorem rate_limit_sliding_window:
  assumes "ac_rate db = (\<lambda>_. None)" and "sorted (List.map au_now es)"
  shows "fst (limited_run es db) = window_run es []"
proof (cases es)
  case (Cons e es')
  have "rate_agrees (au_now e) [] db" using assms(1) by (simp add: rate_agrees_def stored_times_def recent_def)
  then show ?thesis using limited_run_window[of "au_now e" "[]" db es] assms(2) Cons by simp
qed simp

lemma window_run_bound:
  assumes "\<forall>t \<in> snd ` set hist. t \<le> n" "sorted (n # List.map au_now es)"
    "length (filter (\<lambda>c. fst c = ip \<and> s \<le> snd c \<and> snd c < s + rate_window) hist) \<le> 15"
  shows "length (filter (\<lambda>c. fst c = ip \<and> s \<le> snd c \<and> snd c < s + rate_window) (window_run es hist)) \<le> 15"
  using assms
proof (induction es arbitrary: n hist)
  case (Cons e es)
  let ?in = "\<lambda>c. fst c = ip \<and> s \<le> snd c \<and> snd c < s + rate_window"
  have so: "sorted (au_now e # List.map au_now es)" and le: "n \<le> au_now e" using Cons.prems(2) by auto
  have old: "\<forall>t \<in> snd ` set hist. t \<le> au_now e" using Cons.prems(1) le by (meson order_trans)
  show ?case
  proof (cases "length (recent (au_ip e) (au_now e) hist) < 15")
    case True
    have "length (filter ?in (hist @ [(au_ip e, au_now e)])) \<le> 15"
    proof (cases "?in (au_ip e, au_now e)")
      case inw: True
      have "length (filter ?in hist) \<le> length (recent (au_ip e) (au_now e) hist)"
        using inw by (induction hist) (auto simp: recent_def)
      then show ?thesis using True inw by simp
    qed (use Cons.prems(3) in auto)
    then show ?thesis using True Cons.IH[OF _ so] old by simp
  next
    case False
    then show ?thesis using Cons.IH[OF old so] Cons.prems(3) by simp
  qed
qed simp

text \<open>Whatever the interleaving of addresses, no address ever gets more than 15 calls through in any
  60 seconds, for every start of the window and not only for windows that end at a call.\<close>

theorem rate_limit_bound:
  assumes "ac_rate db = (\<lambda>_. None)" and "sorted (List.map au_now es)"
  shows "length (filter (\<lambda>c. fst c = ip \<and> s \<le> snd c \<and> snd c < s + rate_window) (fst (limited_run es db))) \<le> 15"
proof (cases es)
  case (Cons e es')
  have "fst (limited_run es db) = window_run es []"
    using limited_run_window[of "au_now e" "[]" db es] assms Cons
    by (simp add: rate_agrees_def stored_times_def recent_def)
  then show ?thesis using window_run_bound[of "[]" "au_now e" es ip s] assms(2) Cons by simp
qed simp

definition demo_calls :: "auth_env list" where
  "demo_calls = List.map (\<lambda>s. \<lparr>au_now = int s * 1000000, au_ip = ''1.2.3.4'', au_salt = [], au_new_id = 1,
     au_raw_key = []\<rparr>) [0..<20]"

definition demo_start :: access_db where
  "demo_start = \<lparr>ac_users = [], ac_keys = [], ac_agents = [], ac_audit = [], ac_rate = (\<lambda>_. None)\<rparr>"

lemma demo_calls_sorted: "sorted (List.map au_now demo_calls)"
  by (simp add: demo_calls_def comp_def sorted_iff_nth_mono)

theorem rate_limit_sliding_window_witness:
  "fst (limited_run demo_calls demo_start) = window_run demo_calls [] \<and> length (window_run demo_calls []) = 15"
  using rate_limit_sliding_window[of demo_start demo_calls] demo_calls_sorted
  by (simp add: demo_start_def) code_simp

theorem rate_limit_bound_witness:
  "length (filter (\<lambda>c. fst c = ''1.2.3.4'' \<and> 0 \<le> snd c \<and> snd c < 0 + rate_window) (fst (limited_run demo_calls demo_start))) \<le> 15"
  by (rule rate_limit_bound[OF _ demo_calls_sorted]) (simp add: demo_start_def)

end
