(* ===== verification/AuthApi.thy ===== *)
theory AuthApi
  imports Access
begin

text \<open>
  The handlers that keep the accounts: \<open>apps/nexus_api/routers/auth.py\<close> (login, refresh, logout,
  password re-verification, forgotten passwords, API keys) and \<open>apps/nexus_api/routers/users.py\<close>
  (the administrator's user management), with \<open>scripts/bootstrap.py\<close> as the start.  A handler
  returns its answer or the exception together with the committed database: the session writes only at
  \<open>commit\<close>, so what was assigned before a raised exception is gone, except where the code commits
  first.  Alerts and notifications after the commit are fire-and-forget and left out.
\<close>

section \<open>Writing the tables\<close>

definition set_user :: "int \<Rightarrow> (user_row \<Rightarrow> user_row) \<Rightarrow> access_db \<Rightarrow> access_db" where
  "set_user i f db = db\<lparr>ac_users := table_update us_id i f (ac_users db)\<rparr>"

definition set_key :: "int \<Rightarrow> (api_key_row \<Rightarrow> api_key_row) \<Rightarrow> access_db \<Rightarrow> access_db" where
  "set_key i f db = db\<lparr>ac_keys := table_update ky_id i f (ac_keys db)\<rparr>"

definition audited ::
  "string \<Rightarrow> string \<Rightarrow> user_row \<Rightarrow> string option \<Rightarrow> dict \<Rightarrow> access_db \<Rightarrow> access_db res" where
  "audited action resource who resource_id meta db =
     bind_res (log_audit_event action resource (Some (UserId (us_id who))) resource_id meta (ac_audit db))
       (\<lambda>rows. Inr (db\<lparr>ac_audit := rows\<rparr>))"

text \<open>The end of every handler: on success the new state is committed, on an exception the state before
  the request stays.\<close>

definition commit_or :: "access_db \<Rightarrow> ('a \<times> access_db) res \<Rightarrow> 'a res \<times> access_db" where
  "commit_or db r = (case r of Inl e \<Rightarrow> (Inl e, db) | Inr (x, db') \<Rightarrow> (Inr x, db'))"

definition rate_limited ::
  "auth_env \<Rightarrow> access_db \<Rightarrow> (access_db \<Rightarrow> 'a res \<times> access_db) \<Rightarrow> 'a res \<times> access_db" where
  "rate_limited env db body =
     (case check_rate_limit env db of (Inl e, db') \<Rightarrow> (Inl e, db') | (Inr _, db') \<Rightarrow> body db')"

section \<open>auth.py: sessions\<close>

record tokens =
  tk_access :: string
  tk_refresh :: string

definition perms_json :: "(string \<times> string) list \<Rightarrow> json" where
  "perms_json p = JObj (List.map (\<lambda>(k, v). (k, JStr v)) p)"

definition token_data :: "user_row \<Rightarrow> dict" where
  "token_data u = [(''sub'', JStr (us_email u)), (''role'', JStr (us_role u)),
     (''mp'', perms_json (get_effective_permissions u))]"

definition user_by_email :: "access_db \<Rightarrow> string \<Rightarrow> user_row option" where
  "user_by_email db email = select_first (\<lambda>u. us_email u = email) (ac_users db)"

definition user_by_id :: "access_db \<Rightarrow> int \<Rightarrow> user_row option" where
  "user_by_id db i = select_first (\<lambda>u. us_id u = i) (ac_users db)"

definition store_refresh :: "crypto \<Rightarrow> auth_env \<Rightarrow> user_row \<Rightarrow> string \<Rightarrow> access_db \<Rightarrow> access_db" where
  "store_refresh cr env u token db =
     set_user (us_id u) (us_refresh_token_hash_update (\<lambda>_. Some (get_password_hash cr env token))) db"

definition failed_login :: "auth_env \<Rightarrow> string \<Rightarrow> access_db \<Rightarrow> access_db" where
  "failed_login env username db = db\<lparr>ac_audit := insert_row
     \<lparr>ae_actor_type = Some ''user'', ae_actor_id = Some 0, ae_action = ''login_failed'', ae_target_type = ''auth'',
      ae_target_id = 0, ae_meta = [(''attempted_email'', JStr username), (''ip'', JStr (au_ip env))]\<rparr> (ac_audit db)\<rparr>"

definition login_for_access_token ::
  "crypto \<Rightarrow> auth_env \<Rightarrow> string \<Rightarrow> string \<Rightarrow> access_db \<Rightarrow> tokens res \<times> access_db" where
  "login_for_access_token cr env username password db = rate_limited env db (\<lambda>db.
     case user_by_email db username of
       None \<Rightarrow> (Inl (HTTPException 401 ''Incorrect username or password''), failed_login env username db)
     | Some u \<Rightarrow>
         if \<not> cr_verify cr password (us_password_hash u)
         then (Inl (HTTPException 401 ''Incorrect username or password''), failed_login env username db)
         else
          (let access = create_access_token cr env (token_data u) (Some (1440 * 60));
               refresh = create_refresh_token cr env [(''sub'', JStr (us_email u))] None in
           commit_or db (bind_res
             (audited ''login_success'' ''user'' u (Some (str_int (us_id u)))
                [(''email'', JStr (us_email u)), (''role'', JStr (us_role u)), (''ip'', JStr (au_ip env))]
                (store_refresh cr env u refresh db))
             (\<lambda>db'. Inr (\<lparr>tk_access = access, tk_refresh = refresh\<rparr>, db')))))"

definition refresh_subject :: "crypto \<Rightarrow> auth_env \<Rightarrow> string \<Rightarrow> string res" where
  "refresh_subject cr env token =
     (case cr_decode cr (seconds (au_now env)) token of
        None \<Rightarrow> Inl (HTTPException 401 ''Invalid refresh token'')
      | Some payload \<Rightarrow>
          (case dget payload ''sub'' JNull of
             JStr email \<Rightarrow> if dget payload ''type'' JNull \<noteq> JStr ''refresh''
                 then Inl (HTTPException 401 ''Invalid refresh token'') else Inr email
           | _ \<Rightarrow> Inl (HTTPException 401 ''Invalid refresh token'')))"

definition refresh_user :: "crypto \<Rightarrow> string \<Rightarrow> user_row option \<Rightarrow> user_row option" where
  "refresh_user cr token user =
     (case user of
        None \<Rightarrow> None
      | Some u \<Rightarrow>
          (case us_refresh_token_hash u of
             None \<Rightarrow> None
           | Some h \<Rightarrow> if h = [] \<or> \<not> cr_verify cr token h then None else Some u))"

definition refresh_access_token :: "crypto \<Rightarrow> auth_env \<Rightarrow> string \<Rightarrow> access_db \<Rightarrow> tokens res \<times> access_db" where
  "refresh_access_token cr env token db = rate_limited env db (\<lambda>db.
     case refresh_subject cr env token of
       Inl e \<Rightarrow> (Inl e, db)
     | Inr email \<Rightarrow>
         (case refresh_user cr token (user_by_email db email) of
            None \<Rightarrow> (Inl (HTTPException 401 ''Invalid refresh token''), db)
          | Some u \<Rightarrow>
             (let access = create_access_token cr env (token_data u) None;
                  new_refresh = create_refresh_token cr env [(''sub'', JStr (us_email u))] None in
              commit_or db (bind_res
                (audited ''token_refresh'' ''user'' u (Some (str_int (us_id u))) [] (store_refresh cr env u new_refresh db))
                (\<lambda>db'. Inr (\<lparr>tk_access = access, tk_refresh = new_refresh\<rparr>, db'))))))"

definition logout :: "user_row option \<Rightarrow> access_db \<Rightarrow> unit res \<times> access_db" where
  "logout current_user db =
     (case current_user of
        None \<Rightarrow> (Inl attribute_error, db)
      | Some u \<Rightarrow> commit_or db (bind_res
          (audited ''logout'' ''user'' u (Some (str_int (us_id u))) []
             (set_user (us_id u) (us_refresh_token_hash_update (\<lambda>_. None)) db))
          (\<lambda>db'. Inr ((), db'))))"

definition verify_password_endpoint :: "crypto \<Rightarrow> string \<Rightarrow> user_row option \<Rightarrow> unit res" where
  "verify_password_endpoint cr password current_user =
     (case current_user of
        None \<Rightarrow> Inl attribute_error
      | Some u \<Rightarrow> if cr_verify cr password (us_password_hash u) then Inr ()
                  else Inl (HTTPException 403 ''Invalid password''))"

section \<open>auth.py: forgotten passwords\<close>

record reset_mail =
  rm_to :: string
  rm_url :: string

text \<open>The answer is the same for every address; only the mail that leaves differs.\<close>

definition reset_token :: "crypto \<Rightarrow> auth_env \<Rightarrow> user_row \<Rightarrow> string" where
  "reset_token cr env u = cr_encode cr [(''sub'', JStr (str_int (us_id u))), (''purpose'', JStr ''password_reset''),
     (''exp'', JInt (seconds (au_now env) + 15 * 60))]"

definition forgot_password ::
  "crypto \<Rightarrow> auth_env \<Rightarrow> string \<Rightarrow> string \<Rightarrow> access_db \<Rightarrow> (unit res \<times> reset_mail option) \<times> access_db" where
  "forgot_password cr env origin email db =
     (case check_rate_limit env db of
        (Inl e, db') \<Rightarrow> ((Inl e, None), db')
      | (Inr _, db') \<Rightarrow>
          (case user_by_email db' email of
             None \<Rightarrow> ((Inr (), None), db')
           | Some u \<Rightarrow> ((Inr (), Some \<lparr>rm_to = us_email u,
               rm_url = origin @ ''/reset-password/'' @ reset_token cr env u\<rparr>), db')))"

definition reset_subject :: "crypto \<Rightarrow> auth_env \<Rightarrow> string \<Rightarrow> int res" where
  "reset_subject cr env token =
     (case cr_decode cr (seconds (au_now env)) token of
        None \<Rightarrow> Inl (HTTPException 400 ''Reset link has expired or is invalid'')
      | Some data \<Rightarrow>
          if dget data ''purpose'' JNull \<noteq> JStr ''password_reset'' then Inl (HTTPException 400 ''Invalid reset link'')
          else case dget data ''sub'' JNull of
              JStr s \<Rightarrow> of_opt (PyError ''ValueError'' ''invalid literal for int() with base 10'') (py_int s)
            | _ \<Rightarrow> Inl type_error)"

definition reset_password :: "crypto \<Rightarrow> auth_env \<Rightarrow> string \<Rightarrow> string \<Rightarrow> access_db \<Rightarrow> unit res \<times> access_db" where
  "reset_password cr env token new_password db = rate_limited env db (\<lambda>db.
     case reset_subject cr env token of
       Inl e \<Rightarrow> (Inl e, db)
     | Inr i \<Rightarrow>
         (case user_by_id db i of
            None \<Rightarrow> (Inl (HTTPException 400 ''Invalid reset link''), db)
          | Some u \<Rightarrow> (Inr (), set_user (us_id u)
              (us_password_hash_update (\<lambda>_. get_password_hash cr env new_password)) db)))"


section \<open>auth.py: API keys\<close>

text \<open>The handlers read \<open>current_user.role\<close> without asking whether there is a user.\<close>

definition keys_guard :: "user_row option \<Rightarrow> user_row res" where
  "keys_guard current_user =
     (case current_user of
        None \<Rightarrow> Inl attribute_error
      | Some u \<Rightarrow> if us_role u \<notin> {''admin'', ''operator''} then Inl (HTTPException 403 ''Not enough permissions'')
                  else Inr u)"

definition key_by_id :: "access_db \<Rightarrow> int \<Rightarrow> api_key_row res" where
  "key_by_id db i = of_opt (HTTPException 404 ''API Key not found'') (select_first (\<lambda>k. ky_id k = i) (ac_keys db))"

record key_create =
  kc_owner_type :: string
  kc_owner_id :: int
  kc_name :: string

definition valid_key_create :: "key_create \<Rightarrow> bool" where
  "valid_key_create q \<longleftrightarrow> kc_owner_type q \<in> {''user'', ''agent''}"

text \<open>The answer is built by pydantic after the commit; when that raises the key stays.\<close>

definition create_api_key ::
  "crypto \<Rightarrow> auth_env \<Rightarrow> key_create \<Rightarrow> user_row option \<Rightarrow> access_db \<Rightarrow> (api_key_row \<times> string) res \<times> access_db" where
  "create_api_key cr env q current_user db =
     (if \<not> valid_key_create q then (Inl (HTTPException 422 ''owner_type''), db)
      else case keys_guard current_user of
        Inl e \<Rightarrow> (Inl e, db)
      | Inr u \<Rightarrow>
         (let k = \<lparr>ky_id = au_new_id env, ky_owner_type = kc_owner_type q, ky_owner_id = kc_owner_id q,
                ky_key_hash = cr_sha cr (au_raw_key env), ky_name = kc_name q, ky_is_active = True,
                ky_created_at = au_now env\<rparr> in
          case audited ''api_key_create'' ''api_key'' u None
                 [(''name'', JStr (kc_name q)), (''owner_type'', JStr (kc_owner_type q)), (''owner_id'', JInt (kc_owner_id q))]
                 (db\<lparr>ac_keys := insert_row k (ac_keys db)\<rparr>) of
            Inl e \<Rightarrow> (Inl e, db)
          | Inr db' \<Rightarrow> (cr_key_out cr k (au_raw_key env), db')))"

text \<open>Newest first.\<close>

definition list_api_keys :: "user_row option \<Rightarrow> access_db \<Rightarrow> api_key_row list res" where
  "list_api_keys current_user db =
     bind_res (keys_guard current_user) (\<lambda>_. Inr (sort_key (\<lambda>k. - ky_created_at k) (ac_keys db)))"

definition rotate_api_key ::
  "crypto \<Rightarrow> auth_env \<Rightarrow> int \<Rightarrow> user_row option \<Rightarrow> access_db \<Rightarrow> (int \<times> string) res \<times> access_db" where
  "rotate_api_key cr env i current_user db = commit_or db
     (bind_res (keys_guard current_user) (\<lambda>u.
      bind_res (key_by_id db i) (\<lambda>k.
      bind_res (audited ''api_key_rotate'' ''api_key'' u (Some (str_int (ky_id k))) []
          (set_key (ky_id k) (ky_key_hash_update (\<lambda>_. cr_sha cr (au_raw_key env))) db)) (\<lambda>db'.
      Inr ((ky_id k, au_raw_key env), db')))))"

definition toggle_api_key :: "int \<Rightarrow> user_row option \<Rightarrow> access_db \<Rightarrow> (int \<times> bool) res \<times> access_db" where
  "toggle_api_key i current_user db = commit_or db
     (bind_res (keys_guard current_user) (\<lambda>u.
      bind_res (key_by_id db i) (\<lambda>k.
      bind_res (audited (if \<not> ky_is_active k then ''api_key_enable'' else ''api_key_disable'') ''api_key'' u
          (Some (str_int (ky_id k))) [] (set_key (ky_id k) (ky_is_active_update Not) db)) (\<lambda>db'.
      Inr ((ky_id k, \<not> ky_is_active k), db')))))"

definition revoke_api_key :: "int \<Rightarrow> user_row option \<Rightarrow> access_db \<Rightarrow> unit res \<times> access_db" where
  "revoke_api_key i current_user db = commit_or db
     (bind_res (keys_guard current_user) (\<lambda>u.
      bind_res (key_by_id db i) (\<lambda>k.
      bind_res (audited ''api_key_revoke'' ''api_key'' u (Some (str_int i)) []
          (db\<lparr>ac_keys := delete_rows (\<lambda>r. ky_id r = ky_id k) (ac_keys db)\<rparr>)) (\<lambda>db'.
      Inr ((), db')))))"

section \<open>users.py\<close>

record user_out =
  uo_id :: int
  uo_email :: string
  uo_role :: string
  uo_is_active :: bool
  uo_module_permissions :: "(string \<times> string) list"

definition from_user :: "user_row \<Rightarrow> user_out" where
  "from_user u = \<lparr>uo_id = us_id u, uo_email = us_email u, uo_role = us_role u, uo_is_active = us_is_active u,
     uo_module_permissions = get_effective_permissions u\<rparr>"

definition users_require_admin :: "user_row option \<Rightarrow> user_row res" where
  "users_require_admin u = RequireRole [''admin''] u"

definition ROLES :: "string list" where
  "ROLES = [''admin'', ''operator'', ''reader'']"

definition bad_role :: exn where
  "bad_role = HTTPException 422 ''Role must be admin, operator, or reader''"

definition list_users :: "user_row option \<Rightarrow> access_db \<Rightarrow> user_out list res" where
  "list_users caller db = bind_res (users_require_admin caller) (\<lambda>_. Inr (List.map from_user (sort_key us_id (ac_users db))))"

record user_create =
  uc_email :: string
  uc_password :: string
  uc_role :: string

definition new_user :: "crypto \<Rightarrow> auth_env \<Rightarrow> user_create \<Rightarrow> user_row" where
  "new_user cr env body = \<lparr>us_id = au_new_id env, us_email = uc_email body,
     us_password_hash = get_password_hash cr env (uc_password body), us_refresh_token_hash = None,
     us_role = uc_role body, us_is_active = True, us_module_permissions = None, us_created_at = au_now env\<rparr>"

definition create_user ::
  "crypto \<Rightarrow> auth_env \<Rightarrow> user_create \<Rightarrow> user_row option \<Rightarrow> access_db \<Rightarrow> user_out res \<times> access_db" where
  "create_user cr env body caller db = commit_or db
     (bind_res (users_require_admin caller) (\<lambda>admin.
      if user_by_email db (uc_email body) \<noteq> None then Inl (HTTPException 409 ''Email already registered'')
      else if uc_role body \<notin> set ROLES then Inl bad_role
      else bind_res (audited ''user_create'' ''user'' admin None
              [(''email'', JStr (uc_email body)), (''role'', JStr (uc_role body))]
              (db\<lparr>ac_users := insert_row (new_user cr env body) (ac_users db)\<rparr>)) (\<lambda>db'.
           Inr (from_user (new_user cr env body), db'))))"

record user_update =
  uu_email :: "string option"
  uu_role :: "string option"
  uu_is_active :: "bool option"
  uu_password :: "string option"

text \<open>The four fields in the order of the code; each stage passes on the user object and the dictionary
  of changes, or raises.\<close>

definition update_email :: "user_update \<Rightarrow> access_db \<Rightarrow> user_row \<times> dict \<Rightarrow> (user_row \<times> dict) res" where
  "update_email body db uc =
     (case uu_email body of
        None \<Rightarrow> Inr uc
      | Some e \<Rightarrow> if select_first (\<lambda>u. us_email u = e \<and> us_id u \<noteq> us_id (fst uc)) (ac_users db) \<noteq> None
          then Inl (HTTPException 409 ''Email already in use'')
          else Inr ((fst uc)\<lparr>us_email := e\<rparr>, dset ''email'' (JStr e) (snd uc)))"

definition update_role :: "user_update \<Rightarrow> user_row \<times> dict \<Rightarrow> (user_row \<times> dict) res" where
  "update_role body uc =
     (case uu_role body of
        None \<Rightarrow> Inr uc
      | Some r \<Rightarrow> if r \<notin> set ROLES then Inl bad_role
                  else Inr ((fst uc)\<lparr>us_role := r\<rparr>, dset ''role'' (JStr r) (snd uc)))"

definition update_active :: "user_update \<Rightarrow> user_row \<times> dict \<Rightarrow> (user_row \<times> dict) res" where
  "update_active body uc =
     (case uu_is_active body of
        None \<Rightarrow> Inr uc
      | Some a \<Rightarrow> Inr ((fst uc)\<lparr>us_is_active := a\<rparr>, dset ''is_active'' (JBool a) (snd uc)))"

definition update_password ::
  "crypto \<Rightarrow> auth_env \<Rightarrow> user_update \<Rightarrow> user_row \<times> dict \<Rightarrow> (user_row \<times> dict) res" where
  "update_password cr env body uc =
     (case uu_password body of
        None \<Rightarrow> Inr uc
      | Some p \<Rightarrow> if length p < 8 then Inl (HTTPException 422 ''Password must be at least 8 characters'')
          else Inr ((fst uc)\<lparr>us_password_hash := get_password_hash cr env p, us_refresh_token_hash := None\<rparr>,
                    dset ''password'' (JStr ''***changed***'') (snd uc)))"

definition updated_user ::
  "crypto \<Rightarrow> auth_env \<Rightarrow> user_update \<Rightarrow> access_db \<Rightarrow> user_row \<Rightarrow> (user_row \<times> dict) res" where
  "updated_user cr env body db u =
     bind_res (update_email body db (u, [])) (\<lambda>s. bind_res (update_role body s) (\<lambda>s.
     bind_res (update_active body s) (update_password cr env body)))"

definition require_user :: "access_db \<Rightarrow> int \<Rightarrow> user_row res" where
  "require_user db i = of_opt (HTTPException 404 ''User not found'') (user_by_id db i)"

definition update_user ::
  "crypto \<Rightarrow> auth_env \<Rightarrow> int \<Rightarrow> user_update \<Rightarrow> user_row option \<Rightarrow> access_db \<Rightarrow> user_out res \<times> access_db" where
  "update_user cr env i body caller db = commit_or db
     (bind_res (users_require_admin caller) (\<lambda>admin.
      bind_res (require_user db i) (\<lambda>u.
      bind_res (updated_user cr env body db u) (\<lambda>(u', changes).
      if changes \<noteq> [] then
        bind_res (audited ''user_update'' ''user'' admin (Some (str_int i)) changes (set_user i (\<lambda>_. u') db)) (\<lambda>db'.
          Inr (from_user u', db'))
      else Inr (from_user u', db)))))"

definition admin_reset_password ::
  "crypto \<Rightarrow> auth_env \<Rightarrow> int \<Rightarrow> string \<Rightarrow> user_row option \<Rightarrow> access_db \<Rightarrow> int res \<times> access_db" where
  "admin_reset_password cr env i new_password caller db = commit_or db
     (bind_res (users_require_admin caller) (\<lambda>admin.
      bind_res (require_user db i) (\<lambda>u.
      bind_res (audited ''user_password_reset'' ''user'' admin (Some (str_int i)) []
        (set_user i (\<lambda>u. u\<lparr>us_password_hash := get_password_hash cr env new_password,
                            us_refresh_token_hash := None\<rparr>) db)) (\<lambda>db'.
      Inr (i, db')))))"

fun invalid_permission :: "(string \<times> string) list \<Rightarrow> string option" where
  "invalid_permission [] = None"
| "invalid_permission ((module, level) # rest) =
     (if module \<notin> set ALL_MODULES then Some (''Unknown module: '' @ module)
      else if \<not> dhas level ACCESS_LEVELS then Some (''Invalid level: '' @ level)
      else invalid_permission rest)"

definition update_user_permissions ::
  "int \<Rightarrow> (string \<times> string) list \<Rightarrow> user_row option \<Rightarrow> access_db \<Rightarrow> user_out res \<times> access_db" where
  "update_user_permissions i perms caller db = commit_or db
     (bind_res (users_require_admin caller) (\<lambda>admin.
      bind_res (require_user db i) (\<lambda>u.
      case invalid_permission perms of
        Some msg \<Rightarrow> Inl (HTTPException 422 msg)
      | None \<Rightarrow>
          bind_res (audited ''user_permissions_update'' ''user'' admin (Some (str_int i))
              [(''module_permissions'', perms_json perms)]
              (set_user i (us_module_permissions_update (\<lambda>_. Some perms)) db)) (\<lambda>db'.
          Inr (from_user (u\<lparr>us_module_permissions := Some perms\<rparr>), db')))))"

section \<open>All requests\<close>

datatype auth_request =
    Login string string
  | Refresh string
  | Logout "string option"
  | ForgotPassword string
  | ResetPassword string string
  | CreateKey "string option" key_create
  | RotateKey "string option" int
  | ToggleKey "string option" int
  | RevokeKey "string option" int
  | CreateUser "string option" user_create
  | UpdateUser "string option" int user_update
  | AdminReset "string option" int string
  | UpdatePermissions "string option" int "(string \<times> string) list"

text \<open>The bearer token a request is authenticated with.\<close>

definition bearer :: "auth_request \<Rightarrow> string option" where
  "bearer q = (case q of Logout t \<Rightarrow> t | CreateKey t _ \<Rightarrow> t | RotateKey t _ \<Rightarrow> t | ToggleKey t _ \<Rightarrow> t
     | RevokeKey t _ \<Rightarrow> t | CreateUser t _ \<Rightarrow> t | UpdateUser t _ _ \<Rightarrow> t | AdminReset t _ _ \<Rightarrow> t
     | UpdatePermissions t _ _ \<Rightarrow> t | _ \<Rightarrow> None)"

definition auth_handle :: "crypto \<Rightarrow> auth_env \<Rightarrow> string \<Rightarrow> auth_request \<Rightarrow> access_db \<Rightarrow> access_db" where
  "auth_handle cr env origin q db =
     (let me = get_current_user cr env (bearer q) db in
      case q of
        Login e p \<Rightarrow> snd (login_for_access_token cr env e p db)
      | Refresh t \<Rightarrow> snd (refresh_access_token cr env t db)
      | Logout _ \<Rightarrow> snd (logout me db)
      | ForgotPassword e \<Rightarrow> snd (forgot_password cr env origin e db)
      | ResetPassword t p \<Rightarrow> snd (reset_password cr env t p db)
      | CreateKey _ k \<Rightarrow> snd (create_api_key cr env k me db)
      | RotateKey _ i \<Rightarrow> snd (rotate_api_key cr env i me db)
      | ToggleKey _ i \<Rightarrow> snd (toggle_api_key i me db)
      | RevokeKey _ i \<Rightarrow> snd (revoke_api_key i me db)
      | CreateUser _ b \<Rightarrow> snd (create_user cr env b me db)
      | UpdateUser _ i b \<Rightarrow> snd (update_user cr env i b me db)
      | AdminReset _ i p \<Rightarrow> snd (admin_reset_password cr env i p me db)
      | UpdatePermissions _ i ps \<Rightarrow> snd (update_user_permissions i ps me db))"

definition bootstrap :: "crypto \<Rightarrow> auth_env \<Rightarrow> access_db \<Rightarrow> access_db" where
  "bootstrap cr env db =
     (if user_by_email db ''admin@nexus.local'' \<noteq> None then db
      else db\<lparr>ac_users := insert_row \<lparr>us_id = au_new_id env, us_email = ''admin@nexus.local'',
        us_password_hash = get_password_hash cr env ''admin_password'', us_refresh_token_hash = None,
        us_role = ''admin'', us_is_active = True, us_module_permissions = None, us_created_at = au_now env\<rparr>
        (ac_users db)\<rparr>)"

definition empty_access :: "agent_row list \<Rightarrow> access_db" where
  "empty_access agents = \<lparr>ac_users = [], ac_keys = [], ac_agents = agents, ac_audit = [], ac_rate = (\<lambda>_. None)\<rparr>"

text \<open>Ids come from the database's sequences: a new one is not in use.\<close>

definition fresh_id :: "auth_env \<Rightarrow> access_db \<Rightarrow> bool" where
  "fresh_id env db \<longleftrightarrow> au_new_id env \<notin> us_id ` set (ac_users db) \<and> au_new_id env \<notin> ky_id ` set (ac_keys db)"

inductive auth_reach :: "crypto \<Rightarrow> access_db \<Rightarrow> bool" for cr where
  auth_start: "auth_reach cr (empty_access agents)"
| auth_bootstrap: "auth_reach cr db \<Longrightarrow> fresh_id env db \<Longrightarrow> auth_reach cr (bootstrap cr env db)"
| auth_request: "auth_reach cr db \<Longrightarrow> fresh_id env db \<Longrightarrow> auth_reach cr (auth_handle cr env origin q db)"
| auth_restart: "auth_reach cr db \<Longrightarrow> auth_reach cr (db\<lparr>ac_rate := (\<lambda>_. None)\<rparr>)"

end
