(* ===== verification/AuthReach.thy ===== *)
theory AuthReach
  imports AuthApi
begin

text \<open>
  The accounts over time: what every request keeps of the tables \<open>users\<close> and \<open>api_keys\<close>, who can
  change an account, and when a session ends.
\<close>

definition us_profile :: "user_row \<Rightarrow> int \<times> string \<times> string \<times> bool \<times> (string \<times> string) list option" where
  "us_profile u = (us_id u, us_email u, us_role u, us_is_active u, us_module_permissions u)"

definition permissions_ok :: "(string \<times> string) list \<Rightarrow> bool" where
  "permissions_ok ps \<longleftrightarrow> (\<forall>(m, l) \<in> set ps. m \<in> set ALL_MODULES \<and> dhas l ACCESS_LEVELS)"

definition user_ok :: "user_row \<Rightarrow> bool" where
  "user_ok u \<longleftrightarrow> us_role u \<in> set ROLES \<and>
     (case us_module_permissions u of None \<Rightarrow> True | Some ps \<Rightarrow> permissions_ok ps)"

definition users_ok :: "user_row list \<Rightarrow> bool" where
  "users_ok us \<longleftrightarrow> distinct (List.map us_id us) \<and> distinct (List.map us_email us) \<and> (\<forall>u \<in> set us. user_ok u)"

definition keys_ok :: "api_key_row list \<Rightarrow> bool" where
  "keys_ok ks \<longleftrightarrow> distinct (List.map ky_id ks) \<and> (\<forall>k \<in> set ks. ky_owner_type k \<in> {''user'', ''agent''})"

definition access_ok :: "access_db \<Rightarrow> bool" where
  "access_ok db \<longleftrightarrow> users_ok (ac_users db) \<and> keys_ok (ac_keys db)"

lemma users_ok_profiles:
  assumes "List.map us_profile us' = List.map us_profile us"
  shows "users_ok us' = users_ok us"
proof -
  let ?ok = "\<lambda>p. (case p of (_, _, r, _, mp) \<Rightarrow> r \<in> set ROLES \<and> (case mp of None \<Rightarrow> True | Some ps \<Rightarrow> permissions_ok ps))"
  have eq: "users_ok us \<longleftrightarrow> distinct (List.map fst (List.map us_profile us)) \<and>
      distinct (List.map (fst \<circ> snd) (List.map us_profile us)) \<and> list_all ?ok (List.map us_profile us)" for us
    by (simp add: users_ok_def user_ok_def us_profile_def comp_def list_all_iff cong: option.case_cong)
  show ?thesis by (simp only: eq assms)
qed

section \<open>What each handler does to the tables\<close>

lemma commit_or_rule:
  assumes "P db" and "\<And>x db'. r = Inr (x, db') \<Longrightarrow> P db'"
  shows "P (snd (commit_or db r))"
  using assms by (auto simp: commit_or_def split: sum.splits)

lemma audited_frame [dest]:
  "audited a t who rid m db = Inr db' \<Longrightarrow>
     ac_users db' = ac_users db \<and> ac_keys db' = ac_keys db \<and> ac_rate db' = ac_rate db"
  by (auto simp: audited_def bind_res_Inr)

lemma audited_str_int:
  "audited a t who (Some (str_int i)) m db = Inr (db\<lparr>ac_audit := insert_row
     \<lparr>ae_actor_type = Some ''user'', ae_actor_id = Some (us_id who), ae_action = a, ae_target_type = t,
      ae_target_id = i, ae_meta = m\<rparr> (ac_audit db)\<rparr>)"
  using str_int_head[of i] by (auto simp: audited_def log_audit_event_def Let_def)

lemma check_rate_limit_frame:
  "ac_users (snd (check_rate_limit env db)) = ac_users db \<and> ac_keys (snd (check_rate_limit env db)) = ac_keys db"
  by (simp add: check_rate_limit_def Let_def)

lemma rate_limited_rule:
  assumes "P (snd (check_rate_limit env db))"
    and "\<And>db'. ac_users db' = ac_users db \<Longrightarrow> ac_keys db' = ac_keys db \<Longrightarrow> P db' \<Longrightarrow> P (snd (body db'))"
  shows "P (snd (rate_limited env db body))"
  using assms check_rate_limit_frame[of env db] unfolding rate_limited_def
  by (cases "check_rate_limit env db") (auto split: sum.splits)

lemma set_user_frame [simp]:
  "ac_keys (set_user i f db) = ac_keys db" "ac_users (set_user i f db) = table_update us_id i f (ac_users db)"
  "ac_rate (set_user i f db) = ac_rate db"
  by (simp_all add: set_user_def)

lemma set_key_frame [simp]:
  "ac_users (set_key i f db) = ac_users db" "ac_keys (set_key i f db) = table_update ky_id i f (ac_keys db)"
  by (simp_all add: set_key_def)

lemma profile_table_update:
  "(\<And>u. us_profile (f u) = us_profile u) \<Longrightarrow>
     List.map us_profile (table_update us_id i f us) = List.map us_profile us"
  unfolding table_update_def by (rule map_update_rows)

definition same_accounts :: "access_db \<Rightarrow> access_db \<Rightarrow> bool" where
  "same_accounts db db' \<longleftrightarrow> List.map us_profile (ac_users db') = List.map us_profile (ac_users db)"

lemma same_accounts_refl [simp]: "same_accounts db db"
  by (simp add: same_accounts_def)

lemma same_accounts_cong: "ac_users db' = ac_users db'' \<Longrightarrow> same_accounts db db' = same_accounts db db''"
  by (simp add: same_accounts_def)

lemma same_accounts_set_user:
  "same_accounts db db' \<Longrightarrow> (\<And>u. us_profile (f u) = us_profile u) \<Longrightarrow> same_accounts db (set_user i f db')"
  by (simp add: same_accounts_def profile_table_update)

lemma rate_limited_same:
  assumes "\<And>db'. same_accounts db db' \<Longrightarrow> same_accounts db (snd (body db'))"
  shows "same_accounts db (snd (rate_limited env db body))"
  using check_rate_limit_frame[of env db] assms unfolding rate_limited_def
  by (cases "check_rate_limit env db") (auto simp: same_accounts_def split: sum.splits)

lemma commit_or_same:
  assumes "same_accounts db0 db" and "\<And>x db'. r = Inr (x, db') \<Longrightarrow> same_accounts db0 db'"
  shows "same_accounts db0 (snd (commit_or db r))"
  using assms by (rule commit_or_rule)

lemma audited_same:
  "audited a t who rid m (set_user i f db0) = Inr db' \<Longrightarrow> same_accounts db db0 \<Longrightarrow>
     (\<And>u. us_profile (f u) = us_profile u) \<Longrightarrow> same_accounts db db'"
  by (metis audited_frame same_accounts_cong same_accounts_set_user)

lemma us_profile_simps [simp]:
  "us_profile (us_refresh_token_hash_update g u) = us_profile u"
  "us_profile (us_password_hash_update h u) = us_profile u"
  by (simp_all add: us_profile_def)

lemma failed_login_same: "same_accounts db db' \<Longrightarrow> same_accounts db (failed_login env e db')"
  by (simp add: failed_login_def same_accounts_def)

lemma login_same: "same_accounts db (snd (login_for_access_token cr env e p db))"
  unfolding login_for_access_token_def Let_def store_refresh_def
  by (rule rate_limited_same)
    (auto simp: bind_res_Inr failed_login_same split: option.splits intro!: commit_or_same elim!: audited_same)

lemma refresh_same: "same_accounts db (snd (refresh_access_token cr env t db))"
  unfolding refresh_access_token_def Let_def store_refresh_def
  by (rule rate_limited_same)
    (auto simp: bind_res_Inr split: option.splits sum.splits intro!: commit_or_same elim!: audited_same)

lemma logout_same: "same_accounts db (snd (logout me db))"
  by (auto simp: logout_def bind_res_Inr split: option.splits intro!: commit_or_same elim!: audited_same)

lemma forgot_same: "same_accounts db (snd (forgot_password cr env origin e db))"
  using check_rate_limit_frame[of env db]
  by (auto simp: forgot_password_def same_accounts_def split: prod.splits sum.splits option.splits)

lemma reset_same: "same_accounts db (snd (reset_password cr env t p db))"
  unfolding reset_password_def
  by (rule rate_limited_same) (auto split: sum.splits option.splits intro!: same_accounts_set_user)

lemma audited_keys_same:
  "audited a t who rid m db0 = Inr db' \<Longrightarrow> ac_users db0 = ac_users db \<Longrightarrow> same_accounts db db'"
  using audited_frame by (metis same_accounts_def)

lemma create_key_same: "same_accounts db (snd (create_api_key cr env k me db))"
  by (auto simp: create_api_key_def Let_def split: sum.splits elim!: audited_keys_same)

lemma rotate_key_same: "same_accounts db (snd (rotate_api_key cr env i me db))"
  unfolding rotate_api_key_def by (rule commit_or_same) (auto simp: bind_res_Inr elim!: audited_keys_same)

lemma toggle_key_same: "same_accounts db (snd (toggle_api_key i me db))"
  unfolding toggle_api_key_def by (rule commit_or_same) (auto simp: bind_res_Inr elim!: audited_keys_same)

lemma revoke_key_same: "same_accounts db (snd (revoke_api_key i me db))"
  unfolding revoke_api_key_def by (rule commit_or_same) (auto simp: bind_res_Inr elim!: audited_keys_same)

lemmas key_handlers_same = create_key_same rotate_key_same toggle_key_same revoke_key_same

lemma admin_reset_same: "same_accounts db (snd (admin_reset_password cr env i p me db))"
proof -
  have p: "us_profile (u\<lparr>us_password_hash := h, us_refresh_token_hash := r\<rparr>) = us_profile u" for u h r
    by (simp add: us_profile_def)
  show ?thesis unfolding admin_reset_password_def
    by (rule commit_or_same) (auto simp: bind_res_Inr p elim!: audited_same)
qed

lemmas same_accounts_handlers = login_same refresh_same logout_same forgot_same reset_same key_handlers_same
  admin_reset_same

lemma admin_handlers_guard:
  assumes "\<nexists>a. me = Some a \<and> us_role a = ''admin''"
  shows "create_user cr env b me db = (fst (create_user cr env b me db), db)"
    "update_user cr env i ub me db = (fst (update_user cr env i ub me db), db)"
    "update_user_permissions i ps me db = (fst (update_user_permissions i ps me db), db)"
proof -
  obtain e where "users_require_admin me = Inl e"
    using assms by (cases me) (auto simp: users_require_admin_def RequireRole_def)
  then show "create_user cr env b me db = (fst (create_user cr env b me db), db)"
    "update_user cr env i ub me db = (fst (update_user cr env i ub me db), db)"
    "update_user_permissions i ps me db = (fst (update_user_permissions i ps me db), db)"
    by (simp_all add: create_user_def update_user_def update_user_permissions_def commit_or_def)
qed

text \<open>C4: The list of accounts with their ids, addresses, roles, activity and module permissions is changed only by a
  request whose bearer token resolves to a user with the role admin: no login, refresh, password reset or API key
  operation, by anyone, and no request of an operator, a reader or a stranger touches it.\<close>

theorem accounts_changed_by_admin:
  assumes "\<not> same_accounts db (auth_handle cr env origin q db)"
  shows "\<exists>a. get_current_user cr env (bearer q) db = Some a \<and> us_role a = ''admin''"
proof (rule ccontr)
  assume n: "\<not> ?thesis"
  obtain me where me: "get_current_user cr env (bearer q) db = me" by simp
  note g = admin_handlers_guard[OF n[unfolded me]]
  have s: "same_accounts db (snd x)" if "x = (r, db)" for x :: "'x \<times> access_db" and r using that by simp
  have "same_accounts db (auth_handle cr env origin q db)"
    unfolding auth_handle_def Let_def me
    by (cases q) (simp_all add: same_accounts_handlers s[OF g(1)] s[OF g(2)] s[OF g(3)])
  then show False using assms by simp
qed

section \<open>The invariant\<close>

lemma ids_table_update:
  "us_id u' = i \<Longrightarrow> List.map us_id (table_update us_id i (\<lambda>_. u') us) = List.map us_id us"
  by (induction us) (auto simp: table_update_def update_rows_def)

lemma emails_table_update:
  assumes "distinct (List.map us_id us)" "distinct (List.map us_email us)"
    and "\<forall>v \<in> set us. us_email v = us_email u' \<longrightarrow> us_id v = i"
  shows "distinct (List.map us_email (table_update us_id i (\<lambda>_. u') us))"
  using assms
proof (induction us)
  case (Cons v us)
  have ih: "distinct (List.map us_email (table_update us_id i (\<lambda>_. u') us))" using Cons by simp
  have dv: "us_email v \<notin> us_email ` set us" "us_id v \<notin> us_id ` set us" using Cons.prems by simp_all
  have s: "set (table_update us_id i (\<lambda>_. u') us) = (\<lambda>r. if us_id r = i then u' else r) ` set us"
    by (simp add: table_update_def update_rows_def)
  show ?case
  proof (cases "us_id v = i")
    case True
    then have "\<forall>r \<in> set us. us_id r \<noteq> i" using dv(2) by (metis image_eqI)
    then have "table_update us_id i (\<lambda>_. u') us = us" by (auto simp: table_update_def intro: update_rows_none)
    moreover have "us_email u' \<notin> us_email ` set us"
      using Cons.prems(3) \<open>\<forall>r \<in> set us. us_id r \<noteq> i\<close> by auto
    moreover have "table_update us_id i (\<lambda>_. u') (v # us) = u' # table_update us_id i (\<lambda>_. u') us"
      using True by (simp add: table_update_def update_rows_def)
    ultimately show ?thesis using Cons.prems(2) by simp
  next
    case False
    then have "us_email v \<noteq> us_email u'" using Cons.prems(3) by auto
    then have "us_email v \<notin> us_email ` set (table_update us_id i (\<lambda>_. u') us)" using dv(1) s by auto
    moreover have "table_update us_id i (\<lambda>_. u') (v # us) = v # table_update us_id i (\<lambda>_. u') us"
      using False by (simp add: table_update_def update_rows_def)
    ultimately show ?thesis using ih by simp
  qed
qed (simp add: table_update_def update_rows_def)

lemma user_ok_cong:
  "us_role v = us_role u \<Longrightarrow> us_module_permissions v = us_module_permissions u \<Longrightarrow> user_ok v = user_ok u"
  by (simp add: user_ok_def)

lemma updated_user_ok:
  assumes "updated_user cr env body db u = Inr (u', ch)" and "user_ok u"
  shows "us_id u' = us_id u \<and> user_ok u'"
proof -
  have e: "us_id (fst s') = us_id (fst s) \<and> (user_ok (fst s) \<longrightarrow> user_ok (fst s'))"
    if "update_email body db s = Inr s'" for s s'
    using that by (auto simp: update_email_def user_ok_def split: option.splits if_splits)
  have r: "us_id (fst s') = us_id (fst s) \<and> (user_ok (fst s) \<longrightarrow> user_ok (fst s'))"
    if "update_role body s = Inr s'" for s s'
    using that by (auto simp: update_role_def user_ok_def split: option.splits if_splits)
  have a: "us_id (fst s') = us_id (fst s) \<and> (user_ok (fst s) \<longrightarrow> user_ok (fst s'))"
    if "update_active body s = Inr s'" for s s'
    using that by (auto simp: update_active_def user_ok_def split: option.splits if_splits)
  have p: "us_id (fst s') = us_id (fst s) \<and> (user_ok (fst s) \<longrightarrow> user_ok (fst s'))"
    if "update_password cr env body s = Inr s'" for s s'
    using that by (auto simp: update_password_def user_ok_def split: option.splits if_splits)
  obtain s1 s2 s3 where "update_email body db (u, []) = Inr s1" "update_role body s1 = Inr s2"
    "update_active body s2 = Inr s3" "update_password cr env body s3 = Inr (u', ch)"
    using assms(1) by (auto simp: updated_user_def bind_res_Inr)
  then show ?thesis using e[of "(u, [])" s1] r[of s1 s2] a[of s2 s3] p[of s3 "(u', ch)"] assms(2) by simp
qed

lemma updated_user_email:
  assumes "updated_user cr env body db u = Inr (u', ch)"
  shows "us_email u' = us_email u \<or> (\<forall>v \<in> set (ac_users db). us_email v = us_email u' \<longrightarrow> us_id v = us_id u)"
proof -
  obtain s1 s2 s3 where s: "update_email body db (u, []) = Inr s1" "update_role body s1 = Inr s2"
    "update_active body s2 = Inr s3" "update_password cr env body s3 = Inr (u', ch)"
    using assms by (auto simp: updated_user_def bind_res_Inr)
  have "us_email u' = us_email (fst s3)" using s(4) by (auto simp: update_password_def split: option.splits if_splits)
  also have "\<dots> = us_email (fst s2)" using s(3) by (auto simp: update_active_def split: option.splits)
  also have "\<dots> = us_email (fst s1)" using s(2) by (auto simp: update_role_def split: option.splits if_splits)
  finally show ?thesis using s(1)
    by (auto simp: update_email_def select_first_None split: option.splits if_splits)
qed

lemma user_by_id_in: "user_by_id db i = Some u \<Longrightarrow> u \<in> set (ac_users db) \<and> us_id u = i"
  unfolding user_by_id_def by (auto dest: select_first_Some)

lemma distinct_map_eq: "distinct (List.map f xs) \<Longrightarrow> x \<in> set xs \<Longrightarrow> y \<in> set xs \<Longrightarrow> f x = f y \<Longrightarrow> x = y"
  by (simp add: distinct_map inj_on_def)

lemma users_ok_replace:
  assumes "users_ok (ac_users db)" and "user_by_id db i = Some u" and "updated_user cr env body db u = Inr (u', ch)"
  shows "users_ok (table_update us_id i (\<lambda>_. u') (ac_users db))"
proof -
  note u = user_by_id_in[OF assms(2)]
  have ok: "us_id u' = i" "user_ok u'" using updated_user_ok[OF assms(3)] assms(1) u by (auto simp: users_ok_def)
  have "\<forall>v \<in> set (ac_users db). us_email v = us_email u' \<longrightarrow> us_id v = i"
    using updated_user_email[OF assms(3)]
  proof
    assume e: "us_email u' = us_email u"
    show ?thesis
    proof (intro ballI impI)
      fix v assume v: "v \<in> set (ac_users db)" "us_email v = us_email u'"
      have "distinct (List.map us_email (ac_users db))" using assms(1) by (simp add: users_ok_def)
      from distinct_map_eq[OF this v(1)] u v(2) e show "us_id v = i" by auto
    qed
  qed (use u in simp)
  from emails_table_update[OF _ _ this]
  have "distinct (List.map us_email (table_update us_id i (\<lambda>_. u') (ac_users db)))"
    using assms(1) by (simp add: users_ok_def)
  moreover have "\<forall>v \<in> set (table_update us_id i (\<lambda>_. u') (ac_users db)). user_ok v"
    using assms(1) ok(2) by (auto simp: users_ok_def table_update_def set_update_rows)
  ultimately show ?thesis using assms(1) by (simp add: users_ok_def ids_table_update[OF ok(1)])
qed

lemma users_ok_permissions:
  assumes "users_ok us" and "permissions_ok ps"
  shows "users_ok (table_update us_id i (us_module_permissions_update (\<lambda>_. Some ps)) us)"
proof -
  have "\<forall>v \<in> set (table_update us_id i (us_module_permissions_update (\<lambda>_. Some ps)) us). user_ok v"
    using assms by (auto simp: users_ok_def table_update_def set_update_rows user_ok_def)
  then show ?thesis using assms(1) by (simp add: users_ok_def table_update_def map_update_rows)
qed

lemma users_ok_insert:
  "users_ok us \<Longrightarrow> user_ok u \<Longrightarrow> us_id u \<notin> us_id ` set us \<Longrightarrow> us_email u \<notin> us_email ` set us \<Longrightarrow>
     users_ok (insert_row u us)"
  by (simp add: users_ok_def insert_row_def)

lemma invalid_permission_None: "invalid_permission ps = None \<Longrightarrow> permissions_ok ps"
  by (induction ps rule: invalid_permission.induct) (auto simp: permissions_ok_def split: if_splits)

lemma user_by_email_None: "user_by_email db e = None \<Longrightarrow> e \<notin> us_email ` set (ac_users db)"
  by (auto simp: user_by_email_def select_first_None)

lemma create_user_ok:
  assumes "users_ok (ac_users db)" and "fresh_id env db"
  shows "users_ok (ac_users (snd (create_user cr env b me db)))"
  unfolding create_user_def
proof (rule commit_or_rule[where P = "\<lambda>d. users_ok (ac_users d)"], rule assms(1))
  fix x db'
  assume "bind_res (users_require_admin me) (\<lambda>admin.
      if user_by_email db (uc_email b) \<noteq> None then Inl (HTTPException 409 ''Email already registered'')
      else if uc_role b \<notin> set ROLES then Inl bad_role
      else bind_res (audited ''user_create'' ''user'' admin None
              [(''email'', JStr (uc_email b)), (''role'', JStr (uc_role b))]
              (db\<lparr>ac_users := insert_row (new_user cr env b) (ac_users db)\<rparr>)) (\<lambda>db'.
           Inr (from_user (new_user cr env b), db'))) = Inr (x, db')"
  then have "ac_users db' = insert_row (new_user cr env b) (ac_users db)" "user_by_email db (uc_email b) = None"
    "uc_role b \<in> set ROLES"
    by (auto simp: bind_res_Inr split: if_splits dest!: audited_frame)
  then show "users_ok (ac_users db')"
    using users_ok_insert[OF assms(1)] user_by_email_None assms(2)
    by (simp add: new_user_def user_ok_def fresh_id_def)
qed

lemma update_user_ok:
  assumes "users_ok (ac_users db)"
  shows "users_ok (ac_users (snd (update_user cr env i b me db)))"
  unfolding update_user_def
  by (rule commit_or_rule[where P = "\<lambda>d. users_ok (ac_users d)"], rule assms)
    (auto simp: bind_res_Inr require_user_def of_opt_def users_ok_replace[OF assms] assms
       split: if_splits option.splits dest!: audited_frame)

lemma update_permissions_ok:
  assumes "users_ok (ac_users db)"
  shows "users_ok (ac_users (snd (update_user_permissions i ps me db)))"
  unfolding update_user_permissions_def
  by (rule commit_or_rule[where P = "\<lambda>d. users_ok (ac_users d)"], rule assms)
    (auto simp: bind_res_Inr users_ok_permissions[OF assms] dest: invalid_permission_None
       split: option.splits dest!: audited_frame)

lemma same_accounts_ok: "same_accounts db db' \<Longrightarrow> users_ok (ac_users db') = users_ok (ac_users db)"
  unfolding same_accounts_def by (rule users_ok_profiles)

lemma auth_handle_users_ok:
  assumes "users_ok (ac_users db)" and "fresh_id env db"
  shows "users_ok (ac_users (auth_handle cr env origin q db))"
  using assms same_accounts_handlers[THEN same_accounts_ok]
  unfolding auth_handle_def Let_def
  by (cases q) (simp_all add: create_user_ok update_user_ok update_permissions_ok)

lemma commit_or_keys:
  assumes "\<And>x db'. r = Inr (x, db') \<Longrightarrow> ac_keys db' = ac_keys db"
  shows "ac_keys (snd (commit_or db r)) = ac_keys db"
  using assms by (auto simp: commit_or_def split: sum.splits)

lemma audited_keys: "audited a t who rid m db0 = Inr db' \<Longrightarrow> ac_keys db' = ac_keys db0"
  by (auto dest: audited_frame)

lemma rate_limited_keys:
  assumes "\<And>db'. ac_keys (snd (body db')) = ac_keys db'"
  shows "ac_keys (snd (rate_limited env db body)) = ac_keys db"
  using check_rate_limit_frame[of env db] assms unfolding rate_limited_def
  by (cases "check_rate_limit env db") (auto split: sum.splits)

lemma login_keys: "ac_keys (snd (login_for_access_token cr env e p db)) = ac_keys db"
  unfolding login_for_access_token_def Let_def store_refresh_def
  by (rule rate_limited_keys)
    (auto simp: bind_res_Inr failed_login_def audited_keys split: option.splits intro!: commit_or_keys)

lemma refresh_keys: "ac_keys (snd (refresh_access_token cr env t db)) = ac_keys db"
  unfolding refresh_access_token_def Let_def store_refresh_def
  by (rule rate_limited_keys)
    (auto simp: bind_res_Inr audited_keys split: sum.splits option.splits intro!: commit_or_keys)

lemma account_handlers_keys:
  "ac_keys (snd (logout me db)) = ac_keys db" "ac_keys (snd (forgot_password cr env origin e db)) = ac_keys db"
  "ac_keys (snd (create_user cr env b me db)) = ac_keys db" "ac_keys (snd (update_user cr env i ub me db)) = ac_keys db"
  "ac_keys (snd (admin_reset_password cr env i p me db)) = ac_keys db"
  "ac_keys (snd (update_user_permissions i ps me db)) = ac_keys db"
  using check_rate_limit_frame[of env db]
  by (auto simp: logout_def forgot_password_def create_user_def update_user_def admin_reset_password_def
      update_user_permissions_def bind_res_Inr audited_keys split: option.splits prod.splits sum.splits if_splits
      intro!: commit_or_keys)

lemma reset_keys: "ac_keys (snd (reset_password cr env t p db)) = ac_keys db"
  unfolding reset_password_def by (rule rate_limited_keys) (auto split: sum.splits option.splits)

lemma keys_ok_insert:
  "keys_ok ks \<Longrightarrow> ky_id k \<notin> ky_id ` set ks \<Longrightarrow> ky_owner_type k \<in> {''user'', ''agent''} \<Longrightarrow> keys_ok (insert_row k ks)"
  by (simp add: keys_ok_def insert_row_def)

lemma keys_ok_update:
  assumes "keys_ok ks" "\<And>k. ky_id (f k) = ky_id k" "\<And>k. ky_owner_type (f k) = ky_owner_type k"
  shows "keys_ok (table_update ky_id i f ks)"
proof -
  have "\<forall>k \<in> set (table_update ky_id i f ks). ky_owner_type k \<in> {''user'', ''agent''}"
  proof
    fix k assume "k \<in> set (table_update ky_id i f ks)"
    then obtain k0 where "k0 \<in> set ks" "k = (if ky_id k0 = i then f k0 else k0)"
      by (auto simp: table_update_def set_update_rows)
    then show "ky_owner_type k \<in> {''user'', ''agent''}"
      using assms(1) assms(3)[of k0] by (simp add: keys_ok_def)
  qed
  then show ?thesis using assms(1,2) by (simp add: keys_ok_def table_update_def map_update_rows)
qed

lemma keys_ok_delete: "keys_ok ks \<Longrightarrow> keys_ok (delete_rows p ks)"
  by (auto simp: keys_ok_def delete_rows_def distinct_map_filter)

lemma create_key_ok:
  assumes "keys_ok (ac_keys db)" and "fresh_id env db"
  shows "keys_ok (ac_keys (snd (create_api_key cr env k me db)))"
proof -
  have ins: "keys_ok (insert_row r (ac_keys db))"
    if "ky_id r = au_new_id env" "ky_owner_type r = kc_owner_type k" "valid_key_create k" for r
    using keys_ok_insert[OF assms(1), of r] assms(2) that by (simp add: fresh_id_def valid_key_create_def)
  show ?thesis
    using assms(1) ins by (auto simp: create_api_key_def Let_def split: sum.splits dest!: audited_keys)
qed

lemma rotate_key_ok: "keys_ok (ac_keys db) \<Longrightarrow> keys_ok (ac_keys (snd (rotate_api_key cr env i me db)))"
  unfolding rotate_api_key_def
  by (rule commit_or_rule[where P = "\<lambda>d. keys_ok (ac_keys d)"])
    (auto simp: bind_res_Inr keys_ok_update dest!: audited_keys)

lemma toggle_key_ok: "keys_ok (ac_keys db) \<Longrightarrow> keys_ok (ac_keys (snd (toggle_api_key i me db)))"
  unfolding toggle_api_key_def
  by (rule commit_or_rule[where P = "\<lambda>d. keys_ok (ac_keys d)"])
    (auto simp: bind_res_Inr keys_ok_update dest!: audited_keys)

lemma revoke_key_ok: "keys_ok (ac_keys db) \<Longrightarrow> keys_ok (ac_keys (snd (revoke_api_key i me db)))"
  unfolding revoke_api_key_def
  by (rule commit_or_rule[where P = "\<lambda>d. keys_ok (ac_keys d)"])
    (auto simp: bind_res_Inr keys_ok_delete dest!: audited_keys)

lemma auth_handle_keys_ok:
  assumes "keys_ok (ac_keys db)" and "fresh_id env db"
  shows "keys_ok (ac_keys (auth_handle cr env origin q db))"
  using assms unfolding auth_handle_def Let_def
  by (cases q) (simp_all add: login_keys refresh_keys reset_keys account_handlers_keys create_key_ok rotate_key_ok
      toggle_key_ok revoke_key_ok)

lemma bootstrap_ok: "access_ok db \<Longrightarrow> fresh_id env db \<Longrightarrow> access_ok (bootstrap cr env db)"
  by (auto simp: access_ok_def bootstrap_def user_ok_def ROLES_def fresh_id_def intro!: users_ok_insert
      dest: user_by_email_None)

text \<open>C13: In every state the account service reaches from an empty database, through any sequence of bootstraps, restarts
  and requests with any tokens, two accounts never share an id or an address, every role is one of the three known,
  every stored permission names a known module and a known level, and every API key belongs to a user or an agent.\<close>

theorem reachable_access_ok: "auth_reach cr db \<Longrightarrow> access_ok db"
proof (induction rule: auth_reach.induct)
  case (auth_start agents)
  show ?case by (simp add: access_ok_def empty_access_def users_ok_def keys_ok_def)
next
  case (auth_bootstrap db env)
  then show ?case by (simp add: bootstrap_ok)
next
  case (auth_request db env origin q)
  then show ?case using auth_handle_users_ok auth_handle_keys_ok by (simp add: access_ok_def)
next
  case (auth_restart db)
  then show ?case by (simp add: access_ok_def)
qed

section \<open>Sessions\<close>

text \<open>What the code relies on: a hash verifies exactly the text it was made of, is never empty, and a token
  decodes to what was signed until it expires.\<close>

definition sound_crypto :: "crypto \<Rightarrow> bool" where
  "sound_crypto cr \<longleftrightarrow> (\<forall>salt p q. cr_verify cr p (cr_hash cr salt q) \<longleftrightarrow> p = q) \<and>
     (\<forall>salt p. cr_hash cr salt p \<noteq> []) \<and>
     (\<forall>now claims. wf_json (JObj claims) \<longrightarrow> cr_decode cr now (cr_encode cr claims) =
        (case dget claims ''exp'' JNull of JInt e \<Rightarrow> if e < now then None else Some claims | _ \<Rightarrow> Some claims))"

lemma user_by_email_set_user:
  "(\<And>u. us_email (f u) = us_email u) \<Longrightarrow>
     user_by_email (set_user i f db) e = map_option (\<lambda>u. if us_id u = i then f u else u) (user_by_email db e)"
  unfolding user_by_email_def set_user_def table_update_def by (simp add: select_first_update)

lemma user_by_email_cong: "ac_users db = ac_users db' \<Longrightarrow> user_by_email db e = user_by_email db' e"
  by (simp add: user_by_email_def)

lemma audited_user_by_email: "audited a t who rid m db0 = Inr db' \<Longrightarrow> user_by_email db' e = user_by_email db0 e"
  by (auto dest!: audited_frame simp: user_by_email_def)

lemma refresh_cases:
  assumes "refresh_access_token cr env t db = (Inr k, db1)"
  obtains email u where "refresh_subject cr env t = Inr email" "user_by_email db email = Some u"
    "refresh_user cr t (Some u) = Some u" "tk_refresh k = create_refresh_token cr env [(''sub'', JStr (us_email u))] None"
    "user_by_email db1 email = Some (u\<lparr>us_refresh_token_hash := Some (get_password_hash cr env (tk_refresh k))\<rparr>)"
proof -
  obtain r db0 where c: "check_rate_limit env db = (r, db0)" by fastforce
  then have same: "user_by_email db0 e = user_by_email db e" for e
    using check_rate_limit_frame[of env db] user_by_email_cong[of db0 db] by simp
  from assms c obtain email u where e: "refresh_subject cr env t = Inr email"
    and u: "refresh_user cr t (user_by_email db0 email) = Some u"
    and b: "commit_or db0 (bind_res
                (audited ''token_refresh'' ''user'' u (Some (str_int (us_id u))) []
                   (store_refresh cr env u (create_refresh_token cr env [(''sub'', JStr (us_email u))] None) db0))
                (\<lambda>db'. Inr (\<lparr>tk_access = create_access_token cr env (token_data u) None,
                   tk_refresh = create_refresh_token cr env [(''sub'', JStr (us_email u))] None\<rparr>, db'))) = (Inr k, db1)"
    by (auto simp: refresh_access_token_def rate_limited_def Let_def split: sum.splits option.splits)
  from u have ue: "user_by_email db0 email = Some u" and ru: "refresh_user cr t (Some u) = Some u"
    by (auto simp: refresh_user_def split: option.splits if_splits)
  from b obtain k': "tk_refresh k = create_refresh_token cr env [(''sub'', JStr (us_email u))] None"
    and d: "audited ''token_refresh'' ''user'' u (Some (str_int (us_id u))) [] (store_refresh cr env u (tk_refresh k) db0) = Inr db1"
    by (auto simp: commit_or_def bind_res_def split: sum.splits)
  have "user_by_email db1 email = Some (u\<lparr>us_refresh_token_hash := Some (get_password_hash cr env (tk_refresh k))\<rparr>)"
    using audited_user_by_email[OF d] ue by (simp add: store_refresh_def user_by_email_set_user)
  then show thesis using that[OF e _ ru k'] ue same by simp
qed


text \<open>Within one second the rotation returns the token it was given.\<close>

lemma refresh_same_second:
  "seconds (au_now env) = seconds (au_now env') \<Longrightarrow>
     create_refresh_token cr env d None = create_refresh_token cr env' d None"
  by (simp add: create_refresh_token_def)

definition session_open :: "crypto \<Rightarrow> string \<Rightarrow> string \<Rightarrow> access_db \<Rightarrow> bool" where
  "session_open cr email t db \<longleftrightarrow> refresh_user cr t (user_by_email db email) \<noteq> None"

lemma session_closed_refused:
  assumes "\<not> session_open cr email t db" and "refresh_subject cr env t = Inr email"
  shows "isl (fst (refresh_access_token cr env t db))"
proof -
  obtain r db2 where c: "check_rate_limit env db = (r, db2)" by fastforce
  then have "user_by_email db2 email = user_by_email db email"
    using check_rate_limit_frame[of env db] user_by_email_cong[of db2 db] by simp
  then show ?thesis using assms c
    by (auto simp: session_open_def refresh_access_token_def rate_limited_def split: sum.splits)
qed

text \<open>A password set by an administrator ends the session of the account: no refresh token for its address is
  accepted any more.  A password set through the mailed link does not: every session that was open stays open.\<close>

theorem password_change_and_sessions:
  assumes "users_ok (ac_users db)" and "user_by_email db email = Some u"
  shows "(admin_reset_password cr env (us_id u) p me db = (Inr i, db1) \<longrightarrow> \<not> session_open cr email t db1) \<and>
    (reset_password cr env link p db = (Inr (), db1) \<longrightarrow> session_open cr email t db1 = session_open cr email t db)"
proof (intro conjI impI)
  assume "admin_reset_password cr env (us_id u) p me db = (Inr i, db1)"
  then obtain admin where "audited ''user_password_reset'' ''user'' admin (Some (str_int (us_id u))) []
      (set_user (us_id u) (\<lambda>u. u\<lparr>us_password_hash := get_password_hash cr env p, us_refresh_token_hash := None\<rparr>) db) = Inr db1"
    by (auto simp: admin_reset_password_def commit_or_def bind_res_def split: sum.splits)
  from audited_user_by_email[OF this] show "\<not> session_open cr email t db1"
    using assms(2) by (simp add: session_open_def refresh_user_def user_by_email_set_user)
next
  assume r: "reset_password cr env link p db = (Inr (), db1)"
  obtain r0 db0 where c: "check_rate_limit env db = (r0, db0)" by fastforce
  then have s: "user_by_email db0 email = user_by_email db email"
    using check_rate_limit_frame[of env db] user_by_email_cong[of db0 db] by simp
  from r c obtain j h where "db1 = set_user j (us_password_hash_update (\<lambda>_. h)) db0"
    by (auto simp: reset_password_def rate_limited_def split: sum.splits option.splits)
  then show "session_open cr email t db1 = session_open cr email t db" using s assms(2)
    by (simp add: session_open_def user_by_email_set_user refresh_user_def split: option.split)
qed

text \<open>Three things the authentication does not look at: whether the key or the user is active, and what kind of
  token it is given.\<close>

lemma key_activity_ignored:
  "get_current_agent_by_key cr k (set_key i (ky_is_active_update g) db) = get_current_agent_by_key cr k db"
proof -
  have "select_first (\<lambda>r. ky_key_hash r = h) (table_update ky_id i (ky_is_active_update g) ks) =
      map_option (\<lambda>r. if ky_id r = i then ky_is_active_update g r else r) (select_first (\<lambda>r. ky_key_hash r = h) ks)"
    for h and ks :: "api_key_row list" unfolding table_update_def by (rule select_first_update) simp
  moreover have "ac_agents (set_key i f db) = ac_agents db" for f :: "api_key_row \<Rightarrow> api_key_row" by (simp add: set_key_def)
  ultimately show ?thesis unfolding get_current_agent_by_key_def set_key_frame
    by (cases "select_first (\<lambda>r. ky_key_hash r = cr_sha cr (the k)) (ac_keys db)") simp_all
qed

lemma user_activity_ignored:
  "isl (RequireModuleAccess m l (Some (u\<lparr>us_is_active := b\<rparr>))) = isl (RequireModuleAccess m l (Some u))"
  "isl (RequireRole roles (Some (u\<lparr>us_is_active := b\<rparr>))) = isl (RequireRole roles (Some u))"
  by (simp_all add: RequireModuleAccess_def RequireRole_def get_effective_permissions_def)

lemma refresh_token_authenticates:
  assumes "sound_crypto cr" "user_by_email db e = Some u"
    and "create_refresh_token cr env [(''sub'', JStr e)] None \<noteq> []"
  shows "get_current_user cr env (Some (create_refresh_token cr env [(''sub'', JStr e)] None)) db = Some u"
  using assms by (simp add: get_current_user_def create_refresh_token_def sound_crypto_def user_by_email_def dset_def dget_def)

lemma created_key_lost:
  assumes "keys_guard me = Inr u" "valid_key_create q" "\<And>k raw. cr_key_out cr k raw = Inl type_error"
  shows "fst (create_api_key cr env q me db) = Inl type_error \<and>
    length (ac_keys (snd (create_api_key cr env q me db))) = Suc (length (ac_keys db))"
  using assms by (simp add: create_api_key_def Let_def audited_def log_audit_event_def insert_row_def)

section \<open>Concrete instances\<close>

definition demo_crypto :: crypto where
  "demo_crypto = \<lparr>cr_hash = (\<lambda>salt p. CHR ''$'' # p), cr_verify = (\<lambda>p h. h = CHR ''$'' # p),
     cr_encode = (\<lambda>c. dumps (JObj c)),
     cr_decode = (\<lambda>now t. case loads t of
        Some (JObj c) \<Rightarrow> (case dget c ''exp'' JNull of JInt e \<Rightarrow> if e < now then None else Some c | _ \<Rightarrow> Some c)
      | _ \<Rightarrow> None),
     cr_sha = (\<lambda>k. ''#'' @ k), cr_key_out = (\<lambda>k raw. Inl type_error)\<rparr>"

lemma demo_sound: "sound_crypto demo_crypto"
  by (auto simp: sound_crypto_def demo_crypto_def loads_dumps simp del: dumps.simps wf_json.simps)

definition auth_demo_env :: "int \<Rightarrow> auth_env" where
  "auth_demo_env s = \<lparr>au_now = s * 1000000, au_ip = ''1.2.3.4'', au_salt = [], au_new_id = s, au_raw_key = ''raw''\<rparr>"

definition demo_claims :: "int \<Rightarrow> dict" where
  "demo_claims s = [(''sub'', JStr ''admin@nexus.local''), (''exp'', JInt (s + 604800)), (''type'', JStr ''refresh'')]"

definition demo_user :: "string \<Rightarrow> user_row" where
  "demo_user t = \<lparr>us_id = 1, us_email = ''admin@nexus.local'', us_password_hash = ''$admin_password'',
     us_refresh_token_hash = Some (CHR ''$'' # t), us_role = ''admin'', us_is_active = True,
     us_module_permissions = None, us_created_at = 0\<rparr>"

definition auth_demo_db :: "string \<Rightarrow> access_db" where
  "auth_demo_db t = (empty_access [])\<lparr>ac_users := [demo_user t]\<rparr>"

lemma demo_token: "create_refresh_token demo_crypto (auth_demo_env s) [(''sub'', JStr ''admin@nexus.local'')] None =
    cr_encode demo_crypto (demo_claims s)"
  by (simp add: create_refresh_token_def auth_demo_env_def demo_claims_def seconds_def dset_def)

lemma demo_decode: "now \<le> s + 604800 \<Longrightarrow> cr_decode demo_crypto now (cr_encode demo_crypto (demo_claims s)) = Some (demo_claims s)"
  using demo_sound by (simp add: sound_crypto_def demo_claims_def dget_def)

lemma demo_tokens_differ: "s < s' \<Longrightarrow> cr_encode demo_crypto (demo_claims s) \<noteq> cr_encode demo_crypto (demo_claims s')"
  using demo_decode[of "s + 604800" s] demo_decode[of "s + 604800" s'] by (auto simp: demo_claims_def)

lemma demo_subject: "n \<le> s + 604800 \<Longrightarrow>
    refresh_subject demo_crypto (auth_demo_env n) (cr_encode demo_crypto (demo_claims s)) = Inr ''admin@nexus.local''"
  by (simp add: refresh_subject_def auth_demo_env_def seconds_def demo_decode) (simp add: demo_claims_def dget_def)

lemma demo_refreshed:
  "\<exists>k db1. refresh_access_token demo_crypto (auth_demo_env 3) (cr_encode demo_crypto (demo_claims 2))
       (auth_demo_db (cr_encode demo_crypto (demo_claims 2))) = (Inr k, db1) \<and> tk_refresh k = cr_encode demo_crypto (demo_claims 3)"
proof -
  let ?t = "cr_encode demo_crypto (demo_claims 2)" and ?u = "demo_user (cr_encode demo_crypto (demo_claims 2))"
  obtain db0 where c: "check_rate_limit (auth_demo_env 3) (auth_demo_db ?t) = (Inr (), db0)"
    by (simp add: check_rate_limit_def auth_demo_db_def empty_access_def)
  then have u: "user_by_email db0 ''admin@nexus.local'' = Some ?u"
    using check_rate_limit_frame[of "auth_demo_env 3" "auth_demo_db ?t"]
    by (simp add: user_by_email_def auth_demo_db_def demo_user_def)
  have r: "refresh_user demo_crypto ?t (Some ?u) = Some ?u"
    by (simp add: refresh_user_def demo_user_def demo_crypto_def)
  have e: "us_email ?u = ''admin@nexus.local''" by (simp add: demo_user_def)
  show ?thesis
    by (simp add: refresh_access_token_def rate_limited_def c u r e demo_subject demo_token Let_def audited_str_int commit_or_def)
qed


theorem password_change_and_sessions_witness:
  "session_open demo_crypto ''admin@nexus.local'' ''t'' (auth_demo_db ''t'') \<and>
   \<not> session_open demo_crypto ''admin@nexus.local'' ''t''
       (snd (admin_reset_password demo_crypto (auth_demo_env 3) 1 ''pw'' (Some (demo_user ''t'')) (auth_demo_db ''t'')))"
proof -
  have o: "session_open demo_crypto ''admin@nexus.local'' ''t'' (auth_demo_db ''t'')" by code_simp
  have "users_ok (ac_users (auth_demo_db ''t''))" by code_simp
  moreover have "user_by_email (auth_demo_db ''t'') ''admin@nexus.local'' = Some (demo_user ''t'')"
    by (simp add: user_by_email_def auth_demo_db_def demo_user_def)
  moreover have "us_id (demo_user ''t'') = 1" by (simp add: demo_user_def)
  moreover obtain i db1 where
    "admin_reset_password demo_crypto (auth_demo_env 3) 1 ''pw'' (Some (demo_user ''t'')) (auth_demo_db ''t'') = (Inr i, db1)"
    by (simp add: admin_reset_password_def users_require_admin_def RequireRole_def require_user_def user_by_id_def
        auth_demo_db_def demo_user_def audited_str_int commit_or_def del: str_int_def)
  ultimately show ?thesis using password_change_and_sessions[of "auth_demo_db ''t''" "''admin@nexus.local''" "demo_user ''t''"
      demo_crypto "auth_demo_env 3" "''pw''" "Some (demo_user ''t'')" i db1 _ "''t''"] o by simp
qed

lemma demo_reach: "auth_reach demo_crypto (auth_handle demo_crypto (auth_demo_env 2) []
    (CreateUser None \<lparr>uc_email = ''a'', uc_password = ''b'', uc_role = ''reader''\<rparr>) (bootstrap demo_crypto (auth_demo_env 1) (empty_access [])))"
  by (intro auth_request auth_bootstrap auth_start) (simp_all add: fresh_id_def bootstrap_def empty_access_def
      auth_demo_env_def user_by_email_def insert_row_def)

theorem reachable_access_ok_witness:
  "access_ok (auth_handle demo_crypto (auth_demo_env 2) []
    (CreateUser None \<lparr>uc_email = ''a'', uc_password = ''b'', uc_role = ''reader''\<rparr>) (bootstrap demo_crypto (auth_demo_env 1) (empty_access [])))"
  by (rule reachable_access_ok[OF demo_reach])

lemma demo_current_user:
  "get_current_user demo_crypto (auth_demo_env 3) (Some (cr_encode demo_crypto (demo_claims 2))) (auth_demo_db t) = Some (demo_user t)"
proof -
  have "cr_encode demo_crypto (demo_claims 2) \<noteq> []" by (simp add: demo_crypto_def)
  then show ?thesis
    by (simp add: get_current_user_def auth_demo_env_def seconds_def demo_decode)
      (simp add: demo_claims_def dget_def auth_demo_db_def demo_user_def)
qed

theorem accounts_changed_by_admin_witness:
  "\<exists>q. \<not> same_accounts (auth_demo_db ''t'') (auth_handle demo_crypto (auth_demo_env 3) [] q (auth_demo_db ''t'')) \<and>
     (\<exists>a. get_current_user demo_crypto (auth_demo_env 3) (bearer q) (auth_demo_db ''t'') = Some a \<and> us_role a = ''admin'')"
proof -
  let ?q = "CreateUser (Some (cr_encode demo_crypto (demo_claims 2))) \<lparr>uc_email = ''a'', uc_password = ''b'', uc_role = ''reader''\<rparr>"
  let ?b = "\<lparr>uc_email = ''a'', uc_password = ''b'', uc_role = ''reader''\<rparr>"
  have h: "auth_handle demo_crypto (auth_demo_env 3) [] ?q (auth_demo_db ''t'') =
      snd (create_user demo_crypto (auth_demo_env 3) ?b (Some (demo_user ''t'')) (auth_demo_db ''t''))"
    by (simp add: auth_handle_def bearer_def demo_current_user)
  have "length (ac_users (snd (create_user demo_crypto (auth_demo_env 3) ?b (Some (demo_user ''t'')) (auth_demo_db ''t'')))) = 2"
    by code_simp
  then have n: "\<not> same_accounts (auth_demo_db ''t'') (auth_handle demo_crypto (auth_demo_env 3) [] ?q (auth_demo_db ''t''))"
    unfolding h same_accounts_def by (auto simp: auth_demo_db_def dest: arg_cong[of _ _ length])
  show ?thesis using n accounts_changed_by_admin[OF n] by blast
qed

end
