(* ===== verification/IpAllowlist.thy ===== *)
theory IpAllowlist
  imports AuthApi "HOL-Library.Word"
begin

unbundle bit_operations_syntax

text \<open>
  The IP allowlist: the entries and handlers of \<open>apps/nexus_api/routers/ip_allowlist.py\<close> and the check
  \<open>request_middleware\<close> of \<open>apps/nexus_api/main.py\<close> makes before every request.  Python's \<open>ipaddress\<close> is
  modelled for IPv4 in full (parsing of addresses and networks, masks, membership, printing) on 32-bit
  words; the textual form of IPv6 addresses is the argument \<open>ip6\<close>, their networks are 128-bit words.
\<close>

section \<open>ipaddress\<close>

fun split_on :: "char \<Rightarrow> string \<Rightarrow> string list" where
  "split_on c [] = [[]]"
| "split_on c (x # s) = (if x = c then [] # split_on c s
     else (case split_on c s of [] \<Rightarrow> [[x]] | p # ps \<Rightarrow> (x # p) # ps))"

definition parse_octet :: "string \<Rightarrow> nat option" where
  "parse_octet s =
     (if s = [] \<or> \<not> list_all is_digit s \<or> length s > 3 \<or> (s \<noteq> ''0'' \<and> hd s = CHR ''0'') then None
      else if digits_val s > 255 then None else Some (digits_val s))"

definition octets_word :: "nat list \<Rightarrow> 32 word" where
  "octets_word os = foldl (\<lambda>w n. push_bit 8 w OR word_of_nat n) 0 os"

definition parse_ipv4 :: "string \<Rightarrow> 32 word option" where
  "parse_ipv4 s = (case List.map parse_octet (split_on CHR ''.'' s) of
     [Some a, Some b, Some c, Some d] \<Rightarrow> Some (octets_word [a, b, c, d]) | _ \<Rightarrow> None)"

definition show_ipv4 :: "32 word \<Rightarrow> string" where
  "show_ipv4 w = join ''.'' (List.map (\<lambda>k. digits_of (unat (drop_bit k w AND 255))) [24, 16, 8, 0])"

datatype ip_addr = V4 "32 word" | V6 "128 word"

record ip6_text =
  parse6 :: "string \<Rightarrow> 128 word option"
  show6 :: "128 word \<Rightarrow> string"

definition ip_address :: "ip6_text \<Rightarrow> string \<Rightarrow> ip_addr option" where
  "ip_address ip6 s = (case parse_ipv4 s of Some w \<Rightarrow> Some (V4 w) | None \<Rightarrow> map_option V6 (parse6 ip6 s))"

datatype ip_net = Net4 "32 word" nat | Net6 "128 word" nat

text \<open>The netmask with the first \<open>p\<close> bits set.\<close>

definition netmask :: "nat \<Rightarrow> 'a::len word" where
  "netmask p = NOT (mask (LENGTH('a) - p))"

definition prefix_string :: "nat \<Rightarrow> string \<Rightarrow> nat option" where
  "prefix_string bits s =
     (if s = [] \<or> \<not> list_all is_digit s \<or> digits_val s > bits then None else Some (digits_val s))"

text \<open>A mask written as an address: leading ones (a netmask), otherwise leading zeros (a hostmask).\<close>

definition mask_prefix :: "32 word \<Rightarrow> nat option" where
  "mask_prefix m = List.find (\<lambda>p. netmask p = m) [0..<33]"

definition prefix_from_ip_string :: "string \<Rightarrow> nat option" where
  "prefix_from_ip_string s =
     (case parse_ipv4 s of
        None \<Rightarrow> None
      | Some m \<Rightarrow> (case mask_prefix m of Some p \<Rightarrow> Some p | None \<Rightarrow> mask_prefix (NOT m)))"

definition make_prefix4 :: "string option \<Rightarrow> nat option" where
  "make_prefix4 arg =
     (case arg of
        None \<Rightarrow> Some 32
      | Some s \<Rightarrow> (case prefix_string 32 s of Some p \<Rightarrow> Some p | None \<Rightarrow> prefix_from_ip_string s))"

definition make_prefix6 :: "string option \<Rightarrow> nat option" where
  "make_prefix6 arg = (case arg of None \<Rightarrow> Some 128 | Some s \<Rightarrow> prefix_string 128 s)"

definition split_addr_prefix :: "string \<Rightarrow> (string \<times> string option) option" where
  "split_addr_prefix s = (case split_on CHR ''/'' s of
     [a] \<Rightarrow> Some (a, None) | [a, m] \<Rightarrow> Some (a, Some m) | _ \<Rightarrow> None)"

definition ipv4_network :: "string \<Rightarrow> ip_net option" where
  "ipv4_network s =
     (case split_addr_prefix s of
        None \<Rightarrow> None
      | Some (a, m) \<Rightarrow>
          (case (parse_ipv4 a, make_prefix4 m) of (Some w, Some p) \<Rightarrow> Some (Net4 (w AND netmask p) p) | _ \<Rightarrow> None))"

definition ipv6_network :: "ip6_text \<Rightarrow> string \<Rightarrow> ip_net option" where
  "ipv6_network ip6 s =
     (case split_addr_prefix s of
        None \<Rightarrow> None
      | Some (a, m) \<Rightarrow>
          (case (parse6 ip6 a, make_prefix6 m) of (Some w, Some p) \<Rightarrow> Some (Net6 (w AND netmask p) p) | _ \<Rightarrow> None))"

text \<open>\<open>ip_network(s, strict=False)\<close>: host bits are cleared, not refused.\<close>

definition ip_network :: "ip6_text \<Rightarrow> string \<Rightarrow> ip_net option" where
  "ip_network ip6 s = (case ipv4_network s of Some n \<Rightarrow> Some n | None \<Rightarrow> ipv6_network ip6 s)"

definition show_network :: "ip6_text \<Rightarrow> ip_net \<Rightarrow> string" where
  "show_network ip6 n = (case n of
      Net4 w p \<Rightarrow> show_ipv4 w @ ''/'' @ digits_of p
    | Net6 w p \<Rightarrow> show6 ip6 w @ ''/'' @ digits_of p)"

fun in_network :: "ip_addr \<Rightarrow> ip_net \<Rightarrow> bool" where
  "in_network (V4 a) (Net4 n p) = (a AND netmask p = n)"
| "in_network (V6 a) (Net6 n p) = (a AND netmask p = n)"
| "in_network _ _ = False"

section \<open>Entries and handlers\<close>

record allow_entry =
  al_id :: int
  al_cidr :: string
  al_label :: string
  al_is_active :: bool
  al_created_at :: int

record allow_db =
  ad_entries :: "allow_entry list"
  ad_audit :: "audit_event list"

definition validate_cidr :: "ip6_text \<Rightarrow> string \<Rightarrow> string res" where
  "validate_cidr ip6 v =
     (case ip_network ip6 v of
        None \<Rightarrow> Inl (HTTPException 422 (''Invalid CIDR notation: '' @ v))
      | Some n \<Rightarrow> Inr (show_network ip6 n))"

definition require_allowlist :: "user_row option \<Rightarrow> user_row res" where
  "require_allowlist u = RequireModuleAccess ''ip_allowlist'' ''manage'' u"

definition allow_audit :: "string \<Rightarrow> user_row \<Rightarrow> string option \<Rightarrow> dict \<Rightarrow> allow_db \<Rightarrow> allow_db res" where
  "allow_audit action who rid meta db =
     bind_res (log_audit_event action ''ip_allowlist'' (Some (UserId (us_id who))) rid meta (ad_audit db))
       (\<lambda>rows. Inr (db\<lparr>ad_audit := rows\<rparr>))"

definition entry_by_id :: "allow_db \<Rightarrow> int \<Rightarrow> allow_entry res" where
  "entry_by_id db i = of_opt (HTTPException 404 ''Entry not found'') (select_first (\<lambda>r. al_id r = i) (ad_entries db))"

definition list_ip_allowlist :: "user_row option \<Rightarrow> allow_db \<Rightarrow> allow_entry list res" where
  "list_ip_allowlist caller db =
     bind_res (require_allowlist caller) (\<lambda>_. Inr (sort_key (\<lambda>r. - al_created_at r) (ad_entries db)))"

definition create_ip_allowlist_entry ::
  "ip6_text \<Rightarrow> int \<Rightarrow> int \<Rightarrow> string \<Rightarrow> string \<Rightarrow> user_row option \<Rightarrow> allow_db \<Rightarrow> (allow_entry \<times> allow_db) res" where
  "create_ip_allowlist_entry ip6 new_id now cidr label caller db =
     bind_res (require_allowlist caller) (\<lambda>u.
     bind_res (validate_cidr ip6 cidr) (\<lambda>c.
     let entry = \<lparr>al_id = new_id, al_cidr = c, al_label = label, al_is_active = True, al_created_at = now\<rparr> in
     bind_res (allow_audit ''ip_allowlist_add'' u None [(''cidr'', JStr c), (''label'', JStr label)]
        (db\<lparr>ad_entries := insert_row entry (ad_entries db)\<rparr>)) (\<lambda>db'.
     Inr (entry, db'))))"

definition toggle_ip_entry :: "int \<Rightarrow> user_row option \<Rightarrow> allow_db \<Rightarrow> (allow_entry \<times> allow_db) res" where
  "toggle_ip_entry i caller db =
     bind_res (require_allowlist caller) (\<lambda>u.
     bind_res (entry_by_id db i) (\<lambda>r.
     let r' = al_is_active_update Not r in
     bind_res (allow_audit ''ip_allowlist_toggle'' u (Some (str_int i))
          [(''cidr'', JStr (al_cidr r')), (''is_active'', JBool (al_is_active r'))]
        (db\<lparr>ad_entries := table_update al_id (al_id r) (al_is_active_update Not) (ad_entries db)\<rparr>)) (\<lambda>db'.
     Inr (r', db'))))"

definition delete_ip_allowlist_entry :: "int \<Rightarrow> user_row option \<Rightarrow> allow_db \<Rightarrow> (unit \<times> allow_db) res" where
  "delete_ip_allowlist_entry i caller db =
     bind_res (require_allowlist caller) (\<lambda>u.
     bind_res (entry_by_id db i) (\<lambda>r.
     bind_res (allow_audit ''ip_allowlist_remove'' u (Some (str_int i)) [(''cidr'', JStr (al_cidr r))]
        (db\<lparr>ad_entries := delete_rows (\<lambda>e. al_id e = al_id r) (ad_entries db)\<rparr>)) (\<lambda>db'.
     Inr ((), db'))))"

section \<open>The middleware\<close>

record api_request =
  ar_method :: string
  ar_path :: string
  ar_client :: "string option"

definition skip_ip_check :: "api_request \<Rightarrow> bool" where
  "skip_ip_check q \<longleftrightarrow> ar_method q = ''OPTIONS'' \<or>
     list_ex (\<lambda>p. prefix p (ar_path q)) [''/healthz'', ''/readyz'', ''/metrics'']"

text \<open>\<open>any(ip_address(client_ip) in ip_network(e.cidr) for e in allowlist)\<close>: entry by entry, stopping at the
  first that contains the client; both parsers may raise, which is \<open>None\<close>.\<close>

fun any_allowed :: "ip6_text \<Rightarrow> string \<Rightarrow> allow_entry list \<Rightarrow> bool option" where
  "any_allowed ip6 client [] = Some False"
| "any_allowed ip6 client (e # es) =
     (case (ip_address ip6 client, ip_network ip6 (al_cidr e)) of
        (Some a, Some n) \<Rightarrow> if in_network a n then Some True else any_allowed ip6 client es
      | _ \<Rightarrow> None)"

text \<open>\<open>Some detail\<close> is the 403 answer, \<open>None\<close> hands the request on; an exception inside the check is logged
  and hands it on too, and so does a failing query (\<open>entries = None\<close>).\<close>

definition ip_check :: "ip6_text \<Rightarrow> allow_entry list option \<Rightarrow> api_request \<Rightarrow> string option" where
  "ip_check ip6 entries q =
     (if skip_ip_check q then None
      else case entries of
        None \<Rightarrow> None
      | Some rows \<Rightarrow>
         (let allowlist = filter al_is_active rows;
              client_ip = (case ar_client q of None \<Rightarrow> ''0.0.0.0'' | Some h \<Rightarrow> h) in
          if allowlist = [] then None
          else case any_allowed ip6 client_ip allowlist of
              Some False \<Rightarrow> Some (''IP address '' @ client_ip @ '' not in allowlist'')
            | _ \<Rightarrow> None))"

section \<open>Printing and parsing networks\<close>

lemma split_on_free: "c \<notin> set s \<Longrightarrow> split_on c s = [s]"
  by (induction s) auto

lemma split_on_append: "c \<notin> set s \<Longrightarrow> split_on c (s @ c # t) = s # split_on c t"
  by (induction s) auto

lemma digits_of_all: "list_all is_digit (digits_of n)"
  using digits_of_digits by (simp add: list_all_iff)

lemma digit_sep: "CHR ''.'' \<notin> set (digits_of n)" "CHR ''/'' \<notin> set (digits_of n)"
  using digits_of_digits[of n] by (auto simp: is_digit_def)

lemma prefix_string_digits: "p \<le> bits \<Longrightarrow> prefix_string bits (digits_of p) = Some p"
  by (simp add: prefix_string_def digits_of_all)

lemma parse_octet_digits:
  assumes "n \<le> 255" shows "parse_octet (digits_of n) = Some n"
proof -
  have "length (digits_of n) \<le> 3"
  proof -
    have "n div 10 div 10 < 10" "n div 10 < 100" using assms by auto
    then show ?thesis
      by (subst digits_of.simps, cases "n < 10", simp)
        (subst digits_of.simps, cases "n div 10 < 10", simp, subst digits_of.simps, simp)
  qed
  moreover have "digits_of n \<noteq> ''0'' \<Longrightarrow> hd (digits_of n) \<noteq> CHR ''0''"
    using digits_of_lead0[of n] digits_of_nonempty[of n] by (cases "digits_of n") auto
  ultimately show ?thesis using assms by (auto simp: parse_octet_def digits_of_all)
qed

lemma octet_le: "unat (x AND 255 :: 32 word) \<le> 255"
proof -
  have "x AND 255 = take_bit 8 x" by (simp add: take_bit_eq_mask mask_eq_exp_minus_1)
  then have "unat (x AND 255) < 2 ^ 8" by (metis unsigned_take_bit_eq take_bit_nat_less_exp)
  then show ?thesis by simp
qed

lemma octets_word_parts:
  "octets_word (List.map (\<lambda>k. unat (drop_bit k w AND 255)) [24, 16, 8, 0]) = w"
proof -
  have m: "(255 :: 32 word) = mask 8" by (simp add: mask_eq_exp_minus_1)
  show ?thesis
    unfolding octets_word_def
  proof (rule bit_word_eqI)
    fix n assume n: "n < LENGTH(32)"
    consider "n < 8" | "8 \<le> n \<and> n < 16" | "16 \<le> n \<and> n < 24" | "24 \<le> n" by linarith
    then show "bit (foldl (\<lambda>w n. push_bit 8 w OR word_of_nat n) (0 :: 32 word)
        (List.map (\<lambda>k. unat (drop_bit k w AND 255)) [24, 16, 8, 0])) n = bit w n"
      using n by cases (auto simp: m bit_simps)
  qed
qed

lemma parse_show_ipv4 [simp]: "parse_ipv4 (show_ipv4 w) = Some w"
proof -
  let ?d = "\<lambda>k. digits_of (unat (drop_bit k w AND 255))"
  have s: "split_on CHR ''.'' (show_ipv4 w) = [?d 24, ?d 16, ?d 8, ?d 0]"
    by (simp add: show_ipv4_def split_on_append split_on_free digit_sep)
  show ?thesis using octets_word_parts[of w]
    by (simp add: parse_ipv4_def s parse_octet_digits octet_le)
qed

lemma masked_twice [simp]: "(w AND netmask p) AND netmask p = (w AND netmask p :: 'a::len word)"
  by (simp add: and.assoc)

text \<open>What the code relies on for IPv6: what is printed parses back, holds no slash and is no IPv4 address.\<close>

definition ip6_ok :: "ip6_text \<Rightarrow> bool" where
  "ip6_ok ip6 \<longleftrightarrow> (\<forall>w. parse6 ip6 (show6 ip6 w) = Some w \<and> CHR ''/'' \<notin> set (show6 ip6 w) \<and>
     parse_ipv4 (show6 ip6 w) = None)"

lemma no_slash_ipv4: "CHR ''/'' \<notin> set (show_ipv4 w)"
  by (simp add: show_ipv4_def digit_sep)

lemma split_show: "CHR ''/'' \<notin> set s \<Longrightarrow> split_addr_prefix (s @ CHR ''/'' # digits_of p) = Some (s, Some (digits_of p))"
  by (simp add: split_addr_prefix_def split_on_append split_on_free digit_sep)

lemma ip_network_masked:
  "ip_network ip6 s = Some n \<Longrightarrow> (case n of Net4 w p \<Rightarrow> p \<le> 32 \<and> w AND netmask p = w | Net6 w p \<Rightarrow> p \<le> 128 \<and> w AND netmask p = w)"
proof -
  have m: "p \<le> 32" if "mask_prefix m = Some p" for p m
    using that by (auto simp: mask_prefix_def find_Some_iff)
  have p4: "p \<le> 32" if "make_prefix4 a = Some p" for a p
    using that m by (auto simp: make_prefix4_def prefix_string_def prefix_from_ip_string_def split: option.splits if_splits)
  have p6: "p \<le> 128" if "make_prefix6 a = Some p" for a p
    using that by (auto simp: make_prefix6_def prefix_string_def split: option.splits if_splits)
  show "ip_network ip6 s = Some n \<Longrightarrow> ?thesis"
    using p4 p6 by (auto simp: ip_network_def ipv4_network_def ipv6_network_def split: option.splits)
qed

lemma show_network_parses:
  assumes "ip6_ok ip6"
    and "case n of Net4 w p \<Rightarrow> p \<le> 32 \<and> w AND netmask p = w | Net6 w p \<Rightarrow> p \<le> 128 \<and> w AND netmask p = w"
  shows "ip_network ip6 (show_network ip6 n) = Some n"
proof (cases n)
  case (Net4 w p)
  then show ?thesis using assms(2)
    by (simp add: show_network_def ip_network_def ipv4_network_def split_show no_slash_ipv4 make_prefix4_def
        prefix_string_digits)
next
  case (Net6 w p)
  then show ?thesis using assms
    by (simp add: show_network_def ip_network_def ipv4_network_def ipv6_network_def split_show ip6_ok_def
        make_prefix6_def prefix_string_digits)
qed

text \<open>What the validator stores denotes what was asked for: the canonical text of an accepted network parses to the
  same network (host bits cleared, masks written as prefix lengths), and storing it again changes nothing.\<close>

theorem validate_cidr_roundtrip:
  assumes "ip6_ok ip6" and "validate_cidr ip6 v = Inr c"
  shows "ip_network ip6 c = ip_network ip6 v \<and> ip_network ip6 c \<noteq> None \<and> validate_cidr ip6 c = Inr c"
proof -
  from assms(2) obtain n where n: "ip_network ip6 v = Some n" "c = show_network ip6 n"
    by (auto simp: validate_cidr_def split: option.splits)
  have "ip_network ip6 c = Some n"
    unfolding n(2) by (rule show_network_parses[OF assms(1) ip_network_masked[OF n(1)]])
  then show ?thesis using n by (simp add: validate_cidr_def)
qed

section \<open>Membership\<close>

lemma in_network_bits:
  "(a AND netmask p = w AND netmask p) = (drop_bit (LENGTH('a) - p) a = drop_bit (LENGTH('a) - p) (w :: 'a::len word))"
proof
  assume eq: "a AND netmask p = w AND netmask p"
  show "drop_bit (LENGTH('a) - p) a = drop_bit (LENGTH('a) - p) w"
  proof (rule bit_word_eqI)
    fix n assume "n < LENGTH('a)"
    have "bit (a AND netmask p) (LENGTH('a) - p + n) = bit (w AND netmask p) (LENGTH('a) - p + n)" by (simp add: eq)
    then show "bit (drop_bit (LENGTH('a) - p) a) n = bit (drop_bit (LENGTH('a) - p) w) n"
      by (auto simp: netmask_def bit_simps dest: bit_imp_le_length)
  qed
next
  assume eq: "drop_bit (LENGTH('a) - p) a = drop_bit (LENGTH('a) - p) w"
  show "a AND netmask p = w AND netmask p"
  proof (rule bit_word_eqI)
    fix n assume n: "n < LENGTH('a)"
    show "bit (a AND netmask p) n = bit (w AND netmask p) n"
    proof (cases "LENGTH('a) - p \<le> n")
      case True
      have "bit (drop_bit (LENGTH('a) - p) a) (n - (LENGTH('a) - p)) = bit (drop_bit (LENGTH('a) - p) w) (n - (LENGTH('a) - p))"
        by (simp add: eq)
      then show ?thesis using True n by (simp add: netmask_def bit_simps)
    next
      case False
      then show ?thesis using n by (simp add: netmask_def bit_simps)
    qed
  qed
qed

section \<open>Who is let in\<close>

text \<open>The reference: the client shares the leading bits of the network, written as a shift.\<close>

definition shares_prefix :: "ip_addr \<Rightarrow> ip_net \<Rightarrow> bool" where
  "shares_prefix a n = (case (a, n) of
      (V4 x, Net4 w p) \<Rightarrow> drop_bit (32 - p) x = drop_bit (32 - p) w
    | (V6 x, Net6 w p) \<Rightarrow> drop_bit (128 - p) x = drop_bit (128 - p) w
    | _ \<Rightarrow> False)"

lemma in_masked_network:
  "w AND netmask p = w \<Longrightarrow> (a AND netmask p = w) = (drop_bit (LENGTH('a) - p) a = drop_bit (LENGTH('a) - p) (w :: 'a::len word))"
  using in_network_bits[of a p w] by simp

lemma in_network_shares:
  assumes "ip_network ip6 s = Some n" shows "in_network a n = shares_prefix a n"
  using ip_network_masked[OF assms]
  by (cases a; cases n) (simp_all add: shares_prefix_def in_masked_network)

inductive allow_reach :: "ip6_text \<Rightarrow> allow_db \<Rightarrow> bool" for ip6 where
  allow_start: "allow_reach ip6 \<lparr>ad_entries = [], ad_audit = []\<rparr>"
| allow_create: "allow_reach ip6 db \<Longrightarrow> new_id \<notin> al_id ` set (ad_entries db) \<Longrightarrow>
    create_ip_allowlist_entry ip6 new_id now cidr label caller db = Inr (e, db') \<Longrightarrow> allow_reach ip6 db'"
| allow_toggle: "allow_reach ip6 db \<Longrightarrow> toggle_ip_entry i caller db = Inr (e, db') \<Longrightarrow> allow_reach ip6 db'"
| allow_delete: "allow_reach ip6 db \<Longrightarrow> delete_ip_allowlist_entry i caller db = Inr ((), db') \<Longrightarrow> allow_reach ip6 db'"

definition entries_ok :: "ip6_text \<Rightarrow> allow_entry list \<Rightarrow> bool" where
  "entries_ok ip6 es \<longleftrightarrow> distinct (List.map al_id es) \<and> (\<forall>e \<in> set es. ip_network ip6 (al_cidr e) \<noteq> None)"

lemma allow_audit_frame [dest]: "allow_audit a who rid m db = Inr db' \<Longrightarrow> ad_entries db' = ad_entries db"
  by (auto simp: allow_audit_def bind_res_Inr)

lemma reach_entries_ok:
  assumes "ip6_ok ip6" and "allow_reach ip6 db"
  shows "entries_ok ip6 (ad_entries db)"
  using assms(2)
proof (induction rule: allow_reach.induct)
  case allow_start
  show ?case by (simp add: entries_ok_def)
next
  case (allow_create db new_id now cidr label caller e db')
  from allow_create.hyps(3) obtain c where c: "validate_cidr ip6 cidr = Inr c"
    and d: "ad_entries db' = insert_row \<lparr>al_id = new_id, al_cidr = c, al_label = label, al_is_active = True,
        al_created_at = now\<rparr> (ad_entries db)"
    by (auto simp: create_ip_allowlist_entry_def bind_res_Inr Let_def)
  show ?case using allow_create validate_cidr_roundtrip[OF assms(1) c] unfolding d
    by (auto simp: entries_ok_def insert_row_def)
next
  case (allow_toggle db i caller e db')
  then obtain j where "ad_entries db' = table_update al_id j (al_is_active_update Not) (ad_entries db)"
    by (auto simp: toggle_ip_entry_def bind_res_Inr Let_def)
  then show ?case using allow_toggle.IH
    by (auto simp: entries_ok_def table_update_def map_update_rows set_update_rows split: if_splits)
next
  case (allow_delete db i caller db')
  then obtain j where "ad_entries db' = delete_rows (\<lambda>e. al_id e = j) (ad_entries db)"
    by (auto simp: delete_ip_allowlist_entry_def bind_res_Inr Let_def)
  then show ?case using allow_delete.IH by (auto simp: entries_ok_def delete_rows_def distinct_map_filter)
qed

lemma any_allowed_spec:
  assumes "\<forall>e \<in> set es. ip_network ip6 (al_cidr e) \<noteq> None" and "ip_address ip6 h = Some a"
  shows "any_allowed ip6 h es = Some (\<exists>e \<in> set es. shares_prefix a (the (ip_network ip6 (al_cidr e))))"
  using assms by (induction es) (auto simp: in_network_shares)

text \<open>C20: With any allowlist the service can reach, a request that is checked and comes from a well-formed address gets
  the 403 exactly when some entry is active and no active entry's network has the address's leading bits; no stored
  entry can make the check fail.  A client that is no address is let through whatever the list says.\<close>

theorem allowlist_decision:
  assumes "ip6_ok ip6" and "allow_reach ip6 db" and "\<not> skip_ip_check q" and "ar_client q = Some h"
  shows "(case ip_address ip6 h of
      Some a \<Rightarrow> ip_check ip6 (Some (ad_entries db)) q \<noteq> None \<longleftrightarrow>
        (\<exists>e \<in> set (ad_entries db). al_is_active e) \<and>
        (\<forall>e \<in> set (ad_entries db). al_is_active e \<longrightarrow> \<not> shares_prefix a (the (ip_network ip6 (al_cidr e))))
    | None \<Rightarrow> ip_check ip6 (Some (ad_entries db)) q = None)"
proof -
  let ?act = "filter al_is_active (ad_entries db)"
  have ok: "\<forall>e \<in> set ?act. ip_network ip6 (al_cidr e) \<noteq> None"
    using reach_entries_ok[OF assms(1,2)] by (simp add: entries_ok_def)
  show ?thesis
  proof (cases "ip_address ip6 h")
    case None
    have "any_allowed ip6 h es \<noteq> Some False" if "es \<noteq> []" for es
      using that None by (cases es) auto
    then show ?thesis using None assms(3,4) by (auto simp: ip_check_def Let_def split: option.splits bool.splits)
  next
    case (Some a)
    show ?thesis using any_allowed_spec[OF ok Some] Some assms(3,4)
      by (auto simp: ip_check_def Let_def filter_empty_conv split: bool.splits)
  qed
qed

section \<open>Concrete instances\<close>

definition demo_ip6 :: ip6_text where
  "demo_ip6 = \<lparr>parse6 = (\<lambda>s. if prefix ''::'' s \<and> list_all is_digit (drop 2 s) \<and> length s > 2
       then Some (word_of_nat (digits_val (drop 2 s))) else None),
     show6 = (\<lambda>w. ''::'' @ digits_of (unat w))\<rparr>"

lemma demo_ip6_ok: "ip6_ok demo_ip6"
proof -
  have "parse_ipv4 (''::'' @ digits_of n) = None" for n
  proof -
    have "split_on CHR ''.'' (''::'' @ digits_of n) = [''::'' @ digits_of n]"
      by (rule split_on_free) (simp add: digit_sep)
    then show ?thesis by (simp add: parse_ipv4_def parse_octet_def is_digit_def split: option.split)
  qed
  then show ?thesis by (simp add: ip6_ok_def demo_ip6_def digits_of_all digit_sep)
qed

definition demo_admin :: user_row where
  "demo_admin = \<lparr>us_id = 1, us_email = ''a'', us_password_hash = [], us_refresh_token_hash = None, us_role = ''admin'',
     us_is_active = True, us_module_permissions = None, us_created_at = 0\<rparr>"

theorem validate_cidr_roundtrip_witness:
  "ip_network demo_ip6 ''10.1.0.0/16'' = ip_network demo_ip6 ''10.1.2.3/255.255.0.0''"
proof -
  have "validate_cidr demo_ip6 ''10.1.2.3/255.255.0.0'' = Inr ''10.1.0.0/16''" by code_simp
  from validate_cidr_roundtrip[OF demo_ip6_ok this] show ?thesis by simp
qed

definition demo_entry :: allow_entry where
  "demo_entry = \<lparr>al_id = 1, al_cidr = ''10.1.0.0/16'', al_label = ''vpn'', al_is_active = True, al_created_at = 0\<rparr>"

definition demo_request :: api_request where
  "demo_request = \<lparr>ar_method = ''GET'', ar_path = ''/users'', ar_client = Some ''10.2.0.1''\<rparr>"

lemma demo_allow_reach: "\<exists>db. allow_reach demo_ip6 db \<and> ad_entries db = [demo_entry]"
proof -
  have "validate_cidr demo_ip6 ''10.1.2.3/16'' = Inr ''10.1.0.0/16''" by code_simp
  then have "\<exists>db'. create_ip_allowlist_entry demo_ip6 1 0 ''10.1.2.3/16'' ''vpn'' (Some demo_admin)
      \<lparr>ad_entries = [], ad_audit = []\<rparr> = Inr (demo_entry, db') \<and> ad_entries db' = [demo_entry]"
    by (simp add: create_ip_allowlist_entry_def require_allowlist_def RequireModuleAccess_def demo_admin_def
        allow_audit_def log_audit_event_def insert_row_def demo_entry_def Let_def)
  then show ?thesis using allow_create[OF allow_start, of 1] by fastforce
qed

theorem allowlist_decision_witness:
  "\<exists>db :: allow_db. ad_entries db = [demo_entry] \<and> ip_check demo_ip6 (Some (ad_entries db)) demo_request \<noteq> None"
proof -
  obtain db where r: "allow_reach demo_ip6 db" and e: "ad_entries db = [demo_entry]" using demo_allow_reach by blast
  have s: "\<not> skip_ip_check demo_request" by code_simp
  have c: "ar_client demo_request = Some ''10.2.0.1''" by (simp add: demo_request_def)
  obtain a where a: "ip_address demo_ip6 ''10.2.0.1'' = Some a" "\<not> shares_prefix a (the (ip_network demo_ip6 ''10.1.0.0/16''))"
  proof -
    have "(case ip_address demo_ip6 ''10.2.0.1'' of Some a \<Rightarrow> \<not> shares_prefix a (the (ip_network demo_ip6 ''10.1.0.0/16''))
       | None \<Rightarrow> False)" by code_simp
    then show thesis using that by (auto split: option.splits)
  qed
  have "ip_check demo_ip6 (Some (ad_entries db)) demo_request \<noteq> None"
    using allowlist_decision[OF demo_ip6_ok r s c] a by (simp add: e demo_entry_def)
  with e show ?thesis by blast
qed

end
