(* ===== verification/Chunker.thy ===== *)
theory Chunker
  imports JsonText "HOL-Library.While_Combinator"
begin

text \<open>
  The document chunker, \<open>packages/shared/rag/chunker.py\<close>: paragraphs are packed into chunks with an overlap,
  a paragraph larger than a chunk is cut by a sliding window.  Lengths and positions are Python integers;
  the window loop is \<open>while_option\<close>, so a run that does not end is \<open>None\<close>.
\<close>

section \<open>Python slices\<close>

definition clip :: "nat \<Rightarrow> int \<Rightarrow> nat" where
  "clip n i = (if i < 0 then nat (max 0 (int n + i)) else nat (min (int n) i))"

text \<open>\<open>s[a:b]\<close> and \<open>s[a:]\<close>: negative positions count from the end, positions beyond it are cut off.\<close>

definition py_slice :: "string \<Rightarrow> int \<Rightarrow> int \<Rightarrow> string" where
  "py_slice s a b = drop (clip (length s) a) (take (clip (length s) b) s)"

definition py_from :: "string \<Rightarrow> int \<Rightarrow> string" where
  "py_from s a = drop (clip (length s) a) s"

definition py_find :: "string \<Rightarrow> string \<Rightarrow> nat \<Rightarrow> nat option" where
  "py_find s p off = List.find (\<lambda>i. prefix p (drop i s)) [off..<Suc (length s)]"

text \<open>\<open>text.split("\n\n")\<close>.\<close>

fun split_paragraphs :: "string \<Rightarrow> string list" where
  "split_paragraphs [] = [[]]"
| "split_paragraphs [c] = [[c]]"
| "split_paragraphs (c # d # s) =
     (if c = CHR 0x0A \<and> d = CHR 0x0A then [] # split_paragraphs s
      else case split_paragraphs (d # s) of [] \<Rightarrow> [[c]] | p # ps \<Rightarrow> (c # p) # ps)"

definition blank_line :: string where
  "blank_line = [CHR 0x0A, CHR 0x0A]"

section \<open>The chunker\<close>

record chunk_info =
  ck_text :: string
  ck_start :: int
  ck_end :: int
  ck_chars :: nat
  ck_tokens :: nat

definition estimate_tokens :: "string \<Rightarrow> nat" where
  "estimate_tokens s = max 1 (length s div 4)"

definition make_chunk :: "string \<Rightarrow> int \<Rightarrow> int \<Rightarrow> chunk_info" where
  "make_chunk t a b = \<lparr>ck_text = t, ck_start = a, ck_end = b, ck_chars = length t, ck_tokens = estimate_tokens t\<rparr>"

definition save_current :: "string \<Rightarrow> int \<Rightarrow> chunk_info" where
  "save_current current start = make_chunk (strip current) start (start + int (length (rstrip current)))"

definition window_step :: "int \<Rightarrow> int \<Rightarrow> string \<Rightarrow> int \<Rightarrow> int \<times> chunk_info list \<Rightarrow> int \<times> chunk_info list" where
  "window_step mx overlap para para_start = (\<lambda>(start, acc).
     let end_pos = start + mx; t = strip (py_slice para start end_pos) in
     (start + (mx - overlap),
      if t \<noteq> [] then acc @ [make_chunk t (para_start + start) (para_start + min end_pos (int (length para)))] else acc))"

definition window_loop :: "int \<Rightarrow> int \<Rightarrow> string \<Rightarrow> int \<Rightarrow> (int \<times> chunk_info list) option" where
  "window_loop mx overlap para para_start =
     while_option (\<lambda>(start, acc). start < int (length para)) (window_step mx overlap para para_start) (0, [])"

record chunk_state =
  cs_chunks :: "chunk_info list"
  cs_current :: string
  cs_start :: int
  cs_offset :: nat

definition overlap_of :: "int \<Rightarrow> string \<Rightarrow> string" where
  "overlap_of overlap current = (if int (length current) > overlap then py_from current (- overlap) else current)"

definition chunk_paragraph :: "int \<Rightarrow> int \<Rightarrow> string \<Rightarrow> string \<Rightarrow> chunk_state \<Rightarrow> chunk_state option" where
  "chunk_paragraph mx overlap text para st =
     (let para_start = (case py_find text para (cs_offset st) of Some i \<Rightarrow> i | None \<Rightarrow> cs_offset st);
          para_end = para_start + length para in
      if int (length para) > mx then
        (let saved = (if cs_current st \<noteq> [] then cs_chunks st @ [save_current (cs_current st) (cs_start st)]
                      else cs_chunks st) in
         case window_loop mx overlap para (int para_start) of
           None \<Rightarrow> None
         | Some (_, ws) \<Rightarrow> Some \<lparr>cs_chunks = saved @ ws, cs_current = [], cs_start = int para_end, cs_offset = para_end\<rparr>)
      else if int (length (cs_current st) + length para + 2) > mx \<and> cs_current st \<noteq> [] then
        (let ov = overlap_of overlap (cs_current st) in
         Some \<lparr>cs_chunks = cs_chunks st @ [save_current (cs_current st) (cs_start st)],
               cs_current = ov @ blank_line @ para, cs_start = int para_start - int (length ov), cs_offset = para_end\<rparr>)
      else if cs_current st \<noteq> [] then
        Some (st\<lparr>cs_current := cs_current st @ blank_line @ para, cs_offset := para_end\<rparr>)
      else Some (st\<lparr>cs_current := para, cs_start := int para_start, cs_offset := para_end\<rparr>))"

fun chunk_paragraphs :: "int \<Rightarrow> int \<Rightarrow> string \<Rightarrow> string list \<Rightarrow> chunk_state \<Rightarrow> chunk_state option" where
  "chunk_paragraphs mx overlap text [] st = Some st"
| "chunk_paragraphs mx overlap text (p # ps) st =
     (case chunk_paragraph mx overlap text p st of None \<Rightarrow> None | Some st' \<Rightarrow> chunk_paragraphs mx overlap text ps st')"

definition chunk_text_with_offsets :: "int \<Rightarrow> int \<Rightarrow> string \<Rightarrow> chunk_info list option" where
  "chunk_text_with_offsets mx overlap text =
     (if text = [] then Some []
      else case chunk_paragraphs mx overlap text (split_paragraphs text)
               \<lparr>cs_chunks = [], cs_current = [], cs_start = 0, cs_offset = 0\<rparr> of
        None \<Rightarrow> None
      | Some st \<Rightarrow> Some (if cs_current st \<noteq> [] then cs_chunks st @ [save_current (cs_current st) (cs_start st)]
                          else cs_chunks st))"

definition chunk_text :: "int \<Rightarrow> int \<Rightarrow> string \<Rightarrow> string list option" where
  "chunk_text mx overlap text = map_option (List.map ck_text) (chunk_text_with_offsets mx overlap text)"

definition max_chars_default :: int where
  "max_chars_default = 1500"

definition overlap_default :: int where
  "overlap_default = 200"

text \<open>Offsets are off by two for a chunk that carries an overlap: the range of the second chunk ends behind the
  18 characters of the document and starts two characters late.\<close>

lemma overlap_offset_shifted:
  "chunk_text_with_offsets 10 3 (''abcdefgh'' @ blank_line @ ''ABCDEFGH'') =
     Some [make_chunk ''abcdefgh'' 0 8, make_chunk (''fgh'' @ blank_line @ ''ABCDEFGH'') 7 20]"
  by code_simp

text \<open>A chunk can be blank, and longer than the limit.\<close>

lemma blank_chunk: "chunk_text_with_offsets 10 3 '' '' = Some [make_chunk [] 0 0]"
  by code_simp

section \<open>Termination\<close>

lemma window_loop_returns:
  assumes "overlap < mx"
  shows "\<exists>r. window_loop mx overlap para ps = Some r"
proof -
  have "\<exists>t. while_option (\<lambda>(start, acc). start < int (length para)) (window_step mx overlap para ps) (0, []) = Some t"
  proof (rule measure_while_option_Some[where P = "\<lambda>_. True" and f = "\<lambda>(start, acc). nat (int (length para) - start)"])
    fix s :: "int \<times> chunk_info list"
    assume "case s of (start, acc) \<Rightarrow> start < int (length para)"
    then show "True \<and> (case window_step mx overlap para ps s of (start, acc) \<Rightarrow> nat (int (length para) - start))
        < (case s of (start, acc) \<Rightarrow> nat (int (length para) - start))"
      using assms by (cases s) (simp add: window_step_def Let_def)
  qed simp
  then show ?thesis by (simp add: window_loop_def)
qed

lemma window_loop_diverges:
  assumes "mx \<le> overlap" and "para \<noteq> []"
  shows "window_loop mx overlap para ps = None"
proof (cases "window_loop mx overlap para ps")
  case (Some t)
  then have w: "while_option (\<lambda>(start, acc). start < int (length para)) (window_step mx overlap para ps) (0, []) = Some t"
    by (simp add: window_loop_def)
  have "fst t \<le> 0"
    by (rule while_option_rule[where P = "\<lambda>s. fst s \<le> 0", OF _ w])
      (use assms(1) in \<open>auto simp: window_step_def Let_def split: prod.splits\<close>)
  moreover have "\<not> fst t < int (length para)" using while_option_stop[OF w] by (simp add: case_prod_beta)
  moreover have "0 < int (length para)" using assms(2) by simp
  ultimately have False by linarith
  then show ?thesis ..
qed simp

lemma chunk_paragraphs_returns:
  "overlap < mx \<Longrightarrow> \<exists>st'. chunk_paragraphs mx overlap text ps st = Some st'"
proof (induction ps arbitrary: st)
  case (Cons p ps)
  obtain r where "window_loop mx overlap p
      (int (case py_find text p (cs_offset st) of Some i \<Rightarrow> i | None \<Rightarrow> cs_offset st)) = Some r"
    using window_loop_returns[OF Cons.prems] by blast
  then have "\<exists>st'. chunk_paragraph mx overlap text p st = Some st'"
    by (cases r) (simp add: chunk_paragraph_def Let_def)
  then show ?case using Cons.IH[OF Cons.prems] by auto
qed simp

lemma chunk_paragraphs_diverges:
  assumes "mx \<le> overlap" "0 \<le> mx" "\<exists>p \<in> set ps. int (length p) > mx"
  shows "chunk_paragraphs mx overlap text ps st = None"
  using assms(3)
proof (induction ps arbitrary: st)
  case (Cons p ps)
  show ?case
  proof (cases "int (length p) > mx")
    case True
    then have "p \<noteq> []" using assms(2) by auto
    then show ?thesis using True window_loop_diverges[OF assms(1)] by (simp add: chunk_paragraph_def Let_def)
  next
    case False
    then show ?thesis using Cons by (auto split: option.splits)
  qed
qed simp

lemma chunk_returns: "ov < mx \<Longrightarrow> \<exists>cs. chunk_text_with_offsets mx ov text = Some cs"
proof -
  assume lt: "ov < mx"
  obtain st' where "chunk_paragraphs mx ov text (split_paragraphs text)
      \<lparr>cs_chunks = [], cs_current = [], cs_start = 0, cs_offset = 0\<rparr> = Some st'"
    using chunk_paragraphs_returns[OF lt] by blast
  then show ?thesis by (simp add: chunk_text_with_offsets_def)
qed

lemma chunk_default_returns: "\<exists>cs. chunk_text_with_offsets max_chars_default overlap_default text = Some cs"
  by (rule chunk_returns) (simp add: overlap_default_def max_chars_default_def)

text \<open>C24: The chunker returns for every document exactly when the overlap is smaller than the chunk: then it always
  returns, otherwise it runs forever on every document with a paragraph longer than a chunk.  The defaults return.\<close>

theorem chunker_terminates:
  assumes "0 \<le> mx"
  shows "(overlap < mx \<longrightarrow> chunk_text_with_offsets mx overlap text \<noteq> None) \<and>
    (mx \<le> overlap \<and> (\<exists>p \<in> set (split_paragraphs text). int (length p) > mx) \<longrightarrow>
       chunk_text_with_offsets mx overlap text = None) \<and>
    chunk_text_with_offsets max_chars_default overlap_default text \<noteq> None"
proof -
  have div: "chunk_text_with_offsets mx overlap text = None"
    if "mx \<le> overlap" "\<exists>p \<in> set (split_paragraphs text). int (length p) > mx"
  proof -
    have "text \<noteq> []" using that(2) assms by auto
    then show ?thesis using chunk_paragraphs_diverges[OF that(1) assms that(2)] by (simp add: chunk_text_with_offsets_def)
  qed
  show ?thesis using chunk_returns[of overlap mx "text"] div chunk_default_returns[of "text"]
    by (intro conjI impI) (auto simp only:)
qed

section \<open>Every chunk is a piece of the document\<close>

lemma sublist_strip: "sublist (strip s) s"
proof -
  have "suffix (lstrip s) s" by (simp add: lstrip_def suffix_dropWhile)
  moreover have "prefix (rstrip t) t" for t
    unfolding rstrip_def by (metis suffix_dropWhile suffix_to_prefix rev_rev_ident)
  ultimately show ?thesis unfolding strip_def
    by (meson prefix_imp_sublist suffix_imp_sublist sublist_order.order_trans)
qed

lemma sublist_slice: "sublist (py_slice s a b) s"
  unfolding py_slice_def
  by (meson suffix_drop suffix_imp_sublist take_is_prefix prefix_imp_sublist sublist_order.order_trans)

lemma suffix_overlap: "suffix (overlap_of ov s) s"
  by (simp add: overlap_of_def py_from_def suffix_drop)

lemma window_loop_sublist:
  assumes "window_loop mx ov para ps = Some (e, ws)"
  shows "\<forall>c \<in> set ws. sublist (ck_text c) para"
proof -
  have w: "while_option (\<lambda>(start, acc). start < int (length para)) (window_step mx ov para ps) (0, []) = Some (e, ws)"
    using assms by (simp add: window_loop_def)
  have "\<forall>c \<in> set (snd (e, ws)). sublist (ck_text c) para"
  proof (rule while_option_rule[where P = "\<lambda>s. \<forall>c \<in> set (snd s). sublist (ck_text c) para", OF _ w])
    fix s :: "int \<times> chunk_info list"
    assume "\<forall>c \<in> set (snd s). sublist (ck_text c) para"
    moreover have "sublist (strip (py_slice para a b)) para" for a b
      using sublist_strip sublist_slice sublist_order.order_trans by blast
    ultimately show "\<forall>c \<in> set (snd (window_step mx ov para ps s)). sublist (ck_text c) para"
      by (auto simp: window_step_def Let_def make_chunk_def split: prod.splits)
  qed simp
  then show ?thesis by simp
qed

lemma window_loop_size:
  assumes "ov < mx" "0 \<le> ov" and "window_loop mx ov para ps = Some (e, ws)"
  shows "\<forall>c \<in> set ws. int (length (ck_text c)) \<le> mx"
proof -
  have w: "while_option (\<lambda>(start, acc). start < int (length para)) (window_step mx ov para ps) (0, []) = Some (e, ws)"
    using assms(3) by (simp add: window_loop_def)
  have sl: "int (length (strip (py_slice para a (a + mx)))) \<le> mx" if "0 \<le> a" for a
  proof -
    have "int (length (py_slice para a (a + mx))) \<le> mx" using that assms(1,2) by (auto simp: py_slice_def clip_def)
    then show ?thesis using length_strip[of "py_slice para a (a + mx)"] by linarith
  qed
  have "0 \<le> fst (e, ws) \<and> (\<forall>c \<in> set (snd (e, ws)). int (length (ck_text c)) \<le> mx)"
    by (rule while_option_rule[where P = "\<lambda>s. 0 \<le> fst s \<and> (\<forall>c \<in> set (snd s). int (length (ck_text c)) \<le> mx)", OF _ w])
      (use sl assms(1) in \<open>auto simp: window_step_def Let_def make_chunk_def split: prod.splits if_splits\<close>)
  then show ?thesis by simp
qed

text \<open>The paragraphs of a document after the first, as they follow in the text.\<close>

fun tail_text :: "string list \<Rightarrow> string" where
  "tail_text [] = []"
| "tail_text (p # ps) = blank_line @ p @ tail_text ps"

lemma split_paragraphs_text:
  "\<exists>p ps. split_paragraphs s = p # ps \<and> s = p @ tail_text ps"
proof (induction s rule: split_paragraphs.induct)
  case (3 c d s)
  show ?case
  proof (cases "c = CHR 0x0A \<and> d = CHR 0x0A")
    case True
    then show ?thesis using 3(1) by (auto simp: blank_line_def)
  next
    case False
    then show ?thesis using 3(2) by auto
  qed
qed simp_all

definition chunks_in :: "int \<Rightarrow> string \<Rightarrow> chunk_info list \<Rightarrow> bool" where
  "chunks_in n doc cs \<longleftrightarrow> (\<forall>c \<in> set cs. sublist (ck_text c) doc \<and> int (length (ck_text c)) \<le> n \<and>
     ck_chars c = length (ck_text c) \<and> ck_tokens c = estimate_tokens (ck_text c))"

lemma chunks_in_mono: "chunks_in n doc cs \<Longrightarrow> sublist doc doc' \<Longrightarrow> chunks_in n doc' cs"
  unfolding chunks_in_def by (meson sublist_order.order_trans)

lemma chunks_in_append [simp]: "chunks_in n doc (xs @ ys) \<longleftrightarrow> chunks_in n doc xs \<and> chunks_in n doc ys"
  by (auto simp: chunks_in_def)

lemma chunks_in_saved:
  "suffix cur doc \<Longrightarrow> int (length cur) \<le> n \<Longrightarrow> chunks_in n doc [save_current cur a]"
  using length_strip[of cur] sublist_strip[of cur] suffix_imp_sublist[of cur doc]
  by (auto simp: chunks_in_def save_current_def make_chunk_def intro: sublist_order.order_trans)

lemma window_loop_made:
  assumes "window_loop mx ov para ps = Some (e, ws)"
  shows "\<forall>c \<in> set ws. ck_chars c = length (ck_text c) \<and> ck_tokens c = estimate_tokens (ck_text c)"
proof -
  have w: "while_option (\<lambda>(start, acc). start < int (length para)) (window_step mx ov para ps) (0, []) = Some (e, ws)"
    using assms by (simp add: window_loop_def)
  have "\<forall>c \<in> set (snd (e, ws)). ck_chars c = length (ck_text c) \<and> ck_tokens c = estimate_tokens (ck_text c)"
    by (rule while_option_rule[where P = "\<lambda>s. \<forall>c \<in> set (snd s). ck_chars c = length (ck_text c) \<and>
        ck_tokens c = estimate_tokens (ck_text c)", OF _ w])
      (auto simp: window_step_def Let_def make_chunk_def split: prod.splits if_splits)
  then show ?thesis by simp
qed

lemma chunks_in_windows:
  "ov < mx \<Longrightarrow> 0 \<le> ov \<Longrightarrow> window_loop mx ov para ps = Some (e, ws) \<Longrightarrow> suffix para doc \<Longrightarrow> mx \<le> n \<Longrightarrow>
     chunks_in n doc ws"
  using window_loop_sublist[of mx ov para ps e ws] window_loop_size[of ov mx para ps e ws]
    window_loop_made[of mx ov para ps e ws] suffix_imp_sublist[of para doc]
  unfolding chunks_in_def by (meson order_trans sublist_order.order_trans)

lemma length_overlap: "0 < ov \<Longrightarrow> int (length (overlap_of ov s)) \<le> ov"
  by (auto simp: overlap_of_def py_from_def clip_def)

lemma save_in_mono:
  "suffix cur doc \<Longrightarrow> int (length cur) \<le> n \<Longrightarrow> sublist doc doc' \<Longrightarrow> chunks_in n doc' [save_current cur a]"
  using chunks_in_mono[OF chunks_in_saved] by blast

lemma chunk_paragraph_in:
  assumes "chunk_paragraph mx ov text p st = Some st'" "0 < ov" "ov < mx"
    and "suffix (cs_current st) doc" "int (length (cs_current st)) \<le> mx + ov + 2" "chunks_in (mx + ov + 2) doc (cs_chunks st)"
    and "doc' = doc @ blank_line @ p \<or> cs_current st = [] \<and> cs_chunks st = [] \<and> doc' = p"
  shows "suffix (cs_current st') doc' \<and> int (length (cs_current st')) \<le> mx + ov + 2 \<and>
    chunks_in (mx + ov + 2) doc' (cs_chunks st')"
proof -
  have sp: "suffix p doc'" using assms(7) by (auto simp: suffix_def)
  have sub: "cs_chunks st = [] \<and> cs_current st = [] \<or> sublist doc doc'" using assms(7) by (auto simp: prefix_imp_sublist)
  have old: "chunks_in (mx + ov + 2) doc' (cs_chunks st)"
    using sub chunks_in_mono[OF assms(6)] by (auto simp: chunks_in_def)
  have sv: "chunks_in (mx + ov + 2) doc' [save_current (cs_current st) a]" if "cs_current st \<noteq> []" for a
    using save_in_mono[OF assms(4,5)] sub that by blast
  have app: "suffix (cur @ blank_line @ p) doc'" if "suffix cur (cs_current st)" "cs_current st \<noteq> []" for cur
  proof -
    have d: "doc' = doc @ blank_line @ p" using assms(7) that(2) by blast
    have "suffix cur doc" using that(1) assms(4) suffix_order.order_trans by blast
    then show ?thesis unfolding d by (simp add: suffix_def)
  qed
  obtain o1 where o1: "o1 = (case py_find text p (cs_offset st) of Some i \<Rightarrow> i | None \<Rightarrow> cs_offset st)" by simp
  note c = assms(1)[unfolded chunk_paragraph_def Let_def, folded o1]
  consider (large) "int (length p) > mx"
    | (full) "int (length p) \<le> mx" "int (length (cs_current st) + length p + 2) > mx" "cs_current st \<noteq> []"
    | (add) "int (length p) \<le> mx" "int (length (cs_current st) + length p + 2) \<le> mx" "cs_current st \<noteq> []"
    | (new) "int (length p) \<le> mx" "cs_current st = []" by linarith
  then show ?thesis
  proof cases
    case large
    obtain e ws where w: "window_loop mx ov p (int o1) = Some (e, ws)" using c large by (auto split: option.splits)
    have "chunks_in (mx + ov + 2) doc' ws" by (rule chunks_in_windows[OF _ _ w sp]) (use assms in auto)
    then show ?thesis using c large w old sv[of "cs_start st"] assms by auto
  next
    case full
    have l: "int (length (overlap_of ov (cs_current st) @ blank_line @ p)) \<le> mx + ov + 2"
      using length_overlap[OF assms(2), of "cs_current st"] full(1) by (simp add: blank_line_def)
    show ?thesis using c full old sv[OF full(3), of "cs_start st"] app[OF suffix_overlap full(3)] l by auto
  next
    case add
    show ?thesis using c add old app[of "cs_current st"] assms(2,3) by (auto simp: blank_line_def)
  next
    case new
    show ?thesis using c new old sp assms(2,3) by auto
  qed
qed

lemma chunk_paragraphs_in:
  assumes "chunk_paragraphs mx ov text ps st = Some st'" "0 < ov" "ov < mx"
    and "suffix (cs_current st) doc" "int (length (cs_current st)) \<le> mx + ov + 2" "chunks_in (mx + ov + 2) doc (cs_chunks st)"
  shows "suffix (cs_current st') (doc @ tail_text ps) \<and> int (length (cs_current st')) \<le> mx + ov + 2 \<and>
    chunks_in (mx + ov + 2) (doc @ tail_text ps) (cs_chunks st')"
  using assms
proof (induction ps arbitrary: st doc)
  case (Cons p ps)
  obtain st1 where s: "chunk_paragraph mx ov text p st = Some st1" "chunk_paragraphs mx ov text ps st1 = Some st'"
    using Cons.prems(1) by (auto split: option.splits)
  from chunk_paragraph_in[OF s(1) Cons.prems(2-6), of "doc @ blank_line @ p"]
  have "suffix (cs_current st1) (doc @ blank_line @ p) \<and> int (length (cs_current st1)) \<le> mx + ov + 2 \<and>
    chunks_in (mx + ov + 2) (doc @ blank_line @ p) (cs_chunks st1)" by simp
  then show ?case using Cons.IH[OF s(2) Cons.prems(2,3), of "doc @ blank_line @ p"] by simp
qed simp

text \<open>C25: Every chunk is a contiguous piece of the document, its counts are those of its text, and its length is at most
  the limit plus the overlap plus the blank line between them; the limit alone does not bound it.\<close>

theorem chunks_bounded:
  assumes "0 < ov" "ov < mx" and "chunk_text_with_offsets mx ov text = Some cs"
  shows "chunks_in (mx + ov + 2) text cs"
proof (cases "text = []")
  case True
  then show ?thesis using assms(3) by (simp add: chunk_text_with_offsets_def chunks_in_def)
next
  case False
  obtain p ps where t: "split_paragraphs text = p # ps" "text = p @ tail_text ps" using split_paragraphs_text by blast
  let ?st = "\<lparr>cs_chunks = [], cs_current = [], cs_start = 0, cs_offset = 0\<rparr>"
  obtain st1 st' where s: "chunk_paragraph mx ov text p ?st = Some st1" "chunk_paragraphs mx ov text ps st1 = Some st'"
    and cs: "cs = (if cs_current st' \<noteq> [] then cs_chunks st' @ [save_current (cs_current st') (cs_start st')] else cs_chunks st')"
    using assms(3) False by (auto simp: chunk_text_with_offsets_def t(1) split: option.splits)
  have "suffix (cs_current st1) p \<and> int (length (cs_current st1)) \<le> mx + ov + 2 \<and> chunks_in (mx + ov + 2) p (cs_chunks st1)"
    by (rule chunk_paragraph_in[where doc = "[]", OF s(1) assms(1,2)]) (use assms(1,2) in \<open>auto simp: chunks_in_def\<close>)
  then have "suffix (cs_current st') text \<and> int (length (cs_current st')) \<le> mx + ov + 2 \<and> chunks_in (mx + ov + 2) text (cs_chunks st')"
    using chunk_paragraphs_in[OF s(2) assms(1,2), of p] t(2) by simp
  then show ?thesis using cs chunks_in_saved[of "cs_current st'" "text" "mx + ov + 2" "cs_start st'"] by auto
qed

section \<open>No text is lost\<close>

lemma dropWhile_keep: "s \<noteq> [] \<Longrightarrow> \<not> P (hd s) \<Longrightarrow> \<exists>u. dropWhile P (x @ s @ y) = u @ s @ y"
proof (induction x)
  case Nil
  then show ?case by (cases s) auto
next
  case (Cons a x)
  then show ?case by (cases "P a") (auto intro: exI[of _ "a # x"])
qed

lemma strip_Nil [simp]: "strip [] = []"
  by (simp add: strip_def lstrip_def rstrip_def)

lemma strip_decomp:
  assumes "strip p \<noteq> []"
  obtains l r where "p = l @ strip p @ r" "\<not> is_space (hd (strip p))" "\<not> is_space (last (strip p))"
proof -
  have l: "\<exists>l. p = l @ lstrip p" by (metis lstrip_def takeWhile_dropWhile_id)
  have r: "\<exists>r. t = rstrip t @ r" for t
    unfolding rstrip_def by (metis rev_append rev_rev_ident takeWhile_dropWhile_id)
  obtain l where lr1: "p = l @ lstrip p" using l by blast
  obtain r where lr2: "lstrip p = strip p @ r" using r[of "lstrip p"] unfolding strip_def by blast
  have ne: "lstrip p \<noteq> []" using assms by (metis strip_Nil strip_def lstrip_def dropWhile.simps(1))
  have "\<not> is_space (hd (lstrip p))" using ne hd_dropWhile by (metis lstrip_def)
  then have h: "\<not> is_space (hd (strip p))" using lr2 assms by (metis hd_append2)
  have "\<not> is_space (last (strip p))"
    using assms unfolding strip_def rstrip_def by (metis hd_dropWhile hd_rev rev_is_Nil_conv rev_rev_ident)
  moreover have "p = l @ strip p @ r" using lr1 lr2 by metis
  ultimately show thesis using that h by blast
qed

lemma strip_inside:
  assumes "strip p \<noteq> []" shows "sublist (strip p) (strip (x @ p @ y))"
proof -
  obtain l r where d: "p = l @ strip p @ r" "\<not> is_space (hd (strip p))" "\<not> is_space (last (strip p))"
    using strip_decomp[OF assms] .
  obtain u where u: "lstrip (x @ p @ y) = u @ strip p @ r @ y"
    using dropWhile_keep[of "strip p" is_space "x @ l" "r @ y"] assms d(1,2) unfolding lstrip_def
    by (metis append.assoc)
  have "\<not> is_space (hd (rev (strip p)))" using d(3) assms by (simp add: hd_rev)
  then obtain v where "dropWhile is_space (rev y @ rev r @ rev (strip p) @ rev u) = v @ rev (strip p) @ rev u"
    using dropWhile_keep[of "rev (strip p)" is_space "rev y @ rev r" "rev u"] assms by auto
  then have "rstrip (u @ strip p @ r @ y) = u @ strip p @ rev v" by (simp add: rstrip_def)
  then show ?thesis unfolding strip_def[of "x @ p @ y"] u by (simp add: sublist_def) blast
qed

text \<open>What it means that the chunks hold a paragraph: a small one is inside a chunk, of a large one every position is
  in a window whose text, unless blank, is a chunk.\<close>

definition window_holds :: "int \<Rightarrow> string \<Rightarrow> chunk_info list \<Rightarrow> int \<Rightarrow> bool" where
  "window_holds mx p cs a \<longleftrightarrow>
     strip (py_slice p a (a + mx)) = [] \<or> (\<exists>c \<in> set cs. ck_text c = strip (py_slice p a (a + mx)))"

definition position_held :: "int \<Rightarrow> string \<Rightarrow> chunk_info list \<Rightarrow> int \<Rightarrow> bool" where
  "position_held mx p cs i \<longleftrightarrow> (\<exists>a. 0 \<le> a \<and> a \<le> i \<and> i < a + mx \<and> window_holds mx p cs a)"

definition held :: "int \<Rightarrow> string \<Rightarrow> chunk_info list \<Rightarrow> bool" where
  "held mx p cs \<longleftrightarrow>
     (if int (length p) \<le> mx then \<exists>c \<in> set cs. sublist (strip p) (ck_text c)
      else \<forall>i. 0 \<le> i \<and> i < int (length p) \<longrightarrow> position_held mx p cs i)"

lemma window_holds_mono: "window_holds mx p cs a \<Longrightarrow> set cs \<subseteq> set cs' \<Longrightarrow> window_holds mx p cs' a"
  by (auto simp: window_holds_def)

lemma position_held_mono: "position_held mx p cs i \<Longrightarrow> set cs \<subseteq> set cs' \<Longrightarrow> position_held mx p cs' i"
  unfolding position_held_def using window_holds_mono by blast

lemma held_mono: "held mx p cs \<Longrightarrow> set cs \<subseteq> set cs' \<Longrightarrow> held mx p cs'"
  using position_held_mono[of mx p cs _ cs'] by (auto simp: held_def split: if_splits)

lemma window_loop_holds:
  assumes "0 \<le> ov" "ov < mx" "window_loop mx ov p ps = Some (e, ws)" "int (length p) > mx"
  shows "held mx p ws"
proof -
  have w: "while_option (\<lambda>(start, acc). start < int (length p)) (window_step mx ov p ps) (0, []) = Some (e, ws)"
    using assms(3) by (simp add: window_loop_def)
  have inv: "0 \<le> fst (e, ws) \<and> (\<forall>i. 0 \<le> i \<and> i < fst (e, ws) \<longrightarrow> position_held mx p (snd (e, ws)) i)"
  proof (rule while_option_rule[where P = "\<lambda>s. 0 \<le> fst s \<and>
      (\<forall>i. 0 \<le> i \<and> i < fst s \<longrightarrow> position_held mx p (snd s) i)", OF _ w])
    fix s :: "int \<times> chunk_info list"
    assume i: "0 \<le> fst s \<and> (\<forall>i. 0 \<le> i \<and> i < fst s \<longrightarrow> position_held mx p (snd s) i)"
    obtain a acc where s: "s = (a, acc)" by fastforce
    obtain acc' where acc': "window_step mx ov p ps s = (a + (mx - ov), acc')" "set acc \<subseteq> set acc'"
      "window_holds mx p acc' a"
      unfolding s window_step_def Let_def window_holds_def
      by (cases "strip (py_slice p a (a + mx)) = []") (auto simp: make_chunk_def)
    have "position_held mx p acc' i" if "0 \<le> i" "i < a + (mx - ov)" for i
    proof (cases "i < a")
      case True
      then have "position_held mx p acc i" using i that(1) s by simp
      then show ?thesis using acc'(2) position_held_mono by blast
    next
      case False
      then show ?thesis using acc'(3) that i s assms(1) unfolding position_held_def by (intro exI[of _ a]) simp
    qed
    then show "0 \<le> fst (window_step mx ov p ps s) \<and> (\<forall>i. 0 \<le> i \<and> i < fst (window_step mx ov p ps s) \<longrightarrow>
        position_held mx p (snd (window_step mx ov p ps s)) i)"
      using i s assms(2) acc'(1) by simp
  qed auto
  have "\<not> e < int (length p)" using while_option_stop[OF w] by simp
  then show ?thesis using inv assms(4) by (simp add: held_def)
qed

definition kept :: "int \<Rightarrow> chunk_state \<Rightarrow> string \<Rightarrow> bool" where
  "kept mx st q \<longleftrightarrow> strip q = [] \<or> held mx q (cs_chunks st) \<or> (int (length q) \<le> mx \<and> (\<exists>x y. cs_current st = x @ q @ y))"

lemma held_saved:
  assumes "strip q \<noteq> []" "int (length q) \<le> mx" "cur = x @ q @ y"
  shows "held mx q (cs @ [save_current cur a])"
  using strip_inside[OF assms(1), of x y] assms(2,3) by (auto simp: held_def save_current_def make_chunk_def)

lemma kept_saved:
  assumes "kept mx st q" "set (cs_chunks st @ [save_current (cs_current st) a]) \<subseteq> set cs"
  shows "strip q = [] \<or> held mx q cs"
  using assms held_saved held_mono unfolding kept_def by (metis append_is_Nil_conv le_sup_iff set_append)

lemma chunk_paragraph_keeps:
  assumes "chunk_paragraph mx ov text p st = Some st'" "0 \<le> ov" "ov < mx"
  shows "kept mx st' p \<and> (\<forall>q. kept mx st q \<longrightarrow> kept mx st' q)"
proof -
  obtain o1 where o1: "o1 = (case py_find text p (cs_offset st) of Some i \<Rightarrow> i | None \<Rightarrow> cs_offset st)" by simp
  note c = assms(1)[unfolded chunk_paragraph_def Let_def, folded o1]
  consider (large) "int (length p) > mx"
    | (full) "int (length p) \<le> mx" "int (length (cs_current st) + length p + 2) > mx" "cs_current st \<noteq> []"
    | (add) "int (length p) \<le> mx" "int (length (cs_current st) + length p + 2) \<le> mx" "cs_current st \<noteq> []"
    | (new) "int (length p) \<le> mx" "cs_current st = []" by linarith
  then show ?thesis
  proof cases
    case large
    obtain e ws where w: "window_loop mx ov p (int o1) = Some (e, ws)" using c large by (auto split: option.splits)
    have h: "held mx p ws" by (rule window_loop_holds[OF assms(2,3) w large])
    have cs: "cs_chunks st' = (if cs_current st \<noteq> [] then cs_chunks st @ [save_current (cs_current st) (cs_start st)]
        else cs_chunks st) @ ws" using c large w by auto
    have "held mx p (cs_chunks st')" using held_mono[OF h] cs by auto
    moreover have "kept mx st' q" if k: "kept mx st q" for q
    proof (cases "cs_current st = []")
      case True
      then show ?thesis using k cs held_mono[of mx q "cs_chunks st" "cs_chunks st'"] by (auto simp: kept_def)
    next
      case False
      then show ?thesis using kept_saved[OF k, of "cs_start st" "cs_chunks st'"] cs by (auto simp: kept_def)
    qed
    ultimately show ?thesis by (simp add: kept_def)
  next
    case full
    have st': "cs_chunks st' = cs_chunks st @ [save_current (cs_current st) (cs_start st)]"
      "cs_current st' = overlap_of ov (cs_current st) @ blank_line @ p" using c full by auto
    have "kept mx st' q" if k: "kept mx st q" for q
      using kept_saved[OF k, of "cs_start st" "cs_chunks st'"] st' by (auto simp: kept_def)
    moreover have "kept mx st' p" using full(1) st'(2) unfolding kept_def by (metis append.assoc append_Nil2)
    ultimately show ?thesis by blast
  next
    case add
    have st': "cs_chunks st' = cs_chunks st" "cs_current st' = cs_current st @ blank_line @ p" using c add by auto
    have "kept mx st' q" if "kept mx st q" for q using that st' unfolding kept_def by (metis append.assoc)
    moreover have "kept mx st' p" using add(1) st'(2) unfolding kept_def by (metis append.assoc append_Nil2)
    ultimately show ?thesis by blast
  next
    case new
    have st': "cs_chunks st' = cs_chunks st" "cs_current st' = p" using c new by auto
    have "kept mx st' p" using new(1) st'(2) unfolding kept_def by (metis append_Nil append_Nil2)
    then show ?thesis using st' new(2) by (auto simp: kept_def)
  qed
qed

lemma chunk_paragraphs_keeps:
  "chunk_paragraphs mx ov text ps st = Some st' \<Longrightarrow> 0 \<le> ov \<Longrightarrow> ov < mx \<Longrightarrow>
     (\<forall>p \<in> set ps. kept mx st' p) \<and> (\<forall>q. kept mx st q \<longrightarrow> kept mx st' q)"
proof (induction ps arbitrary: st)
  case (Cons p ps)
  obtain st1 where s: "chunk_paragraph mx ov text p st = Some st1" "chunk_paragraphs mx ov text ps st1 = Some st'"
    using Cons.prems(1) by (auto split: option.splits)
  show ?case using chunk_paragraph_keeps[OF s(1) Cons.prems(2,3)] Cons.IH[OF s(2) Cons.prems(2,3)] by auto
qed simp

text \<open>C26: Chunking loses no text: every paragraph that is not blank is found whole, without its outer white space, inside
  one chunk when it fits, and otherwise every one of its positions lies in a window that is a chunk or blank.\<close>

theorem chunks_cover:
  assumes "0 \<le> ov" "ov < mx" and "chunk_text_with_offsets mx ov text = Some cs"
    and "p \<in> set (split_paragraphs text)" "strip p \<noteq> []"
  shows "held mx p cs"
proof -
  have ne: "text \<noteq> []" using assms(4,5) by (auto simp: strip_def lstrip_def rstrip_def)
  let ?st = "\<lparr>cs_chunks = [], cs_current = [], cs_start = 0, cs_offset = 0\<rparr>"
  obtain st' where s: "chunk_paragraphs mx ov text (split_paragraphs text) ?st = Some st'"
    and cs: "cs = (if cs_current st' \<noteq> [] then cs_chunks st' @ [save_current (cs_current st') (cs_start st')] else cs_chunks st')"
    using assms(3) ne by (auto simp: chunk_text_with_offsets_def split: option.splits)
  have k: "kept mx st' p" using chunk_paragraphs_keeps[OF s assms(1,2)] assms(4) by blast
  show ?thesis
  proof (cases "cs_current st' = []")
    case True
    then show ?thesis using k cs assms(5) by (auto simp: kept_def)
  next
    case False
    then show ?thesis using kept_saved[OF k, of "cs_start st'" cs] cs assms(5) by auto
  qed
qed

section \<open>Concrete instances\<close>

definition demo_text :: string where
  "demo_text = ''abcdefgh'' @ blank_line @ ''ABCDEFGH''"

lemma demo_chunks: "chunk_text_with_offsets 10 3 demo_text =
    Some [make_chunk ''abcdefgh'' 0 8, make_chunk (''fgh'' @ blank_line @ ''ABCDEFGH'') 7 20]"
  unfolding demo_text_def by (rule overlap_offset_shifted)

theorem chunker_terminates_witness:
  "chunk_text_with_offsets 10 3 demo_text \<noteq> None \<and> chunk_text_with_offsets 5 5 demo_text = None"
proof -
  have "\<exists>p \<in> set (split_paragraphs demo_text). int (length p) > 5" by code_simp
  then show ?thesis using chunker_terminates[of 10 3 demo_text] chunker_terminates[of 5 5 demo_text] by simp
qed

theorem chunks_bounded_witness:
  "chunks_in (10 + 3 + 2) demo_text [make_chunk ''abcdefgh'' 0 8, make_chunk (''fgh'' @ blank_line @ ''ABCDEFGH'') 7 20]"
  by (rule chunks_bounded[OF _ _ demo_chunks]) simp_all

theorem chunks_cover_witness:
  "held 10 ''ABCDEFGH'' [make_chunk ''abcdefgh'' 0 8, make_chunk (''fgh'' @ blank_line @ ''ABCDEFGH'') 7 20]"
proof -
  have "''ABCDEFGH'' \<in> set (split_paragraphs demo_text)" "strip ''ABCDEFGH'' \<noteq> []" by code_simp+
  then show ?thesis using chunks_cover[OF _ _ demo_chunks] by simp
qed

end
