(* ===== verification/KbIngest.thy ===== *)
theory KbIngest
  imports AuthApi Chunker VaultCrypto
begin

text \<open>
  Ingestion into the knowledge base: the document handlers of \<open>apps/nexus_api/routers/kb.py\<close>, the worker's
  pipeline \<open>_embed_document\<close> and \<open>_ingest_url\<close> of \<open>apps/nexus_worker/jobs.py\<close> and the recovery of
  \<open>apps/nexus_worker/startup.py\<close>, on the tables \<open>kb_sources\<close>, \<open>kb_documents\<close>, \<open>kb_chunks\<close> and
  \<open>kb_embeddings\<close>, the object store and the job queue.  The embedding model, the PDF reader, the hash, the
  lenient UTF-8 decoder and HTTP are arguments.  A component of a vector is an integer: only its length is
  looked at, by the column \<open>Vector(384)\<close>.
\<close>

section \<open>Tables\<close>

record kb_document =
  kd_id :: int
  kd_source_id :: int
  kd_namespace :: string
  kd_title :: string
  kd_content_type :: string
  kd_object_key :: string
  kd_bytes_size :: int
  kd_checksum :: "string option"
  kd_meta :: "dict option"
  kd_status :: string
  kd_error :: "string option"
  kd_version :: int

record kb_chunk =
  kk_id :: int
  kk_document_id :: int
  kk_index :: nat
  kk_info :: chunk_info

record kb_embedding =
  ke_chunk_id :: int
  ke_vector :: "int list"
  ke_model :: string

record kb_source =
  ks_id :: int
  ks_name :: string
  ks_kind :: string

record kb_job =
  kj_func :: string
  kj_args :: dict
  kj_job_id :: string

record kb_db =
  kb_sources :: "kb_source list"
  kb_docs :: "kb_document list"
  kb_chunks :: "kb_chunk list"
  kb_embeds :: "kb_embedding list"
  kb_next_chunk :: int
  kb_objects :: "(string \<times> bytes) list"
  kb_queue :: "kb_job list"

record ingest_env =
  ig_storage_up :: bool
  ig_pdf :: "bytes \<Rightarrow> string list res"
  ig_decode :: "bytes \<Rightarrow> string"
  ig_sha :: "bytes \<Rightarrow> string"
  ig_embed :: "string list \<Rightarrow> int list list res"
  ig_model :: string
  ig_provider :: string
  ig_dim :: int
  ig_fail_stage :: "string option"

definition doc_by_id :: "kb_db \<Rightarrow> int \<Rightarrow> kb_document option" where
  "doc_by_id db i = select_first (\<lambda>d. kd_id d = i) (kb_docs db)"

definition set_doc :: "int \<Rightarrow> (kb_document \<Rightarrow> kb_document) \<Rightarrow> kb_db \<Rightarrow> kb_db" where
  "set_doc i f db = db\<lparr>kb_docs := table_update kd_id i f (kb_docs db)\<rparr>"

definition storage_error :: exn where
  "storage_error = PyError ''EndpointConnectionError'' []"

definition storage_get :: "ingest_env \<Rightarrow> string \<Rightarrow> kb_db \<Rightarrow> bytes res" where
  "storage_get env key db = (if \<not> ig_storage_up env then Inl storage_error
     else of_opt (PyError ''NoSuchKey'' key) (map_of (kb_objects db) key))"

definition storage_put :: "ingest_env \<Rightarrow> string \<Rightarrow> bytes \<Rightarrow> kb_db \<Rightarrow> kb_db res" where
  "storage_put env key data db = (if \<not> ig_storage_up env then Inl storage_error
     else Inr (db\<lparr>kb_objects := dset key data (kb_objects db)\<rparr>))"

definition enqueue_job :: "string \<Rightarrow> dict \<Rightarrow> string \<Rightarrow> kb_db \<Rightarrow> kb_db" where
  "enqueue_job func args job_id db = db\<lparr>kb_queue := kb_queue db @ [\<lparr>kj_func = func, kj_args = args, kj_job_id = job_id\<rparr>]\<rparr>"

definition enqueue_embed :: "int \<Rightarrow> string \<Rightarrow> kb_db \<Rightarrow> kb_db" where
  "enqueue_embed i job_id db =
     enqueue_job ''apps.nexus_worker.jobs.embed_document'' [(''document_id'', JInt i)] job_id db"

section \<open>The pipeline\<close>

type_synonym kb_emitted = "(string \<times> dict) list"

text \<open>How the stages before the index end: the unchanged document, an exception (with the checksum the session holds
  by then), or the chunks with their vectors and the number of chunks.\<close>

datatype stages =
    Skipped
  | Raised exn "string option"
  | Embedded string "(chunk_info \<times> int list) list" nat

definition extract_text :: "ingest_env \<Rightarrow> kb_document \<Rightarrow> kb_db \<Rightarrow> string res" where
  "extract_text env doc db =
     bind_res (storage_get env (kd_object_key doc) db) (\<lambda>raw.
       if kd_content_type doc = ''application/pdf''
       then bind_res (ig_pdf env raw) (\<lambda>pages. Inr (concat (List.map (\<lambda>p. p @ [CHR 0x0A]) pages)))
       else Inr (ig_decode env raw))"

definition forced_failure :: "ingest_env \<Rightarrow> string \<Rightarrow> bool" where
  "forced_failure env stage \<longleftrightarrow> ig_fail_stage env = Some stage"

definition run_stages :: "ingest_env \<Rightarrow> kb_document \<Rightarrow> kb_db \<Rightarrow> (kb_emitted \<times> stages) option" where
  "run_stages env doc db =
     (let did = (''document_id'', JInt (kd_id doc)) in
      case extract_text env doc db of
        Inl e \<Rightarrow> Some ([], Raised e (kd_checksum doc))
      | Inr t \<Rightarrow>
         (let h = ig_sha env (utf8_encode t) in
          if kd_checksum doc = Some h \<and> kd_status doc = ''ready''
          then Some ([(''kb.document.indexed'', [did, (''skipped'', JBool True), (''reason'', JStr ''checksum_match'')])], Skipped)
          else case chunk_text_with_offsets max_chars_default overlap_default t of
            None \<Rightarrow> None
          | Some infos \<Rightarrow>
             (let ev2 = [(''kb.document.text_extracted'', [did, (''text_length'', JInt (int (length t)))]),
                         (''kb.document.chunked'', [did, (''chunk_count'', JInt (int (length infos)))])] in
              if forced_failure env ''chunk'' then Some (ev2, Raised (PyError ''RuntimeError'' ''TEST: forced chunk failure'') (Some h))
              else case ig_embed env (List.map ck_text infos) of
                Inl e \<Rightarrow> Some (ev2, Raised e (Some h))
              | Inr vs \<Rightarrow>
                 (let ev3 = ev2 @ [(''kb.document.embedded'', [did, (''chunk_count'', JInt (int (length vs))),
                         (''model'', JStr (ig_model env))])] in
                  if forced_failure env ''embed'' then Some (ev3, Raised (PyError ''RuntimeError'' ''TEST: forced embed failure'') (Some h))
                  else Some (ev3, Embedded h (zip infos vs) (length infos))))))"

definition new_chunks :: "int \<Rightarrow> int \<Rightarrow> (chunk_info \<times> int list) list \<Rightarrow> kb_chunk list" where
  "new_chunks did first ps = List.map (\<lambda>i. \<lparr>kk_id = first + int i, kk_document_id = did, kk_index = i,
     kk_info = fst (ps ! i)\<rparr>) [0..<length ps]"

definition new_embeds :: "int \<Rightarrow> string \<Rightarrow> (chunk_info \<times> int list) list \<Rightarrow> kb_embedding list" where
  "new_embeds first model ps = List.map (\<lambda>i. \<lparr>ke_chunk_id = first + int i, ke_vector = snd (ps ! i), ke_model = model\<rparr>)
     [0..<length ps]"

definition drop_chunks :: "int \<Rightarrow> kb_db \<Rightarrow> kb_db" where
  "drop_chunks did db =
     (let old = List.map kk_id (filter (\<lambda>k. kk_document_id k = did) (kb_chunks db)) in
      db\<lparr>kb_embeds := delete_rows (\<lambda>e. ke_chunk_id e \<in> set old) (kb_embeds db),
         kb_chunks := delete_rows (\<lambda>k. kk_document_id k = did) (kb_chunks db)\<rparr>)"

text \<open>The metadata column is a plain JSON column: a dictionary that is already there is changed in place, which the
  session does not notice, so only a new dictionary reaches the database.\<close>

definition embedding_meta :: "ingest_env \<Rightarrow> dict" where
  "embedding_meta env = [(''embedding_model'', JStr (ig_model env)), (''embedding_provider'', JStr (ig_provider env)),
     (''embedding_dimension'', JInt (ig_dim env))]"

definition stored_meta :: "ingest_env \<Rightarrow> dict option \<Rightarrow> dict option" where
  "stored_meta env m = (if m \<in> {None, Some []} then Some (embedding_meta env) else m)"

definition index_chunks :: "ingest_env \<Rightarrow> kb_document \<Rightarrow> string \<Rightarrow> (chunk_info \<times> int list) list \<Rightarrow> kb_db \<Rightarrow> kb_db" where
  "index_chunks env doc h ps db =
     (let db1 = drop_chunks (kd_id doc) db; first = kb_next_chunk db1 in
      set_doc (kd_id doc) (\<lambda>d. d\<lparr>kd_checksum := Some h, kd_meta := stored_meta env (kd_meta d),
          kd_status := ''ready'', kd_version := kd_version d + 1\<rparr>)
        (db1\<lparr>kb_chunks := kb_chunks db1 @ new_chunks (kd_id doc) first ps,
             kb_embeds := kb_embeds db1 @ new_embeds first (ig_model env) ps,
             kb_next_chunk := first + int (length ps)\<rparr>))"

definition exn_repr :: "exn \<Rightarrow> string" where
  "exn_repr e = (case e of HTTPException n d \<Rightarrow> ''HTTPException: '' @ str_int n @ '': '' @ d
     | SoRValidationError d c \<Rightarrow> ''SoRValidationError: '' @ d | PyError k m \<Rightarrow> k @ '': '' @ m)"

definition mark_failed :: "kb_document \<Rightarrow> exn \<Rightarrow> string option \<Rightarrow> kb_db \<Rightarrow> kb_db" where
  "mark_failed doc e checksum db = set_doc (kd_id doc)
     (\<lambda>d. d\<lparr>kd_checksum := checksum, kd_status := ''failed'', kd_error := Some (take 2000 (exn_repr e))\<rparr>) db"

text \<open>A vector that does not fit its column makes a flush fail; the session is then unusable, so the commit of the
  failure status raises too and the document stays as the first commit left it.\<close>

definition vectors_fit :: "(chunk_info \<times> int list) list \<Rightarrow> bool" where
  "vectors_fit ps \<longleftrightarrow> (\<forall>p \<in> set ps. length (snd p) = 384)"

definition embed_document :: "ingest_env \<Rightarrow> int \<Rightarrow> kb_db \<Rightarrow> (unit res \<times> kb_emitted \<times> kb_db) option" where
  "embed_document env i db =
     (case doc_by_id db i of
        None \<Rightarrow> Some (Inr (), [], db)
      | Some d \<Rightarrow>
         (let doc = d\<lparr>kd_status := ''processing'', kd_error := None\<rparr>;
              db1 = set_doc i (\<lambda>_. doc) db;
              did = (''document_id'', JInt i);
              ev1 = [(''kb.document.ingest_started'', [did, (''title'', JStr (kd_title doc)), (''content_type'', JStr (kd_content_type doc))])] in
          case run_stages env doc db1 of
            None \<Rightarrow> None
          | Some (ev, Skipped) \<Rightarrow> Some (Inr (), ev1 @ ev, db1)
          | Some (ev, Raised e checksum) \<Rightarrow> Some (Inr (), ev1 @ ev @
                [(''kb.document.ingest_failed'', [did, (''error'', JStr (take 500 (exn_repr e)))])], mark_failed doc e checksum db1)
          | Some (ev, Embedded h ps n) \<Rightarrow>
              if vectors_fit ps
              then Some (Inr (), ev1 @ ev @ [(''kb.document.indexed'', [did, (''chunk_count'', JInt (int n)),
                     (''version'', JInt (kd_version doc + 1))])], index_chunks env doc h ps db1)
              else Some (Inl (PyError ''PendingRollbackError'' []), ev1 @ ev, db1)))"

text \<open>The content type of a fetched page, first part of the header before a semicolon.\<close>

definition url_content_type :: "string \<Rightarrow> string" where
  "url_content_type header =
     (let t = strip (takeWhile (\<lambda>c. c \<noteq> CHR '';'') header) in
      if contains ''html'' t then ''text/html'' else if contains ''pdf'' t then ''application/pdf''
      else if contains ''plain'' t \<or> contains ''text'' t then ''text/plain'' else t)"

definition new_document ::
  "int \<Rightarrow> int \<Rightarrow> string \<Rightarrow> string \<Rightarrow> string \<Rightarrow> string \<Rightarrow> bytes \<Rightarrow> string option \<Rightarrow> dict option \<Rightarrow> kb_document" where
  "new_document new_id source_id namespace title ct key data checksum meta =
     \<lparr>kd_id = new_id, kd_source_id = source_id, kd_namespace = namespace, kd_title = title,
      kd_content_type = ct, kd_object_key = key, kd_bytes_size = int (length data), kd_checksum = checksum,
      kd_meta = meta, kd_status = ''uploaded'', kd_error = None, kd_version = 1\<rparr>"

definition ingest_url ::
  "ingest_env \<Rightarrow> (string option \<times> bytes) res \<Rightarrow> int \<Rightarrow> string \<Rightarrow> string \<Rightarrow> int \<Rightarrow> string \<Rightarrow> string \<Rightarrow> kb_db
    \<Rightarrow> (unit res \<times> kb_emitted \<times> kb_db) option" where
  "ingest_url env fetched new_id uuid url source_id namespace title db =
     (case fetched of
        Inl e \<Rightarrow> Some (Inl e, [], db)
      | Inr (header, raw) \<Rightarrow>
         (let ct = url_content_type (case header of Some h \<Rightarrow> h | None \<Rightarrow> ''text/plain'');
              key = ''kb/'' @ str_int source_id @ ''/'' @ uuid @ ''_url_fetch'' in
          case storage_put env key raw db of
            Inl e \<Rightarrow> Some (Inl e, [], db)
          | Inr db1 \<Rightarrow>
             (let doc = new_document new_id source_id namespace title ct key raw None (Some [(''source_url'', JStr url)]);
                  ev = [(''kb.document.ingest_requested'', [(''document_id'', JInt new_id), (''source'', JStr ''url''), (''url'', JStr url)])] in
              case embed_document env new_id (db1\<lparr>kb_docs := insert_row doc (kb_docs db1)\<rparr>) of
                None \<Rightarrow> None
              | Some (r, ev', db') \<Rightarrow> Some (r, ev @ ev', db'))))"

definition recover_stuck_documents :: "kb_db \<Rightarrow> kb_db" where
  "recover_stuck_documents db =
     (let stuck = filter (\<lambda>d. kd_status d = ''processing'') (kb_docs db) in
      foldl (\<lambda>db d. enqueue_embed (kd_id d) (''kb_recover_'' @ str_int (kd_id d))
          (set_doc (kd_id d) (\<lambda>d. d\<lparr>kd_status := ''uploaded'',
             kd_error := Some ''Recovered after worker restart (was stuck in processing)''\<rparr>) db)) db stuck)"

section \<open>The document handlers\<close>

definition require_kb :: "user_row option \<Rightarrow> user_row res" where
  "require_kb u = RequireModuleAccess ''knowledge_base'' ''manage'' u"

definition require_source :: "kb_db \<Rightarrow> int \<Rightarrow> kb_source res" where
  "require_source db i = of_opt (HTTPException 404 ''Source not found'') (select_first (\<lambda>s. ks_id s = i) (kb_sources db))"

definition require_doc :: "kb_db \<Rightarrow> int \<Rightarrow> kb_document res" where
  "require_doc db i = of_opt (HTTPException 404 ''Document not found'') (doc_by_id db i)"

definition create_source :: "int \<Rightarrow> string \<Rightarrow> string \<Rightarrow> user_row option \<Rightarrow> kb_db \<Rightarrow> (kb_source \<times> kb_db) res" where
  "create_source new_id name kind caller db =
     bind_res (require_kb caller) (\<lambda>_.
       if \<exists>s \<in> set (kb_sources db). ks_name s = name then Inl (PyError ''IntegrityError'' ''kb_sources.name'')
       else let s = \<lparr>ks_id = new_id, ks_name = name, ks_kind = kind\<rparr> in
         Inr (s, db\<lparr>kb_sources := insert_row s (kb_sources db)\<rparr>))"

text \<open>What the three handlers that store a document share: object, row, job.\<close>

definition add_document ::
  "ingest_env \<Rightarrow> int \<Rightarrow> int \<Rightarrow> string \<Rightarrow> string \<Rightarrow> string \<Rightarrow> string \<Rightarrow> bytes \<Rightarrow> dict option \<Rightarrow> kb_db \<Rightarrow> (int \<times> kb_db) res" where
  "add_document env new_id source_id namespace title ct key data meta db =
     bind_res (storage_put env key data db) (\<lambda>db1.
       let doc = new_document new_id source_id namespace title ct key data (Some (ig_sha env data)) meta in
       Inr (new_id, enqueue_embed new_id (''kb_embed_'' @ str_int new_id)
         (db1\<lparr>kb_docs := insert_row doc (kb_docs db1)\<rparr>)))"

definition create_document_text ::
  "ingest_env \<Rightarrow> int \<Rightarrow> string \<Rightarrow> int \<Rightarrow> string \<Rightarrow> string \<Rightarrow> string \<Rightarrow> dict option \<Rightarrow> user_row option \<Rightarrow> kb_db \<Rightarrow> (int \<times> kb_db) res" where
  "create_document_text env new_id uuid source_id namespace title body meta caller db =
     bind_res (require_kb caller) (\<lambda>_. bind_res (require_source db source_id) (\<lambda>_.
       add_document env new_id source_id namespace title ''text/plain''
         (''kb/'' @ str_int source_id @ ''/'' @ uuid @ ''.txt'') (utf8_encode body) meta db))"

definition upload_content_type :: "string option \<Rightarrow> string option \<Rightarrow> string res" where
  "upload_content_type content_type filename =
     (case content_type of
        Some ct \<Rightarrow> if ct \<in> {''text/plain'', ''text/markdown'', ''application/pdf''} then Inr ct
          else (case filename of
              Some n \<Rightarrow> if suffix ''.txt'' n \<or> suffix ''.md'' n then Inr ''text/plain''
                  else Inl (HTTPException 400 (''Unsupported content_type: '' @ ct))
            | None \<Rightarrow> Inl (HTTPException 400 (''Unsupported content_type: '' @ ct)))
      | None \<Rightarrow> (case filename of
              Some n \<Rightarrow> if suffix ''.txt'' n \<or> suffix ''.md'' n then Inr ''text/plain''
                  else Inl (HTTPException 400 ''Unsupported content_type: None'')
            | None \<Rightarrow> Inl (HTTPException 400 ''Unsupported content_type: None'')))"

definition upload_document ::
  "ingest_env \<Rightarrow> int \<Rightarrow> string \<Rightarrow> int \<Rightarrow> string \<Rightarrow> string \<Rightarrow> string option \<Rightarrow> string option \<Rightarrow> bytes \<Rightarrow> user_row option \<Rightarrow> kb_db
    \<Rightarrow> (int \<times> kb_db) res" where
  "upload_document env new_id uuid source_id namespace title content_type filename data caller db =
     bind_res (require_kb caller) (\<lambda>_. bind_res (require_source db source_id) (\<lambda>_.
     bind_res (upload_content_type content_type filename) (\<lambda>ct.
       add_document env new_id source_id namespace title ct
         (''kb/'' @ str_int source_id @ ''/'' @ uuid @ ''_'' @ (case filename of Some n \<Rightarrow> n | None \<Rightarrow> ''None'')) data None db)))"

definition ingest_from_url ::
  "string \<Rightarrow> string \<Rightarrow> int \<Rightarrow> string \<Rightarrow> string \<Rightarrow> user_row option \<Rightarrow> kb_db \<Rightarrow> kb_db res" where
  "ingest_from_url uuid url source_id namespace title caller db =
     bind_res (require_kb caller) (\<lambda>_. bind_res (require_source db source_id) (\<lambda>_.
       Inr (enqueue_job ''apps.nexus_worker.jobs.ingest_url''
         [(''url'', JStr url), (''source_id'', JInt source_id), (''namespace'', JStr namespace), (''title'', JStr title)]
         (''kb_url_'' @ take 8 uuid) db)))"

definition ingest_from_email ::
  "ingest_env \<Rightarrow> int \<Rightarrow> string \<Rightarrow> int \<Rightarrow> string \<Rightarrow> string \<Rightarrow> string \<Rightarrow> json \<Rightarrow> json \<Rightarrow> user_row option \<Rightarrow> kb_db \<Rightarrow> (int \<times> kb_db) res" where
  "ingest_from_email env new_id uuid source_id namespace subject body sender message_id caller db =
     bind_res (require_kb caller) (\<lambda>_. bind_res (require_source db source_id) (\<lambda>_.
       add_document env new_id source_id namespace subject ''text/plain''
         (''kb/'' @ str_int source_id @ ''/'' @ uuid @ ''_email.txt'') (utf8_encode body)
         (Some [(''source_type'', JStr ''email''), (''sender'', sender), (''message_id'', message_id)]) db))"

definition reingest_document :: "string \<Rightarrow> int \<Rightarrow> user_row option \<Rightarrow> kb_db \<Rightarrow> (int \<times> kb_db) res" where
  "reingest_document uuid i caller db =
     bind_res (require_kb caller) (\<lambda>_. bind_res (require_doc db i) (\<lambda>d.
       Inr (i, enqueue_embed i (''kb_reingest_'' @ str_int i @ ''_'' @ take 6 uuid)
         (set_doc i (\<lambda>d. d\<lparr>kd_status := ''uploaded'', kd_error := None, kd_checksum := None\<rparr>) db))))"

definition delete_document :: "int \<Rightarrow> user_row option \<Rightarrow> kb_db \<Rightarrow> kb_db res" where
  "delete_document i caller db =
     bind_res (require_kb caller) (\<lambda>_. bind_res (require_doc db i) (\<lambda>d.
       let db1 = drop_chunks i db in
       Inr (db1\<lparr>kb_docs := delete_rows (\<lambda>d. kd_id d = i) (kb_docs db1)\<rparr>)))"

definition page :: "nat \<Rightarrow> nat \<Rightarrow> 'a list \<Rightarrow> 'a list" where
  "page off limit xs = take limit (drop off xs)"

definition read_documents :: "caller res \<Rightarrow> string option \<Rightarrow> nat \<Rightarrow> nat \<Rightarrow> kb_db \<Rightarrow> kb_document list res" where
  "read_documents caller namespace off limit db = bind_res caller (\<lambda>_.
     Inr (page off limit (if namespace \<in> {None, Some []} then kb_docs db
       else select_all (\<lambda>d. Some (kd_namespace d) = namespace) (kb_docs db))))"

definition read_document :: "caller res \<Rightarrow> int \<Rightarrow> kb_db \<Rightarrow> kb_document res" where
  "read_document caller i db = bind_res caller (\<lambda>_. require_doc db i)"

definition read_chunks :: "caller res \<Rightarrow> int \<Rightarrow> nat \<Rightarrow> nat \<Rightarrow> kb_db \<Rightarrow> kb_chunk list res" where
  "read_chunks caller i off limit db = bind_res caller (\<lambda>_.
     Inr (page off limit (select_all (\<lambda>k. kk_document_id k = i) (kb_chunks db))))"

section \<open>The index invariant\<close>

text \<open>Embeddings and chunks run in parallel, ids are unique and below the sequence, every chunk belongs to a
  document, and the chunks of a document are numbered from zero without a gap.\<close>

definition doc_chunks :: "int \<Rightarrow> kb_db \<Rightarrow> kb_chunk list" where
  "doc_chunks i db = filter (\<lambda>k. kk_document_id k = i) (kb_chunks db)"

definition index_ok :: "kb_db \<Rightarrow> bool" where
  "index_ok db \<longleftrightarrow>
     List.map ke_chunk_id (kb_embeds db) = List.map kk_id (kb_chunks db) \<and>
     distinct (List.map kk_id (kb_chunks db)) \<and> (\<forall>k \<in> set (kb_chunks db). kk_id k < kb_next_chunk db) \<and>
     (\<forall>i. List.map kk_index (doc_chunks i db) = [0..<length (doc_chunks i db)])"

definition docs_ok :: "kb_db \<Rightarrow> bool" where
  "docs_ok db \<longleftrightarrow> distinct (List.map kd_id (kb_docs db)) \<and>
     (\<forall>k \<in> set (kb_chunks db). kk_document_id k \<in> kd_id ` set (kb_docs db)) \<and>
     (\<forall>d \<in> set (kb_docs db). kd_status d \<in> {''uploaded'', ''processing'', ''ready'', ''failed''} \<and> 1 \<le> kd_version d)"

definition kb_ok :: "kb_db \<Rightarrow> bool" where
  "kb_ok db \<longleftrightarrow> index_ok db \<and> docs_ok db"

lemma index_ok_cong:
  "kb_chunks db' = kb_chunks db \<Longrightarrow> kb_embeds db' = kb_embeds db \<Longrightarrow> kb_next_chunk db' = kb_next_chunk db \<Longrightarrow>
     index_ok db' = index_ok db"
  by (simp add: index_ok_def doc_chunks_def)

lemma filter_parallel:
  "List.map f es = List.map g ks \<Longrightarrow>
     List.map f (filter (\<lambda>e. P (f e)) es) = List.map g (filter (\<lambda>k. P (g k)) ks)"
proof (induction es arbitrary: ks)
  case (Cons e es)
  then obtain k ks' where "ks = k # ks'" "f e = g k" "List.map f es = List.map g ks'" by (cases ks) auto
  then show ?case using Cons.IH[of ks'] by auto
qed simp

lemma drop_chunks_frame [simp]:
  "kb_docs (drop_chunks i db) = kb_docs db" "kb_next_chunk (drop_chunks i db) = kb_next_chunk db"
  "kb_chunks (drop_chunks i db) = filter (\<lambda>k. kk_document_id k \<noteq> i) (kb_chunks db)"
  "kb_sources (drop_chunks i db) = kb_sources db" "kb_queue (drop_chunks i db) = kb_queue db"
  by (simp_all add: drop_chunks_def Let_def delete_rows_def)

lemma drop_chunks_embeds:
  assumes "index_ok db"
  shows "List.map ke_chunk_id (kb_embeds (drop_chunks i db)) = List.map kk_id (kb_chunks (drop_chunks i db))"
proof -
  let ?old = "kk_id ` {k \<in> set (kb_chunks db). kk_document_id k = i}"
  have inj: "inj_on kk_id (set (kb_chunks db))" using assms by (simp add: index_ok_def distinct_map)
  have e: "kb_embeds (drop_chunks i db) = filter (\<lambda>e. ke_chunk_id e \<notin> ?old) (kb_embeds db)"
    by (simp add: drop_chunks_def Let_def delete_rows_def)
  have "filter (\<lambda>k. kk_id k \<notin> ?old) (kb_chunks db) = filter (\<lambda>k. kk_document_id k \<noteq> i) (kb_chunks db)"
    using inj by (intro filter_cong) (auto simp: inj_on_def)
  moreover have "List.map ke_chunk_id (kb_embeds db) = List.map kk_id (kb_chunks db)" using assms by (simp add: index_ok_def)
  ultimately show ?thesis using filter_parallel[of ke_chunk_id "kb_embeds db" kk_id "kb_chunks db" "\<lambda>x. x \<notin> ?old"] e by simp
qed

lemma doc_chunks_drop: "doc_chunks j (drop_chunks i db) = (if j = i then [] else doc_chunks j db)"
  by (auto simp: doc_chunks_def filter_filter intro: filter_cong)

lemma drop_chunks_ok: "index_ok db \<Longrightarrow> index_ok (drop_chunks i db)"
  using drop_chunks_embeds[of db i] unfolding index_ok_def doc_chunks_drop
  by (auto simp: distinct_map_filter)

lemma set_doc_frame [simp]:
  "kb_chunks (set_doc i f db) = kb_chunks db" "kb_embeds (set_doc i f db) = kb_embeds db"
  "kb_next_chunk (set_doc i f db) = kb_next_chunk db" "kb_objects (set_doc i f db) = kb_objects db"
  "kb_docs (set_doc i f db) = table_update kd_id i f (kb_docs db)" "kb_queue (set_doc i f db) = kb_queue db"
  by (simp_all add: set_doc_def)

lemma index_chunks_chunks:
  "kb_chunks (index_chunks env doc h ps db) =
     filter (\<lambda>k. kk_document_id k \<noteq> kd_id doc) (kb_chunks db) @ new_chunks (kd_id doc) (kb_next_chunk db) ps"
  "kb_embeds (index_chunks env doc h ps db) =
     kb_embeds (drop_chunks (kd_id doc) db) @ new_embeds (kb_next_chunk db) (ig_model env) ps"
  "kb_next_chunk (index_chunks env doc h ps db) = kb_next_chunk db + int (length ps)"
  by (simp_all add: index_chunks_def Let_def)

lemma new_chunks_doc: "k \<in> set (new_chunks did first ps) \<Longrightarrow> kk_document_id k = did"
  by (auto simp: new_chunks_def)

lemma index_chunks_doc_chunks:
  "doc_chunks j (index_chunks env doc h ps db) =
     (if j = kd_id doc then new_chunks (kd_id doc) (kb_next_chunk db) ps else doc_chunks j db)"
proof -
  have "filter (\<lambda>k. kk_document_id k = kd_id doc) (new_chunks (kd_id doc) n ps) = new_chunks (kd_id doc) n ps" for n
    using new_chunks_doc by (intro filter_True) blast
  moreover have "filter (\<lambda>k. kk_document_id k = j) (new_chunks (kd_id doc) n ps) = []" if "j \<noteq> kd_id doc" for n
    using new_chunks_doc that by (intro filter_False) blast
  ultimately show ?thesis by (auto simp: doc_chunks_def index_chunks_chunks filter_filter intro: filter_cong)
qed

lemma index_chunks_ok:
  assumes "index_ok db" shows "index_ok (index_chunks env doc h ps db)"
proof -
  let ?n = "kb_next_chunk db"
  have ids: "List.map kk_id (new_chunks (kd_id doc) ?n ps) = List.map (\<lambda>i. ?n + int i) [0..<length ps]"
    "List.map ke_chunk_id (new_embeds ?n m ps) = List.map (\<lambda>i. ?n + int i) [0..<length ps]" for m
    by (simp_all add: new_chunks_def new_embeds_def)
  have old: "\<forall>k \<in> set (kb_chunks db). kk_id k < ?n" using assms by (simp add: index_ok_def)
  have d: "distinct (List.map (\<lambda>i. ?n + int i) [0..<length ps])" by (simp add: distinct_map inj_on_def)
  have lt: "\<forall>k \<in> set (new_chunks (kd_id doc) ?n ps). ?n \<le> kk_id k \<and> kk_id k < ?n + int (length ps)"
    by (auto simp: new_chunks_def)
  have dist: "distinct (List.map kk_id (filter (\<lambda>k. kk_document_id k \<noteq> kd_id doc) (kb_chunks db) @ new_chunks (kd_id doc) ?n ps))"
  proof -
    have "distinct (List.map kk_id (filter (\<lambda>k. kk_document_id k \<noteq> kd_id doc) (kb_chunks db)))"
      using assms by (simp add: index_ok_def distinct_map_filter)
    moreover have "set (List.map kk_id (filter (\<lambda>k. kk_document_id k \<noteq> kd_id doc) (kb_chunks db))) \<inter>
        set (List.map kk_id (new_chunks (kd_id doc) ?n ps)) = {}" using old lt by fastforce
    ultimately show ?thesis using d by (simp only: map_append distinct_append ids)
  qed
  have num: "List.map kk_index (new_chunks (kd_id doc) ?n ps) = [0..<length (new_chunks (kd_id doc) ?n ps)]"
    by (simp add: new_chunks_def comp_def)
  show ?thesis unfolding index_ok_def
  proof (intro conjI allI)
    show "List.map ke_chunk_id (kb_embeds (index_chunks env doc h ps db)) = List.map kk_id (kb_chunks (index_chunks env doc h ps db))"
      using drop_chunks_embeds[OF assms, of "kd_id doc"] by (simp add: index_chunks_chunks ids)
    show "distinct (List.map kk_id (kb_chunks (index_chunks env doc h ps db)))" using dist by (simp add: index_chunks_chunks)
    show "\<forall>k \<in> set (kb_chunks (index_chunks env doc h ps db)). kk_id k < kb_next_chunk (index_chunks env doc h ps db)"
      using old lt by (auto simp: index_chunks_chunks)
    show "List.map kk_index (doc_chunks i (index_chunks env doc h ps db)) = [0..<length (doc_chunks i (index_chunks env doc h ps db))]" for i
      using assms num by (simp add: index_chunks_doc_chunks index_ok_def)
  qed
qed

lemma doc_by_id_in: "doc_by_id db i = Some d \<Longrightarrow> d \<in> set (kb_docs db) \<and> kd_id d = i"
  unfolding doc_by_id_def by (auto dest: select_first_Some)

lemma doc_by_id_set_doc:
  "(\<And>d. kd_id (f d) = kd_id d) \<Longrightarrow>
     doc_by_id (set_doc i f db) j = map_option (\<lambda>d. if kd_id d = i then f d else d) (doc_by_id db j)"
  unfolding doc_by_id_def set_doc_frame table_update_def by (simp add: select_first_update)

lemma select_first_replace:
  "select_first (\<lambda>d. key d = i) t = Some d \<Longrightarrow> key e = i \<Longrightarrow>
     select_first (\<lambda>d. key d = i) (table_update key i (\<lambda>_. e) t) = Some e"
  by (induction t) (auto simp: table_update_def update_rows_def split: if_splits)

lemma run_stages_returns: "\<exists>r. run_stages env doc db = Some r"
proof (cases "extract_text env doc db")
  case (Inl e)
  then show ?thesis by (simp add: run_stages_def)
next
  case (Inr t)
  obtain infos where c: "chunk_text_with_offsets max_chars_default overlap_default t = Some infos"
    using chunk_default_returns by blast
  show ?thesis by (cases "ig_embed env (List.map ck_text infos)") (simp_all add: run_stages_def Let_def Inr c)
qed

lemma run_stages_not_skipped: "kd_status doc \<noteq> ''ready'' \<Longrightarrow> run_stages env doc db \<noteq> Some (ev, Skipped)"
  by (auto simp: run_stages_def Let_def split: sum.splits option.splits if_splits)

lemma extract_text_cong:
  "kd_object_key d' = kd_object_key d \<Longrightarrow> kd_content_type d' = kd_content_type d \<Longrightarrow> kb_objects db' = kb_objects db \<Longrightarrow>
     extract_text env d' db' = extract_text env d db"
  by (simp add: extract_text_def storage_get_def)

lemma run_stages_embedded:
  assumes "run_stages env doc db = Some (ev, Embedded h ps n)"
  shows "\<exists>t infos vs. extract_text env doc db = Inr t \<and> h = ig_sha env (utf8_encode t) \<and>
    chunk_text_with_offsets max_chars_default overlap_default t = Some infos \<and>
    ig_embed env (List.map ck_text infos) = Inr vs \<and> ps = zip infos vs \<and> n = length infos"
  using assms by (auto simp: run_stages_def Let_def split: sum.splits option.splits if_splits)

definition begun :: "kb_document \<Rightarrow> kb_document" where
  "begun d = d\<lparr>kd_status := ''processing'', kd_error := None\<rparr>"

lemma embed_document_cases:
  assumes "doc_by_id db i = Some d"
  obtains (failed) e c ev where "embed_document env i db = Some (Inr (), ev, mark_failed (begun d) e c (set_doc i (\<lambda>_. begun d) db))"
  | (indexed) h ps ev t infos vs where
      "embed_document env i db = Some (Inr (), ev, index_chunks env (begun d) h ps (set_doc i (\<lambda>_. begun d) db))"
      "vectors_fit ps" "extract_text env (begun d) (set_doc i (\<lambda>_. begun d) db) = Inr t"
      "chunk_text_with_offsets max_chars_default overlap_default t = Some infos"
      "ig_embed env (List.map ck_text infos) = Inr vs" "ps = zip infos vs"
  | (stuck) ev where "embed_document env i db = Some (Inl (PyError ''PendingRollbackError'' []), ev, set_doc i (\<lambda>_. begun d) db)"
proof -
  obtain ev st where r: "run_stages env (begun d) (set_doc i (\<lambda>_. begun d) db) = Some (ev, st)"
    using run_stages_returns[of env "begun d"] by fastforce
  have ns: "st \<noteq> Skipped" using run_stages_not_skipped[of "begun d"] r by (auto simp: begun_def)
  note e = embed_document_def[of env i db, unfolded assms option.case Let_def, folded begun_def, unfolded r]
  show thesis
  proof (cases st)
    case Skipped
    then show thesis using ns by simp
  next
    case (Raised x c)
    show thesis by (rule failed) (use e Raised in simp)
  next
    case (Embedded h ps n)
    note em = run_stages_embedded[OF r[unfolded Embedded]]
    show thesis
    proof (cases "vectors_fit ps")
      case True
      from em obtain t infos vs where "extract_text env (begun d) (set_doc i (\<lambda>_. begun d) db) = Inr t"
        "chunk_text_with_offsets max_chars_default overlap_default t = Some infos"
        "ig_embed env (List.map ck_text infos) = Inr vs" "ps = zip infos vs" by blast
      then show thesis by (rule indexed[rotated 2]) (use e Embedded True in simp_all)
    next
      case False
      show thesis by (rule stuck) (use e Embedded False in simp)
    qed
  qed
qed

lemma kd_id_begun [simp]: "kd_id (begun d) = kd_id d"
  by (simp add: begun_def)

definition chunk_contents :: "int \<Rightarrow> kb_db \<Rightarrow> (nat \<times> chunk_info) list" where
  "chunk_contents i db = List.map (\<lambda>k. (kk_index k, kk_info k)) (doc_chunks i db)"

lemma new_chunks_contents:
  "List.map (\<lambda>k. (kk_index k, kk_info k)) (new_chunks i n ps) = zip [0..<length ps] (List.map fst ps)"
  by (rule nth_equalityI) (simp_all add: new_chunks_def)

text \<open>C9: A run of the pipeline always returns and the index changes as a whole or not at all: either the document is
  ready, its version counted up, and its chunks are exactly those of the text in the object store (as many as have a
  vector), numbered in order, or all chunks and embeddings are as before and the document is marked failed or left
  processing.  Other documents' chunks never change, and no run takes the shortcut for an unchanged document.\<close>

theorem embed_document_atomic:
  assumes "doc_by_id db i = Some d"
  shows "\<exists>r ev db'. embed_document env i db = Some (r, ev, db') \<and>
    ((\<exists>t infos vs. extract_text env d db = Inr t \<and> chunk_text_with_offsets max_chars_default overlap_default t = Some infos \<and>
        ig_embed env (List.map ck_text infos) = Inr vs \<and>
        chunk_contents i db' = zip [0..<min (length infos) (length vs)] (take (length vs) infos) \<and>
        (\<forall>j. j \<noteq> i \<longrightarrow> chunk_contents j db' = chunk_contents j db) \<and>
        (\<exists>d'. doc_by_id db' i = Some d' \<and> kd_status d' = ''ready'' \<and> kd_version d' = kd_version d + 1)) \<or>
     (kb_chunks db' = kb_chunks db \<and> kb_embeds db' = kb_embeds db \<and>
        (\<exists>d'. doc_by_id db' i = Some d' \<and> kd_status d' \<in> {''failed'', ''processing''} \<and> kd_version d' = kd_version d)))"
proof -
  note di = doc_by_id_in[OF assms]
  have b: "doc_by_id (set_doc i (\<lambda>_. begun d) db) i = Some (begun d)"
    using assms di unfolding doc_by_id_def set_doc_frame by (intro select_first_replace) auto
  have ex: "extract_text env (begun d) (set_doc i (\<lambda>_. begun d) db) = extract_text env d db"
    by (rule extract_text_cong) (simp_all add: begun_def)
  show ?thesis
  proof (cases rule: embed_document_cases[OF assms, of env])
    case failed: (1 e c ev)
    have "doc_by_id (mark_failed (begun d) e c (set_doc i (\<lambda>_. begun d) db)) i =
        Some ((begun d)\<lparr>kd_checksum := c, kd_status := ''failed'', kd_error := Some (take 2000 (exn_repr e))\<rparr>)"
      using b di by (simp add: mark_failed_def doc_by_id_set_doc)
    then show ?thesis using failed by (simp add: mark_failed_def begun_def)
  next
    case stuck: (3 ev)
    then show ?thesis using b by (simp add: begun_def)
  next
    case indexed: (2 h ps ev t infos vs)
    let ?db' = "index_chunks env (begun d) h ps (set_doc i (\<lambda>_. begun d) db)"
    have c: "chunk_contents j ?db' = (if j = i then zip [0..<length ps] (List.map fst ps) else chunk_contents j db)" for j
      using di by (simp add: chunk_contents_def index_chunks_doc_chunks new_chunks_contents) (simp add: doc_chunks_def)
    have "doc_by_id (index_chunks env (begun d) h ps (set_doc i (\<lambda>_. begun d) db)) i =
        Some ((begun d)\<lparr>kd_checksum := Some h, kd_meta := stored_meta env (kd_meta (begun d)), kd_status := ''ready'',
          kd_version := kd_version (begun d) + 1\<rparr>)"
    proof -
      let ?X = "set_doc i (\<lambda>_. begun d) db"
      have "doc_by_id (drop_chunks i ?X\<lparr>kb_chunks := cs, kb_embeds := es, kb_next_chunk := n\<rparr>) i = Some (begun d)" for cs es n
        using b by (simp add: doc_by_id_def)
      then show ?thesis using di by (simp add: index_chunks_def Let_def doc_by_id_set_doc)
    qed
    moreover have "List.map fst (zip infos vs) = take (length vs) infos"
      by (simp add: map_fst_zip_take min_def)
    ultimately have d': "\<exists>d'. doc_by_id ?db' i = Some d' \<and> kd_status d' = ''ready'' \<and> kd_version d' = kd_version d + 1"
      and ci: "chunk_contents i ?db' = zip [0..<min (length infos) (length vs)] (take (length vs) infos)"
      using c[of i] indexed(6) by (simp_all add: begun_def)
    have "extract_text env d db = Inr t" using indexed(3) ex by simp
    then show ?thesis using indexed(1,4,5) c d' ci
      by (intro exI[of _ "Inr ()"] exI[of _ ev] exI[of _ ?db'] conjI disjI1 exI[of _ t] exI[of _ infos] exI[of _ vs]) auto
  qed
qed

section \<open>Reachable states\<close>

definition empty_kb :: kb_db where
  "empty_kb = \<lparr>kb_sources = [], kb_docs = [], kb_chunks = [], kb_embeds = [], kb_next_chunk = 1, kb_objects = [], kb_queue = []\<rparr>"

inductive kb_step :: "kb_db \<Rightarrow> kb_db \<Rightarrow> bool" where
  kbs_source: "create_source n name kind caller db = Inr (s, db') \<Longrightarrow> kb_step db db'"
| kbs_text: "n \<notin> kd_id ` set (kb_docs db) \<Longrightarrow>
    create_document_text env n uuid src namespace title body meta caller db = Inr (r, db') \<Longrightarrow> kb_step db db'"
| kbs_upload: "n \<notin> kd_id ` set (kb_docs db) \<Longrightarrow>
    upload_document env n uuid src namespace title ct fname data caller db = Inr (r, db') \<Longrightarrow> kb_step db db'"
| kbs_email: "n \<notin> kd_id ` set (kb_docs db) \<Longrightarrow>
    ingest_from_email env n uuid src namespace subj body sender mid caller db = Inr (r, db') \<Longrightarrow> kb_step db db'"
| kbs_url: "ingest_from_url uuid url src namespace title caller db = Inr db' \<Longrightarrow> kb_step db db'"
| kbs_reingest: "reingest_document uuid i caller db = Inr (r, db') \<Longrightarrow> kb_step db db'"
| kbs_delete: "delete_document i caller db = Inr db' \<Longrightarrow> kb_step db db'"
| kbs_embed: "embed_document env i db = Some (r, ev, db') \<Longrightarrow> kb_step db db'"
| kbs_fetch: "n \<notin> kd_id ` set (kb_docs db) \<Longrightarrow>
    ingest_url env fetched n uuid url src namespace title db = Some (r, ev, db') \<Longrightarrow> kb_step db db'"
| kbs_recover: "kb_step db (recover_stuck_documents db)"

inductive kb_reach :: "kb_db \<Rightarrow> bool" where
  kbr_start: "kb_reach empty_kb"
| kbr_step: "kb_reach db \<Longrightarrow> kb_step db db' \<Longrightarrow> kb_reach db'"

definition doc_ok :: "kb_document \<Rightarrow> bool" where
  "doc_ok d \<longleftrightarrow> kd_status d \<in> {''uploaded'', ''processing'', ''ready'', ''failed''} \<and> 1 \<le> kd_version d"

lemma docs_ok_alt: "docs_ok db \<longleftrightarrow> distinct (List.map kd_id (kb_docs db)) \<and>
    (\<forall>k \<in> set (kb_chunks db). kk_document_id k \<in> set (List.map kd_id (kb_docs db))) \<and> (\<forall>d \<in> set (kb_docs db). doc_ok d)"
  by (simp add: docs_ok_def doc_ok_def)

lemma kb_ok_cong:
  "kb_ok db \<Longrightarrow> kb_chunks db' = kb_chunks db \<Longrightarrow> kb_embeds db' = kb_embeds db \<Longrightarrow>
     kb_next_chunk db' = kb_next_chunk db \<Longrightarrow> kb_docs db' = kb_docs db \<Longrightarrow> kb_ok db'"
  using index_ok_cong[of db' db] by (simp add: kb_ok_def docs_ok_def)

lemma map_id_table_update:
  "(\<And>d. kd_id d = i \<Longrightarrow> kd_id (f d) = i) \<Longrightarrow> List.map kd_id (table_update kd_id i f ds) = List.map kd_id ds"
  by (induction ds) (auto simp: table_update_def update_rows_def)

lemma table_update_all:
  "\<forall>d \<in> set ds. P d \<Longrightarrow> (\<And>d. P d \<Longrightarrow> P (f d)) \<Longrightarrow> \<forall>d \<in> set (table_update key i f ds). P d"
  by (auto simp: table_update_def set_update_rows)

lemma set_doc_ok:
  assumes "kb_ok db" "\<And>d. kd_id d = i \<Longrightarrow> kd_id (f d) = i" "\<And>d. d \<in> set (kb_docs db) \<Longrightarrow> kd_id d = i \<Longrightarrow> doc_ok (f d)"
  shows "kb_ok (set_doc i f db)"
proof -
  have "\<forall>d \<in> set (table_update kd_id i f (kb_docs db)). doc_ok d"
    using assms(1,3) by (auto simp: table_update_def set_update_rows kb_ok_def docs_ok_alt)
  then show ?thesis using assms(1) map_id_table_update[OF assms(2)]
    by (simp add: kb_ok_def docs_ok_alt index_ok_cong[of "set_doc i f db" db])
qed

lemma enqueue_ok: "kb_ok db \<Longrightarrow> kb_ok (enqueue_job f a j db)"
  by (erule kb_ok_cong) (simp_all add: enqueue_job_def)

lemma insert_doc_ok:
  "kb_ok db \<Longrightarrow> doc_ok d \<Longrightarrow> kd_id d \<notin> kd_id ` set (kb_docs db) \<Longrightarrow> kb_ok (db\<lparr>kb_docs := insert_row d (kb_docs db)\<rparr>)"
  by (auto simp: kb_ok_def docs_ok_alt insert_row_def index_ok_def doc_chunks_def)

lemma storage_put_frame:
  "storage_put env k d db = Inr db' \<Longrightarrow> kb_chunks db' = kb_chunks db \<and> kb_embeds db' = kb_embeds db \<and>
     kb_next_chunk db' = kb_next_chunk db \<and> kb_docs db' = kb_docs db"
  by (auto simp: storage_put_def split: if_splits)

lemma add_document_ok:
  assumes "kb_ok db" "n \<notin> kd_id ` set (kb_docs db)" "add_document env n src ns title ct key data meta db = Inr (r, db')"
  shows "kb_ok db'"
proof -
  obtain d where nd: "new_document n src ns title ct key data (Some (ig_sha env data)) meta = d" by simp
  have d2: "doc_ok d" "kd_id d = n" using nd by (auto simp: new_document_def doc_ok_def)
  from assms(3) obtain db1 j where d1: "storage_put env key data db = Inr db1"
    and db': "db' = enqueue_embed n j (db1\<lparr>kb_docs := insert_row d (kb_docs db1)\<rparr>)"
    unfolding add_document_def nd bind_res_Inr Let_def by blast
  note d = d1 d2
  have "kb_ok db1" using storage_put_frame[OF d(1)] kb_ok_cong[OF assms(1)] by blast
  then show ?thesis unfolding db' enqueue_embed_def
    using storage_put_frame[OF d(1)] d(2,3) assms(2) by (intro enqueue_ok insert_doc_ok) auto
qed

lemma index_chunks_kb_ok:
  assumes "kb_ok db" "doc_by_id db (kd_id doc) = Some doc" "1 \<le> kd_version doc"
  shows "kb_ok (index_chunks env doc h ps db)"
proof -
  have "index_ok (index_chunks env doc h ps db)" using assms(1) index_chunks_ok by (simp add: kb_ok_def)
  moreover have "docs_ok (index_chunks env doc h ps db)"
  proof -
    let ?f = "\<lambda>d. d\<lparr>kd_checksum := Some h, kd_meta := stored_meta env (kd_meta d), kd_status := ''ready'', kd_version := kd_version d + 1\<rparr>"
    have docs: "kb_docs (index_chunks env doc h ps db) = table_update kd_id (kd_id doc) ?f (kb_docs db)"
      by (simp add: index_chunks_def Let_def)
    have ids: "List.map kd_id (kb_docs (index_chunks env doc h ps db)) = List.map kd_id (kb_docs db)"
      unfolding docs by (rule map_id_table_update) simp
    have "\<forall>d \<in> set (kb_docs (index_chunks env doc h ps db)). doc_ok d"
      unfolding docs by (rule table_update_all) (use assms(1) in \<open>simp add: kb_ok_def docs_ok_alt\<close>, simp add: doc_ok_def)
    moreover have "\<forall>k \<in> set (kb_chunks (index_chunks env doc h ps db)). kk_document_id k \<in> set (List.map kd_id (kb_docs db))"
      using assms(1) doc_by_id_in[OF assms(2)] new_chunks_doc
      by (auto simp: index_chunks_chunks kb_ok_def docs_ok_alt)
    ultimately show ?thesis using assms(1) by (simp only: docs_ok_alt ids kb_ok_def)
  qed
  ultimately show ?thesis by (simp add: kb_ok_def)
qed

lemma embed_document_ok:
  assumes "kb_ok db" "embed_document env i db = Some (r, ev, db')"
  shows "kb_ok db'"
proof (cases "doc_by_id db i")
  case None
  then show ?thesis using assms by (simp add: embed_document_def)
next
  case (Some d)
  note di = doc_by_id_in[OF Some]
  have dk: "doc_ok d" using di assms(1) by (simp add: kb_ok_def docs_ok_alt)
  have st: "kb_ok (set_doc i (\<lambda>_. begun d) db)"
    by (rule set_doc_ok[OF assms(1)]) (use di dk in \<open>auto simp: doc_ok_def begun_def\<close>)
  have b: "doc_by_id (set_doc i (\<lambda>_. begun d) db) i = Some (begun d)"
    using Some di unfolding doc_by_id_def set_doc_frame by (intro select_first_replace) auto
  show ?thesis
  proof (cases rule: embed_document_cases[OF Some, of env])
    case (1 e c ev)
    have "kb_ok (mark_failed (begun d) e c (set_doc i (\<lambda>_. begun d) db))" unfolding mark_failed_def
      by (rule set_doc_ok[OF st]) (use st in \<open>auto simp: kb_ok_def docs_ok_alt doc_ok_def\<close>)
    then show ?thesis using 1 assms(2) by simp
  next
    case (2 h ps ev t infos vs)
    have "kb_ok (index_chunks env (begun d) h ps (set_doc i (\<lambda>_. begun d) db))"
      by (rule index_chunks_kb_ok[OF st]) (use b di dk in \<open>auto simp: doc_ok_def begun_def\<close>)
    then show ?thesis using 2(1) assms(2) by simp
  next
    case (3 ev)
    then show ?thesis using st assms(2) by simp
  qed
qed

definition recovered :: "kb_document \<Rightarrow> kb_document" where
  "recovered d = d\<lparr>kd_status := ''uploaded'', kd_error := Some ''Recovered after worker restart (was stuck in processing)''\<rparr>"

definition recover_one :: "kb_db \<Rightarrow> kb_document \<Rightarrow> kb_db" where
  "recover_one db d = enqueue_embed (kd_id d) (''kb_recover_'' @ str_int (kd_id d)) (set_doc (kd_id d) recovered db)"

lemma recover_fold: "recover_stuck_documents db = foldl recover_one db (filter (\<lambda>d. kd_status d = ''processing'') (kb_docs db))"
proof -
  have "recover_one = (\<lambda>db d. enqueue_embed (kd_id d) (''kb_recover_'' @ str_int (kd_id d))
      (set_doc (kd_id d) (\<lambda>d. d\<lparr>kd_status := ''uploaded'',
         kd_error := Some ''Recovered after worker restart (was stuck in processing)''\<rparr>) db))"
    by (intro ext) (simp add: recover_one_def recovered_def[abs_def])
  then show ?thesis by (simp add: recover_stuck_documents_def Let_def)
qed

lemma recover_one_ok: "kb_ok db \<Longrightarrow> kb_ok (recover_one db d)"
  unfolding recover_one_def enqueue_embed_def
  by (intro enqueue_ok set_doc_ok) (auto simp: recovered_def doc_ok_def kb_ok_def docs_ok_alt)

lemma recover_ok: "kb_ok db \<Longrightarrow> kb_ok (recover_stuck_documents db)"
proof -
  have "kb_ok db \<Longrightarrow> kb_ok (foldl recover_one db ds)" for ds db
    by (induction ds arbitrary: db) (simp_all add: recover_one_ok)
  then show "kb_ok db \<Longrightarrow> kb_ok (recover_stuck_documents db)" by (simp add: recover_fold)
qed

lemma delete_document_ok:
  assumes "kb_ok db" "delete_document i caller db = Inr db'" shows "kb_ok db'"
proof -
  have d: "db' = (drop_chunks i db)\<lparr>kb_docs := delete_rows (\<lambda>d. kd_id d = i) (kb_docs db)\<rparr>"
    using assms(2) by (auto simp: delete_document_def bind_res_Inr Let_def)
  have "index_ok db' = index_ok (drop_chunks i db)" unfolding d by (rule index_ok_cong) simp_all
  then have "index_ok db'" using drop_chunks_ok[of db i] assms(1) by (simp add: kb_ok_def)
  moreover have "docs_ok db'" using assms(1) unfolding d
    by (auto simp: kb_ok_def docs_ok_alt delete_rows_def distinct_map_filter)
  ultimately show ?thesis by (simp add: kb_ok_def)
qed

lemma kb_step_ok: "kb_step db db' \<Longrightarrow> kb_ok db \<Longrightarrow> kb_ok db'"
proof (induction rule: kb_step.induct)
  case (kbs_source n name kind caller db s db')
  then show ?case by (auto simp: create_source_def bind_res_Inr Let_def split: if_splits elim!: kb_ok_cong)
next
  case (kbs_text n db env uuid src namespace title body meta caller r db')
  then show ?case by (auto simp: create_document_text_def bind_res_Inr intro: add_document_ok)
next
  case (kbs_upload n db env uuid src namespace title ct fname data caller r db')
  then show ?case by (auto simp: upload_document_def bind_res_Inr intro: add_document_ok)
next
  case (kbs_email n db env uuid src namespace subj body sender mid caller r db')
  then show ?case by (auto simp: ingest_from_email_def bind_res_Inr intro: add_document_ok)
next
  case (kbs_url uuid url src namespace title caller db db')
  then show ?case by (auto simp: ingest_from_url_def bind_res_Inr intro: enqueue_ok)
next
  case (kbs_reingest uuid i caller db r db')
  then show ?case by (auto simp: reingest_document_def bind_res_Inr enqueue_embed_def kb_ok_def[of db] docs_ok_alt doc_ok_def
      intro!: enqueue_ok set_doc_ok)
next
  case (kbs_delete i caller db db')
  then show ?case using delete_document_ok by blast
next
  case (kbs_embed env i db r ev db')
  then show ?case using embed_document_ok by blast
next
  case (kbs_fetch n db env fetched uuid url src namespace title r ev db')
  show ?case
  proof (cases fetched)
    case (Inl e)
    then show ?thesis using kbs_fetch by (simp add: ingest_url_def)
  next
    case (Inr hr)
    obtain header raw where hr: "hr = (header, raw)" by fastforce
    obtain key where key: "key = ''kb/'' @ str_int src @ ''/'' @ uuid @ ''_url_fetch''" by simp
    show ?thesis
    proof (cases "storage_put env key raw db")
      case (Inl e)
      then show ?thesis using kbs_fetch Inr hr key by (simp add: ingest_url_def Let_def)
    next
      case put: (Inr db1)
      note f = storage_put_frame[OF put]
      obtain ct d where nd: "new_document n src namespace title (url_content_type (case header of Some h \<Rightarrow> h | None \<Rightarrow> ''text/plain''))
          key raw None (Some [(''source_url'', JStr url)]) = d" by simp
      have d: "doc_ok d" "kd_id d = n" using nd by (auto simp: new_document_def doc_ok_def)
      have e: "\<exists>ev'. embed_document env n (db1\<lparr>kb_docs := insert_row d (kb_docs db1)\<rparr>) = Some (r, ev', db')"
        using kbs_fetch.hyps(2) unfolding ingest_url_def Inr hr Let_def
        by (simp add: put[unfolded key, simplified] nd[unfolded key, simplified] split: option.splits prod.splits) blast?
      have "kb_ok db1" using kb_ok_cong[OF kbs_fetch.prems] f by blast
      then have "kb_ok (db1\<lparr>kb_docs := insert_row d (kb_docs db1)\<rparr>)"
        using d f kbs_fetch.hyps(1) by (intro insert_doc_ok) auto
      then show ?thesis using e embed_document_ok by blast
    qed
  qed
next
  case (kbs_recover db)
  then show ?case by (rule recover_ok)
qed


section \<open>Recovery\<close>

lemma recovered_twice [simp]: "recovered (recovered d) = recovered d" "kd_id (recovered d) = kd_id d"
  by (simp_all add: recovered_def)

lemma recover_fold_docs:
  "kb_docs (foldl recover_one db ds) = List.map (\<lambda>d. if kd_id d \<in> kd_id ` set ds then recovered d else d) (kb_docs db)"
proof (induction ds arbitrary: db)
  case (Cons x ds)
  have "kb_docs (recover_one db x) = List.map (\<lambda>d. if kd_id d = kd_id x then recovered d else d) (kb_docs db)"
    by (simp add: recover_one_def enqueue_embed_def enqueue_job_def table_update_def update_rows_def)
  then show ?case using Cons.IH[of "recover_one db x"] by (auto simp: comp_def)
qed simp

definition recovery_job :: "kb_document \<Rightarrow> kb_job" where
  "recovery_job d = \<lparr>kj_func = ''apps.nexus_worker.jobs.embed_document'', kj_args = [(''document_id'', JInt (kd_id d))],
     kj_job_id = ''kb_recover_'' @ str_int (kd_id d)\<rparr>"

lemma recover_fold_rest:
  "kb_queue (foldl recover_one db ds) = kb_queue db @ List.map recovery_job ds \<and>
   kb_chunks (foldl recover_one db ds) = kb_chunks db \<and> kb_objects (foldl recover_one db ds) = kb_objects db"
  by (induction ds arbitrary: db)
    (simp_all add: recover_one_def enqueue_embed_def enqueue_job_def recovery_job_def)

lemma recover_docs:
  assumes "docs_ok db"
  shows "kb_docs (recover_stuck_documents db) =
    List.map (\<lambda>d. if kd_status d = ''processing'' then recovered d else d) (kb_docs db)"
proof -
  have "inj_on kd_id (set (kb_docs db))" using assms by (simp add: docs_ok_def distinct_map)
  then have "kd_id d \<in> kd_id ` set (filter (\<lambda>d. kd_status d = ''processing'') (kb_docs db)) \<longleftrightarrow> kd_status d = ''processing''"
    if "d \<in> set (kb_docs db)" for d
    using that by (auto simp: inj_on_def)
  then show ?thesis unfolding recover_fold recover_fold_docs by (intro map_cong) auto
qed

lemma select_first_map:
  "(\<And>d. key (g d) = key d) \<Longrightarrow> select_first (\<lambda>d. key d = i) (List.map g ds) = map_option g (select_first (\<lambda>d. key d = i) ds)"
  by (induction ds) auto

text \<open>A document left processing by a crash comes back: the recovery at the worker's start leaves no document
  processing and puts a job for it on the queue, and when that job finds its object, the model answers with vectors of
  the column's width and no failure is forced, the document ends ready.\<close>

theorem stuck_document_recovers:
  assumes "kb_ok db" "doc_by_id db i = Some d" "kd_status d = ''processing''"
    and "extract_text env d db = Inr t" "chunk_text_with_offsets max_chars_default overlap_default t = Some infos"
    and "ig_embed env (List.map ck_text infos) = Inr vs" "\<forall>v \<in> set vs. length v = 384" "ig_fail_stage env = None"
  shows "(\<forall>x \<in> set (kb_docs (recover_stuck_documents db)). kd_status x \<noteq> ''processing'') \<and>
    recovery_job d \<in> set (kb_queue (recover_stuck_documents db)) \<and>
    (\<exists>ev db' d'. embed_document env i (recover_stuck_documents db) = Some (Inr (), ev, db') \<and>
       doc_by_id db' i = Some d' \<and> kd_status d' = ''ready'')"
proof -
  let ?db = "recover_stuck_documents db"
  have ok: "docs_ok db" using assms(1) by (simp add: kb_ok_def)
  note di = doc_by_id_in[OF assms(2)]
  have rd: "doc_by_id ?db i = Some (recovered d)"
    using assms(2,3) unfolding doc_by_id_def recover_docs[OF ok] by (subst select_first_map) auto
  have none: "\<forall>x \<in> set (kb_docs ?db). kd_status x \<noteq> ''processing''"
    unfolding recover_docs[OF ok] by (auto simp: recovered_def)
  have job: "recovery_job d \<in> set (kb_queue ?db)"
    using di assms(3) unfolding recover_fold using recover_fold_rest by fastforce
  have obj: "kb_objects ?db = kb_objects db" unfolding recover_fold using recover_fold_rest by blast
  obtain r ev db' where e: "embed_document env i ?db = Some (r, ev, db')"
    and alt: "doc_by_id db' i \<noteq> None"
    and r: "r = Inr () \<and> kd_status (the (doc_by_id db' i)) = ''ready''"
  proof -
    let ?b = "begun (recovered d)" and ?db1 = "set_doc i (\<lambda>_. begun (recovered d)) ?db"
    have ex: "extract_text env ?b ?db1 = Inr t"
    proof -
      have "extract_text env ?b ?db1 = extract_text env d db"
        by (rule extract_text_cong) (simp_all add: begun_def recovered_def obj)
      then show ?thesis using assms(4) by simp
    qed
    have "\<exists>ev. run_stages env ?b ?db1 = Some (ev, Embedded (ig_sha env (utf8_encode t)) (zip infos vs) (length infos))"
      using assms(5,6,8) ex by (simp add: run_stages_def Let_def forced_failure_def begun_def)
    then obtain ev0 where rs: "run_stages env ?b ?db1 = Some (ev0, Embedded (ig_sha env (utf8_encode t)) (zip infos vs) (length infos))"
      by blast
    have fit: "vectors_fit (zip infos vs)" using assms(7) by (auto simp: vectors_fit_def dest: set_zip_rightD)
    note em = embed_document_def[of env i ?db, unfolded rd option.case Let_def, folded begun_def, unfolded rs]
    have b: "doc_by_id ?db1 i = Some ?b"
      using rd di unfolding doc_by_id_def set_doc_frame by (intro select_first_replace) auto
    let ?h = "ig_sha env (utf8_encode t)"
    have "doc_by_id (drop_chunks i ?db1\<lparr>kb_chunks := cs, kb_embeds := es, kb_next_chunk := n\<rparr>) i = Some ?b" for cs es n
      using b by (simp add: doc_by_id_def)
    then have "doc_by_id (index_chunks env ?b ?h (zip infos vs) ?db1) i = Some (?b\<lparr>kd_checksum := Some ?h,
        kd_meta := stored_meta env (kd_meta ?b), kd_status := ''ready'', kd_version := kd_version ?b + 1\<rparr>)"
      using di by (simp add: index_chunks_def Let_def doc_by_id_set_doc)
    then show thesis using that em fit by simp
  qed
  then show ?thesis using none job by auto
qed

section \<open>Concrete instances\<close>

definition demo_ingest :: ingest_env where
  "demo_ingest = \<lparr>ig_storage_up = True, ig_pdf = (\<lambda>_. Inr []), ig_decode = (\<lambda>b. ''hello''), ig_sha = (\<lambda>b. ''h''),
     ig_embed = (\<lambda>ts. Inr (List.map (\<lambda>_. replicate 384 0) ts)), ig_model = ''m'', ig_provider = ''p'', ig_dim = 384,
     ig_fail_stage = None\<rparr>"

definition demo_doc :: kb_document where
  "demo_doc = new_document 1 1 ''global'' ''t'' ''text/plain'' ''k'' [] None None"

definition demo_kb :: "string \<Rightarrow> kb_db" where
  "demo_kb st = empty_kb\<lparr>kb_docs := [demo_doc\<lparr>kd_status := st\<rparr>], kb_objects := [(''k'', [])]\<rparr>"

lemma demo_kb_doc: "doc_by_id (demo_kb st) 1 = Some (demo_doc\<lparr>kd_status := st\<rparr>)"
  by (simp add: doc_by_id_def demo_kb_def demo_doc_def new_document_def)

lemma demo_extract: "extract_text demo_ingest (demo_doc\<lparr>kd_status := st\<rparr>) (demo_kb st) = Inr ''hello''"
  by (simp add: extract_text_def storage_get_def demo_ingest_def demo_kb_def demo_doc_def new_document_def)

lemma demo_hello: "chunk_text_with_offsets max_chars_default overlap_default ''hello'' = Some [make_chunk ''hello'' 0 5]"
  by code_simp

theorem stuck_document_recovers_witness:
  "\<exists>ev db' d'. embed_document demo_ingest 1 (recover_stuck_documents (demo_kb ''processing'')) = Some (Inr (), ev, db') \<and>
     doc_by_id db' 1 = Some d' \<and> kd_status d' = ''ready''"
proof -
  have ok: "kb_ok (demo_kb ''processing'')"
    by (simp add: kb_ok_def index_ok_def docs_ok_def doc_chunks_def demo_kb_def empty_kb_def demo_doc_def new_document_def)
  have em: "ig_embed demo_ingest (List.map ck_text [make_chunk ''hello'' 0 5]) = Inr [replicate 384 0]"
    by (simp add: demo_ingest_def)
  have "kd_status (demo_doc\<lparr>kd_status := ''processing''\<rparr>) = ''processing''" "ig_fail_stage demo_ingest = None"
    "\<forall>v \<in> set [replicate 384 (0::int)]. length v = 384" by (simp_all add: demo_ingest_def)
  from stuck_document_recovers[OF ok demo_kb_doc this(1) demo_extract demo_hello em this(3,2)] show ?thesis by blast
qed

theorem embed_document_atomic_witness:
  "\<exists>r ev db'. embed_document demo_ingest 1 (demo_kb ''uploaded'') = Some (r, ev, db')"
  using embed_document_atomic[OF demo_kb_doc, of demo_ingest "''uploaded''"] by blast


end
