(* ===== verification/DnsProvider.thy ===== *)
theory DnsProvider
  imports "Automation" "TaskDispatch"
begin

text \<open>
  The provider side of the DNS agent: the records of \<open>apps/dns_agent/adapters/base.py\<close>, the request
  loops with retries and the adapters of \<open>adapters/cloudflare.py\<close> and \<open>adapters/dnsmadeeasy.py\<close>,
  and the choice of an adapter of \<open>adapters/factory.py\<close>.  The HTTP client is the argument
  \<open>transport\<close>: a request takes the state of the provider to an outcome and its next state.  The
  header values a secret is turned into (HMAC and clock for DNSMadeEasy) and Python's \<open>str\<close> of a
  list or dictionary are arguments as well; waiting times are left out.
\<close>

section \<open>Adapter records and the HTTP exchange\<close>

record record_meta =
  rm_id :: json
  rm_type :: json
  rm_name :: json
  rm_value :: json
  rm_ttl :: json
  rm_priority :: json

record record_spec =
  rs_type :: string
  rs_name :: string
  rs_value :: string
  rs_ttl :: int
  rs_priority :: "int option"

record zone_meta =
  zm_id :: json
  zm_name :: json
  zm_status :: json

record provider_request =
  pq_method :: string
  pq_path :: string
  pq_auth :: "(string \<times> string) list"
  pq_params :: "(string \<times> json) list"
  pq_json :: "json option"

record provider_response =
  pr_status :: int
  pr_retry_after :: "string option"
  pr_text :: string
  pr_json :: "json res"

datatype provider_outcome =
    POTimeout string
  | POFailure exn
  | POAnswer provider_response

type_synonym 's transport = "provider_request \<Rightarrow> 's \<Rightarrow> provider_outcome \<times> 's"

type_synonym ('a, 's) call = "'s \<Rightarrow> 'a res \<times> 's"

definition bind_call :: "('a, 's) call \<Rightarrow> ('a \<Rightarrow> ('b, 's) call) \<Rightarrow> ('b, 's) call" where
  "bind_call m f s = (case m s of (Inl e, s') \<Rightarrow> (Inl e, s') | (Inr v, s') \<Rightarrow> f v s')"

definition give :: "'a res \<Rightarrow> ('a, 's) call" where
  "give r s = (r, s)"

lemma bind_call_simps [simp]:
  "m s = (Inl e, s') \<Longrightarrow> bind_call m f s = (Inl e, s')"
  "m s = (Inr v, s') \<Longrightarrow> bind_call m f s = f v s'"
  "bind_call (give (Inl e)) f s = (Inl e, s)"
  "bind_call (give (Inr v)) f s = f v s"
  by (simp_all add: bind_call_def give_def)

lemma bind_call_Inr: "bind_call m f s = (Inr r, s'') \<longleftrightarrow> (\<exists>v s'. m s = (Inr v, s') \<and> f v s' = (Inr r, s''))"
  by (auto simp: bind_call_def split: prod.splits sum.splits)

lemma give_apply [simp]: "give r s = (r, s)"
  by (simp add: give_def)

section \<open>Python on JSON values\<close>

definition py_item :: "string \<Rightarrow> json \<Rightarrow> json res" where
  "py_item k j = (case j of
     JObj d \<Rightarrow> of_opt (PyError ''KeyError'' k) (map_of d k)
   | _ \<Rightarrow> Inl (PyError ''TypeError'' ''not subscriptable by a string''))"

definition py_get :: "string \<Rightarrow> json \<Rightarrow> json \<Rightarrow> json res" where
  "py_get k dflt j = (case j of
     JObj d \<Rightarrow> Inr (dget d k dflt)
   | _ \<Rightarrow> Inl (PyError ''AttributeError'' ''get''))"

definition py_iterate :: "json \<Rightarrow> json list res" where
  "py_iterate j = (case j of
     JList xs \<Rightarrow> Inr xs
   | JObj d \<Rightarrow> Inr (List.map (JStr \<circ> fst) d)
   | JStr s \<Rightarrow> Inr (List.map (\<lambda>c. JStr [c]) s)
   | _ \<Rightarrow> Inl (PyError ''TypeError'' ''not iterable''))"

definition py_first :: "json \<Rightarrow> json res" where
  "py_first j = (case j of
     JList (x # _) \<Rightarrow> Inr x
   | JStr (c # _) \<Rightarrow> Inr (JStr [c])
   | JObj _ \<Rightarrow> Inl (PyError ''KeyError'' ''0'')
   | _ \<Rightarrow> Inl (PyError ''TypeError'' ''not subscriptable''))"

definition py_lower :: "json \<Rightarrow> string res" where
  "py_lower j = (case j of JStr s \<Rightarrow> Inr (lower s) | _ \<Rightarrow> Inl (PyError ''AttributeError'' ''lower''))"

definition py_str :: "(json \<Rightarrow> string) \<Rightarrow> json \<Rightarrow> string" where
  "py_str show j = (case j of
     JStr s \<Rightarrow> s
   | JInt i \<Rightarrow> str_int i
   | JNull \<Rightarrow> ''None''
   | JBool b \<Rightarrow> (if b then ''True'' else ''False'')
   | _ \<Rightarrow> show j)"

definition strip_dots :: "string \<Rightarrow> string" where
  "strip_dots s = rev (dropWhile (\<lambda>c. c = CHR ''.'') (rev (dropWhile (\<lambda>c. c = CHR ''.'') s)))"

text \<open>The texts \<open>float\<close> accepts: a decimal number with an optional sign and exponent, or a name of
  infinity or of the value that is not a number.\<close>

definition drop_sign :: "string \<Rightarrow> string" where
  "drop_sign s = (case s of c # t \<Rightarrow> if c = CHR ''-'' \<or> c = CHR ''+'' then t else s | [] \<Rightarrow> [])"

definition digits_ok :: "string \<Rightarrow> bool" where
  "digits_ok s = (int_digits s \<noteq> None)"

definition mantissa_ok :: "string \<Rightarrow> bool" where
  "mantissa_ok m = (let i = takeWhile (\<lambda>c. c \<noteq> CHR ''.'') m in
     case dropWhile (\<lambda>c. c \<noteq> CHR ''.'') m of
       [] \<Rightarrow> digits_ok i
     | _ # f \<Rightarrow> (i = [] \<or> digits_ok i) \<and> (f = [] \<or> digits_ok f) \<and> (i \<noteq> [] \<or> f \<noteq> []))"

definition py_float_ok :: "string \<Rightarrow> bool" where
  "py_float_ok s = (let u = lower (drop_sign (strip s)) in
     u \<in> {''inf'', ''infinity'', ''nan''} \<or>
     (mantissa_ok (takeWhile (\<lambda>c. c \<noteq> CHR ''e'') u) \<and>
      (case dropWhile (\<lambda>c. c \<noteq> CHR ''e'') u of [] \<Rightarrow> True | _ # x \<Rightarrow> digits_ok (drop_sign x))))"

section \<open>Requests with retries\<close>

definition max_retries :: nat where
  "max_retries = 3"

text \<open>What an attempt tells the loop: to go on to the next one, with the text a timeout left as the
  err error, or to stop with a result.\<close>

datatype 'a verdict = Again "string option" | Stop "'a res"

fun retry_from :: "'s transport \<Rightarrow> (nat \<Rightarrow> provider_outcome \<Rightarrow> 'a verdict) \<Rightarrow> (string \<Rightarrow> exn) \<Rightarrow>
    provider_request \<Rightarrow> string \<Rightarrow> nat list \<Rightarrow> ('a, 's) call" where
  "retry_from send judge gone q err [] s = (Inl (gone err), s)"
| "retry_from send judge gone q err (a # as) s =
     (case send q s of (out, s') \<Rightarrow>
       (case judge a out of
          Stop r \<Rightarrow> (r, s')
        | Again None \<Rightarrow> retry_from send judge gone q err as s'
        | Again (Some e) \<Rightarrow> retry_from send judge gone q e as s'))"

definition cf_result :: "(json \<Rightarrow> string) \<Rightarrow> provider_request \<Rightarrow> provider_response \<Rightarrow> json res" where
  "cf_result show q r = bind_res (pr_json r) (\<lambda>data.
     bind_res (py_get ''success'' JNull data) (\<lambda>ok.
       if truthy ok then Inr data
       else bind_res (py_get ''errors'' (JList []) data) (\<lambda>errors.
         Inl (PyError ''RuntimeError'' (''Cloudflare API error on '' @ pq_method q @ '' '' @ pq_path q
                @ '': '' @ py_str show errors)))))"

definition cf_judge :: "(json \<Rightarrow> string) \<Rightarrow> provider_request \<Rightarrow> nat \<Rightarrow> provider_outcome \<Rightarrow> json verdict" where
  "cf_judge show q a out = (case out of
     POTimeout e \<Rightarrow> Again (Some e)
   | POFailure e \<Rightarrow> Stop (Inl e)
   | POAnswer r \<Rightarrow>
       if pr_status r = 429 then
         (case pr_retry_after r of
            Some t \<Rightarrow> if py_float_ok t then Again None
                      else Stop (Inl (PyError ''ValueError'' (''could not convert string to float: '' @ t)))
          | None \<Rightarrow> Again None)
       else if pr_status r \<ge> 500 \<and> a < max_retries then Again None
       else Stop (cf_result show q r))"

definition cf_gone :: "string \<Rightarrow> exn" where
  "cf_gone err = PyError ''RuntimeError''
     (''Cloudflare API request failed after '' @ digits_of max_retries @ '' attempts: '' @ err)"

definition cf_request :: "'s transport \<Rightarrow> (json \<Rightarrow> string) \<Rightarrow> provider_request \<Rightarrow> (json, 's) call" where
  "cf_request send show q = retry_from send (cf_judge show q) cf_gone q ''None'' [1..<Suc max_retries]"

definition dme_judge :: "provider_request \<Rightarrow> nat \<Rightarrow> provider_outcome \<Rightarrow> json verdict" where
  "dme_judge q a out = (case out of
     POTimeout e \<Rightarrow> Again (Some e)
   | POFailure e \<Rightarrow> Stop (Inl e)
   | POAnswer r \<Rightarrow>
       if pr_status r = 429 then Again None
       else if pr_status r \<ge> 500 \<and> a < max_retries then Again None
       else if pr_status r = 404 then
         Stop (Inl (PyError ''HTTPStatusError'' (''Not found: '' @ pq_method q @ '' '' @ pq_path q)))
       else if pr_status r \<ge> 400 then
         Stop (Inl (PyError ''RuntimeError'' (''DNSMadeEasy API error '' @ str_int (pr_status r) @ '' on ''
                @ pq_method q @ '' '' @ pq_path q @ '': '' @ take 500 (pr_text r))))
       else if pr_text r = [] then Stop (Inr (JObj []))
       else Stop (pr_json r))"

definition dme_gone :: "string \<Rightarrow> exn" where
  "dme_gone err = PyError ''RuntimeError''
     (''DNSMadeEasy API request failed after '' @ digits_of max_retries @ '' attempts: '' @ err)"

definition dme_request :: "'s transport \<Rightarrow> provider_request \<Rightarrow> (json, 's) call" where
  "dme_request send q = retry_from send (dme_judge q) dme_gone q ''None'' [1..<Suc max_retries]"

section \<open>The adapter interface\<close>

record 's adapter =
  ad_list_zones :: "string option \<Rightarrow> (zone_meta list, 's) call"
  ad_list_records :: "json \<Rightarrow> (record_meta list, 's) call"
  ad_find_record :: "json \<Rightarrow> string \<Rightarrow> string \<Rightarrow> (record_meta option, 's) call"
  ad_upsert_record :: "json \<Rightarrow> record_spec \<Rightarrow> (record_meta, 's) call"
  ad_delete_record :: "json \<Rightarrow> string \<Rightarrow> (unit, 's) call"
  ad_ensure_zone :: "string \<Rightarrow> (zone_meta, 's) call"

section \<open>Cloudflare\<close>

record 's http_env =
  he_send :: "'s transport"
  he_show :: "json \<Rightarrow> string"

definition cf_headers :: "string \<Rightarrow> (string \<times> string) list" where
  "cf_headers token = [(''Authorization'', ''Bearer '' @ token), (''Content-Type'', ''application/json'')]"

definition cf_call :: "'s http_env \<Rightarrow> string \<Rightarrow> string \<Rightarrow> string \<Rightarrow> (string \<times> json) list \<Rightarrow> json option \<Rightarrow> (json, 's) call" where
  "cf_call env token meth path params body = cf_request (he_send env) (he_show env)
     \<lparr>pq_method = meth, pq_path = path, pq_auth = cf_headers token, pq_params = params, pq_json = body\<rparr>"

definition parse_cf_record :: "json \<Rightarrow> record_meta res" where
  "parse_cf_record r =
     bind_res (py_item ''id'' r) (\<lambda>i.
     bind_res (py_item ''type'' r) (\<lambda>t.
     bind_res (py_item ''name'' r) (\<lambda>n.
     bind_res (py_get ''content'' (JStr []) r) (\<lambda>v.
     bind_res (py_get ''ttl'' (JInt 300) r) (\<lambda>l.
     bind_res (py_get ''priority'' JNull r) (\<lambda>p.
       Inr \<lparr>rm_id = i, rm_type = t, rm_name = n, rm_value = v, rm_ttl = l, rm_priority = p\<rparr>))))))"

definition parse_cf_zone :: "json \<Rightarrow> zone_meta res" where
  "parse_cf_zone z =
     bind_res (py_item ''id'' z) (\<lambda>i. bind_res (py_item ''name'' z) (\<lambda>n. bind_res (py_item ''status'' z) (\<lambda>st.
       Inr \<lparr>zm_id = i, zm_name = n, zm_status = st\<rparr>)))"

definition records_path :: "'s http_env \<Rightarrow> json \<Rightarrow> string" where
  "records_path env z = ''/zones/'' @ py_str (he_show env) z @ ''/dns_records''"

definition cf_list_zones :: "'s http_env \<Rightarrow> string \<Rightarrow> string option \<Rightarrow> (zone_meta list, 's) call" where
  "cf_list_zones env token name_filter =
     bind_call (cf_call env token ''GET'' ''/zones''
        ((''per_page'', JInt 100) # (case name_filter of
            Some (c # n) \<Rightarrow> [(''name'', JStr (c # n))] | _ \<Rightarrow> [])) None) (\<lambda>data.
     give (bind_res (py_get ''result'' (JList []) data) (\<lambda>j. bind_res (py_iterate j) (map_res parse_cf_zone))))"

definition cf_list_records :: "'s http_env \<Rightarrow> string \<Rightarrow> json \<Rightarrow> (record_meta list, 's) call" where
  "cf_list_records env token z =
     bind_call (cf_call env token ''GET'' (records_path env z) [(''per_page'', JInt 1000)] None) (\<lambda>data.
     give (bind_res (py_get ''result'' (JList []) data) (\<lambda>j. bind_res (py_iterate j) (map_res parse_cf_record))))"

definition cf_find_record :: "'s http_env \<Rightarrow> string \<Rightarrow> json \<Rightarrow> string \<Rightarrow> string \<Rightarrow> (record_meta option, 's) call" where
  "cf_find_record env token z record_type name =
     bind_call (cf_call env token ''GET'' (records_path env z)
        [(''type'', JStr record_type), (''name'', JStr name), (''per_page'', JInt 10)] None) (\<lambda>data.
     give (bind_res (py_get ''result'' (JList []) data) (\<lambda>results.
       if truthy results then bind_res (py_first results) (\<lambda>r. map_sum id Some (parse_cf_record r))
       else Inr None)))"

definition cf_payload :: "record_spec \<Rightarrow> json" where
  "cf_payload spec = JObj ([(''type'', JStr (rs_type spec)), (''name'', JStr (rs_name spec)),
      (''content'', JStr (rs_value spec)), (''ttl'', JInt (rs_ttl spec))]
     @ (case rs_priority spec of Some p \<Rightarrow> [(''priority'', JInt p)] | None \<Rightarrow> []))"

definition cf_upsert_record :: "'s http_env \<Rightarrow> string \<Rightarrow> json \<Rightarrow> record_spec \<Rightarrow> (record_meta, 's) call" where
  "cf_upsert_record env token z spec =
     bind_call (cf_find_record env token z (rs_type spec) (rs_name spec)) (\<lambda>existing.
     bind_call
       (case existing of
          Some m \<Rightarrow> cf_call env token ''PATCH'' (records_path env z @ ''/'' @ py_str (he_show env) (rm_id m))
                      [] (Some (cf_payload spec))
        | None \<Rightarrow> cf_call env token ''POST'' (records_path env z) [] (Some (cf_payload spec))) (\<lambda>data.
     give (bind_res (py_item ''result'' data) parse_cf_record)))"

definition cf_delete_record :: "'s http_env \<Rightarrow> string \<Rightarrow> json \<Rightarrow> string \<Rightarrow> (unit, 's) call" where
  "cf_delete_record env token z record_id =
     bind_call (cf_call env token ''DELETE'' (records_path env z @ ''/'' @ record_id) [] None) (\<lambda>_. give (Inr ()))"

definition cf_ensure_zone :: "'s http_env \<Rightarrow> string \<Rightarrow> string \<Rightarrow> (zone_meta, 's) call" where
  "cf_ensure_zone env token zone_name =
     bind_call (cf_list_zones env token (Some zone_name)) (\<lambda>zones. give (case zones of
       z # _ \<Rightarrow> Inr z
     | [] \<Rightarrow> Inl (PyError ''RuntimeError'' (''Zone '' @ [CHR 0x27] @ zone_name @ [CHR 0x27] @ '' not found in Cloudflare. ''
               @ ''Please add it to your Cloudflare account first, then register it with dns-agent.''))))"

definition cloudflare_adapter :: "'s http_env \<Rightarrow> string \<Rightarrow> 's adapter" where
  "cloudflare_adapter env token =
     \<lparr>ad_list_zones = cf_list_zones env token, ad_list_records = cf_list_records env token,
      ad_find_record = cf_find_record env token, ad_upsert_record = cf_upsert_record env token,
      ad_delete_record = cf_delete_record env token, ad_ensure_zone = cf_ensure_zone env token\<rparr>"

section \<open>DNSMadeEasy\<close>

text \<open>The headers carry the key and the HMAC of the date under the secret; \<open>sign\<close> makes them.\<close>

definition dme_call :: "'s http_env \<Rightarrow> (string \<times> string) list \<Rightarrow> string \<Rightarrow> string \<Rightarrow> (string \<times> json) list \<Rightarrow> json option \<Rightarrow> (json, 's) call" where
  "dme_call env sign meth path params body = dme_request (he_send env)
     \<lparr>pq_method = meth, pq_path = path, pq_auth = sign, pq_params = params, pq_json = body\<rparr>"

definition parse_dme_record :: "(json \<Rightarrow> string) \<Rightarrow> json \<Rightarrow> record_meta res" where
  "parse_dme_record show r =
     bind_res (py_item ''id'' r) (\<lambda>i.
     bind_res (py_get ''type'' (JStr ''A'') r) (\<lambda>t.
     bind_res (py_get ''name'' (JStr ''@'') r) (\<lambda>n.
     bind_res (py_get ''value'' (JStr []) r) (\<lambda>v.
     bind_res (py_get ''ttl'' (JInt 300) r) (\<lambda>l.
     bind_res (py_get ''mxLevel'' JNull r) (\<lambda>m.
     bind_res (py_get ''priority'' JNull r) (\<lambda>p.
       Inr \<lparr>rm_id = JStr (py_str show i), rm_type = t, rm_name = n, rm_value = v, rm_ttl = l,
            rm_priority = (if truthy m then m else p)\<rparr>)))))))"

definition parse_dme_zone :: "(json \<Rightarrow> string) \<Rightarrow> json \<Rightarrow> zone_meta res" where
  "parse_dme_zone show z =
     bind_res (py_item ''id'' z) (\<lambda>i. bind_res (py_get ''name'' (JStr []) z) (\<lambda>n.
       Inr \<lparr>zm_id = JStr (py_str show i), zm_name = n, zm_status = JStr ''active''\<rparr>))"

text \<open>\<open>data.get("data", data) if isinstance(data, dict) else data\<close>, and the empty list for what is not a list.\<close>

definition dme_listing :: "json \<Rightarrow> json list" where
  "dme_listing data = (case (case data of JObj d \<Rightarrow> dget d ''data'' data | _ \<Rightarrow> data) of
     JList xs \<Rightarrow> xs | _ \<Rightarrow> [])"

definition dme_records_path :: "'s http_env \<Rightarrow> json \<Rightarrow> string" where
  "dme_records_path env z = ''/dns/managed/'' @ py_str (he_show env) z @ ''/records/''"

definition dme_list_zones :: "'s http_env \<Rightarrow> (string \<times> string) list \<Rightarrow> string option \<Rightarrow> (zone_meta list, 's) call" where
  "dme_list_zones env sign name_filter =
     bind_call (dme_call env sign ''GET'' ''/dns/managed/'' [] None) (\<lambda>data.
     give (bind_res (map_res (parse_dme_zone (he_show env)) (dme_listing data)) (\<lambda>zones.
       Inr (case name_filter of
          Some (c # n) \<Rightarrow> filter (\<lambda>z. zm_name z = JStr (strip_dots (lower (c # n)))) zones
        | _ \<Rightarrow> zones))))"

definition dme_list_records :: "'s http_env \<Rightarrow> (string \<times> string) list \<Rightarrow> json \<Rightarrow> (record_meta list, 's) call" where
  "dme_list_records env sign z =
     bind_call (dme_call env sign ''GET'' (dme_records_path env z) [] None) (\<lambda>data.
     give (map_res (parse_dme_record (he_show env)) (dme_listing data)))"

fun dme_match :: "(json \<Rightarrow> string) \<Rightarrow> string \<Rightarrow> string \<Rightarrow> json list \<Rightarrow> record_meta option res" where
  "dme_match show t n [] = Inr None"
| "dme_match show t n (r # rs) =
     bind_res (py_get ''type'' JNull r) (\<lambda>t'.
       if t' \<noteq> JStr t then dme_match show t n rs
       else bind_res (py_get ''name'' (JStr []) r) (\<lambda>n'. bind_res (py_lower n') (\<lambda>l.
         if l = lower n then map_sum id Some (parse_dme_record show r) else dme_match show t n rs)))"

definition dme_pick :: "(json \<Rightarrow> string) \<Rightarrow> string \<Rightarrow> string \<Rightarrow> json list \<Rightarrow> record_meta option res" where
  "dme_pick show t n rs = (case rs of
     [] \<Rightarrow> Inr None
   | r # _ \<Rightarrow> bind_res (dme_match show t n rs) (\<lambda>m. case m of
       Some m \<Rightarrow> Inr (Some m) | None \<Rightarrow> map_sum id Some (parse_dme_record show r)))"

definition dme_find_record :: "'s http_env \<Rightarrow> (string \<times> string) list \<Rightarrow> json \<Rightarrow> string \<Rightarrow> string \<Rightarrow> (record_meta option, 's) call" where
  "dme_find_record env sign z record_type name =
     bind_call (dme_call env sign ''GET'' (dme_records_path env z)
        [(''type'', JStr record_type), (''recordName'', JStr name)] None) (\<lambda>data.
     give (dme_pick (he_show env) record_type name (dme_listing data)))"

definition dme_payload :: "record_spec \<Rightarrow> (string \<times> json) list" where
  "dme_payload spec = [(''type'', JStr (rs_type spec)), (''name'', JStr (rs_name spec)),
      (''value'', JStr (rs_value spec)), (''ttl'', JInt (rs_ttl spec)), (''gtdLocation'', JStr ''DEFAULT'')]
     @ (case rs_priority spec of
          Some p \<Rightarrow> if rs_type spec \<in> {''MX'', ''SRV''} then [(''mxLevel'', JInt p)] else []
        | None \<Rightarrow> [])"

definition has_id :: "json \<Rightarrow> bool" where
  "has_id data = (case data of JObj d \<Rightarrow> dhas ''id'' d | _ \<Rightarrow> False)"

definition dme_upsert_record :: "'s http_env \<Rightarrow> (string \<times> string) list \<Rightarrow> json \<Rightarrow> record_spec \<Rightarrow> (record_meta, 's) call" where
  "dme_upsert_record env sign z spec =
     bind_call (dme_find_record env sign z (rs_type spec) (rs_name spec)) (\<lambda>existing.
     bind_call
       (case existing of
          Some m \<Rightarrow>
            (let i = py_str (he_show env) (rm_id m) in
             case py_int i of
               None \<Rightarrow> give (Inl (PyError ''ValueError'' (''invalid literal for int() with base 10: '' @ i)))
             | Some k \<Rightarrow> dme_call env sign ''PUT'' (dme_records_path env z @ i @ ''/'') []
                           (Some (JObj (dme_payload spec @ [(''id'', JInt k)]))))
        | None \<Rightarrow> dme_call env sign ''POST'' (dme_records_path env z) [] (Some (JObj (dme_payload spec)))) (\<lambda>data.
     if has_id data then give (parse_dme_record (he_show env) data)
     else bind_call (dme_find_record env sign z (rs_type spec) (rs_name spec)) (\<lambda>updated.
       give (of_opt (PyError ''RuntimeError'' (''Upsert succeeded but record not found: '' @ rs_type spec @ '' '' @ rs_name spec)) updated))))"

definition dme_delete_record :: "'s http_env \<Rightarrow> (string \<times> string) list \<Rightarrow> json \<Rightarrow> string \<Rightarrow> (unit, 's) call" where
  "dme_delete_record env sign z record_id =
     bind_call (dme_call env sign ''DELETE'' (dme_records_path env z @ record_id @ ''/'') [] None) (\<lambda>_. give (Inr ()))"

definition dme_ensure_zone :: "'s http_env \<Rightarrow> (string \<times> string) list \<Rightarrow> string \<Rightarrow> (zone_meta, 's) call" where
  "dme_ensure_zone env sign zone_name =
     bind_call (dme_list_zones env sign (Some zone_name)) (\<lambda>zones. case zones of
       z # _ \<Rightarrow> give (Inr z)
     | [] \<Rightarrow> bind_call (dme_call env sign ''POST'' ''/dns/managed/'' []
               (Some (JObj [(''name'', JStr (strip_dots (lower zone_name)))]))) (\<lambda>data.
         if has_id data then give (parse_dme_zone (he_show env) data)
         else bind_call (dme_list_zones env sign (Some zone_name)) (\<lambda>again. give (case again of
           z # _ \<Rightarrow> Inr z
         | [] \<Rightarrow> Inl (PyError ''RuntimeError'' (''Zone '' @ [CHR 0x27] @ zone_name @ [CHR 0x27]
                   @ '' could not be created in DNSMadeEasy. Check API permissions and account limits.''))))))"

definition dnsmadeeasy_adapter :: "'s http_env \<Rightarrow> (string \<times> string) list \<Rightarrow> 's adapter" where
  "dnsmadeeasy_adapter env sign =
     \<lparr>ad_list_zones = dme_list_zones env sign, ad_list_records = dme_list_records env sign,
      ad_find_record = dme_find_record env sign, ad_upsert_record = dme_upsert_record env sign,
      ad_delete_record = dme_delete_record env sign, ad_ensure_zone = dme_ensure_zone env sign\<rparr>"

section \<open>The factory\<close>

text \<open>\<open>secret\<close> answers a request for an alias to the vault; \<open>sign\<close> turns key and secret into headers.\<close>

definition get_adapter :: "'s http_env \<Rightarrow> (string \<Rightarrow> string \<Rightarrow> (string \<times> string) list) \<Rightarrow> (string \<Rightarrow> string res) \<Rightarrow>
    string \<Rightarrow> 's adapter res" where
  "get_adapter env sign secret provider =
     (if provider = ''cloudflare'' then
        bind_res (secret ''dns.cloudflare.api_token'') (\<lambda>token. Inr (cloudflare_adapter env token))
      else if provider = ''dnsmadeeasy'' then
        bind_res (secret ''dns.dnsmadeeasy.api_key'') (\<lambda>api_key.
        bind_res (secret ''dns.dnsmadeeasy.secret_key'') (\<lambda>secret_key.
          Inr (dnsmadeeasy_adapter env (sign api_key secret_key))))
      else Inl (PyError ''ValueError'' (''Unknown DNS provider: '' @ [CHR 0x27] @ provider @ [CHR 0x27]
             @ ''. Supported: cloudflare, dnsmadeeasy'')))"


section \<open>What a request with retries returns\<close>

text \<open>The first outcomes of sending the same request again and again, and whether an outcome settles
  the request at its attempt: everything but a timeout, a rate limit whose waiting time can be read
  and, before the last attempt, a server error.\<close>

primrec trace :: "'s transport \<Rightarrow> provider_request \<Rightarrow> nat \<Rightarrow> 's \<Rightarrow> (provider_outcome \<times> 's) list" where
  "trace send q 0 s = []"
| "trace send q (Suc n) s = send q s # trace send q n (snd (send q s))"

definition settles :: "nat \<Rightarrow> provider_outcome \<Rightarrow> bool" where
  "settles a out = (case out of
     POTimeout e \<Rightarrow> False
   | POFailure e \<Rightarrow> True
   | POAnswer r \<Rightarrow>
       (if pr_status r = 429 then \<not> (case pr_retry_after r of Some t \<Rightarrow> py_float_ok t | None \<Rightarrow> True)
        else pr_status r < 500 \<or> a = max_retries))"

fun settled :: "nat \<Rightarrow> (provider_outcome \<times> 's) list \<Rightarrow> (provider_outcome \<times> 's) option" where
  "settled a [] = None"
| "settled a (x # xs) = (if settles a (fst x) then Some x else settled (Suc a) xs)"

fun last_timeout :: "string \<Rightarrow> (provider_outcome \<times> 's) list \<Rightarrow> string" where
  "last_timeout e [] = e"
| "last_timeout e ((POTimeout t, s) # xs) = last_timeout t xs"
| "last_timeout e (_ # xs) = last_timeout e xs"

definition settled_result :: "(json \<Rightarrow> string) \<Rightarrow> provider_request \<Rightarrow> provider_outcome \<Rightarrow> json res" where
  "settled_result show q out = (case out of
     POTimeout e \<Rightarrow> Inl (cf_gone e)
   | POFailure e \<Rightarrow> Inl e
   | POAnswer r \<Rightarrow>
       if pr_status r = 429 then
         Inl (PyError ''ValueError'' (''could not convert string to float: '' @ the (pr_retry_after r)))
       else cf_result show q r)"

lemma cf_judge_settles:
  "a \<le> max_retries \<Longrightarrow> cf_judge show q a out =
     (if settles a out then Stop (settled_result show q out)
      else Again (case out of POTimeout e \<Rightarrow> Some e | _ \<Rightarrow> None))"
  by (cases out) (auto simp: cf_judge_def settles_def settled_result_def split: option.splits)

lemma cf_retry_trace:
  assumes "a + n = Suc max_retries"
  shows "retry_from send (cf_judge show q) cf_gone q err [a..<a + n] s =
    (case settled a (trace send q n s) of
       Some (out, s') \<Rightarrow> (settled_result show q out, s')
     | None \<Rightarrow> (Inl (cf_gone (last_timeout err (trace send q n s))), if n = 0 then s else snd (last (trace send q n s))))"
  using assms
proof (induction n arbitrary: a err s)
  case 0
  then show ?case by simp
next
  case (Suc n)
  obtain out s' where o: "send q s = (out, s')" by (cases "send q s")
  have le: "a \<le> max_retries" using Suc.prems by simp
  have up: "[a..<a + Suc n] = a # [Suc a..<Suc a + n]" by (simp add: upt_conv_Cons)
  have ih: "retry_from send (cf_judge show q) cf_gone q e [Suc a..<Suc a + n] s' =
    (case settled (Suc a) (trace send q n s') of
       Some (out, s') \<Rightarrow> (settled_result show q out, s')
     | None \<Rightarrow> (Inl (cf_gone (last_timeout e (trace send q n s'))), if n = 0 then s' else snd (last (trace send q n s'))))" for e
    using Suc.prems by (intro Suc.IH) simp
  have emp: "trace send q n s' = [] \<longleftrightarrow> n = 0" by (cases n) simp_all
  show ?case
  proof (cases "settles a out")
    case True
    then show ?thesis unfolding up by (simp add: o cf_judge_settles[OF le])
  next
    case False
    then show ?thesis unfolding up
      by (cases out) (simp_all add: o cf_judge_settles[OF le] ih[unfolded add_Suc] emp del: upt_Suc split: option.splits)
  qed
qed

text \<open>A request to Cloudflare is sent at most three times and always as the same request.  What it
  answers is what the first outcome that settles it answers: a reply that is neither a rate limit nor,
  before the third attempt, a server error.  Without such an outcome it fails after exactly three
  attempts and reports the last timeout it saw.\<close>

theorem cf_request_spec:
  "cf_request send show q s =
    (case settled 1 (trace send q 3 s) of
       Some (out, s') \<Rightarrow> (settled_result show q out, s')
     | None \<Rightarrow> (Inl (cf_gone (last_timeout ''None'' (trace send q 3 s))), snd (last (trace send q 3 s))))"
  using cf_retry_trace[of 1 3 send "show" q "''None''" s]
  by (simp add: cf_request_def max_retries_def)

end
