(* ===== verification/Dns.thy ===== *)
theory Dns
  imports DnsProvider "Redaction"
begin

text \<open>
  The DNS agent, \<open>apps/dns_agent\<close>: its tables (\<open>models.py\<close>), its store (\<open>store/postgres.py\<close>), the
  change jobs (\<open>jobs/runner.py\<close>) and the handlers of \<open>api/zones.py\<close>, \<open>api/records.py\<close>, \<open>api/sync.py\<close>
  and \<open>api/jobs.py\<close>.  Fresh UUIDs are taken from a counter; timestamps are left out but for the marks
  that a job was started or completed.  A handler works in one transaction: its result carries the
  database to commit, and an exception commits nothing.  Alerts and notifications after the work are
  left out; the events a handler emits are part of its answer.
\<close>

section \<open>Tables\<close>

record dns_zone =
  zn_id :: nat
  zn_tenant :: string
  zn_env :: string
  zn_name :: string
  zn_provider :: string
  zn_provider_id :: "string option"
  zn_active :: bool

record dns_record =
  rd_id :: nat
  rd_zone :: nat
  rd_tenant :: string
  rd_env :: string
  rd_type :: string
  rd_name :: string
  rd_value :: string
  rd_ttl :: int
  rd_priority :: "int option"
  rd_tags :: dict
  rd_provider_id :: "string option"

text \<open>One entry of the list \<open>records\<close> of a job's payload.\<close>

record change =
  ch_type :: string
  ch_name :: string
  ch_value :: string
  ch_ttl :: int
  ch_priority :: "int option"
  ch_tags :: "dict option"

record dns_job =
  jb_id :: nat
  jb_tenant :: string
  jb_env :: string
  jb_zone :: string
  jb_operation :: string
  jb_records :: "change list"
  jb_status :: string
  jb_attempts :: nat
  jb_error :: "string option"
  jb_started :: bool
  jb_completed :: bool
  jb_service :: string
  jb_correlation :: string

record dns_audit =
  da_correlation :: string
  da_service :: string
  da_tenant :: string
  da_env :: string
  da_action :: string
  da_zone :: "string option"
  da_result :: string
  da_reason :: "string option"
  da_ip :: "string option"

record dns_db =
  dn_zones :: "dns_zone list"
  dn_records :: "dns_record list"
  dn_jobs :: "dns_job list"
  dn_audit :: "dns_audit list"
  dn_next :: nat

record dns_caller =
  dc_service :: string
  dc_admin :: bool
  dc_ip :: "string option"
  dc_correlation :: string

section \<open>Column types\<close>

text \<open>What the database accepts for a string column of a given length, a text column and an integer
  column; anything else is a database error.\<close>

definition string_col :: "nat \<Rightarrow> json \<Rightarrow> string res" where
  "string_col n j = (case j of
     JStr s \<Rightarrow> if length s \<le> n then Inr s else Inl (PyError ''DBAPIError'' ''value too long'')
   | JNull \<Rightarrow> Inl (PyError ''IntegrityError'' ''null value'')
   | _ \<Rightarrow> Inl (PyError ''DBAPIError'' ''expected str''))"

definition text_col :: "json \<Rightarrow> string res" where
  "text_col j = (case j of
     JStr s \<Rightarrow> Inr s
   | JNull \<Rightarrow> Inl (PyError ''IntegrityError'' ''null value'')
   | _ \<Rightarrow> Inl (PyError ''DBAPIError'' ''expected str''))"

definition int_col :: "json \<Rightarrow> int res" where
  "int_col j = (case j of
     JInt i \<Rightarrow> if - (2 ^ 31) \<le> i \<and> i < 2 ^ 31 then Inr i else Inl (PyError ''DBAPIError'' ''out of range'')
   | JBool b \<Rightarrow> Inr (if b then 1 else 0)
   | JNull \<Rightarrow> Inl (PyError ''IntegrityError'' ''null value'')
   | _ \<Rightarrow> Inl (PyError ''DBAPIError'' ''expected int''))"

definition nullable :: "(json \<Rightarrow> 'a res) \<Rightarrow> json \<Rightarrow> 'a option res" where
  "nullable f j = (if j = JNull then Inr None else map_sum id Some (f j))"

section \<open>The store\<close>

definition get_zone :: "nat \<Rightarrow> dns_db \<Rightarrow> dns_zone option" where
  "get_zone i db = table_look zn_id (dn_zones db) i"

definition get_zone_by_name :: "string \<Rightarrow> string \<Rightarrow> string \<Rightarrow> dns_db \<Rightarrow> dns_zone option" where
  "get_zone_by_name tenant env name db =
     select_first (\<lambda>z. zn_tenant z = tenant \<and> zn_env z = env \<and> zn_name z = name \<and> zn_active z) (dn_zones db)"

definition filter_given :: "string option \<Rightarrow> string \<Rightarrow> bool" where
  "filter_given filter_value stored = (case filter_value of Some (c # s) \<Rightarrow> stored = c # s | _ \<Rightarrow> True)"

definition list_zones :: "string option \<Rightarrow> string option \<Rightarrow> dns_db \<Rightarrow> dns_zone list" where
  "list_zones tenant env db = sort_key (\<lambda>z. (zn_tenant z, zn_name z))
     (select_all (\<lambda>z. zn_active z \<and> filter_given tenant (zn_tenant z) \<and> filter_given env (zn_env z)) (dn_zones db))"

text \<open>The unique index on tenant, environment and name counts inactive zones as well.\<close>

definition create_zone :: "string \<Rightarrow> string \<Rightarrow> string \<Rightarrow> string \<Rightarrow> dns_db \<Rightarrow> (dns_zone \<times> dns_db) res" where
  "create_zone tenant env name provider db =
     (if \<exists>z \<in> set (dn_zones db). zn_tenant z = tenant \<and> zn_env z = env \<and> zn_name z = name
      then Inl (PyError ''IntegrityError'' ''uq_dns_zones_tenant_env_zone'')
      else (let z = \<lparr>zn_id = dn_next db, zn_tenant = tenant, zn_env = env, zn_name = name,
                     zn_provider = provider, zn_provider_id = None, zn_active = True\<rparr> in
        Inr (z, db\<lparr>dn_zones := insert_row z (dn_zones db), dn_next := Suc (dn_next db)\<rparr>)))"

definition set_provider_zone_id :: "dns_zone \<Rightarrow> json \<Rightarrow> dns_db \<Rightarrow> (dns_zone \<times> dns_db) res" where
  "set_provider_zone_id z provider_zone_id db =
     bind_res (nullable (string_col 255) provider_zone_id) (\<lambda>i.
       Inr (z\<lparr>zn_provider_id := i\<rparr>,
            db\<lparr>dn_zones := table_update zn_id (zn_id z) (zn_provider_id_update (\<lambda>_. i)) (dn_zones db)\<rparr>))"

definition delete_zone :: "dns_zone \<Rightarrow> dns_db \<Rightarrow> dns_db" where
  "delete_zone z db = db\<lparr>
     dn_jobs := delete_rows (\<lambda>j. jb_zone j = zn_name z \<and> jb_tenant j = zn_tenant z \<and> jb_env j = zn_env z) (dn_jobs db),
     dn_records := delete_rows (\<lambda>r. rd_zone r = zn_id z) (dn_records db),
     dn_zones := delete_rows (\<lambda>y. zn_id y = zn_id z) (dn_zones db)\<rparr>"

definition count_records :: "nat \<Rightarrow> dns_db \<Rightarrow> nat" where
  "count_records i db = length (select_all (\<lambda>r. rd_zone r = i) (dn_records db))"

definition list_records :: "nat \<Rightarrow> dns_db \<Rightarrow> dns_record list" where
  "list_records i db = sort_key (\<lambda>r. (rd_type r, rd_name r)) (select_all (\<lambda>r. rd_zone r = i) (dn_records db))"

definition at_name :: "nat \<Rightarrow> string \<Rightarrow> string \<Rightarrow> dns_record \<Rightarrow> bool" where
  "at_name i t n r = (rd_zone r = i \<and> rd_type r = t \<and> rd_name r = n)"

definition get_record :: "nat \<Rightarrow> string \<Rightarrow> string \<Rightarrow> dns_db \<Rightarrow> dns_record option" where
  "get_record i t n db = select_first (at_name i t n) (dn_records db)"

definition tags_or_empty :: "dict option \<Rightarrow> dict" where
  "tags_or_empty tags = (case tags of Some d \<Rightarrow> d | None \<Rightarrow> [])"

text \<open>\<open>if provider_record_id:\<close> in the branch of an existing record; a new row takes what is given.\<close>

definition keep_provider_id :: "string option \<Rightarrow> string option \<Rightarrow> string option" where
  "keep_provider_id new old = (case new of Some (c # s) \<Rightarrow> Some (c # s) | _ \<Rightarrow> old)"

definition changed_record :: "change \<Rightarrow> string option \<Rightarrow> dns_record \<Rightarrow> dns_record" where
  "changed_record c pid r = r\<lparr>rd_value := ch_value c, rd_ttl := ch_ttl c, rd_priority := ch_priority c,
     rd_tags := tags_or_empty (ch_tags c), rd_provider_id := keep_provider_id pid (rd_provider_id r)\<rparr>"

definition fresh_record :: "dns_zone \<Rightarrow> change \<Rightarrow> string option \<Rightarrow> nat \<Rightarrow> dns_record" where
  "fresh_record z c pid i = \<lparr>rd_id = i, rd_zone = zn_id z, rd_tenant = zn_tenant z, rd_env = zn_env z,
     rd_type = ch_type c, rd_name = ch_name c, rd_value = ch_value c, rd_ttl = ch_ttl c,
     rd_priority = ch_priority c, rd_tags = tags_or_empty (ch_tags c), rd_provider_id = pid\<rparr>"

definition upsert_record :: "dns_zone \<Rightarrow> change \<Rightarrow> json \<Rightarrow> dns_db \<Rightarrow> dns_db res" where
  "upsert_record z c provider_record_id db =
     bind_res (nullable (string_col 255) provider_record_id) (\<lambda>pid.
       Inr (case get_record (zn_id z) (ch_type c) (ch_name c) db of
         Some r \<Rightarrow> db\<lparr>dn_records := table_update rd_id (rd_id r) (changed_record c pid) (dn_records db)\<rparr>
       | None \<Rightarrow> db\<lparr>dn_records := insert_row (fresh_record z c pid (dn_next db)) (dn_records db),
                    dn_next := Suc (dn_next db)\<rparr>))"

definition delete_record_by_spec :: "nat \<Rightarrow> string \<Rightarrow> string \<Rightarrow> dns_db \<Rightarrow> dns_db" where
  "delete_record_by_spec i t n db = (case get_record i t n db of
     None \<Rightarrow> db
   | Some r \<Rightarrow> db\<lparr>dn_records := delete_rows (\<lambda>y. rd_id y = rd_id r) (dn_records db)\<rparr>)"

definition create_change_job :: "dns_caller \<Rightarrow> string \<Rightarrow> string \<Rightarrow> string \<Rightarrow> string \<Rightarrow> change list \<Rightarrow> dns_db \<Rightarrow> dns_job \<times> dns_db" where
  "create_change_job who tenant env zone operation records db =
     (let j = \<lparr>jb_id = dn_next db, jb_tenant = tenant, jb_env = env, jb_zone = zone, jb_operation = operation,
               jb_records = records, jb_status = ''pending'', jb_attempts = 0, jb_error = None,
               jb_started = False, jb_completed = False, jb_service = dc_service who, jb_correlation = dc_correlation who\<rparr>
      in (j, db\<lparr>dn_jobs := insert_row j (dn_jobs db), dn_next := Suc (dn_next db)\<rparr>))"

definition get_change_job :: "nat \<Rightarrow> dns_db \<Rightarrow> dns_job option" where
  "get_change_job i db = table_look jb_id (dn_jobs db) i"

text \<open>\<open>update_job_status\<close> changes the job object it is given.\<close>

definition update_job_status :: "string \<Rightarrow> string option \<Rightarrow> dns_job \<Rightarrow> dns_job" where
  "update_job_status status last_error j = j\<lparr>
     jb_status := status,
     jb_started := (jb_started j \<or> status = ''running''),
     jb_completed := (jb_completed j \<or> status \<in> {''succeeded'', ''failed''}),
     jb_error := (case last_error of None \<Rightarrow> jb_error j | Some e \<Rightarrow> Some e),
     jb_attempts := Suc (jb_attempts j)\<rparr>"

definition log_audit :: "dns_caller \<Rightarrow> string \<Rightarrow> string \<Rightarrow> string \<Rightarrow> string \<Rightarrow> string \<Rightarrow> string option \<Rightarrow> dns_db \<Rightarrow> dns_db" where
  "log_audit who tenant env action zone result reason db =
     db\<lparr>dn_audit := insert_row \<lparr>da_correlation = dc_correlation who, da_service = dc_service who,
        da_tenant = tenant, da_env = env, da_action = action, da_zone = Some zone, da_result = result,
        da_reason = reason, da_ip = dc_ip who\<rparr> (dn_audit db)\<rparr>"

section \<open>Who calls\<close>

definition dns_service_identity :: "dict \<Rightarrow> string \<Rightarrow> string \<Rightarrow> string option \<Rightarrow> string option \<Rightarrow> string option \<Rightarrow> string \<Rightarrow> dns_caller res" where
  "dns_service_identity agent_keys service_id agent_key correlation request_id ip new_id =
     (let expected = dget agent_keys service_id JNull in
      if \<not> truthy expected \<or> expected \<noteq> JStr agent_key then Inl (HTTPException 401 ''Invalid service credentials.'')
      else Inr \<lparr>dc_service = service_id, dc_admin = (service_id = ''admin''), dc_ip = ip,
                dc_correlation = (case correlation of Some (c # s) \<Rightarrow> c # s | _ \<Rightarrow>
                   (case request_id of Some (c # s) \<Rightarrow> c # s | _ \<Rightarrow> new_id))\<rparr>)"

section \<open>Request bodies\<close>

definition upper :: "string \<Rightarrow> string" where
  "upper s = List.map upper_char s"

definition valid_providers :: "string list" where
  "valid_providers = [''cloudflare'', ''dnsmadeeasy'']"

definition valid_envs :: "string list" where
  "valid_envs = [''dev'', ''stage'', ''prod'']"

definition valid_record_types :: "string list" where
  "valid_record_types = [''A'', ''AAAA'', ''CNAME'', ''MX'', ''TXT'', ''SRV'', ''PTR'', ''NS'', ''CAA'']"

definition invalid :: "string \<Rightarrow> exn" where
  "invalid what = HTTPException 422 what"

definition check_zone_create :: "string \<Rightarrow> string \<Rightarrow> string \<Rightarrow> string \<Rightarrow> string res" where
  "check_zone_create tenant env name provider =
     (if tenant = [] \<or> length tenant > 128 then Inl (invalid ''tenant_id'')
      else if env \<notin> set valid_envs then Inl (invalid ''env'')
      else if length name < 3 \<or> length name > 255 then Inl (invalid ''zone_name'')
      else if provider \<notin> set valid_providers then Inl (invalid ''provider'')
      else Inr (strip_dots (lower name)))"

definition check_change :: "change \<Rightarrow> change res" where
  "check_change c =
     (if upper (ch_type c) \<notin> set valid_record_types then Inl (invalid ''record_type'')
      else if ch_name c = [] \<or> length (ch_name c) > 255 then Inl (invalid ''name'')
      else if ch_value c = [] then Inl (invalid ''value'')
      else if ch_ttl c < 60 \<or> ch_ttl c > 86400 then Inl (invalid ''ttl'')
      else if \<exists>p. ch_priority c = Some p \<and> (p < 0 \<or> p > 65535) then Inl (invalid ''priority'')
      else Inr (c\<lparr>ch_type := upper (ch_type c), ch_name := strip (lower (ch_name c))\<rparr>))"

record batch_request =
  bq_tenant :: string
  bq_env :: string
  bq_zone :: string
  bq_records :: "change list"
  bq_dry_run :: bool

definition check_batch :: "bool \<Rightarrow> batch_request \<Rightarrow> batch_request res" where
  "check_batch upserting b =
     (if upserting \<and> bq_tenant b = [] then Inl (invalid ''tenant_id'')
      else if bq_env b \<notin> set valid_envs then Inl (invalid ''env'')
      else if bq_records b = [] \<or> (upserting \<and> length (bq_records b) > 100) then Inl (invalid ''records'')
      else bind_res (map_res check_change (bq_records b)) (\<lambda>cs.
        Inr (b\<lparr>bq_zone := strip_dots (lower (bq_zone b)), bq_records := cs\<rparr>)))"

section \<open>Change jobs\<close>

definition token_char :: "char \<Rightarrow> bool" where
  "token_char c = (let n = of_char c :: nat in
     (48 \<le> n \<and> n \<le> 57) \<or> (65 \<le> n \<and> n \<le> 90) \<or> (97 \<le> n \<and> n \<le> 122) \<or> n = 95 \<or> n = 45)"

definition redact_tokens :: "string \<Rightarrow> string" where
  "redact_tokens s = redact_runs token_char s"

definition safe_error :: "exn \<Rightarrow> string" where
  "safe_error e = take 2000 (redact_tokens (exn_text e))"

text \<open>The surroundings of the agent: HTTP, the vault client of the environment, what the vault answers
  to each call, the number of attempts, and the error the commit of an attempt ends with, if any.\<close>

record 's dns_env =
  de_http :: "'s http_env"
  de_sign :: "string \<Rightarrow> string \<Rightarrow> (string \<times> string) list"
  de_vault :: "unit res"
  de_secret :: "nat \<Rightarrow> string \<Rightarrow> string \<Rightarrow> string \<Rightarrow> string res"
  de_max_attempts :: nat
  de_commit :: "nat \<Rightarrow> exn option"

definition adapter_for :: "'s dns_env \<Rightarrow> nat \<Rightarrow> string \<Rightarrow> string \<Rightarrow> string \<Rightarrow> 's adapter res" where
  "adapter_for env k provider tenant env_name =
     get_adapter (de_http env) (de_sign env) (de_secret env k tenant env_name) provider"

definition adapter_now :: "'s dns_env \<Rightarrow> string \<Rightarrow> string \<Rightarrow> string \<Rightarrow> 's adapter res" where
  "adapter_now env provider tenant env_name =
     bind_res (de_vault env) (\<lambda>_. adapter_for env 0 provider tenant env_name)"

definition in_quotes :: "string \<Rightarrow> string" where
  "in_quotes s = [CHR 0x27] @ s @ [CHR 0x27]"

definition spec_of :: "change \<Rightarrow> record_spec" where
  "spec_of c = \<lparr>rs_type = ch_type c, rs_name = ch_name c, rs_value = ch_value c, rs_ttl = ch_ttl c,
     rs_priority = ch_priority c\<rparr>"

definition json_opt :: "string option \<Rightarrow> json" where
  "json_opt x = (case x of None \<Rightarrow> JNull | Some s \<Rightarrow> JStr s)"

fun upsert_changes :: "'s adapter \<Rightarrow> dns_zone \<Rightarrow> change list \<Rightarrow> dns_db \<Rightarrow> (dns_db, 's) call" where
  "upsert_changes ad z [] db = give (Inr db)"
| "upsert_changes ad z (c # cs) db =
     bind_call (ad_upsert_record ad (json_opt (zn_provider_id z)) (spec_of c)) (\<lambda>m.
     bind_call (give (upsert_record z c (rm_id m) db)) (upsert_changes ad z cs))"

definition delete_change :: "'s adapter \<Rightarrow> dns_zone \<Rightarrow> change \<Rightarrow> dns_db \<Rightarrow> (dns_db, 's) call" where
  "delete_change ad z c db =
     bind_call (case get_record (zn_id z) (ch_type c) (ch_name c) db of
         Some r \<Rightarrow> (case rd_provider_id r of
             Some (p # pid) \<Rightarrow> ad_delete_record ad (json_opt (zn_provider_id z)) (p # pid)
           | _ \<Rightarrow> give (Inr ()))
       | None \<Rightarrow> give (Inr ()))
     (\<lambda>_. give (Inr (delete_record_by_spec (zn_id z) (ch_type c) (ch_name c) db)))"

fun delete_changes :: "'s adapter \<Rightarrow> dns_zone \<Rightarrow> change list \<Rightarrow> dns_db \<Rightarrow> (dns_db, 's) call" where
  "delete_changes ad z [] db = give (Inr db)"
| "delete_changes ad z (c # cs) db = bind_call (delete_change ad z c db) (delete_changes ad z cs)"

text \<open>The body of one attempt, inside its transaction.\<close>

definition upsert_attempt :: "'s dns_env \<Rightarrow> dns_job \<Rightarrow> nat \<Rightarrow> dns_db \<Rightarrow> (dns_db, 's) call" where
  "upsert_attempt env j k db =
     (case get_zone_by_name (jb_tenant j) (jb_env j) (jb_zone j) db of
        None \<Rightarrow> give (Inl (PyError ''RuntimeError'' (''Zone '' @ in_quotes (jb_zone j) @ '' not found for tenant=''
                  @ jb_tenant j @ '' env='' @ jb_env j)))
      | Some z \<Rightarrow> bind_call (give (adapter_for env k (zn_provider z) (jb_tenant j) (jb_env j))) (\<lambda>ad.
          upsert_changes ad z (jb_records j) db))"

definition delete_attempt :: "'s dns_env \<Rightarrow> dns_job \<Rightarrow> nat \<Rightarrow> dns_db \<Rightarrow> (dns_db, 's) call" where
  "delete_attempt env j k db =
     (case get_zone_by_name (jb_tenant j) (jb_env j) (jb_zone j) db of
        None \<Rightarrow> give (Inl (PyError ''RuntimeError'' (''Zone '' @ in_quotes (jb_zone j) @ '' not found.'')))
      | Some z \<Rightarrow> bind_call (give (adapter_for env k (zn_provider z) (jb_tenant j) (jb_env j))) (\<lambda>ad.
          delete_changes ad z (jb_records j) db))"

text \<open>The attempts: an attempt that raises is rolled back and its text kept; one whose transaction
  commits ends the job.  The flag tells which.\<close>

fun job_attempts :: "(nat \<Rightarrow> dns_db \<Rightarrow> (dns_db, 's) call) \<Rightarrow> (nat \<Rightarrow> exn option) \<Rightarrow> nat list \<Rightarrow>
    string option \<Rightarrow> dns_job \<Rightarrow> dns_db \<Rightarrow> 's \<Rightarrow> bool \<times> string option \<times> dns_job \<times> dns_db \<times> 's" where
  "job_attempts body fate [] msg j db s = (False, msg, j, db, s)"
| "job_attempts body fate (a # as) msg j db s =
     (case body a db s of
        (Inl e, s') \<Rightarrow> job_attempts body fate as (Some (safe_error e)) j db s'
      | (Inr db', s') \<Rightarrow>
          (let j' = update_job_status ''succeeded'' None j in
           case fate a of
             None \<Rightarrow> (True, msg, j', db', s')
           | Some e \<Rightarrow> job_attempts body fate as (Some (safe_error e)) j' db s'))"

definition finish_job :: "bool \<times> string option \<times> dns_job \<times> dns_db \<times> 's \<Rightarrow> unit res \<times> dns_job \<times> dns_db \<times> 's" where
  "finish_job r = (case r of (ok, msg, j, db, s) \<Rightarrow>
     if ok then (Inr (), j, db, s)
     else (case msg of
        Some m \<Rightarrow> (Inr (), update_job_status ''failed'' (Some m) j, db, s)
      | None \<Rightarrow> (Inl (PyError ''UnboundLocalError'' ''safe_msg''), j, db, s)))"

definition run_upsert_job :: "'s dns_env \<Rightarrow> dns_job \<Rightarrow> dns_db \<Rightarrow> 's \<Rightarrow> unit res \<times> dns_job \<times> dns_db \<times> 's" where
  "run_upsert_job env j db s = (case de_vault env of
      Inl e \<Rightarrow> (Inl e, j, db, s)
    | Inr _ \<Rightarrow> finish_job (job_attempts (upsert_attempt env j) (de_commit env)
               [1..<Suc (de_max_attempts env)] None j db s))"

definition run_delete_job :: "'s dns_env \<Rightarrow> dns_job \<Rightarrow> dns_db \<Rightarrow> 's \<Rightarrow> unit res \<times> dns_job \<times> dns_db \<times> 's" where
  "run_delete_job env j db s = (case de_vault env of
      Inl e \<Rightarrow> (Inl e, j, db, s)
    | Inr _ \<Rightarrow> finish_job (job_attempts (delete_attempt env j) (de_commit env)
               [1..<Suc (de_max_attempts env)] (Some []) j db s))"

definition dispatch_change_job :: "'s dns_env \<Rightarrow> dns_job \<Rightarrow> dns_db \<Rightarrow> 's \<Rightarrow> unit res \<times> dns_job \<times> dns_db \<times> 's" where
  "dispatch_change_job env j db s =
     (if jb_operation j = ''upsert'' then run_upsert_job env j db s
      else if jb_operation j = ''delete'' then run_delete_job env j db s
      else (Inr (), j, db, s))"

text \<open>The job object belongs to the session of the request that made it, while the runner flushes a
  session of its own: what the runner writes into the object reaches the table only when the request
  has not committed yet.\<close>

definition land_job :: "bool \<Rightarrow> dns_job \<Rightarrow> dns_db \<Rightarrow> dns_db" where
  "land_job before_commit j db =
     (if before_commit then db\<lparr>dn_jobs := table_update jb_id (jb_id j) (\<lambda>_. j) (dn_jobs db)\<rparr> else db)"

definition run_dispatched :: "'s dns_env \<Rightarrow> bool \<Rightarrow> dns_job \<Rightarrow> dns_db \<Rightarrow> 's \<Rightarrow> dns_db \<times> 's" where
  "run_dispatched env before_commit j db s =
     (case dispatch_change_job env j db s of (_, j', db', s') \<Rightarrow> (land_job before_commit j' db', s'))"

section \<open>The handlers of the records and jobs routers\<close>

type_synonym events = "(string \<times> dict) list"

record job_answer =
  ja_job :: "nat option"
  ja_status :: string
  ja_message :: string

definition zone_not_found :: "string \<Rightarrow> exn" where
  "zone_not_found name = HTTPException 404 (''Zone '' @ in_quotes name @ '' not found.'')"

definition not_found_for :: "string \<Rightarrow> string \<Rightarrow> string \<Rightarrow> exn" where
  "not_found_for name tenant env =
     HTTPException 404 (''Zone '' @ in_quotes name @ '' not found for tenant='' @ tenant @ '' env='' @ env @ ''.'')"

definition read_records :: "string \<Rightarrow> string \<Rightarrow> string \<Rightarrow> dns_db \<Rightarrow> dns_record list res" where
  "read_records tenant env zone db =
     bind_res (of_opt (not_found_for zone tenant env) (get_zone_by_name tenant env zone db)) (\<lambda>z.
       Inr (list_records (zn_id z) db))"

definition record_event :: "string \<Rightarrow> batch_request \<Rightarrow> dns_job \<Rightarrow> string \<times> dict" where
  "record_event event_type b j = (event_type,
     [(''zone'', JStr (bq_zone b)), (''count'', JInt (int (length (bq_records b)))), (''job_id'', JInt (int (jb_id j)))])"

definition batch_upsert :: "dns_caller \<Rightarrow> batch_request \<Rightarrow> dns_db \<Rightarrow> (job_answer \<times> dns_job option \<times> events \<times> dns_db) res" where
  "batch_upsert who body db =
     bind_res (check_batch True body) (\<lambda>b.
     bind_res (of_opt (zone_not_found (bq_zone b)) (get_zone_by_name (bq_tenant b) (bq_env b) (bq_zone b) db)) (\<lambda>z.
     let n = digits_of (length (bq_records b)) in
     if bq_dry_run b then
       Inr (\<lparr>ja_job = None, ja_status = ''dry_run'',
             ja_message = ''Dry run: would upsert '' @ n @ '' record(s) into '' @ bq_zone b @ ''.''\<rparr>, None, [], db)
     else (case create_change_job who (bq_tenant b) (bq_env b) (bq_zone b) ''upsert'' (bq_records b) db of
       (j, db1) \<Rightarrow>
         Inr (\<lparr>ja_job = Some (jb_id j), ja_status = ''pending'',
               ja_message = ''Upsert job created for '' @ n @ '' record(s).''\<rparr>, Some j,
              [record_event ''dns.record.upserted'' b j],
              log_audit who (bq_tenant b) (bq_env b) ''upsert_records'' (bq_zone b) ''queued''
                (Some (n @ '' record(s) queued in job '' @ digits_of (jb_id j))) db1))))"

definition batch_delete :: "dns_caller \<Rightarrow> batch_request \<Rightarrow> dns_db \<Rightarrow> (job_answer \<times> dns_job option \<times> events \<times> dns_db) res" where
  "batch_delete who body db =
     bind_res (check_batch False body) (\<lambda>b.
     bind_res (of_opt (zone_not_found (bq_zone b)) (get_zone_by_name (bq_tenant b) (bq_env b) (bq_zone b) db)) (\<lambda>z.
     case create_change_job who (bq_tenant b) (bq_env b) (bq_zone b) ''delete'' (bq_records b) db of
       (j, db1) \<Rightarrow>
         Inr (\<lparr>ja_job = Some (jb_id j), ja_status = ''pending'',
               ja_message = ''Delete job created for '' @ digits_of (length (bq_records b)) @ '' record(s).''\<rparr>, Some j,
              [record_event ''dns.record.deleted'' b j],
              log_audit who (bq_tenant b) (bq_env b) ''delete_records'' (bq_zone b) ''queued'' None db1)))"

definition read_job :: "nat \<Rightarrow> dns_db \<Rightarrow> dns_job res" where
  "read_job i db = of_opt (HTTPException 404 ''Job not found.'') (get_change_job i db)"

text \<open>Newest first; rows are in the order of their creation.\<close>

definition list_change_jobs :: "string \<Rightarrow> string option \<Rightarrow> string option \<Rightarrow> nat \<Rightarrow> dns_db \<Rightarrow> dns_job list res" where
  "list_change_jobs tenant env status limit db =
     (if limit < 1 \<or> limit > 200 then Inl (invalid ''limit'')
      else Inr (take limit (rev (select_all (\<lambda>j. jb_tenant j = tenant \<and> filter_given env (jb_env j)
                \<and> filter_given status (jb_status j)) (dn_jobs db)))))"

section \<open>The handler of the sync router\<close>

record drift =
  dr_type :: string
  dr_name :: string
  dr_expected :: string
  dr_actual :: "string option"

record sync_result =
  sy_zone :: string
  sy_provider :: string
  sy_count :: nat
  sy_drift :: "drift list"
  sy_reconciled :: bool
  sy_job :: "nat option"

text \<open>\<open>provider_map\<close> is keyed by type and name and keeps the last record of a key.\<close>

definition provider_at :: "record_meta list \<Rightarrow> string \<Rightarrow> string \<Rightarrow> record_meta option" where
  "provider_at ms t n = List.find (\<lambda>m. rm_type m = JStr t \<and> rm_name m = JStr n) (rev ms)"

definition drift_of :: "record_meta list \<Rightarrow> dns_record \<Rightarrow> drift option res" where
  "drift_of ms r =
     (let actual = (case provider_at ms (rd_type r) (rd_name r) of Some m \<Rightarrow> rm_value m | None \<Rightarrow> JNull) in
      if actual = JStr (rd_value r) then Inr None
      else (case actual of
         JStr v \<Rightarrow> Inr (Some \<lparr>dr_type = rd_type r, dr_name = rd_name r, dr_expected = rd_value r, dr_actual = Some v\<rparr>)
       | JNull \<Rightarrow> Inr (Some \<lparr>dr_type = rd_type r, dr_name = rd_name r, dr_expected = rd_value r, dr_actual = None\<rparr>)
       | _ \<Rightarrow> Inl (PyError ''ValidationError'' ''actual'')))"

definition drifts_of :: "record_meta list \<Rightarrow> dns_record list \<Rightarrow> drift list res" where
  "drifts_of ms rs =
     (if list_all (\<lambda>m. hashable (rm_type m) \<and> hashable (rm_name m)) ms
      then map_sum id (List.map_filter id) (map_res (drift_of ms) rs)
      else Inl (PyError ''TypeError'' ''unhashable type''))"

definition fix_of :: "dns_record \<Rightarrow> change" where
  "fix_of r = \<lparr>ch_type = rd_type r, ch_name = rd_name r, ch_value = rd_value r, ch_ttl = rd_ttl r,
     ch_priority = rd_priority r, ch_tags = None\<rparr>"

definition fixes_of :: "dns_record list \<Rightarrow> drift list \<Rightarrow> change list" where
  "fixes_of rs ds = List.map_filter (\<lambda>d. map_option fix_of
     (List.find (\<lambda>r. rd_type r = dr_type d \<and> rd_name r = dr_name d) (rev rs))) ds"

definition report_sync :: "dns_caller \<Rightarrow> string \<Rightarrow> string \<Rightarrow> string \<Rightarrow> bool \<Rightarrow> dns_zone \<Rightarrow> drift list \<Rightarrow> dns_db \<Rightarrow>
    sync_result \<times> dns_job option \<times> dns_db" where
  "report_sync who tenant env zone reconcile z ds db =
     (case (if reconcile \<and> ds \<noteq> []
            then map_prod Some id (create_change_job who tenant env zone ''upsert'' (fixes_of (list_records (zn_id z) db) ds) db)
            else (None, db)) of
        (j, db1) \<Rightarrow>
          (\<lparr>sy_zone = zone, sy_provider = zn_provider z, sy_count = length ds, sy_drift = ds,
            sy_reconciled = (reconcile \<and> length ds > 0), sy_job = map_option jb_id j\<rparr>, j,
           log_audit who tenant env ''sync'' zone ''success''
             (Some (''drift_count='' @ digits_of (length ds) @ '', reconcile='' @ (if reconcile then ''True'' else ''False''))) db1))"

definition sync_zone :: "'s dns_env \<Rightarrow> dns_caller \<Rightarrow> string \<Rightarrow> string \<Rightarrow> string \<Rightarrow> bool \<Rightarrow> dns_db \<Rightarrow>
    (sync_result \<times> dns_job option \<times> dns_db, 's) call" where
  "sync_zone env who tenant env_name zone reconcile db =
     bind_call (give (if env_name \<in> set valid_envs then Inr () else Inl (invalid ''env''))) (\<lambda>_.
     bind_call (give (of_opt (not_found_for zone tenant env_name) (get_zone_by_name tenant env_name zone db))) (\<lambda>z.
     bind_call (give (case zn_provider_id z of Some (c # i) \<Rightarrow> Inr (c # i) | _ \<Rightarrow> Inl (HTTPException 422
        ''Zone has no provider_zone_id - use POST /v1/zones to re-register and resolve provider zone ID.''))) (\<lambda>pz.
     bind_call (give (adapter_now env (zn_provider z) tenant env_name)) (\<lambda>ad.
     bind_call (ad_list_records ad (JStr pz)) (\<lambda>ms.
     give (bind_res (drifts_of ms (list_records (zn_id z) db)) (\<lambda>ds.
       Inr (report_sync who tenant env_name zone reconcile z ds db))))))))"

section \<open>The handlers of the zones router\<close>

definition zones_with_counts :: "string option \<Rightarrow> string option \<Rightarrow> dns_db \<Rightarrow> (dns_zone \<times> nat) list" where
  "zones_with_counts tenant env db = List.map (\<lambda>z. (z, count_records (zn_id z) db)) (list_zones tenant env db)"

definition zone_by_id :: "nat \<Rightarrow> dns_db \<Rightarrow> dns_zone res" where
  "zone_by_id i db = of_opt (zone_not_found (digits_of i)) (get_zone i db)"

definition list_zone_records :: "nat \<Rightarrow> dns_db \<Rightarrow> dns_record list res" where
  "list_zone_records i db = bind_res (zone_by_id i db) (\<lambda>z. Inr (list_records (zn_id z) db))"

definition unregister_zone :: "dns_caller \<Rightarrow> nat \<Rightarrow> dns_db \<Rightarrow> (string \<times> events \<times> dns_db) res" where
  "unregister_zone who i db = bind_res (zone_by_id i db) (\<lambda>z.
     Inr (zn_name z,
          [(''dns.zone.unregistered'', [(''zone_name'', JStr (zn_name z)), (''tenant_id'', JStr (zn_tenant z)), (''env'', JStr (zn_env z))])],
          log_audit who (zn_tenant z) (zn_env z) ''unregister_zone'' (zn_name z) ''success''
            (Some ''Removed from Nexus only - provider records untouched'') (delete_zone z db)))"

definition zone_event :: "string \<Rightarrow> string \<Rightarrow> string \<Rightarrow> string \<Rightarrow> string \<Rightarrow> string \<times> dict" where
  "zone_event event_type name provider tenant env = (event_type,
     [(''zone_name'', JStr name), (''provider'', JStr provider), (''tenant_id'', JStr tenant), (''env'', JStr env)])"

text \<open>A failed flush leaves the transaction of the request unusable: whatever swallows the error, the
  request ends with an error and nothing is committed.\<close>

definition poisoned_session :: exn where
  "poisoned_session = PyError ''PendingRollbackError'' ''This Session's transaction has been rolled back''"

text \<open>The attempt to find the provider's identifier: its failure is logged and the zone stays.\<close>

definition resolve_zone :: "'s dns_env \<Rightarrow> dns_zone \<Rightarrow> dns_db \<Rightarrow> (dns_zone \<times> dns_db, 's) call" where
  "resolve_zone env z db s =
     (case bind_call (give (adapter_now env (zn_provider z) (zn_tenant z) (zn_env z)))
             (\<lambda>ad. ad_ensure_zone ad (zn_name z)) s of
        (Inl e, s') \<Rightarrow> (Inr (z, db), s')
      | (Inr pz, s') \<Rightarrow> (case set_provider_zone_id z (zm_id pz) db of
            Inl e \<Rightarrow> (Inl poisoned_session, s') | Inr r \<Rightarrow> (Inr r, s')))"

definition create_zone_api :: "'s dns_env \<Rightarrow> dns_caller \<Rightarrow> string \<Rightarrow> string \<Rightarrow> string \<Rightarrow> string \<Rightarrow> dns_db \<Rightarrow>
    (dns_zone \<times> events \<times> dns_db, 's) call" where
  "create_zone_api env who tenant env_name zone_name provider db =
     bind_call (give (check_zone_create tenant env_name zone_name provider)) (\<lambda>name.
     bind_call (give (if get_zone_by_name tenant env_name name db \<noteq> None
        then Inl (HTTPException 409 (''Zone '' @ in_quotes name @ '' already registered for tenant='' @ tenant @ '' env='' @ env_name @ ''.''))
        else create_zone tenant env_name name provider db)) (\<lambda>r. case r of (z, db1) \<Rightarrow>
     bind_call (resolve_zone env z db1) (\<lambda>r. case r of (z', db2) \<Rightarrow>
     give (Inr (z', [zone_event ''dns.zone.created'' name provider tenant env_name],
       log_audit who tenant env_name ''create_zone'' name ''success'' None db2)))))"

definition discover_provider_zones :: "'s dns_env \<Rightarrow> string \<Rightarrow> string \<Rightarrow> string \<Rightarrow> dns_db \<Rightarrow>
    ((zone_meta \<times> bool) list, 's) call" where
  "discover_provider_zones env provider tenant env_name db =
     bind_call (give (adapter_now env provider tenant env_name)) (\<lambda>ad.
     bind_call (ad_list_zones ad None) (\<lambda>zones.
     give (if list_all (\<lambda>z. hashable (zm_name z)) zones
           then Inr (List.map (\<lambda>z. (z, \<exists>y \<in> set (list_zones (Some tenant) (Some env_name) db). zm_name z = JStr (zn_name y))) zones)
           else Inl (PyError ''TypeError'' ''unhashable type''))))"

definition change_of_meta :: "record_meta \<Rightarrow> change res" where
  "change_of_meta m =
     bind_res (string_col 16 (rm_type m)) (\<lambda>t. bind_res (string_col 255 (rm_name m)) (\<lambda>n.
     bind_res (text_col (rm_value m)) (\<lambda>v. bind_res (int_col (rm_ttl m)) (\<lambda>l.
     bind_res (nullable int_col (rm_priority m)) (\<lambda>p.
       Inr \<lparr>ch_type = t, ch_name = n, ch_value = v, ch_ttl = l, ch_priority = p, ch_tags = None\<rparr>)))))"

fun store_metas :: "dns_zone \<Rightarrow> record_meta list \<Rightarrow> dns_db \<Rightarrow> dns_db res" where
  "store_metas z [] db = Inr db"
| "store_metas z (m # ms) db =
     bind_res (change_of_meta m) (\<lambda>c. bind_res (upsert_record z c (rm_id m) db) (store_metas z ms))"

definition pull_records :: "'s adapter \<Rightarrow> json \<Rightarrow> dns_zone \<Rightarrow> dns_db \<Rightarrow> (dns_db, 's) call" where
  "pull_records ad pz z db s = (case ad_list_records ad pz s of
     (Inl e, s') \<Rightarrow> (Inr db, s')
   | (Inr ms, s') \<Rightarrow> (case store_metas z ms db of Inl e \<Rightarrow> (Inl poisoned_session, s') | Inr db' \<Rightarrow> (Inr db', s')))"

definition import_one :: "'s adapter \<Rightarrow> zone_meta list \<Rightarrow> dns_caller \<Rightarrow> string \<Rightarrow> string \<Rightarrow> string \<Rightarrow> string \<Rightarrow> dns_db \<Rightarrow>
    (dns_zone \<times> events \<times> dns_db, 's) call" where
  "import_one ad pzs who provider tenant env_name name db =
     (case get_zone_by_name tenant env_name name db of
        Some z \<Rightarrow> give (Inr (z, [], db))
      | None \<Rightarrow>
        bind_call (give (map_sum (\<lambda>_. PyError ''InvalidRequestError'' ''closed transaction inside context manager'') id
           (create_zone tenant env_name name provider db))) (\<lambda>r. case r of (z, db1) \<Rightarrow>
        bind_call (case List.find (\<lambda>p. zm_name p = JStr name) (rev pzs) of
            None \<Rightarrow> give (Inr (z, db1))
          | Some pz \<Rightarrow> bind_call (give (set_provider_zone_id z (zm_id pz) db1)) (\<lambda>r. case r of (z', db2) \<Rightarrow>
              bind_call (pull_records ad (zm_id pz) z' db2) (\<lambda>db3. give (Inr (z', db3)))))
        (\<lambda>r. case r of (z', db4) \<Rightarrow>
          give (Inr (z', [zone_event ''dns.zone.imported'' name provider tenant env_name],
            log_audit who tenant env_name ''import_zone'' name ''success'' None db4)))))"

fun import_all :: "'s adapter \<Rightarrow> zone_meta list \<Rightarrow> dns_caller \<Rightarrow> string \<Rightarrow> string \<Rightarrow> string \<Rightarrow> string list \<Rightarrow>
    dns_zone list \<times> events \<Rightarrow> dns_db \<Rightarrow> (dns_zone list \<times> events \<times> dns_db, 's) call" where
  "import_all ad pzs who provider tenant env_name [] acc db = give (Inr (fst acc, snd acc, db))"
| "import_all ad pzs who provider tenant env_name (n # ns) acc db =
     bind_call (import_one ad pzs who provider tenant env_name (strip_dots (lower n)) db) (\<lambda>r. case r of (z, ev, db') \<Rightarrow>
       import_all ad pzs who provider tenant env_name ns (fst acc @ [z], snd acc @ ev) db')"

definition import_provider_zones :: "'s dns_env \<Rightarrow> dns_caller \<Rightarrow> string \<Rightarrow> string \<Rightarrow> string \<Rightarrow> string list \<Rightarrow> dns_db \<Rightarrow>
    (dns_zone list \<times> events \<times> dns_db, 's) call" where
  "import_provider_zones env who provider tenant env_name names db =
     bind_call (give (adapter_now env provider tenant env_name)) (\<lambda>ad.
     bind_call (ad_list_zones ad None) (\<lambda>pzs.
     if list_all (\<lambda>z. hashable (zm_name z)) pzs
     then import_all ad pzs who provider tenant env_name names ([], []) db
     else give (Inl (PyError ''TypeError'' ''unhashable type''))))"

end
