(* ===== verification/DnsReach.thy ===== *)
theory DnsReach
  imports "Dns"
begin

text \<open>
  What holds of the DNS agent (theory \<open>Dns\<close>): the invariant of its tables over every sequence of
  requests, attempts of change jobs and late status writes; the outcome of a change job; and that a
  reconciliation brings the provider to the recorded values, whatever attempts failed on the way.
\<close>

section \<open>The invariant of the tables\<close>

definition zone_key :: "dns_zone \<Rightarrow> string \<times> string \<times> string" where
  "zone_key z = (zn_tenant z, zn_env z, zn_name z)"

definition record_key :: "dns_record \<Rightarrow> nat \<times> string \<times> string" where
  "record_key r = (rd_zone r, rd_type r, rd_name r)"

definition zone_scope :: "dns_zone \<Rightarrow> nat \<times> string \<times> string" where
  "zone_scope z = (zn_id z, zn_tenant z, zn_env z)"

definition record_scope :: "dns_record \<Rightarrow> nat \<times> string \<times> string" where
  "record_scope r = (rd_zone r, rd_tenant r, rd_env r)"

definition zones_ok :: "nat \<Rightarrow> dns_zone list \<Rightarrow> bool" where
  "zones_ok n zs = (distinct (List.map zn_id zs) \<and> distinct (List.map zone_key zs) \<and> (\<forall>z \<in> set zs. zn_id z < n))"

definition records_ok :: "nat \<Rightarrow> dns_zone list \<Rightarrow> dns_record list \<Rightarrow> bool" where
  "records_ok n zs rs = (distinct (List.map rd_id rs) \<and> distinct (List.map record_key rs) \<and>
     (\<forall>r \<in> set rs. rd_id r < n \<and> record_scope r \<in> zone_scope ` set zs))"

definition change_job_ok :: "dns_job \<Rightarrow> bool" where
  "change_job_ok j = (jb_operation j \<in> {''upsert'', ''delete''} \<and> jb_status j \<in> {''pending'', ''succeeded'', ''failed''} \<and>
     (jb_completed j \<longleftrightarrow> jb_status j \<noteq> ''pending'') \<and> \<not> jb_started j)"

definition change_jobs_ok :: "nat \<Rightarrow> dns_job list \<Rightarrow> bool" where
  "change_jobs_ok n js = (distinct (List.map jb_id js) \<and> (\<forall>j \<in> set js. jb_id j < n \<and> change_job_ok j))"

definition dns_ok :: "dns_db \<Rightarrow> bool" where
  "dns_ok db = (zones_ok (dn_next db) (dn_zones db) \<and> records_ok (dn_next db) (dn_zones db) (dn_records db)
     \<and> change_jobs_ok (dn_next db) (dn_jobs db))"

definition zone_in :: "dns_zone \<Rightarrow> dns_db \<Rightarrow> bool" where
  "zone_in z db = (zone_scope z \<in> zone_scope ` set (dn_zones db))"

text \<open>The counter only grows, and each table is judged on its own.\<close>

lemma zones_ok_mono: "zones_ok n zs \<Longrightarrow> n \<le> m \<Longrightarrow> zones_ok m zs"
  by (fastforce simp: zones_ok_def)

lemma records_ok_mono: "records_ok n zs rs \<Longrightarrow> n \<le> m \<Longrightarrow> records_ok m zs rs"
  by (fastforce simp: records_ok_def)

lemma change_jobs_ok_mono: "change_jobs_ok n js \<Longrightarrow> n \<le> m \<Longrightarrow> change_jobs_ok m js"
  by (fastforce simp: change_jobs_ok_def)

lemmas table_mono = zones_ok_mono records_ok_mono change_jobs_ok_mono

lemma distinct_map_delete: "distinct (List.map f t) \<Longrightarrow> distinct (List.map f (delete_rows p t))"
  by (simp add: delete_rows_def distinct_map_filter)

lemma set_delete_rows [simp]: "set (delete_rows p t) = {r \<in> set t. \<not> p r}"
  by (auto simp: delete_rows_def)

lemma map_insert_row: "List.map f (insert_row r t) = List.map f t @ [f r]"
  by (simp add: insert_row_def)

lemma map_table_same: "(\<And>r. g (f r) = g r) \<Longrightarrow> List.map g (table_update key k f t) = List.map g t"
  by (simp add: table_update_def map_update_rows)

lemma set_table_update: "set (table_update key k f t) = (\<lambda>r. if key r = k then f r else r) ` set t"
  by (auto simp: table_update_def update_rows_def)

lemma image_table_update: "(\<And>r. g (f r) = g r) \<Longrightarrow> g ` set (table_update key k f t) = g ` set t"
  by (metis map_table_same set_map)

subsection \<open>Every operation of the store keeps it\<close>

lemma create_zone_cases:
  assumes "create_zone tenant env name provider db = Inr (z, db')"
  shows "zone_key z = (tenant, env, name)" "zn_provider z = provider" "zn_id z = dn_next db"
    "dn_zones db' = insert_row z (dn_zones db)" "dn_next db' = Suc (dn_next db)"
    "dn_records db' = dn_records db" "dn_jobs db' = dn_jobs db"
    "zone_key z \<notin> zone_key ` set (dn_zones db)"
  using assms by (auto simp: create_zone_def Let_def zone_key_def split: if_splits)

lemma create_zone_ok:
  assumes "create_zone tenant env name provider db = Inr (z, db')" "dns_ok db"
  shows "dns_ok db' \<and> zone_in z db'"
proof -
  note c = create_zone_cases[OF assms(1)]
  have z: "zones_ok (dn_next db) (dn_zones db)" and r: "records_ok (dn_next db) (dn_zones db) (dn_records db)"
    and j: "change_jobs_ok (dn_next db) (dn_jobs db)" using assms(2) by (simp_all add: dns_ok_def)
  have "zones_ok (dn_next db') (dn_zones db')"
    using z c(8) by (fastforce simp: zones_ok_def c(3,4,5) map_insert_row)
  moreover have "records_ok (dn_next db') (dn_zones db') (dn_records db')"
    using records_ok_mono[OF r, of "Suc (dn_next db)"] by (auto simp: c records_ok_def)
  moreover have "change_jobs_ok (dn_next db') (dn_jobs db')" using j by (simp add: c change_jobs_ok_mono)
  ultimately show ?thesis by (simp add: dns_ok_def zone_in_def c)
qed

lemma set_provider_zone_id_cases:
  assumes "set_provider_zone_id z i db = Inr (z', db')"
  obtains x where "z' = z\<lparr>zn_provider_id := x\<rparr>"
    "db' = db\<lparr>dn_zones := table_update zn_id (zn_id z) (zn_provider_id_update (\<lambda>_. x)) (dn_zones db)\<rparr>"
  using assms by (auto simp: set_provider_zone_id_def bind_res_Inr)

lemma set_provider_zone_id_ok:
  assumes "set_provider_zone_id z i db = Inr (z', db')" "dns_ok db" "zone_in z db"
  shows "dns_ok db' \<and> zone_in z' db'"
proof -
  obtain x where x: "z' = z\<lparr>zn_provider_id := x\<rparr>"
    "db' = db\<lparr>dn_zones := table_update zn_id (zn_id z) (zn_provider_id_update (\<lambda>_. x)) (dn_zones db)\<rparr>"
    using assms(1) by (rule set_provider_zone_id_cases)
  have ids: "List.map zn_id (dn_zones db') = List.map zn_id (dn_zones db)"
    and keys: "List.map zone_key (dn_zones db') = List.map zone_key (dn_zones db)"
    unfolding x by (simp_all add: map_table_same zone_key_def)
  have scope: "zone_scope ` set (dn_zones db') = zone_scope ` set (dn_zones db)"
    unfolding x by (simp add: image_table_update zone_scope_def)
  have low: "zn_id ` set (dn_zones db') = zn_id ` set (dn_zones db)"
    using ids by (metis set_map)
  have "\<forall>y \<in> set (dn_zones db'). zn_id y < dn_next db"
  proof
    fix y assume "y \<in> set (dn_zones db')"
    then have "zn_id y \<in> zn_id ` set (dn_zones db)" unfolding low[symmetric] by simp
    then show "zn_id y < dn_next db" using assms(2) by (auto simp: dns_ok_def zones_ok_def)
  qed
  then have "zones_ok (dn_next db') (dn_zones db')"
    using assms(2) by (simp add: dns_ok_def zones_ok_def ids keys) (simp add: x)
  moreover have "zone_scope z' = zone_scope z" by (simp add: x zone_scope_def)
  ultimately show ?thesis using assms(2,3) scope
    by (simp add: dns_ok_def records_ok_def zone_in_def) (simp add: x)
qed

lemma delete_zone_ok:
  assumes "dns_ok db" shows "dns_ok (delete_zone z db)"
proof -
  have z: "zones_ok (dn_next db) (dn_zones db)" and r: "records_ok (dn_next db) (dn_zones db) (dn_records db)"
    and j: "change_jobs_ok (dn_next db) (dn_jobs db)" using assms by (simp_all add: dns_ok_def)
  have "record_scope x \<in> zone_scope ` {y \<in> set (dn_zones db). zn_id y \<noteq> zn_id z}"
    if "x \<in> set (dn_records db)" "rd_zone x \<noteq> zn_id z" for x
  proof -
    have "record_scope x \<in> zone_scope ` set (dn_zones db)" using r that(1) by (simp add: records_ok_def)
    then obtain y where y: "y \<in> set (dn_zones db)" "record_scope x = zone_scope y" by (rule imageE)
    then have "zn_id y \<noteq> zn_id z" using that(2) by (simp add: record_scope_def zone_scope_def)
    with y show ?thesis by simp
  qed
  then have "records_ok (dn_next db) (dn_zones (delete_zone z db)) (dn_records (delete_zone z db))"
    using r by (simp add: records_ok_def delete_zone_def distinct_map_delete)
  moreover have "zones_ok (dn_next db) (dn_zones (delete_zone z db))" "change_jobs_ok (dn_next db) (dn_jobs (delete_zone z db))"
    using z j by (simp_all add: delete_zone_def zones_ok_def change_jobs_ok_def distinct_map_delete)
  ultimately show ?thesis by (simp add: dns_ok_def) (simp add: delete_zone_def)
qed

lemma get_record_Some:
  "get_record i t n db = Some r \<Longrightarrow> r \<in> set (dn_records db) \<and> record_key r = (i, t, n)"
  unfolding get_record_def by (drule select_first_Some) (auto simp: at_name_def record_key_def)

lemma get_record_None: "get_record i t n db = None \<longleftrightarrow> (i, t, n) \<notin> record_key ` set (dn_records db)"
  by (auto simp: get_record_def select_first_None at_name_def record_key_def)

lemma changed_record_simps [simp]:
  "rd_id (changed_record c p r) = rd_id r" "record_key (changed_record c p r) = record_key r"
  "record_scope (changed_record c p r) = record_scope r" "rd_zone (changed_record c p r) = rd_zone r"
  "rd_type (changed_record c p r) = rd_type r" "rd_name (changed_record c p r) = rd_name r"
  by (simp_all add: changed_record_def record_key_def record_scope_def)

lemma fresh_record_simps [simp]:
  "rd_id (fresh_record z c p i) = i" "record_key (fresh_record z c p i) = (zn_id z, ch_type c, ch_name c)"
  "record_scope (fresh_record z c p i) = zone_scope z"
  by (simp_all add: fresh_record_def record_key_def record_scope_def zone_scope_def)

lemma upsert_record_cases:
  assumes "upsert_record z c i db = Inr db'"
  obtains (changed) p r where "get_record (zn_id z) (ch_type c) (ch_name c) db = Some r"
      "db' = db\<lparr>dn_records := table_update rd_id (rd_id r) (changed_record c p) (dn_records db)\<rparr>"
      "nullable (string_col 255) i = Inr p"
  | (fresh) p where "get_record (zn_id z) (ch_type c) (ch_name c) db = None"
      "db' = db\<lparr>dn_records := insert_row (fresh_record z c p (dn_next db)) (dn_records db), dn_next := Suc (dn_next db)\<rparr>"
      "nullable (string_col 255) i = Inr p"
proof -
  obtain p where p: "nullable (string_col 255) i = Inr p"
    using assms by (auto simp: upsert_record_def bind_res_Inr)
  show thesis
    by (cases "get_record (zn_id z) (ch_type c) (ch_name c) db")
      (use assms p in \<open>auto simp: upsert_record_def intro: changed fresh\<close>)
qed

lemma upsert_record_frame:
  assumes "upsert_record z c i db = Inr db'"
  shows "dn_zones db' = dn_zones db" "dn_jobs db' = dn_jobs db" "dn_audit db' = dn_audit db" "dn_next db \<le> dn_next db'"
  using assms by (cases rule: upsert_record_cases; simp)+

lemma upsert_record_ok:
  assumes "upsert_record z c i db = Inr db'" "dns_ok db" "zone_in z db"
  shows "dns_ok db'"
proof -
  have r: "records_ok (dn_next db) (dn_zones db) (dn_records db)" using assms(2) by (simp add: dns_ok_def)
  have "records_ok (dn_next db') (dn_zones db') (dn_records db')"
    using assms(1)
  proof (cases rule: upsert_record_cases)
    case (changed p x)
    then have "set (dn_records db') = (\<lambda>r. if rd_id r = rd_id x then changed_record c p r else r) ` set (dn_records db)"
      by (simp add: set_table_update)
    moreover have "List.map rd_id (dn_records db') = List.map rd_id (dn_records db)"
      "List.map record_key (dn_records db') = List.map record_key (dn_records db)"
      "record_scope ` set (dn_records db') = record_scope ` set (dn_records db)"
      using changed by (simp_all add: map_table_same image_table_update)
    ultimately show ?thesis using r changed by (auto simp: records_ok_def)
  next
    case (fresh p)
    then have "(zn_id z, ch_type c, ch_name c) \<notin> record_key ` set (dn_records db)" by (simp add: get_record_None)
    with r assms(3) fresh(2) show ?thesis
      by (fastforce simp: records_ok_def map_insert_row zone_in_def)
  qed
  with assms upsert_record_frame[OF assms(1)] show ?thesis
    by (auto simp: dns_ok_def intro: table_mono)
qed

lemma delete_record_by_spec_frame:
  "dn_zones (delete_record_by_spec i t n db) = dn_zones db" "dn_jobs (delete_record_by_spec i t n db) = dn_jobs db"
  "dn_next (delete_record_by_spec i t n db) = dn_next db" "dn_audit (delete_record_by_spec i t n db) = dn_audit db"
  by (simp_all add: delete_record_by_spec_def split: option.splits)

lemma delete_record_by_spec_ok: "dns_ok db \<Longrightarrow> dns_ok (delete_record_by_spec i t n db)"
  by (auto simp: dns_ok_def delete_record_by_spec_frame)
    (auto simp: delete_record_by_spec_def records_ok_def distinct_map_delete subset_iff split: option.splits)

lemma create_change_job_cases:
  assumes "create_change_job who tenant env zone operation cs db = (j, db')"
  shows "dn_zones db' = dn_zones db" "dn_records db' = dn_records db" "dn_jobs db' = insert_row j (dn_jobs db)"
    "dn_next db' = Suc (dn_next db)" "jb_id j = dn_next db" "jb_operation j = operation" "jb_records j = cs"
    "jb_status j = ''pending''" "\<not> jb_started j" "\<not> jb_completed j"
    "jb_tenant j = tenant" "jb_env j = env" "jb_zone j = zone"
  using assms by (auto simp: create_change_job_def Let_def)

lemma create_change_job_ok:
  assumes "create_change_job who tenant env zone operation cs db = (j, db')" "dns_ok db" "operation \<in> {''upsert'', ''delete''}"
  shows "dns_ok db'"
proof -
  note c = create_change_job_cases[OF assms(1)]
  have "change_jobs_ok (dn_next db) (dn_jobs db)" using assms(2) by (simp add: dns_ok_def)
  then have "change_jobs_ok (dn_next db') (dn_jobs db')"
    using assms(3) by (fastforce simp: c change_jobs_ok_def map_insert_row change_job_ok_def)
  then show ?thesis using assms(2) by (auto simp: dns_ok_def c intro: table_mono)
qed

lemma log_audit_frame [simp]:
  "dn_zones (log_audit who t e a z r m db) = dn_zones db" "dn_records (log_audit who t e a z r m db) = dn_records db"
  "dn_jobs (log_audit who t e a z r m db) = dn_jobs db" "dn_next (log_audit who t e a z r m db) = dn_next db"
  by (simp_all add: log_audit_def)

lemma log_audit_ok [simp]: "dns_ok (log_audit who t e a z r m db) = dns_ok db"
  by (simp add: dns_ok_def)

subsection \<open>Every step of the agent keeps it\<close>

declare give_apply [simp del]

lemma give_eq [simp]: "give r s = (x, s') \<longleftrightarrow> r = x \<and> s = s'"
  by (auto simp: give_def)

lemma get_zone_by_name_in:
  "get_zone_by_name t e n db = Some z \<Longrightarrow> z \<in> set (dn_zones db) \<and> zone_key z = (t, e, n) \<and> zone_in z db"
  unfolding get_zone_by_name_def by (drule select_first_Some) (auto simp: zone_key_def zone_in_def)

lemma zone_in_cong: "dn_zones db' = dn_zones db \<Longrightarrow> zone_in z db' = zone_in z db"
  by (simp add: zone_in_def)

lemma upsert_changes_ok:
  assumes "upsert_changes ad z cs db s = (Inr db', s')" "dns_ok db" "zone_in z db"
  shows "dns_ok db' \<and> dn_zones db' = dn_zones db \<and> dn_jobs db' = dn_jobs db"
  using assms
proof (induction cs arbitrary: db s)
  case Nil
  then show ?case by simp
next
  case (Cons c cs)
  then obtain m :: record_meta and s1 db1 where u: "upsert_record z c (rm_id m) db = Inr db1"
    and rest: "upsert_changes ad z cs db1 s1 = (Inr db', s')"
    by (auto simp: bind_call_Inr)
  note f = upsert_record_frame[OF u]
  have "dns_ok db1" using u Cons.prems(2,3) by (rule upsert_record_ok)
  then have "dns_ok db' \<and> dn_zones db' = dn_zones db1 \<and> dn_jobs db' = dn_jobs db1"
    using Cons.IH[OF rest] Cons.prems(3) zone_in_cong[OF f(1)] by blast
  then show ?case by (simp add: f)
qed

lemma delete_changes_ok:
  assumes "delete_changes ad z cs db s = (Inr db', s')" "dns_ok db"
  shows "dns_ok db' \<and> dn_zones db' = dn_zones db \<and> dn_jobs db' = dn_jobs db"
  using assms
proof (induction cs arbitrary: db s)
  case Nil
  then show ?case by simp
next
  case (Cons c cs)
  then obtain s1 where rest: "delete_changes ad z cs (delete_record_by_spec (zn_id z) (ch_type c) (ch_name c) db) s1 = (Inr db', s')"
    by (auto simp: bind_call_Inr delete_change_def)
  from Cons.IH[OF rest delete_record_by_spec_ok[OF Cons.prems(2)]] show ?case
    by (simp add: delete_record_by_spec_frame)
qed

lemma upsert_attempt_ok:
  "upsert_attempt env j k db s = (Inr db', s') \<Longrightarrow> dns_ok db \<Longrightarrow> dns_ok db' \<and> dn_jobs db' = dn_jobs db"
  by (auto simp: upsert_attempt_def bind_call_Inr split: option.splits dest: get_zone_by_name_in upsert_changes_ok)

lemma delete_attempt_ok:
  "delete_attempt env j k db s = (Inr db', s') \<Longrightarrow> dns_ok db \<Longrightarrow> dns_ok db' \<and> dn_jobs db' = dn_jobs db"
  by (auto simp: delete_attempt_def bind_call_Inr split: option.splits dest: delete_changes_ok)

lemma resolve_zone_ok:
  assumes "resolve_zone env z db s = (Inr (z', db'), s')" "dns_ok db" "zone_in z db"
  shows "dns_ok db'"
  using assms by (auto simp: resolve_zone_def split: prod.splits sum.splits dest: set_provider_zone_id_ok)

lemma store_metas_ok:
  "store_metas z ms db = Inr db' \<Longrightarrow> dns_ok db \<Longrightarrow> zone_in z db \<Longrightarrow> dns_ok db' \<and> dn_zones db' = dn_zones db"
proof (induction ms arbitrary: db)
  case (Cons m ms)
  then obtain c db1 where u: "upsert_record z c (rm_id m) db = Inr db1" and rest: "store_metas z ms db1 = Inr db'"
    by (auto simp: bind_res_Inr)
  note f = upsert_record_frame[OF u]
  have "dns_ok db1" using u Cons.prems(2,3) by (rule upsert_record_ok)
  with Cons.IH[OF rest] Cons.prems(3) zone_in_cong[OF f(1)] f(1) show ?case by simp
qed simp

lemma pull_records_ok:
  "pull_records ad pz z db s = (Inr db', s') \<Longrightarrow> dns_ok db \<Longrightarrow> zone_in z db \<Longrightarrow> dns_ok db'"
  by (auto simp: pull_records_def split: prod.splits sum.splits dest: store_metas_ok)

definition ensures :: "('a, 's) call \<Rightarrow> ('a \<Rightarrow> bool) \<Rightarrow> bool" where
  "ensures m Q = (\<forall>s r s'. m s = (Inr r, s') \<longrightarrow> Q r)"

lemma ensuresI: "(\<And>s r s'. m s = (Inr r, s') \<Longrightarrow> Q r) \<Longrightarrow> ensures m Q"
  by (simp add: ensures_def)

lemma ensuresD: "ensures m Q \<Longrightarrow> m s = (Inr r, s') \<Longrightarrow> Q r"
  by (auto simp: ensures_def)

lemma ensures_bind:
  "ensures m Q \<Longrightarrow> (\<And>v. Q v \<Longrightarrow> ensures (f v) R) \<Longrightarrow> ensures (bind_call m f) R"
  by (fastforce simp: ensures_def bind_call_Inr)

lemma ensures_give: "(\<And>v. r = Inr v \<Longrightarrow> Q v) \<Longrightarrow> ensures (give r) Q"
  by (simp add: ensures_def)

lemma map_sum_Inr: "map_sum f id x = Inr v \<longleftrightarrow> x = Inr v"
  by (cases x) simp_all

text \<open>The import of one zone whose name is free: a new zone, and what the provider knows of it.\<close>

lemma import_found_ok:
  assumes "dns_ok db" "zone_in z db"
  shows "ensures (bind_call (give (set_provider_zone_id z i db)) (\<lambda>r. case r of (z', db2) \<Rightarrow>
      bind_call (pull_records ad j z' db2) (\<lambda>db3. give (Inr (z', db3))))) (\<lambda>(z', db4). dns_ok db4)"
proof (rule ensures_bind[where Q = "\<lambda>(z', db2). dns_ok db2 \<and> zone_in z' db2"])
  show "ensures (give (set_provider_zone_id z i db)) (\<lambda>(z', db2). dns_ok db2 \<and> zone_in z' db2)"
    by (rule ensures_give) (use assms in \<open>auto dest: set_provider_zone_id_ok\<close>)
  fix v assume "case v of (z', db2) \<Rightarrow> dns_ok db2 \<and> zone_in z' db2"
  then obtain z' db2 where v: "v = (z', db2)" "dns_ok db2" "zone_in z' db2" by auto
  then have "ensures (pull_records ad j z' db2) dns_ok"
    by (intro ensuresI) (rule pull_records_ok)
  then show "ensures (case v of (z', db2) \<Rightarrow> bind_call (pull_records ad j z' db2) (\<lambda>db3. give (Inr (z', db3)))) (\<lambda>(z', db4). dns_ok db4)"
    unfolding v by (simp, rule ensures_bind) (auto intro: ensures_give)
qed

lemma import_new_zone:
  "dns_ok db \<Longrightarrow> ensures (give (map_sum g id (create_zone t e n p db))) (\<lambda>(z, db1). dns_ok db1 \<and> zone_in z db1)"
  by (rule ensures_give) (auto simp: map_sum_Inr dest: create_zone_ok)

lemma import_one_ok:
  assumes "dns_ok db"
  shows "ensures (import_one ad pzs who p t e n db) (\<lambda>(z, ev, db'). dns_ok db')"
proof (cases "get_zone_by_name t e n db")
  case (Some y)
  with assms show ?thesis by (auto simp: import_one_def intro: ensures_give)
next
  case None
  let ?find = "List.find (\<lambda>p. zm_name p = JStr n) (rev pzs)"
  have two: "ensures (case ?find of None \<Rightarrow> give (Inr (z, db1))
          | Some pz \<Rightarrow> bind_call (give (set_provider_zone_id z (zm_id pz) db1)) (\<lambda>r. case r of (z', db2) \<Rightarrow>
              bind_call (pull_records ad (zm_id pz) z' db2) (\<lambda>db3. give (Inr (z', db3))))) (\<lambda>(z', db4). dns_ok db4)"
    if "dns_ok db1 \<and> zone_in z db1" for z db1
    using that by (cases ?find) (auto intro: ensures_give import_found_ok)
  show ?thesis
    unfolding import_one_def None option.case
    apply (rule ensures_bind[OF import_new_zone[OF assms]])
    apply (clarsimp)
    apply (rule ensures_bind[OF two])
    apply simp
    apply (auto intro: ensures_give)
    done
qed

lemma create_zone_api_ok:
  assumes "dns_ok db"
  shows "ensures (create_zone_api env who t e n p db) (\<lambda>(z, ev, db'). dns_ok db')"
  unfolding create_zone_api_def
  apply (rule ensures_bind[where Q = "\<lambda>_. True"], simp add: ensures_def)
  apply (rule ensures_bind[where Q = "\<lambda>(z, db1). dns_ok db1 \<and> zone_in z db1"])
  apply (rule ensures_give)
  subgoal using assms create_zone_ok by (auto split: if_splits)
  apply clarsimp
  apply (rule ensures_bind[where Q = "\<lambda>(z, db1). dns_ok db1"])
  subgoal by (rule ensuresI) (auto dest: resolve_zone_ok)
  apply (auto intro: ensures_give)
  done

lemma import_all_ok:
  "dns_ok db \<Longrightarrow> ensures (import_all ad pzs who p t e ns acc db) (\<lambda>(zs, ev, db'). dns_ok db')"
proof (induction ns arbitrary: acc db)
  case Nil
  then show ?case by (auto intro: ensures_give)
next
  case (Cons n ns)
  show ?case
    unfolding import_all.simps
    by (rule ensures_bind[OF import_one_ok[OF Cons.prems]]) (auto intro: Cons.IH)
qed

lemma import_provider_zones_ok:
  "dns_ok db \<Longrightarrow> import_provider_zones env who p t e ns db s = (Inr (zs, ev, db'), s') \<Longrightarrow> dns_ok db'"
  by (auto simp: import_provider_zones_def bind_call_Inr split: if_splits dest: ensuresD[OF import_all_ok])

lemma report_sync_ok:
  assumes "report_sync who t e n reconcile z ds db = (r, j, db')" "dns_ok db"
  shows "dns_ok db'"
proof -
  obtain j0 db1 where c: "create_change_job who t e n ''upsert'' (fixes_of (list_records (zn_id z) db) ds) db = (j0, db1)"
    by fastforce
  show ?thesis using assms c create_change_job_ok[OF c] by (auto simp: report_sync_def split: if_splits)
qed

lemma sync_zone_ok:
  "sync_zone env who t e n reconcile db s = (Inr (r, j, db'), s') \<Longrightarrow> dns_ok db \<Longrightarrow> dns_ok db'"
  by (auto simp: sync_zone_def bind_call_Inr bind_res_Inr dest: report_sync_ok)

lemma batch_upsert_cases:
  assumes "batch_upsert who body db = Inr (a, j, ev, db')"
  obtains (dry) "j = None" "db' = db" "ev = []"
  | (job) b j0 db1 who' where "check_batch True body = Inr b" "j = Some j0"
      "create_change_job who (bq_tenant b) (bq_env b) (bq_zone b) ''upsert'' (bq_records b) db = (j0, db1)"
      "dn_zones db' = dn_zones db1" "dn_records db' = dn_records db1" "dn_jobs db' = dn_jobs db1"
      "dn_next db' = dn_next db1"
proof -
  obtain b where b: "check_batch True body = Inr b" using assms by (auto simp: batch_upsert_def bind_res_Inr)
  obtain j0 db1 where c: "create_change_job who (bq_tenant b) (bq_env b) (bq_zone b) ''upsert'' (bq_records b) db = (j0, db1)"
    by fastforce
  show thesis
    using assms b c by (cases "bq_dry_run b") (auto simp: batch_upsert_def bind_res_Inr Let_def intro: dry job)
qed

lemma batch_delete_cases:
  assumes "batch_delete who body db = Inr (a, j, ev, db')"
  obtains b j0 db1 where "check_batch False body = Inr b" "j = Some j0"
      "create_change_job who (bq_tenant b) (bq_env b) (bq_zone b) ''delete'' (bq_records b) db = (j0, db1)"
      "dn_zones db' = dn_zones db1" "dn_records db' = dn_records db1" "dn_jobs db' = dn_jobs db1"
      "dn_next db' = dn_next db1"
proof -
  obtain b where b: "check_batch False body = Inr b" using assms by (auto simp: batch_delete_def bind_res_Inr)
  obtain j0 db1 where c: "create_change_job who (bq_tenant b) (bq_env b) (bq_zone b) ''delete'' (bq_records b) db = (j0, db1)"
    by fastforce
  show thesis using assms b c by (auto simp: batch_delete_def bind_res_Inr intro: that)
qed

lemma dns_ok_cong:
  assumes "dn_zones db' = dn_zones db" "dn_records db' = dn_records db" "dn_jobs db' = dn_jobs db" "dn_next db' = dn_next db"
  shows "dns_ok db' = dns_ok db"
  using assms by (simp add: dns_ok_def)

lemma batch_upsert_ok: "batch_upsert who b db = Inr (a, j, ev, db') \<Longrightarrow> dns_ok db \<Longrightarrow> dns_ok db'"
  by (erule batch_upsert_cases) (auto dest: dns_ok_cong create_change_job_ok)

lemma batch_delete_ok: "batch_delete who b db = Inr (a, j, ev, db') \<Longrightarrow> dns_ok db \<Longrightarrow> dns_ok db'"
  by (erule batch_delete_cases) (auto dest: dns_ok_cong create_change_job_ok)

lemma unregister_zone_ok: "unregister_zone who i db = Inr (n, ev, db') \<Longrightarrow> dns_ok db \<Longrightarrow> dns_ok db'"
  by (auto simp: unregister_zone_def bind_res_Inr delete_zone_ok)

subsection \<open>Jobs\<close>

lemma update_job_status_ok:
  "change_job_ok j \<Longrightarrow> st \<in> {''succeeded'', ''failed''} \<Longrightarrow> change_job_ok (update_job_status st e j)"
  by (auto simp: change_job_ok_def update_job_status_def)

lemma update_job_status_id [simp]: "jb_id (update_job_status st e j) = jb_id j"
  by (simp add: update_job_status_def)

lemma job_attempts_job:
  "job_attempts body fate as msg j db s = (ok, msg', j', db', s') \<Longrightarrow> jb_id j' = jb_id j \<and> (change_job_ok j \<longrightarrow> change_job_ok j')"
proof (induction as arbitrary: msg j db s)
  case (Cons a as)
  show ?case
  proof (cases "body a db s")
    case (Pair r s1)
    show ?thesis
    proof (cases r)
      case (Inl e)
      with Cons Pair show ?thesis by auto
    next
      case (Inr db1)
      with Cons.prems Pair Cons.IH[of _ "update_job_status ''succeeded'' None j"] show ?thesis
        by (auto simp: Let_def update_job_status_ok split: option.splits)
    qed
  qed
qed simp

lemma finish_job_ok:
  assumes "finish_job (job_attempts body fate as msg j db s) = (r, j', db', s')"
  shows "jb_id j' = jb_id j \<and> (change_job_ok j \<longrightarrow> change_job_ok j')"
proof -
  obtain ok msg' j1 db1 s1 where a: "job_attempts body fate as msg j db s = (ok, msg', j1, db1, s1)"
    by (cases "job_attempts body fate as msg j db s") auto
  show ?thesis using assms job_attempts_job[OF a]
    by (auto simp: finish_job_def a update_job_status_ok split: if_splits option.splits)
qed

lemma dispatch_change_job_ok:
  "dispatch_change_job env j db s = (r, j', db', s') \<Longrightarrow> jb_id j' = jb_id j \<and> (change_job_ok j \<longrightarrow> change_job_ok j')"
  by (auto simp: dispatch_change_job_def run_upsert_job_def run_delete_job_def
      simp del: upt_Suc split: if_splits sum.splits dest: finish_job_ok)

lemma land_job_ok:
  assumes "dns_ok db" "change_job_ok j"
  shows "dns_ok (land_job early j db)"
proof -
  have "change_jobs_ok (dn_next db) (dn_jobs (land_job early j db))"
  proof -
    have j: "change_jobs_ok (dn_next db) (dn_jobs db)" using assms(1) by (simp add: dns_ok_def)
    have "List.map jb_id (table_update jb_id (jb_id j) (\<lambda>_. j) (dn_jobs db)) = List.map jb_id (dn_jobs db)"
      by (auto simp: table_update_def update_rows_def)
    with j assms(2) show ?thesis by (auto simp: land_job_def change_jobs_ok_def set_table_update)
  qed
  then show ?thesis using assms(1) by (auto simp: dns_ok_def land_job_def)
qed

section \<open>Reachable states\<close>

inductive dns_reach :: "'s dns_env \<Rightarrow> dns_db \<Rightarrow> bool" for env :: "'s dns_env" where
  start: "dns_reach env \<lparr>dn_zones = [], dn_records = [], dn_jobs = [], dn_audit = [], dn_next = n\<rparr>"
| register: "dns_reach env db \<Longrightarrow> create_zone_api env who t e n p db s = (Inr (z, ev, db'), s') \<Longrightarrow> dns_reach env db'"
| import_step: "dns_reach env db \<Longrightarrow> import_provider_zones env who p t e ns db s = (Inr (zs, ev, db'), s') \<Longrightarrow> dns_reach env db'"
| unregister: "dns_reach env db \<Longrightarrow> unregister_zone who i db = Inr (n, ev, db') \<Longrightarrow> dns_reach env db'"
| upsert: "dns_reach env db \<Longrightarrow> batch_upsert who b db = Inr (a, j, ev, db') \<Longrightarrow> dns_reach env db'"
| delete: "dns_reach env db \<Longrightarrow> batch_delete who b db = Inr (a, j, ev, db') \<Longrightarrow> dns_reach env db'"
| sync: "dns_reach env db \<Longrightarrow> sync_zone env who t e n rec db s = (Inr (r, j, db'), s') \<Longrightarrow> dns_reach env db'"
| upsert_try: "dns_reach env db \<Longrightarrow> upsert_attempt env j k db s = (Inr db', s') \<Longrightarrow> dns_reach env db'"
| delete_try: "dns_reach env db \<Longrightarrow> delete_attempt env j k db s = (Inr db', s') \<Longrightarrow> dns_reach env db'"
| status_write: "dns_reach env db \<Longrightarrow> j \<in> set (dn_jobs db) \<Longrightarrow> dispatch_change_job env j db0 s = (r, j', db1, s') \<Longrightarrow>
    dns_reach env (land_job True j' db)"


section \<open>Error texts\<close>

text \<open>No run of 32 or more characters of a token is left in a text.\<close>

definition tokenless :: "string \<Rightarrow> bool" where
  "tokenless e = runless token_char e"

lemma safe_error_ok: "length (safe_error e) \<le> 2000 \<and> tokenless (safe_error e)"
  by (simp add: safe_error_def redact_tokens_def tokenless_def runless_take redact_runs_runless)

section \<open>The outcome of a change job\<close>

text \<open>The last entry of a list of changes for a type and name, and a record that says what it says.\<close>

definition latest :: "change list \<Rightarrow> string \<Rightarrow> string \<Rightarrow> change option" where
  "latest cs t n = List.find (\<lambda>c. ch_type c = t \<and> ch_name c = n) (rev cs)"

definition says :: "change \<Rightarrow> dns_record \<Rightarrow> bool" where
  "says c r = (rd_value r = ch_value c \<and> rd_ttl r = ch_ttl c \<and> rd_priority r = ch_priority c \<and>
     rd_tags r = tags_or_empty (ch_tags c))"

lemma latest_Nil [simp]: "latest [] t n = None"
  by (simp add: latest_def)

lemma latest_Cons: "latest (c # cs) t n = (case latest cs t n of Some c' \<Rightarrow> Some c'
    | None \<Rightarrow> if ch_type c = t \<and> ch_name c = n then Some c else None)"
proof -
  have "List.find P (xs @ ys) = (case List.find P xs of Some x \<Rightarrow> Some x | None \<Rightarrow> List.find P ys)" for P :: "change \<Rightarrow> bool" and xs ys
    by (induction xs) auto
  then show ?thesis by (simp add: latest_def split: option.split)
qed

text \<open>The table after the changes of a list in one zone: the last entry of a key is stored, every other
  record is as before.\<close>

definition stored_changes :: "dns_zone \<Rightarrow> change list \<Rightarrow> dns_db \<Rightarrow> dns_db \<Rightarrow> bool" where
  "stored_changes z cs db db' = (\<forall>i t n.
     case (if i = zn_id z then latest cs t n else None) of
       Some c \<Rightarrow> \<exists>r. get_record i t n db' = Some r \<and> says c r
     | None \<Rightarrow> get_record i t n db' = get_record i t n db)"

lemma unique_record:
  "records_ok n zs rs \<Longrightarrow> x \<in> set rs \<Longrightarrow> y \<in> set rs \<Longrightarrow> rd_id x = rd_id y \<Longrightarrow> x = y"
  by (auto simp: records_ok_def distinct_map inj_on_def)

lemma upsert_record_lookup:
  assumes "upsert_record z c i db = Inr db'" "dns_ok db"
  shows "if i' = zn_id z \<and> t = ch_type c \<and> n = ch_name c
    then \<exists>r. get_record i' t n db' = Some r \<and> says c r
    else get_record i' t n db' = get_record i' t n db"
  using assms(1)
proof (cases rule: upsert_record_cases)
  case (changed p r)
  have inv: "at_name i' t n (changed_record c p x) = at_name i' t n x" for x by (simp add: at_name_def)
  have upd: "get_record i' t n db' = map_option (\<lambda>x. if rd_id x = rd_id r then changed_record c p x else x) (get_record i' t n db)"
    unfolding changed(2) get_record_def by (simp add: table_update_def select_first_update[where q = "at_name i' t n", OF inv])
  have r: "r \<in> set (dn_records db)" "record_key r = (zn_id z, ch_type c, ch_name c)"
    using get_record_Some[OF changed(1)] by auto
  have says: "says c (changed_record c p r)" by (simp add: says_def changed_record_def)
  show ?thesis
  proof (cases "i' = zn_id z \<and> t = ch_type c \<and> n = ch_name c")
    case True
    then show ?thesis using upd changed(1) says by simp
  next
    case False
    have "rd_id x \<noteq> rd_id r" if x: "get_record i' t n db = Some x" for x
    proof
      assume "rd_id x = rd_id r"
      then have "x = r" using get_record_Some[OF x] r(1) assms(2) unique_record unfolding dns_ok_def by blast
      with get_record_Some[OF x] r(2) False show False by auto
    qed
    then show ?thesis using upd False by (cases "get_record i' t n db") auto
  qed
next
  case (fresh p)
  have "at_name i' t n (fresh_record z c p k) \<longleftrightarrow> i' = zn_id z \<and> t = ch_type c \<and> n = ch_name c" for k
    by (auto simp: at_name_def fresh_record_def)
  then show ?thesis using fresh(1) unfolding fresh(2) get_record_def
    by (auto simp: says_def fresh_record_def split: option.splits)
qed

lemma upsert_changes_lookup:
  assumes "upsert_changes ad z cs db s = (Inr db', s')" "dns_ok db" "zone_in z db"
  shows "case (if i = zn_id z then latest cs t n else None) of
      Some c \<Rightarrow> \<exists>r. get_record i t n db' = Some r \<and> says c r
    | None \<Rightarrow> get_record i t n db' = get_record i t n db"
  using assms
proof (induction cs arbitrary: db s)
  case Nil
  then show ?case by simp
next
  case (Cons c cs)
  then obtain m :: record_meta and s1 db1 where u: "upsert_record z c (rm_id m) db = Inr db1"
    and rest: "upsert_changes ad z cs db1 s1 = (Inr db', s')"
    by (auto simp: bind_call_Inr)
  have db1: "dns_ok db1" "zone_in z db1"
    using upsert_record_ok[OF u Cons.prems(2,3)] Cons.prems(3) zone_in_cong[OF upsert_record_frame(1)[OF u]] by auto
  show ?case
    using Cons.IH[OF rest db1] upsert_record_lookup[OF u Cons.prems(2), of i t n]
    by (auto simp: latest_Cons split: option.splits if_splits)
qed

lemma upsert_changes_stored:
  "upsert_changes ad z cs db s = (Inr db', s') \<Longrightarrow> dns_ok db \<Longrightarrow> zone_in z db \<Longrightarrow> stored_changes z cs db db'"
  unfolding stored_changes_def by (intro allI) (rule upsert_changes_lookup)

lemma job_attempts_outcome:
  assumes "job_attempts body fate as msg j db s = (ok, msg', j', db', s')"
  shows "if ok then jb_status j' = ''succeeded'' \<and> (\<exists>k s0. body k db s0 = (Inr db', s'))
    else db' = db \<and> (if as = [] then msg' = msg \<and> j' = j else \<exists>e. msg' = Some (safe_error e))"
  using assms
proof (induction as arbitrary: msg j s)
  case (Cons a as)
  obtain x s1 where b: "body a db s = (x, s1)" by fastforce
  show ?case
  proof (cases x)
    case (Inl e)
    with Cons.prems b have "job_attempts body fate as (Some (safe_error e)) j db s1 = (ok, msg', j', db', s')" by simp
    from Cons.IH[OF this] show ?thesis by (auto split: if_splits)
  next
    case (Inr db1)
    show ?thesis
    proof (cases "fate a")
      case None
      with Cons.prems b Inr show ?thesis by (auto simp: Let_def update_job_status_def)
    next
      case (Some e)
      with Cons.prems b Inr have "job_attempts body fate as (Some (safe_error e))
          (update_job_status ''succeeded'' None j) db s1 = (ok, msg', j', db', s')" by (simp add: Let_def)
      from Cons.IH[OF this] show ?thesis by (auto split: if_splits)
    qed
  qed
qed simp


section \<open>Reconciliation\<close>

text \<open>What a provider is expected to do for a zone, with the values it holds by type and name as
  \<open>at\<close>: a listing tells what it holds and changes nothing, an upsert that returns has put the value,
  and an upsert that raises has put it or changed nothing.\<close>

definition puts :: "('s \<Rightarrow> string \<Rightarrow> string \<Rightarrow> string option) \<Rightarrow> record_spec \<Rightarrow> 's \<Rightarrow> 's \<Rightarrow> bool" where
  "puts at spec s s' = (\<forall>t n. at s' t n =
     (if t = rs_type spec \<and> n = rs_name spec then Some (rs_value spec) else at s t n))"

definition faithful_provider :: "'s adapter \<Rightarrow> json \<Rightarrow> ('s \<Rightarrow> string \<Rightarrow> string \<Rightarrow> string option) \<Rightarrow> bool" where
  "faithful_provider ad pz at =
     ((\<forall>s ms s'. ad_list_records ad pz s = (Inr ms, s') \<longrightarrow> at s' = at s \<and>
         (\<forall>t n. map_option rm_value (provider_at ms t n) = map_option JStr (at s t n))) \<and>
      (\<forall>spec s m s'. ad_upsert_record ad pz spec s = (Inr m, s') \<longrightarrow> puts at spec s s') \<and>
      (\<forall>spec s e s'. ad_upsert_record ad pz spec s = (Inl e, s') \<longrightarrow> at s' = at s \<or> puts at spec s s'))"

text \<open>The provider holds the value recorded for a type and name.\<close>

definition agrees :: "('s \<Rightarrow> string \<Rightarrow> string \<Rightarrow> string option) \<Rightarrow> dns_record list \<Rightarrow> string \<Rightarrow> string \<Rightarrow> 's \<Rightarrow> bool" where
  "agrees at rs t n s = (\<forall>r \<in> set rs. rd_type r = t \<and> rd_name r = n \<longrightarrow> at s t n = Some (rd_value r))"

text \<open>Changes that ask for recorded values only.\<close>

definition asks_recorded :: "dns_record list \<Rightarrow> change list \<Rightarrow> bool" where
  "asks_recorded rs cs = (\<forall>c \<in> set cs. \<forall>r \<in> set rs.
     rd_type r = ch_type c \<and> rd_name r = ch_name c \<longrightarrow> rd_value r = ch_value c)"

lemma puts_agrees:
  assumes "puts at (spec_of c) s s'" "asks_recorded rs (c # cs)"
  shows "agrees at rs t n s \<Longrightarrow> agrees at rs t n s'" "agrees at rs (ch_type c) (ch_name c) s'"
  using assms by (auto simp: puts_def agrees_def asks_recorded_def spec_of_def)

lemma upsert_changes_agrees:
  assumes "upsert_changes ad z cs db s = (r, s')" "faithful_provider ad (json_opt (zn_provider_id z)) at"
    "asks_recorded rs cs"
  shows "(agrees at rs t n s \<longrightarrow> agrees at rs t n s') \<and>
    (\<forall>db'. r = Inr db' \<longrightarrow> (\<exists>c \<in> set cs. ch_type c = t \<and> ch_name c = n) \<longrightarrow> agrees at rs t n s')"
  using assms
proof (induction cs arbitrary: db s)
  case Nil
  then show ?case by simp
next
  case (Cons c cs)
  have rest: "asks_recorded rs cs" using Cons.prems(3) by (simp add: asks_recorded_def)
  obtain x s1 where up: "ad_upsert_record ad (json_opt (zn_provider_id z)) (spec_of c) s = (x, s1)" by fastforce
  show ?case
  proof (cases x)
    case (Inl e)
    then have "at s1 = at s \<or> puts at (spec_of c) s s1" using Cons.prems(2) up by (simp add: faithful_provider_def)
    then have "agrees at rs t n s \<longrightarrow> agrees at rs t n s1"
    proof
      assume "at s1 = at s" then show ?thesis by (simp add: agrees_def)
    next
      assume "puts at (spec_of c) s s1" then show ?thesis by (intro impI) (rule puts_agrees(1)[OF _ Cons.prems(3)])
    qed
    then show ?thesis using Cons.prems(1) up Inl by (auto simp: bind_call_def)
  next
    case (Inr m)
    then have p: "puts at (spec_of c) s s1" using Cons.prems(2) up by (simp add: faithful_provider_def)
    note a = puts_agrees[OF p Cons.prems(3)]
    show ?thesis
    proof (cases "upsert_record z c (rm_id m) db")
      case (Inl e)
      then show ?thesis using Cons.prems(1) up Inr a(1) by (auto simp: bind_call_def give_def)
    next
      case (Inr db1)
      then have "upsert_changes ad z cs db1 s1 = (r, s')"
        using Cons.prems(1) up \<open>x = Inr m\<close> by (simp add: bind_call_def give_def)
      from Cons.IH[OF this Cons.prems(2) rest] a show ?thesis by auto
    qed
  qed
qed

definition job_agrees :: "('s \<Rightarrow> string \<Rightarrow> string \<Rightarrow> string option) \<Rightarrow> dns_record list \<Rightarrow> (nat \<Rightarrow> dns_db \<Rightarrow> (dns_db, 's) call) \<Rightarrow> dns_db \<Rightarrow> string \<Rightarrow> string \<Rightarrow> bool \<Rightarrow> bool" where
  "job_agrees at rs body db t n asked = (\<forall>a s r s'. body a db s = (r, s') \<longrightarrow>
     (agrees at rs t n s \<longrightarrow> agrees at rs t n s') \<and> ((\<exists>db'. r = Inr db') \<and> asked \<longrightarrow> agrees at rs t n s'))"

lemma job_attempts_agrees:
  assumes "job_attempts body fate as msg j db s = (ok, msg', j', db', s')" "job_agrees at rs body db t n asked"
    "agrees at rs t n s \<or> asked"
  shows "ok \<longrightarrow> agrees at rs t n s'"
  using assms(1,3)
proof (induction as arbitrary: msg j s)
  case (Cons a as)
  obtain x s1 where b: "body a db s = (x, s1)" by fastforce
  have step: "agrees at rs t n s1 \<or> asked"
    using Cons.prems(2) assms(2) b unfolding job_agrees_def by blast
  show ?case
  proof (cases x)
    case (Inl e)
    with Cons.prems(1) b have "job_attempts body fate as (Some (safe_error e)) j db s1 = (ok, msg', j', db', s')" by simp
    from Cons.IH[OF this step] show ?thesis .
  next
    case (Inr db1)
    show ?thesis
    proof (cases "fate a")
      case None
      with Cons.prems b Inr assms(2) show ?thesis unfolding job_agrees_def by (fastforce simp: Let_def)
    next
      case (Some e)
      with Cons.prems(1) b Inr have "job_attempts body fate as (Some (safe_error e))
          (update_job_status ''succeeded'' None j) db s1 = (ok, msg', j', db', s')" by (simp add: Let_def)
      from Cons.IH[OF this step] show ?thesis .
    qed
  qed
qed simp

lemma list_records_set [simp]: "set (list_records i db) = {r \<in> set (dn_records db). rd_zone r = i}"
  by (auto simp: list_records_def select_all_def)

lemma recorded_once:
  assumes "dns_ok db" "r \<in> set (list_records i db)"
  shows "get_record i (rd_type r) (rd_name r) db = Some r"
proof (cases "get_record i (rd_type r) (rd_name r) db")
  case None
  then show ?thesis using assms(2) by (auto simp: get_record_None record_key_def)
next
  case (Some x)
  then have "x \<in> set (dn_records db)" "record_key x = record_key r"
    using assms(2) get_record_Some[OF Some] by (auto simp: record_key_def)
  then have "x = r" using assms by (auto simp: dns_ok_def records_ok_def distinct_map inj_on_def)
  then show ?thesis using Some by simp
qed

lemma map_res_Inr_mem:
  "map_res f xs = Inr ys \<Longrightarrow> x \<in> set xs \<Longrightarrow> \<exists>y \<in> set ys. f x = Inr y"
  by (induction xs arbitrary: ys) (auto simp: bind_res_Inr)

lemma map_res_Inr_back:
  "map_res f xs = Inr ys \<Longrightarrow> y \<in> set ys \<Longrightarrow> \<exists>x \<in> set xs. f x = Inr y"
  by (induction xs arbitrary: ys) (auto simp: bind_res_Inr)

lemma drift_of_keys: "drift_of ms r = Inr (Some d) \<Longrightarrow> dr_type d = rd_type r \<and> dr_name d = rd_name r"
  by (auto simp: drift_of_def Let_def split: if_splits json.splits)

lemma drift_of_None: "drift_of ms r = Inr None \<longleftrightarrow>
    map_option rm_value (provider_at ms (rd_type r) (rd_name r)) = Some (JStr (rd_value r))"
  by (auto simp: drift_of_def Let_def split: if_splits json.splits option.splits)

lemma set_map_filter: "set (List.map_filter f xs) = {y. \<exists>x \<in> set xs. f x = Some y}"
  by (induction xs) (auto simp: map_filter_simps split: option.splits)

lemma set_somes: "set (List.map_filter id os) = {d. Some d \<in> set os}"
  by (auto simp: set_map_filter)

lemma drifts_of_cases:
  assumes "drifts_of ms rs = Inr ds"
  obtains os where "map_res (drift_of ms) rs = Inr os" "set ds = {d. Some d \<in> set os}" "ds = List.map_filter id os"
  using assms by (cases "map_res (drift_of ms) rs")
    (auto simp: drifts_of_def set_somes split: if_splits)

text \<open>A record whose value the provider does not hold is in the list of drifts, and what the reconcile
  job asks for is what is recorded.\<close>

lemma drift_or_agrees:
  assumes "drifts_of ms rs = Inr ds" "\<forall>t n. map_option rm_value (provider_at ms t n) = map_option JStr (at s t n)"
    "r \<in> set rs"
  shows "at s (rd_type r) (rd_name r) = Some (rd_value r) \<or>
    (\<exists>d \<in> set ds. dr_type d = rd_type r \<and> dr_name d = rd_name r)"
proof -
  obtain os where os: "map_res (drift_of ms) rs = Inr os" "set ds = {d. Some d \<in> set os}"
    using assms(1) by (rule drifts_of_cases)
  obtain x where x: "x \<in> set os" "drift_of ms r = Inr x" using map_res_Inr_mem[OF os(1) assms(3)] by blast
  show ?thesis
  proof (cases x)
    case None
    then have "map_option JStr (at s (rd_type r) (rd_name r)) = Some (JStr (rd_value r))"
      using x(2) assms(2) by (simp add: drift_of_None)
    then show ?thesis by auto
  next
    case (Some d)
    then show ?thesis using x os(2) drift_of_keys by blast
  qed
qed

lemma unique_at:
  assumes "dns_ok db" "r \<in> set (list_records i db)" "r' \<in> set (list_records i db)"
    "rd_type r' = rd_type r" "rd_name r' = rd_name r"
  shows "r' = r"
  using recorded_once[OF assms(1,2)] recorded_once[OF assms(1,3)] assms(4,5) by simp

lemma fixes_of_mem:
  assumes "c \<in> set (fixes_of rs ds)"
  obtains r where "r \<in> set rs" "c = fix_of r"
proof -
  from assms obtain d :: drift and r :: dns_record where "List.find (\<lambda>r. rd_type r = dr_type d \<and> rd_name r = dr_name d) (rev rs) = Some r" "c = fix_of r"
    by (auto simp: fixes_of_def set_map_filter)
  then show thesis using that[of r] by (metis find_Some_iff nth_mem set_rev)
qed

lemma fixes_of_covers:
  assumes "r \<in> set rs" "d \<in> set ds" "dr_type d = rd_type r" "dr_name d = rd_name r"
  shows "\<exists>c \<in> set (fixes_of rs ds). ch_type c = rd_type r \<and> ch_name c = rd_name r"
proof -
  let ?P = "\<lambda>r. rd_type r = dr_type d \<and> rd_name r = dr_name d"
  have "List.find ?P (rev rs) \<noteq> None" using assms by (auto simp: find_None_iff)
  then obtain x where x: "List.find ?P (rev rs) = Some x" by auto
  then have "?P x" by (auto simp: find_Some_iff)
  moreover have "fix_of x \<in> set (fixes_of rs ds)"
    using x assms(2) by (auto simp: fixes_of_def set_map_filter intro!: bexI[of _ d])
  ultimately show ?thesis using assms by (intro bexI[of _ "fix_of x"]) (simp_all add: fix_of_def)
qed

lemma asks_recorded_fixes:
  assumes "dns_ok db"
  shows "asks_recorded (list_records i db) (fixes_of (list_records i db) ds)"
  unfolding asks_recorded_def
proof (intro ballI impI, elim conjE)
  fix c r assume c: "c \<in> set (fixes_of (list_records i db) ds)" and r: "r \<in> set (list_records i db)"
    and k: "rd_type r = ch_type c" "rd_name r = ch_name c"
  obtain x where x: "x \<in> set (list_records i db)" "c = fix_of x" using c by (rule fixes_of_mem)
  then have "r = x" using unique_at[OF assms x(1) r] k by (simp add: fix_of_def)
  then show "rd_value r = ch_value c" by (simp add: x fix_of_def)
qed

lemma latest_mem: "latest cs t n = Some c \<Longrightarrow> c \<in> set cs \<and> ch_type c = t \<and> ch_name c = n"
  unfolding latest_def by (metis (mono_tags, lifting) find_Some_iff nth_mem set_rev)

lemma stored_changes_values:
  assumes "stored_changes z cs db db'" "dns_ok db" "dns_ok db'" "asks_recorded (list_records (zn_id z) db) cs"
    "\<forall>c \<in> set cs. \<exists>r \<in> set (list_records (zn_id z) db). rd_type r = ch_type c \<and> rd_name r = ch_name c"
    "r' \<in> set (list_records (zn_id z) db')"
  shows "\<exists>r \<in> set (list_records (zn_id z) db). rd_type r = rd_type r' \<and> rd_name r = rd_name r' \<and> rd_value r = rd_value r'"
proof -
  have now: "get_record (zn_id z) (rd_type r') (rd_name r') db' = Some r'" using assms(3,6) by (rule recorded_once)
  note st = assms(1)[unfolded stored_changes_def, rule_format, of "zn_id z" "rd_type r'" "rd_name r'"]
  show ?thesis
  proof (cases "latest cs (rd_type r') (rd_name r')")
    case None
    then have "get_record (zn_id z) (rd_type r') (rd_name r') db = Some r'" using st now by simp
    then show ?thesis by (auto simp: record_key_def dest!: get_record_Some)
  next
    case (Some c)
    then have c: "c \<in> set cs" "ch_type c = rd_type r'" "ch_name c = rd_name r'" by (auto dest: latest_mem)
    have "says c r'" using st now Some by simp
    obtain r where r: "r \<in> set (list_records (zn_id z) db)" "rd_type r = ch_type c" "rd_name r = ch_name c"
      using assms(5) c(1) by blast
    then have "rd_value r = ch_value c" using assms(4) c(1) unfolding asks_recorded_def by blast
    with r c \<open>says c r'\<close> show ?thesis by (metis says_def)
  qed
qed

lemma sync_zone_cases:
  assumes "sync_zone env who t e n reconcile db s = (Inr (rep, j, db'), s')"
  obtains z pz ad ms ds where "get_zone_by_name t e n db = Some z" "zn_provider_id z = Some pz"
    "adapter_for env 0 (zn_provider z) t e = Inr ad" "ad_list_records ad (JStr pz) s = (Inr ms, s')"
    "drifts_of ms (list_records (zn_id z) db) = Inr ds"
    "report_sync who t e n reconcile z ds db = (rep, j, db')"
proof -
  obtain z where z: "get_zone_by_name t e n db = Some z"
    using assms by (auto simp: sync_zone_def bind_call_Inr of_opt_def split: option.splits)
  show thesis
    using assms z by (auto simp: sync_zone_def bind_call_Inr bind_res_Inr adapter_now_def split: option.splits list.splits intro: that)
qed

lemma report_sync_fields:
  assumes "report_sync who t e n reconcile z ds db = (rep, j, db')"
  shows "sy_drift rep = ds" "dn_zones db' = dn_zones db" "dn_records db' = dn_records db"
    "j = Some j0 \<Longrightarrow> jb_records j0 = fixes_of (list_records (zn_id z) db) ds \<and> jb_tenant j0 = t \<and> jb_env j0 = e \<and> jb_zone j0 = n \<and> jb_status j0 = ''pending''"
proof -
  obtain j1 db1 where c: "create_change_job who t e n ''upsert'' (fixes_of (list_records (zn_id z) db) ds) db = (j1, db1)"
    by fastforce
  note f = create_change_job_cases[OF c]
  show "sy_drift rep = ds" "dn_zones db' = dn_zones db" "dn_records db' = dn_records db"
    "j = Some j0 \<Longrightarrow> jb_records j0 = fixes_of (list_records (zn_id z) db) ds \<and> jb_tenant j0 = t \<and> jb_env j0 = e \<and> jb_zone j0 = n \<and> jb_status j0 = ''pending''"
    using assms c f by (auto simp: report_sync_def split: if_splits)
qed

lemma drifts_agree:
  assumes "drifts_of ms rs = Inr ds"
    "\<forall>t n. map_option rm_value (provider_at ms t n) = map_option JStr (at s t n)"
    "\<forall>r \<in> set rs. at s (rd_type r) (rd_name r) = Some (rd_value r)"
  shows "ds = []"
proof -
  obtain os where os: "map_res (drift_of ms) rs = Inr os" "set ds = {d. Some d \<in> set os}"
    using assms(1) by (rule drifts_of_cases)
  have "x = None" if mem: "x \<in> set os" for x
  proof -
    obtain r where "r \<in> set rs" "drift_of ms r = Inr x" using map_res_Inr_back[OF os(1) mem] by blast
    moreover have "drift_of ms r = Inr None" if "r \<in> set rs" for r
      using that assms(2,3) by (simp add: drift_of_None)
    ultimately show ?thesis by simp
  qed
  then have "set ds = {}" using os(2) by auto
  then show ?thesis by simp
qed

lemma succeeded_run:
  assumes "de_vault env = Inr ()" "run_upsert_job env j db s = (x, j', db', s')" "jb_status j' = ''succeeded''"
    "jb_status j = ''pending''"
  shows "\<exists>k s0. upsert_attempt env j k db s0 = (Inr db', s') \<and>
    (\<forall>at rs t n asked. job_agrees at rs (upsert_attempt env j) db t n asked \<longrightarrow>
        agrees at rs t n s \<or> asked \<longrightarrow> agrees at rs t n s')"
proof -
  obtain ok msg j1 db1 s1 where a: "job_attempts (upsert_attempt env j) (de_commit env)
      [1..<Suc (de_max_attempts env)] None j db s = (ok, msg, j1, db1, s1)"
    by (metis prod_cases5)
  have fin: "finish_job (ok, msg, j1, db1, s1) = (x, j', db', s')"
    using assms(1,2) a by (simp add: run_upsert_job_def)
  note o = job_attempts_outcome[OF a]
  have ok proof (rule ccontr)
    assume "\<not> ok"
    with o fin assms(3,4) show False by (auto simp: finish_job_def update_job_status_def split: if_splits)
  qed
  then have same: "db1 = db'" "s1 = s'" using fin by (auto simp: finish_job_def)
  obtain k s0 where k: "upsert_attempt env j k db s0 = (Inr db', s')" using o \<open>ok\<close> same by auto
  have run: "agrees at rs t n s'"
    if "job_agrees at rs (upsert_attempt env j) db t n asked" "agrees at rs t n s \<or> asked" for at rs t n asked
    using job_attempts_agrees[OF a that] \<open>ok\<close> same by simp
  show ?thesis by (intro exI conjI allI impI) (rule k, rule run)
qed

lemma attempt_agrees:
  assumes "\<forall>k ad. adapter_for env k (zn_provider z) t e = Inr ad \<longrightarrow> faithful_provider ad (JStr pz) at"
    "get_zone_by_name t e n db = Some z"
    "jb_records j = cs" "jb_tenant j = t" "jb_env j = e" "jb_zone j = n" "jb_status j = st"
    "asks_recorded rs cs" "json_opt (zn_provider_id z) = JStr pz"
  shows "job_agrees at rs (upsert_attempt env j) db t' n' (\<exists>c \<in> set cs. ch_type c = t' \<and> ch_name c = n')"
  unfolding job_agrees_def
proof (intro allI impI)
  fix k s r s' assume a: "upsert_attempt env j k db s = (r, s')"
  show "(agrees at rs t' n' s \<longrightarrow> agrees at rs t' n' s') \<and>
     ((\<exists>db'. r = Inr db') \<and> (\<exists>c \<in> set cs. ch_type c = t' \<and> ch_name c = n') \<longrightarrow> agrees at rs t' n' s')"
  proof (cases "adapter_for env k (zn_provider z) t e")
    case (Inl err)
    then show ?thesis using a assms by (auto simp: upsert_attempt_def bind_call_def give_def)
  next
    case (Inr ad)
    then have up: "upsert_changes ad z cs db s = (r, s')" using a assms by (simp add: upsert_attempt_def)
    have faithful: "faithful_provider ad (json_opt (zn_provider_id z)) at" using assms(1,9) Inr by simp
    from upsert_changes_agrees[OF up faithful assms(8), of t' n'] show ?thesis by simp
  qed
qed

section \<open>A provider to instantiate the arguments with\<close>

text \<open>A server that answers as the Cloudflare API does for the requests the adapter sends: it keeps
  type, name and value of its records, the last one of a name counts.\<close>

type_synonym cloud_state = "((string \<times> string) \<times> string) list"

definition cloud_record :: "(string \<times> string) \<times> string \<Rightarrow> json" where
  "cloud_record x = JObj [(''id'', JStr ''r1''), (''type'', JStr (fst (fst x))), (''name'', JStr (snd (fst x))), (''content'', JStr (snd x))]"

definition cloud_answer :: "json \<Rightarrow> provider_outcome" where
  "cloud_answer j = POAnswer \<lparr>pr_status = 200, pr_retry_after = None, pr_text = ''..'',
     pr_json = Inr (JObj [(''success'', JBool True), (''result'', j)])\<rparr>"

fun json_text :: "json \<Rightarrow> string" where
  "json_text (JStr s) = s"
| "json_text _ = []"

definition cloud :: "cloud_state transport" where
  "cloud q s = (case pq_json q of
     Some (JObj d) \<Rightarrow>
       (let x = ((json_text (dget d ''type'' JNull), json_text (dget d ''name'' JNull)), json_text (dget d ''content'' JNull))
        in (cloud_answer (cloud_record x), s @ [x]))
   | _ \<Rightarrow> (cloud_answer (JList (List.map cloud_record s)), s))"

definition cloud_env :: "cloud_state dns_env" where
  "cloud_env = \<lparr>de_http = \<lparr>he_send = cloud, he_show = (\<lambda>_. [])\<rparr>, de_sign = (\<lambda>_ _. []), de_vault = Inr (),
     de_secret = (\<lambda>k t e alias. Inr ''token''), de_max_attempts = 3, de_commit = (\<lambda>k. None)\<rparr>"

definition cloud_at :: "cloud_state \<Rightarrow> string \<Rightarrow> string \<Rightarrow> string option" where
  "cloud_at s t n = map_of (rev s) (t, n)"

lemma cloud_get: "pq_json q = None \<Longrightarrow> cloud q s = (cloud_answer (JList (List.map cloud_record s)), s)"
  by (simp add: cloud_def)

lemma cloud_request:
  "cloud q s = (cloud_answer j, s') \<Longrightarrow>
     cf_request cloud show q s = (Inr (JObj [(''success'', JBool True), (''result'', j)]), s')"
  by (simp add: cf_request_def max_retries_def upt_rec cloud_answer_def cf_judge_def cf_result_def py_get_def dget_def)

definition cloud_meta :: "(string \<times> string) \<times> string \<Rightarrow> record_meta" where
  "cloud_meta x = \<lparr>rm_id = JStr ''r1'', rm_type = JStr (fst (fst x)), rm_name = JStr (snd (fst x)), rm_value = JStr (snd x),
     rm_ttl = JInt 300, rm_priority = JNull\<rparr>"

lemma parse_cloud_record: "parse_cf_record (cloud_record x) = Inr (cloud_meta x)"
  by (simp add: parse_cf_record_def cloud_record_def cloud_meta_def py_item_def py_get_def dget_def)

lemma cloud_parsed: "map_res parse_cf_record (List.map cloud_record s) = Inr (List.map cloud_meta s)"
  by (induction s) (simp_all add: parse_cloud_record)

lemma cloud_list: "cf_list_records (de_http cloud_env) ''token'' pz s = (Inr (List.map cloud_meta s), s)"
  by (simp add: cf_list_records_def cf_call_def cloud_env_def cloud_request[OF cloud_get] bind_call_def py_get_def dget_def
      py_iterate_def cloud_parsed give_def)

lemma cloud_find: "cf_find_record (de_http cloud_env) ''token'' pz t n s =
    (Inr (case s of [] \<Rightarrow> None | x # _ \<Rightarrow> Some (cloud_meta x)), s)"
  by (cases s) (simp_all add: cf_find_record_def cf_call_def cloud_env_def cloud_request[OF cloud_get] bind_call_def py_get_def
      dget_def py_first_def parse_cloud_record give_def)

definition cloud_entry :: "record_spec \<Rightarrow> (string \<times> string) \<times> string" where
  "cloud_entry spec = ((rs_type spec, rs_name spec), rs_value spec)"

lemma cloud_put: "pq_json q = Some (cf_payload spec) \<Longrightarrow>
    cloud q s = (cloud_answer (cloud_record (cloud_entry spec)), s @ [cloud_entry spec])"
  by (simp add: cloud_def cf_payload_def dget_def cloud_entry_def Let_def)

lemma cloud_upsert: "cf_upsert_record (de_http cloud_env) ''token'' pz spec s =
    (Inr (cloud_meta (cloud_entry spec)), s @ [cloud_entry spec])"
  by (simp add: cf_upsert_record_def cloud_find bind_call_def split: list.split)
    (simp add: cf_call_def cloud_env_def cloud_request[OF cloud_put] py_item_def parse_cloud_record give_def)

lemma cloud_provider_at: "map_option rm_value (provider_at (List.map cloud_meta s) t n) = map_option JStr (cloud_at s t n)"
proof -
  have "map_option rm_value (List.find (\<lambda>m. rm_type m = JStr t \<and> rm_name m = JStr n) (List.map cloud_meta xs))
      = map_option JStr (map_of xs (t, n))" for xs
    by (induction xs) (auto simp: cloud_meta_def)
  from this[of "rev s"] show ?thesis by (simp add: provider_at_def cloud_at_def rev_map)
qed

lemma cloud_faithful: "faithful_provider (cloudflare_adapter (de_http cloud_env) ''token'') pz cloud_at"
  unfolding faithful_provider_def cloudflare_adapter_def
  by (simp add: cloud_list cloud_upsert cloud_provider_at puts_def cloud_at_def cloud_entry_def)

definition demo_zone :: dns_zone where
  "demo_zone = \<lparr>zn_id = 1, zn_tenant = ''t'', zn_env = ''prod'', zn_name = ''a.com'', zn_provider = ''cloudflare'',
     zn_provider_id = Some ''z'', zn_active = True\<rparr>"

definition demo_change :: change where
  "demo_change = \<lparr>ch_type = ''A'', ch_name = ''www'', ch_value = ''10.0.0.1'', ch_ttl = 300, ch_priority = None, ch_tags = None\<rparr>"

definition demo_dns :: dns_db where
  "demo_dns = \<lparr>dn_zones = [demo_zone], dn_records = [fresh_record demo_zone demo_change None 2],
     dn_jobs = [], dn_audit = [], dn_next = 3\<rparr>"

definition demo_who :: dns_caller where
  "demo_who = \<lparr>dc_service = ''nexus'', dc_admin = False, dc_ip = None, dc_correlation = ''c''\<rparr>"

definition demo_job :: "string \<Rightarrow> nat \<Rightarrow> bool \<Rightarrow> dns_job" where
  "demo_job st a completed = \<lparr>jb_id = 3, jb_tenant = ''t'', jb_env = ''prod'', jb_zone = ''a.com'', jb_operation = ''upsert'',
     jb_records = [demo_change], jb_status = st, jb_attempts = a, jb_error = None, jb_started = False, jb_completed = completed,
     jb_service = ''nexus'', jb_correlation = ''c''\<rparr>"

definition demo_report :: "drift list \<Rightarrow> bool \<Rightarrow> nat option \<Rightarrow> sync_result" where
  "demo_report ds done j = \<lparr>sy_zone = ''a.com'', sy_provider = ''cloudflare'', sy_count = length ds, sy_drift = ds,
     sy_reconciled = done, sy_job = j\<rparr>"

definition demo_drift :: drift where
  "demo_drift = \<lparr>dr_type = ''A'', dr_name = ''www'', dr_expected = ''10.0.0.1'', dr_actual = None\<rparr>"

definition demo_synced :: "string option \<Rightarrow> dns_db" where
  "demo_synced pid = (log_audit demo_who ''t'' ''prod'' ''sync'' ''a.com'' ''success'' (Some ''drift_count=1, reconcile=True'')
     (snd (create_change_job demo_who ''t'' ''prod'' ''a.com'' ''upsert'' [demo_change] demo_dns)))
     \<lparr>dn_records := [fresh_record demo_zone demo_change pid 2]\<rparr>"

definition demo_later :: dns_db where
  "demo_later = log_audit demo_who ''t'' ''prod'' ''sync'' ''a.com'' ''success'' (Some ''drift_count=0, reconcile=False'')
     (demo_synced (Some ''r1''))"

lemma demo_first: "sync_zone cloud_env demo_who ''t'' ''prod'' ''a.com'' True demo_dns [] =
    (Inr (demo_report [demo_drift] True (Some 3), Some (demo_job ''pending'' 0 False), demo_synced None), [])"
  by code_simp

lemma demo_run: "run_upsert_job cloud_env (demo_job ''pending'' 0 False) (demo_synced None) [] =
    (Inr (), demo_job ''succeeded'' 1 True, demo_synced (Some ''r1''), [((''A'', ''www''), ''10.0.0.1'')])"
  by code_simp

lemma demo_again: "sync_zone cloud_env demo_who ''t'' ''prod'' ''a.com'' False (demo_synced (Some ''r1'')) [((''A'', ''www''), ''10.0.0.1'')] =
    (Inr (demo_report [] False None, None, demo_later), [((''A'', ''www''), ''10.0.0.1'')])"
  by code_simp

lemma demo_dns_ok: "dns_ok demo_dns"
  by code_simp

lemma demo_adapters: "adapter_for cloud_env k ''cloudflare'' t e = Inr ad \<Longrightarrow> faithful_provider ad pz cloud_at"
proof -
  assume "adapter_for cloud_env k ''cloudflare'' t e = Inr ad"
  then have "ad = cloudflare_adapter (de_http cloud_env) ''token''"
    by (simp add: adapter_for_def get_adapter_def cloud_env_def)
  then show ?thesis by (simp add: cloud_faithful)
qed

definition demo_empty_dns :: dns_db where
  "demo_empty_dns = \<lparr>dn_zones = [], dn_records = [], dn_jobs = [], dn_audit = [], dn_next = 1\<rparr>"

definition demo_registered :: dns_db where
  "demo_registered = log_audit demo_who ''t'' ''prod'' ''create_zone'' ''a.com'' ''success'' None
     (demo_empty_dns\<lparr>dn_zones := [demo_zone\<lparr>zn_provider_id := None\<rparr>], dn_next := 2\<rparr>)"

lemma demo_register: "create_zone_api cloud_env demo_who ''t'' ''prod'' ''A.com.'' ''cloudflare'' demo_empty_dns [] =
   (Inr (demo_zone\<lparr>zn_provider_id := None\<rparr>, [zone_event ''dns.zone.created'' ''a.com'' ''cloudflare'' ''t'' ''prod''], demo_registered), [])"
  by code_simp

section \<open>The properties\<close>

text \<open>C16: Whatever zones are registered, imported and unregistered, whatever changes are queued,
  attempted and filter_given up and whatever statuses arrive late, no two zones of a tenant and environment
  share a name, no two records of a zone share type and name, every record belongs to a registered
  zone and carries its tenant and environment, and every job is pending, succeeded or failed, completed
  exactly when it is not pending and never marked as started.\<close>

theorem reachable_dns_ok: "dns_reach env db \<Longrightarrow> dns_ok db"
proof (induction rule: dns_reach.induct)
  case (start n)
  show ?case by (simp add: dns_ok_def zones_ok_def records_ok_def change_jobs_ok_def)
next
  case (status_write db j db0 s r j' db1 s')
  then have "change_job_ok j" by (auto simp: dns_ok_def change_jobs_ok_def)
  then have "change_job_ok j'" using dispatch_change_job_ok[OF status_write.hyps(3)] by blast
  with status_write.IH show ?case by (rule land_job_ok)
next
  case (register db who t e n p s z ev db' s')
  from ensuresD[OF create_zone_api_ok[OF register.IH] register.hyps(2)] show ?case by simp
next
  case (import_step db who p t e ns s zs ev db' s')
  show ?case by (rule import_provider_zones_ok[OF import_step.IH import_step.hyps(2)])
next
  case (unregister db who i n ev db')
  show ?case by (rule unregister_zone_ok[OF unregister.hyps(2) unregister.IH])
next
  case (upsert db who b a j ev db')
  show ?case by (rule batch_upsert_ok[OF upsert.hyps(2) upsert.IH])
next
  case (delete db who b a j ev db')
  show ?case by (rule batch_delete_ok[OF delete.hyps(2) delete.IH])
next
  case (sync db who t e n rec s r j db' s')
  show ?case by (rule sync_zone_ok[OF sync.hyps(2) sync.IH])
next
  case (upsert_try db j k s db' s')
  show ?case using upsert_attempt_ok[OF upsert_try.hyps(2) upsert_try.IH] by simp
next
  case (delete_try db j k s db' s')
  show ?case using delete_attempt_ok[OF delete_try.hyps(2) delete_try.IH] by simp
qed

lemma reachable_dns_ok_witness: "dns_ok demo_registered"
proof -
  have "dns_reach cloud_env demo_empty_dns" unfolding demo_empty_dns_def by (rule dns_reach.start)
  then have "dns_reach cloud_env demo_registered" by (rule dns_reach.register[OF _ demo_register])
  then show ?thesis by (rule reachable_dns_ok)
qed

text \<open>C10: An upsert job ends in one of two ways, however many attempts the provider or the database
  made fail: it succeeds and the table holds the last entry for every type and name it asks for, all
  other records as before, or it fails, no record has changed, and the job keeps an error text of at
  most 2000 characters in which nothing that looks like a token is left.\<close>

theorem upsert_job_outcome:
  assumes "dns_ok db" "de_vault env = Inr ()" "0 < de_max_attempts env"
    and "run_upsert_job env j db s = (r, j', db', s')"
  shows "r = Inr () \<and>
    (jb_status j' = ''succeeded'' \<and>
       (\<exists>z. get_zone_by_name (jb_tenant j) (jb_env j) (jb_zone j) db = Some z \<and>
         stored_changes z (jb_records j) db db')
     \<or> jb_status j' = ''failed'' \<and> db' = db \<and>
       (\<exists>e. jb_error j' = Some e \<and> length e \<le> 2000 \<and> tokenless e))"
proof -
  obtain ok msg j1 db1 s1 where a: "job_attempts (upsert_attempt env j) (de_commit env)
      [1..<Suc (de_max_attempts env)] None j db s = (ok, msg, j1, db1, s1)"
    by (metis prod_cases5)
  have fin: "finish_job (ok, msg, j1, db1, s1) = (r, j', db', s')"
    using assms(2,4) a by (simp add: run_upsert_job_def)
  note o = job_attempts_outcome[OF a]
  show ?thesis
  proof (cases ok)
    case True
    with o obtain k s0 where k: "upsert_attempt env j k db s0 = (Inr db1, s1)" and st: "jb_status j1 = ''succeeded''" by auto
    from k obtain z ad s2 where z: "get_zone_by_name (jb_tenant j) (jb_env j) (jb_zone j) db = Some z"
      and u: "upsert_changes ad z (jb_records j) db s2 = (Inr db1, s1)"
      by (auto simp: upsert_attempt_def bind_call_Inr split: option.splits)
    from z have "zone_in z db" by (auto dest: get_zone_by_name_in)
    then show ?thesis using fin True st z upsert_changes_stored[OF u assms(1)]
      by (auto simp: finish_job_def)
  next
    case False
    with o assms(3) obtain e where "msg = Some (safe_error e)" "db1 = db" by (auto split: if_splits)
    then show ?thesis using fin False safe_error_ok[of e]
      by (auto simp: finish_job_def update_job_status_def)
  qed
qed

lemma upsert_job_outcome_witness:
  "stored_changes demo_zone [demo_change] (demo_synced None) (demo_synced (Some ''r1''))"
proof -
  have "dns_ok (demo_synced None)" "de_vault cloud_env = Inr ()" "0 < de_max_attempts cloud_env"
    by code_simp+
  from upsert_job_outcome[OF this demo_run] have "\<exists>z. get_zone_by_name ''t'' ''prod'' ''a.com'' (demo_synced None) = Some z \<and>
      stored_changes z [demo_change] (demo_synced None) (demo_synced (Some ''r1''))"
    by (simp add: demo_job_def)
  moreover have "get_zone_by_name ''t'' ''prod'' ''a.com'' (demo_synced None) = Some demo_zone" by code_simp
  ultimately show ?thesis by simp
qed



text \<open>The status of a job whose request has committed first: the runner's verdict stays in the object and
  the row is pending for good.\<close>

lemma late_status_is_lost:
  assumes "run_dispatched env False j db s = (db', s')" "jb_operation j = ''upsert''" "dns_ok db"
  shows "dn_jobs db' = dn_jobs db"
proof -
  obtain r j' db1 s1 where d: "dispatch_change_job env j db s = (r, j', db1, s1)" by (metis prod_cases4)
  then have "db' = db1" using assms(1) by (simp add: run_dispatched_def land_job_def)
  have "dn_jobs db1 = dn_jobs db"
  proof (cases "de_vault env")
    case (Inl e)
    then show ?thesis using d assms(2) by (simp add: dispatch_change_job_def run_upsert_job_def)
  next
    case (Inr u)
    obtain ok msg j2 db2 s2 where a: "job_attempts (upsert_attempt env j) (de_commit env)
      [1..<Suc (de_max_attempts env)] None j db s = (ok, msg, j2, db2, s2)" by (metis prod_cases5)
    have "db1 = db2"
      using d Inr a assms(2) by (auto simp: dispatch_change_job_def run_upsert_job_def finish_job_def split: if_splits option.splits)
    moreover have "dn_jobs db2 = dn_jobs db"
      using job_attempts_outcome[OF a] by (auto split: if_splits dest: upsert_attempt_ok[OF _ assms(3)])
    ultimately show ?thesis by simp
  qed
  then show ?thesis using \<open>db' = db1\<close> by simp
qed

lemma pending_for_good:
  "run_dispatched cloud_env False (demo_job ''pending'' 0 False) (demo_synced None) [] =
     (demo_synced (Some ''r1''), [((''A'', ''www''), ''10.0.0.1'')]) \<and>
   List.map jb_status (dn_jobs (demo_synced (Some ''r1''))) = [''pending'']"
  by code_simp

text \<open>A reconcile job carries no tags, and storing it empties the tags of the records it repairs.\<close>

lemma reconcile_drops_tags:
  assumes "upsert_record z (fix_of r) i db = Inr db'" "dns_ok db" "rd_zone r = zn_id z"
  shows "\<exists>x. get_record (zn_id z) (rd_type r) (rd_name r) db' = Some x \<and> rd_tags x = []"
  using upsert_record_lookup[OF assms(1,2), of "zn_id z" "rd_type r" "rd_name r"]
  by (auto simp: fix_of_def says_def tags_or_empty_def)

end
