(* ===== verification/Monitoring.thy ===== *)
theory Monitoring
  imports "Dns"
begin

text \<open>
  The monitoring agent, \<open>apps/monitoring_agent\<close>: its tables and store (\<open>store/postgres.py\<close>), the state
  machine that turns check results into states and alerts (\<open>engine/alerter.py\<close>), the checks
  (\<open>engine/checker.py\<close>), the import of targets from the registry (\<open>engine/sync.py\<close>), the secret lookup
  (\<open>engine/secrets.py\<close>) and the handlers of \<open>api/checks.py\<close>, \<open>api/targets.py\<close> and \<open>api/status.py\<close>.
  Times are numbers of milliseconds; the clock of the agent and the clock of the database (the default
  of \<open>created_at\<close>) are two arguments.  HTTP answers and the hash are arguments.
\<close>

section \<open>Tables\<close>

record mon_target =
  mt_id :: string
  mt_tenant :: "string option"
  mt_env :: string
  mt_agent :: string
  mt_deployment :: string
  mt_url :: string
  mt_enabled :: bool

record mon_state =
  ms_target :: string
  ms_seen :: "nat option"
  ms_current :: string
  ms_changed :: "nat option"
  ms_failures :: nat
  ms_alerted :: "nat option"
  ms_cooldown :: "nat option"

record probe_result =
  pb_health_ok :: bool
  pb_ready_ok :: bool
  pb_health_status :: "int option"
  pb_ready_status :: "int option"
  pb_capabilities :: "string option"
  pb_error :: "string option"
  pb_detail :: "string option"

record mon_check =
  mc_id :: nat
  mc_target :: string
  mc_correlation :: string
  mc_started :: nat
  mc_ended :: nat
  mc_latency_ms :: nat
  mc_result :: probe_result

record mon_audit =
  ma_correlation :: string
  ma_tenant :: "string option"
  ma_env :: string
  ma_action :: string
  ma_target :: "string option"
  ma_result :: string
  ma_detail :: "string option"
  ma_created :: nat

record mon_db =
  md_targets :: "mon_target list"
  md_states :: "mon_state list"
  md_checks :: "mon_check list"
  md_audit :: "mon_audit list"
  md_next :: nat

section \<open>The store\<close>

text \<open>A filter that is applied unless it is \<open>None\<close>, and one that is applied when it is truthy.\<close>

definition wanted :: "string option \<Rightarrow> string option \<Rightarrow> bool" where
  "wanted filter_value stored = (case filter_value of None \<Rightarrow> True | Some v \<Rightarrow> stored = Some v)"

definition named :: "string option \<Rightarrow> string option \<Rightarrow> bool" where
  "named filter_value stored = (case filter_value of Some (c # s) \<Rightarrow> stored = Some (c # s) | _ \<Rightarrow> True)"

text \<open>The clause \<open>MonitoringTarget.enabled is True\<close> compares the column object itself.\<close>

definition get_targets :: "string option \<Rightarrow> string option \<Rightarrow> mon_db \<Rightarrow> mon_target list" where
  "get_targets tenant env db = select_all (\<lambda>t. column_is_True (mt_enabled t) \<and> wanted tenant (mt_tenant t)
     \<and> named env (Some (mt_env t))) (md_targets db)"

definition fresh_state :: "string \<Rightarrow> nat option \<Rightarrow> mon_state" where
  "fresh_state tid seen = \<lparr>ms_target = tid, ms_seen = seen, ms_current = ''UP'', ms_changed = None, ms_failures = 0,
     ms_alerted = None, ms_cooldown = None\<rparr>"

definition get_target_state :: "string \<Rightarrow> mon_db \<Rightarrow> mon_state option" where
  "get_target_state tid db = table_look ms_target (md_states db) tid"

definition ensure_state :: "nat \<Rightarrow> string \<Rightarrow> mon_db \<Rightarrow> mon_db" where
  "ensure_state now tid db = (case get_target_state tid db of
     Some st \<Rightarrow> db
   | None \<Rightarrow> db\<lparr>md_states := insert_row (fresh_state tid (Some now)) (md_states db)\<rparr>)"

text \<open>\<open>upsert_target\<close> on a row that is to be stored: a new target is enabled and has its state made
  with it, an old one keeps the flag.\<close>

definition upsert_target :: "nat \<Rightarrow> mon_target \<Rightarrow> mon_db \<Rightarrow> mon_db" where
  "upsert_target now t db = (case table_look mt_id (md_targets db) (mt_id t) of
     None \<Rightarrow> db\<lparr>md_targets := insert_row (t\<lparr>mt_enabled := True\<rparr>) (md_targets db),
                md_states := insert_row (fresh_state (mt_id t) (Some now)) (md_states db)\<rparr>
   | Some old \<Rightarrow> ensure_state now (mt_id t)
       (db\<lparr>md_targets := table_update mt_id (mt_id t) (\<lambda>_. t\<lparr>mt_enabled := mt_enabled old\<rparr>) (md_targets db)\<rparr>))"

definition mon_log_audit :: "nat \<Rightarrow> string \<Rightarrow> string option \<Rightarrow> string \<Rightarrow> string \<Rightarrow> string \<Rightarrow> string option \<Rightarrow>
    string option \<Rightarrow> mon_db \<Rightarrow> mon_db" where
  "mon_log_audit db_now corr tenant env action result target detail db =
     db\<lparr>md_audit := insert_row \<lparr>ma_correlation = corr, ma_tenant = tenant, ma_env = env, ma_action = action,
        ma_target = target, ma_result = result, ma_detail = detail, ma_created = db_now\<rparr> (md_audit db)\<rparr>"

section \<open>The alerter\<close>

definition COOLDOWN_MINUTES :: nat where
  "COOLDOWN_MINUTES = 15"

definition cooldown_ms :: nat where
  "cooldown_ms = 60 * 1000 * COOLDOWN_MINUTES"

text \<open>The first step: the state after a check, and whether it differs from the one before.\<close>

definition failures_after :: "bool \<Rightarrow> nat \<Rightarrow> nat" where
  "failures_after ok n = (if ok then 0 else Suc n)"

definition state_after :: "bool \<Rightarrow> nat \<Rightarrow> string" where
  "state_after ok n = (if ok then ''UP'' else if failures_after ok n \<ge> 3 then ''DOWN'' else ''DEGRADED'')"

definition py_detail :: "string option \<Rightarrow> string" where
  "py_detail d = (case d of None \<Rightarrow> ''None'' | Some s \<Rightarrow> s)"

text \<open>The second step: severity and reason of the alert, if one is due.\<close>

definition alert_due :: "nat \<Rightarrow> mon_target \<Rightarrow> mon_state \<Rightarrow> string \<Rightarrow> string option \<Rightarrow> (string \<times> string) option" where
  "alert_due now t st new_state detail =
     (if new_state \<noteq> ms_current st then
        (if new_state = ''DOWN'' then
           Some (''critical'', ''Target '' @ mt_agent t @ '' is DOWN. Error: '' @ py_detail detail)
         else if new_state = ''DEGRADED'' then
           Some (''error'', ''Target '' @ mt_agent t @ '' is DEGRADED. Error: '' @ py_detail detail)
         else Some (''info'', ''Target '' @ mt_agent t @ '' has RECOVERED and is now UP.''))
      else if new_state = ''DOWN'' \<and> (case ms_cooldown st of None \<Rightarrow> True | Some c \<Rightarrow> now \<ge> c) then
        Some (''critical'', ''Target '' @ mt_agent t @ '' is STILL DOWN. Error: '' @ py_detail detail)
      else None)"

definition checked_state :: "nat \<Rightarrow> bool \<Rightarrow> bool \<Rightarrow> mon_state \<Rightarrow> mon_state" where
  "checked_state now ok alerted st =
     (let new_state = state_after ok (ms_failures st) in
      st\<lparr>ms_seen := Some now,
         ms_failures := failures_after ok (ms_failures st),
         ms_changed := (if new_state \<noteq> ms_current st then Some now else ms_changed st),
         ms_current := new_state,
         ms_alerted := (if alerted then Some now else ms_alerted st),
         ms_cooldown := (if alerted then (if new_state \<in> {''DOWN'', ''DEGRADED''} then Some (now + cooldown_ms) else None)
                         else ms_cooldown st)\<rparr>)"

text \<open>\<open>evaluate_and_alert\<close>: the next state, the audit rows in their order (action, result, detail) and
  the alert to dispatch.\<close>

definition evaluate_and_alert :: "nat \<Rightarrow> mon_target \<Rightarrow> mon_state \<Rightarrow> bool \<Rightarrow> string option \<Rightarrow>
    mon_state \<times> (string \<times> string \<times> string) list \<times> (string \<times> string) option" where
  "evaluate_and_alert now t st ok detail =
     (let new_state = state_after ok (ms_failures st); alert = alert_due now t st new_state detail in
      (checked_state now ok (alert \<noteq> None) st,
       (if new_state \<noteq> ms_current st then [(''state_change'', new_state, ms_current st @ '' -> '' @ new_state)] else [])
        @ (case alert of Some (_, reason) \<Rightarrow> [(''alert_dispatched'', ''success'', reason)] | None \<Rightarrow> []),
       alert))"

text \<open>The lookup of a secret at the vault: the list, then the read of the entries under the alias until
  one can be read.\<close>

fun read_first :: "(json \<Rightarrow> (int \<times> json res) res) \<Rightarrow> string \<Rightarrow> json list \<Rightarrow> json res" where
  "read_first read_secret alias [] = Inr JNull"
| "read_first read_secret alias (s # ss) = (case s of
     JObj d \<Rightarrow>
       (if dget d ''alias'' JNull = JStr alias then
          bind_res (read_secret (dget d ''id'' JNull)) (\<lambda>(status, body).
            if status = 200 then bind_res body (\<lambda>data. case data of
                JObj v \<Rightarrow> Inr (dget v ''value'' JNull)
              | _ \<Rightarrow> Inl (PyError ''AttributeError'' ''get''))
            else read_first read_secret alias ss)
        else read_first read_secret alias ss)
   | _ \<Rightarrow> Inl (PyError ''AttributeError'' ''get''))"

definition mon_get_secret :: "(int \<times> json res) res \<Rightarrow> (json \<Rightarrow> (int \<times> json res) res) \<Rightarrow> string \<Rightarrow> json" where
  "mon_get_secret listing read_secret alias =
     (case bind_res listing (\<lambda>(status, body). if status = 200 then
         bind_res body (\<lambda>secrets. case secrets of
             JList ss \<Rightarrow> read_first read_secret alias ss
           | JObj d \<Rightarrow> (if d = [] then Inr JNull else Inl (PyError ''AttributeError'' ''get''))
           | JStr s \<Rightarrow> (if s = [] then Inr JNull else Inl (PyError ''AttributeError'' ''get''))
           | _ \<Rightarrow> Inl (PyError ''TypeError'' ''not iterable''))
       else Inr JNull) of
      Inl e \<Rightarrow> JNull | Inr v \<Rightarrow> v)"

definition tenant_or_nexus :: "string option \<Rightarrow> string" where
  "tenant_or_nexus t = (case t of Some (c # s) \<Rightarrow> c # s | _ \<Rightarrow> ''nexus'')"

definition alert_payload :: "nat \<Rightarrow> mon_target \<Rightarrow> string \<Rightarrow> string \<Rightarrow> string \<Rightarrow> dict" where
  "alert_payload now t severity message corr =
     [(''tenant_id'', JStr (tenant_or_nexus (mt_tenant t))), (''env'', JStr (mt_env t)),
      (''channels'', JList [JStr ''telegram'']), (''severity'', JStr severity),
      (''body'', JStr (''[MONITORING] '' @ message @ [CHR 0x0A] @ ''Agent: '' @ mt_agent t @ [CHR 0x0A] @ ''URL: '' @ mt_url t
         @ [CHR 0x0A] @ ''Env: '' @ mt_env t @ [CHR 0x0A] @ ''Tenant: '' @ py_detail (mt_tenant t))),
      (''idempotency_key'', JStr (''monitor-alert-'' @ mt_id t @ ''-'' @ digits_of (now div 1000))),
      (''correlation_id'', JStr corr)]"

definition alert_headers :: "string \<Rightarrow> json \<Rightarrow> (string \<times> json) list" where
  "alert_headers corr token =
     [(''X-Service-ID'', JStr ''monitoring-agent''), (''X-Correlation-ID'', JStr corr), (''Content-Type'', JStr ''application/json'')]
     @ (if truthy token then [(''X-Agent-Key'', token)] else [])"

section \<open>Checks\<close>

datatype probe_answer = PTimeout | PRequestError string | POtherError string | PResponse int "json res"

definition base64_run_char :: "char \<Rightarrow> bool" where
  "base64_run_char c = (let n = of_char c :: nat in
     (48 \<le> n \<and> n \<le> 57) \<or> (65 \<le> n \<and> n \<le> 90) \<or> (97 \<le> n \<and> n \<le> 122) \<or> n = 43 \<or> n = 47 \<or> n = 61)"

definition safe_detail :: "string \<Rightarrow> string" where
  "safe_detail s = take 250 (redact_runs base64_run_char s)"

definition no_probe :: probe_result where
  "no_probe = \<lparr>pb_health_ok = False, pb_ready_ok = False, pb_health_status = None, pb_ready_status = None,
     pb_capabilities = None, pb_error = None, pb_detail = None\<rparr>"

text \<open>What an exception leaves of the results so far.\<close>

definition probe_failed :: "probe_answer \<Rightarrow> probe_result \<Rightarrow> probe_result" where
  "probe_failed a p = (case a of
     PTimeout \<Rightarrow> p\<lparr>pb_error := Some ''timeout'', pb_detail := Some ''Request timed out after 5.0s''\<rparr>
   | PRequestError m \<Rightarrow> p\<lparr>pb_error := Some ''connection_error'', pb_detail := Some (safe_detail m)\<rparr>
   | POtherError m \<Rightarrow> p\<lparr>pb_error := Some ''internal_error'', pb_detail := Some (take 250 m)\<rparr>
   | PResponse _ _ \<Rightarrow> p)"

definition health_seen :: "int \<Rightarrow> probe_result \<Rightarrow> probe_result" where
  "health_seen status p = (if status = 200 then p\<lparr>pb_health_status := Some status, pb_health_ok := True\<rparr>
     else p\<lparr>pb_health_status := Some status, pb_error := Some ''healthz_failed'', pb_detail := Some (''HTTP '' @ str_int status)\<rparr>)"

definition ready_seen :: "int \<Rightarrow> probe_result \<Rightarrow> probe_result" where
  "ready_seen status p = (if status = 200 then p\<lparr>pb_ready_status := Some status, pb_ready_ok := True\<rparr>
     else if pb_error p = None then
       p\<lparr>pb_ready_status := Some status, pb_error := Some ''readyz_failed'', pb_detail := Some (''HTTP '' @ str_int status)\<rparr>
     else p\<lparr>pb_ready_status := Some status\<rparr>)"

definition capabilities_seen :: "(string \<Rightarrow> string) \<Rightarrow> int \<Rightarrow> json res \<Rightarrow> probe_result \<Rightarrow> probe_result" where
  "capabilities_seen sha256 status body p = (if status \<noteq> 200 then p else (case body of
     Inl e \<Rightarrow> p | Inr j \<Rightarrow> p\<lparr>pb_capabilities := Some (sha256 (dumps_sorted j))\<rparr>))"

definition execute_http_check :: "(string \<Rightarrow> string) \<Rightarrow> (string \<Rightarrow> probe_answer) \<Rightarrow> mon_target \<Rightarrow> probe_result" where
  "execute_http_check sha256 http t =
     (case http (mt_url t @ ''/healthz'') of
        PResponse h _ \<Rightarrow>
          (let p1 = health_seen h no_probe in
           case http (mt_url t @ ''/readyz'') of
             PResponse r _ \<Rightarrow>
               (let p2 = ready_seen r p1 in
                case http (mt_url t @ ''/capabilities'') of
                  PResponse c body \<Rightarrow> capabilities_seen sha256 c body p2
                | a \<Rightarrow> probe_failed a p2)
           | a \<Rightarrow> probe_failed a p1)
      | a \<Rightarrow> probe_failed a no_probe)"

definition add_audits :: "nat \<Rightarrow> string \<Rightarrow> mon_target \<Rightarrow> (string \<times> string \<times> string) list \<Rightarrow> mon_db \<Rightarrow> mon_db" where
  "add_audits db_now corr t rows db = fold (\<lambda>(action, result, detail) d.
     mon_log_audit db_now corr (mt_tenant t) (mt_env t) action result (Some (mt_id t)) (Some detail) d) rows db"

definition check_ok :: "probe_result \<Rightarrow> bool" where
  "check_ok p = (pb_health_ok p \<and> pb_ready_ok p)"

definition state_or_new :: "string \<Rightarrow> mon_db \<Rightarrow> mon_state \<times> mon_db" where
  "state_or_new tid db = (case get_target_state tid db of
     Some st \<Rightarrow> (st, db)
   | None \<Rightarrow> (fresh_state tid None, db\<lparr>md_states := insert_row (fresh_state tid None) (md_states db)\<rparr>))"

text \<open>\<open>_process_check_result\<close> with the time of the evaluation; the third component is the alert.\<close>

definition process_check_result :: "nat \<Rightarrow> nat \<Rightarrow> string \<Rightarrow> mon_target \<Rightarrow> nat \<times> nat \<Rightarrow> probe_result \<Rightarrow> mon_db \<Rightarrow>
    bool \<times> mon_db \<times> (string \<times> string) option" where
  "process_check_result now db_now corr t span p db =
     (let c = \<lparr>mc_id = md_next db, mc_target = mt_id t, mc_correlation = corr, mc_started = fst span, mc_ended = snd span,
            mc_latency_ms = snd span - fst span, mc_result = p\<rparr>;
          db1 = db\<lparr>md_checks := insert_row c (md_checks db), md_next := Suc (md_next db)\<rparr> in
      case state_or_new (mt_id t) db1 of (st, db2) \<Rightarrow>
        (case evaluate_and_alert now t st (check_ok p) (pb_detail p) of (st', rows, alert) \<Rightarrow>
          (check_ok p,
           add_audits db_now corr t rows (db2\<lparr>md_states := table_update ms_target (mt_id t) (\<lambda>_. st') (md_states db2)\<rparr>),
           alert)))"

text \<open>The loop over the results: one time of evaluation and one span for each.\<close>

fun process_all :: "nat \<Rightarrow> string \<Rightarrow> (mon_target \<times> nat \<times> (nat \<times> nat) \<times> probe_result) list \<Rightarrow> nat \<Rightarrow> mon_db \<Rightarrow>
    (mon_target \<times> string \<times> string) list \<Rightarrow> nat \<times> mon_db \<times> (mon_target \<times> string \<times> string) list" where
  "process_all db_now corr [] good db alerts = (good, db, alerts)"
| "process_all db_now corr ((t, now, span, p) # rest) good db alerts =
     (case process_check_result now db_now corr t span p db of (ok, db', a) \<Rightarrow>
        process_all db_now corr rest (if ok then Suc good else good) db'
          (alerts @ (case a of None \<Rightarrow> [] | Some x \<Rightarrow> [(t, x)])))"

record check_summary =
  cs_total :: nat
  cs_success :: nat
  cs_failed :: nat

definition run_checks :: "(string \<Rightarrow> string) \<Rightarrow> (string \<Rightarrow> probe_answer) \<Rightarrow> (mon_target \<Rightarrow> nat \<times> (nat \<times> nat)) \<Rightarrow> nat \<Rightarrow>
    string \<Rightarrow> string option \<Rightarrow> string option \<Rightarrow> mon_db \<Rightarrow> check_summary \<times> mon_db \<times> (mon_target \<times> string \<times> string) list" where
  "run_checks sha256 http clock db_now corr tenant env db =
     (let targets = get_targets tenant env db in
      if targets = [] then (\<lparr>cs_total = 0, cs_success = 0, cs_failed = 0\<rparr>, db, [])
      else (case process_all db_now corr
            (List.map (\<lambda>t. (t, fst (clock t), snd (clock t), execute_http_check sha256 http t)) targets) 0 db [] of
        (good, db', alerts) \<Rightarrow>
          (\<lparr>cs_total = length targets, cs_success = good, cs_failed = length targets - good\<rparr>, db', alerts)))"

section \<open>Targets from the registry\<close>

text \<open>Keys of a Python dictionary: \<open>True\<close> and \<open>1\<close> are one key.\<close>

definition json_key :: "json \<Rightarrow> json" where
  "json_key j = (case j of JBool b \<Rightarrow> JInt (if b then 1 else 0) | _ \<Rightarrow> j)"

definition hashed :: "json \<Rightarrow> json res" where
  "hashed j = (if hashable j then Inr (json_key j) else Inl (PyError ''TypeError'' ''unhashable type''))"

definition agent_names :: "(int \<times> json res) res \<Rightarrow> (json \<times> json) list res" where
  "agent_names answer = bind_res answer (\<lambda>(status, body).
     if status = 200 then
       bind_res body (\<lambda>j. bind_res (py_iterate j) (map_res (\<lambda>a.
         bind_res (py_item ''id'' a) (\<lambda>i. bind_res (py_item ''name'' a) (\<lambda>n.
         bind_res (hashed i) (\<lambda>k. Inr (k, n)))))))
     else Inr [])"

definition first_look :: "json \<Rightarrow> unit res" where
  "first_look d = bind_res (py_item ''id'' d) (\<lambda>_. bind_res (py_get ''tenant_id'' JNull d) (\<lambda>_. Inr ()))"

record raw_target =
  rt_id :: json
  rt_tenant :: json
  rt_env :: json
  rt_agent :: json
  rt_url :: json

definition raw_of :: "(json \<times> json) list \<Rightarrow> json \<Rightarrow> raw_target res" where
  "raw_of names d =
     bind_res (py_item ''agent_id'' d) (\<lambda>a. bind_res (hashed a) (\<lambda>k.
     bind_res (py_item ''id'' d) (\<lambda>i. bind_res (py_get ''tenant_id'' JNull d) (\<lambda>tn.
     bind_res (py_get ''env'' (JStr ''prod'') d) (\<lambda>e. bind_res (py_item ''base_url'' d) (\<lambda>u.
       Inr \<lparr>rt_id = i, rt_tenant = tn, rt_env = e,
         rt_agent = (case map_of (rev names) k of Some n \<Rightarrow> n | None \<Rightarrow> JStr ''unknown-agent''), rt_url = u\<rparr>))))))"

definition row_of :: "raw_target \<Rightarrow> mon_target res" where
  "row_of r =
     bind_res (text_col (rt_id r)) (\<lambda>i. bind_res (nullable text_col (rt_tenant r)) (\<lambda>tn.
     bind_res (text_col (rt_env r)) (\<lambda>e. bind_res (text_col (rt_agent r)) (\<lambda>a.
     bind_res (text_col (rt_url r)) (\<lambda>u.
       Inr \<lparr>mt_id = i, mt_tenant = tn, mt_env = e, mt_agent = a, mt_deployment = i, mt_url = u, mt_enabled = True\<rparr>)))))"

text \<open>An exception of the loop; a failed flush leaves a session on which nothing can be written.\<close>

datatype sync_error = SyncException exn | SessionBroken

definition sync_one :: "nat \<Rightarrow> (json \<times> json) list \<Rightarrow> json \<Rightarrow> mon_db \<Rightarrow> sync_error + mon_db" where
  "sync_one now names d db = (case raw_of names d of
     Inl e \<Rightarrow> Inl (SyncException e)
   | Inr r \<Rightarrow>
       (if (case rt_id r of JStr _ \<Rightarrow> False | JNull \<Rightarrow> False | _ \<Rightarrow> True)
        then Inl (SyncException (PyError ''DBAPIError'' ''expected str''))
        else (case row_of r of Inl e \<Rightarrow> Inl SessionBroken | Inr t \<Rightarrow> Inr (upsert_target now t db))))"

fun sync_rows :: "nat \<Rightarrow> (json \<times> json) list \<Rightarrow> json list \<Rightarrow> mon_db \<Rightarrow> sync_error option \<times> mon_db" where
  "sync_rows now names [] db = (None, db)"
| "sync_rows now names (d # ds) db = (case sync_one now names d db of
     Inl e \<Rightarrow> (Some e, db) | Inr db' \<Rightarrow> sync_rows now names ds db')"

text \<open>What the two requests give: an answer that is not 200 to the first one ends the import.\<close>

definition registry_answers :: "(int \<times> json res) res \<Rightarrow> (int \<times> json res) res \<Rightarrow>
    (int + (json list \<times> (json \<times> json) list)) res" where
  "registry_answers deployments agents = bind_res deployments (\<lambda>(status, body).
     if status \<noteq> 200 then Inr (Inl status)
     else bind_res body (\<lambda>j. bind_res (py_iterate j) (\<lambda>ds. bind_res (map_res first_look ds) (\<lambda>_.
          bind_res (agent_names agents) (\<lambda>names. Inr (Inr (ds, names)))))))"

text \<open>\<open>sync_from_registry\<close> on the answers to its two requests: the result, the state of the session and
  whether it was committed.\<close>

definition sync_from_registry :: "nat \<Rightarrow> nat \<Rightarrow> string \<Rightarrow> (int \<times> json res) res \<Rightarrow> (int \<times> json res) res \<Rightarrow> mon_db \<Rightarrow>
    nat res \<times> mon_db \<times> bool" where
  "sync_from_registry now db_now corr deployments agents db =
     (let audit = (\<lambda>result detail. mon_log_audit db_now corr None ''prod'' ''sync_registry'' result None (Some detail)) in
      case registry_answers deployments agents of
        Inl e \<Rightarrow> (Inr 0, audit ''error'' (exn_text e) db, False)
      | Inr (Inl status) \<Rightarrow> (Inr 0, audit ''failed'' (''HTTP '' @ str_int status) db, False)
      | Inr (Inr (ds, names)) \<Rightarrow> (case sync_rows now names ds db of
            (None, db') \<Rightarrow> (Inr (length ds),
               audit ''success'' (''Synced '' @ digits_of (length ds) @ '' deployments'') db', True)
          | (Some (SyncException e), db') \<Rightarrow> (Inr 0, audit ''error'' (exn_text e) db', False)
          | (Some SessionBroken, db') \<Rightarrow> (Inl poisoned_session, db', False)))"

section \<open>Handlers\<close>

text \<open>The session of a request is closed at its end: what was not committed is gone.\<close>

definition trigger_sync :: "nat \<Rightarrow> nat \<Rightarrow> string \<Rightarrow> (int \<times> json res) res \<Rightarrow> (int \<times> json res) res \<Rightarrow> mon_db \<Rightarrow>
    nat res \<times> mon_db" where
  "trigger_sync now db_now corr deployments agents db =
     (case sync_from_registry now db_now corr deployments agents db of
        (r, db', committed) \<Rightarrow> (r, if committed then db' else db))"

definition list_targets :: "string option \<Rightarrow> string option \<Rightarrow> mon_db \<Rightarrow> mon_target list" where
  "list_targets tenant env db = get_targets tenant env db"

definition current_status :: "string option \<Rightarrow> string option \<Rightarrow> mon_db \<Rightarrow> (mon_target \<times> mon_state) list" where
  "current_status tenant env db =
     select_all (\<lambda>(t, s). mt_id t = ms_target s \<and> named tenant (mt_tenant t) \<and> named env (Some (mt_env t)))
       (List.product (md_targets db) (md_states db))"

definition limit_rows :: "int \<Rightarrow> int \<Rightarrow> 'a list \<Rightarrow> 'a list res" where
  "limit_rows most limit xs =
     (if limit > most then Inl (HTTPException 422 ''limit'')
      else if limit < 0 then Inl (PyError ''DBAPIError'' ''LIMIT must not be negative'')
      else Inr (take (nat limit) xs))"

definition check_history :: "string option \<Rightarrow> string option \<Rightarrow> string option \<Rightarrow> int \<Rightarrow> mon_db \<Rightarrow>
    (mon_check \<times> mon_target) list res" where
  "check_history tenant env agent limit db =
     limit_rows 200 limit (sort_key (\<lambda>(c, t). - int (mc_started c))
       (select_all (\<lambda>(c, t). mc_target c = mt_id t \<and> named tenant (mt_tenant t) \<and> named env (Some (mt_env t))
            \<and> named agent (Some (mt_agent t)))
          (List.product (md_checks db) (md_targets db))))"

definition list_incidents :: "string option \<Rightarrow> string option \<Rightarrow> int \<Rightarrow> mon_db \<Rightarrow> mon_audit list res" where
  "list_incidents tenant env limit db =
     limit_rows 100 limit (sort_key (\<lambda>e. - int (ma_created e))
       (select_all (\<lambda>e. ma_action e \<in> {''state_change'', ''alert_dispatched''} \<and> named tenant (ma_tenant e)
            \<and> named env (Some (ma_env e))) (md_audit db)))"

end
