(* ===== verification/MonitoringReach.thy ===== *)
theory MonitoringReach
  imports Monitoring
begin

text \<open>
  What the monitoring agent keeps true: the state of a target is the verdict over its recorded checks,
  repeated alerts keep their distance, an import of the registry is all or nothing, a probe succeeds
  only when both endpoints do, and no check is ever made of an imported target.
\<close>

interpretation targets_table: keyed_table mt_id "table_look mt_id" insert_row "table_update mt_id"
  by (rule keyed_table_rows)

interpretation states_table: keyed_table ms_target "table_look ms_target" insert_row "table_update ms_target"
  by (rule keyed_table_rows)

section \<open>States and histories\<close>

definition verdict :: "nat \<Rightarrow> string" where
  "verdict n = (if n = 0 then ''UP'' else if n < 3 then ''DEGRADED'' else ''DOWN'')"

definition trailing_failures :: "bool list \<Rightarrow> nat" where
  "trailing_failures oks = length (takeWhile (\<lambda>ok. \<not> ok) (rev oks))"

definition outcomes :: "string \<Rightarrow> mon_db \<Rightarrow> bool list" where
  "outcomes tid db = List.map (\<lambda>c. check_ok (mc_result c)) (filter (\<lambda>c. mc_target c = tid) (md_checks db))"

lemma trailing_simps [simp]:
  "trailing_failures [] = 0"
  "trailing_failures (oks @ [ok]) = failures_after ok (trailing_failures oks)"
  by (simp_all add: trailing_failures_def failures_after_def)

lemma state_after_verdict: "state_after ok n = verdict (failures_after ok n)"
  by (simp add: state_after_def verdict_def failures_after_def)

definition state_agrees :: "mon_db \<Rightarrow> string \<Rightarrow> bool" where
  "state_agrees db tid = (case get_target_state tid db of
     Some st \<Rightarrow> ms_failures st = trailing_failures (outcomes tid db) \<and> ms_current st = verdict (ms_failures st)
   | None \<Rightarrow> outcomes tid db = [])"

text \<open>The clock of the last evaluation, and the alerts sent so far with their targets and times.\<close>

definition alerts_agree :: "nat \<Rightarrow> (string \<times> nat) list \<Rightarrow> mon_db \<Rightarrow> string \<Rightarrow> bool" where
  "alerts_agree clock sent db tid = (case get_target_state tid db of
     Some st \<Rightarrow> (\<forall>\<tau>. (tid, \<tau>) \<in> set sent \<longrightarrow> \<tau> \<le> clock \<and>
        (ms_current st \<noteq> ''UP'' \<longrightarrow> (\<exists>until. ms_cooldown st = Some until \<and> \<tau> + cooldown_ms \<le> until)))
   | None \<Rightarrow> (\<forall>\<tau>. (tid, \<tau>) \<notin> set sent))"

lemma audits_keep [simp]:
  "md_targets (add_audits n corr t rows db) = md_targets db"
  "md_states (add_audits n corr t rows db) = md_states db"
  "md_checks (add_audits n corr t rows db) = md_checks db"
  by (induction rows arbitrary: db) (auto simp: add_audits_def mon_log_audit_def)

lemma state_or_new_cases:
  assumes "state_or_new tid db = (st, db')"
  shows "get_target_state tid db' = Some st" "md_checks db' = md_checks db" "md_targets db' = md_targets db"
    "st = (case get_target_state tid db of Some s \<Rightarrow> s | None \<Rightarrow> fresh_state tid None)"
    "tid' \<noteq> tid \<Longrightarrow> get_target_state tid' db' = get_target_state tid' db"
  using assms
  by (auto simp: state_or_new_def get_target_state_def states_table.look_ins fresh_state_def split: option.splits)

lemma evaluate_state: "fst (evaluate_and_alert now t st ok detail) =
    checked_state now ok (alert_due now t st (state_after ok (ms_failures st)) detail \<noteq> None) st"
  "snd (snd (evaluate_and_alert now t st ok detail)) = alert_due now t st (state_after ok (ms_failures st)) detail"
  by (simp_all add: evaluate_and_alert_def Let_def)

lemma checked_fields [simp]:
  "ms_target (checked_state now ok a st) = ms_target st"
  "ms_failures (checked_state now ok a st) = failures_after ok (ms_failures st)"
  "ms_current (checked_state now ok a st) = state_after ok (ms_failures st)"
  by (simp_all add: checked_state_def Let_def)

lemma process_cases:
  assumes "process_check_result now db_now corr t span p db = (ok, db', a)"
  obtains st where "st = (case get_target_state (mt_id t) db of Some s \<Rightarrow> s | None \<Rightarrow> fresh_state (mt_id t) None)"
    "ok = check_ok p" "a = alert_due now t st (state_after ok (ms_failures st)) (pb_detail p)"
    "get_target_state (mt_id t) db' = Some (checked_state now ok (a \<noteq> None) st)"
    "\<And>tid. tid \<noteq> mt_id t \<Longrightarrow> get_target_state tid db' = get_target_state tid db"
    "\<And>tid. outcomes tid db' = outcomes tid db @ (if tid = mt_id t then [ok] else [])"
    "md_targets db' = md_targets db"
proof -
  let ?db1 = "db\<lparr>md_checks := insert_row \<lparr>mc_id = md_next db, mc_target = mt_id t, mc_correlation = corr,
    mc_started = fst span, mc_ended = snd span, mc_latency_ms = snd span - fst span, mc_result = p\<rparr> (md_checks db),
    md_next := Suc (md_next db)\<rparr>"
  obtain st db2 where s: "state_or_new (mt_id t) ?db1 = (st, db2)" by fastforce
  obtain st' rows alert where e: "evaluate_and_alert now t st (check_ok p) (pb_detail p) = (st', rows, alert)"
    by (cases "evaluate_and_alert now t st (check_ok p) (pb_detail p)") auto
  have r: "ok = check_ok p" "a = alert"
    "db' = add_audits db_now corr t rows (db2\<lparr>md_states := table_update ms_target (mt_id t) (\<lambda>_. st') (md_states db2)\<rparr>)"
    using assms s e by (auto simp: process_check_result_def Let_def)
  note c = state_or_new_cases[OF s]
  have st': "st' = checked_state now ok (a \<noteq> None) st"
    "a = alert_due now t st (state_after ok (ms_failures st)) (pb_detail p)"
    using evaluate_state[of now t st "check_ok p" "pb_detail p"] e r by simp_all
  have key: "ms_target st = mt_id t" using c(1) by (auto simp: get_target_state_def dest: states_table.look_key)
  have upd: "table_look ms_target (table_update ms_target (mt_id t) (\<lambda>_. st') (md_states db2)) k =
      (if k = mt_id t then Some st' else table_look ms_target (md_states db2) k)" for k
    using c(1) key by (subst look_replace) (auto simp: get_target_state_def st')
  show ?thesis
  proof (rule that[of st])
    show "st = (case get_target_state (mt_id t) db of Some s \<Rightarrow> s | None \<Rightarrow> fresh_state (mt_id t) None)"
      using c(4) by (simp add: get_target_state_def)
    show "get_target_state (mt_id t) db' = Some (checked_state now ok (a \<noteq> None) st)"
      using upd r(3) st'(1) by (simp add: get_target_state_def)
    show "get_target_state tid db' = get_target_state tid db" if "tid \<noteq> mt_id t" for tid
      using upd r(3) c(5)[OF that] that by (simp add: get_target_state_def)
    show "outcomes tid db' = outcomes tid db @ (if tid = mt_id t then [ok] else [])" for tid
      using r c(2) by (auto simp: outcomes_def insert_row_def)
  qed (use r c(3) st'(2) in auto)
qed

section \<open>The import\<close>

definition row_read :: "(json \<times> json) list \<Rightarrow> json \<Rightarrow> mon_target \<Rightarrow> bool" where
  "row_read names d t = (bind_res (raw_of names d) row_of = Inr t)"

lemma sync_rows_upserts:
  "sync_rows now names ds db = (None, db') \<Longrightarrow>
     \<exists>rows. list_all2 (row_read names) ds rows \<and> db' = fold (upsert_target now) rows db"
proof (induction ds arbitrary: db)
  case (Cons d ds)
  then obtain db1 where one: "sync_one now names d db = Inr db1" and rest: "sync_rows now names ds db1 = (None, db')"
    by (auto split: sum.splits)
  from one obtain t where t: "row_read names d t" "db1 = upsert_target now t db"
    by (auto simp: sync_one_def row_read_def split: sum.splits if_splits)
  from Cons.IH[OF rest] obtain rows where "list_all2 (row_read names) ds rows" "db' = fold (upsert_target now) rows db1"
    by blast
  with t show ?case by (intro exI[of _ "t # rows"]) simp
qed simp

lemma row_of_id: "row_of r = Inr t \<Longrightarrow> \<exists>i. rt_id r = JStr i"
  by (cases "rt_id r") (auto simp: row_of_def text_col_def)

lemma row_read_one:
  assumes "row_read names d t"
  shows "sync_one now names d db = Inr (upsert_target now t db)"
proof -
  obtain r where r: "raw_of names d = Inr r" "row_of r = Inr t"
    using assms unfolding row_read_def bind_res_Inr by blast
  obtain i where "rt_id r = JStr i" using row_of_id[OF r(2)] by blast
  with r show ?thesis by (simp add: sync_one_def)
qed

lemma sync_rows_all:
  "list_all2 (row_read names) ds rows \<Longrightarrow> sync_rows now names ds db = (None, fold (upsert_target now) rows db)"
  by (induction arbitrary: db rule: list_all2_induct) (auto simp: row_read_one)

lemma row_read_looked: "row_read names d t \<Longrightarrow> first_look d = Inr ()"
  by (auto simp: row_read_def raw_of_def first_look_def bind_res_Inr)

definition newest_row :: "string \<Rightarrow> mon_target list \<Rightarrow> mon_target option" where
  "newest_row i rows = List.find (\<lambda>t. mt_id t = i) (rev rows)"

lemma newest_row_simps [simp]:
  "newest_row i [] = None"
  "newest_row i (rows @ [t]) = (if mt_id t = i then Some t else newest_row i rows)"
  by (simp_all add: newest_row_def)

definition kept_flag :: "mon_target option \<Rightarrow> bool" where
  "kept_flag old = (case old of None \<Rightarrow> True | Some o' \<Rightarrow> mt_enabled o')"

lemma upsert_look:
  "table_look mt_id (md_targets (upsert_target now t db)) i =
     (if i = mt_id t then Some (t\<lparr>mt_enabled := kept_flag (table_look mt_id (md_targets db) i)\<rparr>)
      else table_look mt_id (md_targets db) i)"
proof (cases "table_look mt_id (md_targets db) (mt_id t)")
  case None
  then show ?thesis by (simp add: upsert_target_def targets_table.look_ins kept_flag_def)
next
  case (Some old)
  have "md_targets (upsert_target now t db) = table_update mt_id (mt_id t) (\<lambda>_. t\<lparr>mt_enabled := mt_enabled old\<rparr>) (md_targets db)"
    using Some by (simp add: upsert_target_def ensure_state_def split: option.splits)
  then show ?thesis
    using Some targets_table.look_key[OF Some]
    by (simp only: look_replace[of mt_id, OF refl] mon_target.simps) (auto simp: look_replace kept_flag_def)
qed

lemma upsert_state:
  "get_target_state i (upsert_target now t db) =
     (case get_target_state i db of
        Some s \<Rightarrow> Some s
      | None \<Rightarrow> if i = mt_id t then Some (fresh_state i (Some now)) else None)"
  by (auto simp: upsert_target_def ensure_state_def get_target_state_def table_look_def fresh_state_def
      split: option.splits)

lemma upsert_checks [simp]: "md_checks (upsert_target now t db) = md_checks db"
  by (simp add: upsert_target_def ensure_state_def split: option.splits)

lemma imported_target:
  "table_look mt_id (md_targets (fold (upsert_target now) rows db)) i =
     (case newest_row i rows of
        None \<Rightarrow> table_look mt_id (md_targets db) i
      | Some t \<Rightarrow> Some (t\<lparr>mt_enabled := kept_flag (table_look mt_id (md_targets db) i)\<rparr>))"
  by (induction rows rule: rev_induct) (auto simp: upsert_look kept_flag_def split: option.splits)

lemma imported_state:
  "get_target_state i (fold (upsert_target now) rows db) =
     (case get_target_state i db of
        Some s \<Rightarrow> Some s
      | None \<Rightarrow> if newest_row i rows \<noteq> None then Some (fresh_state i (Some now)) else None)"
  by (induction rows rule: rev_induct) (auto simp: upsert_state split: option.splits)

lemma imported_checks [simp]: "md_checks (fold (upsert_target now) rows db) = md_checks db"
  by (induction rows rule: rev_induct) auto

lemma trigger_sync_cases:
  assumes "trigger_sync now db_now corr deps ags db = (r, db')"
  obtains "db' = db" "r = Inr 0 \<or> r = Inl poisoned_session"
  | ds names rows body j where "deps = Inr (200, body)" "body = Inr j" "py_iterate j = Inr ds"
      "agent_names ags = Inr names" "list_all2 (row_read names) ds rows" "r = Inr (length ds)"
      "db' = mon_log_audit db_now corr None ''prod'' ''sync_registry'' ''success'' None
         (Some (''Synced '' @ digits_of (length ds) @ '' deployments'')) (fold (upsert_target now) rows db)"
proof -
  let ?got = "registry_answers deps ags"
  show ?thesis
  proof (cases "\<exists>ds names db1. ?got = Inr (Inr (ds, names)) \<and> sync_rows now names ds db = (None, db1)")
    case True
    then obtain ds names db1 where g: "?got = Inr (Inr (ds, names))" and s: "sync_rows now names ds db = (None, db1)"
      by blast
    from sync_rows_upserts[OF s] obtain rows where rows: "list_all2 (row_read names) ds rows"
      "db1 = fold (upsert_target now) rows db" by blast
    from g obtain j where "deps = Inr (200, Inr j)" "py_iterate j = Inr ds" "agent_names ags = Inr names"
      by (auto simp: registry_answers_def bind_res_Inr split: if_splits)
    with g s rows assms show ?thesis
      by (intro that(2)[of "Inr j" j ds names rows])
        (auto simp: trigger_sync_def sync_from_registry_def Let_def)
  next
    case False
    with assms show ?thesis
      by (intro that(1))
        (auto simp: trigger_sync_def sync_from_registry_def Let_def
          split: sum.splits prod.splits option.splits sync_error.splits)
  qed
qed

section \<open>Reachable states\<close>

definition empty_mon :: mon_db where
  "empty_mon = \<lparr>md_targets = [], md_states = [], md_checks = [], md_audit = [], md_next = 0\<rparr>"

text \<open>Imports, and results of checks of stored targets, in any order; the clock does not run back.\<close>

inductive mon_reach :: "nat \<Rightarrow> (string \<times> nat) list \<Rightarrow> mon_db \<Rightarrow> bool" where
  mr_start: "mon_reach 0 [] empty_mon"
| mr_sync: "mon_reach clock sent db \<Longrightarrow> trigger_sync now db_now corr deps ags db = (r, db') \<Longrightarrow> clock \<le> now \<Longrightarrow>
    mon_reach now sent db'"
| mr_check: "mon_reach clock sent db \<Longrightarrow> t \<in> set (md_targets db) \<Longrightarrow> clock \<le> now \<Longrightarrow>
    process_check_result now db_now corr t span p db = (ok, db', a) \<Longrightarrow>
    mon_reach now (sent @ (if a = None then [] else [(mt_id t, now)])) db'"

lemma sync_agrees:
  assumes "trigger_sync now db_now corr deps ags db = (r, db')" "clock \<le> now"
    and "state_agrees db tid" "alerts_agree clock sent db tid"
  shows "state_agrees db' tid \<and> alerts_agree now sent db' tid"
proof (rule trigger_sync_cases[OF assms(1)], goal_cases)
  case 1
  with assms(2-4) show ?thesis by (fastforce simp: alerts_agree_def split: option.splits)
next
  case (2 ds names rows body j)
  have st: "get_target_state tid db' = get_target_state tid (fold (upsert_target now) rows db)"
    and ou: "outcomes tid db' = outcomes tid db"
    using 2 by (simp_all add: get_target_state_def outcomes_def mon_log_audit_def)
  have "state_agrees db' tid"
    using assms(3) unfolding state_agrees_def st ou imported_state
    by (auto simp: fresh_state_def verdict_def split: option.splits)
  moreover have "alerts_agree now sent db' tid"
    using assms(2,4) unfolding alerts_agree_def st imported_state
    by (fastforce split: option.splits)
  ultimately show ?thesis by blast
qed

lemma alert_due_change: "state_after ok (ms_failures st) \<noteq> ms_current st \<Longrightarrow>
    alert_due now t st (state_after ok (ms_failures st)) detail \<noteq> None"
  by (simp add: alert_due_def)

lemma alert_due_repeat:
  assumes "alert_due now t st s detail = Some a" "s = ms_current st"
  shows "s = ''DOWN''" "ms_cooldown st = Some until \<Longrightarrow> until \<le> now"
  using assms by (auto simp: alert_due_def split: if_splits option.splits)

lemma checks_agree:
  assumes p: "process_check_result now db_now corr t span p db = (ok, db', a)" and le: "clock \<le> now"
    and ag: "state_agrees db tid" "alerts_agree clock sent db tid"
  shows "state_agrees db' tid \<and> alerts_agree now (sent @ (if a = None then [] else [(mt_id t, now)])) db' tid"
proof (rule process_cases[OF p])
  fix st
  assume st: "st = (case get_target_state (mt_id t) db of Some s \<Rightarrow> s | None \<Rightarrow> fresh_state (mt_id t) None)"
    and a: "a = alert_due now t st (state_after ok (ms_failures st)) (pb_detail p)"
    and new: "get_target_state (mt_id t) db' = Some (checked_state now ok (a \<noteq> None) st)"
    and old: "\<And>tid. tid \<noteq> mt_id t \<Longrightarrow> get_target_state tid db' = get_target_state tid db"
    and ou: "\<And>tid. outcomes tid db' = outcomes tid db @ (if tid = mt_id t then [ok] else [])"
  show ?thesis
  proof (cases "tid = mt_id t")
    case False
    then have "state_agrees db' tid" using ag(1) old[OF False] ou[of tid] by (simp add: state_agrees_def split: option.splits)
    moreover have "alerts_agree now (sent @ (if a = None then [] else [(mt_id t, now)])) db' tid"
      using ag(2) le old[OF False] False by (fastforce simp: alerts_agree_def split: option.splits)
    ultimately show ?thesis by blast
  next
    case True
    have f: "ms_failures st = trailing_failures (outcomes tid db) \<and> ms_current st = verdict (ms_failures st)"
      using ag(1) True st by (auto simp: state_agrees_def fresh_state_def verdict_def split: option.splits)
    then have "state_agrees db' tid"
      using new ou True by (simp add: state_agrees_def state_after_verdict)
    moreover have sent: "\<tau> \<le> clock \<and> (ms_current st \<noteq> ''UP'' \<longrightarrow>
        (\<exists>until. ms_cooldown st = Some until \<and> \<tau> + cooldown_ms \<le> until))" if "(tid, \<tau>) \<in> set sent" for \<tau>
      using ag(2) True st that by (auto simp: alerts_agree_def split: option.splits)
    have "alerts_agree now (sent @ (if a = None then [] else [(mt_id t, now)])) db' tid"
    proof (cases a)
      case None
      then have same: "state_after ok (ms_failures st) = ms_current st" using a alert_due_change by metis
      with None show ?thesis
        using new True sent le unfolding alerts_agree_def
        by (fastforce simp: checked_state_def Let_def)
    next
      case (Some x)
      have "state_after ok (ms_failures st) \<noteq> ''UP'' \<longrightarrow> state_after ok (ms_failures st) \<in> {''DOWN'', ''DEGRADED''}"
        by (simp add: state_after_def)
      then show ?thesis
        using new True sent le Some unfolding alerts_agree_def
        by (fastforce simp: checked_state_def Let_def)
    qed
    ultimately show ?thesis by blast
  qed
qed

lemma mon_reach_agrees:
  "mon_reach clock sent db \<Longrightarrow> state_agrees db tid \<and> alerts_agree clock sent db tid"
proof (induction rule: mon_reach.induct)
  case mr_start
  then show ?case by (simp add: state_agrees_def alerts_agree_def empty_mon_def get_target_state_def table_look_def outcomes_def)
next
  case (mr_sync clock sent db now db_now corr deps ags r db')
  then show ?case using sync_agrees by blast
next
  case (mr_check clock sent db t now db_now corr span p ok db' a)
  then show ?case using checks_agree by blast
qed

text \<open>The select of \<open>get_targets\<close> compares the column object with \<open>True\<close>, so a run of checks finds no target.\<close>

lemma no_target_checked:
  "run_checks sha256 http clock db_now corr tenant env db = (\<lparr>cs_total = 0, cs_success = 0, cs_failed = 0\<rparr>, db, [])"
  by (simp add: run_checks_def get_targets_def select_all_def)

lemma import_stores:
  assumes "trigger_sync now db_now corr (Inr (200, Inr j)) ags db = (r, db')"
    and "py_iterate j = Inr ds" "agent_names ags = Inr names" and rows: "list_all2 (row_read names) ds rows"
  shows "r = Inr (length ds)"
    and "table_look mt_id (md_targets db') i = (case newest_row i rows of
        None \<Rightarrow> table_look mt_id (md_targets db) i
      | Some t \<Rightarrow> Some (t\<lparr>mt_enabled := kept_flag (table_look mt_id (md_targets db) i)\<rparr>))"
    and "get_target_state i db' = (case get_target_state i db of
        Some s \<Rightarrow> Some s | None \<Rightarrow> if newest_row i rows \<noteq> None then Some (fresh_state i (Some now)) else None)"
    and "md_checks db' = md_checks db"
proof -
  have look: "map_res first_look ds = Inr (List.map (\<lambda>_. ()) ds)"
    using rows by (intro map_res_all) (auto simp: list_all2_conv_all_nth in_set_conv_nth dest!: row_read_looked)
  have all: "sync_rows now names ds db = (None, fold (upsert_target now) rows db)"
    using rows by (rule sync_rows_all)
  have out: "r = Inr (length ds)" "db' = mon_log_audit db_now corr None ''prod'' ''sync_registry'' ''success'' None
         (Some (''Synced '' @ digits_of (length ds) @ '' deployments'')) (fold (upsert_target now) rows db)"
    using assms look all by (auto simp: trigger_sync_def sync_from_registry_def registry_answers_def Let_def)
  show "r = Inr (length ds)" by (fact out)
  show "md_checks db' = md_checks db" by (simp add: out mon_log_audit_def)
  show "table_look mt_id (md_targets db') i = (case newest_row i rows of
      None \<Rightarrow> table_look mt_id (md_targets db) i
    | Some t \<Rightarrow> Some (t\<lparr>mt_enabled := kept_flag (table_look mt_id (md_targets db) i)\<rparr>))"
    by (simp add: out mon_log_audit_def imported_target)
  show "get_target_state i db' = (case get_target_state i db of
      Some s \<Rightarrow> Some s | None \<Rightarrow> if newest_row i rows \<noteq> None then Some (fresh_state i (Some now)) else None)"
    using imported_state[of i now rows db] by (simp add: out mon_log_audit_def get_target_state_def)
qed

section \<open>Properties\<close>

text \<open>C35: After any sequence of imports and processed check results, the stored state of a target is the
  verdict over its recorded checks: the failure counter is the number of failed checks since the last good
  one, and the state is UP for none, DEGRADED for one or two and DOWN from three on.\<close>

theorem state_is_verdict_of_history:
  assumes "mon_reach clock sent db" "get_target_state tid db = Some st"
  shows "ms_failures st = trailing_failures (outcomes tid db) \<and> ms_current st = verdict (trailing_failures (outcomes tid db))"
  using mon_reach_agrees[OF assms(1), of tid] assms(2) by (simp add: state_agrees_def)

text \<open>An alert that repeats a state comes only while the target is DOWN and at least fifteen minutes
  after every earlier alert of that target.\<close>

theorem repeated_alert_distance:
  assumes "mon_reach clock sent db" "clock \<le> now" "get_target_state (mt_id t) db = Some st"
    and "process_check_result now db_now corr t span p db = (ok, db', Some a)"
    and "get_target_state (mt_id t) db' = Some st'" "ms_current st' = ms_current st"
    and "(mt_id t, \<tau>) \<in> set sent"
  shows "ms_current st' = ''DOWN'' \<and> \<tau> + 15 * 60 * 1000 \<le> now"
proof (rule process_cases[OF assms(4)])
  fix s
  assume s: "s = (case get_target_state (mt_id t) db of Some s \<Rightarrow> s | None \<Rightarrow> fresh_state (mt_id t) None)"
    and a: "Some a = alert_due now t s (state_after ok (ms_failures s)) (pb_detail p)"
    and new: "get_target_state (mt_id t) db' = Some (checked_state now ok (Some a \<noteq> None) s)"
  have ss: "s = st" "ms_current st' = state_after ok (ms_failures st)" using s assms(3,5) new by auto
  then have "ms_current st' = ''DOWN''" and cool: "\<And>until. ms_cooldown st = Some until \<Longrightarrow> until \<le> now"
    using alert_due_repeat[OF a[symmetric]] assms(6) by auto
  moreover obtain until where "ms_cooldown st = Some until" "\<tau> + cooldown_ms \<le> until"
    using mon_reach_agrees[OF assms(1), of "mt_id t"] assms(3,6,7) calculation(1) by (auto simp: alerts_agree_def)
  ultimately show ?thesis by (fastforce simp: cooldown_ms_def COOLDOWN_MINUTES_def)
qed

text \<open>An import of the registry is all or nothing.  When both requests are answered and every deployment
  can be read into a row, each target holds the fields of the newest deployment under its identifier with its
  old enabled flag (a new one is enabled), every imported target has a state, a state that was there is kept,
  and no other target changes; when one deployment cannot be read, nothing is stored and the request
  reports 0 or fails.\<close>

theorem registry_import:
  assumes "trigger_sync now db_now corr (Inr (200, Inr j)) ags db = (r, db')"
    and "py_iterate j = Inr ds" "agent_names ags = Inr names"
  shows "(\<forall>rows. list_all2 (row_read names) ds rows \<longrightarrow> r = Inr (length ds)
           \<and> (\<forall>i. table_look mt_id (md_targets db') i = (case newest_row i rows of
                None \<Rightarrow> table_look mt_id (md_targets db) i
              | Some t \<Rightarrow> Some (t\<lparr>mt_enabled := kept_flag (table_look mt_id (md_targets db) i)\<rparr>)))
           \<and> (\<forall>i. get_target_state i db' = (case get_target_state i db of
                Some s \<Rightarrow> Some s
              | None \<Rightarrow> if newest_row i rows \<noteq> None then Some (fresh_state i (Some now)) else None))
           \<and> md_checks db' = md_checks db)
       \<and> ((\<nexists>rows. list_all2 (row_read names) ds rows) \<longrightarrow> db' = db \<and> (r = Inr 0 \<or> r = Inl poisoned_session))"
proof (intro conjI allI impI)
  fix rows i assume rows: "list_all2 (row_read names) ds rows"
  note stored = import_stores[OF assms rows]
  show "r = Inr (length ds)" "md_checks db' = md_checks db" by (fact stored)+
  show "table_look mt_id (md_targets db') i = (case newest_row i rows of
      None \<Rightarrow> table_look mt_id (md_targets db) i
    | Some t \<Rightarrow> Some (t\<lparr>mt_enabled := kept_flag (table_look mt_id (md_targets db) i)\<rparr>))" by (fact stored)
  show "get_target_state i db' = (case get_target_state i db of
      Some s \<Rightarrow> Some s | None \<Rightarrow> if newest_row i rows \<noteq> None then Some (fresh_state i (Some now)) else None)"
    by (fact stored)
next
  assume none: "\<nexists>rows. list_all2 (row_read names) ds rows"
  show "db' = db" "r = Inr 0 \<or> r = Inl poisoned_session"
    by (rule trigger_sync_cases[OF assms(1)]; use assms none in auto)+
qed

text \<open>A probe counts as good exactly when both \<open>/healthz\<close> and \<open>/readyz\<close> answer 200; a bad one names its
  error, a good one only when the capabilities could not be fetched, and the detail of a connection error
  has at most 250 characters and no run of 32 or more characters of a key.\<close>

theorem probe_outcome:
  assumes "execute_http_check sha256 http t = p"
  shows "(check_ok p \<longleftrightarrow> (\<exists>b b'. http (mt_url t @ ''/healthz'') = PResponse 200 b \<and> http (mt_url t @ ''/readyz'') = PResponse 200 b'))
       \<and> (\<not> check_ok p \<longrightarrow> pb_error p \<noteq> None)
       \<and> (check_ok p \<and> pb_error p \<noteq> None \<longrightarrow> (\<forall>n b. http (mt_url t @ ''/capabilities'') \<noteq> PResponse n b))
       \<and> (pb_error p = Some ''connection_error'' \<longrightarrow>
            (\<exists>d. pb_detail p = Some d \<and> length d \<le> 250 \<and> runless base64_run_char d))"
  unfolding assms[symmetric] execute_http_check_def
  by (cases "http (mt_url t @ ''/healthz'')"; cases "http (mt_url t @ ''/readyz'')"; cases "http (mt_url t @ ''/capabilities'')")
    (auto simp: check_ok_def probe_failed_def health_seen_def ready_seen_def capabilities_seen_def no_probe_def Let_def
      safe_detail_def runless_take redact_runs_runless split: sum.splits)

section \<open>Witnesses\<close>

definition demo_deployments :: json where
  "demo_deployments = JList [JObj [(''id'', JStr ''d1''), (''agent_id'', JStr ''a1''), (''base_url'', JStr ''http://x'')]]"

definition demo_agents :: json where
  "demo_agents = JList [JObj [(''id'', JStr ''a1''), (''name'', JStr ''dns-agent'')]]"

definition demo_imported :: mon_db where
  "demo_imported = snd (trigger_sync 5 5 ''c'' (Inr (200, Inr demo_deployments)) (Inr (200, Inr demo_agents)) empty_mon)"

definition demo_target :: mon_target where
  "demo_target = \<lparr>mt_id = ''d1'', mt_tenant = None, mt_env = ''prod'', mt_agent = ''dns-agent'', mt_deployment = ''d1'',
     mt_url = ''http://x'', mt_enabled = True\<rparr>"

definition demo_failed :: "nat \<Rightarrow> mon_db \<Rightarrow> bool \<times> mon_db \<times> (string \<times> string) option" where
  "demo_failed now db = process_check_result now now ''c'' demo_target (now, now) (probe_failed PTimeout no_probe) db"

definition demo_down :: mon_db where
  "demo_down = fst (snd (demo_failed 30 (fst (snd (demo_failed 20 (fst (snd (demo_failed 10 demo_imported))))))))"

lemma demo_step:
  assumes "mon_reach clock sent db" "clock \<le> now" "demo_target \<in> set (md_targets db)"
  shows "mon_reach now (sent @ (if snd (snd (demo_failed now db)) = None then [] else [(''d1'', now)])) (fst (snd (demo_failed now db)))
    \<and> demo_target \<in> set (md_targets (fst (snd (demo_failed now db))))"
proof -
  obtain ok db' a where f: "demo_failed now db = (ok, db', a)" by (cases "demo_failed now db") auto
  note p = f[unfolded demo_failed_def]
  have "mon_reach now (sent @ (if a = None then [] else [(mt_id demo_target, now)])) db'"
    by (rule mr_check[OF assms(1) assms(3) assms(2) p])
  moreover have "md_targets db' = md_targets db" using process_cases[OF p] by metis
  moreover have "mt_id demo_target = ''d1''" by (simp add: demo_target_def)
  ultimately show ?thesis using f assms(3) by (cases a) simp_all
qed

lemma demo_imported_reach: "mon_reach 5 [] demo_imported \<and> demo_target \<in> set (md_targets demo_imported)"
proof
  show "mon_reach 5 [] demo_imported"
    unfolding demo_imported_def by (rule mr_sync[OF mr_start surjective_pairing]) simp
  show "demo_target \<in> set (md_targets demo_imported)" by code_simp
qed

lemma demo_imported_eq: "demo_imported = \<lparr>md_targets = [demo_target], md_states = [fresh_state ''d1'' (Some 5)], md_checks = [],
    md_audit = [\<lparr>ma_correlation = ''c'', ma_tenant = None, ma_env = ''prod'', ma_action = ''sync_registry'', ma_target = None,
      ma_result = ''success'', ma_detail = Some ''Synced 1 deployments'', ma_created = 5\<rparr>], md_next = 0\<rparr>"
  by code_simp

lemmas demo_eval = demo_failed_def process_check_result_def state_or_new_def get_target_state_def table_look_def
  insert_row_def table_update_def update_rows_def evaluate_and_alert_def alert_due_def checked_state_def state_after_def
  failures_after_def check_ok_def probe_failed_def no_probe_def demo_target_def fresh_state_def Let_def select_first_def

lemmas demo_down_eval = demo_down_def demo_imported_eq demo_eval COOLDOWN_MINUTES_def cooldown_ms_def

lemma demo_alerts:
  "snd (snd (demo_failed 10 demo_imported)) \<noteq> None"
  "snd (snd (demo_failed 20 (fst (snd (demo_failed 10 demo_imported))))) = None"
  "snd (snd (demo_failed 30 (fst (snd (demo_failed 20 (fst (snd (demo_failed 10 demo_imported)))))))) \<noteq> None"
  by (simp_all add: demo_down_eval)

lemma demo_down_reach: "mon_reach 30 [(''d1'', 10), (''d1'', 30)] demo_down"
proof -
  let ?d1 = "fst (snd (demo_failed 10 demo_imported))"
  let ?d2 = "fst (snd (demo_failed 20 ?d1))"
  have 1: "mon_reach 10 [(''d1'', 10)] ?d1 \<and> demo_target \<in> set (md_targets ?d1)"
    using demo_step[of 5 "[]" demo_imported 10] demo_imported_reach demo_alerts(1) by simp
  then have 2: "mon_reach 20 [(''d1'', 10)] ?d2 \<and> demo_target \<in> set (md_targets ?d2)"
    using demo_step[of 10 _ ?d1 20] demo_alerts(2) by fastforce
  show ?thesis using demo_step[of 20 "[(''d1'', 10)]" ?d2 30] 2 demo_alerts(3) by (simp add: demo_down_def)
qed

lemma demo_down_state:
  "get_target_state ''d1'' demo_down = Some \<lparr>ms_target = ''d1'', ms_seen = Some 30, ms_current = ''DOWN'', ms_changed = Some 30,
     ms_failures = 3, ms_alerted = Some 30, ms_cooldown = Some 900030\<rparr>"
  "outcomes ''d1'' demo_down = [False, False, False]"
  by (simp_all add: demo_down_eval outcomes_def)

theorem state_is_verdict_of_history_witness:
  "ms_failures (the (get_target_state ''d1'' demo_down)) = 3 \<and> verdict 3 = ''DOWN''
     \<and> ms_current (the (get_target_state ''d1'' demo_down)) = verdict 3"
  using state_is_verdict_of_history[OF demo_down_reach demo_down_state(1)] demo_down_state
  by (simp add: verdict_def)

lemma down_again:
  "\<exists>a db' st'. demo_failed 900030 demo_down = (False, db', Some a) \<and> get_target_state ''d1'' db' = Some st' \<and> ms_current st' = ''DOWN''"
  by (simp add: demo_down_eval)

theorem repeated_alert_distance_witness:
  "\<exists>a db'. demo_failed 900030 demo_down = (False, db', Some a) \<and> 30 + 15 * 60 * 1000 \<le> (900030 :: nat)"
proof -
  obtain a db' st' where again: "demo_failed 900030 demo_down = (False, db', Some a)"
      "get_target_state ''d1'' db' = Some st'" "ms_current st' = ''DOWN''" using down_again by blast
  have i: "mt_id demo_target = ''d1''" by (simp add: demo_target_def)
  have "ms_current st' = ''DOWN'' \<and> 30 + 15 * 60 * 1000 \<le> (900030 :: nat)"
    by (rule repeated_alert_distance[OF demo_down_reach _ _ again(1)[unfolded demo_failed_def], unfolded i, OF _ demo_down_state(1) again(2)])
      (use again(3) in simp_all)
  with again(1) show ?thesis by blast
qed

theorem registry_import_witness:
  "fst (trigger_sync 5 5 ''c'' (Inr (200, Inr demo_deployments)) (Inr (200, Inr demo_agents)) empty_mon) = Inr 1"
proof -
  have "list_all2 (row_read [(JStr ''a1'', JStr ''dns-agent'')])
      [JObj [(''id'', JStr ''d1''), (''agent_id'', JStr ''a1''), (''base_url'', JStr ''http://x'')]] [demo_target]"
    by code_simp
  moreover have "py_iterate demo_deployments = Inr [JObj [(''id'', JStr ''d1''), (''agent_id'', JStr ''a1''), (''base_url'', JStr ''http://x'')]]"
    "agent_names (Inr (200, Inr demo_agents)) = Inr [(JStr ''a1'', JStr ''dns-agent'')]" by code_simp+
  ultimately show ?thesis
    using registry_import[OF surjective_pairing, of demo_deployments _ "Inr (200, Inr demo_agents)"] by fastforce
qed

theorem probe_outcome_witness:
  "\<exists>d. pb_detail (execute_http_check (\<lambda>s. s) (\<lambda>_. PRequestError (replicate 40 CHR ''A'')) demo_target) = Some d
     \<and> length d \<le> 250 \<and> runless base64_run_char d"
  using probe_outcome[of "\<lambda>s. s" "\<lambda>_. PRequestError (replicate 40 CHR ''A'')" demo_target, OF refl]
  by (simp add: execute_http_check_def probe_failed_def no_probe_def)

end
