(* ===== verification/ServerProvider.thy ===== *)
theory ServerProvider
  imports "Dns"
begin

text \<open>
  The provider side of the server agent: the records and the interface of
  \<open>apps/server_agent/adapters/base.py\<close> as far as the job worker calls it, the adapters of
  \<open>adapters/vultr.py\<close> and \<open>adapters/proxmox.py\<close>, and the choice of an adapter of \<open>adapters/factory.py\<close>.
  The HTTP client is an argument that takes the state of the provider to an outcome and its next state;
  Python's \<open>str\<close> of a list or dictionary is an argument as well.
\<close>

section \<open>The interface\<close>

record instance_meta =
  im_id :: json
  im_label :: json
  im_hostname :: json
  im_os :: json
  im_plan :: json
  im_region :: json
  im_ip_v4 :: json
  im_ip_v6 :: json
  im_status :: json
  im_power :: json
  im_vcpu :: json
  im_ram :: json
  im_disk :: json
  im_tags :: json

record create_spec =
  cs_label :: json
  cs_hostname :: json
  cs_region :: json
  cs_plan :: json
  cs_os :: json
  cs_keys :: json
  cs_tags :: json

record snapshot_meta =
  sm_id :: json
  sm_name :: json

record backup_meta =
  bm_id :: json
  bm_type :: string

record schedule_spec =
  sc_type :: json
  sc_hour :: json
  sc_dow :: json
  sc_dom :: json

record 's server_adapter =
  sa_list :: "(instance_meta list, 's) call"
  sa_create :: "create_spec \<Rightarrow> (instance_meta, 's) call"
  sa_delete :: "json \<Rightarrow> (unit, 's) call"
  sa_power :: "string \<Rightarrow> json \<Rightarrow> (unit, 's) call"
  sa_rebuild :: "json \<Rightarrow> json \<Rightarrow> (unit, 's) call"
  sa_create_snapshot :: "json \<Rightarrow> json \<Rightarrow> (snapshot_meta, 's) call"
  sa_delete_snapshot :: "json \<Rightarrow> (unit, 's) call"
  sa_restore_snapshot :: "json \<Rightarrow> json \<Rightarrow> (unit, 's) call"
  sa_create_backup :: "json \<Rightarrow> (backup_meta, 's) call"
  sa_restore_backup :: "json \<Rightarrow> json \<Rightarrow> (unit, 's) call"
  sa_set_schedule :: "json \<Rightarrow> schedule_spec \<Rightarrow> (unit, 's) call"
  sa_disable_backups :: "json \<Rightarrow> (unit, 's) call"

section \<open>HTTP\<close>

record server_request =
  sq_method :: string
  sq_path :: string
  sq_auth :: string
  sq_json :: "dict option"
  sq_form :: dict

type_synonym 's server_http = "server_request \<Rightarrow> 's \<Rightarrow> provider_outcome \<times> 's"

definition sv_exchange :: "'s server_http \<Rightarrow> server_request \<Rightarrow> (provider_response, 's) call" where
  "sv_exchange http q s = (case http q s of
     (POTimeout m, s') \<Rightarrow> (Inl (PyError ''TimeoutException'' m), s')
   | (POFailure e, s') \<Rightarrow> (Inl e, s')
   | (POAnswer r, s') \<Rightarrow> (Inr r, s'))"

definition sv_checked :: "'s server_http \<Rightarrow> server_request \<Rightarrow> (provider_response, 's) call" where
  "sv_checked http q = bind_call (sv_exchange http q) (\<lambda>r. give
     (if pr_status r < 200 \<or> pr_status r \<ge> 300 then Inl (PyError ''HTTPStatusError'' (str_int (pr_status r) @ '' for '' @ sq_path q)) else Inr r))"

definition done_call :: "('a, 's) call \<Rightarrow> (unit, 's) call" where
  "done_call m = bind_call m (\<lambda>_. give (Inr ()))"

definition not_supported :: "string \<Rightarrow> ('a, 's) call" where
  "not_supported m = give (Inl (PyError ''NotImplementedError'' m))"

section \<open>Vultr\<close>

definition vultr_request :: "'s server_http \<Rightarrow> string \<Rightarrow> string \<Rightarrow> string \<Rightarrow> dict option \<Rightarrow> (json, 's) call" where
  "vultr_request http key meth path body =
     bind_call (sv_checked http \<lparr>sq_method = meth, sq_path = path, sq_auth = ''Bearer '' @ key, sq_json = body, sq_form = []\<rparr>)
       (\<lambda>r. give (if pr_status r = 204 \<or> pr_text r = [] then Inr (JObj []) else pr_json r))"

definition parse_vultr :: "json \<Rightarrow> instance_meta res" where
  "parse_vultr raw = bind_res (py_item ''id'' raw) (\<lambda>i. case raw of
     JObj d \<Rightarrow> Inr \<lparr>im_id = i, im_label = dget d ''label'' (JStr []), im_hostname = dget d ''hostname'' (JStr []),
       im_os = dget d ''os'' (JStr []), im_plan = dget d ''plan'' (JStr []), im_region = dget d ''region'' (JStr []),
       im_ip_v4 = dget d ''main_ip'' (JStr []), im_ip_v6 = dget d ''v6_main_ip'' (JStr []),
       im_status = dget d ''status'' (JStr ''pending''), im_power = dget d ''power_status'' (JStr ''off''),
       im_vcpu = dget d ''vcpu_count'' (JInt 0), im_ram = dget d ''ram'' (JInt 0), im_disk = dget d ''disk'' (JInt 0),
       im_tags = dget d ''tags'' (JObj [])\<rparr>
   | _ \<Rightarrow> Inl (PyError ''AttributeError'' ''get''))"

definition vultr_list :: "'s server_http \<Rightarrow> string \<Rightarrow> (instance_meta list, 's) call" where
  "vultr_list http key = bind_call (vultr_request http key ''GET'' ''/v2/instances'' None) (\<lambda>data.
     give (bind_res (py_get ''instances'' (JList []) data) (\<lambda>l. bind_res (py_iterate l) (map_res parse_vultr))))"

definition vultr_get :: "(json \<Rightarrow> string) \<Rightarrow> 's server_http \<Rightarrow> string \<Rightarrow> json \<Rightarrow> (instance_meta, 's) call" where
  "vultr_get show http key pid = bind_call (vultr_request http key ''GET'' (''/v2/instances/'' @ py_str show pid) None) (\<lambda>data.
     give (bind_res (py_item ''instance'' data) parse_vultr))"

text \<open>\<open>int(x) if x.isdigit() else x\<close>: the superscript digits one, two and three count as digits for
  \<open>isdigit\<close> but not for \<open>int\<close>.\<close>

definition digit_like :: "char \<Rightarrow> bool" where
  "digit_like c = (let n = of_char c :: nat in (48 \<le> n \<and> n \<le> 57) \<or> n = 178 \<or> n = 179 \<or> n = 185)"

definition os_number :: "json \<Rightarrow> json res" where
  "os_number j = (case j of
     JStr s \<Rightarrow> if s \<noteq> [] \<and> list_all digit_like s
       then map_sum id JInt (of_opt (PyError ''ValueError'' ''invalid literal for int() with base 10'') (py_int s))
       else Inr (JStr s)
   | _ \<Rightarrow> Inl (PyError ''AttributeError'' ''isdigit''))"

definition tag_keys :: "json \<Rightarrow> json res" where
  "tag_keys j = (if \<not> truthy j then Inr (JList []) else (case j of
     JObj d \<Rightarrow> Inr (JList (List.map (JStr \<circ> fst) d))
   | _ \<Rightarrow> Inl (PyError ''AttributeError'' ''keys'')))"

definition vultr_body :: "create_spec \<Rightarrow> dict res" where
  "vultr_body sp = bind_res (os_number (cs_os sp)) (\<lambda>os. bind_res (tag_keys (cs_tags sp)) (\<lambda>tags.
     Inr (filter (\<lambda>kv. snd kv \<noteq> JNull)
       [(''region'', cs_region sp), (''plan'', cs_plan sp), (''os_id'', os), (''label'', cs_label sp),
        (''hostname'', cs_hostname sp), (''sshkey_id'', if truthy (cs_keys sp) then cs_keys sp else JNull), (''tags'', tags)])))"

definition vultr_create :: "'s server_http \<Rightarrow> string \<Rightarrow> create_spec \<Rightarrow> (instance_meta, 's) call" where
  "vultr_create http key sp = bind_call (give (vultr_body sp)) (\<lambda>body.
     bind_call (vultr_request http key ''POST'' ''/v2/instances'' (Some body)) (\<lambda>data.
       give (bind_res (py_item ''instance'' data) parse_vultr)))"

definition vultr_rebuild :: "(json \<Rightarrow> string) \<Rightarrow> 's server_http \<Rightarrow> string \<Rightarrow> json \<Rightarrow> json \<Rightarrow> (unit, 's) call" where
  "vultr_rebuild show http key pid os = bind_call (give (os_number os)) (\<lambda>n.
     bind_call (vultr_request http key ''POST'' (''/v2/instances/'' @ py_str show pid @ ''/reinstall'') (Some [(''os_id'', n)])) (\<lambda>_.
       done_call (vultr_get show http key pid)))"

definition vultr_power :: "(json \<Rightarrow> string) \<Rightarrow> 's server_http \<Rightarrow> string \<Rightarrow> string \<Rightarrow> json \<Rightarrow> (unit, 's) call" where
  "vultr_power show http key action pid = done_call (vultr_request http key ''POST''
     (''/v2/instances/'' @ py_str show pid @ ''/'' @ (if action = ''stop'' then ''halt'' else action)) None)"

definition vultr_snapshot :: "'s server_http \<Rightarrow> string \<Rightarrow> json \<Rightarrow> json \<Rightarrow> (snapshot_meta, 's) call" where
  "vultr_snapshot http key pid name =
     bind_call (vultr_request http key ''POST'' ''/v2/snapshots'' (Some [(''instance_id'', pid), (''description'', name)])) (\<lambda>data.
       give (bind_res (py_get ''snapshot'' (JObj []) data) (\<lambda>snap. bind_res (py_item ''id'' snap) (\<lambda>i.
         Inr \<lparr>sm_id = i, sm_name = name\<rparr>))))"

definition vultr_restore :: "(json \<Rightarrow> string) \<Rightarrow> 's server_http \<Rightarrow> string \<Rightarrow> string \<Rightarrow> json \<Rightarrow> json \<Rightarrow> (unit, 's) call" where
  "vultr_restore show http key field pid i = done_call (vultr_request http key ''POST''
     (''/v2/instances/'' @ py_str show pid @ ''/restore'') (Some [(field, i)]))"

definition schedule_body :: "schedule_spec \<Rightarrow> dict" where
  "schedule_body sc = [(''type'', sc_type sc), (''hour'', sc_hour sc)]
     @ (if sc_dow sc \<noteq> JNull then [(''dow'', sc_dow sc)] else [])
     @ (if sc_dom sc \<noteq> JNull then [(''dom'', sc_dom sc)] else [])"

text \<open>A backup of Vultr is a snapshot under another name.\<close>

definition vultr_adapter :: "(json \<Rightarrow> string) \<Rightarrow> 's server_http \<Rightarrow> string \<Rightarrow> 's server_adapter" where
  "vultr_adapter show http key =
    \<lparr>sa_list = vultr_list http key,
     sa_create = vultr_create http key,
     sa_delete = (\<lambda>pid. done_call (vultr_request http key ''DELETE'' (''/v2/instances/'' @ py_str show pid) None)),
     sa_power = vultr_power show http key,
     sa_rebuild = vultr_rebuild show http key,
     sa_create_snapshot = vultr_snapshot http key,
     sa_delete_snapshot = (\<lambda>i. done_call (vultr_request http key ''DELETE'' (''/v2/snapshots/'' @ py_str show i) None)),
     sa_restore_snapshot = vultr_restore show http key ''snapshot_id'',
     sa_create_backup = (\<lambda>pid. bind_call (vultr_snapshot http key pid (JStr (''backup-'' @ py_str show pid))) (\<lambda>m.
        give (Inr \<lparr>bm_id = sm_id m, bm_type = ''manual''\<rparr>))),
     sa_restore_backup = vultr_restore show http key ''backup_id'',
     sa_set_schedule = (\<lambda>pid sc. done_call (vultr_request http key ''POST''
        (''/v2/instances/'' @ py_str show pid @ ''/backup-schedule'') (Some (schedule_body sc)))),
     sa_disable_backups = (\<lambda>pid. done_call (vultr_request http key ''PATCH'' (''/v2/instances/'' @ py_str show pid)
        (Some [(''backups'', JStr ''disabled'')])))\<rparr>"

section \<open>Proxmox\<close>

definition OSTYPE_MAP :: "(string \<times> string) list" where
  "OSTYPE_MAP = [(''l26'', ''Linux''), (''l24'', ''Linux (2.4)''), (''win11'', ''Windows 11''), (''win10'', ''Windows 10''),
     (''win8'', ''Windows 8''), (''win7'', ''Windows 7''), (''w2k19'', ''Windows Server 2019''), (''w2k22'', ''Windows Server 2022''),
     (''w2k16'', ''Windows Server 2016''), (''w2k12'', ''Windows Server 2012''), (''w2k8'', ''Windows Server 2008''),
     (''solaris'', ''Solaris''), (''other'', ''Other''), (''wxp'', ''Windows XP''), (''wvista'', ''Windows Vista'')]"

definition os_label :: "json \<Rightarrow> json res" where
  "os_label ostype = (if \<not> hashable ostype then Inl (PyError ''TypeError'' ''unhashable type'')
     else Inr (case ostype of
        JStr s \<Rightarrow> (case map_of OSTYPE_MAP s of Some l \<Rightarrow> JStr l | None \<Rightarrow> if s \<noteq> [] then JStr s else JStr ''Unknown'')
      | _ \<Rightarrow> if truthy ostype then ostype else JStr ''Unknown''))"

record proxmox_config =
  px_base :: string
  px_token :: string
  px_node :: string

definition px_call :: "proxmox_config \<Rightarrow> string \<Rightarrow> string \<Rightarrow> dict \<Rightarrow> server_request" where
  "px_call c meth path form = \<lparr>sq_method = meth, sq_path = px_base c @ path, sq_auth = ''PVEAPIToken='' @ px_token c,
     sq_json = None, sq_form = form\<rparr>"

definition px_request :: "'s server_http \<Rightarrow> proxmox_config \<Rightarrow> string \<Rightarrow> string \<Rightarrow> dict \<Rightarrow> (json, 's) call" where
  "px_request http c meth path form = bind_call (sv_checked http (px_call c meth path form)) (\<lambda>r.
     give (bind_res (pr_json r) (\<lambda>data. py_get ''data'' data data)))"

definition px_path :: "proxmox_config \<Rightarrow> string \<Rightarrow> string" where
  "px_path c rest = ''/api2/json/nodes/'' @ px_node c @ rest"

definition int_of_json :: "json \<Rightarrow> int res" where
  "int_of_json j = (case j of JInt i \<Rightarrow> Inr i | JBool b \<Rightarrow> Inr (if b then 1 else 0)
     | _ \<Rightarrow> Inl (PyError ''TypeError'' ''unsupported operand''))"

definition parse_px :: "(json \<Rightarrow> string) \<Rightarrow> proxmox_config \<Rightarrow> json \<Rightarrow> json \<Rightarrow> json \<Rightarrow> instance_meta res" where
  "parse_px show c raw ip4 ip6 = (case raw of
     JObj d \<Rightarrow>
       bind_res (os_label (dget d ''ostype'' (JStr []))) (\<lambda>os.
       bind_res (int_of_json (dget d ''maxmem'' (JInt 0))) (\<lambda>mem.
       bind_res (int_of_json (dget d ''maxdisk'' (JInt 0))) (\<lambda>disk.
         let status = dget d ''status'' (JStr ''unknown'') in
         Inr \<lparr>im_id = JStr (py_str show (dget d ''vmid'' (JStr []))), im_label = dget d ''name'' (JStr []),
            im_hostname = dget d ''name'' (JStr []), im_os = os,
            im_plan = JStr (py_str show (dget d ''cores'' (JInt 0)) @ ''C/'' @ str_int (mem div 1024 ^ 3) @ ''GB''),
            im_region = JStr (px_node c), im_ip_v4 = ip4, im_ip_v6 = ip6, im_status = status,
            im_power = (if status = JStr ''running'' then JStr ''running'' else JStr ''stopped''),
            im_vcpu = dget d ''cores'' (dget d ''cpus'' (JInt 0)), im_ram = JInt (mem div 1024 ^ 2),
            im_disk = JInt (disk div 1024 ^ 3), im_tags = JObj []\<rparr>)))
   | _ \<Rightarrow> Inl (PyError ''AttributeError'' ''get''))"

text \<open>\<open>_get_vm_ips\<close>: the first address of each family that is neither a loopback nor a link-local one; any
  exception on the way gives up.\<close>

definition startswith :: "string \<Rightarrow> json \<Rightarrow> bool res" where
  "startswith p j = (case j of JStr s \<Rightarrow> Inr (prefix p s) | _ \<Rightarrow> Inl (PyError ''AttributeError'' ''startswith''))"

definition take_address :: "json \<Rightarrow> json \<times> json \<Rightarrow> (json \<times> json) res" where
  "take_address addr ips =
     bind_res (py_get ''ip-address-type'' (JStr []) addr) (\<lambda>atype. bind_res (py_get ''ip-address'' (JStr []) addr) (\<lambda>aip.
       if atype = JStr ''ipv4'' \<and> \<not> truthy (fst ips) then
         bind_res (startswith ''127.'' aip) (\<lambda>lo. Inr (if lo then ips else (aip, snd ips)))
       else if atype = JStr ''ipv6'' \<and> \<not> truthy (snd ips) then
         bind_res (startswith ''fe80'' aip) (\<lambda>ll. Inr (if ll then ips else (fst ips, aip)))
       else Inr ips))"

fun fold_res :: "('a \<Rightarrow> 'b \<Rightarrow> 'b res) \<Rightarrow> 'a list \<Rightarrow> 'b \<Rightarrow> 'b res" where
  "fold_res f [] b = Inr b"
| "fold_res f (x # xs) b = bind_res (f x b) (fold_res f xs)"

definition take_interface :: "json \<Rightarrow> json \<times> json \<Rightarrow> (json \<times> json) res" where
  "take_interface iface ips =
     bind_res (py_get ''name'' JNull iface) (\<lambda>name.
       if name = JStr ''lo'' \<or> name = JStr ''lo0'' then Inr ips
       else bind_res (py_get ''ip-addresses'' (JList []) iface) (\<lambda>l. bind_res (py_iterate l) (\<lambda>addrs. fold_res take_address addrs ips)))"

definition interfaces_of :: "json \<Rightarrow> json list res" where
  "interfaces_of data = (case data of
     JObj d \<Rightarrow> py_iterate (dget d ''result'' (JList []))
   | JList xs \<Rightarrow> Inr xs
   | _ \<Rightarrow> Inr [])"

definition px_ips :: "'s server_http \<Rightarrow> proxmox_config \<Rightarrow> string \<Rightarrow> 's \<Rightarrow> (json \<times> json) \<times> 's" where
  "px_ips http c vmid s =
     (case sv_exchange http (px_call c ''GET'' (px_path c (''/qemu/'' @ vmid @ ''/agent/network-get-interfaces'')) []) s of
        (r, s') \<Rightarrow> ((case bind_res r (\<lambda>r. if pr_status r \<ge> 400 then Inr (JStr [], JStr [])
             else bind_res (pr_json r) (\<lambda>j. bind_res (py_get ''data'' (JObj []) j) (\<lambda>data.
                  bind_res (interfaces_of data) (\<lambda>ifaces. fold_res take_interface ifaces (JStr [], JStr []))))) of
             Inl e \<Rightarrow> (JStr [], JStr []) | Inr ips \<Rightarrow> ips), s'))"

definition px_ostype :: "'s server_http \<Rightarrow> proxmox_config \<Rightarrow> string \<Rightarrow> 's \<Rightarrow> json \<times> 's" where
  "px_ostype http c vmid s = (case px_request http c ''GET'' (px_path c (''/qemu/'' @ vmid @ ''/config'')) [] s of
     (r, s') \<Rightarrow> ((case bind_res r (\<lambda>data. os_label (case data of JObj d \<Rightarrow> dget d ''ostype'' (JStr []) | _ \<Rightarrow> JStr [])) of
        Inl e \<Rightarrow> JStr ''Unknown'' | Inr l \<Rightarrow> l), s'))"

definition px_one :: "(json \<Rightarrow> string) \<Rightarrow> 's server_http \<Rightarrow> proxmox_config \<Rightarrow> json \<Rightarrow> (instance_meta, 's) call" where
  "px_one show http c vm s = (case vm of
     JObj d \<Rightarrow>
       (let vmid = py_str show (dget d ''vmid'' (JStr [])) in
        if vmid = [] then (parse_px show c (JObj (dset ''ostype'' (JStr ''Unknown'') d)) (JStr []) (JStr []), s)
        else (case px_ostype http c vmid s of (l, s1) \<Rightarrow>
          (case (if dget d ''status'' JNull = JStr ''running'' then px_ips http c vmid s1 else ((JStr [], JStr []), s1)) of
             ((ip4, ip6), s2) \<Rightarrow> (parse_px show c (JObj (dset ''ostype'' l d)) ip4 ip6, s2))))
   | _ \<Rightarrow> (Inl (PyError ''AttributeError'' ''get''), s))"

fun each_call :: "('a \<Rightarrow> ('b, 's) call) \<Rightarrow> 'a list \<Rightarrow> ('b list, 's) call" where
  "each_call f [] = give (Inr [])"
| "each_call f (x # xs) = bind_call (f x) (\<lambda>y. bind_call (each_call f xs) (\<lambda>ys. give (Inr (y # ys))))"

definition px_list :: "(json \<Rightarrow> string) \<Rightarrow> 's server_http \<Rightarrow> proxmox_config \<Rightarrow> (instance_meta list, 's) call" where
  "px_list show http c = bind_call (px_request http c ''GET'' (px_path c ''/qemu'') []) (\<lambda>data. case data of
     JList vms \<Rightarrow> each_call (px_one show http c) vms
   | _ \<Rightarrow> give (Inr []))"

definition px_create :: "(json \<Rightarrow> string) \<Rightarrow> 's server_http \<Rightarrow> proxmox_config \<Rightarrow> create_spec \<Rightarrow> (instance_meta, 's) call" where
  "px_create show http c sp =
     bind_call (px_request http c ''POST'' (px_path c ''/qemu'')
        [(''vmid'', JStr ''next''), (''name'', cs_hostname sp), (''cores'', JInt 1), (''memory'', JInt 1024), (''ostype'', cs_os sp)]) (\<lambda>_.
     bind_call (px_list show http c) (\<lambda>vms. give
        (of_opt (PyError ''RuntimeError'' (''VM created but not found: '' @ py_str show (cs_hostname sp)))
           (List.find (\<lambda>vm. im_label vm = cs_hostname sp) vms))))"

definition px_backup :: "(json \<Rightarrow> string) \<Rightarrow> 's server_http \<Rightarrow> proxmox_config \<Rightarrow> json \<Rightarrow> (backup_meta, 's) call" where
  "px_backup show http c pid =
     bind_call (px_request http c ''POST'' (px_path c ''/vzdump'')
        [(''vmid'', pid), (''mode'', JStr ''snapshot''), (''compress'', JStr ''zstd'')]) (\<lambda>data.
     give (bind_res (py_get ''data'' (JStr []) data) (\<lambda>i. Inr \<lparr>bm_id = JStr (py_str show i), bm_type = ''manual''\<rparr>)))"

definition px_snapshot :: "(json \<Rightarrow> string) \<Rightarrow> 's server_http \<Rightarrow> proxmox_config \<Rightarrow> json \<Rightarrow> json \<Rightarrow> (snapshot_meta, 's) call" where
  "px_snapshot show http c pid name =
     bind_call (px_request http c ''POST'' (px_path c (''/qemu/'' @ py_str show pid @ ''/snapshot''))
        [(''snapname'', name), (''description'', JStr (''Nexus snapshot: '' @ py_str show name))]) (\<lambda>_.
     give (Inr \<lparr>sm_id = name, sm_name = name\<rparr>))"

definition proxmox_adapter :: "(json \<Rightarrow> string) \<Rightarrow> 's server_http \<Rightarrow> proxmox_config \<Rightarrow> 's server_adapter" where
  "proxmox_adapter show http c =
    \<lparr>sa_list = px_list show http c,
     sa_create = px_create show http c,
     sa_delete = (\<lambda>pid. done_call (px_request http c ''DELETE'' (px_path c (''/qemu/'' @ py_str show pid)) [])),
     sa_power = (\<lambda>action pid. done_call (px_request http c ''POST''
        (px_path c (''/qemu/'' @ py_str show pid @ ''/status/'' @ action)) [])),
     sa_rebuild = (\<lambda>_ _. not_supported ''Proxmox rebuild not supported in V1''),
     sa_create_snapshot = px_snapshot show http c,
     sa_delete_snapshot = (\<lambda>_. not_supported ''Proxmox delete_snapshot requires vmid -- use via job worker''),
     sa_restore_snapshot = (\<lambda>pid i. done_call (px_request http c ''POST''
        (px_path c (''/qemu/'' @ py_str show pid @ ''/snapshot/'' @ py_str show i @ ''/rollback'')) [])),
     sa_create_backup = px_backup show http c,
     sa_restore_backup = (\<lambda>_ _. not_supported ''Proxmox backup restore not supported in V1''),
     sa_set_schedule = (\<lambda>_ _. not_supported ''Proxmox backup scheduling not supported in V1''),
     sa_disable_backups = (\<lambda>_. not_supported ''Proxmox backup management not supported in V1'')\<rparr>"

section \<open>The factory\<close>

definition server_adapter_for :: "(json \<Rightarrow> string) \<Rightarrow> 's server_http \<Rightarrow> string \<Rightarrow> string \<Rightarrow> dict \<Rightarrow> string \<Rightarrow>
    's server_adapter res" where
  "server_adapter_for show http vultr_base provider config secret =
     (if provider = ''vultr'' then Inr (vultr_adapter show (\<lambda>q. http (q\<lparr>sq_path := vultr_base @ sq_path q\<rparr>)) secret)
      else if provider = ''proxmox'' then
        (case dget config ''base_url'' (JStr ''https://localhost:8006'') of
           JStr base \<Rightarrow> Inr (proxmox_adapter show http \<lparr>px_base = rev (dropWhile (\<lambda>c. c = CHR ''/'') (rev base)), px_token = secret,
             px_node = py_str show (dget config ''node'' (JStr ''pve''))\<rparr>)
         | _ \<Rightarrow> Inl (PyError ''AttributeError'' ''rstrip''))
      else Inl (PyError ''ValueError'' (''Unknown server provider: '' @ [CHR 0x27] @ provider @ [CHR 0x27]
        @ ''. Supported: vultr, proxmox'')))"

end
