(* ===== verification/Servers.thy ===== *)
theory Servers
  imports ServerProvider
begin

text \<open>
  The server agent, \<open>apps/server_agent\<close>: its tables (\<open>models.py\<close>), the vault client, the job worker
  (\<open>jobs/worker.py\<close>) and the handlers of \<open>api/hosts.py\<close>, \<open>servers.py\<close>, \<open>snapshots.py\<close>, \<open>backups.py\<close> and
  \<open>jobs.py\<close>.  Rows are kept in the order of their creation; identifiers are made from a counter; columns
  that only hold times are left out.
\<close>

section \<open>Tables\<close>

record srv_host =
  sh_id :: string
  sh_tenant :: string
  sh_env :: string
  sh_provider :: string
  sh_label :: string
  sh_config :: dict
  sh_active :: bool
  sh_alias :: string

record server_facts =
  sf_label :: string
  sf_hostname :: "string option"
  sf_os :: "string option"
  sf_plan :: "string option"
  sf_region :: "string option"
  sf_ip_v4 :: "string option"
  sf_ip_v6 :: "string option"
  sf_status :: string
  sf_power :: "string option"
  sf_vcpu :: "int option"
  sf_ram :: "int option"
  sf_disk :: "int option"

record srv_instance =
  si_id :: string
  si_host :: string
  si_tenant :: string
  si_env :: string
  si_provider :: string
  si_pid :: string
  si_facts :: server_facts
  si_tags :: json

record srv_snapshot =
  ss_id :: string
  ss_instance :: string
  ss_pid :: "string option"
  ss_name :: string
  ss_status :: string

record srv_backup =
  sb_id :: string
  sb_instance :: string
  sb_pid :: "string option"
  sb_type :: string
  sb_status :: string

record srv_job =
  vj_id :: string
  vj_tenant :: string
  vj_env :: string
  vj_instance :: "string option"
  vj_operation :: string
  vj_payload :: dict
  vj_status :: string
  vj_attempts :: nat
  vj_error :: "string option"
  vj_correlation :: string

record srv_audit =
  vu_correlation :: string
  vu_tenant :: string
  vu_env :: string
  vu_action :: string
  vu_label :: "string option"
  vu_provider :: "string option"
  vu_result :: string
  vu_reason :: "string option"

record srv_db =
  sv_hosts :: "srv_host list"
  sv_instances :: "srv_instance list"
  sv_snapshots :: "srv_snapshot list"
  sv_backups :: "srv_backup list"
  sv_jobs :: "srv_job list"
  sv_audits :: "srv_audit list"
  sv_next :: nat

definition host_by_id :: "string \<Rightarrow> srv_db \<Rightarrow> srv_host option" where
  "host_by_id i db = table_look sh_id (sv_hosts db) i"

definition instance_by_id :: "string \<Rightarrow> srv_db \<Rightarrow> srv_instance option" where
  "instance_by_id i db = table_look si_id (sv_instances db) i"

definition instance_at :: "string \<Rightarrow> string \<Rightarrow> srv_db \<Rightarrow> srv_instance option" where
  "instance_at h p db = select_first (\<lambda>r. si_host r = h \<and> si_pid r = p) (sv_instances db)"

text \<open>The deletion of instances takes their snapshots and backups along and empties the reference of
  their jobs.\<close>

definition drop_instances :: "(srv_instance \<Rightarrow> bool) \<Rightarrow> srv_db \<Rightarrow> srv_db" where
  "drop_instances p db =
     (let gone = (\<lambda>i. i \<in> si_id ` set (filter p (sv_instances db))) in
      db\<lparr>sv_instances := delete_rows p (sv_instances db),
         sv_snapshots := delete_rows (\<lambda>s. gone (ss_instance s)) (sv_snapshots db),
         sv_backups := delete_rows (\<lambda>b. gone (sb_instance b)) (sv_backups db),
         sv_jobs := update_rows (\<lambda>j. \<exists>i \<in> set_option (vj_instance j). gone i) (\<lambda>j. j\<lparr>vj_instance := None\<rparr>) (sv_jobs db)\<rparr>)"

section \<open>Rows of what a provider reports\<close>

definition facts_of :: "instance_meta \<Rightarrow> server_facts res" where
  "facts_of m =
     bind_res (string_col 255 (im_label m)) (\<lambda>label. bind_res (nullable (string_col 255) (im_hostname m)) (\<lambda>hostname.
     bind_res (nullable (string_col 128) (im_os m)) (\<lambda>os. bind_res (nullable (string_col 128) (im_plan m)) (\<lambda>plan.
     bind_res (nullable (string_col 128) (im_region m)) (\<lambda>region. bind_res (nullable (string_col 45) (im_ip_v4 m)) (\<lambda>ip4.
     bind_res (nullable (string_col 128) (im_ip_v6 m)) (\<lambda>ip6. bind_res (string_col 32 (im_status m)) (\<lambda>st.
     bind_res (nullable (string_col 32) (im_power m)) (\<lambda>power. bind_res (nullable int_col (im_vcpu m)) (\<lambda>vcpu.
     bind_res (nullable int_col (im_ram m)) (\<lambda>ram. bind_res (nullable int_col (im_disk m)) (\<lambda>disk.
       Inr \<lparr>sf_label = label, sf_hostname = hostname, sf_os = os, sf_plan = plan, sf_region = region, sf_ip_v4 = ip4,
         sf_ip_v6 = ip6, sf_status = st, sf_power = power, sf_vcpu = vcpu, sf_ram = ram, sf_disk = disk\<rparr>))))))))))))"

definition instance_row :: "string \<Rightarrow> srv_host \<Rightarrow> string \<Rightarrow> server_facts \<Rightarrow> json \<Rightarrow> srv_instance" where
  "instance_row i h p f tags = \<lparr>si_id = i, si_host = sh_id h, si_tenant = sh_tenant h, si_env = sh_env h,
     si_provider = sh_provider h, si_pid = p, si_facts = f, si_tags = tags\<rparr>"

text \<open>The insert a flush makes of a reported instance; \<open>None\<close> is the database error it may end with.\<close>

definition insert_instance :: "srv_host \<Rightarrow> instance_meta \<Rightarrow> srv_db \<Rightarrow> (string \<times> srv_db) option" where
  "insert_instance h m db = (case (string_col 255 (im_id m), facts_of m) of
     (Inr p, Inr f) \<Rightarrow>
       (if instance_at (sh_id h) p db \<noteq> None then None
        else (let i = digits_of (sv_next db) in
          Some (i, db\<lparr>sv_instances := insert_row (instance_row i h p f (im_tags m)) (sv_instances db), sv_next := Suc (sv_next db)\<rparr>)))
   | _ \<Rightarrow> None)"

section \<open>The vault client\<close>

fun first_alias :: "string \<Rightarrow> json list \<Rightarrow> json res" where
  "first_alias alias [] = Inl (PyError ''RuntimeError'' (''Secret alias not found: '' @ alias))"
| "first_alias alias (s # ss) = bind_res (py_get ''alias'' JNull s) (\<lambda>a. if a = JStr alias then Inr s else first_alias alias ss)"

definition vault_status :: "string \<Rightarrow> string \<Rightarrow> (int \<times> json res) res \<Rightarrow> json res" where
  "vault_status what alias answer = bind_res answer (\<lambda>(status, body). if status \<noteq> 200
     then Inl (PyError ''RuntimeError'' (''Vault '' @ what @ '' failed for alias='' @ alias @ '': status='' @ str_int status))
     else body)"

definition server_secret :: "(int \<times> json res) res \<Rightarrow> (json \<Rightarrow> (int \<times> json res) res) \<Rightarrow> string \<Rightarrow> json res" where
  "server_secret listing read_secret alias =
     bind_res (vault_status ''list'' alias listing) (\<lambda>l. bind_res (py_iterate l) (\<lambda>items.
     bind_res (first_alias alias items) (\<lambda>s. bind_res (py_item ''id'' s) (\<lambda>i.
     bind_res (vault_status ''read'' alias (read_secret i)) (py_get ''value'' (JStr []))))))"

section \<open>One job\<close>

record 's srv_env =
  sx_show :: "json \<Rightarrow> string"
  sx_http :: "'s server_http"
  sx_vultr_base :: string
  sx_listing :: "srv_host \<Rightarrow> (int \<times> json res) res"
  sx_read :: "json \<Rightarrow> (int \<times> json res) res"
  sx_max_attempts :: nat

definition host_adapter :: "'s srv_env \<Rightarrow> srv_host \<Rightarrow> 's server_adapter res" where
  "host_adapter env h = bind_res (server_secret (sx_listing env h) (sx_read env) (sh_alias h)) (\<lambda>secret.
     server_adapter_for (sx_show env) (sx_http env) (sx_vultr_base env) (sh_provider h) (sh_config h) (py_str (sx_show env) secret))"

definition server_ref :: "srv_job \<Rightarrow> json" where
  "server_ref j = (let s = dget (vj_payload j) ''server_id'' JNull in
     if truthy s then s else (case vj_instance j of None \<Rightarrow> JNull | Some i \<Rightarrow> JStr i))"

definition by_key :: "(string \<Rightarrow> 'r option) \<Rightarrow> json \<Rightarrow> 'r option res" where
  "by_key look k = (case k of JStr i \<Rightarrow> Inr (look i) | _ \<Rightarrow> Inl (PyError ''DBAPIError'' ''expected str''))"

definition server_of :: "srv_job \<Rightarrow> srv_db \<Rightarrow> srv_instance option res" where
  "server_of j db = (if truthy (server_ref j) then by_key (\<lambda>i. instance_by_id i db) (server_ref j) else Inr None)"

definition resolve_host :: "srv_job \<Rightarrow> srv_db \<Rightarrow> srv_host res" where
  "resolve_host j db = bind_res
     (let h = dget (vj_payload j) ''host_id'' JNull in
      if truthy h then by_key (\<lambda>i. host_by_id i db) h
      else map_sum id (\<lambda>s. case s of Some r \<Rightarrow> host_by_id (si_host r) db | None \<Rightarrow> None) (server_of j db))
     (of_opt (PyError ''RuntimeError'' (''Cannot resolve host for job '' @ vj_id j)))"

text \<open>How the execution ends: with the payload as the worker holds it then, with an exception, or with an error
  of a flush, after which the session cannot be used.\<close>

datatype job_end = JobDone dict | JobRaised exn | JobBroken

definition spec_of_payload :: "dict \<Rightarrow> create_spec res" where
  "spec_of_payload p = (let item = (\<lambda>k. of_opt (PyError ''KeyError'' k) (map_of p k)) in
     bind_res (item ''label'') (\<lambda>label. bind_res (item ''hostname'') (\<lambda>hostname. bind_res (item ''region'') (\<lambda>region.
     bind_res (item ''plan'') (\<lambda>plan. bind_res (item ''os_id'') (\<lambda>os.
       Inr \<lparr>cs_label = label, cs_hostname = hostname, cs_region = region, cs_plan = plan, cs_os = os,
         cs_keys = dget p ''ssh_keys'' (JList []), cs_tags = dget p ''tags'' (JObj [])\<rparr>))))))"

definition schedule_of_payload :: "dict \<Rightarrow> schedule_spec res" where
  "schedule_of_payload p = bind_res (of_opt (PyError ''KeyError'' ''schedule_type'') (map_of p ''schedule_type'')) (\<lambda>t.
     Inr \<lparr>sc_type = t, sc_hour = dget p ''hour'' (JInt 0), sc_dow = dget p ''dow'' JNull, sc_dom = dget p ''dom'' JNull\<rparr>)"

definition power_facts :: "string \<Rightarrow> server_facts \<Rightarrow> server_facts" where
  "power_facts action f =
     (let power = (if action = ''start'' then Some ''running'' else if action = ''stop'' then Some ''stopped'' else sf_power f) in
      f\<lparr>sf_power := power, sf_status := (if power = Some ''running'' then ''running'' else ''stopped'')\<rparr>)"

definition store_power :: "string \<Rightarrow> srv_instance option \<Rightarrow> srv_db \<Rightarrow> srv_db" where
  "store_power action server db = (case server of
     None \<Rightarrow> db
   | Some r \<Rightarrow> db\<lparr>sv_instances := table_update si_id (si_id r) (\<lambda>x. x\<lparr>si_facts := power_facts action (si_facts x)\<rparr>) (sv_instances db)\<rparr>)"

definition store_snapshot :: "srv_instance option \<Rightarrow> snapshot_meta \<Rightarrow> srv_db \<Rightarrow> srv_db option" where
  "store_snapshot server m db = (case (server, nullable (string_col 255) (sm_id m), string_col 255 (sm_name m)) of
     (Some r, Inr p, Inr name) \<Rightarrow> Some (db\<lparr>sv_snapshots := insert_row \<lparr>ss_id = digits_of (sv_next db), ss_instance = si_id r,
        ss_pid = p, ss_name = name, ss_status = ''pending''\<rparr> (sv_snapshots db), sv_next := Suc (sv_next db)\<rparr>)
   | _ \<Rightarrow> None)"

definition store_backup :: "srv_instance option \<Rightarrow> backup_meta \<Rightarrow> srv_db \<Rightarrow> srv_db option" where
  "store_backup server m db = (case (server, nullable (string_col 255) (bm_id m)) of
     (Some r, Inr p) \<Rightarrow> Some (db\<lparr>sv_backups := insert_row \<lparr>sb_id = digits_of (sv_next db), sb_instance = si_id r,
        sb_pid = p, sb_type = bm_type m, sb_status = ''pending''\<rparr> (sv_backups db), sv_next := Suc (sv_next db)\<rparr>)
   | _ \<Rightarrow> None)"

text \<open>\<open>sync\<close>: what the provider reports is stored row by row; the select of a row flushes the one before.\<close>

fun sync_each :: "srv_host \<Rightarrow> instance_meta list \<Rightarrow> nat \<Rightarrow> srv_db \<Rightarrow> (nat + (exn option)) \<times> srv_db" where
  "sync_each h [] added db = (Inl added, db)"
| "sync_each h (m # ms) added db = (case im_id m of
     JStr p \<Rightarrow> (case instance_at (sh_id h) p db of
        Some r \<Rightarrow> (case facts_of m of
           Inl e \<Rightarrow> (Inr None, db)
         | Inr f \<Rightarrow> sync_each h ms added
             (db\<lparr>sv_instances := table_update si_id (si_id r) (\<lambda>x. x\<lparr>si_facts := f\<rparr>) (sv_instances db)\<rparr>))
      | None \<Rightarrow> (case insert_instance h m db of
           None \<Rightarrow> (Inr None, db)
         | Some (i, db') \<Rightarrow> sync_each h ms (Suc added) db'))
   | JNull \<Rightarrow> (Inr None, db)
   | _ \<Rightarrow> (Inr (Some (PyError ''DBAPIError'' ''expected str'')), db))"

definition end_of_sync :: "dict \<Rightarrow> nat \<Rightarrow> (nat + (exn option)) \<times> srv_db \<Rightarrow> job_end \<times> srv_db" where
  "end_of_sync payload count r = (case r of
     (Inl added, db) \<Rightarrow> (JobDone (dset ''total'' (JInt (int count)) (dset ''added'' (JInt (int added)) payload)), db)
   | (Inr (Some e), db) \<Rightarrow> (JobRaised e, db)
   | (Inr None, db) \<Rightarrow> (JobBroken, db))"

definition after_call :: "srv_db \<Rightarrow> ('a, 's) call \<Rightarrow> ('a \<Rightarrow> job_end \<times> srv_db) \<Rightarrow> 's \<Rightarrow> (job_end \<times> srv_db) \<times> 's" where
  "after_call db m f s = (case m s of (Inl e, s') \<Rightarrow> ((JobRaised e, db), s') | (Inr v, s') \<Rightarrow> (f v, s'))"

definition done_or_broken :: "dict \<Rightarrow> srv_db \<Rightarrow> srv_db option \<Rightarrow> job_end \<times> srv_db" where
  "done_or_broken payload db r = (case r of None \<Rightarrow> (JobBroken, db) | Some db' \<Rightarrow> (JobDone payload, db'))"

definition set_job_instance :: "string \<Rightarrow> string \<Rightarrow> srv_db \<Rightarrow> srv_db" where
  "set_job_instance jid i db = db\<lparr>sv_jobs := table_update vj_id jid (\<lambda>j. j\<lparr>vj_instance := Some i\<rparr>) (sv_jobs db)\<rparr>"

text \<open>The branches of \<open>_execute_job\<close> on the resolved host and server and the adapter.\<close>

definition run_operation :: "'s server_adapter \<Rightarrow> srv_job \<Rightarrow> srv_host \<Rightarrow> srv_instance option \<Rightarrow> srv_db \<Rightarrow> 's \<Rightarrow>
    (job_end \<times> srv_db) \<times> 's" where
  "run_operation ad j h server db =
     (let payload = vj_payload j; operation = vj_operation j; pid = dget payload ''provider_instance_id'' (JStr []);
          unchanged = (\<lambda>m. after_call db m (\<lambda>_. (JobDone payload, db))) in
      if operation = ''create_instance'' then
        after_call db (bind_call (give (spec_of_payload payload)) (sa_create ad)) (\<lambda>m. done_or_broken payload db
          (map_option (\<lambda>(i, db'). set_job_instance (vj_id j) i db') (insert_instance h m db)))
      else if operation = ''delete_instance'' then
        after_call db (sa_delete ad pid) (\<lambda>_. (JobDone payload,
          (case server of None \<Rightarrow> db | Some r \<Rightarrow> drop_instances (\<lambda>x. si_id x = si_id r) db)))
      else if operation \<in> {''start'', ''stop'', ''reboot''} then
        after_call db (sa_power ad operation pid) (\<lambda>_. (JobDone payload, store_power operation server db))
      else if operation = ''rebuild'' then unchanged (sa_rebuild ad pid (dget payload ''os_id'' (JStr [])))
      else if operation = ''create_snapshot'' then
        after_call db (sa_create_snapshot ad pid (dget payload ''name'' (JStr ''snapshot'')))
          (\<lambda>m. done_or_broken payload db (store_snapshot server m db))
      else if operation = ''delete_snapshot'' then
        after_call db (bind_call (sa_delete_snapshot ad (dget payload ''provider_snapshot_id'' (JStr []))) (\<lambda>_.
            let k = dget payload ''snapshot_id'' JNull in
            give (if truthy k then by_key (\<lambda>i. table_look ss_id (sv_snapshots db) i) k else Inr None)))
          (\<lambda>snap. (JobDone payload, (case snap of None \<Rightarrow> db
            | Some r \<Rightarrow> db\<lparr>sv_snapshots := delete_rows (\<lambda>x. ss_id x = ss_id r) (sv_snapshots db)\<rparr>)))
      else if operation = ''restore_snapshot'' then
        unchanged (sa_restore_snapshot ad pid (dget payload ''provider_snapshot_id'' (JStr [])))
      else if operation = ''create_backup'' then
        after_call db (sa_create_backup ad pid) (\<lambda>m. done_or_broken payload db (store_backup server m db))
      else if operation = ''restore_backup'' then
        unchanged (sa_restore_backup ad pid (dget payload ''provider_backup_id'' (JStr [])))
      else if operation = ''set_backup_schedule'' then
        unchanged (bind_call (give (schedule_of_payload payload)) (sa_set_schedule ad pid))
      else if operation = ''disable_backups'' then unchanged (sa_disable_backups ad pid)
      else if operation = ''sync'' then
        after_call db (sa_list ad) (\<lambda>ms. end_of_sync payload (length ms) (sync_each h ms 0 db))
      else unchanged (give (Inl (PyError ''ValueError'' (''Unknown operation: '' @ operation)) :: unit res)))"

definition execute_server_job :: "'s srv_env \<Rightarrow> srv_job \<Rightarrow> srv_db \<Rightarrow> 's \<Rightarrow> (job_end \<times> srv_db) \<times> 's" where
  "execute_server_job env j db s =
     (case bind_res (resolve_host j db) (\<lambda>h. bind_res (host_adapter env h) (\<lambda>ad.
             bind_res (server_of j db) (\<lambda>server. Inr (h, ad, server)))) of
        Inl e \<Rightarrow> ((JobRaised e, db), s)
      | Inr (h, ad, server) \<Rightarrow> run_operation ad j h server db s)"

section \<open>The worker\<close>

definition EVENT_MAP :: "(string \<times> string) list" where
  "EVENT_MAP = [(''create_instance'', ''server.created''), (''delete_instance'', ''server.deleted''), (''start'', ''server.started''),
     (''stop'', ''server.stopped''), (''reboot'', ''server.rebooted''), (''rebuild'', ''server.rebuilt''),
     (''create_snapshot'', ''server.snapshot.created''), (''delete_snapshot'', ''server.snapshot.deleted''),
     (''restore_snapshot'', ''server.snapshot.restored''), (''create_backup'', ''server.backup.created''),
     (''restore_backup'', ''server.backup.restored''), (''set_backup_schedule'', ''server.backup.scheduled''),
     (''disable_backups'', ''server.backup.disabled''), (''sync'', ''server.sync.completed'')]"

definition event_of :: "string \<Rightarrow> string" where
  "event_of operation = (case map_of EVENT_MAP operation of Some e \<Rightarrow> e | None \<Rightarrow> ''server.'' @ operation)"

definition set_server_job :: "string \<Rightarrow> string \<Rightarrow> nat \<Rightarrow> string option \<Rightarrow> srv_db \<Rightarrow> srv_db" where
  "set_server_job jid status attempts err db = db\<lparr>sv_jobs := table_update vj_id jid
     (\<lambda>j. j\<lparr>vj_status := status, vj_attempts := attempts, vj_error := err\<rparr>) (sv_jobs db)\<rparr>"

definition add_server_audit :: "srv_audit \<Rightarrow> srv_db \<Rightarrow> srv_db" where
  "add_server_audit a db = db\<lparr>sv_audits := insert_row a (sv_audits db)\<rparr>"

definition job_audit :: "srv_job \<Rightarrow> string option \<Rightarrow> string option \<Rightarrow> string \<Rightarrow> string option \<Rightarrow> srv_audit" where
  "job_audit j label provider result reason = \<lparr>vu_correlation = vj_correlation j, vu_tenant = vj_tenant j, vu_env = vj_env j,
     vu_action = vj_operation j, vu_label = label, vu_provider = provider, vu_result = result, vu_reason = reason\<rparr>"

definition status_after_failure :: "nat \<Rightarrow> nat \<Rightarrow> string" where
  "status_after_failure most attempts = (if attempts \<ge> most then ''failed'' else ''pending'')"

text \<open>One job of the batch as it was loaded: whether the loop goes on after it, the events and the
  database.  The first commit, the marking, stands whatever happens; after a broken flush the handler of
  the exception fails as well and the loop is left.\<close>

definition process_server_job :: "'s srv_env \<Rightarrow> srv_job \<Rightarrow> srv_db \<Rightarrow> 's \<Rightarrow> (bool \<times> events \<times> srv_db) \<times> 's" where
  "process_server_job env j db s =
     (let attempts = Suc (vj_attempts j); db1 = set_server_job (vj_id j) ''running'' attempts (vj_error j) db in
      case execute_server_job env j db1 s of
        ((JobBroken, _), s') \<Rightarrow> ((False, [], db1), s')
      | ((JobRaised e, db2), s') \<Rightarrow>
          ((True,
            [(''server.job.failed'', [(''job_id'', JStr (vj_id j)), (''operation'', JStr (vj_operation j)), (''error'', JStr (take 200 (exn_text e)))])],
            add_server_audit (job_audit j None None ''error'' (Some (take 500 (exn_text e))))
              (set_server_job (vj_id j) (status_after_failure (sx_max_attempts env) attempts) attempts (Some (take 1000 (exn_text e))) db2)), s')
      | ((JobDone payload, db2), s') \<Rightarrow>
          (let label = py_str (sx_show env) (dget payload ''label'' (JStr []));
               db3 = set_server_job (vj_id j) ''succeeded'' attempts (vj_error j) db2;
               event = (event_of (vj_operation j), fold (\<lambda>(k, v) d. dset k v d) payload [(''job_id'', JStr (vj_id j))]) in
           (if length label \<le> 255
            then (True, [event], add_server_audit (job_audit j (Some label) (Some []) ''success'' None) db3)
            else (False, [event], db3), s')))"

fun process_batch :: "'s srv_env \<Rightarrow> srv_job list \<Rightarrow> events \<Rightarrow> srv_db \<Rightarrow> 's \<Rightarrow> (events \<times> srv_db) \<times> 's" where
  "process_batch env [] ev db s = ((ev, db), s)"
| "process_batch env (j # js) ev db s = (case process_server_job env j db s of
     ((goes_on, ev', db'), s') \<Rightarrow> if goes_on then process_batch env js (ev @ ev') db' s' else ((ev @ ev', db'), s'))"

definition pending_jobs :: "srv_db \<Rightarrow> srv_job list" where
  "pending_jobs db = take 10 (select_all (\<lambda>j. vj_status j = ''pending'') (sv_jobs db))"

definition process_pending_jobs :: "'s srv_env \<Rightarrow> srv_db \<Rightarrow> 's \<Rightarrow> (events \<times> srv_db) \<times> 's" where
  "process_pending_jobs env db s = process_batch env (pending_jobs db) [] db s"

section \<open>Handlers\<close>

definition no_such :: "string \<Rightarrow> exn" where
  "no_such what = HTTPException 404 (what @ '' not found'')"

definition new_server_job :: "string \<Rightarrow> string \<Rightarrow> string \<Rightarrow> dict \<Rightarrow> string option \<Rightarrow> srv_db \<Rightarrow> string \<times> srv_db" where
  "new_server_job tenant env operation payload inst db =
     (let i = digits_of (sv_next db); c = digits_of (Suc (sv_next db)) in
      (i, db\<lparr>sv_jobs := insert_row \<lparr>vj_id = i, vj_tenant = tenant, vj_env = env, vj_instance = inst, vj_operation = operation,
            vj_payload = payload, vj_status = ''pending'', vj_attempts = 0, vj_error = None, vj_correlation = c\<rparr> (sv_jobs db),
          sv_next := sv_next db + 2\<rparr>))"

record host_create =
  hc_tenant :: string
  hc_env :: string
  hc_provider :: string
  hc_label :: string
  hc_config :: dict
  hc_alias :: string

definition short_text :: "nat \<Rightarrow> string \<Rightarrow> bool" where
  "short_text n s = (s \<noteq> [] \<and> length s \<le> n)"

definition check_host_create :: "host_create \<Rightarrow> bool" where
  "check_host_create b = (short_text 128 (hc_tenant b) \<and> hc_env b \<in> {''dev'', ''stage'', ''prod''}
     \<and> hc_provider b \<in> {''vultr'', ''proxmox'', ''gpu''} \<and> short_text 255 (hc_label b) \<and> short_text 255 (hc_alias b))"

definition create_host :: "host_create \<Rightarrow> srv_db \<Rightarrow> (srv_host \<times> srv_db) res" where
  "create_host b db =
     (if \<not> check_host_create b then Inl (HTTPException 422 ''host'')
      else if select_first (\<lambda>h. sh_tenant h = hc_tenant b \<and> sh_env h = hc_env b \<and> sh_label h = hc_label b) (sv_hosts db) \<noteq> None
      then Inl (PyError ''IntegrityError'' ''uq_server_hosts_tenant_env_label'')
      else (let h = \<lparr>sh_id = digits_of (sv_next db), sh_tenant = hc_tenant b, sh_env = hc_env b, sh_provider = hc_provider b,
                sh_label = hc_label b, sh_config = hc_config b, sh_active = True, sh_alias = hc_alias b\<rparr> in
        Inr (h, db\<lparr>sv_hosts := insert_row h (sv_hosts db), sv_next := Suc (sv_next db)\<rparr>)))"

definition delete_host :: "string \<Rightarrow> srv_db \<Rightarrow> srv_db res" where
  "delete_host i db = (case host_by_id i db of
     None \<Rightarrow> Inl (no_such ''Host'')
   | Some h \<Rightarrow> Inr ((drop_instances (\<lambda>r. si_host r = i) db)\<lparr>sv_hosts := delete_rows (\<lambda>x. sh_id x = i) (sv_hosts db)\<rparr>))"

definition list_hosts :: "srv_db \<Rightarrow> srv_host list" where
  "list_hosts db = rev (sv_hosts db)"

definition list_servers :: "srv_db \<Rightarrow> srv_instance list" where
  "list_servers db = rev (sv_instances db)"

definition get_server :: "string \<Rightarrow> srv_db \<Rightarrow> srv_instance res" where
  "get_server i db = of_opt (no_such ''Server'') (instance_by_id i db)"

record server_create =
  vc_host :: string
  vc_label :: string
  vc_hostname :: string
  vc_region :: string
  vc_plan :: string
  vc_os :: string
  vc_keys :: "string list"
  vc_tags :: json

definition check_server_create :: "server_create \<Rightarrow> bool" where
  "check_server_create b = (short_text 255 (vc_label b) \<and> short_text 255 (vc_hostname b) \<and> vc_region b \<noteq> [] \<and> vc_plan b \<noteq> []
     \<and> vc_os b \<noteq> [] \<and> length (vc_keys b) \<le> 10)"

definition dump_server_create :: "server_create \<Rightarrow> dict" where
  "dump_server_create b = [(''host_id'', JStr (vc_host b)), (''label'', JStr (vc_label b)), (''hostname'', JStr (vc_hostname b)),
     (''region'', JStr (vc_region b)), (''plan'', JStr (vc_plan b)), (''os_id'', JStr (vc_os b)),
     (''ssh_keys'', JList (List.map JStr (vc_keys b))), (''tags'', vc_tags b)]"

definition create_server :: "server_create \<Rightarrow> srv_db \<Rightarrow> (string \<times> srv_db) res" where
  "create_server b db =
     (if \<not> check_server_create b then Inl (HTTPException 422 ''server'')
      else bind_res (of_opt (no_such ''Host'') (host_by_id (vc_host b) db)) (\<lambda>h.
        Inr (new_server_job (sh_tenant h) (sh_env h) ''create_instance'' (dump_server_create b) None db)))"

text \<open>The handlers that queue an operation on a server: deletion, power actions, rebuild, snapshots,
  backups and schedules.\<close>

definition queue_for_server :: "string \<Rightarrow> string \<Rightarrow> dict \<Rightarrow> srv_db \<Rightarrow> (string \<times> srv_db) res" where
  "queue_for_server i operation extra db = bind_res (get_server i db) (\<lambda>r.
     Inr (new_server_job (si_tenant r) (si_env r) operation
       ([(''server_id'', JStr i), (''provider_instance_id'', JStr (si_pid r))] @ extra) (Some i) db))"

definition delete_server :: "string \<Rightarrow> srv_db \<Rightarrow> (string \<times> srv_db) res" where
  "delete_server i = queue_for_server i ''delete_instance'' []"

definition power_server :: "string \<Rightarrow> string \<Rightarrow> srv_db \<Rightarrow> (string \<times> srv_db) res" where
  "power_server action i db = (if action \<in> {''start'', ''stop'', ''reboot''} then queue_for_server i action [] db
     else Inl (HTTPException 404 ''Not Found''))"

definition rebuild_server :: "string \<Rightarrow> string \<Rightarrow> srv_db \<Rightarrow> (string \<times> srv_db) res" where
  "rebuild_server i os = queue_for_server i ''rebuild'' [(''os_id'', JStr os)]"

fun queue_syncs :: "srv_host list \<Rightarrow> string list \<Rightarrow> srv_db \<Rightarrow> string list \<times> srv_db" where
  "queue_syncs [] ids db = (ids, db)"
| "queue_syncs (h # hs) ids db = (case new_server_job (sh_tenant h) (sh_env h) ''sync'' [(''host_id'', JStr (sh_id h))] None db of
     (i, db') \<Rightarrow> queue_syncs hs (ids @ [i]) db')"

definition sync_servers :: "string option \<Rightarrow> srv_db \<Rightarrow> (string list \<times> srv_db) res" where
  "sync_servers host db = (case host of
     Some (c # i) \<Rightarrow> bind_res (of_opt (no_such ''Host'') (host_by_id (c # i) db)) (\<lambda>h. Inr (queue_syncs [h] [] db))
   | _ \<Rightarrow> (let hs = select_all sh_active (sv_hosts db) in
       if hs = [] then Inl (HTTPException 404 ''No active hosts registered'') else Inr (queue_syncs hs [] db)))"

definition list_server_snapshots :: "string \<Rightarrow> srv_db \<Rightarrow> srv_snapshot list res" where
  "list_server_snapshots i db = bind_res (get_server i db) (\<lambda>_. Inr (rev (select_all (\<lambda>s. ss_instance s = i) (sv_snapshots db))))"

definition create_server_snapshot :: "string \<Rightarrow> string \<Rightarrow> string \<Rightarrow> srv_db \<Rightarrow> (string \<times> srv_db) res" where
  "create_server_snapshot i name description db =
     (if short_text 255 name \<and> length description \<le> 1000
      then queue_for_server i ''create_snapshot'' [(''name'', JStr name), (''description'', JStr description)] db
      else Inl (HTTPException 422 ''snapshot''))"

definition json_of_text :: "string option \<Rightarrow> json" where
  "json_of_text t = (case t of None \<Rightarrow> JNull | Some s \<Rightarrow> JStr s)"

definition owner_of :: "string \<Rightarrow> srv_db \<Rightarrow> string \<times> string \<times> string" where
  "owner_of i db = (case instance_by_id i db of None \<Rightarrow> ([], [], []) | Some r \<Rightarrow> (si_tenant r, si_env r, si_pid r))"

definition find_snapshot :: "string \<Rightarrow> string \<Rightarrow> srv_db \<Rightarrow> srv_snapshot res" where
  "find_snapshot i k db = (case table_look ss_id (sv_snapshots db) k of
     None \<Rightarrow> Inl (no_such ''Snapshot'')
   | Some r \<Rightarrow> if ss_instance r = i then Inr r else Inl (no_such ''Snapshot''))"

definition delete_server_snapshot :: "string \<Rightarrow> string \<Rightarrow> srv_db \<Rightarrow> (string \<times> srv_db) res" where
  "delete_server_snapshot i k db = bind_res (find_snapshot i k db) (\<lambda>r. case owner_of i db of (t, e, p) \<Rightarrow>
     Inr (new_server_job t e ''delete_snapshot'' [(''snapshot_id'', JStr k), (''provider_snapshot_id'', json_of_text (ss_pid r))] (Some i) db))"

definition restore_server_snapshot :: "string \<Rightarrow> string \<Rightarrow> srv_db \<Rightarrow> (string \<times> srv_db) res" where
  "restore_server_snapshot i k db = bind_res (find_snapshot i k db) (\<lambda>r. case owner_of i db of (t, e, p) \<Rightarrow>
     Inr (new_server_job t e ''restore_snapshot'' [(''server_id'', JStr i), (''provider_instance_id'', JStr p),
       (''snapshot_id'', JStr k), (''provider_snapshot_id'', json_of_text (ss_pid r))] (Some i) db))"

definition list_server_backups :: "string \<Rightarrow> srv_db \<Rightarrow> srv_backup list res" where
  "list_server_backups i db = bind_res (get_server i db) (\<lambda>_. Inr (rev (select_all (\<lambda>b. sb_instance b = i) (sv_backups db))))"

definition create_server_backup :: "string \<Rightarrow> srv_db \<Rightarrow> (string \<times> srv_db) res" where
  "create_server_backup i = queue_for_server i ''create_backup'' []"

definition restore_server_backup :: "string \<Rightarrow> string \<Rightarrow> srv_db \<Rightarrow> (string \<times> srv_db) res" where
  "restore_server_backup i k db = bind_res
     (case table_look sb_id (sv_backups db) k of
        None \<Rightarrow> Inl (no_such ''Backup'')
      | Some r \<Rightarrow> if sb_instance r = i then Inr r else Inl (no_such ''Backup'')) (\<lambda>r. case owner_of i db of (t, e, p) \<Rightarrow>
     Inr (new_server_job t e ''restore_backup'' [(''server_id'', JStr i), (''provider_instance_id'', JStr p),
       (''backup_id'', JStr k), (''provider_backup_id'', json_of_text (sb_pid r))] (Some i) db))"

definition in_range :: "int \<Rightarrow> int \<Rightarrow> int option \<Rightarrow> bool" where
  "in_range lo hi x = (case x of None \<Rightarrow> True | Some i \<Rightarrow> lo \<le> i \<and> i \<le> hi)"

definition json_of_int :: "int option \<Rightarrow> json" where
  "json_of_int x = (case x of None \<Rightarrow> JNull | Some i \<Rightarrow> JInt i)"

definition set_server_schedule :: "string \<Rightarrow> string \<Rightarrow> int \<Rightarrow> int option \<Rightarrow> int option \<Rightarrow> srv_db \<Rightarrow> (string \<times> srv_db) res" where
  "set_server_schedule i kind hour dow dmonth db =
     (if kind \<in> {''daily'', ''weekly'', ''monthly''} \<and> in_range 0 23 (Some hour) \<and> in_range 1 7 dow \<and> in_range 1 28 dmonth
      then queue_for_server i ''set_backup_schedule''
        [(''schedule_type'', JStr kind), (''hour'', JInt hour), (''dow'', json_of_int dow), (''dom'', json_of_int dmonth)] db
      else Inl (HTTPException 422 ''schedule''))"

definition disable_server_backups :: "string \<Rightarrow> srv_db \<Rightarrow> (string \<times> srv_db) res" where
  "disable_server_backups i = queue_for_server i ''disable_backups'' []"

definition list_server_jobs :: "int \<Rightarrow> string option \<Rightarrow> srv_db \<Rightarrow> srv_job list res" where
  "list_server_jobs limit status db =
     (if limit < 0 then Inl (PyError ''DBAPIError'' ''LIMIT must not be negative'')
      else Inr (take (nat limit) (rev (select_all (\<lambda>j. filter_given status (vj_status j)) (sv_jobs db)))))"

definition get_server_job :: "string \<Rightarrow> srv_db \<Rightarrow> srv_job res" where
  "get_server_job i db = of_opt (no_such ''Job'') (table_look vj_id (sv_jobs db) i)"

text \<open>\<open>get_console\<close>: the address is made of the identifier; the credential is fetched all the same, and
  the access is audited.\<close>

definition hex_digit :: "nat \<Rightarrow> char" where
  "hex_digit n = char_of (if n < 10 then 48 + n else 55 + n)"

definition quote_char :: "char \<Rightarrow> string" where
  "quote_char c = (let n = of_char c :: nat in
     if (48 \<le> n \<and> n \<le> 57) \<or> (65 \<le> n \<and> n \<le> 90) \<or> (97 \<le> n \<and> n \<le> 122) \<or> c \<in> {CHR ''_'', CHR ''.'', CHR ''-'', CHR ''~''} then [c]
     else [CHR ''%'', hex_digit (n div 16), hex_digit (n mod 16)])"

definition console_url :: "srv_host \<Rightarrow> string \<Rightarrow> string \<times> string" where
  "console_url h pid = (if sh_provider h = ''vultr'' then (''https://my.vultr.com/subs/?id='' @ pid, ''vultr_portal'')
     else ((case dget (sh_config h) ''base_url'' (JStr ''https://localhost:8006'') of
              JStr base \<Rightarrow> rev (dropWhile (\<lambda>c. c = CHR ''/'') (rev base)) | _ \<Rightarrow> [])
        @ ''/#'' @ concat (List.map quote_char (''v1:0:=qemu/'' @ pid @ '':4:::::::'')), ''proxmox_ui''))"

definition get_console :: "'s srv_env \<Rightarrow> string \<Rightarrow> srv_db \<Rightarrow> ((string \<times> string) \<times> srv_db) res" where
  "get_console env i db = bind_res (get_server i db) (\<lambda>r.
     bind_res (of_opt (HTTPException 500 ''Host configuration not found'') (host_by_id (si_host r) db)) (\<lambda>h.
     case host_adapter env h of
       Inl e \<Rightarrow> Inl (HTTPException 502 (''Console access failed: '' @ exn_text e))
     | Inr ad \<Rightarrow> Inr (console_url h (si_pid r),
         add_server_audit \<lparr>vu_correlation = digits_of (sv_next db), vu_tenant = si_tenant r, vu_env = si_env r,
           vu_action = ''console_access'', vu_label = Some (sf_label (si_facts r)), vu_provider = Some (si_provider r),
           vu_result = ''success'', vu_reason = Some []\<rparr> (db\<lparr>sv_next := Suc (sv_next db)\<rparr>))))"

end
