(* ===== verification/ServersReach.thy ===== *)
theory ServersReach
  imports Servers
begin

text \<open>
  What the server agent keeps true.  Every handler and every step of the worker is a sequence of small
  edits of the tables (\<open>srv_edit\<close>); the invariant is proved edit by edit.  On top of it: how often a job
  is executed, how one execution ends, what an import from the provider leaves, and that a job that is
  running when the worker stops is never touched again.
\<close>

section \<open>The invariant of the tables\<close>

definition known :: "nat \<Rightarrow> string \<Rightarrow> bool" where
  "known n i = (\<exists>k < n. i = digits_of k)"

lemma known_fresh [simp]: "\<not> known n (digits_of n)"
  by (auto simp: known_def digits_inj)

lemma known_new [simp]: "n < m \<Longrightarrow> known m (digits_of n)"
  by (auto simp: known_def)

lemma known_mono: "known n i \<Longrightarrow> n \<le> m \<Longrightarrow> known m i"
  unfolding known_def using less_le_trans by blast

definition srv_ids :: "srv_db \<Rightarrow> string set" where
  "srv_ids db = sh_id ` set (sv_hosts db) \<union> si_id ` set (sv_instances db) \<union> ss_id ` set (sv_snapshots db)
     \<union> sb_id ` set (sv_backups db) \<union> vj_id ` set (sv_jobs db)"

definition srv_keys_ok :: "srv_db \<Rightarrow> bool" where
  "srv_keys_ok db = ((\<forall>i \<in> srv_ids db. known (sv_next db) i)
     \<and> distinct (List.map sh_id (sv_hosts db)) \<and> distinct (List.map (\<lambda>h. (sh_tenant h, sh_env h, sh_label h)) (sv_hosts db))
     \<and> distinct (List.map si_id (sv_instances db)) \<and> distinct (List.map (\<lambda>r. (si_host r, si_pid r)) (sv_instances db))
     \<and> distinct (List.map ss_id (sv_snapshots db)) \<and> distinct (List.map sb_id (sv_backups db)) \<and> distinct (List.map vj_id (sv_jobs db)))"

definition of_host :: "srv_instance \<Rightarrow> srv_host \<Rightarrow> bool" where
  "of_host r h = (si_host r = sh_id h \<and> si_tenant r = sh_tenant h \<and> si_env r = sh_env h \<and> si_provider r = sh_provider h)"

definition refs_ok :: "srv_db \<Rightarrow> bool" where
  "refs_ok db = ((\<forall>r \<in> set (sv_instances db). \<exists>h \<in> set (sv_hosts db). of_host r h)
     \<and> (\<forall>s \<in> set (sv_snapshots db). ss_instance s \<in> si_id ` set (sv_instances db))
     \<and> (\<forall>b \<in> set (sv_backups db). sb_instance b \<in> si_id ` set (sv_instances db))
     \<and> (\<forall>j \<in> set (sv_jobs db). \<forall>i \<in> set_option (vj_instance j). i \<in> si_id ` set (sv_instances db)))"

definition tables_ok :: "srv_db \<Rightarrow> bool" where
  "tables_ok db = (srv_keys_ok db \<and> refs_ok db)"

text \<open>The jobs of two databases agree but for their references to instances.\<close>

definition bare :: "srv_job \<Rightarrow> srv_job" where
  "bare j = j\<lparr>vj_instance := None\<rparr>"

definition same_jobs :: "srv_db \<Rightarrow> srv_db \<Rightarrow> bool" where
  "same_jobs db db' = (List.map bare (sv_jobs db') = List.map bare (sv_jobs db))"

lemma bare_fields [simp]: "vj_id (bare j) = vj_id j" "vj_status (bare j) = vj_status j" "vj_attempts (bare j) = vj_attempts j"
  "vj_payload (bare j) = vj_payload j" "vj_operation (bare j) = vj_operation j" "vj_error (bare j) = vj_error j"
  "vj_correlation (bare j) = vj_correlation j" "vj_tenant (bare j) = vj_tenant j" "vj_env (bare j) = vj_env j"
  "vj_instance (bare j) = None" "bare (bare j) = bare j"
  by (simp_all add: bare_def)

lemma bare_eqD: "bare j = bare k \<Longrightarrow> vj_id j = vj_id k \<and> vj_status j = vj_status k \<and> vj_attempts j = vj_attempts k
    \<and> vj_error j = vj_error k \<and> vj_payload j = vj_payload k \<and> vj_operation j = vj_operation k"
  by (metis bare_fields)

lemma same_jobs_ids: "same_jobs db db' \<Longrightarrow> List.map vj_id (sv_jobs db') = List.map vj_id (sv_jobs db)"
proof -
  assume "same_jobs db db'"
  then have "List.map vj_id (List.map bare (sv_jobs db')) = List.map vj_id (List.map bare (sv_jobs db))"
    by (simp only: same_jobs_def)
  then show ?thesis by (simp add: comp_def)
qed

section \<open>Edits\<close>

inductive srv_edit :: "srv_db \<Rightarrow> srv_db \<Rightarrow> bool" where
  ed_refl: "srv_edit db db"
| ed_insert: "srv_edit db d \<Longrightarrow> h \<in> set (sv_hosts d) \<Longrightarrow> insert_instance h m d = Some (i, d') \<Longrightarrow> srv_edit db d'"
| ed_link: "srv_edit db d \<Longrightarrow> i \<in> si_id ` set (sv_instances d) \<Longrightarrow> srv_edit db (set_job_instance k i d)"
| ed_drop: "srv_edit db d \<Longrightarrow> srv_edit db (drop_instances p d)"
| ed_facts: "srv_edit db d \<Longrightarrow>
    srv_edit db (d\<lparr>sv_instances := table_update si_id k (\<lambda>x. x\<lparr>si_facts := f x\<rparr>) (sv_instances d)\<rparr>)"
| ed_snapshot: "srv_edit db d \<Longrightarrow> r \<in> set (sv_instances d) \<Longrightarrow> store_snapshot (Some r) sm d = Some d' \<Longrightarrow> srv_edit db d'"
| ed_backup: "srv_edit db d \<Longrightarrow> r \<in> set (sv_instances d) \<Longrightarrow> store_backup (Some r) bm d = Some d' \<Longrightarrow> srv_edit db d'"
| ed_unsnap: "srv_edit db d \<Longrightarrow> srv_edit db (d\<lparr>sv_snapshots := delete_rows q (sv_snapshots d)\<rparr>)"

inductive srv_change :: "srv_db \<Rightarrow> srv_db \<Rightarrow> bool" where
  ch_edit: "srv_edit db d \<Longrightarrow> srv_change db d"
| ch_status: "srv_change db d \<Longrightarrow> srv_change db (set_server_job k st n e d)"
| ch_audit: "srv_change db d \<Longrightarrow> srv_change db (add_server_audit a d)"
| ch_count: "srv_change db d \<Longrightarrow> srv_change db (d\<lparr>sv_next := Suc (sv_next d)\<rparr>)"
| ch_host: "srv_change db d \<Longrightarrow> create_host b d = Inr (h, d') \<Longrightarrow> srv_change db d'"
| ch_unhost: "srv_change db d \<Longrightarrow> delete_host k d = Inr d' \<Longrightarrow> srv_change db d'"
| ch_job: "srv_change db d \<Longrightarrow> (\<forall>i \<in> set_option inst. i \<in> si_id ` set (sv_instances d)) \<Longrightarrow>
    new_server_job t e o' p inst d = (i, d') \<Longrightarrow> srv_change db d'"
| ch_then: "srv_change db d \<Longrightarrow> srv_edit d d' \<Longrightarrow> srv_change db d'"

lemma insert_instance_Some:
  "insert_instance h m d = Some (i, d') \<longleftrightarrow> (\<exists>p f. string_col 255 (im_id m) = Inr p \<and> facts_of m = Inr f
     \<and> instance_at (sh_id h) p d = None \<and> i = digits_of (sv_next d)
     \<and> d' = d\<lparr>sv_instances := insert_row (instance_row i h p f (im_tags m)) (sv_instances d), sv_next := Suc (sv_next d)\<rparr>)"
  by (auto simp: insert_instance_def Let_def split: sum.splits if_splits)

lemma instance_at_None: "instance_at h p d = None \<longleftrightarrow> (\<forall>r \<in> set (sv_instances d). (si_host r, si_pid r) \<noteq> (h, p))"
  by (auto simp: instance_at_def select_first_None)

lemma distinct_insert_row: "distinct (List.map f (insert_row r t)) \<longleftrightarrow> distinct (List.map f t) \<and> f r \<notin> f ` set t"
  by (auto simp: insert_row_def)

lemma distinct_delete_rows: "distinct (List.map f t) \<Longrightarrow> distinct (List.map f (delete_rows p t))"
  by (simp add: delete_rows_def distinct_map_filter)

lemma keys_ids: "srv_keys_ok db \<Longrightarrow> i \<in> srv_ids db \<Longrightarrow> known (sv_next db) i"
  by (simp add: srv_keys_ok_def)

lemma keys_unused: "srv_keys_ok db \<Longrightarrow> digits_of (sv_next db) \<notin> srv_ids db"
  using keys_ids known_fresh by blast

lemma srv_ids_parts: "sh_id ` set (sv_hosts db) \<subseteq> srv_ids db" "si_id ` set (sv_instances db) \<subseteq> srv_ids db"
  "ss_id ` set (sv_snapshots db) \<subseteq> srv_ids db" "sb_id ` set (sv_backups db) \<subseteq> srv_ids db" "vj_id ` set (sv_jobs db) \<subseteq> srv_ids db"
  by (auto simp: srv_ids_def)

text \<open>Databases whose rows have no new identifier but the next one.\<close>

lemma known_grown:
  assumes "\<forall>i \<in> srv_ids d. known (sv_next d) i" "srv_ids d' \<subseteq> insert (digits_of (sv_next d)) (srv_ids d)" "sv_next d < sv_next d'"
  shows "\<forall>i \<in> srv_ids d'. known (sv_next d') i"
proof
  fix i assume "i \<in> srv_ids d'"
  then consider "i = digits_of (sv_next d)" | "i \<in> srv_ids d" using assms(2) by blast
  then show "known (sv_next d') i"
  proof cases
    case 2
    then show ?thesis using assms(1,3) known_mono[of "sv_next d" i "sv_next d'"] by simp
  qed (use assms(3) in simp)
qed

lemma insert_instance_ok:
  assumes "tables_ok d" "h \<in> set (sv_hosts d)" "insert_instance h m d = Some (i, d')"
  shows "tables_ok d'"
proof -
  obtain p f where d': "i = digits_of (sv_next d)" "instance_at (sh_id h) p d = None"
    "d' = d\<lparr>sv_instances := insert_row (instance_row i h p f (im_tags m)) (sv_instances d), sv_next := Suc (sv_next d)\<rparr>"
    using assms(3) insert_instance_Some by blast
  have "\<forall>i \<in> srv_ids d'. known (sv_next d') i"
    by (rule known_grown[of d]) (use assms(1) d' in \<open>auto simp: tables_ok_def srv_keys_ok_def srv_ids_def instance_row_def\<close>)
  moreover have "i \<notin> si_id ` set (sv_instances d)"
    using keys_unused[of d] srv_ids_parts(2)[of d] assms(1) d'(1) by (auto simp: tables_ok_def)
  moreover have "(sh_id h, p) \<notin> (\<lambda>r. (si_host r, si_pid r)) ` set (sv_instances d)"
    using d'(2) unfolding instance_at_None by force
  ultimately have "srv_keys_ok d'"
    using assms(1) d' by (simp add: srv_keys_ok_def tables_ok_def distinct_insert_row instance_row_def)
  moreover have "of_host (instance_row i h p f (im_tags m)) h" by (simp add: of_host_def instance_row_def)
  then have "refs_ok d'"
    using assms(1,2) d' by (auto simp: refs_ok_def tables_ok_def)
  ultimately show ?thesis by (simp add: tables_ok_def)
qed

lemma rows_kept:
  assumes "\<And>x. g (f x) = g x"
  shows "List.map g (table_update key k f t) = List.map g t" "g ` set (table_update key k f t) = g ` set t"
proof -
  show m: "List.map g (table_update key k f t) = List.map g t"
    unfolding table_update_def by (rule map_update_rows) (rule assms)
  then show "g ` set (table_update key k f t) = g ` set t" by (metis set_map)
qed

lemma drop_instances_jobs:
  "sv_jobs (drop_instances p d) = update_rows (\<lambda>j. \<exists>i \<in> set_option (vj_instance j). i \<in> si_id ` set (filter p (sv_instances d)))
     (\<lambda>j. j\<lparr>vj_instance := None\<rparr>) (sv_jobs d)"
  by (simp add: drop_instances_def Let_def)

lemma drop_instances_ok:
  assumes "tables_ok d"
  shows "tables_ok (drop_instances p d)"
proof -
  let ?d = "drop_instances p d"
  have jobs: "List.map vj_id (sv_jobs ?d) = List.map vj_id (sv_jobs d)"
    unfolding drop_instances_def Let_def by (simp add: map_update_rows)
  have sub: "srv_ids ?d \<subseteq> srv_ids d"
    using jobs by (auto simp: srv_ids_def drop_instances_def Let_def delete_rows_def set_update_rows)
  have "srv_keys_ok ?d"
    using assms jobs sub
    by (auto simp: tables_ok_def srv_keys_ok_def drop_instances_def Let_def distinct_delete_rows map_update_rows)
  moreover have kept: "si_id r \<in> si_id ` set (sv_instances ?d)"
    if "r \<in> set (sv_instances d)" "si_id r \<notin> si_id ` set (filter p (sv_instances d))" for r
    using that by (auto simp: drop_instances_def Let_def delete_rows_def)
  have "refs_ok ?d"
    unfolding refs_ok_def
  proof (intro conjI ballI)
    fix r assume "r \<in> set (sv_instances ?d)"
    then show "\<exists>h \<in> set (sv_hosts ?d). of_host r h"
      using assms by (auto simp: drop_instances_def Let_def delete_rows_def tables_ok_def refs_ok_def)
  next
    fix s assume "s \<in> set (sv_snapshots ?d)"
    then have s: "s \<in> set (sv_snapshots d)" "ss_instance s \<notin> si_id ` set (filter p (sv_instances d))"
      by (auto simp: drop_instances_def Let_def delete_rows_def)
    then show "ss_instance s \<in> si_id ` set (sv_instances ?d)"
      using assms kept by (auto simp: tables_ok_def refs_ok_def)
  next
    fix s assume "s \<in> set (sv_backups ?d)"
    then have s: "s \<in> set (sv_backups d)" "sb_instance s \<notin> si_id ` set (filter p (sv_instances d))"
      by (auto simp: drop_instances_def Let_def delete_rows_def)
    then show "sb_instance s \<in> si_id ` set (sv_instances ?d)"
      using assms kept by (auto simp: tables_ok_def refs_ok_def)
  next
    fix j i assume j: "j \<in> set (sv_jobs ?d)" "i \<in> set_option (vj_instance j)"
    let ?q = "\<lambda>j. \<exists>i \<in> set_option (vj_instance j). i \<in> si_id ` set (filter p (sv_instances d))"
    from j(1) obtain j0 where j0: "j0 \<in> set (sv_jobs d)" "j = (if ?q j0 then j0\<lparr>vj_instance := None\<rparr> else j0)"
      unfolding drop_instances_jobs set_update_rows by blast
    then have "j = j0" "\<not> ?q j0" using j(2) by (auto split: if_splits)
    then have "j0 \<in> set (sv_jobs d)" "i \<in> set_option (vj_instance j0)" "i \<notin> si_id ` set (filter p (sv_instances d))"
      using j0(1) j(2) by blast+
    moreover from this have "i \<in> si_id ` set (sv_instances d)"
      using assms unfolding tables_ok_def refs_ok_def by blast
    ultimately show "i \<in> si_id ` set (sv_instances ?d)"
      using kept by blast
  qed
  ultimately show ?thesis by (simp add: tables_ok_def)
qed

lemma facts_ok:
  assumes "tables_ok d"
  shows "tables_ok (d\<lparr>sv_instances := table_update si_id k (\<lambda>x. x\<lparr>si_facts := f x\<rparr>) (sv_instances d)\<rparr>)"
proof -
  let ?t = "table_update si_id k (\<lambda>x. x\<lparr>si_facts := f x\<rparr>) (sv_instances d)"
  have host: "\<exists>h \<in> set (sv_hosts d). of_host r h" if "r \<in> set ?t" for r
    using that assms by (auto simp: table_update_def set_update_rows tables_ok_def refs_ok_def of_host_def split: if_splits)
  then show ?thesis using assms
    by (auto simp: tables_ok_def srv_keys_ok_def refs_ok_def srv_ids_def rows_kept)
qed

lemma set_job_instance_ok:
  assumes "tables_ok d" "i \<in> si_id ` set (sv_instances d)"
  shows "tables_ok (set_job_instance k i d)"
proof -
  have "\<forall>j \<in> set (sv_jobs (set_job_instance k i d)). \<forall>i \<in> set_option (vj_instance j). i \<in> si_id ` set (sv_instances d)"
    using assms by (auto simp: set_job_instance_def table_update_def set_update_rows tables_ok_def refs_ok_def split: if_splits)
  then show ?thesis using assms(1)
    by (auto simp: set_job_instance_def tables_ok_def srv_keys_ok_def refs_ok_def srv_ids_def rows_kept)
qed

lemma set_server_job_ok:
  assumes "tables_ok d"
  shows "tables_ok (set_server_job k st n e d)"
proof -
  have "\<forall>j \<in> set (sv_jobs (set_server_job k st n e d)). \<forall>i \<in> set_option (vj_instance j). i \<in> si_id ` set (sv_instances d)"
    using assms by (auto simp: set_server_job_def table_update_def set_update_rows tables_ok_def refs_ok_def split: if_splits)
  then show ?thesis using assms
    by (auto simp: set_server_job_def tables_ok_def srv_keys_ok_def refs_ok_def srv_ids_def rows_kept)
qed

lemma store_snapshot_ok:
  assumes "tables_ok d" "r \<in> set (sv_instances d)" "store_snapshot (Some r) m d = Some d'"
  shows "tables_ok d'"
proof -
  obtain p name where d': "d' = d\<lparr>sv_snapshots := insert_row \<lparr>ss_id = digits_of (sv_next d), ss_instance = si_id r,
        ss_pid = p, ss_name = name, ss_status = ''pending''\<rparr> (sv_snapshots d), sv_next := Suc (sv_next d)\<rparr>"
    using assms(3) by (auto simp: store_snapshot_def split: sum.splits)
  have "\<forall>i \<in> srv_ids d'. known (sv_next d') i"
    by (rule known_grown[of d]) (use assms(1) d' in \<open>auto simp: tables_ok_def srv_keys_ok_def srv_ids_def\<close>)
  moreover have "digits_of (sv_next d) \<notin> ss_id ` set (sv_snapshots d)"
    using keys_unused[of d] srv_ids_parts(3)[of d] assms(1) by (auto simp: tables_ok_def)
  ultimately show ?thesis using assms(1,2) d'
    by (auto simp: tables_ok_def srv_keys_ok_def refs_ok_def distinct_insert_row)
qed

lemma store_backup_ok:
  assumes "tables_ok d" "r \<in> set (sv_instances d)" "store_backup (Some r) m d = Some d'"
  shows "tables_ok d'"
proof -
  obtain p where d': "d' = d\<lparr>sv_backups := insert_row \<lparr>sb_id = digits_of (sv_next d), sb_instance = si_id r,
        sb_pid = p, sb_type = bm_type m, sb_status = ''pending''\<rparr> (sv_backups d), sv_next := Suc (sv_next d)\<rparr>"
    using assms(3) by (auto simp: store_backup_def split: sum.splits)
  have "\<forall>i \<in> srv_ids d'. known (sv_next d') i"
    by (rule known_grown[of d]) (use assms(1) d' in \<open>auto simp: tables_ok_def srv_keys_ok_def srv_ids_def\<close>)
  moreover have "digits_of (sv_next d) \<notin> sb_id ` set (sv_backups d)"
    using keys_unused[of d] srv_ids_parts(4)[of d] assms(1) by (auto simp: tables_ok_def)
  ultimately show ?thesis using assms(1,2) d'
    by (auto simp: tables_ok_def srv_keys_ok_def refs_ok_def distinct_insert_row)
qed

lemma unsnap_ok:
  assumes "tables_ok d"
  shows "tables_ok (d\<lparr>sv_snapshots := delete_rows q (sv_snapshots d)\<rparr>)"
proof -
  have "ss_id ` set (delete_rows q (sv_snapshots d)) \<subseteq> ss_id ` set (sv_snapshots d)" by (auto simp: delete_rows_def)
  then show ?thesis using assms
    by (auto simp: tables_ok_def srv_keys_ok_def refs_ok_def srv_ids_def distinct_delete_rows) (auto simp: delete_rows_def)
qed

lemma edit_ok: "srv_edit db d \<Longrightarrow> tables_ok db \<Longrightarrow> tables_ok d"
proof (induction rule: srv_edit.induct)
  case (ed_insert db d h m i d')
  then show ?case using insert_instance_ok by blast
next
  case (ed_link db d i k)
  then show ?case using set_job_instance_ok by blast
next
  case (ed_drop db d p)
  then show ?case using drop_instances_ok by blast
next
  case (ed_facts db d k f)
  then show ?case using facts_ok by blast
next
  case (ed_snapshot db d r sm d')
  then show ?case using store_snapshot_ok by blast
next
  case (ed_backup db d r bm d')
  then show ?case using store_backup_ok by blast
next
  case (ed_unsnap db d q)
  then show ?case using unsnap_ok by blast
qed

lemma count_ok:
  assumes "tables_ok d"
  shows "tables_ok (d\<lparr>sv_next := Suc (sv_next d)\<rparr>)"
proof -
  have "known (Suc (sv_next d)) i" if "i \<in> srv_ids d" for i
    using assms that known_mono[of "sv_next d" i "Suc (sv_next d)"] by (simp add: tables_ok_def srv_keys_ok_def)
  then show ?thesis using assms by (simp add: tables_ok_def srv_keys_ok_def refs_ok_def srv_ids_def)
qed

lemma audit_ok: "tables_ok d \<Longrightarrow> tables_ok (add_server_audit a d)"
  by (simp add: tables_ok_def srv_keys_ok_def refs_ok_def srv_ids_def add_server_audit_def)

lemma create_host_ok:
  assumes "tables_ok d" "create_host b d = Inr (h, d')"
  shows "tables_ok d'"
proof -
  have d': "sh_id h = digits_of (sv_next d)" "d' = d\<lparr>sv_hosts := insert_row h (sv_hosts d), sv_next := Suc (sv_next d)\<rparr>"
    "\<forall>x \<in> set (sv_hosts d). (sh_tenant x, sh_env x, sh_label x) \<noteq> (sh_tenant h, sh_env h, sh_label h)"
    using assms(2) by (auto simp: create_host_def Let_def select_first_None split: if_splits)
  have "\<forall>i \<in> srv_ids d'. known (sv_next d') i"
    by (rule known_grown[of d]) (use assms(1) d' in \<open>auto simp: tables_ok_def srv_keys_ok_def srv_ids_def\<close>)
  moreover have "digits_of (sv_next d) \<notin> sh_id ` set (sv_hosts d)"
    using keys_unused[of d] srv_ids_parts(1)[of d] assms(1) by (auto simp: tables_ok_def)
  ultimately show ?thesis using assms(1) d'
    by (auto simp: tables_ok_def srv_keys_ok_def refs_ok_def distinct_insert_row)
qed

lemma delete_host_ok:
  assumes "tables_ok d" "delete_host k d = Inr d'"
  shows "tables_ok d'"
proof -
  let ?d = "drop_instances (\<lambda>r. si_host r = k) d"
  have ok: "tables_ok ?d" by (rule drop_instances_ok) (rule assms)
  have d': "d' = ?d\<lparr>sv_hosts := delete_rows (\<lambda>x. sh_id x = k) (sv_hosts d)\<rparr>"
    using assms(2) by (auto simp: delete_host_def split: option.splits)
  have same: "sv_hosts ?d = sv_hosts d" by (simp add: drop_instances_def Let_def)
  have "\<exists>h \<in> set (sv_hosts d'). of_host r h" if r: "r \<in> set (sv_instances ?d)" for r
  proof -
    have "si_host r \<noteq> k" using r by (auto simp: drop_instances_def Let_def delete_rows_def)
    moreover obtain h where "h \<in> set (sv_hosts d)" "of_host r h" using ok r same by (auto simp: tables_ok_def refs_ok_def)
    ultimately show ?thesis using d' by (auto simp: of_host_def delete_rows_def)
  qed
  moreover have "sh_id ` set (delete_rows (\<lambda>x. sh_id x = k) (sv_hosts d)) \<subseteq> sh_id ` set (sv_hosts d)"
    by (auto simp: delete_rows_def)
  ultimately show ?thesis using ok d' same
    by (auto simp: tables_ok_def srv_keys_ok_def refs_ok_def srv_ids_def distinct_delete_rows)
qed

lemma new_server_job_ok:
  assumes "tables_ok d" "\<forall>i \<in> set_option inst. i \<in> si_id ` set (sv_instances d)" "new_server_job t e o' p inst d = (i, d')"
  shows "tables_ok d'"
proof -
  obtain j where d': "vj_id j = digits_of (sv_next d)" "vj_instance j = inst"
      "d' = d\<lparr>sv_jobs := insert_row j (sv_jobs d), sv_next := sv_next d + 2\<rparr>"
    by (rule that[of "\<lparr>vj_id = digits_of (sv_next d), vj_tenant = t, vj_env = e, vj_instance = inst, vj_operation = o',
        vj_payload = p, vj_status = ''pending'', vj_attempts = 0, vj_error = None, vj_correlation = digits_of (Suc (sv_next d))\<rparr>"])
      (use assms(3) in \<open>auto simp: new_server_job_def Let_def\<close>)
  have "\<forall>i \<in> srv_ids d'. known (sv_next d') i"
    by (rule known_grown[of d]) (use assms(1) d' in \<open>auto simp: tables_ok_def srv_keys_ok_def srv_ids_def\<close>)
  moreover have "digits_of (sv_next d) \<notin> vj_id ` set (sv_jobs d)"
    using keys_unused[of d] srv_ids_parts(5)[of d] assms(1) by (auto simp: tables_ok_def)
  ultimately show ?thesis using assms(1,2) d'
    by (auto simp: tables_ok_def srv_keys_ok_def refs_ok_def distinct_insert_row)
qed

lemma change_ok: "srv_change db d \<Longrightarrow> tables_ok db \<Longrightarrow> tables_ok d"
proof (induction rule: srv_change.induct)
  case (ch_edit db d)
  then show ?case using edit_ok by blast
next
  case (ch_status db d k st n e)
  then show ?case using set_server_job_ok by blast
next
  case (ch_audit db d a)
  then show ?case using audit_ok by blast
next
  case (ch_count db d)
  then show ?case using count_ok by blast
next
  case (ch_host db d b h d')
  then show ?case using create_host_ok by blast
next
  case (ch_unhost db d k d')
  then show ?case using delete_host_ok by blast
next
  case (ch_job db d inst t e o' p i d')
  then show ?case using new_server_job_ok by blast
next
  case (ch_then db d d')
  then show ?case using edit_ok by blast
qed

section \<open>An execution is a sequence of edits\<close>

lemma edit_hosts: "srv_edit db d \<Longrightarrow> sv_hosts d = sv_hosts db"
  by (induction rule: srv_edit.induct)
    (auto simp: insert_instance_Some set_job_instance_def drop_instances_def Let_def store_snapshot_def store_backup_def
      split: sum.splits)

lemma bare_update_rows: "(\<And>j. bare (f j) = bare j) \<Longrightarrow> List.map bare (update_rows p f t) = List.map bare t"
  by (rule map_update_rows)

lemma edit_jobs: "srv_edit db d \<Longrightarrow> same_jobs db d"
  unfolding same_jobs_def
proof (induction rule: srv_edit.induct)
  case (ed_insert db d h m i d')
  then show ?case by (auto simp: insert_instance_Some)
next
  case (ed_link db d i k)
  have "List.map bare (sv_jobs (set_job_instance k i d)) = List.map bare (sv_jobs d)"
    unfolding set_job_instance_def table_update_def by (simp add: bare_update_rows bare_def)
  with ed_link show ?case by simp
next
  case (ed_drop db d p)
  have "List.map bare (sv_jobs (drop_instances p d)) = List.map bare (sv_jobs d)"
    unfolding drop_instances_jobs by (simp add: bare_update_rows bare_def)
  with ed_drop show ?case by simp
next
  case (ed_snapshot db d r sm d')
  then show ?case by (auto simp: store_snapshot_def split: sum.splits)
next
  case (ed_backup db d r bm d')
  then show ?case by (auto simp: store_backup_def split: sum.splits)
qed simp_all

definition edits :: "srv_db \<Rightarrow> job_end \<times> srv_db \<Rightarrow> bool" where
  "edits db r = (fst r \<noteq> JobBroken \<longrightarrow> srv_edit db (snd r))"

lemma edits_after: "(\<And>v. edits db (f v)) \<Longrightarrow> edits db (fst (after_call db m f s))"
  by (auto simp: after_call_def edits_def ed_refl split: prod.splits sum.splits)

lemma edits_if: "(c \<Longrightarrow> edits db (fst (x s))) \<Longrightarrow> (\<not> c \<Longrightarrow> edits db (fst (y s))) \<Longrightarrow> edits db (fst ((if c then x else y) s))"
  by simp

lemma edits_same: "edits db (e, db)"
  by (simp add: edits_def ed_refl)

lemma edits_stored: "(\<And>d. r = Some d \<Longrightarrow> srv_edit db d) \<Longrightarrow> edits db (done_or_broken p db r)"
  by (simp add: edits_def done_or_broken_def split: option.splits)

lemma sync_edit:
  "srv_edit db0 db \<Longrightarrow> h \<in> set (sv_hosts db) \<Longrightarrow> srv_edit db0 (snd (sync_each h ms n db))"
proof (induction ms arbitrary: n db)
  case (Cons m ms)
  show ?case
  proof (cases "im_id m")
    case (JStr p)
    show ?thesis
    proof (cases "instance_at (sh_id h) p db")
      case None
      show ?thesis
      proof (cases "insert_instance h m db")
        case (Some q)
        obtain i d where q: "q = (i, d)" by (cases q)
        have "srv_edit db0 d" using Some q Cons.prems ed_insert by blast
        moreover have "h \<in> set (sv_hosts d)" using Some q Cons.prems(2) by (auto simp: insert_instance_Some)
        ultimately show ?thesis using Cons.IH Some q JStr None by simp
      qed (use Cons.prems JStr None in simp)
    next
      case (Some r)
      show ?thesis
      proof (cases "facts_of m")
        case (Inr f)
        have "srv_edit db0 (db\<lparr>sv_instances := table_update si_id (si_id r) (\<lambda>x. x\<lparr>si_facts := f\<rparr>) (sv_instances db)\<rparr>)"
          by (rule ed_facts) (rule Cons.prems)
        with Cons.IH Cons.prems(2) Some JStr Inr show ?thesis by simp
      qed (use Cons.prems JStr Some in simp)
    qed
  qed (use Cons.prems in simp_all)
qed simp

lemma edits_sync:
  assumes "h \<in> set (sv_hosts db)"
  shows "edits db (end_of_sync p n (sync_each h ms 0 db))"
  using sync_edit[OF ed_refl assms, of ms 0]
  by (auto simp: edits_def end_of_sync_def split: prod.splits sum.splits option.splits)

lemma insert_link:
  assumes "h \<in> set (sv_hosts db)" "insert_instance h m db = Some (i, d)"
  shows "srv_edit db (set_job_instance k i d)"
proof (rule ed_link)
  show "srv_edit db d" using assms ed_insert ed_refl by blast
  show "i \<in> si_id ` set (sv_instances d)" using assms(2) by (auto simp: insert_instance_Some instance_row_def)
qed

lemma run_operation_edits:
  assumes "h \<in> set (sv_hosts db)" "\<And>r. server = Some r \<Longrightarrow> r \<in> set (sv_instances db)"
  shows "edits db (fst (run_operation ad j h server db s))"
  unfolding run_operation_def Let_def
proof (intro edits_if edits_after edits_same edits_stored edits_sync)
  fix m d
  assume "map_option (\<lambda>(i, db'). set_job_instance (vj_id j) i db') (insert_instance h m db) = Some d"
  then show "srv_edit db d" using insert_link[OF assms(1)] by auto
next
  show "edits db (JobDone (vj_payload j), case server of None \<Rightarrow> db | Some r \<Rightarrow> drop_instances (\<lambda>x. si_id x = si_id r) db)"
    by (auto simp: edits_def intro: ed_refl ed_drop split: option.splits)
next
  show "edits db (JobDone (vj_payload j), store_power (vj_operation j) server db)"
    by (auto simp: edits_def store_power_def intro: ed_refl ed_facts split: option.splits)
next
  fix m d
  assume a: "store_snapshot server m db = Some d"
  then obtain r where "server = Some r" by (auto simp: store_snapshot_def split: option.splits)
  with a assms(2) show "srv_edit db d" using ed_snapshot ed_refl by blast
next
  fix snap :: "srv_snapshot option"
  show "edits db (JobDone (vj_payload j), case snap of None \<Rightarrow> db
      | Some r \<Rightarrow> db\<lparr>sv_snapshots := delete_rows (\<lambda>x. ss_id x = ss_id r) (sv_snapshots db)\<rparr>)"
    by (auto simp: edits_def intro: ed_refl ed_unsnap split: option.splits)
next
  fix m d
  assume a: "store_backup server m db = Some d"
  then obtain r where "server = Some r" by (auto simp: store_backup_def split: option.splits)
  with a assms(2) show "srv_edit db d" using ed_backup ed_refl by blast
qed (rule assms)

lemma execute_edits: "edits db (fst (execute_server_job env j db s))"
proof (cases "bind_res (resolve_host j db) (\<lambda>h. bind_res (host_adapter env h) (\<lambda>ad.
             bind_res (server_of j db) (\<lambda>server. Inr (h, ad, server))))")
  case (Inl e)
  then show ?thesis by (simp add: execute_server_job_def edits_same)
next
  case (Inr q)
  obtain h ad server where q: "q = (h, ad, server)" by (cases q)
  have h: "resolve_host j db = Inr h" "server_of j db = Inr server" using Inr q by (auto simp: bind_res_Inr)
  have look: "h \<in> set (sv_hosts db)" if "host_by_id i db = Some h" for i
    using that by (auto simp: host_by_id_def table_look_def dest: select_first_Some)
  have "h \<in> set (sv_hosts db)"
    using h(1) look by (auto simp: h(2) resolve_host_def bind_res_Inr of_opt_def Let_def by_key_def split: option.splits if_splits json.splits sum.splits)
  moreover have "r \<in> set (sv_instances db)" if "server = Some r" for r
    using h(2) that by (auto simp: server_of_def by_key_def instance_by_id_def table_look_def dest: select_first_Some split: if_splits json.splits)
  ultimately have "edits db (fst (run_operation ad j h server db s))" by (rule run_operation_edits)
  then show ?thesis using Inr q by (simp add: execute_server_job_def)
qed

section \<open>What becomes of a job\<close>

definition job_becomes :: "string \<Rightarrow> string \<Rightarrow> nat \<Rightarrow> string option \<Rightarrow> srv_db \<Rightarrow> srv_db \<Rightarrow> bool" where
  "job_becomes i st n e db db' = (List.map bare (sv_jobs db') =
     table_update vj_id i (\<lambda>k. k\<lparr>vj_status := st, vj_attempts := n, vj_error := e\<rparr>) (List.map bare (sv_jobs db)))"

lemma set_server_job_becomes: "same_jobs db d \<Longrightarrow> job_becomes i st n e db (set_server_job i st n e d)"
  unfolding same_jobs_def job_becomes_def
  by (drule sym) (simp add: set_server_job_def table_update_def update_rows_def bare_def)

lemma job_becomes_twice:
  assumes "job_becomes i st n e db d" "same_jobs d d1" "job_becomes i st' n' e' d1 db'"
  shows "job_becomes i st' n' e' db db'"
  using assms unfolding job_becomes_def same_jobs_def
  by (simp add: table_update_def update_rows_def)

lemma job_becomes_same: "job_becomes i st n e db d \<Longrightarrow> sv_jobs d' = sv_jobs d \<Longrightarrow> job_becomes i st n e db d'"
  by (simp add: job_becomes_def)

definition marked :: "srv_job \<Rightarrow> srv_db \<Rightarrow> srv_db" where
  "marked j db = set_server_job (vj_id j) ''running'' (Suc (vj_attempts j)) (vj_error j) db"

lemma worker_cases:
  assumes "process_server_job env j db s = ((goes_on, ev, db'), s')"
  obtains (brk) d where "execute_server_job env j (marked j db) s = ((JobBroken, d), s')" "\<not> goes_on" "db' = marked j db"
  | (rsd) e d a where "execute_server_job env j (marked j db) s = ((JobRaised e, d), s')" "goes_on" "srv_edit (marked j db) d"
      "db' = add_server_audit a (set_server_job (vj_id j) (status_after_failure (sx_max_attempts env) (Suc (vj_attempts j)))
         (Suc (vj_attempts j)) (Some (take 1000 (exn_text e))) d)"
  | (fin) p d a where "execute_server_job env j (marked j db) s = ((JobDone p, d), s')" "srv_edit (marked j db) d"
      "let d' = set_server_job (vj_id j) ''succeeded'' (Suc (vj_attempts j)) (vj_error j) d in db' = d' \<or> db' = add_server_audit a d'"
proof -
  obtain e d s1 where x: "execute_server_job env j (marked j db) s = ((e, d), s1)" by (metis prod.collapse)
  have ed: "e \<noteq> JobBroken \<Longrightarrow> srv_edit (marked j db) d"
    using execute_edits[of "marked j db" env j s] x by (simp add: edits_def)
  show ?thesis
  proof (cases e)
    case (JobDone p)
    have "\<exists>a. let d' = set_server_job (vj_id j) ''succeeded'' (Suc (vj_attempts j)) (vj_error j) d in db' = d' \<or> db' = add_server_audit a d'"
      using assms x JobDone by (auto simp: process_server_job_def Let_def marked_def[symmetric] split: if_splits)
    moreover have "s1 = s'" using assms x JobDone by (auto simp: process_server_job_def Let_def marked_def[symmetric] split: if_splits)
    ultimately show ?thesis using fin[of p d] x JobDone ed by blast
  next
    case (JobRaised ex)
    show ?thesis
      by (rule rsd[of ex d])
        (use assms x JobRaised ed in \<open>auto simp: process_server_job_def Let_def marked_def[symmetric]\<close>)
  next
    case JobBroken
    show ?thesis
      by (rule brk[of d]) (use assms x JobBroken in \<open>auto simp: process_server_job_def Let_def marked_def[symmetric]\<close>)
  qed
qed

lemma audit_keeps [simp]: "sv_jobs (add_server_audit a d) = sv_jobs d" "sv_instances (add_server_audit a d) = sv_instances d"
  by (simp_all add: add_server_audit_def)

lemma marked_becomes: "job_becomes (vj_id j) ''running'' (Suc (vj_attempts j)) (vj_error j) db (marked j db)"
  unfolding marked_def by (rule set_server_job_becomes) (simp add: same_jobs_def)

lemma finished_becomes:
  assumes "srv_edit (marked j db) d" "sv_jobs db' = sv_jobs (set_server_job (vj_id j) st n e d)"
  shows "job_becomes (vj_id j) st n e db db'"
proof -
  have "job_becomes (vj_id j) st n e d (set_server_job (vj_id j) st n e d)"
    by (rule set_server_job_becomes) (simp add: same_jobs_def)
  then show ?thesis
    using job_becomes_twice[OF marked_becomes edit_jobs[OF assms(1)]] job_becomes_same assms(2) by blast
qed

lemma process_change:
  assumes "process_server_job env j db s = ((goes_on, ev, db'), s')"
  shows "srv_change db db'"
proof -
  have m: "srv_change db (marked j db)" unfolding marked_def by (intro ch_status ch_edit ed_refl)
  from assms show ?thesis
  proof (cases rule: worker_cases)
    case (rsd e d a)
    then show ?thesis using m by (auto intro: ch_audit ch_status ch_then)
  next
    case (fin p d a)
    then show ?thesis using m by (auto simp: Let_def intro: ch_audit ch_status ch_then)
  qed (use m in simp)
qed

text \<open>The three ways a job leaves the worker, over the stored rows.\<close>

definition left_as :: "nat \<Rightarrow> srv_job \<Rightarrow> string \<Rightarrow> string option \<Rightarrow> bool" where
  "left_as most j st e = ((st = ''running'' \<and> e = vj_error j) \<or> (st = ''succeeded'' \<and> e = vj_error j)
     \<or> (st = status_after_failure most (Suc (vj_attempts j)) \<and> (\<exists>m. e = Some m \<and> length m \<le> 1000)))"

lemma process_becomes:
  assumes "process_server_job env j db s = ((goes_on, ev, db'), s')"
  shows "\<exists>st e. left_as (sx_max_attempts env) j st e \<and> job_becomes (vj_id j) st (Suc (vj_attempts j)) e db db'"
  using assms
proof (cases rule: worker_cases)
  case (brk d)
  then show ?thesis using marked_becomes[of j db] by (auto simp: left_as_def)
next
  case (rsd e d a)
  have "job_becomes (vj_id j) (status_after_failure (sx_max_attempts env) (Suc (vj_attempts j))) (Suc (vj_attempts j))
      (Some (take 1000 (exn_text e))) db db'"
    by (rule finished_becomes) (use rsd in simp_all)
  moreover have "left_as (sx_max_attempts env) j (status_after_failure (sx_max_attempts env) (Suc (vj_attempts j))) (Some (take 1000 (exn_text e)))"
    by (simp add: left_as_def)
  ultimately show ?thesis by blast
next
  case (fin p d a)
  have "job_becomes (vj_id j) ''succeeded'' (Suc (vj_attempts j)) (vj_error j) db db'"
    by (rule finished_becomes) (use fin in \<open>auto simp: Let_def\<close>)
  then show ?thesis by (auto simp: left_as_def)
qed

section \<open>Steps\<close>

text \<open>The handlers that write.\<close>

inductive srv_request :: "'s srv_env \<Rightarrow> srv_db \<Rightarrow> srv_db \<Rightarrow> bool" for env where
  rq_host: "create_host b db = Inr (h, db') \<Longrightarrow> srv_request env db db'"
| rq_unhost: "delete_host k db = Inr db' \<Longrightarrow> srv_request env db db'"
| rq_server: "create_server b' db = Inr (i, db') \<Longrightarrow> srv_request env db db'"
| rq_delete: "delete_server k db = Inr (i, db') \<Longrightarrow> srv_request env db db'"
| rq_power: "power_server a k db = Inr (i, db') \<Longrightarrow> srv_request env db db'"
| rq_rebuild: "rebuild_server k os db = Inr (i, db') \<Longrightarrow> srv_request env db db'"
| rq_sync: "sync_servers h' db = Inr (ids, db') \<Longrightarrow> srv_request env db db'"
| rq_snapshot: "create_server_snapshot k name' text' db = Inr (i, db') \<Longrightarrow> srv_request env db db'"
| rq_unsnap: "delete_server_snapshot k n db = Inr (i, db') \<Longrightarrow> srv_request env db db'"
| rq_resnap: "restore_server_snapshot k n db = Inr (i, db') \<Longrightarrow> srv_request env db db'"
| rq_backup: "create_server_backup k db = Inr (i, db') \<Longrightarrow> srv_request env db db'"
| rq_rebackup: "restore_server_backup k n db = Inr (i, db') \<Longrightarrow> srv_request env db db'"
| rq_schedule: "set_server_schedule k n z w mm db = Inr (i, db') \<Longrightarrow> srv_request env db db'"
| rq_disable: "disable_server_backups k db = Inr (i, db') \<Longrightarrow> srv_request env db db'"
| rq_console: "get_console env k db = Inr (u, db') \<Longrightarrow> srv_request env db db'"

definition adds_jobs :: "srv_db \<Rightarrow> srv_db \<Rightarrow> bool" where
  "adds_jobs db db' = (\<exists>new. List.map bare (sv_jobs db') = List.map bare (sv_jobs db) @ new
     \<and> (\<forall>k \<in> set new. vj_status k = ''pending'' \<and> vj_attempts k = 0))"

definition queued :: "srv_db \<Rightarrow> srv_db \<Rightarrow> bool" where
  "queued db db' = (srv_change db db' \<and> adds_jobs db db')"

lemma same_adds: "same_jobs db db' \<Longrightarrow> adds_jobs db db'"
  by (simp add: same_jobs_def adds_jobs_def)

lemma adds_trans: "adds_jobs db d \<Longrightarrow> adds_jobs d d' \<Longrightarrow> adds_jobs db d'"
  unfolding adds_jobs_def by (elim exE conjE) (rule_tac x = "new @ newa" in exI, auto)

lemma change_trans:
  assumes "srv_change d d'"
  shows "srv_change db d \<Longrightarrow> srv_change db d'"
  using assms by (induction rule: srv_change.induct) (auto intro: srv_change.intros)

lemma queued_trans: "queued db d \<Longrightarrow> queued d d' \<Longrightarrow> queued db d'"
  using change_trans adds_trans unfolding queued_def by blast

lemma change_refl: "srv_change db db"
  by (rule ch_edit) (rule ed_refl)

lemma queued_refl: "queued db db"
  by (simp add: queued_def change_refl same_adds same_jobs_def)

lemma new_job_queued:
  assumes "\<forall>i \<in> set_option inst. i \<in> si_id ` set (sv_instances db)" "new_server_job t e o' p inst db = (i, db')"
  shows "queued db db'"
proof -
  have "adds_jobs db db'"
    using assms(2) by (auto simp: new_server_job_def Let_def adds_jobs_def insert_row_def)
  then show ?thesis using ch_job[OF change_refl assms] by (simp add: queued_def)
qed

lemma instance_known: "instance_by_id i db = Some r \<Longrightarrow> i \<in> si_id ` set (sv_instances db)"
  by (auto simp: instance_by_id_def table_look_def dest: select_first_Some)

lemma queue_for_server_queued:
  assumes "queue_for_server k op ex db = Inr (i, db')"
  shows "queued db db'"
proof -
  obtain r where r: "instance_by_id k db = Some r"
    "new_server_job (si_tenant r) (si_env r) op ([(''server_id'', JStr k), (''provider_instance_id'', JStr (si_pid r))] @ ex) (Some k) db = (i, db')"
    using assms by (auto simp: queue_for_server_def get_server_def of_opt_def bind_res_Inr split: option.splits)
  show ?thesis by (rule new_job_queued[OF _ r(2)]) (use instance_known[OF r(1)] in simp)
qed

lemma queue_syncs_queued: "queue_syncs hs ids db = (ids', db') \<Longrightarrow> queued db db'"
proof (induction hs arbitrary: ids db)
  case (Cons h hs)
  obtain i d where n: "new_server_job (sh_tenant h) (sh_env h) ''sync'' [(''host_id'', JStr (sh_id h))] None db = (i, d)" by fastforce
  then have "queued db d" by (intro new_job_queued) auto
  moreover have "queued d db'" using Cons.IH[of "ids @ [i]" d] Cons.prems n by simp
  ultimately show ?case by (rule queued_trans)
qed (simp add: queued_refl)

lemma owned_queued:
  assumes "s \<in> set (sv_snapshots db) \<and> ss_instance s = k \<or> b \<in> set (sv_backups db) \<and> sb_instance b = k" "tables_ok db"
    "new_server_job t e o' p (Some k) db = (i, db')"
  shows "queued db db'"
  by (rule new_job_queued[OF _ assms(3)]) (use assms in \<open>auto simp: tables_ok_def refs_ok_def\<close>)

lemma found_snapshot: "find_snapshot k n db = Inr r \<Longrightarrow> r \<in> set (sv_snapshots db) \<and> ss_instance r = k"
  by (auto simp: find_snapshot_def table_look_def split: option.splits if_splits dest: select_first_Some)

lemma get_console_audit: "get_console env k db = Inr (u, db') \<Longrightarrow> \<exists>a. db' = add_server_audit a (db\<lparr>sv_next := Suc (sv_next db)\<rparr>)"
  unfolding get_console_def bind_res_Inr
  by (elim exE conjE, rename_tac r h, case_tac "host_adapter env h") auto

lemma request_queued:
  assumes "srv_request env db db'" "tables_ok db"
  shows "queued db db'"
  using assms(1)
proof cases
  case (rq_host b h)
  then have "sv_jobs db' = sv_jobs db" by (auto simp: create_host_def Let_def split: if_splits)
  then show ?thesis using ch_host[OF change_refl rq_host] by (simp add: queued_def same_adds same_jobs_def)
next
  case (rq_unhost k)
  then have "same_jobs db db'"
    using edit_jobs[OF ed_drop[OF ed_refl]] by (auto simp: delete_host_def same_jobs_def split: option.splits)
  then show ?thesis using ch_unhost[OF change_refl rq_unhost] by (simp add: queued_def same_adds)
next
  case (rq_server b i)
  then obtain h :: srv_host where "new_server_job (sh_tenant h) (sh_env h) ''create_instance'' (dump_server_create b) None db = (i, db')"
    unfolding create_server_def bind_res_Inr by (auto simp: bind_res_Inr of_opt_def split: if_splits option.splits)
  then show ?thesis using new_job_queued[of None db] by simp
next
  case (rq_sync h ids)
  then show ?thesis
    by (auto simp: sync_servers_def bind_res_Inr Let_def simp del: queue_syncs.simps split: option.splits list.splits if_splits
        intro: queue_syncs_queued)
next
  case (rq_unsnap k n i)
  obtain t e q where o: "owner_of k db = (t, e, q)" by (cases "owner_of k db")
  with rq_unsnap obtain r p where "find_snapshot k n db = Inr r" "new_server_job t e ''delete_snapshot'' p (Some k) db = (i, db')"
    by (auto simp: delete_server_snapshot_def bind_res_Inr)
  then show ?thesis using owned_queued found_snapshot assms(2) by blast
next
  case (rq_resnap k n i)
  obtain t e q where o: "owner_of k db = (t, e, q)" by (cases "owner_of k db")
  with rq_resnap obtain r p where "find_snapshot k n db = Inr r" "new_server_job t e ''restore_snapshot'' p (Some k) db = (i, db')"
    by (auto simp: restore_server_snapshot_def bind_res_Inr)
  then show ?thesis using owned_queued found_snapshot assms(2) by blast
next
  case (rq_rebackup k n i)
  obtain t e q where o: "owner_of k db = (t, e, q)" by (cases "owner_of k db")
  with rq_rebackup obtain r p where "table_look sb_id (sv_backups db) n = Some r" "sb_instance r = k"
      "new_server_job t e ''restore_backup'' p (Some k) db = (i, db')"
    by (auto simp: restore_server_backup_def bind_res_Inr split: option.splits if_splits)
  moreover from this have "r \<in> set (sv_backups db)" by (auto simp: table_look_def dest: select_first_Some)
  ultimately show ?thesis using owned_queued assms(2) by blast
next
  case (rq_console k u)
  note get_console_audit[OF rq_console]
  then obtain a where a: "db' = add_server_audit a (db\<lparr>sv_next := Suc (sv_next db)\<rparr>)" by blast
  then have "srv_change db db'" using ch_audit[OF ch_count[OF change_refl]] by simp
  then show ?thesis using a by (simp add: queued_def same_adds same_jobs_def)
qed (auto simp: delete_server_def power_server_def rebuild_server_def create_server_snapshot_def create_server_backup_def
    set_server_schedule_def disable_server_backups_def split: if_splits dest: queue_for_server_queued)

text \<open>A request, the processing of a loaded job (whose reference may be out of date), or a worker that dies
  after the first commit; the list names the job of an execution.\<close>

inductive srv_step :: "'s srv_env \<Rightarrow> string list \<Rightarrow> srv_db \<Rightarrow> srv_db \<Rightarrow> bool" for env where
  st_request: "srv_request (env' :: 's srv_env) db db' \<Longrightarrow> srv_step env [] db db'"
| st_job: "r \<in> set (sv_jobs db) \<Longrightarrow> vj_status r = ''pending'' \<Longrightarrow> bare j = bare r \<Longrightarrow>
    sx_max_attempts (env' :: 's srv_env) = sx_max_attempts env \<Longrightarrow>
    process_server_job env' j db s = ((goes_on, ev, db'), s') \<Longrightarrow> srv_step env [vj_id r] db db'"
| st_crash: "r \<in> set (sv_jobs db) \<Longrightarrow> vj_status r = ''pending'' \<Longrightarrow> srv_step env [vj_id r] db (marked r db)"

definition empty_srv :: srv_db where
  "empty_srv = \<lparr>sv_hosts = [], sv_instances = [], sv_snapshots = [], sv_backups = [], sv_jobs = [], sv_audits = [], sv_next = 0\<rparr>"

inductive srv_reach :: "'s srv_env \<Rightarrow> string list \<Rightarrow> srv_db \<Rightarrow> bool" for env where
  sr_start: "0 < sx_max_attempts env \<Longrightarrow> srv_reach env [] empty_srv"
| sr_step: "srv_reach env runs db \<Longrightarrow> srv_step env ids db db' \<Longrightarrow> srv_reach env (runs @ ids) db'"

section \<open>Jobs of reachable states\<close>

definition job_fits :: "nat \<Rightarrow> string list \<Rightarrow> srv_job \<Rightarrow> bool" where
  "job_fits most runs j = (vj_status j \<in> {''pending'', ''running'', ''succeeded'', ''failed''}
     \<and> vj_attempts j = count_list runs (vj_id j) \<and> vj_attempts j \<le> most \<and> (vj_status j = ''pending'' \<longrightarrow> vj_attempts j < most))"

definition jobs_fit :: "nat \<Rightarrow> string list \<Rightarrow> srv_db \<Rightarrow> bool" where
  "jobs_fit most runs db = ((\<forall>j \<in> set (List.map bare (sv_jobs db)). job_fits most runs j)
     \<and> set runs \<subseteq> vj_id ` set (sv_jobs db))"

lemma bare_ids: "vj_id ` set (List.map bare js) = vj_id ` set js"
  by (simp add: image_image)

lemma jobs_fit_adds:
  assumes "jobs_fit most runs db" "adds_jobs db db'" "tables_ok db'" "0 < most"
  shows "jobs_fit most runs db'"
proof -
  obtain new where new: "List.map bare (sv_jobs db') = List.map bare (sv_jobs db) @ new"
    "\<And>k. k \<in> set new \<Longrightarrow> vj_status k = ''pending'' \<and> vj_attempts k = 0"
    using assms(2) by (auto simp: adds_jobs_def)
  have ids: "distinct (List.map vj_id (List.map bare (sv_jobs db')))"
    using assms(3) by (simp add: tables_ok_def srv_keys_ok_def comp_def)
  have "vj_id k \<notin> vj_id ` set (sv_jobs db)" if "k \<in> set new" for k
    using ids that unfolding new(1) by (auto simp: image_image)
  then have fresh: "count_list runs (vj_id k) = 0" if "k \<in> set new" for k
    using assms(1) that by (simp add: jobs_fit_def count_list_0_iff) blast
  have "job_fits most runs j" if "j \<in> set (List.map bare (sv_jobs db'))" for j
    using that assms(1,4) new fresh unfolding new(1) by (auto simp: jobs_fit_def job_fits_def)
  moreover have "vj_id ` set (sv_jobs db) \<subseteq> vj_id ` set (sv_jobs db')"
    using new(1) bare_ids[of "sv_jobs db"] bare_ids[of "sv_jobs db'"] by (metis Un_upper1 image_Un set_append)
  ultimately show ?thesis using assms(1) by (auto simp: jobs_fit_def)
qed

lemma jobs_fit_becomes:
  assumes "jobs_fit most runs db" "job_becomes (vj_id j) st (Suc (vj_attempts j)) e db db'" "left_as most j st e"
    "r \<in> set (sv_jobs db)" "vj_status r = ''pending''" "bare j = bare r"
  shows "jobs_fit most (runs @ [vj_id r]) db'"
proof -
  have j: "vj_id j = vj_id r" "vj_attempts j = vj_attempts r" using bare_eqD[OF assms(6)] by simp_all
  have r: "job_fits most runs (bare r)" using assms(1,4) by (simp add: jobs_fit_def)
  have "job_fits most (runs @ [vj_id r]) k" if k: "k \<in> set (List.map bare (sv_jobs db'))" for k
  proof -
    obtain k0 where k0: "k0 \<in> set (List.map bare (sv_jobs db))"
      "k = (if vj_id k0 = vj_id r then k0\<lparr>vj_status := st, vj_attempts := Suc (vj_attempts r), vj_error := e\<rparr> else k0)"
      using k unfolding assms(2)[unfolded job_becomes_def] j table_update_def set_update_rows by blast
    have "job_fits most runs k0" using assms(1) k0(1) unfolding jobs_fit_def by blast
    then show ?thesis
      using k0(2) r assms(3,5) j by (auto simp: job_fits_def left_as_def status_after_failure_def split: if_splits)
  qed
  moreover have "vj_id ` set (List.map bare (sv_jobs db')) = vj_id ` set (List.map bare (sv_jobs db))"
    unfolding assms(2)[unfolded job_becomes_def] by (rule rows_kept(2)) simp
  then have "vj_id ` set (sv_jobs db') = vj_id ` set (sv_jobs db)" by (simp add: image_image)
  ultimately show ?thesis using assms(1,4) by (auto simp: jobs_fit_def)
qed

lemma step_ok:
  assumes "srv_step env ids db db'" "tables_ok db" "jobs_fit (sx_max_attempts env) runs db" "0 < sx_max_attempts env"
  shows "tables_ok db' \<and> jobs_fit (sx_max_attempts env) (runs @ ids) db'"
  using assms(1)
proof cases
  case (st_request env')
  then have "queued db db'" using request_queued assms(2) by blast
  then show ?thesis using change_ok jobs_fit_adds assms st_request by (auto simp: queued_def)
next
  case (st_job r j env' s goes_on ev s')
  obtain st e where "left_as (sx_max_attempts env) j st e" "job_becomes (vj_id j) st (Suc (vj_attempts j)) e db db'"
    using process_becomes[OF st_job(6)] st_job(5) by auto
  then have "jobs_fit (sx_max_attempts env) (runs @ [vj_id r]) db'"
    using jobs_fit_becomes assms(3) st_job by blast
  moreover have "tables_ok db'" using change_ok[OF process_change[OF st_job(6)] assms(2)] .
  ultimately show ?thesis using st_job(1) by simp
next
  case (st_crash r)
  have "left_as (sx_max_attempts env) r ''running'' (vj_error r)" by (simp add: left_as_def)
  then have "jobs_fit (sx_max_attempts env) (runs @ [vj_id r]) db'"
    using jobs_fit_becomes[OF assms(3)] marked_becomes[of r db] st_crash by blast
  then show ?thesis using st_crash set_server_job_ok assms(2) by (simp add: marked_def)
qed

lemma reach_ok: "srv_reach env runs db \<Longrightarrow> tables_ok db \<and> jobs_fit (sx_max_attempts env) runs db \<and> 0 < sx_max_attempts env"
proof (induction rule: srv_reach.induct)
  case sr_start
  then show ?case by (simp add: empty_srv_def tables_ok_def srv_keys_ok_def refs_ok_def srv_ids_def jobs_fit_def)
next
  case (sr_step runs db ids db')
  then show ?case using step_ok by blast
qed

lemma other_job_kept:
  assumes "job_becomes i st n e db db'" "r \<in> set (sv_jobs db)" "vj_id r \<noteq> i"
  shows "\<exists>r' \<in> set (sv_jobs db'). bare r' = bare r"
proof -
  have "bare r \<in> set (List.map bare (sv_jobs db'))"
    unfolding assms(1)[unfolded job_becomes_def] table_update_def set_update_rows
    by (rule bexI[of _ "bare r"]) (use assms(2,3) in auto)
  then show ?thesis by auto
qed

text \<open>A whole batch of the worker leads to a reachable state again.\<close>

lemma process_batch_reach:
  assumes "srv_reach env runs db" "sx_max_attempts (env' :: 's srv_env) = sx_max_attempts (env :: 's srv_env)" "distinct (List.map vj_id js)"
    and "\<And>j. j \<in> set js \<Longrightarrow> \<exists>r \<in> set (sv_jobs db). vj_status r = ''pending'' \<and> bare j = bare r"
    and "process_batch env' js ev db s = ((ev', db'), s')"
  shows "\<exists>more. srv_reach env (runs @ more) db'"
  using assms(1,3-5)
proof (induction js arbitrary: runs ev db s)
  case Nil
  then show ?case by (intro exI[of _ "[]"]) simp
next
  case (Cons j js)
  obtain r where r: "r \<in> set (sv_jobs db)" "vj_status r = ''pending''" "bare j = bare r" using Cons.prems(3)[of j] by auto
  obtain goes_on ev1 db1 s1 where p: "process_server_job env' j db s = ((goes_on, ev1, db1), s1)" by (metis prod.collapse)
  have reach: "srv_reach env (runs @ [vj_id r]) db1"
    using sr_step[OF Cons.prems(1) st_job[OF r(1,2,3) assms(2) p]] .
  show ?case
  proof (cases goes_on)
    case True
    have rest: "\<exists>r \<in> set (sv_jobs db1). vj_status r = ''pending'' \<and> bare k = bare r" if k: "k \<in> set js" for k
    proof -
      obtain q where q: "q \<in> set (sv_jobs db)" "vj_status q = ''pending''" "bare k = bare q" using Cons.prems(3)[of k] k by auto
      have "vj_id q \<noteq> vj_id j" using Cons.prems(2) imageI[OF k, of vj_id] bare_eqD[OF q(3)] by auto
      then obtain q' where "q' \<in> set (sv_jobs db1)" "bare q' = bare q"
        using other_job_kept q(1) process_becomes[OF p] by blast
      then show ?thesis using q bare_eqD by metis
    qed
    have "process_batch env' js (ev @ ev1) db1 s1 = ((ev', db'), s')" using Cons.prems(4) p True by simp
    from Cons.IH[OF reach _ rest this] Cons.prems(2) obtain more where "srv_reach env ((runs @ [vj_id r]) @ more) db'" by auto
    then show ?thesis by (metis append.assoc)
  next
    case False
    then have "db' = db1" using Cons.prems(4) p by simp
    then show ?thesis using reach by blast
  qed
qed

lemma process_pending_reach:
  assumes "srv_reach env runs db" "sx_max_attempts (env' :: 's srv_env) = sx_max_attempts (env :: 's srv_env)" "process_pending_jobs env' db s = ((ev, db'), s')"
  shows "\<exists>more. srv_reach env (runs @ more) db'"
proof (rule process_batch_reach[OF assms(1,2) _ _ assms(3)[unfolded process_pending_jobs_def]])
  have "distinct (List.map vj_id (sv_jobs db))" using reach_ok[OF assms(1)] by (simp add: tables_ok_def srv_keys_ok_def)
  then show "distinct (List.map vj_id (pending_jobs db))"
    by (simp add: pending_jobs_def select_all_def take_map[symmetric] distinct_map_filter)
  show "\<exists>r \<in> set (sv_jobs db). vj_status r = ''pending'' \<and> bare j = bare r" if "j \<in> set (pending_jobs db)" for j
    using that by (auto simp: pending_jobs_def select_all_def dest!: in_set_takeD)
qed

section \<open>What an import leaves\<close>

definition newest_meta :: "string \<Rightarrow> instance_meta list \<Rightarrow> instance_meta option" where
  "newest_meta p ms = List.find (\<lambda>m. im_id m = JStr p) (rev ms)"

lemma find_snoc: "List.find P (xs @ [x]) = (case List.find P xs of Some y \<Rightarrow> Some y | None \<Rightarrow> if P x then Some x else None)"
  by (induction xs) auto

lemma newest_meta_simps [simp]:
  "newest_meta p [] = None"
  "newest_meta p (m # ms) = (case newest_meta p ms of Some m' \<Rightarrow> Some m' | None \<Rightarrow> if im_id m = JStr p then Some m else None)"
  by (simp_all add: newest_meta_def find_snoc)

text \<open>A row that holds what was reported: of an old row only the facts are new.\<close>

definition reports :: "srv_host \<Rightarrow> srv_instance option \<Rightarrow> instance_meta \<Rightarrow> srv_instance option \<Rightarrow> bool" where
  "reports h old m new = (case new of None \<Rightarrow> False | Some r \<Rightarrow> facts_of m = Inr (si_facts r) \<and>
     (case old of Some r0 \<Rightarrow> r = r0\<lparr>si_facts := si_facts r\<rparr> | None \<Rightarrow> of_host r h \<and> im_id m = JStr (si_pid r)))"

lemma facts_only:
  "r = r0\<lparr>si_facts := f\<rparr> \<Longrightarrow> si_host r = si_host r0 \<and> si_tenant r = si_tenant r0 \<and> si_env r = si_env r0
     \<and> si_provider r = si_provider r0 \<and> si_pid r = si_pid r0 \<and> si_facts r = f"
  by simp

lemma facts_twice: "r = r1\<lparr>si_facts := f\<rparr> \<Longrightarrow> r1 = r0\<lparr>si_facts := g\<rparr> \<Longrightarrow> r = r0\<lparr>si_facts := f\<rparr>"
  by simp

lemma reports_again:
  assumes "reports h old m (Some r1)" "reports h (Some r1) m' (Some r)" "im_id m' = im_id m"
  shows "reports h old m' (Some r)"
proof (cases old)
  case None
  then show ?thesis using assms facts_only[of r "si_facts r" r1] by (simp add: reports_def of_host_def)
next
  case (Some r0)
  then show ?thesis using assms facts_twice[of r "si_facts r" r1 "si_facts r1" r0] by (simp add: reports_def)
qed

lemma instance_at_Some: "instance_at h p db = Some r \<Longrightarrow> r \<in> set (sv_instances db) \<and> si_host r = h \<and> si_pid r = p"
  by (auto simp: instance_at_def dest: select_first_Some)

lemma facts_at:
  assumes "tables_ok db" "instance_at h p db = Some r"
  shows "instance_at h' q (db\<lparr>sv_instances := table_update si_id (si_id r) (\<lambda>x. x\<lparr>si_facts := f\<rparr>) (sv_instances db)\<rparr>)
     = (if (h', q) = (h, p) then Some (r\<lparr>si_facts := f\<rparr>) else instance_at h' q db)"
proof -
  have upd: "instance_at h' q (db\<lparr>sv_instances := table_update si_id (si_id r) (\<lambda>x. x\<lparr>si_facts := f\<rparr>) (sv_instances db)\<rparr>)
     = map_option (\<lambda>x. if si_id x = si_id r then x\<lparr>si_facts := f\<rparr> else x) (instance_at h' q db)"
    unfolding instance_at_def table_update_def by (simp add: select_first_update)
  show ?thesis
  proof (cases "(h', q) = (h, p)")
    case False
    have "si_id x \<noteq> si_id r" if x: "instance_at h' q db = Some x" for x
    proof
      assume "si_id x = si_id r"
      then have "x = r"
        using instance_at_Some[OF x] instance_at_Some[OF assms(2)] assms(1)
        by (auto simp: tables_ok_def srv_keys_ok_def distinct_map dest: inj_onD)
      then show False using instance_at_Some[OF x] instance_at_Some[OF assms(2)] False by auto
    qed
    then show ?thesis using False upd by (cases "instance_at h' q db") auto
  qed (use upd assms(2) in auto)
qed

lemma inserted_at:
  assumes "insert_instance h m db = Some (i, d)" "im_id m = JStr p"
  shows "instance_at h' q d = (if (h', q) = (sh_id h, p) then Some (instance_row i h p (projr (facts_of m)) (im_tags m)) else instance_at h' q db)"
proof -
  obtain f where f: "facts_of m = Inr f" "instance_at (sh_id h) p db = None" "sv_instances d = insert_row (instance_row i h p f (im_tags m)) (sv_instances db)"
    using assms by (auto simp: insert_instance_Some string_col_def split: if_splits)
  then show ?thesis
    by (auto simp: instance_at_def instance_row_def split: option.splits)
qed

lemma sync_each_spec:
  assumes "sync_each h ms n db = (Inl added, db')" "tables_ok db" "h \<in> set (sv_hosts db)"
  shows "(\<forall>q. case newest_meta q ms of
            None \<Rightarrow> instance_at (sh_id h) q db' = instance_at (sh_id h) q db
          | Some m \<Rightarrow> reports h (instance_at (sh_id h) q db) m (instance_at (sh_id h) q db'))
       \<and> (\<forall>h' q. h' \<noteq> sh_id h \<longrightarrow> instance_at h' q db' = instance_at h' q db)"
  using assms
proof (induction ms arbitrary: n db)
  case (Cons m ms)
  obtain p where p: "im_id m = JStr p" using Cons.prems(1) by (cases "im_id m") auto
  obtain d k where d: "sync_each h ms k d = (Inl added, db')" "srv_edit db d"
    and at: "\<And>h' q. instance_at h' q d = (if (h', q) = (sh_id h, p) then instance_at (sh_id h) p d else instance_at h' q db)"
    and rep: "reports h (instance_at (sh_id h) p db) m (instance_at (sh_id h) p d)"
  proof (cases "instance_at (sh_id h) p db")
    case None
    then obtain i d where i: "insert_instance h m db = Some (i, d)" "sync_each h ms (Suc n) d = (Inl added, db')"
      using Cons.prems(1) p by (auto split: option.splits)
    obtain f where f: "facts_of m = Inr f" using i(1) by (auto simp: insert_instance_Some)
    show ?thesis
      by (rule that[OF i(2)])
        (use i Cons.prems(3) None p f in \<open>auto simp: inserted_at[OF i(1) p] reports_def instance_row_def of_host_def
          intro: ed_insert[OF ed_refl]\<close>)
  next
    case (Some r)
    obtain f where f: "facts_of m = Inr f" using Cons.prems(1) p Some by (cases "facts_of m") auto
    let ?d = "db\<lparr>sv_instances := table_update si_id (si_id r) (\<lambda>x. x\<lparr>si_facts := f\<rparr>) (sv_instances db)\<rparr>"
    have next_run: "sync_each h ms n ?d = (Inl added, db')" using Cons.prems(1) p Some f by simp
    have ed: "srv_edit db ?d" by (intro ed_facts ed_refl)
    show ?thesis
      by (rule that[OF next_run ed]) (use Some f in \<open>auto simp: facts_at[OF Cons.prems(2) Some] reports_def\<close>)
  qed
  have hosts: "h \<in> set (sv_hosts d)" using edit_hosts[OF d(2)] Cons.prems(3) by simp
  note IH = Cons.IH[OF d(1) edit_ok[OF d(2) Cons.prems(2)] hosts]
  have "case newest_meta q (m # ms) of
            None \<Rightarrow> instance_at (sh_id h) q db' = instance_at (sh_id h) q db
          | Some m \<Rightarrow> reports h (instance_at (sh_id h) q db) m (instance_at (sh_id h) q db')" for q
  proof (cases "newest_meta q ms")
    case None
    then have "instance_at (sh_id h) q db' = instance_at (sh_id h) q d"
      using conjunct1[OF IH, rule_format, of q] by simp
    then show ?thesis using None at[of "sh_id h" q] rep p by (cases "q = p") auto
  next
    case (Some m')
    then have r': "reports h (instance_at (sh_id h) q d) m' (instance_at (sh_id h) q db')"
      using conjunct1[OF IH, rule_format, of q] by simp
    have "reports h (instance_at (sh_id h) q db) m' (instance_at (sh_id h) q db')"
    proof (cases "q = p")
      case True
      have pid: "im_id m' = JStr p" using Some True by (auto simp: newest_meta_def find_Some_iff)
      obtain r1 r2 where "instance_at (sh_id h) p d = Some r1" "instance_at (sh_id h) q db' = Some r2"
        using r' rep by (auto simp: reports_def split: option.splits)
      then show ?thesis using r' rep True p pid reports_again[of h _ m r1 m' r2] by simp
    next
      case False
      then show ?thesis using r' at[of "sh_id h" q] by simp
    qed
    then show ?thesis using Some by simp
  qed
  moreover have "instance_at h' q db' = instance_at h' q db" if "h' \<noteq> sh_id h" for h' q
    using conjunct2[OF IH] that at[of h' q] by simp
  ultimately show ?case by blast
qed simp

section \<open>Properties\<close>

lemma look_key: "table_look key t k = Some r \<Longrightarrow> key r = k"
  by (auto simp: table_look_def dest: select_first_Some)

lemma look_distinct: "distinct (List.map key t) \<Longrightarrow> r \<in> set t \<Longrightarrow> table_look key t (key r) = Some r"
  by (induction t) (auto simp: table_look_def)

lemma jobs_look:
  assumes "job_becomes i st n e db db'"
  shows "map_option bare (table_look vj_id (sv_jobs db') k) =
     map_option (\<lambda>x. if vj_id x = i then (bare x)\<lparr>vj_status := st, vj_attempts := n, vj_error := e\<rparr> else bare x) (table_look vj_id (sv_jobs db) k)"
proof -
  have bare: "map_option bare (table_look vj_id t k) = table_look vj_id (List.map bare t) k" for t
    by (induction t) (auto simp: table_look_def)
  have "table_look vj_id (List.map bare (sv_jobs db')) k =
      map_option (\<lambda>x. if vj_id x = i then x\<lparr>vj_status := st, vj_attempts := n, vj_error := e\<rparr> else x) (table_look vj_id (List.map bare (sv_jobs db)) k)"
    unfolding assms[unfolded job_becomes_def] table_look_def table_update_def by (rule select_first_update) simp
  then show ?thesis unfolding bare[symmetric] by (simp add: option.map_comp comp_def if_distrib)
qed

text \<open>C28: In every reachable state the tables of the server agent are sound: identifiers are unique in each
  table, labels of hosts are unique in a tenant and environment, an instance of a provider is stored once per
  host and carries the tenant, environment and provider of its host, snapshots, backups and the references of
  jobs belong to stored instances, and every job has one of the four states, was attempted at most the
  configured number of times, and while pending fewer times.\<close>

theorem reachable_servers_ok:
  assumes "srv_reach env runs db"
  shows "srv_keys_ok db \<and> refs_ok db \<and> (\<forall>j \<in> set (sv_jobs db).
     vj_status j \<in> {''pending'', ''running'', ''succeeded'', ''failed''} \<and> vj_attempts j \<le> sx_max_attempts env
     \<and> (vj_status j = ''pending'' \<longrightarrow> vj_attempts j < sx_max_attempts env))"
  using reach_ok[OF assms] by (auto simp: tables_ok_def jobs_fit_def job_fits_def)

text \<open>No job is executed more often than the configured number of attempts, crashes of the worker
  included, and the counter of a job is the number of its executions.\<close>

theorem executions_bounded:
  assumes "srv_reach env runs db"
  shows "count_list runs i \<le> sx_max_attempts env \<and> (\<forall>j \<in> set (sv_jobs db). vj_attempts j = count_list runs (vj_id j))"
proof -
  have fit: "jobs_fit (sx_max_attempts env) runs db" using reach_ok[OF assms] by simp
  have "count_list runs i \<le> sx_max_attempts env"
  proof (cases "i \<in> set runs")
    case True
    then obtain j where "j \<in> set (sv_jobs db)" "vj_id j = i" using fit by (auto simp: jobs_fit_def)
    then show ?thesis using fit by (auto simp: jobs_fit_def job_fits_def)
  qed (simp add: count_list_0_iff)
  then show ?thesis using fit by (auto simp: jobs_fit_def job_fits_def)
qed

text \<open>The worker leaves the job it processes in one of three states, with the attempt counted: succeeded
  after an execution without an exception; after an exception pending again, or failed at the last attempt,
  with at most a thousand characters of its text; and running, with nothing else changed and the rest of the
  batch abandoned, when a flush of the execution fails.  No other job changes but for its reference.\<close>

theorem server_job_outcome:
  assumes "tables_ok db" "r \<in> set (sv_jobs db)" "bare j = bare r"
    and "process_server_job env j db s = ((goes_on, ev, db'), s')"
  shows "\<exists>r' how d. table_look vj_id (sv_jobs db') (vj_id r) = Some r' \<and> vj_attempts r' = Suc (vj_attempts r)
     \<and> fst (execute_server_job env j (marked j db) s) = (how, d)
     \<and> (case how of
          JobDone p \<Rightarrow> vj_status r' = ''succeeded''
        | JobRaised e \<Rightarrow> goes_on \<and> vj_error r' = Some (take 1000 (exn_text e))
            \<and> vj_status r' = (if Suc (vj_attempts r) \<ge> sx_max_attempts env then ''failed'' else ''pending'')
        | JobBroken \<Rightarrow> \<not> goes_on \<and> vj_status r' = ''running'' \<and> db' = marked j db)
     \<and> (\<forall>k. k \<noteq> vj_id r \<longrightarrow> map_option bare (table_look vj_id (sv_jobs db') k) = map_option bare (table_look vj_id (sv_jobs db) k))"
proof -
  have j: "vj_id j = vj_id r" "vj_attempts j = vj_attempts r" "vj_error j = vj_error r" using bare_eqD[OF assms(3)] by simp_all
  have r: "table_look vj_id (sv_jobs db) (vj_id r) = Some r"
    using assms(1,2) by (simp add: look_distinct tables_ok_def srv_keys_ok_def)
  have left: "\<exists>r'. table_look vj_id (sv_jobs db') (vj_id r) = Some r' \<and> vj_attempts r' = Suc (vj_attempts r) \<and> vj_status r' = st \<and> vj_error r' = e
      \<and> (\<forall>k. k \<noteq> vj_id r \<longrightarrow> map_option bare (table_look vj_id (sv_jobs db') k) = map_option bare (table_look vj_id (sv_jobs db) k))"
    if b: "job_becomes (vj_id j) st (Suc (vj_attempts j)) e db db'" for st e
  proof -
    have "map_option bare (table_look vj_id (sv_jobs db') (vj_id r)) = Some ((bare r)\<lparr>vj_status := st, vj_attempts := Suc (vj_attempts r), vj_error := e\<rparr>)"
      using jobs_look[OF b, of "vj_id r"] r j by simp
    then obtain r' where r': "table_look vj_id (sv_jobs db') (vj_id r) = Some r'"
        "bare r' = (bare r)\<lparr>vj_status := st, vj_attempts := Suc (vj_attempts r), vj_error := e\<rparr>" by auto
    have "vj_attempts r' = Suc (vj_attempts r)" "vj_status r' = st" "vj_error r' = e"
      using arg_cong[OF r'(2), of vj_attempts] arg_cong[OF r'(2), of vj_status] arg_cong[OF r'(2), of vj_error] by simp_all
    moreover have "map_option bare (table_look vj_id (sv_jobs db') k) = map_option bare (table_look vj_id (sv_jobs db) k)" if "k \<noteq> vj_id r" for k
      using jobs_look[OF b, of k] that j look_key[of vj_id "sv_jobs db" k] by (cases "table_look vj_id (sv_jobs db) k") auto
    ultimately show ?thesis using r'(1) by blast
  qed
  from assms(4) show ?thesis
  proof (cases rule: worker_cases)
    case (brk d)
    then show ?thesis using left[OF marked_becomes[of j db, folded brk(3)]] by fastforce
  next
    case (rsd e d a)
    have "job_becomes (vj_id j) (status_after_failure (sx_max_attempts env) (Suc (vj_attempts j))) (Suc (vj_attempts j))
        (Some (take 1000 (exn_text e))) db db'"
      by (rule finished_becomes) (use rsd in simp_all)
    from left[OF this] rsd(1,2) j show ?thesis by (fastforce simp: status_after_failure_def)
  next
    case (fin p d a)
    have "job_becomes (vj_id j) ''succeeded'' (Suc (vj_attempts j)) (vj_error j) db db'"
      by (rule finished_becomes) (use fin in \<open>auto simp: Let_def\<close>)
    from left[OF this] fin(1) show ?thesis by fastforce
  qed
qed

text \<open>A job that is not pending is never touched again by any handler, execution or crash, except that its
  reference to an instance may be emptied; so a job the worker left running stays running for good.\<close>

theorem settled_job_stays:
  assumes "srv_step env ids db db'" "tables_ok db" "j \<in> set (sv_jobs db)" "vj_status j \<noteq> ''pending''"
  shows "vj_id j \<notin> set ids \<and> (\<exists>j' \<in> set (sv_jobs db'). bare j' = bare j)"
proof -
  have other: "vj_id j \<noteq> vj_id r" if "r \<in> set (sv_jobs db)" "vj_status r = ''pending''" for r
    using assms(2-4) that by (auto simp: tables_ok_def srv_keys_ok_def distinct_map dest: inj_onD)
  note becomes = other_job_kept[OF _ assms(3)]
  from assms(1) show ?thesis
  proof cases
    case (st_request env')
    then obtain new where "List.map bare (sv_jobs db') = List.map bare (sv_jobs db) @ new"
      using request_queued[OF st_request(2) assms(2)] by (auto simp: queued_def adds_jobs_def)
    then have "bare j \<in> set (List.map bare (sv_jobs db'))" using assms(3) by simp
    then show ?thesis using st_request by auto
  next
    case (st_job r j0 env' s goes_on ev s')
    then obtain st e where "job_becomes (vj_id j0) st (Suc (vj_attempts j0)) e db db'" using process_becomes[OF st_job(6)] by blast
    then show ?thesis using becomes other[OF st_job(2,3)] bare_eqD[OF st_job(4)] st_job(1) by auto
  next
    case (st_crash r)
    then show ?thesis using becomes marked_becomes[of r db] other[OF st_crash(3,4)] by auto
  qed
qed

text \<open>After an import from a host that succeeds, every instance the provider reported is stored under the host
  with what was reported last; a row that was there keeps its identity and tags, a new one has the tenant,
  environment and provider of the host; no other row of any host changes, so an instance the provider no
  longer reports stays.\<close>

theorem sync_outcome:
  assumes "tables_ok db" "h \<in> set (sv_hosts db)" "vj_operation j = ''sync''" "sa_list ad s = (Inr ms, s')"
    and "run_operation ad j h server db s = ((JobDone p, db'), s'')"
  shows "(\<forall>q. case newest_meta q ms of
            None \<Rightarrow> instance_at (sh_id h) q db' = instance_at (sh_id h) q db
          | Some m \<Rightarrow> reports h (instance_at (sh_id h) q db) m (instance_at (sh_id h) q db'))
       \<and> (\<forall>h' q. h' \<noteq> sh_id h \<longrightarrow> instance_at h' q db' = instance_at h' q db)"
proof -
  have "end_of_sync (vj_payload j) (length ms) (sync_each h ms 0 db) = (JobDone p, db')"
    using assms(3-5) by (simp add: run_operation_def Let_def after_call_def)
  then obtain added where "sync_each h ms 0 db = (Inl added, db')"
    by (auto simp: end_of_sync_def split: prod.splits sum.splits option.splits)
  then show ?thesis using sync_each_spec assms(1,2) by blast
qed

section \<open>Witnesses\<close>

definition srv_demo_env :: "unit srv_env" where
  "srv_demo_env = \<lparr>sx_show = (\<lambda>_. []), sx_http = (\<lambda>q s. (POFailure (PyError ''ConnectError'' ''refused''), s)),
     sx_vultr_base = ''https://api'', sx_listing = (\<lambda>_. Inr (200, Inr (JList [JObj [(''alias'', JStr ''a''), (''id'', JStr ''s'')]]))),
     sx_read = (\<lambda>_. Inr (200, Inr (JObj [(''value'', JStr ''k'')]))), sx_max_attempts = 3\<rparr>"

definition demo_host :: srv_host where
  "demo_host = \<lparr>sh_id = ''0'', sh_tenant = ''t'', sh_env = ''prod'', sh_provider = ''vultr'', sh_label = ''h'', sh_config = [],
     sh_active = True, sh_alias = ''a''\<rparr>"

definition demo_hosted :: srv_db where
  "demo_hosted = empty_srv\<lparr>sv_hosts := [demo_host], sv_next := 1\<rparr>"

definition demo_sync :: srv_job where
  "demo_sync = \<lparr>vj_id = ''1'', vj_tenant = ''t'', vj_env = ''prod'', vj_instance = None, vj_operation = ''sync'',
     vj_payload = [(''host_id'', JStr ''0'')], vj_status = ''pending'', vj_attempts = 0, vj_error = None, vj_correlation = ''2''\<rparr>"

definition demo_queued :: srv_db where
  "demo_queued = demo_hosted\<lparr>sv_jobs := [demo_sync], sv_next := 3\<rparr>"

lemma demo_digits [simp]: "digits_of 0 = ''0''" "digits_of 1 = ''1''" "digits_of (Suc 0) = ''1''" "digits_of 2 = ''2''" "digits_of (Suc (Suc 0)) = ''2''"
  by code_simp+

lemma demo_queued_reach: "srv_reach srv_demo_env [] demo_queued"
proof -
  have 1: "create_host \<lparr>hc_tenant = ''t'', hc_env = ''prod'', hc_provider = ''vultr'', hc_label = ''h'', hc_config = [], hc_alias = ''a''\<rparr>
      empty_srv = Inr (demo_host, demo_hosted)"
    by (simp add: create_host_def check_host_create_def short_text_def empty_srv_def demo_hosted_def demo_host_def insert_row_def Let_def)
  have 2: "sync_servers None demo_hosted = Inr ([''1''], demo_queued)"
    by (simp add: sync_servers_def demo_hosted_def demo_queued_def empty_srv_def select_all_def demo_host_def new_server_job_def
        insert_row_def demo_sync_def Let_def)
  have "srv_reach srv_demo_env ([] @ []) demo_hosted"
    by (rule sr_step[OF sr_start st_request[OF rq_host[OF 1, of srv_demo_env]]]) (simp add: srv_demo_env_def)
  then have "srv_reach srv_demo_env ([] @ []) demo_queued"
    by (intro sr_step[OF _ st_request[OF rq_sync[OF 2, of srv_demo_env]]]) simp
  then show ?thesis by simp
qed

lemma demo_tables: "tables_ok demo_queued"
  using reach_ok[OF demo_queued_reach] by simp

lemma demo_pending: "demo_sync \<in> set (sv_jobs demo_queued)" "vj_status demo_sync = ''pending''"
  by (simp_all add: demo_queued_def demo_sync_def)

lemma demo_crash: "srv_step srv_demo_env [''1''] demo_queued (marked demo_sync demo_queued)"
  using st_crash[OF demo_pending, of srv_demo_env] by (simp add: demo_sync_def)

lemma demo_crashed_reach: "srv_reach srv_demo_env [''1''] (marked demo_sync demo_queued)"
  using sr_step[OF demo_queued_reach demo_crash] by simp

lemma demo_crashed_jobs: "sv_jobs (marked demo_sync demo_queued) = [demo_sync\<lparr>vj_status := ''running'', vj_attempts := 1\<rparr>]"
  by (simp add: marked_def set_server_job_def table_update_def update_rows_def demo_queued_def demo_sync_def)

theorem reachable_servers_ok_witness:
  "srv_keys_ok (marked demo_sync demo_queued) \<and> map vj_status (sv_jobs (marked demo_sync demo_queued)) = [''running'']"
  using reachable_servers_ok[OF demo_crashed_reach] by (simp add: demo_crashed_jobs)

theorem executions_bounded_witness: "count_list [''1''] ''1'' \<le> sx_max_attempts srv_demo_env"
  using executions_bounded[OF demo_crashed_reach, of "''1''"] by simp

lemma demo_raised:
  "fst (fst (process_server_job srv_demo_env demo_sync demo_queued ())) = True"
  "fst (fst (execute_server_job srv_demo_env demo_sync (marked demo_sync demo_queued) ())) = JobRaised (PyError ''ConnectError'' ''refused'')"
  by code_simp+

theorem server_job_outcome_witness:
  "\<exists>r'. table_look vj_id (sv_jobs (snd (snd (fst (process_server_job srv_demo_env demo_sync demo_queued ()))))) ''1'' = Some r'
     \<and> vj_attempts r' = 1 \<and> vj_status r' = ''pending'' \<and> vj_error r' = Some ''refused''"
proof -
  obtain b ev db' s' where d: "process_server_job srv_demo_env demo_sync demo_queued () = ((b, ev, db'), s')"
    by (metis prod.collapse)
  note out = server_job_outcome[OF demo_tables demo_pending(1) refl d]
  have f: "vj_id demo_sync = ''1''" "vj_attempts demo_sync = 0" "sx_max_attempts srv_demo_env = 3"
    by (simp_all add: demo_sync_def srv_demo_env_def)
  show ?thesis using out demo_raised(2) f by (auto simp: d)
qed

theorem settled_job_stays_witness:
  "\<exists>db' j'. sync_servers None (marked demo_sync demo_queued) = Inr ([''3''], db') \<and> j' \<in> set (sv_jobs db') \<and> vj_status j' = ''running''"
proof -
  obtain db' where q: "sync_servers None (marked demo_sync demo_queued) = Inr ([''3''], db')"
  proof -
    have "digits_of 3 = ''3''" "digits_of (Suc 3) = ''4''" by code_simp+
    then show ?thesis
      by (intro that[of "snd (projr (sync_servers None (marked demo_sync demo_queued)))"])
        (simp add: sync_servers_def marked_def set_server_job_def demo_queued_def demo_hosted_def empty_srv_def select_all_def demo_host_def new_server_job_def Let_def)
  qed
  let ?j = "demo_sync\<lparr>vj_status := ''running'', vj_attempts := 1\<rparr>"
  have "\<exists>j' \<in> set (sv_jobs db'). bare j' = bare ?j"
    using settled_job_stays[OF st_request[OF rq_sync[OF q, of srv_demo_env], of srv_demo_env], of ?j] reach_ok[OF demo_crashed_reach]
    by (simp add: demo_crashed_jobs)
  then obtain j' where "j' \<in> set (sv_jobs db')" "bare j' = bare ?j" by blast
  moreover from this have "vj_status j' = ''running''" using bare_eqD[of j' ?j] by simp
  ultimately show ?thesis using q by blast
qed

definition demo_http :: "unit server_http" where
  "demo_http q s = (POAnswer \<lparr>pr_status = 200, pr_retry_after = None, pr_text = ''x'',
     pr_json = Inr (JObj [(''instances'', JList [JObj [(''id'', JStr ''v1''), (''label'', JStr ''web'')]])])\<rparr>, s)"

theorem sync_outcome_witness:
  "\<exists>r. instance_at ''0'' ''v1'' (snd (fst (run_operation (vultr_adapter (\<lambda>_. []) demo_http ''k'') demo_sync demo_host None demo_queued ()))) = Some r
     \<and> sf_label (si_facts r) = ''web'' \<and> si_tenant r = ''t''"
proof -
  let ?ad = "vultr_adapter (\<lambda>_. []) demo_http ''k''"
  obtain m where m: "sa_list ?ad () = (Inr [m], ())" "im_id m = JStr ''v1''" "im_label m = JStr ''web''"
    by (rule that[of "hd (projr (fst (sa_list ?ad ())))"]) code_simp+
  obtain p db' where o': "run_operation ?ad demo_sync demo_host None demo_queued () = ((JobDone p, db'), ())"
    by (rule that[of "[(''host_id'', JStr ''0''), (''added'', JInt 1), (''total'', JInt 1)]"
        "snd (fst (run_operation ?ad demo_sync demo_host None demo_queued ()))"]) code_simp
  have none: "instance_at ''0'' ''v1'' demo_queued = None" by code_simp
  have "reports demo_host (instance_at ''0'' ''v1'' demo_queued) m (instance_at ''0'' ''v1'' db')"
    using conjunct1[OF sync_outcome[OF demo_tables _ _ m(1) o'], rule_format, of "''v1''"] m(2)
    by (simp add: demo_queued_def demo_hosted_def demo_host_def demo_sync_def)
  then obtain r where r: "instance_at ''0'' ''v1'' db' = Some r" "facts_of m = Inr (si_facts r)" "of_host r demo_host"
    unfolding none by (auto simp: reports_def split: option.splits)
  have "sf_label (si_facts r) = ''web''" using r(2) m(3) by (auto simp: facts_of_def bind_res_Inr string_col_def split: if_splits dest!: sym[of _ "si_facts r"])
  then show ?thesis using r o' by (simp add: of_host_def demo_host_def)
qed

end
