(* ===== verification/AgentRegistry.thy ===== *)
theory AgentRegistry
  imports "Dns"
begin

text \<open>
  The agent registry, \<open>apps/agent_registry\<close>: its tables (\<open>models.py\<close>), the store (\<open>store/postgres.py\<close>), who
  may call (\<open>auth/identity.py\<close>), the request bodies (\<open>schemas.py\<close>) and the four routers; and the client the
  other services resolve agents with, \<open>packages/shared/client/agent_registry.py\<close>.  Rows are kept in the
  order of their creation; the times of creation and update are left out of the answers.
\<close>

section \<open>Tables\<close>

record reg_agent =
  ga_id :: string
  ga_name :: string
  ga_status :: string
  ga_description :: "string option"
  ga_owner :: "string option"
  ga_tags :: "string list option"
  ga_heartbeat :: "nat option"

record dep_settings =
  ds_base_url :: string
  ds_public_url :: "string option"
  ds_version :: "string option"
  ds_build :: "string option"
  ds_health :: "string option"
  ds_ready :: "string option"
  ds_capabilities :: "string option"
  ds_scheme :: string
  ds_alias :: "string option"
  ds_headers :: "dict option"
  ds_rates :: "dict option"
  ds_timeouts :: "dict option"

record reg_deployment =
  gd_id :: string
  gd_agent :: string
  gd_tenant :: "string option"
  gd_env :: string
  gd_settings :: dep_settings

record capability_spec =
  cp_name :: string
  cp_version :: string
  cp_description :: "string option"
  cp_input :: "dict option"
  cp_output :: "dict option"

record reg_capability =
  gc_id :: string
  gc_agent :: string
  gc_spec :: capability_spec

record reg_audit =
  gu_correlation :: string
  gu_service :: string
  gu_tenant :: "string option"
  gu_env :: "string option"
  gu_action :: string
  gu_detail :: string

record reg_db =
  rg_agents :: "reg_agent list"
  rg_deployments :: "reg_deployment list"
  rg_capabilities :: "reg_capability list"
  rg_audit :: "reg_audit list"
  rg_next :: nat

section \<open>Who calls\<close>

record reg_caller =
  rc_service :: string
  rc_admin :: bool
  rc_correlation :: string

definition registry_identity :: "dict \<Rightarrow> string \<Rightarrow> string \<Rightarrow> string option \<Rightarrow> string option \<Rightarrow> string \<Rightarrow> reg_caller res" where
  "registry_identity agent_keys service_id agent_key correlation request_id new_id =
     (let expected = dget agent_keys service_id JNull in
      if \<not> truthy expected \<or> expected \<noteq> JStr agent_key then Inl (HTTPException 401 ''Invalid service credentials.'')
      else Inr \<lparr>rc_service = service_id, rc_admin = (service_id \<in> {''admin'', ''nexus''}),
                rc_correlation = (case correlation of Some (c # s) \<Rightarrow> c # s | _ \<Rightarrow>
                   (case request_id of Some (c # s) \<Rightarrow> c # s | _ \<Rightarrow> new_id))\<rparr>)"

section \<open>The store\<close>

definition get_agent_by_name :: "string \<Rightarrow> reg_db \<Rightarrow> reg_agent option" where
  "get_agent_by_name name db = select_first (\<lambda>a. ga_name a = name) (rg_agents db)"

definition get_agent_by_id :: "string \<Rightarrow> reg_db \<Rightarrow> reg_agent option" where
  "get_agent_by_id i db = table_look ga_id (rg_agents db) i"

definition get_deployment :: "string \<Rightarrow> reg_db \<Rightarrow> reg_deployment option" where
  "get_deployment i db = table_look gd_id (rg_deployments db) i"

definition list_deployments :: "string option \<Rightarrow> string option \<Rightarrow> string option \<Rightarrow> reg_db \<Rightarrow> reg_deployment list" where
  "list_deployments tenant env agent db = rev (select_all (\<lambda>d.
     (case tenant of Some (c # s) \<Rightarrow> gd_tenant d = Some (c # s) | _ \<Rightarrow> True)
     \<and> filter_given env (gd_env d) \<and> filter_given agent (gd_agent d)) (rg_deployments db))"

definition get_deployment_by_agent_and_env :: "string \<Rightarrow> string option \<Rightarrow> string \<Rightarrow> reg_db \<Rightarrow> reg_deployment option" where
  "get_deployment_by_agent_and_env agent tenant env db = select_first (\<lambda>d. gd_agent d = agent \<and> gd_env d = env
     \<and> (case tenant of Some (c # s) \<Rightarrow> gd_tenant d = Some (c # s) | _ \<Rightarrow> gd_tenant d = None)) (rg_deployments db)"

definition at_most :: "nat \<Rightarrow> string option \<Rightarrow> bool" where
  "at_most n t = (case t of None \<Rightarrow> True | Some s \<Rightarrow> length s \<le> n)"

definition agent_fits :: "reg_agent \<Rightarrow> bool" where
  "agent_fits a = (length (ga_name a) \<le> 128 \<and> length (ga_status a) \<le> 32 \<and> at_most 128 (ga_owner a))"

definition settings_fit :: "dep_settings \<Rightarrow> bool" where
  "settings_fit s = (length (ds_base_url s) \<le> 256 \<and> at_most 256 (ds_public_url s) \<and> at_most 64 (ds_version s)
     \<and> at_most 64 (ds_build s) \<and> at_most 256 (ds_health s) \<and> at_most 256 (ds_ready s) \<and> at_most 256 (ds_capabilities s)
     \<and> length (ds_scheme s) \<le> 32 \<and> at_most 128 (ds_alias s))"

definition too_long :: exn where
  "too_long = PyError ''DBAPIError'' ''value too long''"

definition store_create_agent :: "reg_agent \<Rightarrow> reg_db \<Rightarrow> (reg_agent \<times> reg_db) res" where
  "store_create_agent a db =
     (let a' = a\<lparr>ga_id := digits_of (rg_next db)\<rparr> in
      if \<not> agent_fits a' then Inl too_long
      else if get_agent_by_name (ga_name a) db \<noteq> None then Inl (PyError ''IntegrityError'' ''registry_agents_name'')
      else Inr (a', db\<lparr>rg_agents := insert_row a' (rg_agents db), rg_next := Suc (rg_next db)\<rparr>))"

record agent_update =
  gp_status :: "string field_patch"
  gp_description :: "string field_patch"
  gp_owner :: "string field_patch"
  gp_tags :: "string list field_patch"

definition store_update_agent :: "reg_agent \<Rightarrow> agent_update \<Rightarrow> reg_db \<Rightarrow> (reg_agent \<times> reg_db) res" where
  "store_update_agent a u db = bind_res (patch_value (gp_status u) (ga_status a)) (\<lambda>st.
     let a' = a\<lparr>ga_status := st, ga_description := patch_null (gp_description u) (ga_description a),
           ga_owner := patch_null (gp_owner u) (ga_owner a), ga_tags := patch_null (gp_tags u) (ga_tags a)\<rparr> in
     if \<not> agent_fits a' then Inl too_long
     else Inr (a', db\<lparr>rg_agents := table_update ga_id (ga_id a) (\<lambda>_. a') (rg_agents db)\<rparr>))"

definition record_heartbeat :: "nat \<Rightarrow> reg_agent \<Rightarrow> reg_db \<Rightarrow> reg_db" where
  "record_heartbeat now a db = db\<lparr>rg_agents := table_update ga_id (ga_id a) (\<lambda>x. x\<lparr>ga_heartbeat := Some now\<rparr>) (rg_agents db)\<rparr>"

definition store_create_deployment :: "reg_deployment \<Rightarrow> reg_db \<Rightarrow> (reg_deployment \<times> reg_db) res" where
  "store_create_deployment d db =
     (let d' = d\<lparr>gd_id := digits_of (rg_next db)\<rparr> in
      if \<not> settings_fit (gd_settings d) \<or> \<not> at_most 128 (gd_tenant d) \<or> length (gd_env d) > 32 then Inl too_long
      else if get_agent_by_id (gd_agent d) db = None then Inl (PyError ''IntegrityError'' ''foreign key'')
      else Inr (d', db\<lparr>rg_deployments := insert_row d' (rg_deployments db), rg_next := Suc (rg_next db)\<rparr>))"

record deployment_update =
  du_base_url :: "string field_patch"
  du_public_url :: "string field_patch"
  du_version :: "string field_patch"
  du_build :: "string field_patch"
  du_health :: "string field_patch"
  du_ready :: "string field_patch"
  du_capabilities :: "string field_patch"
  du_scheme :: "string field_patch"
  du_alias :: "string field_patch"
  du_headers :: "dict field_patch"
  du_rates :: "dict field_patch"
  du_timeouts :: "dict field_patch"

definition patch_settings :: "deployment_update \<Rightarrow> dep_settings \<Rightarrow> dep_settings res" where
  "patch_settings u s = bind_res (patch_value (du_base_url u) (ds_base_url s)) (\<lambda>base.
     bind_res (patch_value (du_scheme u) (ds_scheme s)) (\<lambda>scheme.
       let s' = \<lparr>ds_base_url = base, ds_public_url = patch_null (du_public_url u) (ds_public_url s),
           ds_version = patch_null (du_version u) (ds_version s), ds_build = patch_null (du_build u) (ds_build s),
           ds_health = patch_null (du_health u) (ds_health s), ds_ready = patch_null (du_ready u) (ds_ready s),
           ds_capabilities = patch_null (du_capabilities u) (ds_capabilities s), ds_scheme = scheme,
           ds_alias = patch_null (du_alias u) (ds_alias s), ds_headers = patch_null (du_headers u) (ds_headers s),
           ds_rates = patch_null (du_rates u) (ds_rates s), ds_timeouts = patch_null (du_timeouts u) (ds_timeouts s)\<rparr> in
       if settings_fit s' then Inr s' else Inl too_long))"

definition store_update_deployment :: "reg_deployment \<Rightarrow> deployment_update \<Rightarrow> reg_db \<Rightarrow> (reg_deployment \<times> reg_db) res" where
  "store_update_deployment d u db = bind_res (patch_settings u (gd_settings d)) (\<lambda>s.
     Inr (d\<lparr>gd_settings := s\<rparr>,
       db\<lparr>rg_deployments := table_update gd_id (gd_id d) (\<lambda>x. x\<lparr>gd_settings := s\<rparr>) (rg_deployments db)\<rparr>))"

fun add_capabilities :: "string \<Rightarrow> capability_spec list \<Rightarrow> reg_db \<Rightarrow> reg_db" where
  "add_capabilities agent [] db = db"
| "add_capabilities agent (c # cs) db = add_capabilities agent cs
     (db\<lparr>rg_capabilities := insert_row \<lparr>gc_id = digits_of (rg_next db), gc_agent = agent, gc_spec = c\<rparr> (rg_capabilities db),
         rg_next := Suc (rg_next db)\<rparr>)"

definition override_capabilities :: "string \<Rightarrow> capability_spec list \<Rightarrow> reg_db \<Rightarrow> reg_db res" where
  "override_capabilities agent cs db =
     (if distinct (List.map (\<lambda>c. (cp_name c, cp_version c)) cs)
      then Inr (add_capabilities agent cs (db\<lparr>rg_capabilities := delete_rows (\<lambda>c. gc_agent c = agent) (rg_capabilities db)\<rparr>))
      else Inl (PyError ''IntegrityError'' ''uq_reg_cap''))"

definition reg_log_audit :: "reg_caller \<Rightarrow> string \<Rightarrow> string option \<Rightarrow> string option \<Rightarrow> string \<Rightarrow> reg_db \<Rightarrow> reg_db res" where
  "reg_log_audit who action tenant env detail db =
     (if length (rc_correlation who) > 128 \<or> length (rc_service who) > 128 then Inl too_long
      else Inr (db\<lparr>rg_audit := insert_row
        \<lparr>gu_correlation = rc_correlation who, gu_service = rc_service who, gu_tenant = tenant, gu_env = env, gu_action = action,
         gu_detail = detail\<rparr> (rg_audit db)\<rparr>))"

section \<open>Handlers\<close>

definition no_agent :: "string \<Rightarrow> exn" where
  "no_agent name = HTTPException 404 (''Agent '' @ in_quotes name @ '' not found.'')"

definition list_agents :: "reg_db \<Rightarrow> reg_agent list" where
  "list_agents db = sort_key ga_name (rg_agents db)"

definition get_agent :: "string \<Rightarrow> reg_db \<Rightarrow> reg_agent res" where
  "get_agent name db = of_opt (no_agent name) (get_agent_by_name name db)"

definition agent_status_ok :: "string \<Rightarrow> bool" where
  "agent_status_ok s = (s \<in> {''active'', ''disabled''})"

text \<open>A handler that changes the registry commits the change first and the audit row after it, in a second
  commit; when only the second one fails the request fails and the change stays.\<close>

definition stored_then_logged :: "('a \<times> reg_db) res \<Rightarrow> ('a \<Rightarrow> reg_db \<Rightarrow> reg_db res) \<Rightarrow> reg_db \<Rightarrow> 'a res \<times> reg_db" where
  "stored_then_logged stored log db = (case stored of
     Inl e \<Rightarrow> (Inl e, db)
   | Inr (a, db1) \<Rightarrow> (case log a db1 of Inl e \<Rightarrow> (Inl e, db1) | Inr db2 \<Rightarrow> (Inr a, db2)))"

definition create_agent :: "reg_caller \<Rightarrow> reg_agent \<Rightarrow> reg_db \<Rightarrow> reg_agent res \<times> reg_db" where
  "create_agent who a db = stored_then_logged
     (if ga_name a = [] \<or> length (ga_name a) > 128 \<or> \<not> agent_status_ok (ga_status a) then Inl (HTTPException 422 ''agent'')
      else if get_agent_by_name (ga_name a) db \<noteq> None
      then Inl (HTTPException 409 (''Agent '' @ in_quotes (ga_name a) @ '' already exists.''))
      else store_create_agent (a\<lparr>ga_heartbeat := None\<rparr>) db)
     (\<lambda>_. reg_log_audit who ''create_agent'' None None (''Created agent '' @ ga_name a)) db"

definition patch_agent :: "reg_caller \<Rightarrow> string \<Rightarrow> agent_update \<Rightarrow> reg_db \<Rightarrow> reg_agent res \<times> reg_db" where
  "patch_agent who name u db = stored_then_logged
     (if (case gp_status u of Some (Some s) \<Rightarrow> \<not> agent_status_ok s | _ \<Rightarrow> False) then Inl (HTTPException 422 ''status'')
      else bind_res (get_agent name db) (\<lambda>a. store_update_agent a u db))
     (\<lambda>_. reg_log_audit who ''update_agent'' None None (''Updated agent '' @ name)) db"

definition heartbeat :: "nat \<Rightarrow> string \<Rightarrow> reg_db \<Rightarrow> reg_db res" where
  "heartbeat now name db = bind_res (get_agent name db) (\<lambda>a. Inr (record_heartbeat now a db))"

definition get_deployment_api :: "string \<Rightarrow> reg_db \<Rightarrow> reg_deployment res" where
  "get_deployment_api i db = of_opt (HTTPException 404 ''Deployment not found.'') (get_deployment i db)"

definition create_deployment :: "reg_caller \<Rightarrow> reg_deployment \<Rightarrow> reg_db \<Rightarrow> reg_deployment res \<times> reg_db" where
  "create_deployment who d db =
     (if gd_env d \<notin> {''dev'', ''stage'', ''prod''} \<or> ds_base_url (gd_settings d) = [] \<or> length (ds_base_url (gd_settings d)) > 256
      then (Inl (HTTPException 422 ''deployment''), db)
      else (case get_agent_by_id (gd_agent d) db of
          None \<Rightarrow> (Inl (HTTPException 404 (''Agent ID '' @ in_quotes (gd_agent d) @ '' not found. Cannot create deployment.'')), db)
        | Some a \<Rightarrow> stored_then_logged (store_create_deployment d db)
            (\<lambda>_. reg_log_audit who ''create_deployment'' (gd_tenant d) (Some (gd_env d)) (''Created deployment for agent '' @ ga_name a)) db))"

definition patch_deployment :: "reg_caller \<Rightarrow> string \<Rightarrow> deployment_update \<Rightarrow> reg_db \<Rightarrow> reg_deployment res \<times> reg_db" where
  "patch_deployment who i u db = stored_then_logged
     (bind_res (get_deployment_api i db) (\<lambda>d. store_update_deployment d u db))
     (\<lambda>d. reg_log_audit who ''update_deployment'' (gd_tenant d) (Some (gd_env d)) (''Updated deployment '' @ i)) db"

definition capability_ok :: "capability_spec \<Rightarrow> bool" where
  "capability_ok c = (cp_name c \<noteq> [] \<and> length (cp_name c) \<le> 128 \<and> cp_version c \<noteq> [] \<and> length (cp_version c) \<le> 64)"

definition upsert_capabilities :: "reg_caller \<Rightarrow> string \<Rightarrow> capability_spec list \<Rightarrow> reg_db \<Rightarrow> string res \<times> reg_db" where
  "upsert_capabilities who i cs db =
     (if \<not> list_all capability_ok cs then (Inl (HTTPException 422 ''capabilities''), db)
      else (case get_agent_by_id i db of
          None \<Rightarrow> (Inl (HTTPException 404 (''Agent ID '' @ in_quotes i @ '' not found. Cannot register capabilities.'')), db)
        | Some a \<Rightarrow> stored_then_logged (map_sum id (Pair (''Registered '' @ digits_of (length cs) @ '' capabilities for agent '' @ ga_name a @ ''.''))
              (override_capabilities (ga_id a) cs db))
            (\<lambda>_. reg_log_audit who ''override_capabilities'' None None
               (''Overwrote capabilities for agent '' @ ga_name a @ '' with '' @ digits_of (length cs) @ '' specs'')) db))"

definition get_audit_events :: "reg_caller \<Rightarrow> string option \<Rightarrow> string option \<Rightarrow> int \<Rightarrow> reg_db \<Rightarrow> reg_audit list res" where
  "get_audit_events who tenant env limit db =
     (if limit < 1 \<or> limit > 500 then Inl (HTTPException 422 ''limit'')
      else if \<not> rc_admin who then Inl (HTTPException 403 ''Admin only.'')
      else Inr (take (nat limit) (rev (select_all (\<lambda>e.
         (case tenant of Some (c # s) \<Rightarrow> gu_tenant e = Some (c # s) | _ \<Rightarrow> True)
         \<and> (case env of Some (c # s) \<Rightarrow> gu_env e = Some (c # s) | _ \<Rightarrow> True)) (rg_audit db)))))"

section \<open>Answers\<close>

definition answer_text :: "string option \<Rightarrow> json" where
  "answer_text t = (case t of None \<Rightarrow> JNull | Some s \<Rightarrow> JStr s)"

definition answer_dict :: "dict option \<Rightarrow> json" where
  "answer_dict t = (case t of None \<Rightarrow> JNull | Some d \<Rightarrow> JObj d)"

definition agent_json :: "reg_agent \<Rightarrow> json" where
  "agent_json a = JObj [(''id'', JStr (ga_id a)), (''name'', JStr (ga_name a)), (''status'', JStr (ga_status a)),
     (''description'', answer_text (ga_description a)), (''owner'', answer_text (ga_owner a)),
     (''tags'', case ga_tags a of None \<Rightarrow> JNull | Some ts \<Rightarrow> JList (List.map JStr ts))]"

definition deployment_json :: "reg_deployment \<Rightarrow> json" where
  "deployment_json d = (let s = gd_settings d in
     JObj [(''id'', JStr (gd_id d)), (''agent_id'', JStr (gd_agent d)), (''tenant_id'', answer_text (gd_tenant d)), (''env'', JStr (gd_env d)),
       (''base_url'', JStr (ds_base_url s)), (''public_url'', answer_text (ds_public_url s)), (''version'', answer_text (ds_version s)),
       (''build_sha'', answer_text (ds_build s)), (''health_endpoint'', answer_text (ds_health s)), (''ready_endpoint'', answer_text (ds_ready s)),
       (''capabilities_endpoint'', answer_text (ds_capabilities s)), (''auth_scheme'', JStr (ds_scheme s)),
       (''auth_secret_alias'', answer_text (ds_alias s)), (''required_headers'', answer_dict (ds_headers s)),
       (''rate_limits'', answer_dict (ds_rates s)), (''timeouts'', answer_dict (ds_timeouts s))])"

definition http_answer :: "json res \<Rightarrow> (int \<times> json res) res" where
  "http_answer r = Inr (case r of
     Inr j \<Rightarrow> (200, Inr j)
   | Inl (HTTPException n d) \<Rightarrow> (n, Inr (JObj [(''detail'', JStr d)]))
   | Inl e \<Rightarrow> (500, Inl (PyError ''JSONDecodeError'' ''Internal Server Error'')))"

section \<open>The client\<close>

record resolvable_agent =
  rv_id :: string
  rv_name :: string
  rv_base_url :: string
  rv_scheme :: string
  rv_alias :: "string option"
  rv_health :: "string option"
  rv_capabilities :: "string option"

definition model_str :: "json \<Rightarrow> string res" where
  "model_str j = (case j of JStr s \<Rightarrow> Inr s | _ \<Rightarrow> Inl (PyError ''ValidationError'' ''string_type''))"

definition model_opt_str :: "json \<Rightarrow> string option res" where
  "model_opt_str j = (if j = JNull then Inr None else map_sum id Some (model_str j))"

definition raise_for_status :: "int \<times> json res \<Rightarrow> json res" where
  "raise_for_status answer = (if fst answer < 200 \<or> fst answer \<ge> 300 then Inl (PyError ''HTTPStatusError'' (str_int (fst answer))) else snd answer)"

text \<open>The loop over the deployments: the first of the agent, then every later one of the tenant.\<close>

fun choose_deployment :: "json \<Rightarrow> json \<Rightarrow> json list \<Rightarrow> json option \<Rightarrow> json option res" where
  "choose_deployment agent_id tenant [] target = Inr target"
| "choose_deployment agent_id tenant (d # ds) target =
     bind_res (py_item ''agent_id'' d) (\<lambda>a.
       if a \<noteq> agent_id then choose_deployment agent_id tenant ds target
       else (case target of
          None \<Rightarrow> choose_deployment agent_id tenant ds (Some d)
        | Some t \<Rightarrow> bind_res (py_item ''tenant_id'' d) (\<lambda>tn.
            choose_deployment agent_id tenant ds (if tn = tenant then Some d else target))))"

definition resolvable_of :: "json \<Rightarrow> string \<Rightarrow> json \<Rightarrow> resolvable_agent res" where
  "resolvable_of agent_id name d =
     bind_res (py_item ''base_url'' d) (\<lambda>base. bind_res (py_get ''auth_scheme'' (JStr ''headers'') d) (\<lambda>scheme.
     bind_res (py_get ''auth_secret_alias'' JNull d) (\<lambda>al. bind_res (py_get ''health_endpoint'' JNull d) (\<lambda>health.
     bind_res (py_get ''capabilities_endpoint'' JNull d) (\<lambda>caps.
     bind_res (model_str agent_id) (\<lambda>i. bind_res (model_str base) (\<lambda>b. bind_res (model_str scheme) (\<lambda>sc.
     bind_res (model_opt_str al) (\<lambda>al'. bind_res (model_opt_str health) (\<lambda>h. bind_res (model_opt_str caps) (\<lambda>cp.
       Inr \<lparr>rv_id = i, rv_name = name, rv_base_url = b, rv_scheme = sc, rv_alias = al', rv_health = h, rv_capabilities = cp\<rparr>)))))))))))"

definition resolve_agent :: "(string \<Rightarrow> (int \<times> json res) res) \<Rightarrow> (string \<Rightarrow> json \<Rightarrow> (int \<times> json res) res) \<Rightarrow>
    string \<Rightarrow> string option \<Rightarrow> string \<Rightarrow> resolvable_agent option res" where
  "resolve_agent ask_agent ask_deployments name tenant env =
     bind_res (ask_agent name) (\<lambda>answer.
       if fst answer = 404 then Inr None
       else bind_res (raise_for_status answer) (\<lambda>agent. bind_res (py_item ''id'' agent) (\<lambda>i.
         bind_res (py_get ''status'' JNull agent) (\<lambda>st.
           if st = JStr ''disabled'' then Inr None
           else bind_res (ask_deployments env i) (\<lambda>answer2. bind_res (raise_for_status answer2) (\<lambda>l.
             bind_res (py_iterate l) (\<lambda>ds. bind_res (choose_deployment i (answer_text tenant) ds None) (\<lambda>target.
               case target of
                 None \<Rightarrow> Inr None
               | Some d \<Rightarrow> if truthy d then map_sum id Some (resolvable_of i name d) else Inr None))))))))"

definition client_list_agents :: "(int \<times> json res) res \<Rightarrow> json res" where
  "client_list_agents answer = bind_res answer raise_for_status"

text \<open>The client against a registry: its requests answered by the handlers, for the caller its headers
  name.  The agent's name and the environment stand for themselves in the URL (no escaping, no empty name).\<close>

definition registry_agent_answer :: "reg_caller res \<Rightarrow> reg_db \<Rightarrow> string \<Rightarrow> (int \<times> json res) res" where
  "registry_agent_answer who db name = http_answer (bind_res who (\<lambda>_. map_sum id agent_json (get_agent name db)))"

definition registry_agents_answer :: "reg_caller res \<Rightarrow> reg_db \<Rightarrow> (int \<times> json res) res" where
  "registry_agents_answer who db = http_answer (bind_res who (\<lambda>_. Inr (JList (List.map agent_json (list_agents db)))))"

definition registry_deployments_answer :: "reg_caller res \<Rightarrow> reg_db \<Rightarrow> string option \<Rightarrow> string option \<Rightarrow> (int \<times> json res) res" where
  "registry_deployments_answer who db env agent = http_answer (bind_res who (\<lambda>_.
     Inr (JList (List.map deployment_json (list_deployments None env agent db)))))"

definition resolve_in :: "reg_caller res \<Rightarrow> reg_db \<Rightarrow> string \<Rightarrow> string option \<Rightarrow> string \<Rightarrow> resolvable_agent option res" where
  "resolve_in who db name tenant env = resolve_agent (registry_agent_answer who db)
     (\<lambda>env i. registry_deployments_answer who db (Some env) (case i of JStr s \<Rightarrow> Some s | _ \<Rightarrow> None)) name tenant env"

end
