(* ===== verification/RegistryReach.thy ===== *)
theory RegistryReach
  imports AgentRegistry MonitoringReach
begin

text \<open>
  What the agent registry keeps true, which deployment its client resolves an agent to, and what an import of
  the registry by the monitoring agent stores: the two services composed over the JSON the registry answers.
\<close>

interpretation reg_agents_table: keyed_table ga_id "table_look ga_id" insert_row "table_update ga_id"
  by (rule keyed_table_rows)

interpretation reg_deployments_table: keyed_table gd_id "table_look gd_id" insert_row "table_update gd_id"
  by (rule keyed_table_rows)

section \<open>The invariant\<close>

definition numbered :: "nat \<Rightarrow> string set \<Rightarrow> bool" where
  "numbered n ids = (\<forall>i \<in> ids. \<exists>k < n. i = digits_of k)"

lemma numbered_simps [simp]:
  "numbered n {}"
  "numbered n (insert i ids) \<longleftrightarrow> (\<exists>k < n. i = digits_of k) \<and> numbered n ids"
  by (simp_all add: numbered_def)

lemma numbered_Suc: "numbered n ids \<Longrightarrow> numbered (Suc n) ids"
  by (meson less_SucI numbered_def)

lemma numbered_fresh: "numbered n ids \<Longrightarrow> digits_of n \<notin> ids"
  by (auto simp: numbered_def digits_inj)

lemma numbered_mono: "numbered n ids \<Longrightarrow> n \<le> m \<Longrightarrow> numbered m ids"
  by (meson less_le_trans numbered_def)

definition agents_ok :: "nat \<Rightarrow> reg_agent list \<Rightarrow> bool" where
  "agents_ok n as = (distinct (List.map ga_name as) \<and> distinct (List.map ga_id as) \<and> numbered n (ga_id ` set as)
     \<and> (\<forall>a \<in> set as. agent_status_ok (ga_status a) \<and> agent_fits a))"

definition deployments_ok :: "nat \<Rightarrow> string set \<Rightarrow> reg_deployment list \<Rightarrow> bool" where
  "deployments_ok n agents ds = (distinct (List.map gd_id ds) \<and> numbered n (gd_id ` set ds)
     \<and> (\<forall>d \<in> set ds. gd_agent d \<in> agents \<and> gd_env d \<in> {''dev'', ''stage'', ''prod''} \<and> settings_fit (gd_settings d)))"

definition capability_key :: "reg_capability \<Rightarrow> string \<times> string \<times> string" where
  "capability_key c = (gc_agent c, cp_name (gc_spec c), cp_version (gc_spec c))"

definition capabilities_ok :: "string set \<Rightarrow> reg_capability list \<Rightarrow> bool" where
  "capabilities_ok agents cs = (distinct (List.map capability_key cs)
     \<and> (\<forall>c \<in> set cs. gc_agent c \<in> agents \<and> capability_ok (gc_spec c)))"

definition agent_ids :: "reg_db \<Rightarrow> string set" where
  "agent_ids db = ga_id ` set (rg_agents db)"

definition registry_ok :: "reg_db \<Rightarrow> bool" where
  "registry_ok db = (agents_ok (rg_next db) (rg_agents db) \<and> deployments_ok (rg_next db) (agent_ids db) (rg_deployments db)
     \<and> capabilities_ok (agent_ids db) (rg_capabilities db))"

lemma registry_ok_audit [simp]: "registry_ok (db\<lparr>rg_audit := x\<rparr>) = registry_ok db"
  by (simp add: registry_ok_def agent_ids_def)

lemma get_agent_by_id_iff: "get_agent_by_id i db = None \<longleftrightarrow> i \<notin> agent_ids db"
  by (auto simp: get_agent_by_id_def table_look_def select_first_None agent_ids_def)

lemma get_agent_by_name_iff: "get_agent_by_name n db = None \<longleftrightarrow> n \<notin> ga_name ` set (rg_agents db)"
  by (auto simp: get_agent_by_name_def select_first_None)

lemma table_update_ids:
  assumes "\<And>r. key (f r) = key r" shows "List.map key (table_update key k f t) = List.map key t"
  by (simp add: table_update_def update_rows_def assms)

lemma table_update_set:
  "x \<in> set (table_update key k f t) \<Longrightarrow> x \<in> set t \<or> (\<exists>r \<in> set t. key r = k \<and> x = f r)"
  by (auto simp: table_update_def update_rows_def split: if_splits)

section \<open>Every operation keeps it\<close>

lemma store_create_agent_ok:
  assumes "store_create_agent a db = Inr (a', db')" "registry_ok db" "agent_status_ok (ga_status a)"
  shows "registry_ok db'"
proof -
  from assms(1) have fit: "agent_fits a'" and new: "get_agent_by_name (ga_name a) db = None"
    and a': "a' = a\<lparr>ga_id := digits_of (rg_next db)\<rparr>"
    and db': "db' = db\<lparr>rg_agents := insert_row a' (rg_agents db), rg_next := Suc (rg_next db)\<rparr>"
    by (auto simp: store_create_agent_def Let_def split: if_splits)
  have ok: "agents_ok (rg_next db) (rg_agents db)" "deployments_ok (rg_next db) (agent_ids db) (rg_deployments db)"
    "capabilities_ok (agent_ids db) (rg_capabilities db)" using assms(2) by (simp_all add: registry_ok_def)
  have "digits_of (rg_next db) \<notin> ga_id ` set (rg_agents db)"
    using ok(1) numbered_fresh by (auto simp: agents_ok_def)
  then have "agents_ok (Suc (rg_next db)) (insert_row a' (rg_agents db))"
    using ok(1) fit new assms(3) unfolding agents_ok_def
    by (auto simp: a' insert_row_def get_agent_by_name_iff intro: numbered_Suc)
  moreover have "agent_ids db' = insert (digits_of (rg_next db)) (agent_ids db)"
    by (auto simp: agent_ids_def db' a' insert_row_def)
  ultimately show ?thesis
    using ok(2,3) by (auto simp: registry_ok_def db' deployments_ok_def capabilities_ok_def intro: numbered_Suc)
qed

lemma agents_kept_ok:
  assumes "registry_ok db" "db' = db\<lparr>rg_agents := as\<rparr>"
    and "List.map ga_id as = List.map ga_id (rg_agents db)" "List.map ga_name as = List.map ga_name (rg_agents db)"
    and "\<And>a. a \<in> set as \<Longrightarrow> agent_status_ok (ga_status a) \<and> agent_fits a"
  shows "registry_ok db'"
proof -
  have ids: "ga_id ` set as = ga_id ` set (rg_agents db)" using arg_cong[OF assms(3), of set] by simp
  show ?thesis
    using assms(1,5) unfolding assms(2) registry_ok_def agents_ok_def agent_ids_def
    by (simp add: assms(3,4) ids)
qed

lemma store_update_agent_ok:
  assumes "store_update_agent a u db = Inr (a', db')" "registry_ok db" "a \<in> set (rg_agents db)"
    and "\<not> (case gp_status u of Some (Some s) \<Rightarrow> \<not> agent_status_ok s | _ \<Rightarrow> False)"
  shows "registry_ok db'"
proof -
  from assms(1) obtain st where st: "patch_value (gp_status u) (ga_status a) = Inr st"
    and a': "a' = a\<lparr>ga_status := st, ga_description := patch_null (gp_description u) (ga_description a),
           ga_owner := patch_null (gp_owner u) (ga_owner a), ga_tags := patch_null (gp_tags u) (ga_tags a)\<rparr>"
    and fit: "agent_fits a'" and db': "db' = db\<lparr>rg_agents := table_update ga_id (ga_id a) (\<lambda>_. a') (rg_agents db)\<rparr>"
    by (auto simp: store_update_agent_def Let_def bind_res_Inr split: if_splits)
  have ok: "agents_ok (rg_next db) (rg_agents db)" using assms(2) by (simp add: registry_ok_def)
  have same: "table_update ga_id (ga_id a) (\<lambda>_. a') (rg_agents db) = List.map (\<lambda>r. if r = a then a' else r) (rg_agents db)"
    using ok assms(3) by (intro replace_known) (auto simp: agents_ok_def)
  have "agent_status_ok st"
    using st assms(3,4) ok by (auto simp: patch_value_def agents_ok_def split: option.splits)
  then have "agent_status_ok (ga_status a')" "ga_id a' = ga_id a" "ga_name a' = ga_name a" by (simp_all add: a')
  then show ?thesis
    using ok fit unfolding same[symmetric] agents_ok_def
    by (intro agents_kept_ok[OF assms(2) db']; unfold same) auto
qed

lemma record_heartbeat_ok: "registry_ok db \<Longrightarrow> registry_ok (record_heartbeat now a db)"
  by (rule agents_kept_ok[of db, OF _ record_heartbeat_def])
    (auto simp: table_update_def update_rows_def registry_ok_def agents_ok_def agent_fits_def)

lemma store_create_deployment_ok:
  assumes "store_create_deployment d db = Inr (d', db')" "registry_ok db" "gd_env d \<in> {''dev'', ''stage'', ''prod''}"
  shows "registry_ok db'"
proof -
  from assms(1) have fit: "settings_fit (gd_settings d)" and agent: "gd_agent d \<in> agent_ids db"
    and d': "d' = d\<lparr>gd_id := digits_of (rg_next db)\<rparr>"
    and db': "db' = db\<lparr>rg_deployments := insert_row d' (rg_deployments db), rg_next := Suc (rg_next db)\<rparr>"
    by (auto simp: store_create_deployment_def Let_def get_agent_by_id_iff split: if_splits)
  have ok: "agents_ok (rg_next db) (rg_agents db)" "deployments_ok (rg_next db) (agent_ids db) (rg_deployments db)"
    "capabilities_ok (agent_ids db) (rg_capabilities db)" using assms(2) by (simp_all add: registry_ok_def)
  have "digits_of (rg_next db) \<notin> gd_id ` set (rg_deployments db)"
    using ok(2) numbered_fresh by (auto simp: deployments_ok_def)
  then have "deployments_ok (Suc (rg_next db)) (agent_ids db) (insert_row d' (rg_deployments db))"
    using ok(2) fit agent assms(3) unfolding deployments_ok_def
    by (auto simp: d' insert_row_def intro: numbered_Suc)
  with ok(1,3) show ?thesis
    by (auto simp: registry_ok_def db' agents_ok_def agent_ids_def intro: numbered_Suc)
qed

lemma store_update_deployment_ok:
  assumes "store_update_deployment d u db = Inr (d', db')" "registry_ok db"
  shows "registry_ok db'"
proof -
  from assms(1) obtain s where s: "patch_settings u (gd_settings d) = Inr s"
    and db': "db' = db\<lparr>rg_deployments := table_update gd_id (gd_id d) (\<lambda>x. x\<lparr>gd_settings := s\<rparr>) (rg_deployments db)\<rparr>"
    by (auto simp: store_update_deployment_def bind_res_Inr)
  have fit: "settings_fit s" using s by (auto simp: patch_settings_def bind_res_Inr Let_def split: if_splits)
  let ?ds = "table_update gd_id (gd_id d) (\<lambda>x. x\<lparr>gd_settings := s\<rparr>) (rg_deployments db)"
  have ids: "List.map gd_id ?ds = List.map gd_id (rg_deployments db)" by (rule table_update_ids) simp
  then have "gd_id ` set ?ds = gd_id ` set (rg_deployments db)" by (metis list.set_map)
  then have "deployments_ok (rg_next db) (agent_ids db) ?ds"
    using assms(2) fit ids by (auto simp: registry_ok_def deployments_ok_def dest!: table_update_set)
  with assms(2) show ?thesis by (simp add: registry_ok_def db' agent_ids_def)
qed

lemma add_capabilities_rows:
  "\<exists>rows n. add_capabilities agent cs db = db\<lparr>rg_capabilities := rg_capabilities db @ rows, rg_next := n\<rparr>
     \<and> rg_next db \<le> n \<and> List.map gc_spec rows = cs \<and> (\<forall>c \<in> set rows. gc_agent c = agent)"
proof (induction cs arbitrary: db)
  case Nil
  show ?case by (intro exI[of _ "[]"] exI[of _ "rg_next db"]) simp
next
  case (Cons c cs)
  let ?row = "\<lparr>gc_id = digits_of (rg_next db), gc_agent = agent, gc_spec = c\<rparr>"
  let ?db = "db\<lparr>rg_capabilities := insert_row ?row (rg_capabilities db), rg_next := Suc (rg_next db)\<rparr>"
  obtain rows n where "add_capabilities agent cs ?db = ?db\<lparr>rg_capabilities := rg_capabilities ?db @ rows, rg_next := n\<rparr>"
    "rg_next ?db \<le> n" "List.map gc_spec rows = cs" "\<forall>c \<in> set rows. gc_agent c = agent"
    using Cons.IH[of ?db] by blast
  then show ?case by (intro exI[of _ "?row # rows"] exI[of _ n]) (simp add: insert_row_def)
qed

lemma override_capabilities_rows:
  assumes "override_capabilities agent cs db = Inr db'"
  obtains rows n where "db' = db\<lparr>rg_capabilities := filter (\<lambda>c. gc_agent c \<noteq> agent) (rg_capabilities db) @ rows, rg_next := n\<rparr>"
    "rg_next db \<le> n" "List.map gc_spec rows = cs" "\<And>c. c \<in> set rows \<Longrightarrow> gc_agent c = agent"
    "distinct (List.map (\<lambda>c. (cp_name c, cp_version c)) cs)"
proof -
  let ?db = "db\<lparr>rg_capabilities := delete_rows (\<lambda>c. gc_agent c = agent) (rg_capabilities db)\<rparr>"
  have d: "distinct (List.map (\<lambda>c. (cp_name c, cp_version c)) cs)" and e: "db' = add_capabilities agent cs ?db"
    using assms by (auto simp: override_capabilities_def split: if_splits)
  obtain rows n where "add_capabilities agent cs ?db = ?db\<lparr>rg_capabilities := rg_capabilities ?db @ rows, rg_next := n\<rparr>"
    "rg_next ?db \<le> n" "List.map gc_spec rows = cs" "\<forall>c \<in> set rows. gc_agent c = agent"
    using add_capabilities_rows[of agent cs ?db] by blast
  with d e show ?thesis by (intro that[of n rows]) (simp_all add: delete_rows_def)
qed

lemma registry_ok_mono: "registry_ok db \<Longrightarrow> rg_next db \<le> n \<Longrightarrow> registry_ok (db\<lparr>rg_next := n\<rparr>)"
  using numbered_mono[of "rg_next db"] by (simp add: registry_ok_def agents_ok_def deployments_ok_def agent_ids_def)

lemma override_capabilities_ok:
  assumes "override_capabilities agent cs db = Inr db'" "registry_ok db" "agent \<in> agent_ids db" "list_all capability_ok cs"
  shows "registry_ok db'"
proof (rule override_capabilities_rows[OF assms(1)])
  fix rows n
  assume db': "db' = db\<lparr>rg_capabilities := filter (\<lambda>c. gc_agent c \<noteq> agent) (rg_capabilities db) @ rows, rg_next := n\<rparr>"
    and n: "rg_next db \<le> n" and specs: "List.map gc_spec rows = cs" and agent: "\<And>c. c \<in> set rows \<Longrightarrow> gc_agent c = agent"
    and d: "distinct (List.map (\<lambda>c. (cp_name c, cp_version c)) cs)"
  have "distinct (List.map (\<lambda>c. (cp_name (gc_spec c), cp_version (gc_spec c))) rows)"
    using d by (simp add: specs[symmetric] o_def)
  then have keys: "distinct (List.map capability_key rows)"
    by (auto simp: distinct_map capability_key_def inj_on_def)
  have "capabilities_ok (agent_ids db) (rg_capabilities db)" using assms(2) by (simp add: registry_ok_def)
  moreover have "\<forall>c \<in> set rows. capability_ok (gc_spec c)" using assms(4) by (auto simp: specs[symmetric] list_all_iff)
  ultimately have "capabilities_ok (agent_ids db) (filter (\<lambda>c. gc_agent c \<noteq> agent) (rg_capabilities db) @ rows)"
    using keys assms(3) agent
    by (auto simp: capabilities_ok_def distinct_map_filter capability_key_def)
  with registry_ok_mono[OF assms(2) n] show ?thesis by (simp add: db' registry_ok_def agent_ids_def)
qed

section \<open>Calls\<close>

lemma stored_then_logged_cases:
  assumes "stored_then_logged stored log db = (r, db')"
  obtains e where "stored = Inl e" "r = Inl e" "db' = db"
  | a db1 e where "stored = Inr (a, db1)" "log a db1 = Inl e" "r = Inl e" "db' = db1"
  | a db1 where "stored = Inr (a, db1)" "log a db1 = Inr db'" "r = Inr a"
proof (cases stored)
  case (Inl e)
  with assms that(1) show ?thesis by (simp add: stored_then_logged_def)
next
  case (Inr p)
  obtain a db1 where "p = (a, db1)" by (cases p)
  with assms Inr that(2,3) show ?thesis by (cases "log a db1") (simp_all add: stored_then_logged_def)
qed

text \<open>A call that may change the registry, and whether it was answered with a success.\<close>

inductive reg_call :: "reg_caller \<Rightarrow> reg_db \<Rightarrow> bool \<Rightarrow> reg_db \<Rightarrow> bool" where
  rc_create_agent: "create_agent who a db = (r, db') \<Longrightarrow> reg_call who db (\<not> isl r) db'"
| rc_patch_agent: "patch_agent who name u db = (r, db') \<Longrightarrow> reg_call who db (\<not> isl r) db'"
| rc_create_deployment: "create_deployment who d db = (r, db') \<Longrightarrow> reg_call who db (\<not> isl r) db'"
| rc_patch_deployment: "patch_deployment who i du db = (r, db') \<Longrightarrow> reg_call who db (\<not> isl r) db'"
| rc_capabilities: "upsert_capabilities who i cs db = (r', db') \<Longrightarrow> reg_call who db (\<not> isl r') db'"

text \<open>Each of them stores first, keeping the invariant and the audit rows, and logs afterwards.\<close>

definition log_of :: "reg_caller \<Rightarrow> ('a \<Rightarrow> reg_db \<Rightarrow> reg_db res) \<Rightarrow> bool" where
  "log_of who log = (\<forall>a. \<exists>act t e m. log a = reg_log_audit who act t e m)"

lemma log_of_audit [simp]: "log_of who (\<lambda>a. reg_log_audit who (act a) (t a) (e a) (m a))"
  by (auto simp: log_of_def)

definition stores_ok :: "('a \<times> reg_db) res \<Rightarrow> reg_db \<Rightarrow> bool" where
  "stores_ok stored db = (\<forall>a db1. stored = Inr (a, db1) \<longrightarrow> rg_audit db1 = rg_audit db \<and> (registry_ok db \<longrightarrow> registry_ok db1))"

lemma stores_ok_Inl [simp]: "stores_ok (Inl e) db"
  by (simp add: stores_ok_def)

lemma name_known: "get_agent_by_name n db = Some a \<Longrightarrow> a \<in> set (rg_agents db) \<and> ga_name a = n"
  by (auto simp: get_agent_by_name_def dest: select_first_Some)

lemma id_known: "get_agent_by_id i db = Some a \<Longrightarrow> a \<in> set (rg_agents db) \<and> ga_id a = i"
  by (auto simp: get_agent_by_id_def table_look_def dest: select_first_Some)

lemma create_agent_stores:
  "agent_status_ok (ga_status a) \<Longrightarrow> stores_ok (store_create_agent (a\<lparr>ga_heartbeat := None\<rparr>) db) db"
  using store_create_agent_ok[of "a\<lparr>ga_heartbeat := None\<rparr>" db]
  by (auto simp: stores_ok_def) (auto simp: store_create_agent_def Let_def split: if_splits)

lemma patch_agent_stores:
  "\<not> (case gp_status u of Some (Some s) \<Rightarrow> \<not> agent_status_ok s | _ \<Rightarrow> False) \<Longrightarrow>
     stores_ok (bind_res (get_agent name db) (\<lambda>a. store_update_agent a u db)) db"
  unfolding stores_ok_def bind_res_Inr
proof (intro allI impI, elim exE conjE, intro conjI impI)
  fix a' db1 a
  assume u: "\<not> (case gp_status u of Some (Some s) \<Rightarrow> \<not> agent_status_ok s | _ \<Rightarrow> False)"
    and got: "get_agent name db = Inr a" and s: "store_update_agent a u db = Inr (a', db1)"
  then show "rg_audit db1 = rg_audit db"
    by (auto simp: store_update_agent_def bind_res_Inr Let_def split: if_splits)
  assume "registry_ok db"
  moreover have "a \<in> set (rg_agents db)"
    using got name_known by (cases "get_agent_by_name name db") (auto simp: get_agent_def)
  ultimately show "registry_ok db1" using store_update_agent_ok[OF s _ _ u] by blast
qed

lemma create_deployment_stores:
  "gd_env d \<in> {''dev'', ''stage'', ''prod''} \<Longrightarrow> stores_ok (store_create_deployment d db) db"
  using store_create_deployment_ok[of d db]
  by (auto simp: stores_ok_def) (auto simp: store_create_deployment_def Let_def split: if_splits)

lemma patch_deployment_stores:
  "stores_ok (bind_res (get_deployment_api i db) (\<lambda>d. store_update_deployment d u db)) db"
  using store_update_deployment_ok[of _ u db]
  by (auto simp: stores_ok_def bind_res_Inr) (auto simp: store_update_deployment_def bind_res_Inr)

lemma capabilities_stores:
  assumes "list_all capability_ok cs" "get_agent_by_id i db = Some a"
  shows "stores_ok (map_sum id (Pair m) (override_capabilities (ga_id a) cs db)) db"
proof -
  have "ga_id a \<in> agent_ids db" using id_known[OF assms(2)] by (auto simp: agent_ids_def)
  moreover have "rg_audit db1 = rg_audit db" if "override_capabilities (ga_id a) cs db = Inr db1" for db1
    by (rule override_capabilities_rows[OF that]) simp
  ultimately show ?thesis
    using override_capabilities_ok[of "ga_id a" cs db] assms(1)
    by (cases "override_capabilities (ga_id a) cs db") (auto simp: stores_ok_def)
qed

definition call_ok :: "reg_caller \<Rightarrow> reg_db \<Rightarrow> bool \<Rightarrow> reg_db \<Rightarrow> bool" where
  "call_ok who db ok db' = ((registry_ok db \<longrightarrow> registry_ok db')
     \<and> (if ok then (\<exists>e. rg_audit db' = rg_audit db @ [e] \<and> gu_correlation e = rc_correlation who \<and> gu_service e = rc_service who)
        else rg_audit db' = rg_audit db
          \<and> (db' = db \<or> length (rc_correlation who) > 128 \<or> length (rc_service who) > 128)))"

lemma call_ok_refused [simp]: "call_ok who db False db"
  by (simp add: call_ok_def)

lemma stored_then_logged_ok:
  assumes "stored_then_logged stored log db = (r, db')" "stores_ok stored db" "log_of who log"
  shows "call_ok who db (\<not> isl r) db'"
proof (rule stored_then_logged_cases[OF assms(1)])
  fix a db1 e
  assume l: "stored = Inr (a, db1)" "log a db1 = Inl e" "r = Inl e" "db' = db1"
  obtain act t en m where "log a = reg_log_audit who act t en m" using assms(3) unfolding log_of_def by blast
  with l assms(2) show ?thesis by (auto simp: call_ok_def stores_ok_def reg_log_audit_def split: if_splits)
next
  fix a db1
  assume l: "stored = Inr (a, db1)" "log a db1 = Inr db'" "r = Inr a"
  obtain act t en m where "log a = reg_log_audit who act t en m" using assms(3) unfolding log_of_def by blast
  with l(2) have "db' = db1\<lparr>rg_audit := insert_row \<lparr>gu_correlation = rc_correlation who, gu_service = rc_service who, gu_tenant = t,
      gu_env = en, gu_action = act, gu_detail = m\<rparr> (rg_audit db1)\<rparr>"
    by (auto simp: reg_log_audit_def split: if_splits)
  with l assms(2) show ?thesis by (auto simp: call_ok_def stores_ok_def insert_row_def)
qed simp

lemma reg_call_ok: "reg_call who db ok db' \<Longrightarrow> call_ok who db ok db'"
proof (induction rule: reg_call.induct)
  case (rc_create_agent who a db r db')
  show ?case
  proof (rule stored_then_logged_ok[OF rc_create_agent[unfolded create_agent_def]])
    show "stores_ok (if ga_name a = [] \<or> length (ga_name a) > 128 \<or> \<not> agent_status_ok (ga_status a) then Inl (HTTPException 422 ''agent'')
      else if get_agent_by_name (ga_name a) db \<noteq> None
      then Inl (HTTPException 409 (''Agent '' @ in_quotes (ga_name a) @ '' already exists.''))
      else store_create_agent (a\<lparr>ga_heartbeat := None\<rparr>) db) db"
      using create_agent_stores by simp
  qed simp
next
  case (rc_patch_agent who name u db r db')
  show ?case
    by (rule stored_then_logged_ok[OF rc_patch_agent[unfolded patch_agent_def]]) (use patch_agent_stores[of u] in simp_all)
next
  case (rc_create_deployment who d db r db')
  show ?case
  proof (cases "gd_env d \<notin> {''dev'', ''stage'', ''prod''} \<or> ds_base_url (gd_settings d) = [] \<or> length (ds_base_url (gd_settings d)) > 256
      \<or> get_agent_by_id (gd_agent d) db = None")
    case True
    then have "db' = db \<and> isl r" using rc_create_deployment unfolding create_deployment_def by (elim disjE) (auto split: if_splits option.splits)
    then show ?thesis by simp
  next
    case False
    then obtain a where a: "get_agent_by_id (gd_agent d) db = Some a" by blast
    have run: "stored_then_logged (store_create_deployment d db)
        (\<lambda>_. reg_log_audit who ''create_deployment'' (gd_tenant d) (Some (gd_env d)) (''Created deployment for agent '' @ ga_name a)) db = (r, db')"
      using False a rc_create_deployment by (simp add: create_deployment_def)
    show ?thesis
      by (rule stored_then_logged_ok[OF run]) (use False create_deployment_stores in simp_all)
  qed
next
  case (rc_patch_deployment who i u db r db')
  show ?case
    by (rule stored_then_logged_ok[OF rc_patch_deployment[unfolded patch_deployment_def] patch_deployment_stores]) simp
next
  case (rc_capabilities who i cs db r' db')
  show ?case
  proof (cases "\<not> list_all capability_ok cs \<or> get_agent_by_id i db = None")
    case True
    then have "db' = db \<and> isl r'" using rc_capabilities unfolding upsert_capabilities_def by (elim disjE) (auto split: if_splits option.splits)
    then show ?thesis by simp
  next
    case False
    then obtain a where a: "get_agent_by_id i db = Some a" by blast
    let ?log = "\<lambda>_. reg_log_audit who ''override_capabilities'' None None
      (''Overwrote capabilities for agent '' @ ga_name a @ '' with '' @ digits_of (length cs) @ '' specs'')"
    obtain m where "upsert_capabilities who i cs db
        = stored_then_logged (map_sum id (Pair m) (override_capabilities (ga_id a) cs db)) ?log db"
      using False a by (simp add: upsert_capabilities_def)
    then have run: "stored_then_logged (map_sum id (Pair m) (override_capabilities (ga_id a) cs db)) ?log db = (r', db')"
      using rc_capabilities by simp
    show ?thesis
      by (rule stored_then_logged_ok[OF run]) (use capabilities_stores a False in simp_all)
  qed
qed

section \<open>Reachable registries\<close>

definition empty_registry :: reg_db where
  "empty_registry = \<lparr>rg_agents = [], rg_deployments = [], rg_capabilities = [], rg_audit = [], rg_next = 0\<rparr>"

inductive reg_reach :: "reg_db \<Rightarrow> bool" where
  rr_start: "reg_reach empty_registry"
| rr_call: "reg_reach db \<Longrightarrow> reg_call who db ok db' \<Longrightarrow> reg_reach db'"
| rr_heartbeat: "reg_reach db \<Longrightarrow> heartbeat now name db = Inr db' \<Longrightarrow> reg_reach db'"

lemma reg_reach_ok: "reg_reach db \<Longrightarrow> registry_ok db"
proof (induction rule: reg_reach.induct)
  case rr_start
  show ?case by (simp add: registry_ok_def empty_registry_def agents_ok_def deployments_ok_def capabilities_ok_def)
next
  case (rr_call db who ok db')
  then show ?case using reg_call_ok by (auto simp: call_ok_def)
next
  case (rr_heartbeat db now name db')
  then show ?case using record_heartbeat_ok by (auto simp: heartbeat_def bind_res_Inr)
qed

section \<open>Resolution\<close>

definition chosen :: "string option \<Rightarrow> reg_deployment list \<Rightarrow> reg_deployment option" where
  "chosen tenant ds = (case ds of
     [] \<Rightarrow> None
   | d # ds' \<Rightarrow> Some (List.last (d # filter (\<lambda>x. gd_tenant x = tenant) ds')))"

definition resolved :: "reg_agent \<Rightarrow> reg_deployment \<Rightarrow> resolvable_agent" where
  "resolved a d = (let s = gd_settings d in
     \<lparr>rv_id = ga_id a, rv_name = ga_name a, rv_base_url = ds_base_url s, rv_scheme = ds_scheme s, rv_alias = ds_alias s,
      rv_health = ds_health s, rv_capabilities = ds_capabilities s\<rparr>)"

lemma answer_text_eq [simp]: "answer_text a = answer_text b \<longleftrightarrow> a = b"
  by (auto simp: answer_text_def split: option.splits)

lemma model_opt_str_text [simp]: "model_opt_str (answer_text t) = Inr t"
  by (cases t) (simp_all add: answer_text_def model_opt_str_def model_str_def)

lemma deployment_fields [simp]:
  "py_item ''id'' (deployment_json d) = Inr (JStr (gd_id d))"
  "py_item ''agent_id'' (deployment_json d) = Inr (JStr (gd_agent d))"
  "py_item ''tenant_id'' (deployment_json d) = Inr (answer_text (gd_tenant d))"
  "py_item ''base_url'' (deployment_json d) = Inr (JStr (ds_base_url (gd_settings d)))"
  "py_get ''tenant_id'' x (deployment_json d) = Inr (answer_text (gd_tenant d))"
  "py_get ''env'' x (deployment_json d) = Inr (JStr (gd_env d))"
  "py_get ''auth_scheme'' x (deployment_json d) = Inr (JStr (ds_scheme (gd_settings d)))"
  "py_get ''auth_secret_alias'' x (deployment_json d) = Inr (answer_text (ds_alias (gd_settings d)))"
  "py_get ''health_endpoint'' x (deployment_json d) = Inr (answer_text (ds_health (gd_settings d)))"
  "py_get ''capabilities_endpoint'' x (deployment_json d) = Inr (answer_text (ds_capabilities (gd_settings d)))"
  "truthy (deployment_json d)"
  by (simp_all add: deployment_json_def Let_def py_item_def py_get_def dget_def)

lemma agent_fields [simp]:
  "py_item ''id'' (agent_json a) = Inr (JStr (ga_id a))"
  "py_item ''name'' (agent_json a) = Inr (JStr (ga_name a))"
  "py_get ''status'' x (agent_json a) = Inr (JStr (ga_status a))"
  by (simp_all add: agent_json_def py_item_def py_get_def dget_def)

lemma choose_from:
  "choose_deployment (JStr i) (answer_text tenant) (List.map deployment_json ds) (Some (deployment_json t)) =
     Inr (Some (deployment_json (List.last (t # filter (\<lambda>x. gd_tenant x = tenant) (filter (\<lambda>d. gd_agent d = i) ds)))))"
  by (induction ds arbitrary: t) auto

lemma choose_first:
  "choose_deployment (JStr i) (answer_text tenant) (List.map deployment_json ds) None =
     Inr (map_option deployment_json (chosen tenant (filter (\<lambda>d. gd_agent d = i) ds)))"
  by (induction ds) (auto simp: choose_from chosen_def)

lemma resolvable_of_json [simp]:
  "resolvable_of (JStr (ga_id a)) (ga_name a) (deployment_json d) = Inr (resolved a d)"
  by (simp add: resolvable_of_def model_str_def resolved_def Let_def)

definition deployments_in :: "string \<Rightarrow> reg_agent \<Rightarrow> reg_db \<Rightarrow> reg_deployment list" where
  "deployments_in env a db = rev (filter (\<lambda>d. gd_agent d = ga_id a \<and> filter_given (Some env) (gd_env d)) (rg_deployments db))"

lemma listed_deployments:
  "filter (\<lambda>d. gd_agent d = ga_id a) (list_deployments None (Some env) (Some (ga_id a)) db) = deployments_in env a db"
proof -
  have "filter (\<lambda>d. gd_agent d = ga_id a) (list_deployments None (Some env) (Some (ga_id a)) db)
      = rev (filter (\<lambda>d. gd_agent d = ga_id a \<and> filter_given (Some env) (gd_env d) \<and> filter_given (Some (ga_id a)) (gd_agent d))
          (rg_deployments db))"
    by (simp add: list_deployments_def select_all_def rev_filter[symmetric] conj_commute conj_left_commute)
  also have "\<dots> = deployments_in env a db"
    unfolding deployments_in_def by (intro arg_cong[of _ _ rev] filter_cong) (auto simp: filter_given_def split: list.splits)
  finally show ?thesis .
qed

lemma http_answer_simps [simp]: "http_answer (Inr j) = Inr (200, Inr j)"
  "http_answer (Inl (HTTPException n d)) = Inr (n, Inr (JObj [(''detail'', JStr d)]))"
  by (simp_all add: http_answer_def)

lemma raise_for_status_200 [simp]: "raise_for_status (200, r) = r"
  by (simp add: raise_for_status_def)

lemma get_agent_known: "get_agent_by_name n db = Some a \<Longrightarrow> get_agent n db = Inr a"
  "get_agent_by_name n db = None \<Longrightarrow> get_agent n db = Inl (no_agent n)"
  by (simp_all add: get_agent_def)

section \<open>The import of the monitoring agent\<close>

definition target_of :: "reg_db \<Rightarrow> reg_deployment \<Rightarrow> mon_target" where
  "target_of db d = \<lparr>mt_id = gd_id d, mt_tenant = gd_tenant d, mt_env = gd_env d,
     mt_agent = (case get_agent_by_id (gd_agent d) db of Some a \<Rightarrow> ga_name a | None \<Rightarrow> ''unknown-agent''),
     mt_deployment = gd_id d, mt_url = ds_base_url (gd_settings d), mt_enabled = True\<rparr>"

definition names_of :: "reg_db \<Rightarrow> (json \<times> json) list" where
  "names_of db = List.map (\<lambda>a. (JStr (ga_id a), JStr (ga_name a))) (list_agents db)"

lemma names_answered:
  "agent_names (registry_agents_answer (Inr w) db) = Inr (names_of db)"
  unfolding names_of_def
  by (simp add: agent_names_def registry_agents_answer_def py_iterate_def)
    (subst map_res_all[where g = "\<lambda>j. (case py_item ''id'' j of Inr i \<Rightarrow> i | _ \<Rightarrow> JNull, case py_item ''name'' j of Inr n \<Rightarrow> n | _ \<Rightarrow> JNull)"];
      auto simp: hashed_def hashable_def json_key_def)

lemma name_found:
  assumes "distinct (List.map ga_id (rg_agents db))" "get_agent_by_id i db = Some a"
  shows "map_of (rev (names_of db)) (JStr i) = Some (JStr (ga_name a))"
proof -
  let ?as = "list_agents db"
  have same: "set ?as = set (rg_agents db)" "distinct ?as = distinct (rg_agents db)" by (simp_all add: list_agents_def)
  then have "distinct (List.map ga_id ?as)" using assms(1) by (simp add: distinct_map)
  then have "distinct (List.map fst (rev (names_of db)))"
    by (simp add: names_of_def rev_map[symmetric] o_def distinct_map inj_on_def)
  moreover have "a \<in> set ?as" "ga_id a = i" using id_known[OF assms(2)] same by auto
  then have "(JStr i, JStr (ga_name a)) \<in> set (rev (names_of db))" by (auto simp: names_of_def)
  ultimately show ?thesis by simp
qed

lemma row_read_deployment:
  assumes "registry_ok db" "d \<in> set (rg_deployments db)"
  shows "row_read (names_of db) (deployment_json d) (target_of db d)"
proof -
  have "gd_agent d \<in> agent_ids db" using assms by (auto simp: registry_ok_def deployments_ok_def)
  then obtain a where a: "get_agent_by_id (gd_agent d) db = Some a" by (metis get_agent_by_id_iff not_None_eq)
  have "map_of (rev (names_of db)) (JStr (gd_agent d)) = Some (JStr (ga_name a))"
    using assms(1) by (intro name_found[OF _ a]) (simp add: registry_ok_def agents_ok_def)
  then show ?thesis
    by (cases "gd_tenant d")
      (simp_all add: row_read_def raw_of_def hashed_def hashable_def json_key_def row_of_def text_col_def nullable_def target_of_def a answer_text_def)
qed

lemma newest_row_in:
  "distinct (List.map mt_id rows) \<Longrightarrow> t \<in> set rows \<Longrightarrow> newest_row (mt_id t) rows = Some t"
  by (induction rows rule: rev_induct) auto

lemma newest_row_out: "newest_row i rows = None \<longleftrightarrow> i \<notin> mt_id ` set rows"
  by (induction rows rule: rev_induct) auto

section \<open>Properties\<close>

text \<open>The registry keeps its tables sound through any calls: agents have distinct names and identifiers, a
  known status and fields that fit their columns, each deployment belongs to a registered agent, in one of the
  three environments, and no agent has one capability twice in one version.\<close>

theorem reachable_registry_ok:
  assumes "reg_reach db"
  shows "distinct (List.map ga_name (rg_agents db)) \<and> distinct (List.map ga_id (rg_agents db))
       \<and> distinct (List.map gd_id (rg_deployments db))
       \<and> (\<forall>a \<in> set (rg_agents db). ga_status a \<in> {''active'', ''disabled''} \<and> agent_fits a)
       \<and> (\<forall>d \<in> set (rg_deployments db). get_agent_by_id (gd_agent d) db \<noteq> None \<and> gd_env d \<in> {''dev'', ''stage'', ''prod''}
            \<and> settings_fit (gd_settings d))
       \<and> distinct (List.map capability_key (rg_capabilities db))
       \<and> (\<forall>c \<in> set (rg_capabilities db). get_agent_by_id (gc_agent c) db \<noteq> None)"
  using reg_reach_ok[OF assms]
  by (simp add: registry_ok_def agents_ok_def deployments_ok_def capabilities_ok_def get_agent_by_id_iff agent_status_ok_def)

text \<open>A call that changes the registry and succeeds leaves exactly one new audit row, which names the
  caller's service and correlation identifier; one that fails leaves no row, and no change either, unless the
  identifiers of the caller do not fit the audit table.\<close>

theorem calls_audited:
  assumes "reg_call who db ok db'"
  shows "(ok \<longrightarrow> (\<exists>e. rg_audit db' = rg_audit db @ [e] \<and> gu_correlation e = rc_correlation who \<and> gu_service e = rc_service who))
       \<and> (\<not> ok \<longrightarrow> rg_audit db' = rg_audit db
            \<and> (db' = db \<or> length (rc_correlation who) > 128 \<or> length (rc_service who) > 128))"
  using reg_call_ok[OF assms] by (simp add: call_ok_def split: if_splits)

text \<open>C29: The client resolves a name against a registry that accepts it as follows: nothing for an agent that
  is unknown or disabled or has no deployment in the environment; otherwise, of the agent's deployments in
  the environment, newest first, the last one after the first that has the tenant asked for, and the first
  one, whatever its tenant, when there is none.\<close>

theorem resolution:
  "resolve_in (Inr who) db name tenant env = Inr (case get_agent_by_name name db of
      None \<Rightarrow> None
    | Some a \<Rightarrow> if ga_status a = ''disabled'' then None
        else map_option (resolved a) (chosen tenant (deployments_in env a db)))"
proof (cases "get_agent_by_name name db")
  case None
  then show ?thesis
    by (simp add: resolve_in_def resolve_agent_def registry_agent_answer_def get_agent_known no_agent_def)
next
  case (Some a)
  then have "name = ga_name a" using name_known by metis
  then show ?thesis
    using Some choose_first[of "ga_id a" tenant "list_deployments None (Some env) (Some (ga_id a)) db"]
    by (simp add: resolve_in_def resolve_agent_def registry_agent_answer_def registry_deployments_answer_def get_agent_known
        py_iterate_def listed_deployments split: option.splits)
qed

text \<open>An import by the monitoring agent from a reachable registry that accepts it stores every deployment
  as a target, with its tenant, environment and base URL and the name of its agent, enabled as it was before
  and else by default, also when the agent is disabled; it leaves every other target alone and
  answers the number of deployments.\<close>

theorem import_of_registry:
  assumes "reg_reach db"
    and "trigger_sync now db_now corr (registry_deployments_answer (Inr w) db None None) (registry_agents_answer (Inr w) db) mon
      = (r, mon')"
  shows "r = Inr (length (rg_deployments db))
       \<and> (\<forall>d \<in> set (rg_deployments db). \<exists>a. get_agent_by_id (gd_agent d) db = Some a
            \<and> table_look mt_id (md_targets mon') (gd_id d) = Some \<lparr>mt_id = gd_id d, mt_tenant = gd_tenant d, mt_env = gd_env d,
                 mt_agent = ga_name a, mt_deployment = gd_id d, mt_url = ds_base_url (gd_settings d),
                 mt_enabled = kept_flag (table_look mt_id (md_targets mon) (gd_id d))\<rparr>)
       \<and> (\<forall>i. i \<notin> gd_id ` set (rg_deployments db) \<longrightarrow>
            table_look mt_id (md_targets mon') i = table_look mt_id (md_targets mon) i)"
proof -
  let ?ds = "rev (rg_deployments db)"
  let ?js = "List.map deployment_json ?ds" and ?rows = "List.map (target_of db) ?ds"
  have ok: "registry_ok db" by (rule reg_reach_ok[OF assms(1)])
  have deps: "registry_deployments_answer (Inr w) db None None = Inr (200, Inr (JList ?js))"
    by (simp add: registry_deployments_answer_def list_deployments_def select_all_def filter_given_def)
  have rows: "list_all2 (row_read (names_of db)) ?js ?rows"
    using row_read_deployment[OF ok] by (auto simp: list_all2_map1 list_all2_map2 intro: list.rel_refl_strong)
  note stored = import_stores[OF assms(2)[unfolded deps] _ names_answered rows]
  have it: "py_iterate (JList ?js) = Inr ?js" by (simp add: py_iterate_def)
  have ids: "List.map mt_id ?rows = rev (List.map gd_id (rg_deployments db))" by (simp add: target_of_def rev_map)
  have d: "distinct (List.map mt_id ?rows)"
    unfolding ids using ok by (simp add: registry_ok_def deployments_ok_def)
  show ?thesis
  proof (intro conjI ballI allI impI)
    show "r = Inr (length (rg_deployments db))" using stored(1)[OF it] by simp
  next
    fix x assume x: "x \<in> set (rg_deployments db)"
    then have "gd_agent x \<in> agent_ids db" using ok by (auto simp: registry_ok_def deployments_ok_def)
    then obtain a where a: "get_agent_by_id (gd_agent x) db = Some a" by (metis get_agent_by_id_iff not_None_eq)
    have "newest_row (mt_id (target_of db x)) ?rows = Some (target_of db x)" using x by (intro newest_row_in[OF d]) simp
    then have "newest_row (gd_id x) ?rows = Some (target_of db x)" by (simp add: target_of_def)
    with stored(2)[OF it, of "gd_id x"] a
    show "\<exists>a. get_agent_by_id (gd_agent x) db = Some a
        \<and> table_look mt_id (md_targets mon') (gd_id x) = Some \<lparr>mt_id = gd_id x, mt_tenant = gd_tenant x, mt_env = gd_env x,
            mt_agent = ga_name a, mt_deployment = gd_id x, mt_url = ds_base_url (gd_settings x),
            mt_enabled = kept_flag (table_look mt_id (md_targets mon) (gd_id x))\<rparr>"
      by (simp add: target_of_def)
  next
    fix i assume "i \<notin> gd_id ` set (rg_deployments db)"
    then have "newest_row i ?rows = None" by (auto simp: newest_row_out target_of_def)
    with stored(2)[OF it, of i] show "table_look mt_id (md_targets mon') i = table_look mt_id (md_targets mon) i" by simp
  qed
qed

section \<open>Witnesses\<close>

definition demo_reg_caller :: reg_caller where
  "demo_reg_caller = \<lparr>rc_service = ''nexus'', rc_admin = True, rc_correlation = ''c''\<rparr>"

definition demo_new_agent :: reg_agent where
  "demo_new_agent = \<lparr>ga_id = [], ga_name = ''dns-agent'', ga_status = ''active'', ga_description = None, ga_owner = None,
     ga_tags = None, ga_heartbeat = None\<rparr>"

definition demo_settings :: dep_settings where
  "demo_settings = \<lparr>ds_base_url = ''http://dns'', ds_public_url = None, ds_version = None, ds_build = None, ds_health = Some ''/healthz'',
     ds_ready = Some ''/readyz'', ds_capabilities = None, ds_scheme = ''headers'', ds_alias = None, ds_headers = None, ds_rates = None,
     ds_timeouts = None\<rparr>"

definition demo_registry :: reg_db where
  "demo_registry = snd (create_deployment demo_reg_caller \<lparr>gd_id = [], gd_agent = ''0'', gd_tenant = Some ''acme'', gd_env = ''prod'',
     gd_settings = demo_settings\<rparr> (snd (create_agent demo_reg_caller demo_new_agent empty_registry)))"

lemma demo_registry_reach: "reg_reach demo_registry"
  unfolding demo_registry_def
  by (rule rr_call[OF rr_call[OF rr_start rc_create_agent[OF surjective_pairing]] rc_create_deployment[OF surjective_pairing]])

lemma demo_registry_rows:
  "List.map ga_name (rg_agents demo_registry) = [''dns-agent'']"
  "List.map (\<lambda>d. (gd_id d, gd_tenant d, ds_base_url (gd_settings d))) (rg_deployments demo_registry) = [(''1'', Some ''acme'', ''http://dns'')]"
  by code_simp+

theorem reachable_registry_ok_witness:
  "distinct (List.map ga_name (rg_agents demo_registry)) \<and> rg_agents demo_registry \<noteq> []"
  using reachable_registry_ok[OF demo_registry_reach] demo_registry_rows(1) by auto

theorem calls_audited_witness:
  "\<exists>e. rg_audit (snd (create_agent demo_reg_caller demo_new_agent empty_registry)) = [e] \<and> gu_service e = ''nexus''"
proof -
  let ?c = "create_agent demo_reg_caller demo_new_agent empty_registry"
  have "\<not> isl (fst ?c)" by code_simp
  then show ?thesis
    using calls_audited[OF rc_create_agent[where who = demo_reg_caller and a = demo_new_agent and db = empty_registry, OF surjective_pairing]]
    by (auto simp: empty_registry_def demo_reg_caller_def)
qed

theorem import_of_registry_witness:
  "fst (trigger_sync 5 5 ''c'' (registry_deployments_answer (Inr demo_reg_caller) demo_registry None None)
     (registry_agents_answer (Inr demo_reg_caller) demo_registry) empty_mon) = Inr 1"
  using import_of_registry[OF demo_registry_reach surjective_pairing, of 5 5 "''c''" demo_reg_caller empty_mon]
    arg_cong[OF demo_registry_rows(2), of length] by simp

text \<open>A registry with a deployment of one tenant only answers it to every other tenant, and to a request for the
  global one.\<close>

lemma another_tenants_deployment:
  "resolve_in (Inr demo_reg_caller) demo_registry ''dns-agent'' (Some ''other'') ''prod''
     = resolve_in (Inr demo_reg_caller) demo_registry ''dns-agent'' (Some ''acme'') ''prod''"
  "map_sum id (map_option rv_base_url) (resolve_in (Inr demo_reg_caller) demo_registry ''dns-agent'' None ''prod'') = Inr (Some ''http://dns'')"
  by code_simp+

end
