(* ===== verification/Orchestration.thy ===== *)
theory Orchestration
  imports "Automation" Access
begin

text \<open>
  The routers of the API that set up the work of the worker: tasks (\<open>routers/tasks.py\<close>), their routes
  (\<open>routers/task_routes.py\<close>), personas with their versions and defaults (\<open>routers/personas.py\<close>,
  \<open>routers/persona_defaults.py\<close>), agents (\<open>routers/agents.py\<close>) and the audit log (\<open>routers/audit.py\<close>).  The
  worker reads the same tables: \<open>worker_of\<close> is its view of them.  Fresh identifiers come from one counter,
  rows are kept in the order of their creation, and the queue is the list of the tasks handed to it.
\<close>

section \<open>Tables\<close>

record persona_row =
  pn_id :: int
  pn_name :: string
  pn_description :: "string option"
  pn_is_active :: bool

record version_row = persona_version +
  vr_persona_id :: int
  vr_meta :: "dict option"

record default_row = persona_default +
  dr_id :: int

text \<open>The JSON column of the capabilities takes a null as the JSON value null.\<close>

record route_row =
  ro_id :: int
  ro_task_type :: string
  ro_required_capabilities :: "string list option"
  ro_preferred_agent_id :: "int option"
  ro_is_active :: bool

record full_agent = agent_row +
  fa_last_seen :: "int option"

record checkin_row =
  ci_id :: int
  ci_agent :: int
  ci_status :: string
  ci_meta :: "dict option"

record run_row =
  rn_task :: int
  rn_attempt :: int
  rn_status :: string

record stored_event =
  se_created :: int
  se_event :: audit_event

record orch_db =
  oc_tasks :: "task_row list"
  oc_runs :: "run_row list"
  oc_personas :: "persona_row list"
  oc_versions :: "version_row list"
  oc_defaults :: "default_row list"
  oc_routes :: "route_row list"
  oc_agents :: "full_agent list"
  oc_checkins :: "checkin_row list"
  oc_secrets :: "secret_row list"
  oc_audit :: "stored_event list"
  oc_metrics :: "(string \<times> int) list"
  oc_queue :: "int list"
  oc_next :: int

record orch_env =
  oe_now :: int
  oe_enqueue :: "int \<Rightarrow> unit res"
  oe_raw_key :: string
  oe_nonce :: bytes
  oe_enc :: aead_enc
  oe_master_key :: "string option"

definition foreign_key :: exn where
  "foreign_key = PyError ''IntegrityError'' ''foreign key''"

definition known_ref :: "('r \<Rightarrow> int) \<Rightarrow> 'r list \<Rightarrow> int option \<Rightarrow> unit res" where
  "known_ref key rows i = (case i of None \<Rightarrow> Inr ()
     | Some k \<Rightarrow> bind_res (pg_int k) (\<lambda>k. if table_look key rows k = None then Inl foreign_key else Inr ()))"

text \<open>A request whose commit fails, or that refuses before it, leaves the tables as they were.\<close>

definition transact :: "('a \<times> 'db) res \<Rightarrow> 'db \<Rightarrow> 'a res \<times> 'db" where
  "transact r db = (case r of Inl e \<Rightarrow> (Inl e, db) | Inr (a, db') \<Rightarrow> (Inr a, db'))"

lemma transact_cases:
  assumes "transact r db = (a, db')"
  obtains e where "r = Inl e" "a = Inl e" "db' = db" | x where "r = Inr (x, db')" "a = Inr x"
  using assms by (cases r) (auto simp: transact_def)

definition row_or_404 :: "string \<Rightarrow> ('r \<Rightarrow> int) \<Rightarrow> int \<Rightarrow> 'r list \<Rightarrow> 'r res" where
  "row_or_404 what key i rows = bind_res (pg_int i) (\<lambda>i. of_opt (HTTPException 404 (what @ '' not found'')) (table_look key rows i))"

section \<open>Tasks\<close>

record task_create =
  tc_type :: string
  tc_payload :: dict
  tc_assigned_agent_id :: "int option"
  tc_persona_version_id :: "int option"
  tc_priority :: int

definition route_caps_of :: "string \<Rightarrow> orch_db \<Rightarrow> string list" where
  "route_caps_of type db = (case select_first (\<lambda>r. ro_task_type r = type) (oc_routes db) of
     None \<Rightarrow> [] | Some r \<Rightarrow> list_or_empty (ro_required_capabilities r))"

definition early_validation :: "task_create \<Rightarrow> orch_db \<Rightarrow> unit res" where
  "early_validation t db =
     (if \<not> truthy_id (tc_persona_version_id t) then Inr ()
      else bind_res (pg_int (the (tc_persona_version_id t))) (\<lambda>i.
        bind_res (of_opt (HTTPException 400 ''Invalid persona_version_id'') (table_look pv_id (oc_versions db) i)) (\<lambda>v.
          if pv_tools_policy v \<in> {None, Some []} then Inr ()
          else bind_res (enforce_persona_policy (tc_type t) (route_caps_of (tc_type t) db) None (the (pv_tools_policy v))) (\<lambda>_. Inr ()))))"

definition insert_task :: "caller \<Rightarrow> task_create \<Rightarrow> orch_db \<Rightarrow> (task_row \<times> orch_db) res" where
  "insert_task who t db =
     bind_res (pg_int (tc_priority t)) (\<lambda>priority.
     bind_res (known_ref pv_id (oc_versions db) (tc_persona_version_id t)) (\<lambda>_.
     bind_res (known_ref ag_id (oc_agents db) (tc_assigned_agent_id t)) (\<lambda>_.
       let row = \<lparr>tk_id = oc_next db, tk_type = tc_type t, tk_status = ''queued'', tk_priority = priority,
             tk_payload = tc_payload t, tk_persona_version_id = tc_persona_version_id t,
             tk_requested_by_user_id = (case who of CallerUser u \<Rightarrow> Some (us_id u) | CallerAgent _ \<Rightarrow> None),
             tk_requested_by_agent_id = (case who of CallerUser _ \<Rightarrow> None | CallerAgent a \<Rightarrow> Some (ag_id a)),
             tk_assigned_agent_id = tc_assigned_agent_id t\<rparr> in
       Inr (row, db\<lparr>oc_tasks := insert_row row (oc_tasks db), oc_next := oc_next db + 1\<rparr>))))"

text \<open>The task is committed before it is handed to the queue.\<close>

definition create_task :: "orch_env \<Rightarrow> caller \<Rightarrow> task_create \<Rightarrow> orch_db \<Rightarrow> task_row res \<times> orch_db" where
  "create_task env who t db =
     (case bind_res (early_validation t db) (\<lambda>_. insert_task who t db) of
        Inl e \<Rightarrow> (Inl e, db)
      | Inr (row, db1) \<Rightarrow>
          (let db2 = db1\<lparr>oc_metrics := insert_row (''task_create'', tk_id row) (oc_metrics db1)\<rparr> in
           case oe_enqueue env (tk_id row) of
             Inl e \<Rightarrow> (Inl e, db2)
           | Inr _ \<Rightarrow> (Inr row, db2\<lparr>oc_queue := insert_row (tk_id row) (oc_queue db2)\<rparr>)))"

definition read_tasks :: "string option \<Rightarrow> string option \<Rightarrow> int \<Rightarrow> int \<Rightarrow> orch_db \<Rightarrow> task_row list res" where
  "read_tasks status type start limit db = page_rows start limit (select_all (\<lambda>t.
     (status \<in> {None, Some []} \<or> Some (tk_status t) = status) \<and> (type \<in> {None, Some []} \<or> Some (tk_type t) = type)) (oc_tasks db))"

definition read_task :: "int \<Rightarrow> orch_db \<Rightarrow> task_row res" where
  "read_task i db = row_or_404 ''Task'' tk_id i (oc_tasks db)"

definition terminal_status :: "string \<Rightarrow> bool" where
  "terminal_status s = (s \<in> {''succeeded'', ''failed'', ''cancelled''})"

definition cancel_task :: "int \<Rightarrow> orch_db \<Rightarrow> int res \<times> orch_db" where
  "cancel_task i db = transact (bind_res (read_task i db) (\<lambda>t.
     if terminal_status (tk_status t) then Inl (HTTPException 400 ''Terminal status reached'')
     else Inr (i, db\<lparr>oc_tasks := table_update tk_id i (\<lambda>t. t\<lparr>tk_status := ''cancelled''\<rparr>) (oc_tasks db)\<rparr>))) db"

definition read_task_runs :: "int \<Rightarrow> orch_db \<Rightarrow> run_row list res" where
  "read_task_runs i db = bind_res (pg_int i) (\<lambda>i. Inr (select_all (\<lambda>r. rn_task r = i) (oc_runs db)))"

section \<open>Routes\<close>

definition route_answer :: "route_row \<Rightarrow> route_row res" where
  "route_answer r = (if ro_required_capabilities r = None then Inl (PyError ''ResponseValidationError'' ''list_type'') else Inr r)"

definition create_task_route :: "user_row option \<Rightarrow> route_row \<Rightarrow> orch_db \<Rightarrow> route_row res \<times> orch_db" where
  "create_task_route user r db = transact (bind_res (RequireModuleAccess ''orchestration'' ''manage'' user) (\<lambda>_.
     let row = r\<lparr>ro_id := oc_next db\<rparr>;
         stored = bind_res (known_ref ag_id (oc_agents db) (ro_preferred_agent_id r)) (\<lambda>_.
           if \<exists>x \<in> set (oc_routes db). ro_task_type x = ro_task_type r then Inl (PyError ''IntegrityError'' ''task_type'')
           else Inr (row, db\<lparr>oc_routes := insert_row row (oc_routes db), oc_next := oc_next db + 1\<rparr>)) in
     (case stored of
        Inl e \<Rightarrow> Inl (HTTPException 400 (''Could not create given task route: '' @ exn_text e))
      | Inr x \<Rightarrow> Inr x))) db"

definition read_task_routes :: "user_row option \<Rightarrow> int \<Rightarrow> int \<Rightarrow> orch_db \<Rightarrow> route_row list res" where
  "read_task_routes user start limit db = bind_res (RequireModuleAccess ''orchestration'' ''read'' user) (\<lambda>_.
     bind_res (page_rows start limit (oc_routes db)) (map_res route_answer))"

record route_update =
  ru_required_capabilities :: "string list field_patch"
  ru_preferred_agent_id :: "int field_patch"
  ru_is_active :: "bool field_patch"

text \<open>The answer is validated after the commit.\<close>

definition update_task_route :: "user_row option \<Rightarrow> int \<Rightarrow> route_update \<Rightarrow> orch_db \<Rightarrow> route_row res \<times> orch_db" where
  "update_task_route user i u db =
     (case bind_res (RequireModuleAccess ''orchestration'' ''manage'' user) (\<lambda>_.
        bind_res (row_or_404 ''TaskRoute'' ro_id i (oc_routes db)) (\<lambda>r.
        bind_res (patch_value (ru_is_active u) (ro_is_active r)) (\<lambda>active.
          let r' = r\<lparr>ro_required_capabilities := patch_null (ru_required_capabilities u) (ro_required_capabilities r),
                ro_preferred_agent_id := patch_null (ru_preferred_agent_id u) (ro_preferred_agent_id r), ro_is_active := active\<rparr> in
          bind_res (known_ref ag_id (oc_agents db) (ro_preferred_agent_id r')) (\<lambda>_. Inr r')))) of
        Inl e \<Rightarrow> (Inl e, db)
      | Inr r' \<Rightarrow> (route_answer r', db\<lparr>oc_routes := table_update ro_id i (\<lambda>_. r') (oc_routes db)\<rparr>))"

section \<open>Personas\<close>

definition create_persona :: "user_row option \<Rightarrow> persona_row \<Rightarrow> orch_db \<Rightarrow> persona_row res \<times> orch_db" where
  "create_persona user p db = transact (bind_res (RequireModuleAccess ''personas'' ''manage'' user) (\<lambda>_.
     let row = p\<lparr>pn_id := oc_next db\<rparr> in
     Inr (row, db\<lparr>oc_personas := insert_row row (oc_personas db), oc_next := oc_next db + 1\<rparr>))) db"

definition read_personas :: "user_row option \<Rightarrow> int \<Rightarrow> int \<Rightarrow> orch_db \<Rightarrow> persona_row list res" where
  "read_personas user start limit db = bind_res (RequireModuleAccess ''personas'' ''read'' user) (\<lambda>_.
     page_rows start limit (oc_personas db))"

definition read_persona :: "user_row option \<Rightarrow> int \<Rightarrow> orch_db \<Rightarrow> persona_row res" where
  "read_persona user i db = bind_res (RequireModuleAccess ''personas'' ''read'' user) (\<lambda>_.
     row_or_404 ''Persona'' pn_id i (oc_personas db))"

definition create_persona_version :: "user_row option \<Rightarrow> int \<Rightarrow> version_row \<Rightarrow> orch_db \<Rightarrow> version_row res \<times> orch_db" where
  "create_persona_version user i v db = transact (bind_res (RequireModuleAccess ''personas'' ''manage'' user) (\<lambda>_.
     bind_res (row_or_404 ''Persona'' pn_id i (oc_personas db)) (\<lambda>_.
       let row = v\<lparr>pv_id := oc_next db, vr_persona_id := i\<rparr> in
       Inr (row, db\<lparr>oc_versions := insert_row row (oc_versions db), oc_next := oc_next db + 1\<rparr>)))) db"

definition read_persona_versions :: "user_row option \<Rightarrow> int \<Rightarrow> orch_db \<Rightarrow> version_row list res" where
  "read_persona_versions user i db = bind_res (RequireModuleAccess ''personas'' ''read'' user) (\<lambda>_.
     bind_res (pg_int i) (\<lambda>i. Inr (select_all (\<lambda>v. vr_persona_id v = i) (oc_versions db))))"

definition create_persona_default :: "user_row option \<Rightarrow> default_row \<Rightarrow> orch_db \<Rightarrow> default_row res \<times> orch_db" where
  "create_persona_default user d db = transact (bind_res (RequireModuleAccess ''personas'' ''manage'' user) (\<lambda>_.
     if pd_scope_type d \<notin> {''global'', ''task_type'', ''agent_id''} then Inl (HTTPException 422 ''scope_type'')
     else bind_res (known_ref pv_id (oc_versions db) (Some (pd_persona_version_id d))) (\<lambda>_.
       let row = d\<lparr>dr_id := oc_next db\<rparr> in
       Inr (row, db\<lparr>oc_defaults := insert_row row (oc_defaults db), oc_next := oc_next db + 1\<rparr>)))) db"

definition read_persona_defaults :: "user_row option \<Rightarrow> int \<Rightarrow> int \<Rightarrow> orch_db \<Rightarrow> default_row list res" where
  "read_persona_defaults user start limit db = bind_res (RequireModuleAccess ''personas'' ''read'' user) (\<lambda>_.
     page_rows start limit (oc_defaults db))"

record default_update =
  dp_scope_value :: "string field_patch"
  dp_persona_version_id :: "int field_patch"
  dp_is_active :: "bool field_patch"

definition update_persona_default :: "user_row option \<Rightarrow> int \<Rightarrow> default_update \<Rightarrow> orch_db \<Rightarrow> default_row res \<times> orch_db" where
  "update_persona_default user i u db = transact (bind_res (RequireModuleAccess ''personas'' ''manage'' user) (\<lambda>_.
     bind_res (row_or_404 ''PersonaDefault'' dr_id i (oc_defaults db)) (\<lambda>d.
     bind_res (patch_value (dp_persona_version_id u) (pd_persona_version_id d)) (\<lambda>v.
     bind_res (patch_value (dp_is_active u) (pd_is_active d)) (\<lambda>active.
     bind_res (known_ref pv_id (oc_versions db) (Some v)) (\<lambda>_.
       let d' = d\<lparr>pd_scope_value := patch_null (dp_scope_value u) (pd_scope_value d), pd_persona_version_id := v,
             pd_is_active := active\<rparr> in
       Inr (d', db\<lparr>oc_defaults := table_update dr_id i (\<lambda>_. d') (oc_defaults db)\<rparr>))))))) db"

section \<open>Agents\<close>

definition orch_audit :: "orch_env \<Rightarrow> string \<Rightarrow> string \<Rightarrow> user_row \<Rightarrow> int \<Rightarrow> orch_db \<Rightarrow> orch_db res" where
  "orch_audit env action resource who i db =
     bind_res (log_audit_event action resource (Some (UserId (us_id who))) (Some (str_int i)) [] []) (\<lambda>rows.
       Inr (db\<lparr>oc_audit := oc_audit db @ List.map (\<lambda>e. \<lparr>se_created = oe_now env, se_event = e\<rparr>) rows\<rparr>))"

definition agent_numbers :: "agent_row \<Rightarrow> unit res" where
  "agent_numbers a = bind_res (pg_int (ag_max_concurrency a)) (\<lambda>_. bind_res (pg_int (ag_timeout_seconds a)) (\<lambda>_. Inr ()))"

text \<open>A new agent is active and of unknown status; one that is to be called with a key gets a fresh one, which is
  stored encrypted and answered once.\<close>

definition create_api_agent :: "orch_env \<Rightarrow> user_row option \<Rightarrow> full_agent \<Rightarrow> orch_db \<Rightarrow> (full_agent \<times> string option) res \<times> orch_db" where
  "create_api_agent env user a db = transact (bind_res (RequireModuleAccess ''orchestration'' ''manage'' user) (\<lambda>who.
     bind_res (agent_numbers (agent_row.truncate a)) (\<lambda>_.
       let row = a\<lparr>ag_id := oc_next db, ag_is_active := True, ag_status := ''unknown'', fa_last_seen := None\<rparr>;
           db1 = db\<lparr>oc_agents := insert_row row (oc_agents db), oc_next := oc_next db + 1\<rparr> in
       if ag_auth_type a = ''api_key''
       then bind_res (shared_encrypt_secret (oe_enc env) (oe_master_key env) (oe_nonce env) (oe_raw_key env)) (\<lambda>c.
         bind_res (orch_audit env ''agent_create'' ''agent'' who (ag_id row) (db1\<lparr>oc_secrets := insert_row
             \<lparr>sc_owner_type = ''agent'', sc_owner_id = Some (ag_id row), sc_purpose = ''agent_outbound_key'', sc_ciphertext = c\<rparr>
             (oc_secrets db1)\<rparr>)) (\<lambda>db2.
           Inr ((row, Some (oe_raw_key env)), db2)))
       else bind_res (orch_audit env ''agent_create'' ''agent'' who (ag_id row) db1) (\<lambda>db2. Inr ((row, None), db2))))) db"

definition read_agents :: "user_row option \<Rightarrow> int \<Rightarrow> int \<Rightarrow> orch_db \<Rightarrow> full_agent list res" where
  "read_agents user start limit db = bind_res (RequireModuleAccess ''orchestration'' ''read'' user) (\<lambda>_.
     page_rows start limit (oc_agents db))"

definition read_agent :: "user_row option \<Rightarrow> int \<Rightarrow> orch_db \<Rightarrow> full_agent res" where
  "read_agent user i db = bind_res (RequireModuleAccess ''orchestration'' ''read'' user) (\<lambda>_.
     row_or_404 ''Agent'' ag_id i (oc_agents db))"

record api_agent_update =
  aa_name :: "string field_patch"
  aa_base_url :: "string field_patch"
  aa_is_active :: "bool field_patch"
  aa_capabilities :: "dict field_patch"
  aa_max_concurrency :: "int field_patch"
  aa_timeout_seconds :: "int field_patch"

definition patch_api_agent :: "api_agent_update \<Rightarrow> full_agent \<Rightarrow> full_agent res" where
  "patch_api_agent u a =
     bind_res (patch_value (aa_name u) (ag_name a)) (\<lambda>name. bind_res (patch_value (aa_base_url u) (ag_base_url a)) (\<lambda>url.
     bind_res (patch_value (aa_is_active u) (ag_is_active a)) (\<lambda>active.
     bind_res (patch_value (aa_max_concurrency u) (ag_max_concurrency a)) (\<lambda>m.
     bind_res (patch_value (aa_timeout_seconds u) (ag_timeout_seconds a)) (\<lambda>t.
       let a' = a\<lparr>ag_name := name, ag_base_url := url, ag_is_active := active,
             ag_capabilities := patch_null (aa_capabilities u) (ag_capabilities a), ag_max_concurrency := m, ag_timeout_seconds := t\<rparr> in
       bind_res (agent_numbers (agent_row.truncate a')) (\<lambda>_. Inr a'))))))"

definition update_api_agent :: "orch_env \<Rightarrow> user_row option \<Rightarrow> int \<Rightarrow> api_agent_update \<Rightarrow> orch_db \<Rightarrow> full_agent res \<times> orch_db" where
  "update_api_agent env user i u db = transact (bind_res (RequireModuleAccess ''orchestration'' ''manage'' user) (\<lambda>who.
     bind_res (row_or_404 ''Agent'' ag_id i (oc_agents db)) (\<lambda>a.
     bind_res (patch_api_agent u a) (\<lambda>a'.
     bind_res (orch_audit env ''agent_update'' ''agent'' who i (db\<lparr>oc_agents := table_update ag_id i (\<lambda>_. a') (oc_agents db)\<rparr>)) (\<lambda>db'.
       Inr (a', db')))))) db"

text \<open>The answer of the agent: its status code and the time it took.\<close>

definition ping_agent :: "(string \<Rightarrow> (int \<times> int) res) \<Rightarrow> user_row option \<Rightarrow> int \<Rightarrow> orch_db \<Rightarrow> int res" where
  "ping_agent http user i db = bind_res (RequireModuleAccess ''orchestration'' ''manage'' user) (\<lambda>_.
     bind_res (row_or_404 ''Agent'' ag_id i (oc_agents db)) (\<lambda>a.
       case http (ag_base_url a @ ''/health'') of
         Inl e \<Rightarrow> Inl (HTTPException 500 (''Ping failed: '' @ exn_text e))
       | Inr (code, ms) \<Rightarrow> if code < 200 \<or> code \<ge> 300 then Inl (HTTPException 500 (''Ping failed: '' @ str_int code)) else Inr ms))"

definition checkin_agent :: "orch_env \<Rightarrow> full_agent option \<Rightarrow> int \<Rightarrow> string \<Rightarrow> dict option \<Rightarrow> orch_db \<Rightarrow> checkin_row res \<times> orch_db" where
  "checkin_agent env current i status meta db = transact (case current of
       None \<Rightarrow> Inl (PyError ''AttributeError'' ''id'')
     | Some a \<Rightarrow>
         if ag_id a \<noteq> i then Inl (HTTPException 403 ''Not authorized to checkin for this agent'')
         else let row = \<lparr>ci_id = oc_next db, ci_agent = i, ci_status = status, ci_meta = meta\<rparr> in
           Inr (row, db\<lparr>oc_agents := table_update ag_id i (\<lambda>a. a\<lparr>ag_status := status, fa_last_seen := Some (oe_now env)\<rparr>) (oc_agents db),
               oc_checkins := insert_row row (oc_checkins db), oc_next := oc_next db + 1\<rparr>)) db"

section \<open>The audit log\<close>

definition ACTION_MODULE_MAP :: "(string \<times> string) list" where
  "ACTION_MODULE_MAP = [(''agent_'', ''orchestration''), (''task_'', ''orchestration''), (''route_'', ''orchestration''),
     (''persona_'', ''personas''), (''kb_'', ''knowledge_base''), (''entity_'', ''entities''), (''secret_'', ''secrets''),
     (''vault_'', ''secrets''), (''pbx_'', ''pbx''), (''monitoring_'', ''monitoring''), (''storage_'', ''storage''),
     (''carrier_'', ''carrier''), (''email_'', ''email''), (''dns_'', ''dns''), (''server_'', ''servers''),
     (''integration_'', ''integrations''), (''service_'', ''integrations''), (''user_'', ''users''), (''login_'', ''users''),
     (''password_'', ''users''), (''api_key_'', ''api_keys''), (''ip_'', ''ip_allowlist''), (''backup_'', ''backup''),
     (''restore_'', ''backup'')]"

definition action_module :: "string \<Rightarrow> string option" where
  "action_module action = map_option snd (List.find (\<lambda>(p, m). prefix p action) ACTION_MODULE_MAP)"

record audit_query =
  aq_actor_type :: "string option"
  aq_actor_id :: "int option"
  aq_action :: "string option"
  aq_since :: "int option"
  aq_until :: "int option"

definition audit_matches :: "audit_query \<Rightarrow> stored_event \<Rightarrow> bool" where
  "audit_matches q e =
     ((aq_actor_type q \<in> {None, Some []} \<or> ae_actor_type (se_event e) = aq_actor_type q)
      \<and> (\<not> truthy_id (aq_actor_id q) \<or> ae_actor_id (se_event e) = aq_actor_id q)
      \<and> (aq_action q \<in> {None, Some []} \<or> Some (ae_action (se_event e)) = aq_action q)
      \<and> (case aq_since q of None \<Rightarrow> True | Some t \<Rightarrow> t \<le> se_created e)
      \<and> (case aq_until q of None \<Rightarrow> True | Some t \<Rightarrow> se_created e \<le> t))"

definition may_see :: "user_row \<Rightarrow> stored_event \<Rightarrow> bool" where
  "may_see u e = (case action_module (ae_action (se_event e)) of
     None \<Rightarrow> True | Some m \<Rightarrow> lookup_or (get_effective_permissions u) m ''none'' \<noteq> ''none'')"

definition read_audit_events :: "user_row option \<Rightarrow> audit_query \<Rightarrow> int \<Rightarrow> int \<Rightarrow> orch_db \<Rightarrow> stored_event list res" where
  "read_audit_events user q limit offset db = bind_res (RequireModuleAccess ''audit'' ''read'' user) (\<lambda>u.
     bind_res (page_rows offset limit (sort_key (\<lambda>e. - se_created e) (rev (select_all (audit_matches q) (oc_audit db))))) (\<lambda>events.
       Inr (if us_role u \<noteq> ''admin'' then filter (may_see u) events else events)))"

section \<open>The tables the worker sees\<close>

definition route_of :: "route_row \<Rightarrow> task_route" where
  "route_of r = \<lparr>tr_task_type = ro_task_type r, tr_required_capabilities = list_or_empty (ro_required_capabilities r),
     tr_preferred_agent_id = ro_preferred_agent_id r, tr_is_active = ro_is_active r, tr_needs_rag = False,
     tr_rag_namespaces = None, tr_rag_top_k = None\<rparr>"

text \<open>The columns of a route that say what the worker retrieves for it are set by no router.\<close>

definition worker_of :: "orch_db \<Rightarrow> worker_db \<Rightarrow> worker_db" where
  "worker_of db w = w\<lparr>wd_tasks := oc_tasks db, wd_versions := List.map persona_version.truncate (oc_versions db),
     wd_defaults := List.map persona_default.truncate (oc_defaults db), wd_routes := List.map route_of (oc_routes db),
     wd_agents := List.map agent_row.truncate (oc_agents db), wd_secrets := oc_secrets db, wd_metrics := oc_metrics db\<rparr>"

definition after_worker :: "worker_db \<Rightarrow> orch_db \<Rightarrow> orch_db" where
  "after_worker w db = db\<lparr>oc_tasks := wd_tasks w, oc_metrics := wd_metrics w\<rparr>"

end
