(* ===== verification/OrchestrationReach.thy ===== *)
theory OrchestrationReach
  imports Orchestration
begin

text \<open>
  What the routers for tasks, personas and agents and the worker's job make of their shared tables: which
  states a task can have in the program as shipped, that the key of an agent reaches the call to it, and
  what a reader of the audit log gets to see.
\<close>

interpretation versions_table: keyed_table pv_id "table_look pv_id" insert_row "table_update pv_id"
  by (rule keyed_table_rows)

interpretation tasks_table: keyed_table tk_id "table_look tk_id" insert_row "table_update tk_id"
  by (rule keyed_table_rows)

section \<open>The job on the shared tables\<close>

lemma look_through_map: "select_first p (List.map f t) = map_option f (select_first (\<lambda>x. p (f x)) t)"
  by (induction t) auto

lemma worker_fields [simp]:
  "wd_tasks (worker_of db w) = oc_tasks db" "wd_secrets (worker_of db w) = oc_secrets db"
  "wd_metrics (worker_of db w) = oc_metrics db"
  by (simp_all add: worker_of_def)

lemma worker_version: "find_version i (worker_of db w) = map_option persona_version.truncate (table_look pv_id (oc_versions db) i)"
  by (simp add: find_version_def worker_of_def look_through_map table_look_def persona_version.defs)

lemma no_default [simp]: "default_version scope val db = None"
  by (simp add: default_version_def select_first_None)

lemma no_route [simp]: "find_route task db = None"
  by (simp add: find_route_def select_first_None)

text \<open>The policy lets a task of the type through when it asks for no capability and has thirty seconds.\<close>

definition lets_through :: "string \<Rightarrow> dict option \<Rightarrow> bool" where
  "lets_through type tools = (case tools of None \<Rightarrow> True
     | Some tp \<Rightarrow> (\<forall>code d. enforce_persona_policy type [] (Some 30) tp \<noteq> Inl (HTTPException code d)))"

lemma enforced_lets_through: "enforce_persona_policy type caps None tp = Inr r \<Longrightarrow> lets_through type (Some tp)"
  by (auto simp: enforce_persona_policy_def lets_through_def clamp_timeout_def type_error_def Let_def
      split: if_splits option.splits bool.splits)

lemma empty_lets_through: "tools \<in> {None, Some []} \<Longrightarrow> lets_through type tools"
  by (auto simp: lets_through_def enforce_persona_policy_def)

definition task_admitted :: "version_row list \<Rightarrow> task_row \<Rightarrow> bool" where
  "task_admitted vs t = (case tk_persona_version_id t of None \<Rightarrow> True
     | Some i \<Rightarrow> i \<noteq> 0 \<and> (\<exists>v. table_look pv_id vs i = Some v \<and> lets_through (tk_type t) (pv_tools_policy v)))"

lemma admitted_status [simp]: "task_admitted vs (t\<lparr>tk_status := s\<rparr>) = task_admitted vs t"
  by (cases "tk_persona_version_id t") (simp_all add: task_admitted_def)

lemma admitted_undisturbed:
  assumes "\<And>t. t \<in> set (oc_tasks db) \<Longrightarrow> task_admitted (oc_versions db) t"
  shows "snd (dispatch_task env attempt tid (worker_of db w)) = worker_of db w"
proof (cases "select_first (\<lambda>t. tk_id t = tid) (oc_tasks db)")
  case None
  then show ?thesis by (simp add: dispatch_task_def)
next
  case (Some t)
  then have ok: "task_admitted (oc_versions db) t" using assms select_first_Some by fastforce
  have gate: "persona_gate t None (snd (snd p)) \<noteq> Inl (HTTPException code d)"
    if "resolve_persona env t (worker_of db w) = Inr p" for p code d
    using that ok
    by (auto simp: resolve_persona_def task_admitted_def truthy_id_def worker_version lets_through_def persona_gate_def route_caps_def
        persona_version.defs Let_def split: option.splits sum.splits if_splits)
  show ?thesis
  proof (cases "resolve_persona env t (worker_of db w)")
    case (Inl e)
    with Some show ?thesis by (simp add: dispatch_task_def)
  next
    case (Inr p)
    from gate[OF this] show ?thesis
      using Some Inr by (auto simp: dispatch_task_def Let_def no_active_agent split: sum.splits exn.splits)
  qed
qed

section \<open>The invariant\<close>

definition auth_of :: "full_agent \<Rightarrow> int \<times> string" where
  "auth_of a = (ag_id a, ag_auth_type a)"

definition versions_ok :: "int \<Rightarrow> version_row list \<Rightarrow> bool" where
  "versions_ok n vs = (distinct (List.map pv_id vs) \<and> (\<forall>v \<in> set vs. 0 < pv_id v \<and> pv_id v < n))"

definition auths_ok :: "int \<Rightarrow> (int \<times> string) list \<Rightarrow> bool" where
  "auths_ok n as = (distinct (List.map fst as) \<and> (\<forall>a \<in> set as. fst a < n))"

definition secrets_ok :: "int \<Rightarrow> secret_row list \<Rightarrow> bool" where
  "secrets_ok n ss = (\<forall>s \<in> set ss. \<forall>i. sc_owner_id s = Some i \<longrightarrow> i < n)"

definition tasks_ok :: "int \<Rightarrow> version_row list \<Rightarrow> task_row list \<Rightarrow> bool" where
  "tasks_ok n vs ts = (distinct (List.map tk_id ts)
     \<and> (\<forall>t \<in> set ts. tk_id t < n \<and> tk_status t \<in> {''queued'', ''cancelled''} \<and> task_admitted vs t))"

definition orch_ok :: "orch_db \<Rightarrow> bool" where
  "orch_ok db = (0 < oc_next db \<and> versions_ok (oc_next db) (oc_versions db) \<and> auths_ok (oc_next db) (List.map auth_of (oc_agents db))
     \<and> secrets_ok (oc_next db) (oc_secrets db) \<and> tasks_ok (oc_next db) (oc_versions db) (oc_tasks db))"

text \<open>What only grows: versions, secrets, and agents with the way they authenticate; a cancelled task stays so.\<close>

definition cancelled_in :: "orch_db \<Rightarrow> int \<Rightarrow> bool" where
  "cancelled_in db i = (\<exists>t \<in> set (oc_tasks db). tk_id t = i \<and> tk_status t = ''cancelled'')"

definition extends :: "orch_db \<Rightarrow> orch_db \<Rightarrow> bool" where
  "extends db db' = (prefix (oc_versions db) (oc_versions db') \<and> prefix (oc_secrets db) (oc_secrets db')
     \<and> prefix (List.map auth_of (oc_agents db)) (List.map auth_of (oc_agents db'))
     \<and> (\<forall>i. cancelled_in db i \<longrightarrow> cancelled_in db' i))"

lemma extends_trans: "extends a b \<Longrightarrow> extends b c \<Longrightarrow> extends a c"
  unfolding extends_def by (elim conjE, intro conjI allI impI) (erule (1) prefix_order.trans | blast)+

lemma extends_refl [simp]: "extends db db"
  by (simp add: extends_def)

lemma versions_ok_mono: "versions_ok n vs \<Longrightarrow> n \<le> m \<Longrightarrow> versions_ok m vs"
  by (fastforce simp: versions_ok_def)

lemma auths_ok_mono: "auths_ok n as \<Longrightarrow> n \<le> m \<Longrightarrow> auths_ok m as"
  by (fastforce simp: auths_ok_def)

lemma secrets_ok_mono: "secrets_ok n ss \<Longrightarrow> n \<le> m \<Longrightarrow> secrets_ok m ss"
  by (fastforce simp: secrets_ok_def)

lemma tasks_ok_mono: "tasks_ok n vs ts \<Longrightarrow> n \<le> m \<Longrightarrow> tasks_ok m vs ts"
  by (fastforce simp: tasks_ok_def)

lemma keeps_others:
  assumes "orch_ok db" "oc_tasks db' = oc_tasks db" "oc_versions db' = oc_versions db" "oc_secrets db' = oc_secrets db"
    and "List.map auth_of (oc_agents db') = List.map auth_of (oc_agents db)" "oc_next db \<le> oc_next db'"
  shows "orch_ok db' \<and> extends db db'"
proof
  show "orch_ok db'"
    using assms(1,6) versions_ok_mono[OF _ assms(6)] auths_ok_mono[OF _ assms(6)] secrets_ok_mono[OF _ assms(6)] tasks_ok_mono[OF _ assms(6)]
    unfolding orch_ok_def assms(2-5) by simp
  show "extends db db'" by (simp add: extends_def cancelled_in_def assms(2-5))
qed

lemma look_append: "table_look key t k = Some r \<Longrightarrow> table_look key (t @ u) k = Some r"
  by (simp add: table_look_def select_first_append)

lemma admitted_append: "task_admitted vs t \<Longrightarrow> task_admitted (vs @ us) t"
  by (auto simp: task_admitted_def split: option.splits dest: look_append)

section \<open>Every operation keeps it\<close>

lemma known_ref_Some: "known_ref key rows (Some i) = Inr u \<Longrightarrow> \<exists>r. table_look key rows i = Some r"
  by (auto simp: known_ref_def bind_res_Inr pg_int_def split: if_splits)

lemma look_positive: "versions_ok n vs \<Longrightarrow> table_look pv_id vs i = Some v \<Longrightarrow> 0 < i"
  using versions_table.look_key[of vs i v] by (auto simp: versions_ok_def table_look_def dest: select_first_Some)

lemma validated_admitted:
  assumes "early_validation t db = Inr u" "insert_task who t db = Inr (row, db')" "versions_ok n (oc_versions db)"
  shows "task_admitted (oc_versions db) row"
proof (cases "tc_persona_version_id t")
  case None
  with assms(2) show ?thesis by (auto simp: insert_task_def bind_res_Inr Let_def task_admitted_def)
next
  case (Some i)
  from assms(2) have row: "tk_persona_version_id row = Some i" "tk_type row = tc_type t"
    and ref: "known_ref pv_id (oc_versions db) (Some i) = Inr ()"
    using Some by (auto simp: insert_task_def bind_res_Inr Let_def)
  obtain v where v: "table_look pv_id (oc_versions db) i = Some v" using known_ref_Some[OF ref] by blast
  have "i \<noteq> 0" using look_positive[OF assms(3) v] by simp
  moreover have "lets_through (tc_type t) (pv_tools_policy v)"
  proof (cases "pv_tools_policy v \<in> {None, Some []}")
    case True
    then show ?thesis by (rule empty_lets_through)
  next
    case False
    with assms(1) Some v \<open>i \<noteq> 0\<close> obtain r where
      "enforce_persona_policy (tc_type t) (route_caps_of (tc_type t) db) None (the (pv_tools_policy v)) = Inr r"
      by (auto simp: early_validation_def truthy_id_def bind_res_Inr pg_int_def split: if_splits)
    from enforced_lets_through[OF this] False show ?thesis by auto
  qed
  ultimately show ?thesis using row v by (simp add: task_admitted_def)
qed

lemma create_task_keeps:
  assumes "create_task env who t db = (r, db')" "orch_ok db"
  shows "orch_ok db' \<and> extends db db'"
proof (cases "bind_res (early_validation t db) (\<lambda>_. insert_task who t db)")
  case (Inl e)
  with assms show ?thesis by (simp add: create_task_def)
next
  case (Inr p)
  obtain row db1 where p: "p = (row, db1)" by (cases p)
  from Inr p obtain u where v: "early_validation t db = Inr u" and i: "insert_task who t db = Inr (row, db1)"
    by (auto simp: bind_res_Inr)
  from i have row: "tk_id row = oc_next db" "tk_status row = ''queued''"
    and db1: "db1 = db\<lparr>oc_tasks := oc_tasks db @ [row], oc_next := oc_next db + 1\<rparr>"
    by (auto simp: insert_task_def bind_res_Inr Let_def insert_row_def)
  have ok: "orch_ok db1 \<and> extends db db1"
    using assms(2) validated_admitted[OF v i] row
    by (auto simp: orch_ok_def db1 extends_def cancelled_in_def tasks_ok_def versions_ok_def auths_ok_def secrets_ok_def)
  have "oc_tasks db' = oc_tasks db1" "oc_versions db' = oc_versions db1" "oc_secrets db' = oc_secrets db1" "oc_agents db' = oc_agents db1"
    "oc_next db' = oc_next db1"
    using assms(1) Inr p by (auto simp: create_task_def Let_def split: sum.splits)
  with keeps_others[of db1 db'] ok have "orch_ok db' \<and> extends db1 db'" by simp
  with ok show ?thesis using extends_trans by blast
qed

lemma cancel_task_keeps:
  assumes "cancel_task i db = (r, db')" "orch_ok db"
  shows "orch_ok db' \<and> extends db db'"
proof (rule transact_cases[OF assms(1)[unfolded cancel_task_def]])
  fix x
  assume "bind_res (read_task i db) (\<lambda>t. if terminal_status (tk_status t) then Inl (HTTPException 400 ''Terminal status reached'')
     else Inr (i, db\<lparr>oc_tasks := table_update tk_id i (\<lambda>t. t\<lparr>tk_status := ''cancelled''\<rparr>) (oc_tasks db)\<rparr>)) = Inr (x, db')"
  then have db': "db' = db\<lparr>oc_tasks := table_update tk_id i (\<lambda>t. t\<lparr>tk_status := ''cancelled''\<rparr>) (oc_tasks db)\<rparr>"
    by (auto simp: bind_res_Inr split: if_splits)
  have ids: "List.map tk_id (table_update tk_id i (\<lambda>t. t\<lparr>tk_status := ''cancelled''\<rparr>) (oc_tasks db)) = List.map tk_id (oc_tasks db)"
    by (auto simp: table_update_def update_rows_def)
  have "tasks_ok (oc_next db) (oc_versions db) (oc_tasks db')"
    using assms(2) unfolding orch_ok_def tasks_ok_def db'
    by (auto simp: ids) (auto simp: table_update_def update_rows_def)
  moreover have "cancelled_in db j \<longrightarrow> cancelled_in db' j" for j
    unfolding cancelled_in_def
  proof (intro impI, elim bexE conjE)
    fix t assume "t \<in> set (oc_tasks db)" "tk_id t = j" "tk_status t = ''cancelled''"
    then show "\<exists>t \<in> set (oc_tasks db'). tk_id t = j \<and> tk_status t = ''cancelled''"
      by (intro bexI[of _ "if tk_id t = i then t\<lparr>tk_status := ''cancelled''\<rparr> else t"]) (auto simp: db' table_update_def update_rows_def)
  qed
  ultimately show ?thesis using assms(2) by (simp add: orch_ok_def extends_def db')
qed (use assms in simp)

lemma create_version_keeps:
  assumes "create_persona_version user i v db = (r, db')" "orch_ok db"
  shows "orch_ok db' \<and> extends db db'"
proof (cases "db' = db")
  case False
  then have db': "\<exists>row. db' = db\<lparr>oc_versions := oc_versions db @ [row], oc_next := oc_next db + 1\<rparr> \<and> pv_id row = oc_next db"
    using assms(1) by (auto simp: create_persona_version_def transact_def bind_res_Inr Let_def insert_row_def split: sum.splits)
  then obtain row where "db' = db\<lparr>oc_versions := oc_versions db @ [row], oc_next := oc_next db + 1\<rparr>" "pv_id row = oc_next db" by blast
  with assms(2) show ?thesis
    by (auto simp: orch_ok_def extends_def cancelled_in_def versions_ok_def auths_ok_def secrets_ok_def tasks_ok_def admitted_append)
qed (use assms in simp)

text \<open>A request that only touches the other tables.\<close>

definition touches_others :: "orch_db \<Rightarrow> orch_db \<Rightarrow> bool" where
  "touches_others db db' = (oc_tasks db' = oc_tasks db \<and> oc_versions db' = oc_versions db \<and> oc_secrets db' = oc_secrets db
     \<and> List.map auth_of (oc_agents db') = List.map auth_of (oc_agents db) \<and> oc_next db \<le> oc_next db')"

lemma touches_others_keeps: "touches_others db db' \<Longrightarrow> orch_ok db \<Longrightarrow> orch_ok db' \<and> extends db db'"
  by (intro keeps_others) (simp_all add: touches_others_def)

lemma touches_refl [simp]: "touches_others db db"
  by (simp add: touches_others_def)

lemma transact_touches:
  assumes "transact r db = (a, db')" "\<And>x db1. r = Inr (x, db1) \<Longrightarrow> touches_others db db1"
  shows "touches_others db db'"
  by (rule transact_cases[OF assms(1)]) (use assms(2) in auto)

lemma route_touches: "create_task_route user r db = (a, db') \<Longrightarrow> touches_others db db'"
  unfolding create_task_route_def
  by (erule transact_touches) (auto simp: bind_res_Inr touches_others_def Let_def split: sum.splits if_splits)

lemma route_update_touches: "update_task_route user i u db = (a, db') \<Longrightarrow> touches_others db db'"
  unfolding update_task_route_def by (auto simp: touches_others_def split: sum.splits)

lemma persona_touches: "create_persona user p db = (a, db') \<Longrightarrow> touches_others db db'"
  unfolding create_persona_def by (erule transact_touches) (auto simp: bind_res_Inr touches_others_def Let_def)

lemma default_touches: "create_persona_default user d db = (a, db') \<Longrightarrow> touches_others db db'"
  unfolding create_persona_default_def
  by (erule transact_touches) (auto simp: bind_res_Inr touches_others_def Let_def split: if_splits)

lemma default_update_touches: "update_persona_default user i u db = (a, db') \<Longrightarrow> touches_others db db'"
  unfolding update_persona_default_def
  by (erule transact_touches) (auto simp: bind_res_Inr touches_others_def Let_def)

lemma orch_audit_touches: "orch_audit env act res who i db = Inr db' \<Longrightarrow> \<exists>es. db' = db\<lparr>oc_audit := oc_audit db @ es\<rparr>"
  by (auto simp: orch_audit_def bind_res_Inr)

lemma update_auths:
  assumes "\<And>a. a \<in> set as \<Longrightarrow> ag_id a = i \<Longrightarrow> auth_of (f a) = auth_of a"
  shows "List.map auth_of (table_update ag_id i f as) = List.map auth_of as"
  using assms by (auto simp: table_update_def update_rows_def)

lemma patched_auth: "patch_api_agent u a = Inr a' \<Longrightarrow> auth_of a' = auth_of a"
  by (auto simp: patch_api_agent_def bind_res_Inr Let_def auth_of_def)

lemma row_found: "row_or_404 what key i rows = Inr r \<Longrightarrow> table_look key rows i = Some r"
  by (cases "table_look key rows i") (auto simp: row_or_404_def bind_res_Inr pg_int_def split: if_splits)

lemma agent_unique:
  assumes "auths_ok n (List.map auth_of as)" "table_look ag_id as i = Some a" "b \<in> set as" "ag_id b = i"
  shows "b = a"
proof -
  have "distinct (List.map ag_id as)" using assms(1) by (simp add: auths_ok_def auth_of_def o_def)
  moreover have "a \<in> set as" "ag_id a = i" using assms(2) by (auto simp: table_look_def dest: select_first_Some)
  ultimately show ?thesis using assms(3,4) by (auto simp: distinct_map dest: inj_onD)
qed

lemma update_agent_touches:
  assumes "update_api_agent env user i u db = (r, db')" "orch_ok db"
  shows "touches_others db db'"
proof (rule transact_touches[OF assms(1)[unfolded update_api_agent_def]], unfold bind_res_Inr, elim exE conjE)
  fix x db1 who a a' db2
  assume a: "row_or_404 ''Agent'' ag_id i (oc_agents db) = Inr a" and p: "patch_api_agent u a = Inr a'"
    and l: "orch_audit env ''agent_update'' ''agent'' who i (db\<lparr>oc_agents := table_update ag_id i (\<lambda>_. a') (oc_agents db)\<rparr>) = Inr db2"
    and e: "Inr (a', db2) = Inr (x, db1)"
  have "auth_of a' = auth_of b" if "b \<in> set (oc_agents db)" "ag_id b = i" for b
    using agent_unique[OF _ row_found[OF a] that, of "oc_next db"] patched_auth[OF p] assms(2) by (simp add: orch_ok_def)
  then have "List.map auth_of (table_update ag_id i (\<lambda>_. a') (oc_agents db)) = List.map auth_of (oc_agents db)"
    by (intro update_auths) auto
  with orch_audit_touches[OF l] e show "touches_others db db1" by (auto simp: touches_others_def)
qed

lemma checkin_touches: "checkin_agent env current i status meta db = (r, db') \<Longrightarrow> touches_others db db'"
  unfolding checkin_agent_def
  by (erule transact_touches) (auto simp: touches_others_def Let_def update_auths auth_of_def split: option.splits if_splits)

lemma create_agent_row:
  assumes "create_api_agent env user a db = (Inr (row, key), db')"
  shows "oc_agents db' = oc_agents db @ [row]" "ag_id row = oc_next db" "ag_auth_type row = ag_auth_type a"
    "oc_tasks db' = oc_tasks db" "oc_versions db' = oc_versions db" "oc_next db' = oc_next db + 1"
    "ag_auth_type a = ''api_key'' \<Longrightarrow> key = Some (oe_raw_key env) \<and> (\<exists>c.
       shared_encrypt_secret (oe_enc env) (oe_master_key env) (oe_nonce env) (oe_raw_key env) = Inr c
       \<and> oc_secrets db' = oc_secrets db @ [\<lparr>sc_owner_type = ''agent'', sc_owner_id = Some (ag_id row), sc_purpose = ''agent_outbound_key'',
           sc_ciphertext = c\<rparr>])"
    "ag_auth_type a \<noteq> ''api_key'' \<Longrightarrow> key = None \<and> oc_secrets db' = oc_secrets db"
  using assms unfolding create_api_agent_def transact_def
  by (auto simp: bind_res_Inr Let_def insert_row_def split: sum.splits if_splits dest!: orch_audit_touches)

lemma create_agent_keeps:
  assumes "create_api_agent env user a db = (r, db')" "orch_ok db"
  shows "orch_ok db' \<and> extends db db'"
proof (cases r)
  case (Inl e)
  with assms(1) have "db' = db" unfolding create_api_agent_def by (auto elim!: transact_cases)
  with assms show ?thesis by simp
next
  case (Inr p)
  obtain row key where p: "p = (row, key)" by (cases p)
  note new = create_agent_row[OF assms(1)[unfolded Inr p]]
  obtain ss where ss: "oc_secrets db' = oc_secrets db @ ss" "\<forall>s \<in> set ss. sc_owner_id s = Some (oc_next db)"
    using new(2,7,8) by (cases "ag_auth_type a = ''api_key''") auto
  let ?n = "oc_next db"
  have "versions_ok (?n + 1) (oc_versions db)" "tasks_ok (?n + 1) (oc_versions db) (oc_tasks db)"
    using assms(2) by (auto simp: orch_ok_def intro: versions_ok_mono tasks_ok_mono)
  moreover have "auths_ok (?n + 1) (List.map auth_of (oc_agents db @ [row]))"
    using assms(2) new(2) by (auto simp: orch_ok_def auths_ok_def auth_of_def)
  moreover have "secrets_ok (?n + 1) (oc_secrets db')" using assms(2) ss by (fastforce simp: orch_ok_def secrets_ok_def)
  ultimately show ?thesis
    using assms(2) by (simp add: orch_ok_def extends_def cancelled_in_def new(1,4,5,6) ss(1))
qed

section \<open>Reachable states\<close>

definition empty_orch :: orch_db where
  "empty_orch = \<lparr>oc_tasks = [], oc_runs = [], oc_personas = [], oc_versions = [], oc_defaults = [], oc_routes = [], oc_agents = [],
     oc_checkins = [], oc_secrets = [], oc_audit = [], oc_metrics = [], oc_queue = [], oc_next = 1\<rparr>"

text \<open>A step is a request to one of the routers or an execution of the job by the worker, on any retry and with
  any other tables of its own.\<close>

inductive orch_step :: "orch_db \<Rightarrow> orch_db \<Rightarrow> bool" where
  os_task: "create_task env who t db = (r1, db') \<Longrightarrow> orch_step db db'"
| os_cancel: "cancel_task i db = (r2, db') \<Longrightarrow> orch_step db db'"
| os_route: "create_task_route user rt db = (r3, db') \<Longrightarrow> orch_step db db'"
| os_route_update: "update_task_route user i ru db = (r3, db') \<Longrightarrow> orch_step db db'"
| os_persona: "create_persona user p db = (r4, db') \<Longrightarrow> orch_step db db'"
| os_version: "create_persona_version user i v db = (r5, db') \<Longrightarrow> orch_step db db'"
| os_default: "create_persona_default user d db = (r6, db') \<Longrightarrow> orch_step db db'"
| os_default_update: "update_persona_default user i du db = (r6, db') \<Longrightarrow> orch_step db db'"
| os_agent: "create_api_agent env user a db = (r7, db') \<Longrightarrow> orch_step db db'"
| os_agent_update: "update_api_agent env user i au db = (r8, db') \<Longrightarrow> orch_step db db'"
| os_checkin: "checkin_agent env current i status meta db = (r9, db') \<Longrightarrow> orch_step db db'"
| os_dispatch: "dispatch_task wenv attempt tid (worker_of db w) = (r10, w') \<Longrightarrow> orch_step db (after_worker w' db)"

inductive orch_reach :: "orch_db \<Rightarrow> bool" where
  or_start: "orch_reach empty_orch"
| or_step: "orch_reach db \<Longrightarrow> orch_step db db' \<Longrightarrow> orch_reach db'"

lemma after_worker_same [simp]: "after_worker (worker_of db w) db = db"
  by (simp add: after_worker_def)

lemma dispatch_nothing: "orch_ok db \<Longrightarrow> snd (dispatch_task env attempt tid (worker_of db w)) = worker_of db w"
  by (rule admitted_undisturbed) (simp add: orch_ok_def tasks_ok_def)

lemma orch_step_keeps: "orch_step db db' \<Longrightarrow> orch_ok db \<Longrightarrow> orch_ok db' \<and> extends db db'"
proof (induction rule: orch_step.induct)
  case os_task then show ?case by (rule create_task_keeps)
next
  case os_cancel then show ?case by (rule cancel_task_keeps)
next
  case os_route then show ?case by (rule touches_others_keeps[OF route_touches])
next
  case os_route_update then show ?case by (rule touches_others_keeps[OF route_update_touches])
next
  case os_persona then show ?case by (rule touches_others_keeps[OF persona_touches])
next
  case os_version then show ?case by (rule create_version_keeps)
next
  case os_default then show ?case by (rule touches_others_keeps[OF default_touches])
next
  case os_default_update then show ?case by (rule touches_others_keeps[OF default_update_touches])
next
  case os_agent then show ?case by (rule create_agent_keeps)
next
  case os_agent_update then show ?case using touches_others_keeps[OF update_agent_touches] by blast
next
  case os_checkin then show ?case by (rule touches_others_keeps[OF checkin_touches])
next
  case (os_dispatch wenv attempt tid db w r10 w')
  then show ?case using dispatch_nothing[of db wenv attempt tid w] by simp
qed

lemma orch_reach_ok: "orch_reach db \<Longrightarrow> orch_ok db"
proof (induction rule: orch_reach.induct)
  case or_start
  show ?case by (simp add: orch_ok_def empty_orch_def versions_ok_def auths_ok_def secrets_ok_def tasks_ok_def)
next
  case (or_step db db')
  then show ?case using orch_step_keeps by blast
qed

lemma orch_steps_keep: "orch_step\<^sup>*\<^sup>* db db' \<Longrightarrow> orch_ok db \<Longrightarrow> orch_ok db' \<and> extends db db'"
proof (induction rule: rtranclp_induct)
  case (step a b)
  then show ?case using orch_step_keeps extends_trans by blast
qed simp

lemma level_read: "level_rank ''read'' \<le> level_rank l \<Longrightarrow> l \<in> {''read'', ''manage''}"
  by (auto simp: level_rank_def lookup_or_def ACCESS_LEVELS_def split: if_splits)

lemma access_passed: "RequireModuleAccess m ''read'' user = Inr u \<Longrightarrow> user = Some u
    \<and> (us_role u = ''admin'' \<or> lookup_or (get_effective_permissions u) m ''none'' \<in> {''read'', ''manage''})"
  using level_read unfolding RequireModuleAccess_def
  by (cases user; cases "us_role (the user) = ''admin''") (auto simp: not_less split: if_splits)

section \<open>Properties\<close>

text \<open>C12: In the program as shipped no task ever runs: through any requests to the routers and executions of
  the job a task is queued or cancelled, and nothing else; an execution of the job changes nothing, since a
  task the API accepts for a persona passes the worker's check of the persona and no agent is then
  selected; and a cancelled task stays cancelled.\<close>

theorem tasks_never_run:
  assumes "orch_reach db"
  shows "(\<forall>t \<in> set (oc_tasks db). tk_status t \<in> {''queued'', ''cancelled''})
       \<and> (\<forall>env attempt tid w. snd (dispatch_task env attempt tid (worker_of db w)) = worker_of db w)
       \<and> (\<forall>db' i. orch_step\<^sup>*\<^sup>* db db' \<and> cancelled_in db i \<longrightarrow> cancelled_in db' i)"
proof (intro conjI allI impI)
  note ok = orch_reach_ok[OF assms]
  show "\<forall>t \<in> set (oc_tasks db). tk_status t \<in> {''queued'', ''cancelled''}" using ok by (simp add: orch_ok_def tasks_ok_def)
  show "snd (dispatch_task env attempt tid (worker_of db w)) = worker_of db w" for env attempt tid w
    by (rule dispatch_nothing[OF ok])
  show "cancelled_in db' i" if "orch_step\<^sup>*\<^sup>* db db' \<and> cancelled_in db i" for db' i
    using orch_steps_keep[of db db'] ok that by (simp add: extends_def)
qed

text \<open>C34: The key answered when an agent with key authentication is created is the key the worker sends it:
  in every later state that these routers and the job lead to (none of them rewrites a secret) the headers of a
  call to that agent carry it, when the cipher inverts and the master key is the same.\<close>

theorem agent_key_reaches_call:
  assumes "orch_reach db" "create_api_agent env user a db = (Inr (row, Some key), db')" "orch_step\<^sup>*\<^sup>* db' db''"
    and "aead_ok (oe_enc env) (de_dec wenv)" "length (oe_nonce env) = 12" "de_master_key wenv = oe_master_key env"
    and "agent \<in> set (oc_agents db'')" "ag_id agent = ag_id row"
  shows "outbound_headers wenv task (agent_row.truncate agent) (worker_of db'' w) =
    Inr [(''X-Correlation-Id'', str_int (tk_id task)), (''X-Nexus-Agent-Key'', key)]"
proof -
  note new = create_agent_row[OF assms(2)]
  have ok: "orch_ok db" by (rule orch_reach_ok[OF assms(1)])
  have auth: "ag_auth_type a = ''api_key''" using new(8) by fastforce
  then obtain c where key: "key = oe_raw_key env"
    and c: "shared_encrypt_secret (oe_enc env) (oe_master_key env) (oe_nonce env) (oe_raw_key env) = Inr c"
    and sec: "oc_secrets db' = oc_secrets db @ [\<lparr>sc_owner_type = ''agent'', sc_owner_id = Some (ag_id row),
        sc_purpose = ''agent_outbound_key'', sc_ciphertext = c\<rparr>]"
    using new(7) by auto
  have later: "orch_ok db''" "extends db' db''"
    using orch_steps_keep[OF assms(3)] create_agent_keeps[OF assms(2) ok] by simp_all
  let ?p = "\<lambda>s. sc_owner_type s = ''agent'' \<and> sc_owner_id s = Some (ag_id row) \<and> sc_purpose s = ''agent_outbound_key''"
  have "select_first ?p (oc_secrets db) = None"
    using ok new(2) by (fastforce simp: select_first_None orch_ok_def secrets_ok_def)
  moreover obtain ss where "oc_secrets db'' = oc_secrets db' @ ss" using later(2) by (auto simp: extends_def prefix_def)
  ultimately obtain s where s: "select_first ?p (oc_secrets db'') = Some s" "sc_ciphertext s = c"
    by (auto simp: sec select_first_append)
  have "auth_of row \<in> set (List.map auth_of (oc_agents db''))"
    using later(2) new(1) unfolding extends_def by (metis in_set_conv_decomp set_mono_prefix subsetD list.simps(9) map_append)
  then obtain row' where row': "row' \<in> set (oc_agents db'')" "auth_of row' = auth_of row" by auto
  have "distinct (List.map ag_id (oc_agents db''))" using later(1) by (simp add: orch_ok_def auths_ok_def auth_of_def o_def)
  then have "row' = agent" using row' assms(7,8) by (auto simp: distinct_map auth_of_def intro: inj_onD[of ag_id "set (oc_agents db'')"])
  then have "ag_auth_type agent = ''api_key''" using row'(2) new(3) auth by (simp add: auth_of_def)
  then show ?thesis
    using s shared_secret_roundtrip[OF assms(4,5) c] assms(6,8) key
    by (simp add: outbound_headers_def Let_def agent_row.defs)
qed

text \<open>A reader of the audit log has access to it, and gets, newest first, at most as many events as asked for,
  all of them stored and matching the query; one who is no administrator gets none of a module closed to
  that user.\<close>

theorem audit_log_filtered:
  assumes "read_audit_events user q limit offset db = Inr es"
  shows "\<exists>u. user = Some u \<and> (us_role u = ''admin'' \<or> lookup_or (get_effective_permissions u) ''audit'' ''none'' \<in> {''read'', ''manage''})
    \<and> length es \<le> nat limit \<and> sorted_wrt (\<lambda>e e'. se_created e \<ge> se_created e') es
    \<and> (\<forall>e \<in> set es. e \<in> set (oc_audit db) \<and> audit_matches q e
         \<and> (us_role u = ''admin'' \<or> (\<forall>m. action_module (ae_action (se_event e)) = Some m \<longrightarrow>
              lookup_or (get_effective_permissions u) m ''none'' \<noteq> ''none'')))"
proof -
  let ?all = "sort_key (\<lambda>e. - se_created e) (rev (select_all (audit_matches q) (oc_audit db)))"
  obtain u rows where u: "RequireModuleAccess ''audit'' ''read'' user = Inr u" and rows: "page_rows offset limit ?all = Inr rows"
    and es: "es = (if us_role u \<noteq> ''admin'' then filter (may_see u) rows else rows)"
    using assms by (auto simp: read_audit_events_def bind_res_Inr)
  have page: "rows = take (nat limit) (drop (nat offset) ?all)" using rows by (simp add: page_rows_def split: if_splits)
  have "sorted_wrt (\<lambda>e e'. se_created e \<ge> se_created e') ?all"
    using sorted_sort_key[of "\<lambda>e. - se_created e" "rev (select_all (audit_matches q) (oc_audit db))"] by (simp add: sorted_map)
  then have sorted: "sorted_wrt (\<lambda>e e'. se_created e \<ge> se_created e') rows"
    unfolding page by (intro sorted_wrt_take sorted_wrt_drop)
  have mem: "e \<in> set (oc_audit db) \<and> audit_matches q e" if "e \<in> set rows" for e
  proof -
    have "e \<in> set ?all" using that unfolding page by (meson in_set_takeD in_set_dropD)
    then show ?thesis by (auto simp: select_all_def)
  qed
  have "user = Some u \<and> (us_role u = ''admin'' \<or> lookup_or (get_effective_permissions u) ''audit'' ''none'' \<in> {''read'', ''manage''})"
    using access_passed[OF u] .
  moreover have "length es \<le> nat limit" using es page by (auto intro: order.trans[OF length_filter_le])
  moreover have "sorted_wrt (\<lambda>e e'. se_created e \<ge> se_created e') es" using es sorted by (simp add: sorted_wrt_filter)
  moreover have "e \<in> set (oc_audit db) \<and> audit_matches q e
      \<and> (us_role u = ''admin'' \<or> (\<forall>m. action_module (ae_action (se_event e)) = Some m \<longrightarrow>
           lookup_or (get_effective_permissions u) m ''none'' \<noteq> ''none''))" if "e \<in> set es" for e
  proof -
    have "e \<in> set rows" "us_role u = ''admin'' \<or> may_see u e" using that es by (auto split: if_splits)
    with mem[of e] show ?thesis by (auto simp: may_see_def)
  qed
  ultimately show ?thesis by blast
qed

section \<open>Witnesses\<close>

definition demo_orch_admin :: user_row where
  "demo_orch_admin = \<lparr>us_id = 1, us_email = ''a@b'', us_password_hash = [], us_refresh_token_hash = None, us_role = ''admin'',
     us_is_active = True, us_module_permissions = None, us_created_at = 0\<rparr>"

definition demo_reader :: user_row where
  "demo_reader = demo_orch_admin\<lparr>us_id := 2, us_role := ''reader''\<rparr>"

definition demo_orch_env :: orch_env where
  "demo_orch_env = \<lparr>oe_now = 5, oe_enqueue = (\<lambda>_. Inr ()), oe_raw_key = ''key'', oe_nonce = replicate 12 1, oe_enc = plain_enc,
     oe_master_key = Some (replicate 43 CHR ''A'' @ ''='')\<rparr>"

definition demo_version :: version_row where
  "demo_version = \<lparr>pv_id = 0, pv_version = ''1'', pv_system_prompt = [], pv_tools_policy = Some [(''deny_task_types'', JList [JStr ''x''])],
     vr_persona_id = 0, vr_meta = None\<rparr>"

definition demo_task_create :: task_create where
  "demo_task_create = \<lparr>tc_type = ''ask'', tc_payload = [], tc_assigned_agent_id = None, tc_persona_version_id = Some 2, tc_priority = 1\<rparr>"

definition demo_task_queued :: orch_db where
  "demo_task_queued = snd (create_task demo_orch_env (CallerUser demo_orch_admin) demo_task_create
     (snd (create_persona_version (Some demo_orch_admin) 1 demo_version
       (snd (create_persona (Some demo_orch_admin) \<lparr>pn_id = 0, pn_name = ''p'', pn_description = None, pn_is_active = True\<rparr> empty_orch)))))"

lemma demo_task_queued_reach: "orch_reach demo_task_queued"
  unfolding demo_task_queued_def
  by (rule or_step[OF or_step[OF or_step[OF or_start os_persona[OF surjective_pairing]] os_version[OF surjective_pairing]]
      os_task[OF surjective_pairing]])

definition demo_cancelled :: orch_db where
  "demo_cancelled = snd (cancel_task 3 demo_task_queued)"

lemma demo_cancelled_reach: "orch_reach demo_cancelled"
  unfolding demo_cancelled_def by (rule or_step[OF demo_task_queued_reach os_cancel[OF surjective_pairing]])

theorem tasks_never_run_witness:
  "List.map tk_status (oc_tasks demo_cancelled) = [''cancelled'']
     \<and> (\<forall>env w. snd (dispatch_task env 1 3 (worker_of demo_cancelled w)) = worker_of demo_cancelled w)"
proof
  show "List.map tk_status (oc_tasks demo_cancelled) = [''cancelled'']" by code_simp
  show "\<forall>env w. snd (dispatch_task env 1 3 (worker_of demo_cancelled w)) = worker_of demo_cancelled w"
    using tasks_never_run[OF demo_cancelled_reach] by blast
qed

definition demo_api_agent :: full_agent where
  "demo_api_agent = \<lparr>ag_id = 0, ag_name = ''n'', ag_base_url = ''http://n'', ag_auth_type = ''api_key'', ag_is_active = False,
     ag_capabilities = None, ag_status = [], ag_max_concurrency = 2, ag_timeout_seconds = 30, fa_last_seen = None\<rparr>"

definition demo_agent_call :: "(full_agent \<times> string option) res \<times> orch_db" where
  "demo_agent_call = create_api_agent demo_orch_env (Some demo_orch_admin) demo_api_agent empty_orch"

definition demo_wenv :: dispatch_env where
  "demo_wenv = (sample_env (Inl poisoned))\<lparr>de_dec := plain_dec, de_master_key := Some (replicate 43 CHR ''A'' @ ''='')\<rparr>"

lemma demo_agent_created:
  "fst demo_agent_call = Inr (demo_api_agent\<lparr>ag_id := 1, ag_is_active := True, ag_status := ''unknown''\<rparr>, Some ''key'')"
  by code_simp

theorem agent_key_reaches_call_witness:
  "outbound_headers demo_wenv sample_task (agent_row.truncate (demo_api_agent\<lparr>ag_id := 1, ag_is_active := True, ag_status := ''unknown''\<rparr>))
      (worker_of (snd demo_agent_call) sample_worker)
    = Inr [(''X-Correlation-Id'', str_int (tk_id sample_task)), (''X-Nexus-Agent-Key'', ''key'')]"
proof -
  let ?row = "demo_api_agent\<lparr>ag_id := 1, ag_is_active := True, ag_status := ''unknown''\<rparr>"
  have c: "create_api_agent demo_orch_env (Some demo_orch_admin) demo_api_agent empty_orch = (Inr (?row, Some ''key''), snd demo_agent_call)"
    using demo_agent_created by (simp add: demo_agent_call_def prod_eq_iff)
  show ?thesis
    by (rule agent_key_reaches_call[OF or_start c rtranclp.rtrancl_refl])
      (use create_agent_row(1)[OF c] in \<open>simp_all add: demo_orch_env_def demo_wenv_def plain_aead_ok\<close>)
qed

definition demo_audit_query :: audit_query where
  "demo_audit_query = \<lparr>aq_actor_type = None, aq_actor_id = None, aq_action = None, aq_since = None, aq_until = None\<rparr>"

definition demo_log :: "(int \<times> string) list \<Rightarrow> orch_db" where
  "demo_log es = empty_orch\<lparr>oc_audit := List.map (\<lambda>(t, a). \<lparr>se_created = t, se_event = \<lparr>ae_actor_type = Some ''user'',
     ae_actor_id = Some 1, ae_action = a, ae_target_type = ''x'', ae_target_id = 0, ae_meta = []\<rparr>\<rparr>) es\<rparr>"

theorem audit_log_filtered_witness:
  "\<exists>es. read_audit_events (Some demo_reader) demo_audit_query 10 0 (demo_log [(1, ''agent_create''), (2, ''secret_read''), (3, ''logout'')]) = Inr es
     \<and> List.map (\<lambda>e. ae_action (se_event e)) es = [''logout'', ''agent_create''] \<and> length es \<le> 10"
proof -
  let ?r = "read_audit_events (Some demo_reader) demo_audit_query 10 0 (demo_log [(1, ''agent_create''), (2, ''secret_read''), (3, ''logout'')])"
  have "case ?r of Inl e \<Rightarrow> False | Inr es \<Rightarrow> List.map (\<lambda>e. ae_action (se_event e)) es = [''logout'', ''agent_create'']" by code_simp
  then obtain es where es: "?r = Inr es" "List.map (\<lambda>e. ae_action (se_event e)) es = [''logout'', ''agent_create'']"
    by (cases ?r) auto
  with audit_log_filtered[OF es(1)] show ?thesis by auto
qed

end
