(* ===== verification/TargetRouters.thy ===== *)
theory TargetRouters
  imports "Orchestration"
begin

text \<open>
  The routers of the API for the systems behind the agents: telephone exchanges (\<open>routers/pbx.py\<close>), monitoring
  sources (\<open>routers/monitoring.py\<close>), object stores (\<open>routers/storage.py\<close>) and carriers (\<open>routers/carrier.py\<close>);
  the secrets they keep in one table with \<open>routers/secrets.py\<close>; and \<open>routers/internal.py\<close>, where agents fetch
  targets and decrypted secrets.  The uuids a request draws come in the environment, rows are kept in the
  order of their creation, and the rows of one commit are inserted in the order they refer to each other.  The tables are those
  of \<open>packages/shared/models/core.py\<close>, which the migrations for the agents later redefine.
\<close>

section \<open>Tables\<close>

record full_secret = secret_row +
  fs_id :: string
  fs_name :: string
  fs_key_version :: int
  fs_meta :: "dict option"

record pbx_target =
  px_id :: string
  px_name :: string
  px_description :: "string option"
  px_ami_host :: string
  px_ami_port :: int
  px_ami_username :: string
  px_secret :: string
  px_use_tls :: bool
  px_tags :: "string list option"
  px_active :: bool

record monitoring_source =
  so_id :: string
  so_name :: string
  so_kind :: string
  so_base_url :: "string option"
  so_secret :: "string option"
  so_tags :: "string list option"
  so_active :: bool

record storage_target =
  sg_id :: string
  sg_name :: string
  sg_description :: "string option"
  sg_kind :: string
  sg_endpoint_url :: string
  sg_region :: "string option"
  sg_bucket :: string
  sg_access_secret :: string
  sg_secret_secret :: string
  sg_base_prefix :: string
  sg_active :: bool
  sg_tags :: "string list option"

record carrier_target =
  ct_id :: string
  ct_name :: string
  ct_provider :: string
  ct_base_url :: "string option"
  ct_key_secret :: "string option"
  ct_secret_secret :: "string option"
  ct_tags :: "string list option"
  ct_active :: bool

text \<open>What a job reports about a target: the snapshots of exchanges and carriers, the ingests of monitoring
  sources, the jobs of object stores.\<close>

record report_row =
  rp_id :: string
  rp_target :: string
  rp_task :: int
  rp_kind :: string
  rp_status :: string
  rp_summary :: "dict option"
  rp_created :: int

record target_db =
  tg_secrets :: "full_secret list"
  tg_pbx :: "pbx_target list"
  tg_sources :: "monitoring_source list"
  tg_storage :: "storage_target list"
  tg_carrier :: "carrier_target list"
  tg_pbx_snapshots :: "report_row list"
  tg_ingests :: "report_row list"
  tg_storage_jobs :: "report_row list"
  tg_carrier_snapshots :: "report_row list"
  tg_tasks :: "task_row list"
  tg_audit :: "audit_event list"
  tg_next :: int

record target_env =
  te_uuid :: "nat \<Rightarrow> string"
  te_nonce :: "nat \<Rightarrow> bytes"
  te_enc :: aead_enc
  te_dec :: aead_dec
  te_master_key :: "string option"

definition encrypted :: "target_env \<Rightarrow> nat \<Rightarrow> string \<Rightarrow> bytes res" where
  "encrypted env i plaintext = shared_encrypt_secret (te_enc env) (te_master_key env) (te_nonce env i) plaintext"

text \<open>Unique columns at a commit.\<close>

definition unique_key :: "('r \<Rightarrow> string) \<Rightarrow> 'r \<Rightarrow> 'r list \<Rightarrow> unit res" where
  "unique_key key r rows = (if \<exists>x \<in> set rows. key x = key r then Inl (PyError ''IntegrityError'' ''unique'') else Inr ())"

definition store_secret :: "full_secret \<Rightarrow> target_db \<Rightarrow> target_db res" where
  "store_secret s db = bind_res (unique_key fs_id s (tg_secrets db)) (\<lambda>_. bind_res (unique_key fs_name s (tg_secrets db)) (\<lambda>_.
     Inr (db\<lparr>tg_secrets := insert_row s (tg_secrets db)\<rparr>)))"

definition found :: "string \<Rightarrow> 'r option \<Rightarrow> 'r res" where
  "found what r = of_opt (HTTPException 404 (what @ '' not found'')) r"

section \<open>Exchanges\<close>

definition target_audit :: "string \<Rightarrow> string \<Rightarrow> user_row \<Rightarrow> string \<Rightarrow> target_db \<Rightarrow> target_db res" where
  "target_audit action resource who i db =
     bind_res (log_audit_event action resource (Some (UserId (us_id who))) (Some i) [] (tg_audit db)) (\<lambda>rows.
       Inr (db\<lparr>tg_audit := rows\<rparr>))"

definition create_pbx_target :: "target_env \<Rightarrow> user_row option \<Rightarrow> pbx_target \<Rightarrow> string \<Rightarrow> target_db \<Rightarrow> pbx_target res \<times> target_db" where
  "create_pbx_target env user req ami_secret db = transact (bind_res (RequireModuleAccess ''pbx'' ''manage'' user) (\<lambda>who.
     bind_res (encrypted env 0 ami_secret) (\<lambda>c.
       let s = \<lparr>sc_owner_type = ''pbx_target'', sc_owner_id = Some 0, sc_purpose = ''ami_password'', sc_ciphertext = c,
             fs_id = te_uuid env 0, fs_name = ''ami_secret_'' @ px_name req, fs_key_version = 1, fs_meta = None\<rparr>;
           t = req\<lparr>px_id := te_uuid env 1, px_secret := te_uuid env 0\<rparr> in
       bind_res (target_audit ''pbx_target_create'' ''pbx_target'' who (px_id t) db) (\<lambda>db1.
       bind_res (store_secret s db1) (\<lambda>db2. bind_res (pg_int (px_ami_port t)) (\<lambda>_.
       bind_res (unique_key px_name t (tg_pbx db2)) (\<lambda>_. Inr (t, db2\<lparr>tg_pbx := insert_row t (tg_pbx db2)\<rparr>)))))))) db"

definition list_pbx_targets :: "user_row option \<Rightarrow> target_db \<Rightarrow> pbx_target list res" where
  "list_pbx_targets user db = bind_res (RequireModuleAccess ''pbx'' ''read'' user) (\<lambda>_. Inr (tg_pbx db))"

definition get_pbx_target :: "user_row option \<Rightarrow> string \<Rightarrow> target_db \<Rightarrow> pbx_target res" where
  "get_pbx_target user i db = bind_res (RequireModuleAccess ''pbx'' ''read'' user) (\<lambda>_.
     found ''PBX target'' (table_look px_id (tg_pbx db) i))"

record pbx_update =
  pu_name :: "string field_patch"
  pu_description :: "string field_patch"
  pu_ami_host :: "string field_patch"
  pu_ami_port :: "int field_patch"
  pu_ami_username :: "string field_patch"
  pu_ami_secret :: "string field_patch"
  pu_use_tls :: "bool field_patch"
  pu_tags :: "string list field_patch"
  pu_active :: "bool field_patch"

text \<open>A new plaintext for a stored secret: a null has no bytes to encrypt.\<close>

definition re_encrypted :: "target_env \<Rightarrow> string field_patch \<Rightarrow> string \<Rightarrow> target_db \<Rightarrow> target_db res" where
  "re_encrypted env p i db = (case p of
     None \<Rightarrow> Inr db
   | Some v \<Rightarrow> (if table_look fs_id (tg_secrets db) i = None then Inr db
       else (case v of
          None \<Rightarrow> Inl attribute_error
        | Some s \<Rightarrow> bind_res (encrypted env 0 s) (\<lambda>c. Inr (db\<lparr>tg_secrets := table_update fs_id i
            (\<lambda>x. x\<lparr>sc_ciphertext := c, fs_key_version := fs_key_version x + 1\<rparr>) (tg_secrets db)\<rparr>)))))"

definition patched_pbx :: "pbx_update \<Rightarrow> pbx_target \<Rightarrow> pbx_target res" where
  "patched_pbx u t =
     bind_res (patch_value (pu_name u) (px_name t)) (\<lambda>name. bind_res (patch_value (pu_ami_host u) (px_ami_host t)) (\<lambda>host.
     bind_res (patch_value (pu_ami_port u) (px_ami_port t)) (\<lambda>port. bind_res (pg_int port) (\<lambda>port.
     bind_res (patch_value (pu_ami_username u) (px_ami_username t)) (\<lambda>un. bind_res (patch_value (pu_use_tls u) (px_use_tls t)) (\<lambda>tls.
     bind_res (patch_value (pu_active u) (px_active t)) (\<lambda>active.
       Inr (t\<lparr>px_name := name, px_description := patch_null (pu_description u) (px_description t), px_ami_host := host, px_ami_port := port,
         px_ami_username := un, px_use_tls := tls, px_tags := patch_null (pu_tags u) (px_tags t), px_active := active\<rparr>))))))))"

text \<open>The audit row comes before the commit, where the columns are checked.\<close>

definition update_pbx_target :: "target_env \<Rightarrow> user_row option \<Rightarrow> string \<Rightarrow> pbx_update \<Rightarrow> target_db \<Rightarrow> pbx_target res \<times> target_db" where
  "update_pbx_target env user i u db = transact (bind_res (RequireModuleAccess ''pbx'' ''manage'' user) (\<lambda>who.
     bind_res (found ''PBX target'' (table_look px_id (tg_pbx db) i)) (\<lambda>t.
     bind_res (re_encrypted env (pu_ami_secret u) (px_secret t) db) (\<lambda>db1.
     bind_res (target_audit ''pbx_target_update'' ''pbx_target'' who i db1) (\<lambda>db2.
     bind_res (patched_pbx u t) (\<lambda>t'.
     bind_res (unique_key px_name t' (filter (\<lambda>x. px_id x \<noteq> i) (tg_pbx db2))) (\<lambda>_.
       Inr (t', db2\<lparr>tg_pbx := table_update px_id i (\<lambda>_. t') (tg_pbx db2)\<rparr>)))))))) db"

text \<open>The test builds a task with a column the table does not have.\<close>

definition test_pbx_ami :: "user_row option \<Rightarrow> string \<Rightarrow> target_db \<Rightarrow> int res \<times> target_db" where
  "test_pbx_ami user i db = transact (bind_res (RequireModuleAccess ''pbx'' ''manage'' user) (\<lambda>_.
     bind_res (found ''PBX target'' (table_look px_id (tg_pbx db) i)) (\<lambda>_.
       Inl (PyError ''TypeError'' ''requested_by_id is an invalid keyword argument for Task'')))) db"

definition report_list :: "string option \<Rightarrow> int \<Rightarrow> int \<Rightarrow> report_row list \<Rightarrow> report_row list res" where
  "report_list target limit offset rows = page_rows offset limit (sort_key (\<lambda>r. - rp_created r)
     (rev (select_all (\<lambda>r. target \<in> {None, Some []} \<or> Some (rp_target r) = target) rows)))"

definition list_pbx_snapshots :: "user_row option \<Rightarrow> string option \<Rightarrow> int \<Rightarrow> int \<Rightarrow> target_db \<Rightarrow> report_row list res" where
  "list_pbx_snapshots user target limit offset db = bind_res (RequireModuleAccess ''pbx'' ''read'' user) (\<lambda>_.
     report_list target limit offset (tg_pbx_snapshots db))"

definition get_pbx_snapshot :: "user_row option \<Rightarrow> string \<Rightarrow> target_db \<Rightarrow> report_row res" where
  "get_pbx_snapshot user i db = bind_res (RequireModuleAccess ''pbx'' ''read'' user) (\<lambda>_.
     found ''Snapshot'' (table_look rp_id (tg_pbx_snapshots db) i))"

section \<open>Monitoring sources\<close>

definition create_monitoring_source ::
  "target_env \<Rightarrow> user_row option \<Rightarrow> monitoring_source \<Rightarrow> string option \<Rightarrow> target_db \<Rightarrow> monitoring_source res \<times> target_db" where
  "create_monitoring_source env user req auth db = transact (bind_res (RequireModuleAccess ''monitoring'' ''manage'' user) (\<lambda>who.
     bind_res (case auth of Some (c # cs) \<Rightarrow> bind_res (encrypted env 0 (c # cs)) (\<lambda>x. Inr (Some x)) | _ \<Rightarrow> Inr None) (\<lambda>c.
       let t = req\<lparr>so_id := te_uuid env 1, so_secret := (if c = None then None else Some (te_uuid env 0))\<rparr> in
       bind_res (target_audit ''monitoring_source_create'' ''monitoring_source'' who (so_id t) db) (\<lambda>db1.
       bind_res (case c of None \<Rightarrow> Inr db1 | Some x \<Rightarrow> store_secret \<lparr>sc_owner_type = ''monitoring_source'', sc_owner_id = Some 0,
           sc_purpose = ''auth_token'', sc_ciphertext = x, fs_id = te_uuid env 0, fs_name = ''mon_secret_'' @ so_name req,
           fs_key_version = 1, fs_meta = None\<rparr> db1) (\<lambda>db2.
       bind_res (unique_key so_name t (tg_sources db2)) (\<lambda>_. Inr (t, db2\<lparr>tg_sources := insert_row t (tg_sources db2)\<rparr>))))))) db"

definition list_monitoring_sources :: "user_row option \<Rightarrow> target_db \<Rightarrow> monitoring_source list res" where
  "list_monitoring_sources user db = bind_res (RequireRole [''admin'', ''operator'', ''reader'', ''agent''] user) (\<lambda>_. Inr (tg_sources db))"

definition get_monitoring_source :: "user_row option \<Rightarrow> string \<Rightarrow> target_db \<Rightarrow> monitoring_source res" where
  "get_monitoring_source user i db = bind_res (RequireModuleAccess ''monitoring'' ''read'' user) (\<lambda>_.
     found ''Monitoring source'' (table_look so_id (tg_sources db) i))"

record source_update =
  su_name :: "string field_patch"
  su_kind :: "string field_patch"
  su_base_url :: "string field_patch"
  su_auth_secret :: "string field_patch"
  su_tags :: "string list field_patch"
  su_active :: "bool field_patch"

definition patched_source :: "source_update \<Rightarrow> monitoring_source \<Rightarrow> monitoring_source res" where
  "patched_source u t =
     bind_res (patch_value (su_name u) (so_name t)) (\<lambda>name. bind_res (patch_value (su_kind u) (so_kind t)) (\<lambda>kind.
     bind_res (patch_value (su_active u) (so_active t)) (\<lambda>active.
       Inr (t\<lparr>so_name := name, so_kind := kind, so_base_url := patch_null (su_base_url u) (so_base_url t),
         so_tags := patch_null (su_tags u) (so_tags t), so_active := active\<rparr>))))"

text \<open>The new name, when there is one, is already set when a first secret is named after the source.\<close>

definition source_secret :: "target_env \<Rightarrow> source_update \<Rightarrow> monitoring_source \<Rightarrow> target_db \<Rightarrow> (string option \<times> target_db) res" where
  "source_secret env u t db = (case su_auth_secret u of
     None \<Rightarrow> Inr (so_secret t, db)
   | Some v \<Rightarrow> (case so_secret t of
       Some (c # i) \<Rightarrow> bind_res (re_encrypted env (Some v) (c # i) db) (\<lambda>db'. Inr (so_secret t, db'))
     | _ \<Rightarrow> (case v of
         None \<Rightarrow> Inl attribute_error
       | Some s \<Rightarrow> bind_res (encrypted env 0 s) (\<lambda>c. bind_res (store_secret \<lparr>sc_owner_type = ''monitoring_source'', sc_owner_id = Some 0,
             sc_purpose = ''auth_token'', sc_ciphertext = c, fs_id = te_uuid env 0,
             fs_name = ''mon_secret_'' @ (case su_name u of Some (Some n) \<Rightarrow> n | Some None \<Rightarrow> ''None'' | None \<Rightarrow> so_name t),
             fs_key_version = 1, fs_meta = None\<rparr> db) (\<lambda>db'. Inr (Some (te_uuid env 0), db'))))))"

definition update_monitoring_source ::
  "target_env \<Rightarrow> user_row option \<Rightarrow> string \<Rightarrow> source_update \<Rightarrow> target_db \<Rightarrow> monitoring_source res \<times> target_db" where
  "update_monitoring_source env user i u db = transact (bind_res (RequireModuleAccess ''monitoring'' ''manage'' user) (\<lambda>who.
     bind_res (found ''Monitoring source'' (table_look so_id (tg_sources db) i)) (\<lambda>t.
     bind_res (source_secret env u t db) (\<lambda>(sid, db1).
     bind_res (target_audit ''monitoring_source_update'' ''monitoring_source'' who i db1) (\<lambda>db2.
     bind_res (patched_source u t) (\<lambda>t'.
     bind_res (unique_key so_name t' (filter (\<lambda>x. so_id x \<noteq> i) (tg_sources db2))) (\<lambda>_.
       Inr (t'\<lparr>so_secret := sid\<rparr>, db2\<lparr>tg_sources := table_update so_id i (\<lambda>_. t'\<lparr>so_secret := sid\<rparr>) (tg_sources db2)\<rparr>)))))))) db"

definition list_monitoring_ingests :: "user_row option \<Rightarrow> string option \<Rightarrow> int \<Rightarrow> int \<Rightarrow> target_db \<Rightarrow> report_row list res" where
  "list_monitoring_ingests user source limit offset db = bind_res (RequireModuleAccess ''monitoring'' ''read'' user) (\<lambda>_.
     report_list source limit offset (tg_ingests db))"

definition get_monitoring_ingest :: "user_row option \<Rightarrow> string \<Rightarrow> target_db \<Rightarrow> report_row res" where
  "get_monitoring_ingest user i db = bind_res (RequireModuleAccess ''monitoring'' ''read'' user) (\<lambda>_.
     found ''Ingest'' (table_look rp_id (tg_ingests db) i))"

section \<open>Object stores and carriers\<close>

text \<open>These routers read the role of a user that may be missing.\<close>

definition role_in :: "string list \<Rightarrow> user_row option \<Rightarrow> user_row res" where
  "role_in roles user = (case user of
     None \<Rightarrow> Inl (PyError ''AttributeError'' ''role'')
   | Some u \<Rightarrow> if us_role u \<in> set roles then Inr u else Inl (HTTPException 403 ''Not authorized''))"

definition user_audit :: "user_row \<Rightarrow> string \<Rightarrow> string \<Rightarrow> dict \<Rightarrow> target_db \<Rightarrow> target_db" where
  "user_audit who action resource meta db = db\<lparr>tg_audit := insert_row \<lparr>ae_actor_type = Some ''user'', ae_actor_id = Some (us_id who),
     ae_action = action, ae_target_type = resource, ae_target_id = 0, ae_meta = meta\<rparr> (tg_audit db)\<rparr>"

definition auth_secret :: "user_row \<Rightarrow> string \<Rightarrow> string \<Rightarrow> string \<Rightarrow> bytes \<Rightarrow> full_secret" where
  "auth_secret who i name purpose c = \<lparr>sc_owner_type = ''global'', sc_owner_id = Some (us_id who), sc_purpose = purpose,
     sc_ciphertext = c, fs_id = i, fs_name = name, fs_key_version = 1, fs_meta = None\<rparr>"

definition name_taken :: "string \<Rightarrow> 'a res \<Rightarrow> 'a res" where
  "name_taken what r = (case r of
     Inl (PyError k m) \<Rightarrow> Inl (if k = ''IntegrityError'' then HTTPException 409 (what @ '' target name exists'') else PyError k m)
   | _ \<Rightarrow> r)"

definition create_storage_target ::
  "target_env \<Rightarrow> user_row option \<Rightarrow> storage_target \<Rightarrow> string \<Rightarrow> string \<Rightarrow> target_db \<Rightarrow> storage_target res \<times> target_db" where
  "create_storage_target env user config access_key secret_key db = transact (bind_res (role_in [''admin'', ''operator''] user) (\<lambda>who.
     bind_res (encrypted env 1 access_key) (\<lambda>c1. bind_res (encrypted env 2 secret_key) (\<lambda>c2.
       let t = config\<lparr>sg_id := te_uuid env 0, sg_access_secret := te_uuid env 1, sg_secret_secret := te_uuid env 2, sg_active := True\<rparr> in
       name_taken ''Storage''
         (bind_res (store_secret (auth_secret who (te_uuid env 1) (''storage_target_ak_'' @ sg_id t) ''storage_target_auth'' c1) db) (\<lambda>db1.
          bind_res (store_secret (auth_secret who (te_uuid env 2) (''storage_target_sk_'' @ sg_id t) ''storage_target_auth'' c2) db1) (\<lambda>db2.
          bind_res (unique_key sg_id t (tg_storage db2)) (\<lambda>_. bind_res (unique_key sg_name t (tg_storage db2)) (\<lambda>_.
            Inr (t, user_audit who ''create_storage_target'' ''storage_target'' [(''target_id'', JStr (sg_id t))]
              (db2\<lparr>tg_storage := insert_row t (tg_storage db2)\<rparr>))))))))))) db"

definition readers :: "string list" where
  "readers = [''admin'', ''operator'', ''reader'']"

definition list_storage_targets :: "user_row option \<Rightarrow> target_db \<Rightarrow> storage_target list res" where
  "list_storage_targets user db = bind_res (role_in readers user) (\<lambda>_. Inr (tg_storage db))"

definition get_storage_target :: "user_row option \<Rightarrow> string \<Rightarrow> target_db \<Rightarrow> storage_target res" where
  "get_storage_target user i db = bind_res (role_in readers user) (\<lambda>_. found ''Target'' (table_look sg_id (tg_storage db) i))"

record storage_patch =
  stp_name :: "string field_patch"
  stp_description :: "string field_patch"
  stp_endpoint_url :: "string field_patch"
  stp_region :: "string field_patch"
  stp_bucket :: "string field_patch"
  stp_base_prefix :: "string field_patch"
  stp_active :: "bool field_patch"
  stp_tags :: "string list field_patch"

definition patched_storage :: "storage_patch \<Rightarrow> storage_target \<Rightarrow> storage_target res" where
  "patched_storage u t =
     bind_res (patch_value (stp_name u) (sg_name t)) (\<lambda>name. bind_res (patch_value (stp_endpoint_url u) (sg_endpoint_url t)) (\<lambda>url.
     bind_res (patch_value (stp_bucket u) (sg_bucket t)) (\<lambda>bucket. bind_res (patch_value (stp_base_prefix u) (sg_base_prefix t)) (\<lambda>pre.
     bind_res (patch_value (stp_active u) (sg_active t)) (\<lambda>active.
       Inr (t\<lparr>sg_name := name, sg_description := patch_null (stp_description u) (sg_description t), sg_endpoint_url := url,
         sg_region := patch_null (stp_region u) (sg_region t), sg_bucket := bucket, sg_base_prefix := pre, sg_active := active,
         sg_tags := patch_null (stp_tags u) (sg_tags t)\<rparr>))))))"

definition update_storage_target :: "user_row option \<Rightarrow> string \<Rightarrow> storage_patch \<Rightarrow> target_db \<Rightarrow> storage_target res \<times> target_db" where
  "update_storage_target user i u db = transact (bind_res (role_in [''admin'', ''operator''] user) (\<lambda>who.
     bind_res (found ''Target'' (table_look sg_id (tg_storage db) i)) (\<lambda>t. bind_res (patched_storage u t) (\<lambda>t'.
     bind_res (unique_key sg_name t' (filter (\<lambda>x. sg_id x \<noteq> i) (tg_storage db))) (\<lambda>_.
       Inr (t', user_audit who ''update_storage_target'' ''storage_target'' [(''target_id'', JStr i)]
         (db\<lparr>tg_storage := table_update sg_id i (\<lambda>_. t') (tg_storage db)\<rparr>))))))) db"

text \<open>The task of a test is stored and not put on the queue.\<close>

definition store_test_task :: "user_row \<Rightarrow> string \<Rightarrow> dict \<Rightarrow> target_db \<Rightarrow> int \<times> target_db" where
  "store_test_task who type payload db = (tg_next db, db\<lparr>tg_tasks := insert_row \<lparr>tk_id = tg_next db, tk_type = type, tk_status = ''queued'',
     tk_priority = 1, tk_payload = payload, tk_persona_version_id = None, tk_requested_by_user_id = Some (us_id who),
     tk_requested_by_agent_id = None, tk_assigned_agent_id = None\<rparr> (tg_tasks db), tg_next := tg_next db + 1\<rparr>)"

definition test_storage_target :: "user_row option \<Rightarrow> string \<Rightarrow> target_db \<Rightarrow> int res \<times> target_db" where
  "test_storage_target user i db = transact (bind_res (role_in [''admin'', ''operator''] user) (\<lambda>who.
     bind_res (found ''Target'' (table_look sg_id (tg_storage db) i)) (\<lambda>t.
       Inr (store_test_task who ''storage.list''
         [(''storage_target_id'', JStr i), (''prefix'', JStr (sg_base_prefix t)), (''max_keys'', JInt 1)]
         (user_audit who ''test_storage_target'' ''storage_target'' [(''target_id'', JStr i), (''task_id'', JInt 0)] db))))) db"

definition list_storage_jobs :: "user_row option \<Rightarrow> string option \<Rightarrow> int \<Rightarrow> int \<Rightarrow> target_db \<Rightarrow> report_row list res" where
  "list_storage_jobs user target limit offset db = bind_res (role_in readers user) (\<lambda>_. report_list target limit offset (tg_storage_jobs db))"

definition get_storage_job :: "user_row option \<Rightarrow> string \<Rightarrow> target_db \<Rightarrow> report_row res" where
  "get_storage_job user i db = bind_res (role_in readers user) (\<lambda>_. found ''Job'' (table_look rp_id (tg_storage_jobs db) i))"

text \<open>A credential of a carrier is stored only when it is given and not empty.\<close>

definition carrier_secret :: "target_env \<Rightarrow> user_row \<Rightarrow> nat \<Rightarrow> string \<Rightarrow> string option \<Rightarrow> full_secret option res" where
  "carrier_secret env who k name given = (case given of
     Some (c # s) \<Rightarrow> bind_res (encrypted env k (c # s)) (\<lambda>x. Inr (Some (auth_secret who (te_uuid env k) name ''carrier_target_auth'' x)))
   | _ \<Rightarrow> Inr None)"

definition store_given :: "full_secret option \<Rightarrow> target_db \<Rightarrow> target_db res" where
  "store_given s db = (case s of None \<Rightarrow> Inr db | Some s \<Rightarrow> store_secret s db)"

definition create_carrier_target ::
  "target_env \<Rightarrow> user_row option \<Rightarrow> carrier_target \<Rightarrow> string option \<Rightarrow> string option \<Rightarrow> target_db \<Rightarrow> carrier_target res \<times> target_db" where
  "create_carrier_target env user config api_key api_secret db = transact (bind_res (role_in [''admin'', ''operator''] user) (\<lambda>who.
     bind_res (carrier_secret env who 1 (''carrier_target_ak_'' @ te_uuid env 0) api_key) (\<lambda>s1.
     bind_res (carrier_secret env who 2 (''carrier_target_sk_'' @ te_uuid env 0) api_secret) (\<lambda>s2.
       let t = config\<lparr>ct_id := te_uuid env 0, ct_key_secret := map_option fs_id s1, ct_secret_secret := map_option fs_id s2, ct_active := True\<rparr> in
       name_taken ''Carrier'' (bind_res (store_given s1 db) (\<lambda>db1. bind_res (store_given s2 db1) (\<lambda>db2.
         bind_res (unique_key ct_id t (tg_carrier db2)) (\<lambda>_. bind_res (unique_key ct_name t (tg_carrier db2)) (\<lambda>_.
           Inr (t, user_audit who ''create_carrier_target'' ''carrier_target'' [(''target_id'', JStr (ct_id t))]
             (db2\<lparr>tg_carrier := insert_row t (tg_carrier db2)\<rparr>))))))))))) db"

definition list_carrier_targets :: "user_row option \<Rightarrow> target_db \<Rightarrow> carrier_target list res" where
  "list_carrier_targets user db = bind_res (role_in readers user) (\<lambda>_. Inr (tg_carrier db))"

definition get_carrier_target :: "user_row option \<Rightarrow> string \<Rightarrow> target_db \<Rightarrow> carrier_target res" where
  "get_carrier_target user i db = bind_res (role_in readers user) (\<lambda>_. found ''Target'' (table_look ct_id (tg_carrier db) i))"

record carrier_patch =
  cq_name :: "string field_patch"
  cq_provider :: "string field_patch"
  cq_base_url :: "string field_patch"
  cq_active :: "bool field_patch"
  cq_tags :: "string list field_patch"

definition patched_carrier :: "carrier_patch \<Rightarrow> carrier_target \<Rightarrow> carrier_target res" where
  "patched_carrier u t =
     bind_res (patch_value (cq_name u) (ct_name t)) (\<lambda>name. bind_res (patch_value (cq_provider u) (ct_provider t)) (\<lambda>pr.
     bind_res (patch_value (cq_active u) (ct_active t)) (\<lambda>active.
       Inr (t\<lparr>ct_name := name, ct_provider := pr, ct_base_url := patch_null (cq_base_url u) (ct_base_url t), ct_active := active,
         ct_tags := patch_null (cq_tags u) (ct_tags t)\<rparr>))))"

definition update_carrier_target :: "user_row option \<Rightarrow> string \<Rightarrow> carrier_patch \<Rightarrow> target_db \<Rightarrow> carrier_target res \<times> target_db" where
  "update_carrier_target user i u db = transact (bind_res (role_in [''admin'', ''operator''] user) (\<lambda>who.
     bind_res (found ''Target'' (table_look ct_id (tg_carrier db) i)) (\<lambda>t. bind_res (patched_carrier u t) (\<lambda>t'.
     bind_res (unique_key ct_name t' (filter (\<lambda>x. ct_id x \<noteq> i) (tg_carrier db))) (\<lambda>_.
       Inr (t', user_audit who ''update_carrier_target'' ''carrier_target'' [(''target_id'', JStr i)]
         (db\<lparr>tg_carrier := table_update ct_id i (\<lambda>_. t') (tg_carrier db)\<rparr>))))))) db"

definition test_carrier_target :: "user_row option \<Rightarrow> string \<Rightarrow> target_db \<Rightarrow> int res \<times> target_db" where
  "test_carrier_target user i db = transact (bind_res (role_in [''admin'', ''operator''] user) (\<lambda>who.
     bind_res (found ''Target'' (table_look ct_id (tg_carrier db) i)) (\<lambda>t.
       Inr (store_test_task who ''carrier.account.status'' [(''carrier_target_id'', JStr i)]
         (user_audit who ''test_carrier_target'' ''carrier_target'' [(''target_id'', JStr i), (''task_id'', JInt 0)] db))))) db"

definition list_carrier_snapshots :: "user_row option \<Rightarrow> string option \<Rightarrow> int \<Rightarrow> int \<Rightarrow> target_db \<Rightarrow> report_row list res" where
  "list_carrier_snapshots user target limit offset db =
     bind_res (role_in readers user) (\<lambda>_. report_list target limit offset (tg_carrier_snapshots db))"

definition get_carrier_snapshot :: "user_row option \<Rightarrow> string \<Rightarrow> target_db \<Rightarrow> report_row res" where
  "get_carrier_snapshot user i db = bind_res (role_in readers user) (\<lambda>_. found ''Snapshot'' (table_look rp_id (tg_carrier_snapshots db) i))"

section \<open>Secrets\<close>

record api_secret_create =
  sk_name :: string
  sk_owner_type :: string
  sk_owner_id :: "int option"
  sk_purpose :: string
  sk_plaintext :: string
  sk_meta :: "dict option"

definition or_500 :: "'a res \<Rightarrow> 'a res" where
  "or_500 r = (case r of Inl e \<Rightarrow> Inl (HTTPException 500 (exn_text e)) | Inr x \<Rightarrow> Inr x)"

definition create_api_secret :: "target_env \<Rightarrow> user_row option \<Rightarrow> api_secret_create \<Rightarrow> target_db \<Rightarrow> full_secret res \<times> target_db" where
  "create_api_secret env user req db = transact (bind_res (RequireRole [''admin'', ''operator''] user) (\<lambda>_.
     if \<exists>s \<in> set (tg_secrets db). fs_name s = sk_name req then Inl (HTTPException 400 ''Secret with this name already exists'')
     else bind_res (or_500 (encrypted env 0 (sk_plaintext req))) (\<lambda>c.
       let s = \<lparr>sc_owner_type = sk_owner_type req, sc_owner_id = sk_owner_id req, sc_purpose = sk_purpose req, sc_ciphertext = c,
             fs_id = te_uuid env 0, fs_name = sk_name req, fs_key_version = 1, fs_meta = sk_meta req\<rparr> in
       bind_res (case sk_owner_id req of None \<Rightarrow> Inr 0 | Some i \<Rightarrow> pg_int i) (\<lambda>_. bind_res (store_secret s db) (\<lambda>db'. Inr (s, db')))))) db"

definition read_secrets :: "user_row option \<Rightarrow> int \<Rightarrow> int \<Rightarrow> target_db \<Rightarrow> full_secret list res" where
  "read_secrets user start limit db = bind_res (RequireRole [''admin'', ''operator''] user) (\<lambda>_. page_rows start limit (tg_secrets db))"

definition update_api_secret :: "target_env \<Rightarrow> user_row option \<Rightarrow> string \<Rightarrow> string \<Rightarrow> dict option \<Rightarrow> target_db \<Rightarrow> full_secret res \<times> target_db" where
  "update_api_secret env user i plaintext meta db = transact (bind_res (RequireRole [''admin'', ''operator''] user) (\<lambda>_.
     bind_res (found ''Secret'' (table_look fs_id (tg_secrets db) i)) (\<lambda>s.
     bind_res (or_500 (encrypted env 0 plaintext)) (\<lambda>c.
       let s' = s\<lparr>sc_ciphertext := c, fs_key_version := fs_key_version s + 1, fs_meta := (if meta = None then fs_meta s else meta)\<rparr> in
       bind_res (pg_int (fs_key_version s')) (\<lambda>_. Inr (s', db\<lparr>tg_secrets := table_update fs_id i (\<lambda>_. s') (tg_secrets db)\<rparr>)))))) db"

text \<open>A secret a target refers to cannot be deleted.\<close>

definition secret_used :: "string \<Rightarrow> target_db \<Rightarrow> bool" where
  "secret_used i db = ((\<exists>t \<in> set (tg_pbx db). px_secret t = i) \<or> (\<exists>t \<in> set (tg_sources db). so_secret t = Some i)
     \<or> (\<exists>t \<in> set (tg_storage db). sg_access_secret t = i \<or> sg_secret_secret t = i)
     \<or> (\<exists>t \<in> set (tg_carrier db). ct_key_secret t = Some i \<or> ct_secret_secret t = Some i))"

definition delete_api_secret :: "user_row option \<Rightarrow> string \<Rightarrow> target_db \<Rightarrow> unit res \<times> target_db" where
  "delete_api_secret user i db = transact (bind_res (RequireRole [''admin'', ''operator''] user) (\<lambda>_.
     bind_res (found ''Secret'' (table_look fs_id (tg_secrets db) i)) (\<lambda>_.
       if secret_used i db then Inl foreign_key
       else Inr ((), db\<lparr>tg_secrets := delete_rows (\<lambda>s. fs_id s = i) (tg_secrets db)\<rparr>)))) db"

section \<open>Requests of agents\<close>

text \<open>The dependency selects by a column \<open>key\<close> that the table of API keys does not have.\<close>

definition get_internal_agent :: "string option \<Rightarrow> agent_row res" where
  "get_internal_agent header = (case header of
     Some (c # s) \<Rightarrow> Inl (PyError ''AttributeError'' ''type object ApiKey has no attribute key'')
   | _ \<Rightarrow> Inl (HTTPException 403 ''Not authenticated''))"

definition may_decrypt :: "agent_row \<Rightarrow> full_secret \<Rightarrow> bool" where
  "may_decrypt a s = (sc_owner_type s = ''agent'' \<and> sc_owner_id s = Some (ag_id a) \<or> sc_owner_type s = ''pbx_target''
     \<or> sc_purpose s = ''storage_target_auth'' \<or> sc_purpose s = ''carrier_target_auth'')"

definition agent_event :: "agent_row \<Rightarrow> string \<Rightarrow> string \<Rightarrow> target_db \<Rightarrow> target_db" where
  "agent_event a action i db = db\<lparr>tg_audit := insert_row \<lparr>ae_actor_type = Some ''agent'', ae_actor_id = Some (ag_id a), ae_action = action,
     ae_target_type = ''secret'', ae_target_id = 0, ae_meta = [(''secret_id'', JStr i)]\<rparr> (tg_audit db)\<rparr>"

definition decrypt_for_agent :: "target_env \<Rightarrow> agent_row \<Rightarrow> string \<Rightarrow> target_db \<Rightarrow> string res \<times> target_db" where
  "decrypt_for_agent env a i db = (case table_look fs_id (tg_secrets db) i of
     None \<Rightarrow> (Inl (HTTPException 404 ''Secret not found''), db)
   | Some s \<Rightarrow>
       if \<not> may_decrypt a s then (Inl (HTTPException 403 ''Unauthorized to decrypt this secret''), agent_event a ''secret_decrypt_denied'' i db)
       else (case shared_decrypt_secret (te_dec env) (te_master_key env) (sc_ciphertext s) of
          Inl e \<Rightarrow> (Inl (HTTPException 500 ''Failed to decrypt secret''), db)
        | Inr v \<Rightarrow> (Inr v, agent_event a ''secret_decrypt'' i db)))"

definition decrypt_internal_secret :: "target_env \<Rightarrow> string option \<Rightarrow> string \<Rightarrow> target_db \<Rightarrow> string res \<times> target_db" where
  "decrypt_internal_secret env header i db = (case get_internal_agent header of
     Inl e \<Rightarrow> (Inl e, db) | Inr a \<Rightarrow> decrypt_for_agent env a i db)"

definition get_internal_pbx_target :: "string option \<Rightarrow> string \<Rightarrow> target_db \<Rightarrow> pbx_target res" where
  "get_internal_pbx_target header i db = bind_res (get_internal_agent header) (\<lambda>_. found ''PBX target'' (table_look px_id (tg_pbx db) i))"

definition get_internal_storage_target :: "string option \<Rightarrow> string \<Rightarrow> target_db \<Rightarrow> storage_target res" where
  "get_internal_storage_target header i db = bind_res (get_internal_agent header) (\<lambda>_.
     found ''Storage target'' (table_look sg_id (tg_storage db) i))"

definition get_internal_carrier_target :: "string option \<Rightarrow> string \<Rightarrow> target_db \<Rightarrow> carrier_target res" where
  "get_internal_carrier_target header i db = bind_res (get_internal_agent header) (\<lambda>_.
     found ''Carrier target'' (table_look ct_id (tg_carrier db) i))"

end
