(* ===== verification/TargetReach.thy ===== *)
theory TargetReach
  imports TargetRouters
begin

text \<open>
  What the routers for targets and secrets keep true: which targets can be stored at all, that the secrets of
  a target are there for as long as the target is, that a stored credential decrypts to what was given, and
  who gets a secret decrypted.
\<close>

section \<open>The invariant\<close>

definition holds_secret :: "target_db \<Rightarrow> string \<Rightarrow> string \<Rightarrow> bool" where
  "holds_secret db purpose i = (\<exists>s. table_look fs_id (tg_secrets db) i = Some s \<and> sc_purpose s = purpose)"

definition storage_backed :: "target_db \<Rightarrow> storage_target \<Rightarrow> bool" where
  "storage_backed db t = (holds_secret db ''storage_target_auth'' (sg_access_secret t)
     \<and> holds_secret db ''storage_target_auth'' (sg_secret_secret t))"

definition carrier_backed :: "target_db \<Rightarrow> carrier_target \<Rightarrow> bool" where
  "carrier_backed db t = ((\<forall>i. ct_key_secret t = Some i \<longrightarrow> holds_secret db ''carrier_target_auth'' i)
     \<and> (\<forall>i. ct_secret_secret t = Some i \<longrightarrow> holds_secret db ''carrier_target_auth'' i))"

definition target_ok :: "target_db \<Rightarrow> bool" where
  "target_ok db = (tg_pbx db = [] \<and> tg_sources db = []
     \<and> distinct (List.map fs_id (tg_secrets db)) \<and> distinct (List.map fs_name (tg_secrets db))
     \<and> distinct (List.map sg_id (tg_storage db)) \<and> distinct (List.map sg_name (tg_storage db))
     \<and> distinct (List.map ct_id (tg_carrier db)) \<and> distinct (List.map ct_name (tg_carrier db))
     \<and> (\<forall>t \<in> set (tg_storage db). storage_backed db t) \<and> (\<forall>t \<in> set (tg_carrier db). carrier_backed db t))"

lemma backed_others [simp]:
  "holds_secret (db\<lparr>tg_audit := a\<rparr>) = holds_secret db" "holds_secret (db\<lparr>tg_storage := st\<rparr>) = holds_secret db"
  "holds_secret (db\<lparr>tg_carrier := c\<rparr>) = holds_secret db" "holds_secret (db\<lparr>tg_tasks := ts, tg_next := n\<rparr>) = holds_secret db"
  "storage_backed (db\<lparr>tg_audit := a\<rparr>) = storage_backed db" "storage_backed (db\<lparr>tg_storage := st\<rparr>) = storage_backed db"
  "storage_backed (db\<lparr>tg_carrier := c\<rparr>) = storage_backed db" "storage_backed (db\<lparr>tg_tasks := ts, tg_next := n\<rparr>) = storage_backed db"
  "carrier_backed (db\<lparr>tg_audit := a\<rparr>) = carrier_backed db" "carrier_backed (db\<lparr>tg_storage := st\<rparr>) = carrier_backed db"
  "carrier_backed (db\<lparr>tg_carrier := c\<rparr>) = carrier_backed db" "carrier_backed (db\<lparr>tg_tasks := ts, tg_next := n\<rparr>) = carrier_backed db"
  by (simp_all add: holds_secret_def storage_backed_def carrier_backed_def fun_eq_iff)

lemma target_ok_others [simp]:
  "target_ok (db\<lparr>tg_audit := a\<rparr>) = target_ok db" "target_ok (db\<lparr>tg_tasks := ts, tg_next := n\<rparr>) = target_ok db"
  by (simp_all add: target_ok_def)

section \<open>Secrets\<close>

lemma unique_key_Inr: "unique_key key r rows = Inr u \<longleftrightarrow> key r \<notin> key ` set rows"
proof -
  have "(\<exists>x \<in> set rows. key x = key r) = (key r \<in> key ` set rows)"
    unfolding image_iff by metis
  then show ?thesis by (simp add: unique_key_def)
qed

lemma store_secret_Inr:
  "store_secret s db = Inr db' \<longleftrightarrow> fs_id s \<notin> fs_id ` set (tg_secrets db) \<and> fs_name s \<notin> fs_name ` set (tg_secrets db)
     \<and> db' = db\<lparr>tg_secrets := tg_secrets db @ [s]\<rparr>"
  unfolding store_secret_def bind_res_Inr unique_key_Inr by (auto simp: insert_row_def)

lemma look_added: "table_look key (t @ [r]) k = (case table_look key t k of Some x \<Rightarrow> Some x | None \<Rightarrow> if key r = k then Some r else None)"
  by (cases "table_look key t k") (auto simp: table_look_def select_first_append)

lemma holds_added: "holds_secret db p i \<Longrightarrow> holds_secret (db\<lparr>tg_secrets := tg_secrets db @ [s]\<rparr>) p i"
  by (auto simp: holds_secret_def look_added)

lemma backed_added:
  "storage_backed db t \<Longrightarrow> storage_backed (db\<lparr>tg_secrets := tg_secrets db @ [s]\<rparr>) t"
  "carrier_backed db c \<Longrightarrow> carrier_backed (db\<lparr>tg_secrets := tg_secrets db @ [s]\<rparr>) c"
  by (auto simp: storage_backed_def carrier_backed_def holds_added)

lemma store_secret_ok: "store_secret s db = Inr db' \<Longrightarrow> target_ok db \<Longrightarrow> target_ok db'"
  unfolding store_secret_Inr target_ok_def by (auto simp: backed_added)

lemma stored_look: "store_secret s db = Inr db' \<Longrightarrow> table_look fs_id (tg_secrets db') (fs_id s) = Some s"
  using look_none[of fs_id "tg_secrets db" "fs_id s"] by (auto simp: store_secret_Inr look_added)

lemma auth_secret_fields [simp]: "fs_id (auth_secret who i n p c) = i" "sc_purpose (auth_secret who i n p c) = p" "sc_ciphertext (auth_secret who i n p c) = c"
  by (simp_all add: auth_secret_def)

lemma stored_holds: "store_secret s db = Inr db' \<Longrightarrow> holds_secret db' (sc_purpose s) (fs_id s)"
  using look_none[of fs_id "tg_secrets db" "fs_id s"] by (auto simp: store_secret_Inr holds_secret_def look_added)

lemma store_secret_tables:
  "store_secret s db = Inr db' \<Longrightarrow> tg_storage db' = tg_storage db \<and> tg_carrier db' = tg_carrier db \<and> tg_audit db' = tg_audit db"
  by (auto simp: store_secret_Inr)

lemma store_secret_holds: "store_secret s db = Inr db' \<Longrightarrow> holds_secret db p i \<Longrightarrow> holds_secret db' p i"
  by (auto simp: store_secret_Inr holds_added)

lemma changed_secret_ok:
  assumes "target_ok db" "table_look fs_id (tg_secrets db) i = Some s" "fs_id s' = fs_id s" "fs_name s' = fs_name s" "sc_purpose s' = sc_purpose s"
  shows "target_ok (db\<lparr>tg_secrets := table_update fs_id i (\<lambda>_. s') (tg_secrets db)\<rparr>)"
proof -
  have s: "s \<in> set (tg_secrets db)" "fs_id s = i" using assms(2) by (auto simp: table_look_def dest: select_first_Some)
  let ?db = "db\<lparr>tg_secrets := table_update fs_id i (\<lambda>_. s') (tg_secrets db)\<rparr>"
  have "holds_secret ?db p k = holds_secret db p k" for p k
    using assms(2,5) s(2) assms(3) by (auto simp: holds_secret_def look_replace)
  then have "storage_backed ?db = storage_backed db" "carrier_backed ?db = carrier_backed db"
    by (simp_all add: storage_backed_def carrier_backed_def fun_eq_iff)
  moreover have "List.map fs_name (table_update fs_id i (\<lambda>_. s') (tg_secrets db)) = List.map fs_name (tg_secrets db)"
    using replace_known[of fs_id "tg_secrets db" s s'] assms(1,4) s by (auto simp: target_ok_def)
  ultimately show ?thesis
    using assms(1,3) s(2) by (simp add: target_ok_def keys_replace)
qed

lemma deleted_secret_ok:
  assumes "target_ok db" "\<not> secret_used i db"
  shows "target_ok (db\<lparr>tg_secrets := delete_rows (\<lambda>s. fs_id s = i) (tg_secrets db)\<rparr>)"
proof -
  let ?db = "db\<lparr>tg_secrets := delete_rows (\<lambda>s. fs_id s = i) (tg_secrets db)\<rparr>"
  have look: "table_look fs_id (filter (\<lambda>s. fs_id s \<noteq> i) t) k = table_look fs_id t k" if "k \<noteq> i" for k t
    using that by (induction t) (auto simp: table_look_def)
  have "holds_secret ?db p k" if "holds_secret db p k" "k \<noteq> i" for p k
    using that by (simp add: holds_secret_def delete_rows_def look)
  then have "\<forall>t \<in> set (tg_storage db). storage_backed ?db t" "\<forall>t \<in> set (tg_carrier db). carrier_backed ?db t"
    using assms unfolding target_ok_def storage_backed_def carrier_backed_def secret_used_def by blast+
  then show ?thesis
    using assms(1) by (auto simp: target_ok_def delete_rows_def distinct_map_filter)
qed

section \<open>Every operation keeps it\<close>

text \<open>The text of a uuid; \<open>int\<close> does not read it because of its hyphens.\<close>

definition uuid_text :: "string \<Rightarrow> bool" where
  "uuid_text s = (length s = 36 \<and> list_all (\<lambda>(i, c). if i \<in> {8, 13, 18, 23} then c = CHR ''-'' else c \<in> set ''0123456789abcdef'')
     (zip [0..<36] s))"

lemma uuid_char: "uuid_text s \<Longrightarrow> i < 36 \<Longrightarrow> if i \<in> {8, 13, 18, 23} then s ! i = CHR ''-'' else s ! i \<in> set ''0123456789abcdef''"
  by (auto simp: uuid_text_def list_all_length split: if_splits)

lemma int_digits_chars: "int_digits s = Some d \<Longrightarrow> CHR ''-'' \<notin> set s"
  by (induction s arbitrary: d rule: int_digits.induct) (auto simp: is_digit_def split: if_splits)

lemma uuid_no_int: assumes "uuid_text s" shows "py_int s = None"
proof -
  have len: "length s = 36" using assms by (simp add: uuid_text_def)
  have "\<not> is_space (s ! i)" if "i < 36" for i
    using uuid_char[OF assms that] by (auto simp: is_space_def split: if_splits)
  then have strip: "strip s = s" using len by (intro strip_nonspace) (auto simp: in_set_conv_nth)
  obtain c t where s: "s = c # t" using len by (cases s) auto
  have "c \<in> set ''0123456789abcdef''" using uuid_char[OF assms, of 0] by (simp add: s)
  moreover have "s ! 8 \<in> set t" using len by (simp add: s nth_Cons')
  then have "CHR ''-'' \<in> set (c # t)" using uuid_char[OF assms, of 8] by simp
  then have "int_digits (c # t) = None" using int_digits_chars[of "c # t"] by (cases "int_digits (c # t)") auto
  ultimately show ?thesis using strip by (auto simp: py_int_def s)
qed

lemma no_uuid_audit: "uuid_text i \<Longrightarrow> isl (target_audit action resource who i db)"
  by (auto simp: uuid_no_int target_audit_def log_audit_event_def Let_def)
    (simp add: uuid_text_def)?

lemma no_uuid_audit_Inr: "uuid_text i \<Longrightarrow> target_audit action resource who i db \<noteq> Inr db'"
  using no_uuid_audit[of i action resource who db] by auto

lemma bind_isl: "isl x \<Longrightarrow> isl (bind_res x f)"
  by (cases x) auto

lemma bind_isl_all: "(\<And>v. x = Inr v \<Longrightarrow> isl (f v)) \<Longrightarrow> isl (bind_res x f)"
  by (cases x) auto

lemma transact_isl: "isl r \<Longrightarrow> \<exists>e. transact r db = (Inl e, db)"
  by (cases r) (auto simp: transact_def)

lemma pbx_create_fails: "uuid_text (te_uuid env 1) \<Longrightarrow> \<exists>e. create_pbx_target env user req secret db = (Inl e, db)"
  unfolding create_pbx_target_def Let_def
  by (intro transact_isl bind_isl_all) (simp_all add: no_uuid_audit_Inr)

lemma source_create_fails: "uuid_text (te_uuid env 1) \<Longrightarrow> \<exists>e. create_monitoring_source env user req auth db = (Inl e, db)"
  unfolding create_monitoring_source_def Let_def
  by (intro transact_isl bind_isl_all) (simp_all add: no_uuid_audit_Inr)

lemma pbx_update_fails: "tg_pbx db = [] \<Longrightarrow> \<exists>e. update_pbx_target env user i u db = (Inl e, db)"
  unfolding update_pbx_target_def by (intro transact_isl bind_isl_all) (simp add: found_def table_look_def)

lemma source_update_fails: "tg_sources db = [] \<Longrightarrow> \<exists>e. update_monitoring_source env user i u db = (Inl e, db)"
  unfolding update_monitoring_source_def by (intro transact_isl bind_isl_all) (simp add: found_def table_look_def)

lemma pbx_test_fails: "\<exists>e. test_pbx_ami user i db = (Inl e, db)"
  unfolding test_pbx_ami_def by (intro transact_isl bind_isl_all) simp

lemma internal_fails: "\<exists>e. get_internal_agent header = Inl e"
  by (auto simp: get_internal_agent_def split: option.splits list.splits)

text \<open>A commit of new rows, kept until the name is known to be free.\<close>

lemma name_taken_Inr [simp]: "name_taken what r = Inr x \<longleftrightarrow> r = Inr x"
  by (cases r) (auto simp: name_taken_def split: exn.splits)

lemma found_Some: "found what r = Inr x \<Longrightarrow> r = Some x"
  by (cases r) (auto simp: found_def)

lemma look_in: "table_look key t k = Some r \<Longrightarrow> r \<in> set t \<and> key r = k"
  by (auto simp: table_look_def dest: select_first_Some)

lemma transact_Inr: "transact r db = (Inr x, db') \<longleftrightarrow> r = Inr (x, db')"
  by (auto simp: transact_def split: sum.splits)

lemma storage_created:
  assumes "create_storage_target env user config ak sk db = (Inr t, db')"
  obtains who c1 c2 db1 db2 where "encrypted env 1 ak = Inr c1" "encrypted env 2 sk = Inr c2"
    "store_secret (auth_secret who (sg_access_secret t) (''storage_target_ak_'' @ sg_id t) ''storage_target_auth'' c1) db = Inr db1"
    "store_secret (auth_secret who (sg_secret_secret t) (''storage_target_sk_'' @ sg_id t) ''storage_target_auth'' c2) db1 = Inr db2"
    "sg_id t \<notin> sg_id ` set (tg_storage db2)" "sg_name t \<notin> sg_name ` set (tg_storage db2)"
    "db' = user_audit who ''create_storage_target'' ''storage_target'' [(''target_id'', JStr (sg_id t))]
       (db2\<lparr>tg_storage := tg_storage db2 @ [t]\<rparr>)"
proof -
  let ?t = "config\<lparr>sg_id := te_uuid env 0, sg_access_secret := te_uuid env 1, sg_secret_secret := te_uuid env 2, sg_active := True\<rparr>"
  from assms obtain who c1 c2 db1 db2 where c: "encrypted env 1 ak = Inr c1" "encrypted env 2 sk = Inr c2"
    "store_secret (auth_secret who (te_uuid env 1) (''storage_target_ak_'' @ sg_id ?t) ''storage_target_auth'' c1) db = Inr db1"
    "store_secret (auth_secret who (te_uuid env 2) (''storage_target_sk_'' @ sg_id ?t) ''storage_target_auth'' c2) db1 = Inr db2"
    "sg_id ?t \<notin> sg_id ` set (tg_storage db2)" "sg_name ?t \<notin> sg_name ` set (tg_storage db2)"
    "Inr (?t, user_audit who ''create_storage_target'' ''storage_target'' [(''target_id'', JStr (sg_id ?t))]
       (db2\<lparr>tg_storage := tg_storage db2 @ [?t]\<rparr>)) = (Inr (t, db') :: (storage_target \<times> target_db) res)"
    unfolding create_storage_target_def Let_def transact_Inr bind_res_Inr name_taken_Inr unique_key_Inr insert_row_def
    by (elim exE conjE) (rule that)
  then have t: "t = ?t" and db': "db' = user_audit who ''create_storage_target'' ''storage_target'' [(''target_id'', JStr (sg_id t))]
      (db2\<lparr>tg_storage := tg_storage db2 @ [t]\<rparr>)" by auto
  show ?thesis by (rule that[OF c(1,2) _ _ _ _ db']) (use c(3-6) t in simp_all)
qed

lemma carrier_created:
  assumes "create_carrier_target env user config key secret db = (Inr t, db')"
  obtains who s1 s2 db1 db2 where
    "carrier_secret env who 1 (''carrier_target_ak_'' @ ct_id t) key = Inr s1" "carrier_secret env who 2 (''carrier_target_sk_'' @ ct_id t) secret = Inr s2"
    "ct_key_secret t = map_option fs_id s1" "ct_secret_secret t = map_option fs_id s2"
    "store_given s1 db = Inr db1" "store_given s2 db1 = Inr db2"
    "ct_id t \<notin> ct_id ` set (tg_carrier db2)" "ct_name t \<notin> ct_name ` set (tg_carrier db2)"
    "db' = user_audit who ''create_carrier_target'' ''carrier_target'' [(''target_id'', JStr (ct_id t))]
       (db2\<lparr>tg_carrier := tg_carrier db2 @ [t]\<rparr>)"
proof -
  let ?t = "\<lambda>s1 s2. config\<lparr>ct_id := te_uuid env 0, ct_key_secret := map_option fs_id s1, ct_secret_secret := map_option fs_id s2, ct_active := True\<rparr>"
  from assms obtain who s1 s2 db1 db2 where c:
    "carrier_secret env who 1 (''carrier_target_ak_'' @ te_uuid env 0) key = Inr s1" "carrier_secret env who 2 (''carrier_target_sk_'' @ te_uuid env 0) secret = Inr s2"
    "store_given s1 db = Inr db1" "store_given s2 db1 = Inr db2"
    "ct_id (?t s1 s2) \<notin> ct_id ` set (tg_carrier db2)" "ct_name (?t s1 s2) \<notin> ct_name ` set (tg_carrier db2)"
    "Inr (?t s1 s2, user_audit who ''create_carrier_target'' ''carrier_target'' [(''target_id'', JStr (ct_id (?t s1 s2)))]
       (db2\<lparr>tg_carrier := tg_carrier db2 @ [?t s1 s2]\<rparr>)) = (Inr (t, db') :: (carrier_target \<times> target_db) res)"
    unfolding create_carrier_target_def Let_def transact_Inr bind_res_Inr name_taken_Inr unique_key_Inr insert_row_def
    by (elim exE conjE) (rule that)
  then have t: "t = ?t s1 s2" and db': "db' = user_audit who ''create_carrier_target'' ''carrier_target'' [(''target_id'', JStr (ct_id t))]
      (db2\<lparr>tg_carrier := tg_carrier db2 @ [t]\<rparr>)" by auto
  show ?thesis by (rule that[OF _ _ _ _ c(3,4) _ _ db']) (use c(1,2,5,6) t in simp_all)
qed

lemma given_purpose: "carrier_secret env who k n g = Inr (Some s) \<Longrightarrow> sc_purpose s = ''carrier_target_auth''"
  by (auto simp: carrier_secret_def auth_secret_def bind_res_Inr split: option.splits list.splits)

lemma given_stored:
  assumes "store_given s db = Inr db'" "target_ok db"
  shows "target_ok db'" "tg_carrier db' = tg_carrier db" "\<And>p i. holds_secret db p i \<Longrightarrow> holds_secret db' p i"
    "\<And>x. s = Some x \<Longrightarrow> holds_secret db' (sc_purpose x) (fs_id x)"
  using assms store_secret_ok store_secret_tables store_secret_holds stored_holds
  by (cases s; simp add: store_given_def; metis)+

lemma create_storage_keeps:
  assumes "create_storage_target env user config ak sk db = (r, db')" "target_ok db"
  shows "target_ok db'"
proof (cases r)
  case (Inl e)
  with assms show ?thesis unfolding create_storage_target_def by (auto elim!: transact_cases)
next
  case (Inr t)
  from assms(1)[unfolded Inr] show ?thesis
  proof (rule storage_created)
    fix who c1 c2 db1 db2
    assume s1: "store_secret (auth_secret who (sg_access_secret t) (''storage_target_ak_'' @ sg_id t) ''storage_target_auth'' c1) db = Inr db1"
      and s2: "store_secret (auth_secret who (sg_secret_secret t) (''storage_target_sk_'' @ sg_id t) ''storage_target_auth'' c2) db1 = Inr db2"
      and new: "sg_id t \<notin> sg_id ` set (tg_storage db2)" "sg_name t \<notin> sg_name ` set (tg_storage db2)"
      and db': "db' = user_audit who ''create_storage_target'' ''storage_target'' [(''target_id'', JStr (sg_id t))]
          (db2\<lparr>tg_storage := tg_storage db2 @ [t]\<rparr>)"
    have ok: "target_ok db2" using store_secret_ok[OF s2 store_secret_ok[OF s1 assms(2)]] .
    have "storage_backed db2 t"
      using store_secret_holds[OF s2 stored_holds[OF s1]] stored_holds[OF s2] by (simp add: storage_backed_def auth_secret_def)
    with ok new show ?thesis by (simp add: db' user_audit_def target_ok_def)
  qed
qed

lemma create_carrier_keeps:
  assumes "create_carrier_target env user config key secret db = (r, db')" "target_ok db"
  shows "target_ok db'"
proof (cases r)
  case (Inl e)
  with assms show ?thesis unfolding create_carrier_target_def by (auto elim!: transact_cases)
next
  case (Inr t)
  from assms(1)[unfolded Inr] show ?thesis
  proof (rule carrier_created)
    fix who s1 s2 db1 db2
    assume c1: "carrier_secret env who 1 (''carrier_target_ak_'' @ ct_id t) key = Inr s1"
      and c2: "carrier_secret env who 2 (''carrier_target_sk_'' @ ct_id t) secret = Inr s2"
      and ids: "ct_key_secret t = map_option fs_id s1" "ct_secret_secret t = map_option fs_id s2"
      and g1: "store_given s1 db = Inr db1" and g2: "store_given s2 db1 = Inr db2"
      and new: "ct_id t \<notin> ct_id ` set (tg_carrier db2)" "ct_name t \<notin> ct_name ` set (tg_carrier db2)"
      and db': "db' = user_audit who ''create_carrier_target'' ''carrier_target'' [(''target_id'', JStr (ct_id t))]
          (db2\<lparr>tg_carrier := tg_carrier db2 @ [t]\<rparr>)"
    note g1 = given_stored[OF g1 assms(2)] 
    note g2 = given_stored[OF g2 g1(1)]
    have "holds_secret db2 ''carrier_target_auth'' (fs_id s)" if "s1 = Some s \<or> s2 = Some s" for s
      using that g1(4) g2(3,4) given_purpose c1 c2 by metis
    then have "carrier_backed db2 t" using ids by (auto simp: carrier_backed_def)
    with g2(1) new show ?thesis by (simp add: db' user_audit_def target_ok_def)
  qed
qed

lemma storage_patched: "patched_storage u t = Inr t' \<Longrightarrow> sg_id t' = sg_id t
    \<and> sg_access_secret t' = sg_access_secret t \<and> sg_secret_secret t' = sg_secret_secret t"
  by (auto simp: patched_storage_def bind_res_Inr)

lemma carrier_patched: "patched_carrier u t = Inr t' \<Longrightarrow> ct_id t' = ct_id t
    \<and> ct_key_secret t' = ct_key_secret t \<and> ct_secret_secret t' = ct_secret_secret t"
  by (auto simp: patched_carrier_def bind_res_Inr)

text \<open>A row replaced under its key keeps another unique column unique when the new value is not that of another row.\<close>

lemma replace_unique:
  assumes "distinct (List.map key rows)" "distinct (List.map name rows)" "table_look key rows i = Some r" "key r' = key r"
    and "name r' \<notin> name ` set (filter (\<lambda>x. key x \<noteq> i) rows)"
  shows "distinct (List.map name (table_update key i (\<lambda>_. r') rows))"
proof -
  have r: "r \<in> set rows" "key r = i" using look_in[OF assms(3)] by simp_all
  have same: "table_update key i (\<lambda>_. r') rows = List.map (\<lambda>x. if x = r then r' else x) rows"
    using replace_known[OF assms(1) r(1)] r(2) by simp
  have keys: "inj_on key (set rows)" and names: "inj_on name (set rows)" using assms(1,2) by (simp_all add: distinct_map)
  have new: "name x \<noteq> name r'" if "x \<in> set rows" "x \<noteq> r" for x
  proof -
    have "key x \<noteq> i" using inj_onD[OF keys _ that(1) r(1)] that(2) r(2) by metis
    then have "x \<in> set (filter (\<lambda>x. key x \<noteq> i) rows)" using that(1) by simp
    then show ?thesis using assms(5) by (metis imageI)
  qed
  have "inj_on (\<lambda>x. name (if x = r then r' else x)) (set rows)"
  proof (rule inj_onI)
    fix x y assume m: "x \<in> set rows" "y \<in> set rows" and e: "name (if x = r then r' else x) = name (if y = r then r' else y)"
    show "x = y" using new[OF m(1)] new[OF m(2)] e inj_onD[OF names _ m] by (cases "x = r"; cases "y = r") simp_all
  qed
  then show ?thesis using assms(2) by (simp add: same o_def distinct_map)
qed

lemma replaced_rows: "x \<in> set (table_update key i (\<lambda>_. r') rows) \<Longrightarrow> x \<in> set rows \<or> x = r'"
  by (auto simp: table_update_def update_rows_def split: if_splits)

lemma update_storage_keeps:
  assumes "update_storage_target user i u db = (r, db')" "target_ok db"
  shows "target_ok db'"
proof (cases r)
  case (Inl e)
  with assms show ?thesis unfolding update_storage_target_def by (auto elim!: transact_cases)
next
  case (Inr x)
  from assms(1)[unfolded Inr] obtain who t where f: "table_look sg_id (tg_storage db) i = Some t" and p: "patched_storage u t = Inr x"
    and n: "sg_name x \<notin> sg_name ` set (filter (\<lambda>x. sg_id x \<noteq> i) (tg_storage db))"
    and db': "db' = user_audit who ''update_storage_target'' ''storage_target'' [(''target_id'', JStr i)]
        (db\<lparr>tg_storage := table_update sg_id i (\<lambda>_. x) (tg_storage db)\<rparr>)"
    unfolding update_storage_target_def transact_Inr bind_res_Inr unique_key_Inr by (auto dest: found_Some)
  note same = storage_patched[OF p]
  have t: "t \<in> set (tg_storage db)" "sg_id t = i" using look_in[OF f] by simp_all
  have "distinct (List.map sg_name (table_update sg_id i (\<lambda>_. x) (tg_storage db)))"
    using assms(2) same by (intro replace_unique[OF _ _ f _ n]) (simp_all add: target_ok_def)
  moreover have "storage_backed db x" using assms(2) t(1) same by (auto simp: target_ok_def storage_backed_def)
  then have "\<forall>y \<in> set (table_update sg_id i (\<lambda>_. x) (tg_storage db)). storage_backed db y"
    using assms(2) by (auto simp: target_ok_def dest!: replaced_rows)
  moreover have "List.map sg_id (table_update sg_id i (\<lambda>_. x) (tg_storage db)) = List.map sg_id (tg_storage db)"
    using same t(2) by (intro keys_replace) simp
  ultimately show ?thesis using assms(2) by (simp add: db' user_audit_def target_ok_def)
qed

lemma update_carrier_keeps:
  assumes "update_carrier_target user i u db = (r, db')" "target_ok db"
  shows "target_ok db'"
proof (cases r)
  case (Inl e)
  with assms show ?thesis unfolding update_carrier_target_def by (auto elim!: transact_cases)
next
  case (Inr x)
  from assms(1)[unfolded Inr] obtain who t where f: "table_look ct_id (tg_carrier db) i = Some t" and p: "patched_carrier u t = Inr x"
    and n: "ct_name x \<notin> ct_name ` set (filter (\<lambda>x. ct_id x \<noteq> i) (tg_carrier db))"
    and db': "db' = user_audit who ''update_carrier_target'' ''carrier_target'' [(''target_id'', JStr i)]
        (db\<lparr>tg_carrier := table_update ct_id i (\<lambda>_. x) (tg_carrier db)\<rparr>)"
    unfolding update_carrier_target_def transact_Inr bind_res_Inr unique_key_Inr by (auto dest: found_Some)
  note same = carrier_patched[OF p]
  have t: "t \<in> set (tg_carrier db)" "ct_id t = i" using look_in[OF f] by simp_all
  have "distinct (List.map ct_name (table_update ct_id i (\<lambda>_. x) (tg_carrier db)))"
    using assms(2) same by (intro replace_unique[OF _ _ f _ n]) (simp_all add: target_ok_def)
  moreover have "carrier_backed db x" using assms(2) t(1) same by (auto simp: target_ok_def carrier_backed_def)
  then have "\<forall>y \<in> set (table_update ct_id i (\<lambda>_. x) (tg_carrier db)). carrier_backed db y"
    using assms(2) by (auto simp: target_ok_def dest!: replaced_rows)
  moreover have "List.map ct_id (table_update ct_id i (\<lambda>_. x) (tg_carrier db)) = List.map ct_id (tg_carrier db)"
    using same t(2) by (intro keys_replace) simp
  ultimately show ?thesis using assms(2) by (simp add: db' user_audit_def target_ok_def)
qed

lemma tests_keep:
  "test_storage_target user i db = (r, db') \<Longrightarrow> target_ok db \<Longrightarrow> target_ok db'"
  "test_carrier_target user i db = (r', db') \<Longrightarrow> target_ok db \<Longrightarrow> target_ok db'"
  by (auto simp: test_storage_target_def test_carrier_target_def store_test_task_def user_audit_def bind_res_Inr elim!: transact_cases)

lemma secret_requests_keep:
  "create_api_secret env user req db = (r, db') \<Longrightarrow> target_ok db \<Longrightarrow> target_ok db'"
  "update_api_secret env user i plain meta db = (r, db') \<Longrightarrow> target_ok db \<Longrightarrow> target_ok db'"
  "delete_api_secret user i db = (r', db') \<Longrightarrow> target_ok db \<Longrightarrow> target_ok db'"
proof -
  show "target_ok db'" if "create_api_secret env user req db = (r, db')" "target_ok db"
    using that store_secret_ok unfolding create_api_secret_def
    by (auto simp: bind_res_Inr Let_def split: if_splits elim!: transact_cases)
  show "target_ok db'" if "update_api_secret env user i plain meta db = (r, db')" "target_ok db"
    using that unfolding update_api_secret_def
    by (auto simp: bind_res_Inr Let_def elim!: transact_cases intro!: changed_secret_ok dest: found_Some)
  show "target_ok db'" if "delete_api_secret user i db = (r', db')" "target_ok db"
    using that deleted_secret_ok unfolding delete_api_secret_def
    by (auto simp: bind_res_Inr split: if_splits elim!: transact_cases)
qed

section \<open>Reachable states\<close>

definition empty_targets :: target_db where
  "empty_targets = \<lparr>tg_secrets = [], tg_pbx = [], tg_sources = [], tg_storage = [], tg_carrier = [], tg_pbx_snapshots = [], tg_ingests = [],
     tg_storage_jobs = [], tg_carrier_snapshots = [], tg_tasks = [], tg_audit = [], tg_next = 1\<rparr>"

text \<open>Requests to the routers; the identifiers they draw are uuids, which no integer is written like.\<close>

inductive target_reach :: "target_db \<Rightarrow> bool" where
  tr_start: "target_reach empty_targets"
| tr_pbx: "target_reach db \<Longrightarrow> uuid_text (te_uuid env 1) \<Longrightarrow> create_pbx_target env user p secret db = (r1, db') \<Longrightarrow> target_reach db'"
| tr_pbx_update: "target_reach db \<Longrightarrow> update_pbx_target env user i pu db = (r1, db') \<Longrightarrow> target_reach db'"
| tr_pbx_test: "target_reach db \<Longrightarrow> test_pbx_ami user i db = (r2, db') \<Longrightarrow> target_reach db'"
| tr_source: "target_reach db \<Longrightarrow> uuid_text (te_uuid env 1) \<Longrightarrow> create_monitoring_source env user m auth db = (r3, db') \<Longrightarrow> target_reach db'"
| tr_source_update: "target_reach db \<Longrightarrow> update_monitoring_source env user i su db = (r3, db') \<Longrightarrow> target_reach db'"
| tr_storage: "target_reach db \<Longrightarrow> create_storage_target env user sc ak sk db = (r4, db') \<Longrightarrow> target_reach db'"
| tr_storage_update: "target_reach db \<Longrightarrow> update_storage_target user i sp db = (r4, db') \<Longrightarrow> target_reach db'"
| tr_storage_test: "target_reach db \<Longrightarrow> test_storage_target user i db = (r2, db') \<Longrightarrow> target_reach db'"
| tr_carrier: "target_reach db \<Longrightarrow> create_carrier_target env user cc key csecret db = (r5, db') \<Longrightarrow> target_reach db'"
| tr_carrier_update: "target_reach db \<Longrightarrow> update_carrier_target user i cp db = (r5, db') \<Longrightarrow> target_reach db'"
| tr_carrier_test: "target_reach db \<Longrightarrow> test_carrier_target user i db = (r2, db') \<Longrightarrow> target_reach db'"
| tr_secret: "target_reach db \<Longrightarrow> create_api_secret env user req db = (r6, db') \<Longrightarrow> target_reach db'"
| tr_secret_update: "target_reach db \<Longrightarrow> update_api_secret env user i plain meta db = (r6, db') \<Longrightarrow> target_reach db'"
| tr_secret_delete: "target_reach db \<Longrightarrow> delete_api_secret user i db = (r7, db') \<Longrightarrow> target_reach db'"
| tr_decrypt: "target_reach db \<Longrightarrow> decrypt_internal_secret env header i db = (r8, db') \<Longrightarrow> target_reach db'"

lemma decrypt_refused: "\<exists>e. decrypt_internal_secret env header i db = (Inl e, db)"
  using internal_fails[of header] by (auto simp: decrypt_internal_secret_def)

lemma target_reach_ok: "target_reach db \<Longrightarrow> target_ok db"
proof (induction rule: target_reach.induct)
  case tr_start
  show ?case by (simp add: target_ok_def empty_targets_def)
next
  case (tr_pbx db env user p secret r1 db')
  then show ?case using pbx_create_fails[of env user p secret db] by auto
next
  case (tr_pbx_update db env user i pu r1 db')
  then show ?case using pbx_update_fails[of db env user i pu] by (auto simp: target_ok_def)
next
  case (tr_pbx_test db user i r2 db')
  then show ?case using pbx_test_fails[of user i db] by auto
next
  case (tr_source db env user m auth r3 db')
  then show ?case using source_create_fails[of env user m auth db] by auto
next
  case (tr_source_update db env user i su r3 db')
  then show ?case using source_update_fails[of db env user i su] by (auto simp: target_ok_def)
next
  case tr_storage then show ?case using create_storage_keeps by blast
next
  case tr_storage_update then show ?case using update_storage_keeps by blast
next
  case tr_storage_test then show ?case using tests_keep(1) by blast
next
  case tr_carrier then show ?case using create_carrier_keeps by blast
next
  case tr_carrier_update then show ?case using update_carrier_keeps by blast
next
  case tr_carrier_test then show ?case using tests_keep(2) by blast
next
  case tr_secret then show ?case using secret_requests_keep(1) by blast
next
  case tr_secret_update then show ?case using secret_requests_keep(2) by blast
next
  case tr_secret_delete then show ?case using secret_requests_keep(3) by blast
next
  case (tr_decrypt db env header i r8 db')
  then show ?case using decrypt_refused[of env header i db] by auto
qed

section \<open>The properties\<close>

text \<open>No telephone exchange and no monitoring source is ever stored: the audit entry of a creation reads the
  identifier of the new row, a uuid, as an integer.  So every creation, update and test of one fails, whoever
  asks, and changes nothing; and so does every request of an agent for a decrypted secret.\<close>

theorem no_exchange_no_source:
  assumes "target_reach db" "uuid_text (te_uuid env 1)"
  shows "tg_pbx db = [] \<and> tg_sources db = []
    \<and> (\<exists>e. create_pbx_target env user p secret db = (Inl e, db)) \<and> (\<exists>e. update_pbx_target env user i pu db = (Inl e, db))
    \<and> (\<exists>e. test_pbx_ami user i db = (Inl e, db))
    \<and> (\<exists>e. create_monitoring_source env user m auth db = (Inl e, db)) \<and> (\<exists>e. update_monitoring_source env user i su db = (Inl e, db))
    \<and> (\<exists>e. decrypt_internal_secret env header j db = (Inl e, db))"
  using target_reach_ok[OF assms(1)] assms(2)
  by (simp add: target_ok_def pbx_create_fails source_create_fails pbx_update_fails source_update_fails pbx_test_fails decrypt_refused)

text \<open>C30: In every state the routers lead to, identifiers and names of secrets, object stores and carriers are
  unique, and the secrets a store or a carrier refers to are there and were made for that purpose.\<close>

theorem reachable_targets_ok:
  assumes "target_reach db"
  shows "distinct (List.map fs_id (tg_secrets db)) \<and> distinct (List.map fs_name (tg_secrets db))
    \<and> distinct (List.map sg_id (tg_storage db)) \<and> distinct (List.map sg_name (tg_storage db))
    \<and> distinct (List.map ct_id (tg_carrier db)) \<and> distinct (List.map ct_name (tg_carrier db))
    \<and> (\<forall>t \<in> set (tg_storage db). storage_backed db t) \<and> (\<forall>t \<in> set (tg_carrier db). carrier_backed db t)"
  using target_reach_ok[OF assms] by (simp add: target_ok_def)

lemma stored_shared:
  assumes "aead_ok (te_enc env) (te_dec env)" "length (te_nonce env k) = 12" "encrypted env k v = Inr c"
    "table_look fs_id (tg_secrets db) i = Some s" "sc_ciphertext s = c" "sc_purpose s = ''storage_target_auth''"
  shows "decrypt_for_agent env a i db = (Inr v, agent_event a ''secret_decrypt'' i db)"
  using assms shared_secret_roundtrip[OF assms(1,2)] by (simp add: decrypt_for_agent_def may_decrypt_def encrypted_def)

text \<open>The credentials an object store is created with are those that any agent the internal router knows
  gets when it asks for the two secrets of the store, and each time an entry of the audit log says so.\<close>

theorem storage_credentials_roundtrip:
  assumes "create_storage_target env user config ak sk db = (Inr t, db')"
    and "aead_ok (te_enc env) (te_dec env)" "length (te_nonce env 1) = 12" "length (te_nonce env 2) = 12"
  shows "decrypt_for_agent env a (sg_access_secret t) db' = (Inr ak, agent_event a ''secret_decrypt'' (sg_access_secret t) db')
    \<and> decrypt_for_agent env a (sg_secret_secret t) db' = (Inr sk, agent_event a ''secret_decrypt'' (sg_secret_secret t) db')"
  using assms(1)
proof (rule storage_created)
  fix who c1 c2 db1 db2
  let ?s1 = "auth_secret who (sg_access_secret t) (''storage_target_ak_'' @ sg_id t) ''storage_target_auth'' c1"
  let ?s2 = "auth_secret who (sg_secret_secret t) (''storage_target_sk_'' @ sg_id t) ''storage_target_auth'' c2"
  assume c: "encrypted env 1 ak = Inr c1" "encrypted env 2 sk = Inr c2" and s: "store_secret ?s1 db = Inr db1" "store_secret ?s2 db1 = Inr db2"
    and db': "db' = user_audit who ''create_storage_target'' ''storage_target'' [(''target_id'', JStr (sg_id t))]
        (db2\<lparr>tg_storage := tg_storage db2 @ [t]\<rparr>)"
  have "table_look fs_id (tg_secrets db1) (sg_access_secret t) = Some ?s1" using stored_look[OF s(1)] by simp
  then have "table_look fs_id (tg_secrets db') (sg_access_secret t) = Some ?s1"
    using s(2) by (auto simp: db' user_audit_def store_secret_Inr look_added)
  moreover have "table_look fs_id (tg_secrets db') (sg_secret_secret t) = Some ?s2"
    using stored_look[OF s(2)] by (simp add: db' user_audit_def)
  ultimately show ?thesis
    using stored_shared[OF assms(2,3) c(1)] stored_shared[OF assms(2,4) c(2)] by simp
qed

section \<open>Witnesses\<close>

definition target_admin :: user_row where
  "target_admin = \<lparr>us_id = 1, us_email = ''a@b'', us_password_hash = [], us_refresh_token_hash = None, us_role = ''admin'',
     us_is_active = True, us_module_permissions = None, us_created_at = 0\<rparr>"

definition demo_uuid :: "nat \<Rightarrow> string" where
  "demo_uuid n = ''00000000-0000-4000-8000-00000000000'' @ [char_of (48 + n)]"

definition demo_tenv :: target_env where
  "demo_tenv = \<lparr>te_uuid = demo_uuid, te_nonce = (\<lambda>_. replicate 12 0), te_enc = plain_enc, te_dec = plain_dec,
     te_master_key = Some (replicate 43 CHR ''A'' @ ''='')\<rparr>"

definition demo_store :: storage_target where
  "demo_store = \<lparr>sg_id = [], sg_name = ''s'', sg_description = None, sg_kind = ''s3'', sg_endpoint_url = ''http://s'', sg_region = None,
     sg_bucket = ''b'', sg_access_secret = [], sg_secret_secret = [], sg_base_prefix = [], sg_active = False, sg_tags = None\<rparr>"

definition demo_store_call :: "storage_target res \<times> target_db" where
  "demo_store_call = create_storage_target demo_tenv (Some target_admin) demo_store ''ak'' ''sk'' empty_targets"

lemma demo_store_created: "fst demo_store_call = Inr (demo_store\<lparr>sg_id := demo_uuid 0, sg_access_secret := demo_uuid 1,
     sg_secret_secret := demo_uuid 2, sg_active := True\<rparr>)"
  by code_simp

lemma demo_store_reach: "target_reach (snd demo_store_call)"
  by (rule tr_storage[OF tr_start, of demo_tenv "Some target_admin" demo_store "''ak''" "''sk''" "fst demo_store_call"])
    (simp add: demo_store_call_def)

theorem no_exchange_no_source_witness:
  "\<exists>e. create_monitoring_source demo_tenv (Some target_admin) \<lparr>so_id = [], so_name = ''m'', so_kind = ''nagios'', so_base_url = None,
      so_secret = None, so_tags = None, so_active = True\<rparr> None (snd demo_store_call) = (Inl e, snd demo_store_call)"
proof -
  have "uuid_text (te_uuid demo_tenv 1)" by code_simp
  from no_exchange_no_source[OF demo_store_reach this] show ?thesis by blast
qed

theorem reachable_targets_ok_witness:
  "length (tg_secrets (snd demo_store_call)) = 2 \<and> list_all (storage_backed (snd demo_store_call)) (tg_storage (snd demo_store_call))"
proof
  show "length (tg_secrets (snd demo_store_call)) = 2" by code_simp
qed (use reachable_targets_ok[OF demo_store_reach] in \<open>simp add: list_all_iff\<close>)

theorem storage_credentials_roundtrip_witness:
  "\<forall>a. fst (decrypt_for_agent demo_tenv a (demo_uuid 1) (snd demo_store_call)) = Inr ''ak''"
proof -
  have "create_storage_target demo_tenv (Some target_admin) demo_store ''ak'' ''sk'' empty_targets = (Inr (demo_store\<lparr>sg_id := demo_uuid 0,
      sg_access_secret := demo_uuid 1, sg_secret_secret := demo_uuid 2, sg_active := True\<rparr>), snd demo_store_call)"
    using demo_store_created by (simp add: demo_store_call_def prod_eq_iff)
  from storage_credentials_roundtrip[OF this] show ?thesis by (simp add: demo_tenv_def plain_aead_ok)
qed

end
