(* ===== verification/StorageAgent.thy ===== *)
theory StorageAgent
  imports "Dns"
begin

text \<open>
  The storage agent (\<open>apps/storage_agent\<close>): the credentials it takes from the vault (\<open>engine/secrets.py\<close>), the
  operations on an object store (\<open>engine/s3.py\<close>), the purge of old objects (\<open>engine/retention.py\<close>), its tables
  (\<open>store/postgres.py\<close>, with the constraints of migration 023), its routes and the authorization and the
  watchdog of \<open>main.py\<close>.  The object store and the vault are arguments: a store takes its state to an answer
  and its next state.  A client error of the store is an exception whose message is its code.
\<close>

section \<open>Object stores\<close>

record object_info =
  oi_key :: string
  oi_size :: int
  oi_modified :: int

record object_page =
  op_keys :: "object_info list"
  op_next :: "string option"
  op_truncated :: bool

record 's object_store =
  os_head_bucket :: "string \<Rightarrow> (unit, 's) call"
  os_create_bucket :: "string \<Rightarrow> (unit, 's) call"
  os_put :: "string \<Rightarrow> string \<Rightarrow> string \<Rightarrow> string option \<Rightarrow> (unit, 's) call"
  os_head :: "string \<Rightarrow> string \<Rightarrow> (dict, 's) call"
  os_presign :: "string \<Rightarrow> string \<Rightarrow> string \<Rightarrow> int \<Rightarrow> (string, 's) call"
  os_delete :: "string \<Rightarrow> string \<Rightarrow> (unit, 's) call"
  os_list :: "string \<Rightarrow> string \<Rightarrow> int \<Rightarrow> string option \<Rightarrow> (object_page, 's) call"
  os_buckets :: "(unit, 's) call"

record stored_target =
  sgt_id :: string
  sgt_tenant :: string
  sgt_env :: string
  sgt_name :: string
  sgt_endpoint :: "string option"
  sgt_region :: "string option"
  sgt_bucket :: "string option"
  sgt_enabled :: bool
  sgt_aliases :: "(string \<times> string) list"
  sgt_flags :: dict

record 's store_env =
  sn_listing :: "string \<Rightarrow> string \<Rightarrow> (int \<times> json res) res"
  sn_read :: "json \<Rightarrow> (int \<times> json res) res"
  sn_connect :: "json \<Rightarrow> json \<Rightarrow> string \<Rightarrow> string option \<Rightarrow> 's object_store res"

section \<open>Credentials\<close>

text \<open>Every entry of the listing with the alias is tried until one can be read; any exception is a None.\<close>

fun read_alias :: "(json \<Rightarrow> (int \<times> json res) res) \<Rightarrow> string \<Rightarrow> json list \<Rightarrow> json res" where
  "read_alias read_secret alias [] = Inr JNull"
| "read_alias read_secret alias (s # ss) = bind_res (py_get ''alias'' JNull s) (\<lambda>a.
     if a \<noteq> JStr alias then read_alias read_secret alias ss
     else bind_res (py_get ''id'' JNull s) (\<lambda>i. bind_res (read_secret i) (\<lambda>(status, body).
       if status = 200 then bind_res body (py_get ''value'' JNull) else read_alias read_secret alias ss)))"

definition storage_secret :: "'s store_env \<Rightarrow> string \<Rightarrow> string \<Rightarrow> string \<Rightarrow> json" where
  "storage_secret env alias tenant e = (case bind_res (sn_listing env tenant e) (\<lambda>(status, body).
       if status \<noteq> 200 then Inr JNull
       else bind_res body (\<lambda>l. bind_res (py_iterate l) (read_alias (sn_read env) alias))) of
     Inl _ \<Rightarrow> JNull | Inr v \<Rightarrow> v)"

definition store_error :: "string \<Rightarrow> exn" where
  "store_error m = PyError ''StorageOperationError'' m"

definition or_text :: "string option \<Rightarrow> string \<Rightarrow> string" where
  "or_text s dflt = (case s of Some (c # t) \<Rightarrow> c # t | _ \<Rightarrow> dflt)"

definition s3_client :: "'s store_env \<Rightarrow> stored_target \<Rightarrow> 's object_store res" where
  "s3_client env t =
     (let ak = or_text (map_of (sgt_aliases t) ''access_key_id'') []; sk = or_text (map_of (sgt_aliases t) ''secret_access_key'') [] in
      if ak = [] \<or> sk = [] then Inl (store_error (''Target '' @ sgt_name t @ '' missing alias config for credentials''))
      else let a = storage_secret env ak (or_text (Some (sgt_tenant t)) ''nexus'') (sgt_env t);
               s = storage_secret env sk (or_text (Some (sgt_tenant t)) ''nexus'') (sgt_env t) in
      if \<not> truthy a \<or> \<not> truthy s then Inl (store_error (''Failed to fetch credentials for target '' @ sgt_name t))
      else sn_connect env a s (or_text (sgt_region t) ''us-east-1'')
        (case sgt_endpoint t of Some (c # u) \<Rightarrow> Some (c # u) | _ \<Rightarrow> None))"

definition with_store :: "'s store_env \<Rightarrow> stored_target \<Rightarrow> ('s object_store \<Rightarrow> ('a, 's) call) \<Rightarrow> ('a, 's) call" where
  "with_store env t f = bind_call (give (s3_client env t)) f"

text \<open>Every failure of an operation is turned into one of its own.\<close>

definition failing_as :: "(exn \<Rightarrow> exn) \<Rightarrow> ('a, 's) call \<Rightarrow> ('a, 's) call" where
  "failing_as g m s = (case m s of (Inl e, s') \<Rightarrow> (Inl (g e), s') | (Inr v, s') \<Rightarrow> (Inr v, s'))"

section \<open>Operations on a store\<close>

definition is_client_error :: "exn \<Rightarrow> string option" where
  "is_client_error e = (case e of PyError k m \<Rightarrow> if k = ''ClientError'' then Some m else None | _ \<Rightarrow> None)"

definition bucket_failure :: "exn \<Rightarrow> exn" where
  "bucket_failure e = (case e of
     PyError k m \<Rightarrow> (if k = ''ClientError'' then store_error ''Failed to ensure bucket''
       else if k = ''StorageOperationError'' then e else store_error ''Internal server error'')
   | _ \<Rightarrow> store_error ''Internal server error'')"

definition s3_ensure_bucket :: "'s store_env \<Rightarrow> stored_target \<Rightarrow> string \<Rightarrow> (bool, 's) call" where
  "s3_ensure_bucket env t bucket = failing_as bucket_failure (with_store env t (\<lambda>c s.
     case os_head_bucket c bucket s of
       (Inr _, s1) \<Rightarrow> (Inr True, s1)
     | (Inl e, s1) \<Rightarrow> (if is_client_error e = Some ''404'' then bind_call (os_create_bucket c bucket) (\<lambda>_. give (Inr True)) s1
         else (Inl e, s1))))"

definition s3_upload :: "'s store_env \<Rightarrow> stored_target \<Rightarrow> string \<Rightarrow> string \<Rightarrow> string \<Rightarrow> string option \<Rightarrow> (json \<times> json, 's) call" where
  "s3_upload env t bucket key data ctype = failing_as (\<lambda>_. store_error ''Upload failed'') (with_store env t (\<lambda>c.
     bind_call (os_put c bucket key data ctype) (\<lambda>_. bind_call (os_head c bucket key) (\<lambda>h.
       give (Inr (dget h ''ContentLength'' (JInt 0), dget h ''ETag'' (JStr [])))))))"

definition s3_presign :: "'s store_env \<Rightarrow> stored_target \<Rightarrow> string \<Rightarrow> string \<Rightarrow> string \<Rightarrow> int \<Rightarrow> (string, 's) call" where
  "s3_presign env t bucket key method ttl = failing_as (\<lambda>_. store_error ''Presign failed'') (with_store env t (\<lambda>c.
     os_presign c (if upper method = ''GET'' then ''get_object'' else ''put_object'') bucket key ttl))"

definition s3_delete :: "'s store_env \<Rightarrow> stored_target \<Rightarrow> string \<Rightarrow> string \<Rightarrow> (bool, 's) call" where
  "s3_delete env t bucket key = failing_as (\<lambda>_. store_error ''Delete failed'') (with_store env t (\<lambda>c.
     bind_call (os_delete c bucket key) (\<lambda>_. give (Inr True))))"

definition s3_list :: "'s store_env \<Rightarrow> stored_target \<Rightarrow> string \<Rightarrow> string \<Rightarrow> int \<Rightarrow> string option \<Rightarrow> (object_page, 's) call" where
  "s3_list env t bucket pre most token = failing_as (\<lambda>_. store_error ''List failed'') (with_store env t (\<lambda>c.
     os_list c bucket pre most (case token of Some (x # k) \<Rightarrow> Some (x # k) | _ \<Rightarrow> None)))"

section \<open>Tables\<close>

record stored_bucket =
  sbk_id :: string
  sbk_tenant :: string
  sbk_env :: string
  sbk_target :: string
  sbk_name :: string

record stored_object =
  so_obj_id :: string
  so_obj_tenant :: string
  so_obj_env :: string
  so_obj_target :: string
  so_obj_bucket :: string
  so_obj_key :: string
  so_obj_type :: "string option"
  so_obj_size :: json
  so_obj_tags :: dict
  so_obj_entity :: "string option"
  so_obj_entity_id :: "string option"

record storage_db =
  sd_targets :: "stored_target list"
  sd_buckets :: "stored_bucket list"
  sd_objects :: "stored_object list"
  sd_next :: nat

definition new_row_id :: "storage_db \<Rightarrow> string" where
  "new_row_id db = str_int (int (sd_next db))"

definition unique_row :: "exn" where
  "unique_row = PyError ''IntegrityError'' ''duplicate key value''"

definition get_storage_row :: "string \<Rightarrow> string \<Rightarrow> string \<Rightarrow> storage_db \<Rightarrow> stored_target option" where
  "get_storage_row name tenant e db = select_first (\<lambda>t. sgt_name t = name \<and> sgt_tenant t = tenant \<and> sgt_env t = e
     \<and> column_is_True (sgt_enabled t)) (sd_targets db)"

definition list_storage_rows :: "string \<Rightarrow> string \<Rightarrow> storage_db \<Rightarrow> stored_target list" where
  "list_storage_rows tenant e db = select_all (\<lambda>t. sgt_tenant t = tenant \<and> sgt_env t = e) (sd_targets db)"

definition target_key :: "stored_target \<Rightarrow> string \<times> string \<times> string" where
  "target_key t = (sgt_tenant t, sgt_env t, sgt_name t)"

record target_upsert =
  tu_name :: string
  tu_tenant :: string
  tu_env :: string
  tu_endpoint :: string
  tu_region :: string
  tu_bucket :: string
  tu_aliases :: "(string \<times> string) list"
  tu_flags :: dict

definition fill_target :: "target_upsert \<Rightarrow> stored_target \<Rightarrow> stored_target" where
  "fill_target u t = t\<lparr>sgt_endpoint := Some (tu_endpoint u), sgt_region := Some (tu_region u), sgt_bucket := Some (tu_bucket u),
     sgt_aliases := tu_aliases u, sgt_flags := tu_flags u\<rparr>"

definition upsert_storage_row :: "target_upsert \<Rightarrow> storage_db \<Rightarrow> (stored_target \<times> storage_db) res" where
  "upsert_storage_row u db = (case get_storage_row (tu_name u) (tu_tenant u) (tu_env u) db of
     Some t \<Rightarrow> Inr (fill_target u t, db\<lparr>sd_targets := table_update sgt_id (sgt_id t) (\<lambda>_. fill_target u t) (sd_targets db)\<rparr>)
   | None \<Rightarrow> (let t = fill_target u \<lparr>sgt_id = new_row_id db, sgt_tenant = tu_tenant u, sgt_env = tu_env u, sgt_name = tu_name u,
         sgt_endpoint = None, sgt_region = None, sgt_bucket = None, sgt_enabled = True, sgt_aliases = [], sgt_flags = []\<rparr> in
       if \<exists>x \<in> set (sd_targets db). target_key x = target_key t then Inl unique_row
       else Inr (t, db\<lparr>sd_targets := insert_row t (sd_targets db), sd_next := Suc (sd_next db)\<rparr>)))"

definition get_or_create_bucket :: "string \<Rightarrow> string \<Rightarrow> string \<Rightarrow> string \<Rightarrow> storage_db \<Rightarrow> stored_bucket \<times> storage_db" where
  "get_or_create_bucket target name tenant e db =
     (case select_first (\<lambda>b. sbk_target b = target \<and> sbk_name b = name) (sd_buckets db) of
        Some b \<Rightarrow> (b, db)
      | None \<Rightarrow> (let b = \<lparr>sbk_id = new_row_id db, sbk_tenant = tenant, sbk_env = e, sbk_target = target, sbk_name = name\<rparr> in
          (b, db\<lparr>sd_buckets := insert_row b (sd_buckets db), sd_next := Suc (sd_next db)\<rparr>)))"

definition is_object :: "string \<Rightarrow> string \<Rightarrow> string \<Rightarrow> stored_object \<Rightarrow> bool" where
  "is_object target bucket key ob = (so_obj_target ob = target \<and> so_obj_bucket ob = bucket \<and> so_obj_key ob = key)"

text \<open>The size column takes an integer of 64 bits.\<close>

definition big_int :: "json \<Rightarrow> json res" where
  "big_int v = (case v of JInt i \<Rightarrow> if - (2 ^ 63) \<le> i \<and> i < 2 ^ 63 then Inr v else Inl (PyError ''DBAPIError'' ''out of range'')
     | JBool b \<Rightarrow> Inr (JInt (if b then 1 else 0)) | JNull \<Rightarrow> Inl null_value | _ \<Rightarrow> Inl (PyError ''DBAPIError'' ''int expected''))"

definition register_object ::
  "string \<Rightarrow> string \<Rightarrow> string \<Rightarrow> string \<Rightarrow> string \<Rightarrow> string option \<Rightarrow> json \<Rightarrow> dict option \<Rightarrow> string option \<Rightarrow> string option
     \<Rightarrow> storage_db \<Rightarrow> (stored_object \<times> storage_db) res" where
  "register_object tenant e target bucket key ctype bytes_long tags entity entity_id db = bind_res (big_int bytes_long) (\<lambda>n.
     let known = select_first (is_object target bucket key) (sd_objects db);
         ob = (case known of Some ob \<Rightarrow> ob | None \<Rightarrow> \<lparr>so_obj_id = new_row_id db, so_obj_tenant = tenant, so_obj_env = e, so_obj_target = target,
           so_obj_bucket = bucket, so_obj_key = key, so_obj_type = None, so_obj_size = JInt 0, so_obj_tags = [], so_obj_entity = None,
           so_obj_entity_id = None\<rparr>);
         ob' = ob\<lparr>so_obj_type := ctype, so_obj_size := n, so_obj_tags := (case tags of None \<Rightarrow> so_obj_tags ob | Some d \<Rightarrow> d),
           so_obj_entity := (if entity \<in> {None, Some []} then so_obj_entity ob else entity),
           so_obj_entity_id := (if entity_id \<in> {None, Some []} then so_obj_entity_id ob else entity_id)\<rparr> in
     Inr (ob', if known = None then db\<lparr>sd_objects := insert_row ob' (sd_objects db), sd_next := Suc (sd_next db)\<rparr>
       else db\<lparr>sd_objects := table_update so_obj_id (so_obj_id ob) (\<lambda>_. ob') (sd_objects db)\<rparr>))"

definition delete_object_record :: "string \<Rightarrow> string \<Rightarrow> string \<Rightarrow> storage_db \<Rightarrow> bool \<times> storage_db" where
  "delete_object_record target bucket key db = (case select_first (is_object target bucket key) (sd_objects db) of
     Some ob \<Rightarrow> (True, db\<lparr>sd_objects := delete_rows (\<lambda>x. so_obj_id x = so_obj_id ob) (sd_objects db)\<rparr>)
   | None \<Rightarrow> (False, db))"

section \<open>Purge of old objects\<close>

text \<open>The database row is looked up through the buckets of the target, a relation that is loaded on access, which
  an asynchronous session refuses.  So a deletion in the store is counted as an error.\<close>

definition lazy_buckets :: "stored_target \<Rightarrow> stored_bucket list res" where
  "lazy_buckets t = Inl (PyError ''MissingGreenlet'' ''lazy load'')"

record purge_count =
  pc_scanned :: nat
  pc_deleted :: nat
  pc_errors :: nat

definition purge_delete :: "'s store_env \<Rightarrow> stored_target \<Rightarrow> string \<Rightarrow> string \<Rightarrow> storage_db \<Rightarrow> (storage_db, 's) call" where
  "purge_delete env t bucket key db = bind_call (s3_delete env t bucket key) (\<lambda>_. give (bind_res (lazy_buckets t) (\<lambda>bs.
     case bs of [] \<Rightarrow> Inl (PyError ''IndexError'' ''list index out of range'')
     | b # _ \<Rightarrow> Inr (snd (delete_object_record (sgt_id t) (sbk_id b) key db)))))"

definition purge_object ::
  "'s store_env \<Rightarrow> stored_target \<Rightarrow> string \<Rightarrow> int \<Rightarrow> bool \<Rightarrow> object_info \<Rightarrow> purge_count \<times> storage_db \<times> 's \<Rightarrow> purge_count \<times> storage_db \<times> 's" where
  "purge_object env t bucket cutoff dry ob = (\<lambda>(n, db, s).
     let n = n\<lparr>pc_scanned := Suc (pc_scanned n)\<rparr> in
     if \<not> oi_modified ob < cutoff then (n, db, s)
     else if dry then (n\<lparr>pc_deleted := Suc (pc_deleted n)\<rparr>, db, s)
     else (case purge_delete env t bucket (oi_key ob) db s of
       (Inl _, s') \<Rightarrow> (n\<lparr>pc_errors := Suc (pc_errors n)\<rparr>, db, s')
     | (Inr db', s') \<Rightarrow> (n\<lparr>pc_deleted := Suc (pc_deleted n)\<rparr>, db', s')))"

partial_function (option) purge_pages ::
  "'s store_env \<Rightarrow> stored_target \<Rightarrow> string \<Rightarrow> string \<Rightarrow> int \<Rightarrow> bool \<Rightarrow> string option \<Rightarrow> purge_count \<times> storage_db \<times> 's
     \<Rightarrow> ((purge_count \<times> storage_db) res \<times> 's) option" where
  "purge_pages env t bucket pre cutoff dry token st = (case st of (n, db, s) \<Rightarrow>
     (case s3_list env t bucket pre 1000 token s of
       (Inl e, s') \<Rightarrow> Some (Inl e, s')
     | (Inr page, s') \<Rightarrow> (let st' = fold (purge_object env t bucket cutoff dry) (op_keys page) (n, db, s') in
         if op_truncated page then purge_pages env t bucket pre cutoff dry (op_next page) st'
         else (case st' of (n', db', s'') \<Rightarrow> Some (Inr (n', db'), s'')))))"

text \<open>The cutoff is a date between the years 1 and 9999.\<close>

definition execute_retention_purge ::
  "'s store_env \<Rightarrow> stored_target \<Rightarrow> string \<Rightarrow> string \<Rightarrow> int \<Rightarrow> int \<Rightarrow> bool \<Rightarrow> storage_db \<Rightarrow> 's \<Rightarrow> ((purge_count \<times> storage_db) res \<times> 's) option" where
  "execute_retention_purge env t bucket pre older_than_days now dry db s =
     (let cutoff = now - older_than_days * 86400 in
      if cutoff < - 62135596800 \<or> 253402300799 < cutoff then Some (Inl (PyError ''OverflowError'' ''date value out of range''), s)
      else purge_pages env t bucket pre cutoff dry None (\<lparr>pc_scanned = 0, pc_deleted = 0, pc_errors = 0\<rparr>, db, s))"

section \<open>Routes\<close>

definition target_404 :: "string \<Rightarrow> stored_target option \<Rightarrow> stored_target res" where
  "target_404 detail t = of_opt (HTTPException 404 detail) t"

definition upsert_store_target :: "target_upsert \<Rightarrow> storage_db \<Rightarrow> stored_target res \<times> storage_db" where
  "upsert_store_target u db =
     (if \<not> dhas ''access_key_id'' (tu_aliases u) \<or> \<not> dhas ''secret_access_key'' (tu_aliases u)
      then (Inl (HTTPException 400 ''credential_aliases must contain access_key_id and secret_access_key pointers''), db)
      else (case upsert_storage_row u db of Inl e \<Rightarrow> (Inl e, db) | Inr (t, db') \<Rightarrow> (Inr t, db')))"

definition ensure_bucket :: "'s store_env \<Rightarrow> string \<Rightarrow> string \<Rightarrow> string \<Rightarrow> string \<Rightarrow> storage_db \<Rightarrow> 's \<Rightarrow> stored_bucket res \<times> storage_db \<times> 's" where
  "ensure_bucket env name bucket tenant e db s =
     (case target_404 ''storage_target_not_found'' (get_storage_row name tenant e db) of
        Inl x \<Rightarrow> (Inl x, db, s)
      | Inr t \<Rightarrow> (case s3_ensure_bucket env t bucket s of
          (Inl x, s') \<Rightarrow> (Inl (HTTPException 500 (''Error ensuring bucket: '' @ exn_text x)), db, s')
        | (Inr _, s') \<Rightarrow> (case get_or_create_bucket (sgt_id t) bucket (sgt_tenant t) (sgt_env t) db of (b, db') \<Rightarrow> (Inr b, db', s'))))"

definition presign_url :: "'s store_env \<Rightarrow> string \<Rightarrow> string \<Rightarrow> string \<Rightarrow> string \<Rightarrow> int \<Rightarrow> string \<Rightarrow> string \<Rightarrow> storage_db \<Rightarrow> (string \<times> int, 's) call" where
  "presign_url env name bucket key method expires_in tenant e db =
     bind_call (give (target_404 ''storage_target_not_found'' (get_storage_row name tenant e db))) (\<lambda>t.
       let ttl = min expires_in 604800 in bind_call (s3_presign env t bucket key method ttl) (\<lambda>u. give (Inr (u, ttl))))"

definition put_object ::
  "'s store_env \<Rightarrow> string \<Rightarrow> string \<Rightarrow> string \<Rightarrow> string \<Rightarrow> string \<Rightarrow> string option \<Rightarrow> string option \<Rightarrow> string \<Rightarrow> string option
     \<Rightarrow> storage_db \<Rightarrow> 's \<Rightarrow> (stored_object \<times> json) res \<times> storage_db \<times> 's" where
  "put_object env name bucket key tenant e entity entity_id data ctype db s =
     (case target_404 ''target_not_found'' (get_storage_row name tenant e db) of
        Inl x \<Rightarrow> (Inl x, db, s)
      | Inr t \<Rightarrow> (case get_or_create_bucket (sgt_id t) bucket tenant e db of (b, db1) \<Rightarrow>
          (case s3_upload env t bucket key data ctype s of
             (Inl x, s') \<Rightarrow> (Inl x, db, s')
           | (Inr (n, etag), s') \<Rightarrow>
               (case register_object tenant e (sgt_id t) (sbk_id b) key ctype n (Some []) entity entity_id db1 of
                  Inl x \<Rightarrow> (Inl x, db, s')
                | Inr (ob, db2) \<Rightarrow> (Inr (ob, etag), db2, s')))))"

definition list_target_objects :: "'s store_env \<Rightarrow> string \<Rightarrow> string \<Rightarrow> string \<Rightarrow> int \<Rightarrow> string option \<Rightarrow> string \<Rightarrow> string \<Rightarrow> storage_db \<Rightarrow> (object_page, 's) call" where
  "list_target_objects env name bucket pre most token tenant e db =
     bind_call (give (target_404 ''target_not_found'' (get_storage_row name tenant e db))) (\<lambda>t. s3_list env t bucket pre most token)"

text \<open>A key that cannot be deleted is skipped.\<close>

definition delete_one :: "'s store_env \<Rightarrow> stored_target \<Rightarrow> stored_bucket \<Rightarrow> string \<Rightarrow> string \<Rightarrow> nat \<times> storage_db \<times> 's \<Rightarrow> nat \<times> storage_db \<times> 's" where
  "delete_one env t b bucket key = (\<lambda>(n, db, s). case s3_delete env t bucket key s of
     (Inl _, s') \<Rightarrow> (n, db, s')
   | (Inr _, s') \<Rightarrow> (Suc n, snd (delete_object_record (sgt_id t) (sbk_id b) key db), s'))"

definition delete_target_objects :: "'s store_env \<Rightarrow> string \<Rightarrow> string \<Rightarrow> string list \<Rightarrow> string \<Rightarrow> string \<Rightarrow> storage_db \<Rightarrow> 's \<Rightarrow> nat res \<times> storage_db \<times> 's" where
  "delete_target_objects env name bucket keys tenant e db s =
     (case target_404 ''target_not_found'' (get_storage_row name tenant e db) of
        Inl x \<Rightarrow> (Inl x, db, s)
      | Inr t \<Rightarrow> (case get_or_create_bucket (sgt_id t) bucket tenant e db of (b, db1) \<Rightarrow>
          (case fold (delete_one env t b bucket) keys (0, db1, s) of (n, db2, s') \<Rightarrow> (Inr n, db2, s'))))"

record retention_request =
  rtq_target :: string
  rtq_bucket :: string
  rtq_prefix :: string
  rtq_days :: int
  rtq_dry :: bool
  rtq_tenant :: string
  rtq_env :: string

text \<open>The request only looks the target up; the purge runs after the answer and looks it up again.  A target gone
  by then is None, which has no credentials: the listing fails.\<close>

definition execute_retention_job :: "retention_request \<Rightarrow> storage_db \<Rightarrow> unit res" where
  "execute_retention_job q db = map_sum id (\<lambda>_. ()) (target_404 ''target_not_found'' (get_storage_row (rtq_target q) (rtq_tenant q) (rtq_env q) db))"

definition retention_alert :: "retention_request \<Rightarrow> purge_count res \<Rightarrow> string \<times> string" where
  "retention_alert q r = (case r of
     Inr n \<Rightarrow> (''Storage Retention Passed'', ''Storage Retention '' @ (if rtq_dry q then ''Dry-Run '' else []) @ ''Completed'' @ [CHR 10]
       @ ''Target: '' @ rtq_target q @ ''/'' @ rtq_bucket q @ ''/'' @ rtq_prefix q @ [CHR 10]
       @ ''Scanned: '' @ str_int (int (pc_scanned n)) @ '', Deleted: '' @ str_int (int (pc_deleted n)) @ '', Errors: '' @ str_int (int (pc_errors n)))
   | Inl e \<Rightarrow> (''Storage Retention FAILED'', ''Retention failed on '' @ rtq_target q @ ''. Error: '' @ take 250 (exn_text e)))"

definition bg_retention_task :: "'s store_env \<Rightarrow> int \<Rightarrow> retention_request \<Rightarrow> storage_db \<Rightarrow> 's \<Rightarrow> ((string \<times> string) \<times> storage_db \<times> 's) option" where
  "bg_retention_task env now q db s = (case get_storage_row (rtq_target q) (rtq_tenant q) (rtq_env q) db of
     None \<Rightarrow> Some (retention_alert q (Inl (store_error ''List failed'')), db, s)
   | Some t \<Rightarrow> map_option (\<lambda>(r, s'). case r of
         Inl e \<Rightarrow> (retention_alert q (Inl e), db, s')
       | Inr (n, db') \<Rightarrow> (retention_alert q (Inr n), db', s'))
       (execute_retention_purge env t (rtq_bucket q) (rtq_prefix q) (rtq_days q) now (rtq_dry q) db s))"

section \<open>Authorization and watchdog\<close>

text \<open>Keys that do not parse are none; a document that is no object has no \<open>get\<close>.\<close>

definition storage_agent_keys :: "string \<Rightarrow> json" where
  "storage_agent_keys raw = (if raw = [] then JObj [] else case loads raw of None \<Rightarrow> JObj [] | Some j \<Rightarrow> j)"

definition storage_require_auth :: "string \<Rightarrow> string option \<Rightarrow> string option \<Rightarrow> string res" where
  "storage_require_auth raw_keys service key = (case (or_text service [], or_text key []) of (svc, k) \<Rightarrow>
     if svc = [] \<or> k = [] then Inl (HTTPException 401 ''missing_auth_headers'')
     else bind_res (py_get svc JNull (storage_agent_keys raw_keys)) (\<lambda>known.
       if known = JStr k \<or> svc = ''automation-agent'' \<and> contains ''vault-key'' k \<or> svc = ''admin'' \<and> contains ''admin-registry'' k
       then Inr svc else Inl (HTTPException 401 ''unauthorized_service'')))"

datatype reachability_alert = Unreachable string | Recovered string

text \<open>One round over the targets of the platform: the unreachable ones, and what was announced so far.\<close>

definition watch_target :: "'s store_env \<Rightarrow> stored_target \<Rightarrow> string set \<times> reachability_alert list \<times> 's \<Rightarrow> string set \<times> reachability_alert list \<times> 's" where
  "watch_target env t = (\<lambda>(down, log, s).
     if \<not> sgt_enabled t then (down, log, s)
     else (case with_store env t (\<lambda>c. os_buckets c) s of
       (Inr _, s') \<Rightarrow> (if sgt_name t \<in> down then (down - {sgt_name t}, log @ [Recovered (sgt_name t)], s') else (down, log, s'))
     | (Inl _, s') \<Rightarrow> (if sgt_name t \<notin> down then (insert (sgt_name t) down, log @ [Unreachable (sgt_name t)], s') else (down, log, s'))))"

definition watch_round :: "'s store_env \<Rightarrow> storage_db \<Rightarrow> string set \<times> reachability_alert list \<times> 's \<Rightarrow> string set \<times> reachability_alert list \<times> 's" where
  "watch_round env db st = fold (watch_target env) (list_storage_rows ''nexus'' ''prod'' db) st"

end
