(* ===== verification/StorageReach.thy ===== *)
theory StorageReach
  imports StorageAgent
begin

text \<open>
  What the storage agent does: nothing with a target as long as targets are looked up the way they are; what a
  purge does to an object store that keeps its contract, page by page; and that the watchdog announces
  changes only.
\<close>

section \<open>The watchdog\<close>

fun alternating :: "bool \<Rightarrow> bool list \<Rightarrow> bool" where
  "alternating b [] = True"
| "alternating b (x # xs) = (x = b \<and> alternating (\<not> b) xs)"

lemma alternating_snoc: "alternating b (xs @ [x]) \<longleftrightarrow> alternating b xs \<and> x = (b = even (length xs))"
  by (induction xs arbitrary: b) auto

definition alerts_about :: "string \<Rightarrow> reachability_alert list \<Rightarrow> bool list" where
  "alerts_about n log = concat (List.map (\<lambda>a. case a of
     Unreachable m \<Rightarrow> if m = n then [True] else [] | Recovered m \<Rightarrow> if m = n then [False] else []) log)"

lemma alerts_about_snoc [simp]:
  "alerts_about n (log @ [Unreachable m]) = alerts_about n log @ (if m = n then [True] else [])"
  "alerts_about n (log @ [Recovered m]) = alerts_about n log @ (if m = n then [False] else [])"
  by (simp_all add: alerts_about_def)

definition watch_ok :: "string set \<times> reachability_alert list \<times> 's \<Rightarrow> bool" where
  "watch_ok st = (case st of (down, log, _) \<Rightarrow> \<forall>n. alternating True (alerts_about n log) \<and> (n \<in> down) = odd (length (alerts_about n log)))"

lemma watch_target_ok: "watch_ok st \<Longrightarrow> watch_ok (watch_target env t st)"
  by (auto simp: watch_ok_def watch_target_def alternating_snoc split: prod.splits sum.splits)

lemma watch_targets_ok: "watch_ok st \<Longrightarrow> watch_ok (fold (watch_target env) ts st)"
  by (induction ts arbitrary: st) (simp_all add: watch_target_ok)

lemma watch_round_ok: "watch_ok st \<Longrightarrow> watch_ok (watch_round env db st)"
  by (simp add: watch_round_def watch_targets_ok)

text \<open>Rounds of one process; between two of them the tables, the vault and the stores change at will.\<close>

inductive watch_reach :: "string set \<times> reachability_alert list \<times> 's \<Rightarrow> bool" where
  wr_start: "watch_reach ({}, [], s)"
| wr_round: "watch_reach (down, log, s) \<Longrightarrow> watch_reach (watch_round env db (down, log, s'))"

lemma watch_reach_ok: "watch_reach st \<Longrightarrow> watch_ok st"
proof (induction rule: watch_reach.induct)
  case (wr_start s)
  show ?case by (simp add: watch_ok_def alerts_about_def)
next
  case (wr_round down log s env db s')
  then show ?case by (intro watch_round_ok) (simp add: watch_ok_def)
qed

section \<open>Purging a store\<close>

text \<open>The contract of a store for one bucket: its objects in the order of their keys, pages of those with the
  prefix behind the place a token marks, and a deletion that removes the object of the key.\<close>

definition listed :: "(string \<Rightarrow> int) \<Rightarrow> (string \<Rightarrow> int) \<Rightarrow> string \<Rightarrow> string option \<Rightarrow> object_info list \<Rightarrow> object_info list" where
  "listed rank mark p tok obs = filter (\<lambda>ob. prefix p (oi_key ob) \<and> (case tok of None \<Rightarrow> True | Some t \<Rightarrow> mark t < rank (oi_key ob))) obs"

definition lawful_store :: "(string \<Rightarrow> int) \<Rightarrow> (string \<Rightarrow> int) \<Rightarrow> ('s \<Rightarrow> object_info list) \<Rightarrow> string \<Rightarrow> 's object_store \<Rightarrow> bool" where
  "lawful_store rank mark obs bucket c =
     ((\<forall>s. sorted_wrt (\<lambda>a b. rank (oi_key a) < rank (oi_key b)) (obs s))
    \<and> (\<forall>p n tok s. 0 < n \<longrightarrow> tok \<noteq> Some [] \<longrightarrow> (\<exists>nx.
         os_list c bucket p n tok s = (Inr \<lparr>op_keys = take (nat n) (listed rank mark p tok (obs s)), op_next = nx,
            op_truncated = (nat n < length (listed rank mark p tok (obs s)))\<rparr>, s)
         \<and> (nat n < length (listed rank mark p tok (obs s)) \<longrightarrow>
              (\<exists>t. nx = Some t \<and> t \<noteq> [] \<and> mark t = rank (oi_key (last (take (nat n) (listed rank mark p tok (obs s)))))))))
    \<and> (\<forall>k s. fst (os_delete c bucket k s) = Inr () \<and> obs (snd (os_delete c bucket k s)) = filter (\<lambda>ob. oi_key ob \<noteq> k) (obs s)))"

lemma lawful_sorted: "lawful_store rank mark obs bucket c \<Longrightarrow> sorted_wrt (\<lambda>a b. rank (oi_key a) < rank (oi_key b)) (obs s)"
  by (simp add: lawful_store_def)

lemma lawful_page:
  assumes "lawful_store rank mark obs bucket c" "0 < n" "tok \<noteq> Some []"
  obtains nx where "os_list c bucket p n tok s = (Inr \<lparr>op_keys = take (nat n) (listed rank mark p tok (obs s)), op_next = nx,
            op_truncated = (nat n < length (listed rank mark p tok (obs s)))\<rparr>, s)"
    "nat n < length (listed rank mark p tok (obs s)) \<Longrightarrow>
       \<exists>t. nx = Some t \<and> t \<noteq> [] \<and> mark t = rank (oi_key (last (take (nat n) (listed rank mark p tok (obs s)))))"
  using assms unfolding lawful_store_def by metis

lemma lawful_delete:
  assumes "lawful_store rank mark obs bucket c"
  obtains s' where "os_delete c bucket k s = (Inr (), s')" "obs s' = filter (\<lambda>ob. oi_key ob \<noteq> k) (obs s)"
proof -
  have "fst (os_delete c bucket k s) = Inr ()" "obs (snd (os_delete c bucket k s)) = filter (\<lambda>ob. oi_key ob \<noteq> k) (obs s)"
    using assms unfolding lawful_store_def by blast+
  then show ?thesis using that[of "snd (os_delete c bucket k s)"] by (simp add: prod_eq_iff)
qed

lemma with_client: "s3_client env t = Inr c \<Longrightarrow> with_store env t f s = f c s"
  by (simp add: with_store_def)

definition outdated :: "int \<Rightarrow> object_info list \<Rightarrow> object_info list" where
  "outdated cutoff obs = filter (\<lambda>ob. oi_modified ob < cutoff) obs"

definition without :: "object_info list \<Rightarrow> object_info list \<Rightarrow> object_info list" where
  "without gone obs = filter (\<lambda>ob. oi_key ob \<notin> oi_key ` set gone) obs"

lemma purge_delete_lawful:
  assumes "s3_client env t = Inr c" "lawful_store rank mark obs bucket c"
  obtains e s' where "purge_delete env t bucket k db s = (Inl e, s')" "obs s' = filter (\<lambda>ob. oi_key ob \<noteq> k) (obs s)"
proof -
  obtain s' where d: "os_delete c bucket k s = (Inr (), s')" "obs s' = filter (\<lambda>ob. oi_key ob \<noteq> k) (obs s)"
    using lawful_delete[OF assms(2)] .
  have "purge_delete env t bucket k db s = (Inl (PyError ''MissingGreenlet'' ''lazy load''), s')"
    by (simp add: purge_delete_def s3_delete_def failing_as_def with_client[OF assms(1)] bind_call_def d lazy_buckets_def)
  then show ?thesis using that d(2) by blast
qed

definition counted :: "bool \<Rightarrow> nat \<Rightarrow> nat \<Rightarrow> purge_count \<Rightarrow> purge_count" where
  "counted dry seen old n = n\<lparr>pc_scanned := pc_scanned n + seen, pc_deleted := pc_deleted n + (if dry then old else 0),
     pc_errors := pc_errors n + (if dry then 0 else old)\<rparr>"

lemma counted_counted: "counted dry a b (counted dry c d n) = counted dry (c + a) (d + b) n"
  by (simp add: counted_def)

lemma purge_fold:
  assumes "s3_client env t = Inr c" "lawful_store rank mark obs bucket c"
  shows "\<exists>s'. fold (purge_object env t bucket cutoff dry) xs (n, db, s) = (counted dry (length xs) (length (outdated cutoff xs)) n, db, s')
    \<and> (if dry then s' = s else obs s' = without (outdated cutoff xs) (obs s))"
proof (induction xs arbitrary: n s)
  case Nil
  show ?case by (simp add: counted_def without_def outdated_def)
next
  case (Cons x xs)
  show ?case
  proof (cases "oi_modified x < cutoff \<and> \<not> dry")
    case True
    obtain e s1 where d: "purge_delete env t bucket (oi_key x) db s = (Inl e, s1)" "obs s1 = filter (\<lambda>ob. oi_key ob \<noteq> oi_key x) (obs s)"
      using purge_delete_lawful[OF assms] .
    have "purge_object env t bucket cutoff dry x (n, db, s) = (counted dry 1 1 n, db, s1)"
      using True by (simp add: purge_object_def Let_def d counted_def)
    moreover have "without (outdated cutoff xs) (obs s1) = without (outdated cutoff (x # xs)) (obs s)"
      using True by (auto simp: without_def outdated_def d(2) intro: filter_cong)
    ultimately show ?thesis
      using Cons[of "counted dry 1 1 n" s1] True by (auto simp: counted_counted outdated_def)
  next
    case False
    then have "purge_object env t bucket cutoff dry x (n, db, s) = (counted dry 1 (length (outdated cutoff [x])) n, db, s)"
      by (auto simp: purge_object_def Let_def counted_def outdated_def)
    then show ?thesis
      using Cons[of "counted dry 1 (length (outdated cutoff [x])) n" s] False
      by (auto simp: counted_counted outdated_def)
  qed
qed

text \<open>Behind the last object of a page come exactly those the page left out.\<close>

abbreviation by_rank :: "(string \<Rightarrow> int) \<Rightarrow> object_info list \<Rightarrow> bool" where
  "by_rank rank obs \<equiv> sorted_wrt (\<lambda>a b. rank (oi_key a) < rank (oi_key b)) obs"

lemma rank_last: "by_rank rank ys \<Longrightarrow> ob \<in> set ys \<Longrightarrow> rank (oi_key ob) \<le> rank (oi_key (last ys))"
  by (induction ys rule: rev_induct) (auto simp: sorted_wrt_append less_imp_le)

lemma sorted_behind:
  assumes "by_rank rank xs" "0 < m" "m < length xs"
  shows "filter (\<lambda>ob. rank (oi_key (last (take m xs))) < rank (oi_key ob)) xs = drop m xs"
proof -
  let ?l = "last (take m xs)"
  have s: "by_rank rank (take m xs @ drop m xs)" using assms(1) by simp
  have l: "?l \<in> set (take m xs)" using assms(2,3) by (intro last_in_set) auto
  have "filter (\<lambda>ob. rank (oi_key ?l) < rank (oi_key ob)) (take m xs) = []"
    using rank_last[OF sorted_wrt_take[OF assms(1)]] by (simp add: filter_empty_conv not_less)
  moreover have "\<forall>ob \<in> set (drop m xs). rank (oi_key ?l) < rank (oi_key ob)"
    using s l unfolding sorted_wrt_append by blast
  then have "filter (\<lambda>ob. rank (oi_key ?l) < rank (oi_key ob)) (drop m xs) = drop m xs"
    by (simp add: filter_id_conv)
  ultimately show ?thesis
    using filter_append[of "\<lambda>ob. rank (oi_key ?l) < rank (oi_key ob)" "take m xs" "drop m xs"] by simp
qed

lemma listed_sorted:
  "by_rank rank obs \<Longrightarrow> by_rank rank (listed rank mark p tok obs)"
  by (simp add: listed_def sorted_wrt_filter)

lemma listed_next:
  assumes "by_rank rank obs" "0 < m" "m < length (listed rank mark p tok obs)"
    and "mark t = rank (oi_key (last (take m (listed rank mark p tok obs))))"
    and "\<And>ob. ob \<in> set gone \<Longrightarrow> rank (oi_key ob) \<le> mark t"
  shows "listed rank mark p (Some t) (without gone obs) = drop m (listed rank mark p tok obs)"
proof -
  let ?L = "listed rank mark p tok obs"
  have "last (take m ?L) \<in> set ?L" using assms(2,3) by (intro in_set_takeD[OF last_in_set]) auto
  then have after: "mark u < mark t" if "tok = Some u" for u using that by (auto simp: assms(4) listed_def)
  have kept: "oi_key ob \<notin> oi_key ` set gone" if "mark t < rank (oi_key ob)" for ob
    using assms(5) that by (metis imageE leD)
  have "listed rank mark p (Some t) (without gone obs) = filter (\<lambda>ob. mark t < rank (oi_key ob)) ?L"
    unfolding listed_def without_def filter_filter
    by (rule filter_cong[OF refl]) (use after kept in \<open>auto split: option.splits dest: less_trans\<close>)
  also have "\<dots> = drop m ?L"
    using sorted_behind[OF listed_sorted[OF assms(1)] assms(2,3)] by (simp add: assms(4))
  finally show ?thesis .
qed

lemma s3_list_page:
  assumes "s3_client env t = Inr c" "tok \<noteq> Some []" "os_list c bucket p 1000 tok s = (Inr page, s')"
  shows "s3_list env t bucket p 1000 tok s = (Inr page, s')"
proof -
  have "(case tok of Some (x # k) \<Rightarrow> Some (x # k) | _ \<Rightarrow> None) = tok" using assms(2) by (auto split: option.splits list.splits)
  then show ?thesis using assms(3) by (simp add: s3_list_def failing_as_def with_client[OF assms(1)])
qed

lemma outdated_append: "outdated cutoff (xs @ ys) = outdated cutoff xs @ outdated cutoff ys"
  by (simp add: outdated_def)

lemma without_without: "without gone (without gone' obs) = without (gone' @ gone) obs"
  by (auto simp: without_def intro: filter_cong)

lemma purge_pages_lawful:
  assumes "s3_client env t = Inr c" "lawful_store rank mark obs bucket c" "tok \<noteq> Some []"
  shows "\<exists>s'. purge_pages env t bucket p cutoff dry tok (n, db, s) =
      Some (Inr (counted dry (length (listed rank mark p tok (obs s))) (length (outdated cutoff (listed rank mark p tok (obs s)))) n, db), s')
    \<and> (if dry then s' = s else obs s' = without (outdated cutoff (listed rank mark p tok (obs s))) (obs s))"
  using assms(3)
proof (induction "length (listed rank mark p tok (obs s))" arbitrary: tok n s rule: less_induct)
  case less
  let ?L = "listed rank mark p tok (obs s)"
  obtain nx where l: "os_list c bucket p 1000 tok s = (Inr \<lparr>op_keys = take 1000 ?L, op_next = nx, op_truncated = (1000 < length ?L)\<rparr>, s)"
    and nx: "1000 < length ?L \<Longrightarrow> \<exists>t. nx = Some t \<and> t \<noteq> [] \<and> mark t = rank (oi_key (last (take 1000 ?L)))"
    using lawful_page[OF assms(2) _ less(2), of 1000 p s] by auto
  note page = s3_list_page[OF assms(1) less(2) l]
  obtain s1 where f: "fold (purge_object env t bucket cutoff dry) (take 1000 ?L) (n, db, s) =
      (counted dry (length (take 1000 ?L)) (length (outdated cutoff (take 1000 ?L))) n, db, s1)"
    and s1: "if dry then s1 = s else obs s1 = without (outdated cutoff (take 1000 ?L)) (obs s)"
    using purge_fold[OF assms(1,2)] by blast
  show ?case
  proof (cases "1000 < length ?L")
    case False
    then have "purge_pages env t bucket p cutoff dry tok (n, db, s) = Some (Inr (counted dry (length ?L) (length (outdated cutoff ?L)) n, db), s1)"
      using f by (subst purge_pages.simps) (simp add: page Let_def)
    then show ?thesis using s1 False by auto
  next
    case True
    then obtain u where u: "nx = Some u" "u \<noteq> []" "mark u = rank (oi_key (last (take 1000 ?L)))" using nx by blast
    let ?n = "counted dry (length (take 1000 ?L)) (length (outdated cutoff (take 1000 ?L))) n"
    have unfold: "purge_pages env t bucket p cutoff dry tok (n, db, s) = purge_pages env t bucket p cutoff dry (Some u) (?n, db, s1)"
      using f True by (subst purge_pages.simps) (simp add: page Let_def u(1))
    have sorted: "by_rank rank (take 1000 ?L)"
      by (intro sorted_wrt_take listed_sorted lawful_sorted[OF assms(2)])
    have le: "rank (oi_key ob) \<le> mark u" if "ob \<in> set (take 1000 ?L)" for ob using rank_last[OF sorted that] u(3) by simp
    have rest: "listed rank mark p (Some u) (obs s1) = drop 1000 ?L"
    proof (cases dry)
      case True
      then show ?thesis
        using listed_next[OF lawful_sorted[OF assms(2)] _ \<open>1000 < length ?L\<close> u(3), of "[]"] s1 by (simp add: without_def)
    next
      case False
      then show ?thesis
        using listed_next[OF lawful_sorted[OF assms(2)] _ True u(3), of "outdated cutoff (take 1000 ?L)"] s1 le by (simp add: outdated_def)
    qed
    have small: "length (drop 1000 ?L) < length ?L" and ne: "Some u \<noteq> Some []" using True u(2) by simp_all
    obtain s' where IH: "purge_pages env t bucket p cutoff dry (Some u) (?n, db, s1) =
        Some (Inr (counted dry (length (drop 1000 ?L)) (length (outdated cutoff (drop 1000 ?L))) ?n, db), s')"
      and s': "if dry then s' = s1 else obs s' = without (outdated cutoff (drop 1000 ?L)) (obs s1)"
      using less(1)[of "Some u" s1 ?n, unfolded rest, OF small ne] by blast
    have split: "length (outdated cutoff (take 1000 ?L)) + length (outdated cutoff (drop 1000 ?L)) = length (outdated cutoff ?L)"
      using outdated_append[of cutoff "take 1000 ?L" "drop 1000 ?L"] by simp
    have "without (outdated cutoff (drop 1000 ?L)) (without (outdated cutoff (take 1000 ?L)) (obs s)) = without (outdated cutoff ?L) (obs s)"
      using outdated_append[of cutoff "take 1000 ?L" "drop 1000 ?L"] by (simp add: without_without)
    then have "if dry then s' = s else obs s' = without (outdated cutoff ?L) (obs s)" using s' s1 by (cases dry) simp_all
    moreover have "counted dry (length (drop 1000 ?L)) (length (outdated cutoff (drop 1000 ?L))) ?n = counted dry (length ?L) (length (outdated cutoff ?L)) n"
      using True split by (simp add: counted_counted)
    ultimately show ?thesis using IH unfold by simp
  qed
qed

lemma without_outdated:
  assumes "by_rank rank obs"
  shows "without (outdated cutoff (listed rank mark p None obs)) obs = filter (\<lambda>ob. \<not> (prefix p (oi_key ob) \<and> oi_modified ob < cutoff)) obs"
proof -
  have "distinct (List.map oi_key obs)" using assms by (induction obs) auto
  then have same: "a = b" if "a \<in> set obs" "b \<in> set obs" "oi_key a = oi_key b" for a b
    using that by (auto simp: distinct_map dest: inj_onD)
  show ?thesis unfolding without_def
    by (rule filter_cong[OF refl]) (auto simp: outdated_def listed_def image_iff dest: same)
qed

section \<open>The tables\<close>

definition empty_storage :: storage_db where
  "empty_storage = \<lparr>sd_targets = [], sd_buckets = [], sd_objects = [], sd_next = 0\<rparr>"

inductive storage_reach :: "'s store_env \<Rightarrow> storage_db \<Rightarrow> bool" for env where
  sgt_start: "storage_reach env empty_storage"
| sgt_upsert: "storage_reach env db \<Longrightarrow> upsert_store_target u db = (r, db') \<Longrightarrow> storage_reach env db'"
| sgt_ensure: "storage_reach env db \<Longrightarrow> ensure_bucket env n b tn e db s = (r2, db', s') \<Longrightarrow> storage_reach env db'"
| sgt_put: "storage_reach env db \<Longrightarrow> put_object env n b k tn e y yi d ct db s = (r3, db', s') \<Longrightarrow> storage_reach env db'"
| sgt_delete: "storage_reach env db \<Longrightarrow> delete_target_objects env n b ks tn e db s = (r4, db', s') \<Longrightarrow> storage_reach env db'"
| sgt_purge: "storage_reach env db \<Longrightarrow> bg_retention_task env now q db s = Some (al, db', s') \<Longrightarrow> storage_reach env db'"

lemma no_storage_row [simp]: "get_storage_row n tn e db = None"
  by (simp add: get_storage_row_def select_first_None)

lemma target_404_none [simp]: "target_404 d None = Inl (HTTPException 404 d)"
  by (simp add: target_404_def)

definition storage_ok :: "storage_db \<Rightarrow> bool" where
  "storage_ok db = (sd_buckets db = [] \<and> sd_objects db = [] \<and> distinct (List.map target_key (sd_targets db)))"

lemma taken_key: "(\<exists>x \<in> set rows. key x = k) = (k \<in> key ` set rows)"
  unfolding image_iff by metis

lemma upsert_keeps: "upsert_store_target u db = (r, db') \<Longrightarrow> storage_ok db \<Longrightarrow> storage_ok db'"
  by (auto simp: upsert_store_target_def upsert_storage_row_def storage_ok_def insert_row_def taken_key Let_def split: if_splits)

lemma storage_reach_ok: "storage_reach env db \<Longrightarrow> storage_ok db"
proof (induction rule: storage_reach.induct)
  case sgt_start
  show ?case by (simp add: storage_ok_def empty_storage_def)
next
  case sgt_upsert
  then show ?case using upsert_keeps by blast
qed (auto simp: ensure_bucket_def put_object_def delete_target_objects_def bg_retention_task_def)

section \<open>The properties\<close>

text \<open>A target is looked up with \<open>enabled is True\<close>, which no row satisfies.  So in every state of the agent
  there is no bucket and no object, every request for a target answers 404 and a purge in the background
  reports a failure, without a call of any store; and saving a target again, instead of updating it, fails
  at the constraint on its tenant, environment and name.\<close>

theorem targets_never_found:
  assumes "storage_reach env db"
  shows "sd_buckets db = [] \<and> sd_objects db = [] \<and> distinct (List.map target_key (sd_targets db))
    \<and> ensure_bucket env n b tn e db s = (Inl (HTTPException 404 ''storage_target_not_found''), db, s)
    \<and> presign_url env n b k m ttl tn e db s = (Inl (HTTPException 404 ''storage_target_not_found''), s)
    \<and> put_object env n b k tn e y yi d ct db s = (Inl (HTTPException 404 ''target_not_found''), db, s)
    \<and> list_target_objects env n b pre most tok tn e db s = (Inl (HTTPException 404 ''target_not_found''), s)
    \<and> delete_target_objects env n b ks tn e db s = (Inl (HTTPException 404 ''target_not_found''), db, s)
    \<and> execute_retention_job q db = Inl (HTTPException 404 ''target_not_found'')
    \<and> (\<exists>body. bg_retention_task env now q db s = Some ((''Storage Retention FAILED'', body), db, s))
    \<and> ((tu_tenant u, tu_env u, tu_name u) \<in> target_key ` set (sd_targets db) \<longrightarrow> (\<exists>x. upsert_store_target u db = (Inl x, db)))"
proof -
  have "\<exists>x. upsert_store_target u db = (Inl x, db)" if "(tu_tenant u, tu_env u, tu_name u) \<in> target_key ` set (sd_targets db)"
  proof -
    have "upsert_storage_row u db = Inl unique_row"
      using that by (simp add: upsert_storage_row_def Let_def taken_key) (simp add: target_key_def fill_target_def)
    then show ?thesis by (simp add: upsert_store_target_def)
  qed
  then show ?thesis using storage_reach_ok[OF assms]
    by (simp add: storage_ok_def ensure_bucket_def presign_url_def put_object_def list_target_objects_def delete_target_objects_def
        execute_retention_job_def bg_retention_task_def retention_alert_def bind_call_def)
qed


text \<open>Over all rounds of the watchdog the announcements about a target alternate, the first one being that it
  is unreachable; and the target is among the unreachable ones exactly when that was the last.\<close>

theorem watchdog_announces_changes:
  assumes "watch_reach (down, log, s)"
  shows "alternating True (alerts_about n log) \<and> (n \<in> down \<longleftrightarrow> alerts_about n log \<noteq> [] \<and> last (alerts_about n log))"
proof -
  have alt: "alternating b xs \<Longrightarrow> xs \<noteq> [] \<Longrightarrow> last xs = (b = odd (length xs))" for b and xs :: "bool list"
    by (induction xs rule: rev_induct) (auto simp: alternating_snoc)
  have "alternating True (alerts_about n log)" "n \<in> down \<longleftrightarrow> odd (length (alerts_about n log))"
    using watch_reach_ok[OF assms] by (simp_all add: watch_ok_def)
  then show ?thesis using alt[of True "alerts_about n log"] by (cases "alerts_about n log = []") auto
qed

section \<open>Witnesses\<close>

text \<open>A store whose state is the list of the numbers of its objects; the keys are as long as the number says.\<close>

definition stock_object :: "nat \<Rightarrow> object_info" where
  "stock_object i = \<lparr>oi_key = replicate (Suc i) CHR ''a'', oi_size = 1, oi_modified = int i\<rparr>"

definition stocked :: "nat list \<Rightarrow> object_info list" where
  "stocked s = List.map stock_object (sort (remdups s))"

definition key_rank :: "string \<Rightarrow> int" where
  "key_rank k = int (length k)"

definition demo_stock :: "nat list object_store" where
  "demo_stock = \<lparr>os_head_bucket = (\<lambda>_. give (Inr ())), os_create_bucket = (\<lambda>_. give (Inr ())), os_put = (\<lambda>_ _ _ _. give (Inr ())),
     os_head = (\<lambda>_ _. give (Inr [])), os_presign = (\<lambda>_ _ _ _. give (Inr [])),
     os_delete = (\<lambda>_ k s. (Inr (), filter (\<lambda>i. oi_key (stock_object i) \<noteq> k) s)),
     os_list = (\<lambda>_ p n tok s. (let l = listed key_rank key_rank p tok (stocked s); page = take (nat n) l in
       (Inr \<lparr>op_keys = page, op_next = (if nat n < length l then Some (oi_key (last page)) else None), op_truncated = (nat n < length l)\<rparr>, s))),
     os_buckets = give (Inr ())\<rparr>"

lemma demo_stock_lawful: "lawful_store key_rank key_rank stocked b demo_stock"
proof -
  have sorted: "by_rank key_rank (stocked s)" for s
    using strict_sorted_iff[of "sort (remdups s)"] by (simp add: stocked_def sorted_wrt_map stock_object_def key_rank_def)
  have deleted: "stocked (filter (\<lambda>i. oi_key (stock_object i) \<noteq> k) s) = filter (\<lambda>ob. oi_key ob \<noteq> k) (stocked s)" for k s
    by (simp add: stocked_def filter_map o_def filter_sort remdups_filter)
  have "oi_key (last (take (nat n) (listed key_rank key_rank p tok (stocked s)))) \<noteq> []"
    if "0 < n" "nat n < length (listed key_rank key_rank p tok (stocked s))" for n p tok s
  proof -
    have "take (nat n) (listed key_rank key_rank p tok (stocked s)) \<noteq> []" using that by auto
    from in_set_takeD[OF last_in_set[OF this]] have "last (take (nat n) (listed key_rank key_rank p tok (stocked s))) \<in> set (stocked s)"
      by (simp add: listed_def)
    then show ?thesis by (auto simp: stocked_def stock_object_def)
  qed
  then show ?thesis
    unfolding lawful_store_def by (intro conjI allI impI sorted) (auto simp: demo_stock_def Let_def deleted)
qed

definition demo_senv :: "nat list store_env" where
  "demo_senv = \<lparr>sn_listing = (\<lambda>_ _. Inr (200, Inr (JList [JObj [(''alias'', JStr ''k''), (''id'', JStr ''1'')]]))),
     sn_read = (\<lambda>_. Inr (200, Inr (JObj [(''value'', JStr ''v'')]))), sn_connect = (\<lambda>_ _ _ _. Inr demo_stock)\<rparr>"

definition demo_upsert :: target_upsert where
  "demo_upsert = \<lparr>tu_name = ''t'', tu_tenant = ''nexus'', tu_env = ''prod'', tu_endpoint = ''http://s'', tu_region = ''r'', tu_bucket = ''b'',
     tu_aliases = [(''access_key_id'', ''k''), (''secret_access_key'', ''k'')], tu_flags = []\<rparr>"

definition demo_saved :: storage_db where
  "demo_saved = snd (upsert_store_target demo_upsert empty_storage)"

lemma demo_saved_reach: "storage_reach env demo_saved"
  unfolding demo_saved_def by (rule sgt_upsert[OF sgt_start surjective_pairing])

theorem targets_never_found_witness:
  "length (sd_targets demo_saved) = 1 \<and> (\<exists>x. upsert_store_target demo_upsert demo_saved = (Inl x, demo_saved))"
proof
  show "length (sd_targets demo_saved) = 1" by code_simp
  have "(tu_tenant demo_upsert, tu_env demo_upsert, tu_name demo_upsert) \<in> target_key ` set (sd_targets demo_saved)" by code_simp
  then show "\<exists>x. upsert_store_target demo_upsert demo_saved = (Inl x, demo_saved)"
    using targets_never_found[OF demo_saved_reach[of demo_senv], where u = demo_upsert] by blast
qed


definition demo_watch :: "nat list store_env \<Rightarrow> string set \<times> reachability_alert list \<times> nat list \<Rightarrow> string set \<times> reachability_alert list \<times> nat list" where
  "demo_watch env st = watch_round env demo_saved st"

theorem watchdog_announces_changes_witness:
  "\<exists>down log s. demo_watch demo_senv (demo_watch (demo_senv\<lparr>sn_connect := \<lambda>_ _ _ _. Inl (PyError ''E'' [])\<rparr>) ({}, [], [])) = (down, log, s)
     \<and> log = [Unreachable ''t'', Recovered ''t''] \<and> ''t'' \<notin> down"
proof -
  let ?bad = "demo_senv\<lparr>sn_connect := \<lambda>_ _ _ _. Inl (PyError ''E'' [])\<rparr>"
  have 1: "demo_watch ?bad ({}, [], []) = ({''t''}, [Unreachable ''t''], [])"
    and 2: "demo_watch demo_senv ({''t''}, [Unreachable ''t''], []) = ({}, [Unreachable ''t'', Recovered ''t''], [])"
    by (simp_all add: demo_watch_def watch_round_def demo_saved_def upsert_store_target_def upsert_storage_row_def demo_upsert_def empty_storage_def Let_def
        fill_target_def insert_row_def s3_client_def or_text_def storage_secret_def demo_senv_def py_iterate_def py_get_def dget_def dhas_def
        list_storage_rows_def select_all_def watch_target_def with_store_def demo_stock_def)
  have "watch_reach (demo_watch demo_senv (demo_watch ?bad ({}, [], [])))"
    unfolding 1 unfolding demo_watch_def by (rule wr_round) (use wr_round[OF wr_start, of ?bad demo_saved "[]"] 1 in \<open>simp add: demo_watch_def\<close>)
  then show ?thesis using watchdog_announces_changes[of "{}" "[Unreachable ''t'', Recovered ''t'']" "[]" "''t''"] by (simp add: 1 2)
qed

end
