(* ===== verification/PbxAgent.thy ===== *)
theory PbxAgent
  imports "Dns"
begin

text \<open>
  The agent for telephone exchanges (\<open>apps/pbx_agent\<close>): who calls it (\<open>auth/identity.py\<close>), its client of the vault
  (\<open>client/secrets.py\<close>), its tables (\<open>models.py\<close>, \<open>store/postgres.py\<close>, \<open>audit/log.py\<close>), the handlers for
  exchanges, jobs, status and audit (\<open>api\<close>) and the worker (\<open>jobs/runner.py\<close>).  The vault takes its state to
  an HTTP answer and its next state; what the network says of a host (SSH, the manager interface AMI) and the
  conversion of a private key are arguments.
\<close>

section \<open>Who calls\<close>

record pbx_caller =
  pc_service :: string
  pc_admin :: bool
  pc_correlation :: string
  pc_read_only :: bool

definition READ_ONLY_SERVICES :: "string list" where
  "READ_ONLY_SERVICES = [''monitoring-agent'']"

definition load_pbx_keys :: "string \<Rightarrow> json" where
  "load_pbx_keys raw = (case loads raw of None \<Rightarrow> JObj [] | Some j \<Rightarrow> j)"

definition pbx_identity :: "string \<Rightarrow> string option \<Rightarrow> string option \<Rightarrow> string option \<Rightarrow> string \<Rightarrow> pbx_caller res" where
  "pbx_identity raw_keys service key correlation new_id =
     (let svc = (case service of None \<Rightarrow> [] | Some s \<Rightarrow> s); k = (case key of None \<Rightarrow> [] | Some s \<Rightarrow> s) in
      if svc = [] \<or> k = [] then Inl (HTTPException 401 ''Missing X-Service-ID or X-Agent-Key'')
      else bind_res (py_get svc JNull (load_pbx_keys raw_keys)) (\<lambda>expected.
        if \<not> truthy expected \<or> expected \<noteq> JStr k then Inl (HTTPException 403 (''Invalid credentials for service '' @ in_quotes svc))
        else Inr \<lparr>pc_service = svc, pc_admin = (svc = ''admin''),
          pc_correlation = (case correlation of None \<Rightarrow> new_id | Some c \<Rightarrow> c), pc_read_only = (svc \<in> set READ_ONLY_SERVICES)\<rparr>))"

section \<open>The client of the vault\<close>

record 'v vault_http =
  vh_create :: "string \<Rightarrow> string \<Rightarrow> string \<Rightarrow> string \<Rightarrow> string \<Rightarrow> (int \<times> json res, 'v) call"
  vh_read :: "string \<Rightarrow> string \<Rightarrow> string \<Rightarrow> string \<Rightarrow> (int \<times> json res, 'v) call"
  vh_rotate :: "json \<Rightarrow> string \<Rightarrow> (int \<times> json res, 'v) call"
  vh_delete :: "json \<Rightarrow> (int \<times> json res, 'v) call"
  vh_refused :: "int \<Rightarrow> exn"

fun exn_class :: "exn \<Rightarrow> string" where
  "exn_class (PyError k m) = k"
| "exn_class (HTTPException n d) = ''HTTPException''"
| "exn_class (SoRValidationError d c) = ''SoRValidationError''"

definition secrets_error :: "string \<Rightarrow> exn" where
  "secrets_error m = PyError ''SecretsError'' m"

definition raise_status :: "'v vault_http \<Rightarrow> int \<Rightarrow> unit res" where
  "raise_status vh status = (if 200 \<le> status \<and> status < 300 then Inr () else Inl (vh_refused vh status))"

definition vault_unreachable :: "exn \<Rightarrow> exn" where
  "vault_unreachable x = secrets_error (''secrets-agent unreachable: '' @ exn_class x)"

definition fetch_secret :: "'v vault_http \<Rightarrow> string \<Rightarrow> string \<Rightarrow> string \<Rightarrow> string \<Rightarrow> (json, 'v) call" where
  "fetch_secret vh alias tenant e reason v = (case vh_read vh alias tenant e reason v of
     (Inl x, v') \<Rightarrow> (Inl (vault_unreachable x), v')
   | (Inr (status, body), v') \<Rightarrow>
       (if status = 404 then Inl (secrets_error (''Secret alias '' @ in_quotes alias @ '' not found in secrets-agent''))
        else if status = 403 then Inl (secrets_error (''pbx-agent not authorized to read alias '' @ in_quotes alias))
        else (case bind_res (raise_status vh status) (\<lambda>_. bind_res body (py_get ''value'' JNull)) of
          Inl x \<Rightarrow> Inl (vault_unreachable x)
        | Inr s \<Rightarrow> if truthy s then Inr s else Inl (secrets_error (''secrets-agent returned empty value for alias '' @ in_quotes alias))), v'))"

definition rotate_existing :: "'v vault_http \<Rightarrow> string \<Rightarrow> string \<Rightarrow> string \<Rightarrow> string \<Rightarrow> (json, 'v) call" where
  "rotate_existing vh alias new_value tenant e v =
     (case bind_call (vh_read vh alias tenant e ''rotate_on_edit'') (\<lambda>(status, body).
         bind_call (give (bind_res (raise_status vh status) (\<lambda>_. bind_res body (py_item ''id'')))) (\<lambda>i.
         bind_call (vh_rotate vh i new_value) (\<lambda>(status2, _). give (map_sum id (\<lambda>_. i) (raise_status vh status2))))) v of
       (Inl x, v') \<Rightarrow> (Inl (secrets_error (''rotate-on-edit failed for '' @ in_quotes alias @ '': '' @ exn_class x @ '': '' @ take 200 (exn_text x))), v')
     | (Inr i, v') \<Rightarrow> (Inr i, v'))"

definition write_failed :: "exn \<Rightarrow> exn" where
  "write_failed x = secrets_error (''secrets-agent write failed: '' @ exn_class x @ '': '' @ take 200 (exn_text x))"

definition store_vault_secret :: "'v vault_http \<Rightarrow> string \<Rightarrow> string \<Rightarrow> string \<Rightarrow> string \<Rightarrow> string \<Rightarrow> (json, 'v) call" where
  "store_vault_secret vh alias secret tenant e description v = (case vh_create vh alias tenant e secret description v of
     (Inl x, v') \<Rightarrow> (Inl (write_failed x), v')
   | (Inr (status, body), v') \<Rightarrow>
       (if status = 409 then rotate_existing vh alias secret tenant e v'
        else if status = 403 then (Inl (secrets_error (''pbx-agent not authorized to write alias '' @ in_quotes alias)), v')
        else (case bind_res (raise_status vh status) (\<lambda>_. bind_res body (py_get ''id'' (JStr ''unknown''))) of
          Inl x \<Rightarrow> (Inl (write_failed x), v') | Inr i \<Rightarrow> (Inr i, v'))))"

definition delete_secret_by_alias :: "'v vault_http \<Rightarrow> string \<Rightarrow> string \<Rightarrow> string \<Rightarrow> 'v \<Rightarrow> bool \<times> 'v" where
  "delete_secret_by_alias vh alias tenant e v = (case vh_read vh alias tenant e ''delete_cleanup'' v of
     (Inl x, v') \<Rightarrow> (False, v')
   | (Inr (status, body), v') \<Rightarrow>
       (if status = 404 then (False, v')
        else (case bind_res (raise_status vh status) (\<lambda>_. bind_res body (py_get ''id'' JNull)) of
          Inl x \<Rightarrow> (False, v')
        | Inr i \<Rightarrow> if \<not> truthy i then (False, v')
            else (case vh_delete vh i v' of (Inl x, v2) \<Rightarrow> (False, v2) | (Inr (status2, _), v2) \<Rightarrow> (status2 \<in> {200, 204}, v2)))))"

section \<open>Tables\<close>

record pbx_row =
  pbt_id :: string
  pbt_tenant :: string
  pbt_env :: string
  pbt_name :: string
  pbt_host :: string
  pbt_ami_port :: int
  pbt_ami_user :: string
  pbt_ami_alias :: string
  pbt_ssh_port :: int
  pbt_ssh_user :: string
  pbt_key_alias :: "string option"
  pbt_pass_alias :: "string option"
  pbt_status :: string
  pbt_meta :: "dict option"

record pbx_job =
  pj_id :: string
  pj_tenant :: string
  pj_env :: string
  pj_target :: "string option"
  pj_action :: string
  pj_status :: string
  pj_attempts :: nat
  pj_correlation :: string

record pbx_result =
  pr_job :: string
  pr_output :: "dict option"
  pr_error :: "string option"

record pbx_event =
  pv_correlation :: string
  pv_service :: string
  pv_tenant :: "string option"
  pv_env :: "string option"
  pv_action :: string
  pv_target :: "string option"
  pv_result :: string
  pv_detail :: "string option"

record pbx_db =
  pd_targets :: "pbx_row list"
  pd_jobs :: "pbx_job list"
  pd_results :: "pbx_result list"
  pd_audit :: "pbx_event list"
  pd_next :: nat

definition fits :: "nat \<Rightarrow> string \<Rightarrow> unit res" where
  "fits n s = (if length s \<le> n then Inr () else Inl (PyError ''DBAPIError'' ''value too long''))"

definition fits_if :: "nat \<Rightarrow> string option \<Rightarrow> unit res" where
  "fits_if n s = (case s of None \<Rightarrow> Inr () | Some t \<Rightarrow> fits n t)"

definition pbx_columns :: "pbx_row \<Rightarrow> unit res" where
  "pbx_columns t = map_sum id (\<lambda>_. ()) (map_res id
     [fits 128 (pbt_tenant t), fits 64 (pbt_env t), fits 255 (pbt_name t), fits 256 (pbt_host t), map_sum id (\<lambda>_. ()) (pg_int (pbt_ami_port t)),
      fits 128 (pbt_ami_user t), fits 255 (pbt_ami_alias t), map_sum id (\<lambda>_. ()) (pg_int (pbt_ssh_port t)), fits 128 (pbt_ssh_user t),
      fits_if 255 (pbt_key_alias t), fits_if 255 (pbt_pass_alias t), fits 32 (pbt_status t)])"

definition new_pbx_id :: "pbx_db \<Rightarrow> string" where
  "new_pbx_id db = str_int (int (pd_next db))"

definition create_pbx_row :: "pbx_row \<Rightarrow> pbx_db \<Rightarrow> (pbx_row \<times> pbx_db) res" where
  "create_pbx_row payload db = (let t = payload\<lparr>pbt_id := new_pbx_id db\<rparr> in bind_res (pbx_columns t) (\<lambda>_.
     Inr (t, db\<lparr>pd_targets := insert_row t (pd_targets db), pd_next := Suc (pd_next db)\<rparr>)))"

definition get_pbx_row :: "string \<Rightarrow> string \<Rightarrow> string \<Rightarrow> pbx_db \<Rightarrow> pbx_row option" where
  "get_pbx_row i tenant e db = select_first (\<lambda>t. pbt_id t = i \<and> pbt_tenant t = tenant \<and> pbt_env t = e) (pd_targets db)"

definition list_pbx_rows :: "string \<Rightarrow> string \<Rightarrow> int \<Rightarrow> pbx_db \<Rightarrow> pbx_row list res" where
  "list_pbx_rows tenant e limit db = page_rows 0 limit (sort_key pbt_name (select_all (\<lambda>t. pbt_tenant t = tenant \<and> pbt_env t = e) (pd_targets db)))"

record pbx_patch =
  pp_name :: "string field_patch"
  pp_host :: "string field_patch"
  pp_ami_port :: "int field_patch"
  pp_ami_user :: "string field_patch"
  pp_ami_alias :: "string field_patch"
  pp_ssh_port :: "int field_patch"
  pp_ssh_user :: "string field_patch"
  pp_key_alias :: "string field_patch"
  pp_pass_alias :: "string field_patch"
  pp_status :: "string field_patch"
  pp_meta :: "dict field_patch"

definition patched_row :: "pbx_patch \<Rightarrow> pbx_row \<Rightarrow> pbx_row res" where
  "patched_row p t =
     bind_res (patch_value (pp_name p) (pbt_name t)) (\<lambda>name. bind_res (patch_value (pp_host p) (pbt_host t)) (\<lambda>host.
     bind_res (patch_value (pp_ami_port p) (pbt_ami_port t)) (\<lambda>port. bind_res (patch_value (pp_ami_user p) (pbt_ami_user t)) (\<lambda>user.
     bind_res (patch_value (pp_ami_alias p) (pbt_ami_alias t)) (\<lambda>alias. bind_res (patch_value (pp_ssh_port p) (pbt_ssh_port t)) (\<lambda>sport.
     bind_res (patch_value (pp_ssh_user p) (pbt_ssh_user t)) (\<lambda>suser. bind_res (patch_value (pp_status p) (pbt_status t)) (\<lambda>status.
       let t' = t\<lparr>pbt_name := name, pbt_host := host, pbt_ami_port := port, pbt_ami_user := user, pbt_ami_alias := alias, pbt_ssh_port := sport,
         pbt_ssh_user := suser, pbt_key_alias := patch_null (pp_key_alias p) (pbt_key_alias t),
         pbt_pass_alias := patch_null (pp_pass_alias p) (pbt_pass_alias t), pbt_status := status, pbt_meta := patch_null (pp_meta p) (pbt_meta t)\<rparr> in
       bind_res (pbx_columns t') (\<lambda>_. Inr t')))))))))"

definition update_pbx_row :: "string \<Rightarrow> string \<Rightarrow> string \<Rightarrow> pbx_patch \<Rightarrow> pbx_db \<Rightarrow> (pbx_row option \<times> pbx_db) res" where
  "update_pbx_row i tenant e p db = (case get_pbx_row i tenant e db of
     None \<Rightarrow> Inr (None, db)
   | Some t \<Rightarrow> bind_res (patched_row p t) (\<lambda>t'. Inr (Some t', db\<lparr>pd_targets := table_update pbt_id i (\<lambda>_. t') (pd_targets db)\<rparr>)))"

text \<open>A failed flush is logged, but the commit after it fails.\<close>

definition write_pbx_audit ::
  "pbx_caller \<Rightarrow> string \<Rightarrow> string \<Rightarrow> string \<Rightarrow> string \<Rightarrow> string \<Rightarrow> string option \<Rightarrow> pbx_db \<Rightarrow> pbx_db res" where
  "write_pbx_audit who action outcome tenant e target detail db =
     (if length (pc_correlation who) > 128 \<or> length (pc_service who) > 128 \<or> length tenant > 128
      then Inl (PyError ''PendingRollbackError'' ''transaction has been rolled back'')
      else Inr (db\<lparr>pd_audit := insert_row \<lparr>pv_correlation = pc_correlation who, pv_service = pc_service who, pv_tenant = Some tenant,
        pv_env = Some e, pv_action = action, pv_target = Some target, pv_result = outcome, pv_detail = detail\<rparr> (pd_audit db)\<rparr>))"

definition writer_only :: "string \<Rightarrow> pbx_caller \<Rightarrow> unit res" where
  "writer_only what who = (if pc_read_only who then Inl (HTTPException 403 (''Read-only service cannot '' @ what)) else Inr ())"

section \<open>Requests\<close>

definition no_longer_than :: "nat \<Rightarrow> string \<Rightarrow> unit res" where
  "no_longer_than n s = (if length s \<le> n then Inr () else Inl (PyError ''ValidationError'' ''string_too_long''))"

definition check_pbx_create :: "pbx_row \<Rightarrow> unit res" where
  "check_pbx_create t = map_sum id (\<lambda>_. ()) (map_res id [no_longer_than 255 (pbt_name t), no_longer_than 256 (pbt_host t), no_longer_than 128 (pbt_ami_user t),
     no_longer_than 255 (pbt_ami_alias t), (case pbt_key_alias t of None \<Rightarrow> Inr () | Some a \<Rightarrow> no_longer_than 255 a),
     (case pbt_pass_alias t of None \<Rightarrow> Inr () | Some a \<Rightarrow> no_longer_than 255 a)])"

text \<open>\<open>line.rstrip()\<close> of every line, blank lines dropped.\<close>

fun unix_lines :: "string \<Rightarrow> string" where
  "unix_lines [] = []"
| "unix_lines [c] = [if c = CHR 13 then CHR 10 else c]"
| "unix_lines (c # d # s) = (if c = CHR 13 \<and> d = CHR 10 then CHR 10 # unix_lines s
     else (if c = CHR 13 then CHR 10 else c) # unix_lines (d # s))"

fun lines_of :: "string \<Rightarrow> string list" where
  "lines_of [] = [[]]"
| "lines_of (c # s) = (if c = CHR 10 then [] # lines_of s else (case lines_of s of l # ls \<Rightarrow> (c # l) # ls | [] \<Rightarrow> [[c]]))"

definition sanitize_pem_key :: "string option \<Rightarrow> string option" where
  "sanitize_pem_key v = (case v of
     Some (c # s) \<Rightarrow> Some (concat (List.map (\<lambda>l. l @ [CHR 10]) (case filter (\<lambda>l. l \<noteq> []) (List.map rstrip (lines_of (unix_lines (c # s)))) of
        [] \<Rightarrow> [[]] | ls \<Rightarrow> ls)))
   | _ \<Rightarrow> v)"

fun dashed :: "bool \<Rightarrow> string \<Rightarrow> string" where
  "dashed in_run [] = []"
| "dashed in_run (c # s) = (if c \<in> set ''abcdefghijklmnopqrstuvwxyz0123456789'' then c # dashed False s
     else if in_run then dashed True s else CHR ''-'' # dashed True s)"

definition slug :: "string \<Rightarrow> string" where
  "slug name = (let d = dropWhile (\<lambda>c. c = CHR ''-'') (dashed False (lower name)) in rev (dropWhile (\<lambda>c. c = CHR ''-'') (rev d)))"

definition make_alias :: "string \<Rightarrow> string \<Rightarrow> string" where
  "make_alias name sfx = ''pbx.'' @ slug name @ ''.'' @ sfx"

section \<open>Registering an exchange\<close>

text \<open>One line of a report: what was checked, whether it passed, and a detail.\<close>

type_synonym pbx_check = "string \<times> bool \<times> string option"

record pbx_register =
  rg_name :: string
  rg_tenant :: string
  rg_env :: string
  rg_host :: string
  rg_ami_port :: int
  rg_ami_user :: string
  rg_ami_secret :: string
  rg_ssh_port :: int
  rg_ssh_user :: string
  rg_key :: "string option"
  rg_password :: "string option"

record registration =
  re_target :: "string option"
  re_name :: string
  re_registered :: bool
  re_checks :: "pbx_check list"
  re_error :: "string option"

record pbx_net =
  pn_ssh_open :: "string \<Rightarrow> int \<Rightarrow> bool"
  pn_snapshot :: "string \<Rightarrow> int \<Rightarrow> string \<Rightarrow> json \<Rightarrow> json \<Rightarrow> (bool \<times> string option) res"
  pn_ami_open :: "string \<Rightarrow> int \<Rightarrow> bool"
  pn_login :: "string \<Rightarrow> int \<Rightarrow> string \<Rightarrow> json \<Rightarrow> bool"
  pn_command :: "string \<Rightarrow> int \<Rightarrow> string \<Rightarrow> json \<Rightarrow> string \<Rightarrow> string res"
  pn_action :: "string \<Rightarrow> int \<Rightarrow> string \<Rightarrow> json \<Rightarrow> string \<Rightarrow> string res"
  pn_sanitize :: "string \<Rightarrow> string res"

definition given_text :: "string option \<Rightarrow> bool" where
  "given_text s = (s \<noteq> None \<and> s \<noteq> Some [])"

definition store_check :: "'v vault_http \<Rightarrow> string \<Rightarrow> string \<Rightarrow> string \<Rightarrow> string \<Rightarrow> string \<Rightarrow> string \<Rightarrow> 'v \<Rightarrow> pbx_check \<times> 'v" where
  "store_check vh label alias secret tenant e description v = (case store_vault_secret vh alias secret tenant e description v of
     (Inl x, v') \<Rightarrow> ((label, False, Some (exn_text x)), v')
   | (Inr _, v') \<Rightarrow> ((label, True, None), v'))"

text \<open>The key is converted inside the same try, which catches only errors of the vault.\<close>

definition store_key_check :: "'v vault_http \<Rightarrow> pbx_net \<Rightarrow> pbx_register \<Rightarrow> string \<Rightarrow> 'v \<Rightarrow> pbx_check list res \<times> 'v" where
  "store_key_check vh net q alias v = (case rg_key q of
     Some (c # k) \<Rightarrow> (case pn_sanitize net (c # k) of
         Inl x \<Rightarrow> (Inl x, v)
       | Inr pem \<Rightarrow> (case store_check vh ''Vault: SSH key stored'' alias pem (rg_tenant q) (rg_env q) (''SSH private key for '' @ rg_name q) v of
           (ch, v') \<Rightarrow> (Inr [ch], v')))
   | _ \<Rightarrow> (Inr [], v))"

definition store_password_check :: "'v vault_http \<Rightarrow> pbx_register \<Rightarrow> string \<Rightarrow> 'v \<Rightarrow> pbx_check list \<times> 'v" where
  "store_password_check vh q alias v = (case rg_password q of
     Some (c # k) \<Rightarrow> (case store_check vh ''Vault: SSH password stored'' alias (c # k) (rg_tenant q) (rg_env q) (''SSH password for '' @ rg_name q) v of
       (ch, v') \<Rightarrow> ([ch], v'))
   | _ \<Rightarrow> ([], v))"

definition registered_row :: "pbx_register \<Rightarrow> pbx_row" where
  "registered_row q = \<lparr>pbt_id = [], pbt_tenant = rg_tenant q, pbt_env = rg_env q, pbt_name = rg_name q, pbt_host = rg_host q,
     pbt_ami_port = rg_ami_port q, pbt_ami_user = rg_ami_user q, pbt_ami_alias = make_alias (rg_name q) ''ami.secret'',
     pbt_ssh_port = rg_ssh_port q, pbt_ssh_user = rg_ssh_user q,
     pbt_key_alias = (if given_text (rg_key q) then Some (make_alias (rg_name q) ''ssh.key'') else None),
     pbt_pass_alias = (if given_text (rg_password q) then Some (make_alias (rg_name q) ''ssh.password'') else None),
     pbt_status = ''active'', pbt_meta = None\<rparr>"

definition insert_registered :: "pbx_caller \<Rightarrow> string \<Rightarrow> pbx_row \<Rightarrow> pbx_db \<Rightarrow> (pbx_row \<times> pbx_db) res" where
  "insert_registered who action payload db = bind_res (create_pbx_row payload db) (\<lambda>(t, db1).
     bind_res (write_pbx_audit who action ''success'' (pbt_tenant t) (pbt_env t) (pbt_id t) None db1) (\<lambda>db2. Inr (t, db2)))"

definition host_port :: "string \<Rightarrow> int \<Rightarrow> string" where
  "host_port host port = host @ '':'' @ str_int port"

definition auth_check :: "string \<Rightarrow> (string option \<Rightarrow> string option) \<Rightarrow> (bool \<times> string option) res \<Rightarrow> pbx_check" where
  "auth_check label detail snap = (case snap of
     Inl x \<Rightarrow> (label, False, Some (take 200 (exn_text x)))
   | Inr (ok, error) \<Rightarrow> if ok then (label, True, None) else (label, False, detail error))"

definition or_default :: "string \<Rightarrow> string option \<Rightarrow> string option" where
  "or_default dflt s = (case s of Some (c # t) \<Rightarrow> Some (c # t) | _ \<Rightarrow> Some dflt)"

definition ssh_checks ::
  "pbx_net \<Rightarrow> (string \<Rightarrow> string option \<Rightarrow> string option) \<Rightarrow> string \<Rightarrow> int \<Rightarrow> string \<Rightarrow> json \<Rightarrow> json \<Rightarrow> pbx_check list" where
  "ssh_checks net detail host port user key password =
     (if \<not> pn_ssh_open net host port then [(''SSH: Port reachable'', False, Some (''Cannot reach '' @ host_port host port))]
      else (''SSH: Port reachable'', True, None)
        # (if truthy key then [auth_check ''SSH: Key authentication'' (detail ''Key rejected'') (pn_snapshot net host port user key JNull)] else [])
        @ (if truthy password then [auth_check ''SSH: Password authentication'' (detail ''Password rejected'') (pn_snapshot net host port user JNull password)]
           else []))"

definition command_check :: "string \<Rightarrow> string res \<Rightarrow> pbx_check" where
  "command_check note out = (case out of
     Inl x \<Rightarrow> (''AMI: Command response'', False, Some (take 150 (exn_text x) @ note))
   | Inr s \<Rightarrow> (''AMI: Command response'', True, Some (take 100 (if s = [] then ''OK'' else s))))"

definition ami_checks :: "pbx_net \<Rightarrow> string \<Rightarrow> string \<Rightarrow> bool \<Rightarrow> string \<Rightarrow> int \<Rightarrow> string \<Rightarrow> json \<Rightarrow> pbx_check list" where
  "ami_checks net label note known host port user secret =
     (if \<not> pn_ami_open net host port then [(''AMI: Port reachable'', False, Some (''Cannot reach '' @ host_port host port))]
      else (''AMI: Port reachable'', True, None)
        # (if \<not> known then []
           else (let ok = pn_login net host port user secret in
             (label, ok, if ok then None else Some ''Authentication failed - check AMI username/secret'')
               # (if ok then [command_check note (pn_command net host port user secret ''core show version'')] else []))))"

definition wan_note :: string where
  "wan_note = '' (login works - command timed out, may be normal over WAN)''"

definition text_or_null :: "string option \<Rightarrow> json" where
  "text_or_null s = (case s of None \<Rightarrow> JNull | Some t \<Rightarrow> JStr t)"

definition register_parsed ::
  "'v vault_http \<Rightarrow> pbx_net \<Rightarrow> pbx_caller \<Rightarrow> pbx_register \<Rightarrow> pbx_db \<Rightarrow> 'v \<Rightarrow> registration res \<times> pbx_db \<times> 'v" where
  "register_parsed vh net who q db v = (case writer_only ''register targets'' who of
     Inl x \<Rightarrow> (Inl x, db, v)
   | Inr _ \<Rightarrow> (let row = registered_row q in
       case store_check vh ''Vault: AMI secret stored'' (pbt_ami_alias row) (rg_ami_secret q) (rg_tenant q) (rg_env q) (''AMI secret for '' @ rg_name q) v of
         ((label, ok, detail), v1) \<Rightarrow>
       if \<not> ok then (Inr \<lparr>re_target = None, re_name = rg_name q, re_registered = False, re_checks = [(label, ok, detail)],
           re_error = Some ''Failed to store AMI secret in vault''\<rparr>, db, v1)
       else (case store_key_check vh net q (make_alias (rg_name q) ''ssh.key'') v1 of
         (Inl x, v2) \<Rightarrow> (Inl x, db, v2)
       | (Inr ks, v2) \<Rightarrow> (case store_password_check vh q (make_alias (rg_name q) ''ssh.password'') v2 of
         (ps, v3) \<Rightarrow> (let checks = (label, ok, detail) # ks @ ps in
           case bind_res (check_pbx_create row) (\<lambda>_. insert_registered who ''register_target'' row db) of
             Inl x \<Rightarrow> (Inr \<lparr>re_target = None, re_name = rg_name q, re_registered = False, re_checks = checks,
                 re_error = Some (''Failed to create target record: '' @ take 200 (exn_text x))\<rparr>, db, v3)
           | Inr (t, db') \<Rightarrow> (Inr \<lparr>re_target = Some (pbt_id t), re_name = rg_name q, re_registered = True,
                 re_checks = checks @ ssh_checks net or_default (rg_host q) (rg_ssh_port q) (rg_ssh_user q) (text_or_null (rg_key q)) (text_or_null (rg_password q))
                   @ ami_checks net ''AMI: Login successful'' wan_note True (rg_host q) (rg_ami_port q) (rg_ami_user q) (JStr (rg_ami_secret q)),
                 re_error = None\<rparr>, db', v3))))))"

text \<open>The request is checked and its key cleaned before the handler runs.\<close>

definition parse_register :: "pbx_register \<Rightarrow> pbx_register res" where
  "parse_register q = bind_res (no_longer_than 255 (rg_name q)) (\<lambda>_. bind_res (no_longer_than 256 (rg_host q)) (\<lambda>_.
     bind_res (no_longer_than 128 (rg_ami_user q)) (\<lambda>_. Inr (q\<lparr>rg_key := sanitize_pem_key (rg_key q)\<rparr>))))"

definition register_and_verify ::
  "'v vault_http \<Rightarrow> pbx_net \<Rightarrow> pbx_caller \<Rightarrow> pbx_register \<Rightarrow> pbx_db \<Rightarrow> 'v \<Rightarrow> registration res \<times> pbx_db \<times> 'v" where
  "register_and_verify vh net who q db v = (case parse_register q of
     Inl x \<Rightarrow> (Inl x, db, v) | Inr p \<Rightarrow> register_parsed vh net who p db v)"

section \<open>Verifying a stored exchange\<close>

definition fetch_check :: "'v vault_http \<Rightarrow> string \<Rightarrow> string \<Rightarrow> string \<Rightarrow> string \<Rightarrow> 'v \<Rightarrow> pbx_check \<times> json \<times> 'v" where
  "fetch_check vh label alias tenant e v = (case fetch_secret vh alias tenant e ''verify'' v of
     (Inl x, v') \<Rightarrow> ((label, False, Some (exn_text x)), JNull, v')
   | (Inr s, v') \<Rightarrow> ((label, True, None), s, v'))"

definition fetch_check_if :: "'v vault_http \<Rightarrow> string \<Rightarrow> string option \<Rightarrow> string \<Rightarrow> string \<Rightarrow> 'v \<Rightarrow> pbx_check list \<times> json \<times> 'v" where
  "fetch_check_if vh label alias tenant e v = (case alias of
     Some (c # a) \<Rightarrow> (case fetch_check vh label (c # a) tenant e v of (ch, s, v') \<Rightarrow> ([ch], s, v'))
   | _ \<Rightarrow> ([], JNull, v))"

definition target_checks ::
  "'v vault_http \<Rightarrow> pbx_net \<Rightarrow> string \<Rightarrow> string \<Rightarrow> pbx_row \<Rightarrow> string \<Rightarrow> string \<Rightarrow> 'v \<Rightarrow> pbx_check list \<times> 'v" where
  "target_checks vh net label note t tenant e v =
     (case fetch_check vh ''Vault: AMI secret readable'' (pbt_ami_alias t) tenant e v of (a, secret, v1) \<Rightarrow>
      case fetch_check_if vh ''Vault: SSH key readable'' (pbt_key_alias t) tenant e v1 of (ks, key, v2) \<Rightarrow>
      case fetch_check_if vh ''Vault: SSH password readable'' (pbt_pass_alias t) tenant e v2 of (ps, password, v3) \<Rightarrow>
        (a # ks @ ps @ ssh_checks net (\<lambda>_ error. error) (pbt_host t) (pbt_ssh_port t) (pbt_ssh_user t) key password
           @ ami_checks net label note (truthy secret) (pbt_host t) (pbt_ami_port t) (pbt_ami_user t) secret, v3))"

definition target_found :: "pbx_row option \<Rightarrow> pbx_row res" where
  "target_found t = of_opt (HTTPException 404 ''Target not found'') t"

definition verify_target :: "'v vault_http \<Rightarrow> pbx_net \<Rightarrow> string \<Rightarrow> string \<Rightarrow> string \<Rightarrow> pbx_db \<Rightarrow> (registration, 'v) call" where
  "verify_target vh net i tenant e db v = (case target_found (get_pbx_row i tenant e db) of
     Inl x \<Rightarrow> (Inl x, v)
   | Inr t \<Rightarrow> (case target_checks vh net ''AMI: Login successful'' wan_note t tenant e v of (cs, v') \<Rightarrow>
       (Inr \<lparr>re_target = Some (pbt_id t), re_name = pbt_name t, re_registered = True, re_checks = cs, re_error = None\<rparr>, v')))"

text \<open>The same as a stream of server-sent events, with other words for two of the checks.\<close>

definition check_event :: "pbx_check \<Rightarrow> string" where
  "check_event ch = (case ch of (label, ok, detail) \<Rightarrow> ''event: check'' @ [CHR 10] @ ''data: ''
     @ dumps (JObj [(''check'', JStr label), (''passed'', JBool ok), (''detail'', text_or_null detail)]) @ [CHR 10, CHR 10])"

definition verify_target_stream :: "'v vault_http \<Rightarrow> pbx_net \<Rightarrow> string \<Rightarrow> string \<Rightarrow> string \<Rightarrow> pbx_db \<Rightarrow> (string list, 'v) call" where
  "verify_target_stream vh net i tenant e db v = (case target_found (get_pbx_row i tenant e db) of
     Inl x \<Rightarrow> (Inl x, v)
   | Inr t \<Rightarrow> (case target_checks vh net ''AMI: Login'' '' (login works - may be normal over WAN)'' t tenant e v of (cs, v') \<Rightarrow>
       (Inr (List.map check_event cs @ [''event: done'' @ [CHR 10] @ ''data: ''
          @ dumps (JObj [(''target_name'', JStr (pbt_name t)), (''target_id'', JStr (pbt_id t))]) @ [CHR 10, CHR 10]]), v')))"

section \<open>The other handlers of exchanges\<close>

definition create_pbx :: "pbx_caller \<Rightarrow> pbx_row \<Rightarrow> pbx_db \<Rightarrow> pbx_row res \<times> pbx_db" where
  "create_pbx who payload db = (case bind_res (check_pbx_create payload) (\<lambda>_. bind_res (writer_only ''create targets'' who) (\<lambda>_.
       insert_registered who ''create_target'' payload db)) of
     Inl x \<Rightarrow> (Inl x, db) | Inr (t, db') \<Rightarrow> (Inr t, db'))"

definition list_pbx :: "string \<Rightarrow> string \<Rightarrow> int \<Rightarrow> pbx_db \<Rightarrow> pbx_row list res" where
  "list_pbx tenant e limit db = (if limit > 500 then Inl (HTTPException 422 ''limit'') else list_pbx_rows tenant e limit db)"

definition get_pbx :: "string \<Rightarrow> string \<Rightarrow> string \<Rightarrow> pbx_db \<Rightarrow> pbx_row res" where
  "get_pbx i tenant e db = target_found (get_pbx_row i tenant e db)"

definition patch_and_audit :: "pbx_caller \<Rightarrow> string \<Rightarrow> string \<Rightarrow> string \<Rightarrow> string \<Rightarrow> pbx_patch \<Rightarrow> pbx_db \<Rightarrow> (pbx_row \<times> pbx_db) res" where
  "patch_and_audit who action i tenant e p db = bind_res (update_pbx_row i tenant e p db) (\<lambda>(t, db1). bind_res (target_found t) (\<lambda>t.
     bind_res (write_pbx_audit who action ''success'' tenant e i None db1) (\<lambda>db2. Inr (t, db2))))"

definition update_pbx :: "pbx_caller \<Rightarrow> string \<Rightarrow> string \<Rightarrow> string \<Rightarrow> pbx_patch \<Rightarrow> pbx_db \<Rightarrow> pbx_row res \<times> pbx_db" where
  "update_pbx who i tenant e p db = (case bind_res (writer_only ''update targets'' who) (\<lambda>_. patch_and_audit who ''update_target'' i tenant e p db) of
     Inl x \<Rightarrow> (Inl x, db) | Inr (t, db') \<Rightarrow> (Inr t, db'))"

record pbx_edit =
  ed_name :: "string option"
  ed_host :: "string option"
  ed_ami_port :: "int option"
  ed_ami_user :: "string option"
  ed_ami_secret :: "string option"
  ed_ssh_port :: "int option"
  ed_ssh_user :: "string option"
  ed_key :: "string option"
  ed_password :: "string option"

text \<open>A credential that is given is stored under the alias of the (new) name; when that fails the edit goes on
  without it.  The answer is the alias to save.\<close>

definition edit_credential ::
  "'v vault_http \<Rightarrow> (string \<Rightarrow> string res) \<Rightarrow> string option \<Rightarrow> string \<Rightarrow> string \<Rightarrow> string \<Rightarrow> string \<Rightarrow> (string option, 'v) call" where
  "edit_credential vh convert given alias tenant e description v = (case given of
     Some (c # s) \<Rightarrow> (case convert (c # s) of
         Inl x \<Rightarrow> (Inl x, v)
       | Inr secret \<Rightarrow> (case store_vault_secret vh alias secret tenant e description v of
           (Inl x, v') \<Rightarrow> (Inr None, v') | (Inr _, v') \<Rightarrow> (Inr (Some alias), v')))
   | _ \<Rightarrow> (Inr None, v))"

definition edit_patch :: "pbx_edit \<Rightarrow> string option \<Rightarrow> string option \<Rightarrow> string option \<Rightarrow> pbx_patch" where
  "edit_patch q ami key password = \<lparr>pp_name = map_option Some (ed_name q), pp_host = map_option Some (ed_host q), pp_ami_port = map_option Some (ed_ami_port q),
     pp_ami_user = map_option Some (ed_ami_user q), pp_ami_alias = map_option Some ami, pp_ssh_port = map_option Some (ed_ssh_port q),
     pp_ssh_user = map_option Some (ed_ssh_user q), pp_key_alias = map_option Some key, pp_pass_alias = map_option Some password,
     pp_status = None, pp_meta = None\<rparr>"

definition nothing_to_edit :: "pbx_patch \<Rightarrow> bool" where
  "nothing_to_edit p = (pp_name p = None \<and> pp_host p = None \<and> pp_ami_port p = None \<and> pp_ami_user p = None \<and> pp_ami_alias p = None
     \<and> pp_ssh_port p = None \<and> pp_ssh_user p = None \<and> pp_key_alias p = None \<and> pp_pass_alias p = None)"

definition edit_pbx ::
  "'v vault_http \<Rightarrow> pbx_net \<Rightarrow> pbx_caller \<Rightarrow> string \<Rightarrow> string \<Rightarrow> string \<Rightarrow> pbx_edit \<Rightarrow> pbx_db \<Rightarrow> 'v \<Rightarrow> pbx_row res \<times> pbx_db \<times> 'v" where
  "edit_pbx vh net who i tenant e q db v =
     (case bind_res (writer_only ''edit targets'' who) (\<lambda>_. target_found (get_pbx_row i tenant e db)) of
        Inl x \<Rightarrow> (Inl x, db, v)
      | Inr t \<Rightarrow> (let name = (case ed_name q of Some (c # n) \<Rightarrow> c # n | _ \<Rightarrow> pbt_name t) in
          case bind_call (edit_credential vh Inr (ed_ami_secret q) (make_alias name ''ami.secret'') tenant e (''AMI secret for '' @ name)) (\<lambda>ami.
               bind_call (edit_credential vh (pn_sanitize net) (sanitize_pem_key (ed_key q)) (make_alias name ''ssh.key'') tenant e (''SSH key for '' @ name)) (\<lambda>key.
               bind_call (edit_credential vh Inr (ed_password q) (make_alias name ''ssh.password'') tenant e (''SSH password for '' @ name)) (\<lambda>password.
                 give (Inr (edit_patch q ami key password))))) v of
            (Inl x, v') \<Rightarrow> (Inl x, db, v')
          | (Inr p, v') \<Rightarrow> if nothing_to_edit p then (Inr t, db, v')
              else (case patch_and_audit who ''edit_target'' i tenant e p db of
                Inl x \<Rightarrow> (Inl x, db, v') | Inr (t', db') \<Rightarrow> (Inr t', db', v'))))"

definition delete_one_secret :: "'v vault_http \<Rightarrow> pbx_row \<Rightarrow> string \<Rightarrow> nat \<times> 'v \<Rightarrow> nat \<times> 'v" where
  "delete_one_secret vh t alias = (\<lambda>(n, v). case delete_secret_by_alias vh alias (pbt_tenant t) (pbt_env t) v of
     (ok, v') \<Rightarrow> (if ok then Suc n else n, v'))"

definition aliases_of :: "pbx_row \<Rightarrow> string list" where
  "aliases_of t = filter (\<lambda>a. a \<noteq> []) (pbt_ami_alias t # List.map the (filter (\<lambda>a. a \<noteq> None) [pbt_key_alias t, pbt_pass_alias t]))"

text \<open>The jobs of a deleted exchange stay, without it.\<close>

definition drop_pbx_row :: "string \<Rightarrow> pbx_db \<Rightarrow> pbx_db" where
  "drop_pbx_row i db = db\<lparr>pd_targets := delete_rows (\<lambda>t. pbt_id t = i) (pd_targets db),
     pd_jobs := update_rows (\<lambda>j. pj_target j = Some i) (\<lambda>j. j\<lparr>pj_target := None\<rparr>) (pd_jobs db)\<rparr>"

definition delete_pbx :: "'v vault_http \<Rightarrow> pbx_caller \<Rightarrow> string \<Rightarrow> pbx_db \<Rightarrow> 'v \<Rightarrow> unit res \<times> pbx_db \<times> 'v" where
  "delete_pbx vh who i db v =
     (case bind_res (writer_only ''delete targets'' who) (\<lambda>_. target_found (table_look pbt_id (pd_targets db) i)) of
        Inl x \<Rightarrow> (Inl x, db, v)
      | Inr t \<Rightarrow> (case fold (delete_one_secret vh t) (aliases_of t) (0, v) of (n, v') \<Rightarrow>
          (case write_pbx_audit who ''delete_target'' ''success'' (pbt_tenant t) (pbt_env t) i
              (Some (''Cleaned up '' @ str_int (int n) @ ''/'' @ str_int (int (length (aliases_of t))) @ '' secrets'')) (drop_pbx_row i db) of
            Inl x \<Rightarrow> (Inl x, db, v') | Inr db' \<Rightarrow> (Inr (), db', v'))))"

section \<open>Jobs\<close>

record pbx_job_create =
  pq_tenant :: string
  pq_env :: string
  pq_target :: string
  pq_action :: string
  pq_correlation :: "string option"

definition ALLOWED_ACTIONS :: "string list" where
  "ALLOWED_ACTIONS = [''reload'']"

definition create_job_row :: "pbx_job_create \<Rightarrow> string \<Rightarrow> pbx_db \<Rightarrow> (pbx_job \<times> pbx_db) res" where
  "create_job_row q new_id db = (let j = \<lparr>pj_id = new_pbx_id db, pj_tenant = pq_tenant q, pj_env = pq_env q, pj_target = Some (pq_target q),
       pj_action = pq_action q, pj_status = ''pending'', pj_attempts = 0,
       pj_correlation = (case pq_correlation q of Some (c # s) \<Rightarrow> c # s | _ \<Rightarrow> new_id)\<rparr> in
     bind_res (fits 128 (pj_correlation j)) (\<lambda>_. Inr (j, db\<lparr>pd_jobs := insert_row j (pd_jobs db), pd_next := Suc (pd_next db)\<rparr>)))"

definition create_pbx_job :: "pbx_caller \<Rightarrow> pbx_job_create \<Rightarrow> string \<Rightarrow> pbx_db \<Rightarrow> pbx_job res \<times> pbx_db" where
  "create_pbx_job who q new_id db = (case bind_res (writer_only ''create jobs'' who) (\<lambda>_.
       if pq_action q \<notin> set ALLOWED_ACTIONS then Inl (HTTPException 400 (''Action '' @ in_quotes (pq_action q) @ '' not supported. Allowed: ['' @ in_quotes ''reload'' @ '']''))
       else bind_res (target_found (get_pbx_row (pq_target q) (pq_tenant q) (pq_env q) db)) (\<lambda>t.
         bind_res (create_job_row q new_id db) (\<lambda>(j, db1).
         bind_res (write_pbx_audit who (''job.'' @ pq_action q) ''queued'' (pq_tenant q) (pq_env q) (pbt_id t) None db1) (\<lambda>db2. Inr (j, db2))))) of
     Inl x \<Rightarrow> (Inl x, db) | Inr (j, db') \<Rightarrow> (Inr j, db'))"

definition get_pbx_job :: "string \<Rightarrow> string \<Rightarrow> pbx_db \<Rightarrow> (pbx_job \<times> pbx_result option) res" where
  "get_pbx_job i tenant db = bind_res (of_opt (HTTPException 404 ''Job not found'')
       (select_first (\<lambda>j. pj_id j = i \<and> pj_tenant j = tenant) (pd_jobs db)))
     (\<lambda>j. Inr (j, table_look pr_job (pd_results db) i))"

definition list_pbx_audit :: "pbx_caller \<Rightarrow> string \<Rightarrow> string option \<Rightarrow> int \<Rightarrow> pbx_db \<Rightarrow> pbx_event list res" where
  "list_pbx_audit who tenant e limit db =
     (if limit > 1000 then Inl (HTTPException 422 ''limit'')
      else if \<not> pc_admin who \<and> pc_service who \<noteq> ''nexus'' then Inl (HTTPException 403 ''Admin access required'')
      else page_rows 0 limit (rev (select_all (\<lambda>a. pv_tenant a = Some tenant \<and> (e \<in> {None, Some []} \<or> pv_env a = e)) (pd_audit db))))"

section \<open>The worker\<close>

definition run_pbx_action :: "'v vault_http \<Rightarrow> pbx_net \<Rightarrow> pbx_job \<Rightarrow> pbx_db \<Rightarrow> (string \<times> string, 'v) call" where
  "run_pbx_action vh net j db v =
     (case (case pj_target j of None \<Rightarrow> None | Some i \<Rightarrow> table_look pbt_id (pd_targets db) i) of
        None \<Rightarrow> (Inl (PyError ''ValueError'' (''Target '' @ in_quotes (case pj_target j of None \<Rightarrow> ''None'' | Some i \<Rightarrow> i) @ '' missing from DB'')), v)
      | Some t \<Rightarrow> bind_call (fetch_secret vh (pbt_ami_alias t) (pj_tenant j) (pj_env j) (''job.'' @ pj_action j)) (\<lambda>secret.
          give (if pj_action j = ''reload'' then map_sum id (\<lambda>out. (pbt_id t, out)) (pn_action net (pbt_host t) (pbt_ami_port t) (pbt_ami_user t) secret ''Reload'')
            else Inl (PyError ''NotImplementedError'' (''Action '' @ in_quotes (pj_action j) @ '' not implemented in runner'')))) v)"

definition known_failures :: "string list" where
  "known_failures = [''ValueError'', ''NotImplementedError'', ''SecretsError'', ''AmiError'', ''AmiAuthError'', ''AmiTimeoutError'']"

definition failure_reason :: "exn \<Rightarrow> string" where
  "failure_reason x = (if exn_class x \<in> set known_failures then exn_text x else ''System error: '' @ exn_text x)"

definition finish_pbx_job :: "pbx_job \<Rightarrow> string \<Rightarrow> pbx_result \<Rightarrow> string option \<Rightarrow> string \<Rightarrow> string option \<Rightarrow> pbx_db \<Rightarrow> pbx_db" where
  "finish_pbx_job j status r target outcome detail db = db\<lparr>pd_results := insert_row r (pd_results db),
     pd_jobs := table_update pj_id (pj_id j) (\<lambda>x. x\<lparr>pj_status := status\<rparr>) (pd_jobs db),
     pd_audit := insert_row \<lparr>pv_correlation = pj_correlation j, pv_service = ''pbx-agent-runner'', pv_tenant = Some (pj_tenant j), pv_env = Some (pj_env j),
       pv_action = ''job.'' @ pj_action j, pv_target = target, pv_result = outcome, pv_detail = detail\<rparr> (pd_audit db)\<rparr>"

definition process_pbx_job :: "'v vault_http \<Rightarrow> pbx_net \<Rightarrow> pbx_job \<Rightarrow> pbx_db \<Rightarrow> 'v \<Rightarrow> pbx_db \<times> 'v" where
  "process_pbx_job vh net j db v = (case run_pbx_action vh net j db v of
     (Inr (t, out), v') \<Rightarrow> (finish_pbx_job j ''succeeded''
        \<lparr>pr_job = pj_id j, pr_output = Some [(''action'', JStr (pj_action j)), (''output'', JStr out)], pr_error = None\<rparr> (Some t) ''success'' None db, v')
   | (Inl x, v') \<Rightarrow> (finish_pbx_job j ''failed'' \<lparr>pr_job = pj_id j, pr_output = None, pr_error = Some (failure_reason x)\<rparr>
        (pj_target j) ''error'' (Some (failure_reason x)) db, v'))"

text \<open>The oldest pending job is marked and committed before it is executed.\<close>

definition mark_pbx_running :: "pbx_job \<Rightarrow> pbx_db \<Rightarrow> pbx_db" where
  "mark_pbx_running j db = db\<lparr>pd_jobs := table_update pj_id (pj_id j) (\<lambda>x. x\<lparr>pj_status := ''running'', pj_attempts := Suc (pj_attempts x)\<rparr>) (pd_jobs db)\<rparr>"

definition next_pbx_job :: "pbx_db \<Rightarrow> pbx_job option" where
  "next_pbx_job db = select_first (\<lambda>j. pj_status j = ''pending'') (pd_jobs db)"

definition poll_jobs :: "'v vault_http \<Rightarrow> pbx_net \<Rightarrow> pbx_db \<Rightarrow> 'v \<Rightarrow> pbx_db \<times> 'v" where
  "poll_jobs vh net db v = (case next_pbx_job db of
     None \<Rightarrow> (db, v)
   | Some j \<Rightarrow> process_pbx_job vh net j (mark_pbx_running j db) v)"

section \<open>Status\<close>

text \<open>Each status route reads the credential and runs one query over the manager interface.\<close>

definition status_request ::
  "'v vault_http \<Rightarrow> (string \<Rightarrow> int \<Rightarrow> string \<Rightarrow> json \<Rightarrow> 'a res) \<Rightarrow> string \<Rightarrow> string \<Rightarrow> string \<Rightarrow> string \<Rightarrow> pbx_db \<Rightarrow> ('a, 'v) call" where
  "status_request vh query reason i tenant e db v = (case get_pbx_row i tenant e db of
     None \<Rightarrow> (Inl (HTTPException 404 (''Target '' @ in_quotes i @ '' not found'')), v)
   | Some t \<Rightarrow> (case fetch_secret vh (pbt_ami_alias t) tenant e reason v of
       (Inl x, v') \<Rightarrow> (Inl (HTTPException 502 (exn_text x)), v')
     | (Inr secret, v') \<Rightarrow> (case query (pbt_host t) (pbt_ami_port t) (pbt_ami_user t) secret of
         Inl x \<Rightarrow> (Inl (if exn_class x \<in> {''AmiError'', ''AmiAuthError'', ''AmiTimeoutError''} then HTTPException 502 (exn_text x) else x), v')
       | Inr r \<Rightarrow> (Inr r, v'))))"

definition status_channels :: "pbx_net \<Rightarrow> string \<Rightarrow> int \<Rightarrow> string \<Rightarrow> json \<Rightarrow> (nat \<times> string list \<times> string) res" where
  "status_channels net host port user secret = bind_res (pn_command net host port user secret ''core show channels concise'') (\<lambda>raw.
     let ls = filter (\<lambda>l. CHR ''!'' \<in> set l) (lines_of raw) in Inr (length ls, take 20 ls, take 500 raw))"

end
