(* ===== verification/PbxReach.thy ===== *)
theory PbxReach
  imports PbxAgent
begin

text \<open>
  What the agent for exchanges keeps true: how far a job gets, which credentials an exchange reads back after it
  was registered, and that exchanges whose names have the same letters and digits share them in the vault.
\<close>


section \<open>Jobs\<close>

definition counted_ids :: "nat \<Rightarrow> string set \<Rightarrow> bool" where
  "counted_ids n ids = (\<forall>i \<in> ids. \<exists>k < n. i = str_int (int k))"

lemma str_int_same [simp]: "str_int a = str_int b \<longleftrightarrow> a = b"
  by (metis option.inject py_int_str_int)

lemma counted_new: "counted_ids n ids \<Longrightarrow> str_int (int n) \<notin> ids"
  by (auto simp: counted_ids_def)

lemma counted_more: "counted_ids n ids \<Longrightarrow> counted_ids (Suc n) ids"
  unfolding counted_ids_def using less_SucI by blast

lemma counted_insert: "counted_ids n ids \<Longrightarrow> counted_ids (Suc n) (insert (str_int (int n)) ids)"
  using counted_more[of n ids] by (auto simp: counted_ids_def)

lemma counted_mono: "counted_ids n ids \<Longrightarrow> ids' \<subseteq> ids \<Longrightarrow> counted_ids n ids'"
  by (auto simp: counted_ids_def)

definition job_stage :: "pbx_job \<Rightarrow> pbx_result option \<Rightarrow> bool" where
  "job_stage j r = (case r of
     None \<Rightarrow> pj_status j = ''pending'' \<and> pj_attempts j = 0 \<or> pj_status j = ''running'' \<and> pj_attempts j = 1
   | Some x \<Rightarrow> pj_attempts j = 1 \<and> (pj_status j = ''succeeded'' \<and> pr_output x \<noteq> None \<and> pr_error x = None
       \<or> pj_status j = ''failed'' \<and> pr_output x = None \<and> pr_error x \<noteq> None))"

definition pbx_ok :: "pbx_db \<Rightarrow> bool" where
  "pbx_ok db = (distinct (List.map pbt_id (pd_targets db)) \<and> distinct (List.map pj_id (pd_jobs db)) \<and> distinct (List.map pr_job (pd_results db))
     \<and> counted_ids (pd_next db) (pbt_id ` set (pd_targets db)) \<and> counted_ids (pd_next db) (pj_id ` set (pd_jobs db))
     \<and> pr_job ` set (pd_results db) \<subseteq> pj_id ` set (pd_jobs db)
     \<and> (\<forall>j \<in> set (pd_jobs db). job_stage j (table_look pr_job (pd_results db) (pj_id j))
          \<and> (\<forall>i. pj_target j = Some i \<longrightarrow> i \<in> pbt_id ` set (pd_targets db))))"

lemma pbx_ok_audit [simp]: "pbx_ok (db\<lparr>pd_audit := a\<rparr>) = pbx_ok db"
  by (simp add: pbx_ok_def)

lemma write_pbx_audit_Inr: "write_pbx_audit who ac oc tn e t d db = Inr db' \<Longrightarrow> \<exists>a. db' = db\<lparr>pd_audit := a\<rparr>"
  by (auto simp: write_pbx_audit_def split: if_splits)

lemma create_row_Inr: "create_pbx_row p db = Inr (t, db') \<Longrightarrow> t = p\<lparr>pbt_id := new_pbx_id db\<rparr>
    \<and> db' = db\<lparr>pd_targets := pd_targets db @ [t], pd_next := Suc (pd_next db)\<rparr>"
  by (auto simp: create_pbx_row_def Let_def bind_res_Inr insert_row_def)

lemma insert_registered_Inr:
  assumes "insert_registered who ac p db = Inr (t, db')"
  obtains a where "t = p\<lparr>pbt_id := new_pbx_id db\<rparr>" "db' = db\<lparr>pd_targets := pd_targets db @ [t], pd_next := Suc (pd_next db), pd_audit := a\<rparr>"
proof -
  from assms obtain db1 where c: "create_pbx_row p db = Inr (t, db1)"
      "write_pbx_audit who ac ''success'' (pbt_tenant t) (pbt_env t) (pbt_id t) None db1 = Inr db'"
    by (auto simp: insert_registered_def bind_res_Inr)
  then show ?thesis using create_row_Inr[OF c(1)] write_pbx_audit_Inr[OF c(2)] that by auto
qed

lemma insert_registered_ok:
  assumes "insert_registered who ac p db = Inr (t, db')" "pbx_ok db" shows "pbx_ok db'"
  using assms(1)
proof (rule insert_registered_Inr)
  fix a assume "t = p\<lparr>pbt_id := new_pbx_id db\<rparr>" and db': "db' = db\<lparr>pd_targets := pd_targets db @ [t], pd_next := Suc (pd_next db), pd_audit := a\<rparr>"
  then have t: "pbt_id t = str_int (int (pd_next db))" by (simp add: new_pbx_id_def)
  have "str_int (int (pd_next db)) \<notin> pbt_id ` set (pd_targets db)" using assms(2) by (intro counted_new) (simp add: pbx_ok_def)
  then show ?thesis using assms(2) by (auto simp: pbx_ok_def db' t counted_insert counted_more)
qed

lemma patched_row_id: "patched_row p t = Inr t' \<Longrightarrow> pbt_id t' = pbt_id t"
  by (auto simp: patched_row_def Let_def bind_res_Inr)

lemma patch_and_audit_ok:
  assumes "patch_and_audit who ac i tn e p db = Inr (t, db')" "pbx_ok db"
  shows "pbx_ok db'"
proof -
  from assms(1) obtain t0 t' a where g: "get_pbx_row i tn e db = Some t0" "patched_row p t0 = Inr t'"
    and db': "db' = db\<lparr>pd_targets := table_update pbt_id i (\<lambda>_. t') (pd_targets db), pd_audit := a\<rparr>"
    unfolding patch_and_audit_def bind_res_Inr update_pbx_row_def
    by (auto simp: target_found_def bind_res_Inr split: option.splits dest!: write_pbx_audit_Inr)
  have "pbt_id t0 = i" using g(1) by (auto simp: get_pbx_row_def dest: select_first_Some)
  then have "List.map pbt_id (table_update pbt_id i (\<lambda>_. t') (pd_targets db)) = List.map pbt_id (pd_targets db)"
    using patched_row_id[OF g(2)] by (intro keys_replace) simp
  note same = this arg_cong[OF this, of set, unfolded set_map]
  show ?thesis using assms(2) by (simp add: pbx_ok_def db' same)
qed

lemma job_stage_target [simp]: "job_stage (j\<lparr>pj_target := x\<rparr>) r = job_stage j r"
  by (cases r) (simp_all add: job_stage_def)

lemma drop_pbx_row_ok:
  assumes "pbx_ok db" shows "pbx_ok (drop_pbx_row i db)"
proof -
  have same: "List.map pj_id (update_rows (\<lambda>j. pj_target j = Some i) (\<lambda>j. j\<lparr>pj_target := None\<rparr>) (pd_jobs db)) = List.map pj_id (pd_jobs db)"
    by (rule map_update_rows) simp
  note same = this arg_cong[OF this, of set, unfolded set_map]
  have "job_stage j (table_look pr_job (pd_results db) (pj_id j)) \<and> (\<forall>k. pj_target j = Some k \<longrightarrow> k \<in> pbt_id ` set (filter (\<lambda>t. pbt_id t \<noteq> i) (pd_targets db)))"
    if j: "j \<in> set (update_rows (\<lambda>j. pj_target j = Some i) (\<lambda>j. j\<lparr>pj_target := None\<rparr>) (pd_jobs db))" for j
  proof -
    obtain j0 where j0: "j0 \<in> set (pd_jobs db)" "j = (if pj_target j0 = Some i then j0\<lparr>pj_target := None\<rparr> else j0)"
      using j by (auto simp: set_update_rows)
    have st: "job_stage j0 (table_look pr_job (pd_results db) (pj_id j0))" and tg: "\<And>k. pj_target j0 = Some k \<Longrightarrow> k \<in> pbt_id ` set (pd_targets db)"
      using assms j0(1) by (simp_all add: pbx_ok_def)
    show ?thesis
    proof (cases "pj_target j0 = Some i")
      case True
      then show ?thesis using st by (simp add: j0(2))
    next
      case False
      then show ?thesis using st tg by (auto simp: j0(2))
    qed
  qed
  moreover have "counted_ids (pd_next db) (pbt_id ` set (filter (\<lambda>t. pbt_id t \<noteq> i) (pd_targets db)))"
    by (rule counted_mono[of _ "pbt_id ` set (pd_targets db)"]) (use assms in \<open>auto simp: pbx_ok_def\<close>)
  ultimately show ?thesis using assms
    by (simp add: pbx_ok_def drop_pbx_row_def delete_rows_def same distinct_map_filter)
qed

lemma new_job_ok:
  assumes "create_job_row q n db = Inr (j, db')" "pbx_ok db" "pq_target q \<in> pbt_id ` set (pd_targets db)"
  shows "pbx_ok db'"
proof -
  from assms(1) have j: "pj_id j = str_int (int (pd_next db))" "pj_status j = ''pending''" "pj_attempts j = 0" "pj_target j = Some (pq_target q)"
    and db': "db' = db\<lparr>pd_jobs := pd_jobs db @ [j], pd_next := Suc (pd_next db)\<rparr>"
    by (auto simp: create_job_row_def Let_def bind_res_Inr insert_row_def new_pbx_id_def)
  have new: "str_int (int (pd_next db)) \<notin> pj_id ` set (pd_jobs db)" using assms(2) by (intro counted_new) (simp add: pbx_ok_def)
  then have "str_int (int (pd_next db)) \<notin> pr_job ` set (pd_results db)" using assms(2) by (auto simp: pbx_ok_def)
  then have "table_look pr_job (pd_results db) (pj_id j) = None" by (simp add: look_none j)
  then have "job_stage j (table_look pr_job (pd_results db) (pj_id j))" using j by (simp add: job_stage_def)
  with assms(2,3) new j show ?thesis by (auto simp: pbx_ok_def db' counted_insert counted_more)
qed

text \<open>A changed job: the rest of the tables stay, the job itself has to be at a stage.\<close>

lemma changed_job_ok:
  assumes "pbx_ok db" "\<And>x. pj_id (f x) = pj_id x" "\<And>x. pj_target (f x) = pj_target x"
    and "rs = pd_results db \<or> rs = pd_results db @ [r] \<and> pr_job r = i \<and> i \<in> pj_id ` set (pd_jobs db) \<and> table_look pr_job (pd_results db) i = None"
    and "\<And>x. x \<in> set (pd_jobs db) \<Longrightarrow> pj_id x = i \<Longrightarrow> job_stage (f x) (table_look pr_job rs i)"
  shows "pbx_ok (db\<lparr>pd_results := rs, pd_jobs := table_update pj_id i f (pd_jobs db), pd_audit := a\<rparr>)"
proof -
  have same: "List.map pj_id (table_update pj_id i f (pd_jobs db)) = List.map pj_id (pd_jobs db)"
    unfolding table_update_def by (rule map_update_rows) (rule assms(2))
  note same = this arg_cong[OF this, of set, unfolded set_map]
  have other: "table_look pr_job rs k = table_look pr_job (pd_results db) k" if "k \<noteq> i" for k
    using assms(4) that by (auto simp: table_look_def select_first_append split: option.splits)
  have "job_stage x (table_look pr_job rs (pj_id x)) \<and> (\<forall>k. pj_target x = Some k \<longrightarrow> k \<in> pbt_id ` set (pd_targets db))"
    if x: "x \<in> set (table_update pj_id i f (pd_jobs db))" for x
  proof -
    obtain y where y: "y \<in> set (pd_jobs db)" "x = (if pj_id y = i then f y else y)" using x by (auto simp: table_update_def set_update_rows)
    then show ?thesis using assms(1-3,5) other[of "pj_id y"] by (auto simp: pbx_ok_def)
  qed
  moreover have "distinct (List.map pr_job rs) \<and> pr_job ` set rs \<subseteq> pj_id ` set (pd_jobs db)"
  proof (cases "rs = pd_results db")
    case True
    then show ?thesis using assms(1) by (simp add: pbx_ok_def)
  next
    case False
    with assms(4) have "rs = pd_results db @ [r]" "pr_job r = i" "i \<in> pj_id ` set (pd_jobs db)" "pr_job r \<notin> pr_job ` set (pd_results db)"
      by (simp_all add: look_none)
    then show ?thesis using assms(1) by (simp add: pbx_ok_def)
  qed
  ultimately show ?thesis using assms(1) by (simp add: pbx_ok_def same)
qed

lemma next_job:
  assumes "next_pbx_job db = Some j" "pbx_ok db"
  shows "j \<in> set (pd_jobs db)" "pj_status j = ''pending''" "pj_attempts j = 0" "table_look pr_job (pd_results db) (pj_id j) = None"
    "\<And>x. x \<in> set (pd_jobs db) \<Longrightarrow> pj_id x = pj_id j \<Longrightarrow> x = j"
proof -
  show j: "j \<in> set (pd_jobs db)" "pj_status j = ''pending''"
    using assms(1) by (auto simp: next_pbx_job_def dest: select_first_Some)
  have st: "job_stage j (table_look pr_job (pd_results db) (pj_id j))" using assms(2) j(1) by (simp add: pbx_ok_def)
  show n: "table_look pr_job (pd_results db) (pj_id j) = None"
    using st j(2) by (cases "table_look pr_job (pd_results db) (pj_id j)") (auto simp: job_stage_def)
  show "pj_attempts j = 0" using st j(2) by (simp add: job_stage_def n)
  show "x = j" if "x \<in> set (pd_jobs db)" "pj_id x = pj_id j" for x
    using assms(2) j(1) that by (auto simp: pbx_ok_def distinct_map dest: inj_onD)
qed

lemma mark_ok:
  assumes "next_pbx_job db = Some j" "pbx_ok db" shows "pbx_ok (mark_pbx_running j db)"
proof -
  note j = next_job[OF assms]
  have "pbx_ok (db\<lparr>pd_results := pd_results db, pd_jobs := table_update pj_id (pj_id j)
      (\<lambda>x. x\<lparr>pj_status := ''running'', pj_attempts := Suc (pj_attempts x)\<rparr>) (pd_jobs db), pd_audit := pd_audit db\<rparr>)"
    by (rule changed_job_ok[OF assms(2)]) (use j in \<open>auto simp: job_stage_def\<close>)
  then show ?thesis by (simp add: mark_pbx_running_def)
qed

lemma finish_ok:
  assumes "next_pbx_job db = Some j" "pbx_ok db" "pr_job r = pj_id j"
    and "st = ''succeeded'' \<and> pr_output r \<noteq> None \<and> pr_error r = None \<or> st = ''failed'' \<and> pr_output r = None \<and> pr_error r \<noteq> None"
  shows "pbx_ok (finish_pbx_job j st r tg oc dt (mark_pbx_running j db))"
proof -
  note j = next_job[OF assms(1,2)]
  let ?db = "mark_pbx_running j db"
  have jobs: "pd_jobs ?db = table_update pj_id (pj_id j) (\<lambda>x. x\<lparr>pj_status := ''running'', pj_attempts := Suc (pj_attempts x)\<rparr>) (pd_jobs db)"
    and res: "pd_results ?db = pd_results db" by (simp_all add: mark_pbx_running_def)
  have "List.map pj_id (pd_jobs ?db) = List.map pj_id (pd_jobs db)"
    unfolding jobs table_update_def by (rule map_update_rows) simp
  from arg_cong[OF this, of set] have ids: "pj_id ` set (pd_jobs ?db) = pj_id ` set (pd_jobs db)" by simp
  have one: "pj_attempts x = 1" if "x \<in> set (pd_jobs ?db)" "pj_id x = pj_id j" for x
  proof -
    from that(1) obtain y where y: "y \<in> set (pd_jobs db)"
        "x = (if pj_id y = pj_id j then y\<lparr>pj_status := ''running'', pj_attempts := Suc (pj_attempts y)\<rparr> else y)"
      unfolding jobs table_update_def set_update_rows by blast
    with that(2) have "pj_id y = pj_id j" by (simp split: if_splits)
    with j(5)[OF y(1)] y(2) j(3) show ?thesis by simp
  qed
  have look: "table_look pr_job (pd_results ?db @ [r]) (pj_id j) = Some r"
    using j(4) assms(3) by (simp add: res table_look_def select_first_append)
  have "pbx_ok (?db\<lparr>pd_results := pd_results ?db @ [r], pd_jobs := table_update pj_id (pj_id j) (\<lambda>x. x\<lparr>pj_status := st\<rparr>) (pd_jobs ?db),
      pd_audit := pd_audit (finish_pbx_job j st r tg oc dt ?db)\<rparr>)"
  proof (rule changed_job_ok[OF mark_ok[OF assms(1,2)]])
    show "pd_results ?db @ [r] = pd_results ?db \<or> pd_results ?db @ [r] = pd_results ?db @ [r] \<and> pr_job r = pj_id j
        \<and> pj_id j \<in> pj_id ` set (pd_jobs ?db) \<and> table_look pr_job (pd_results ?db) (pj_id j) = None"
      using j(1,4) assms(3) by (simp add: ids res)
    show "job_stage (x\<lparr>pj_status := st\<rparr>) (table_look pr_job (pd_results ?db @ [r]) (pj_id j))"
      if "x \<in> set (pd_jobs ?db)" "pj_id x = pj_id j" for x
      using one[OF that] assms(4) look by (simp add: job_stage_def)
  qed simp_all
  then show ?thesis by (simp add: finish_pbx_job_def insert_row_def)
qed

lemma poll_ok:
  assumes "poll_jobs vh net db v = (db', v')" "pbx_ok db" shows "pbx_ok db'"
proof (cases "next_pbx_job db")
  case None
  then show ?thesis using assms by (simp add: poll_jobs_def)
next
  case (Some j)
  then have p: "process_pbx_job vh net j (mark_pbx_running j db) v = (db', v')" using assms(1) by (simp add: poll_jobs_def)
  show ?thesis
  proof (cases "run_pbx_action vh net j (mark_pbx_running j db) v")
    case (Pair r v1)
    show ?thesis
    proof (cases r)
      case (Inl x)
      with p Pair have "db' = finish_pbx_job j ''failed'' \<lparr>pr_job = pj_id j, pr_output = None, pr_error = Some (failure_reason x)\<rparr>
          (pj_target j) ''error'' (Some (failure_reason x)) (mark_pbx_running j db)" by (simp add: process_pbx_job_def)
      then show ?thesis using finish_ok[OF Some assms(2)] by simp
    next
      case (Inr y)
      obtain t out where "y = (t, out)" by (cases y)
      with p Pair Inr have "db' = finish_pbx_job j ''succeeded'' \<lparr>pr_job = pj_id j, pr_output = Some [(''action'', JStr (pj_action j)),
          (''output'', JStr out)], pr_error = None\<rparr> (Some t) ''success'' None (mark_pbx_running j db)" by (simp add: process_pbx_job_def)
      then show ?thesis using finish_ok[OF Some assms(2)] by simp
    qed
  qed
qed

text \<open>What one round of the worker leaves alone.\<close>

lemma look_append_other: "pr_job r \<noteq> i \<Longrightarrow> table_look pr_job (rs @ [r]) i = table_look pr_job rs i"
  by (simp add: table_look_def select_first_append split: option.splits)

lemma in_table_update_other: "x \<in> set rs \<Longrightarrow> key x \<noteq> i \<Longrightarrow> x \<in> set (table_update key i f rs)"
  unfolding table_update_def set_update_rows by auto

lemma finish_keeps:
  assumes "x \<in> set (pd_jobs db)" "pj_id x \<noteq> pj_id j" "pr_job r = pj_id j"
  shows "x \<in> set (pd_jobs (finish_pbx_job j st r tg oc dt (mark_pbx_running j db)))
    \<and> table_look pr_job (pd_results (finish_pbx_job j st r tg oc dt (mark_pbx_running j db))) (pj_id x) = table_look pr_job (pd_results db) (pj_id x)
    \<and> pd_targets (finish_pbx_job j st r tg oc dt (mark_pbx_running j db)) = pd_targets db"
  using assms in_table_update_other[OF in_table_update_other[OF assms(1)], of pj_id "pj_id j" pj_id "pj_id j"]
  by (simp add: finish_pbx_job_def mark_pbx_running_def insert_row_def look_append_other)

lemma poll_finishes:
  assumes "poll_jobs vh net db v = (db', v')" "next_pbx_job db = Some j"
  obtains st r tg oc dt where "db' = finish_pbx_job j st r tg oc dt (mark_pbx_running j db)" "pr_job r = pj_id j"
  using assms by (auto simp: poll_jobs_def process_pbx_job_def split: prod.splits sum.splits)

lemma poll_keeps:
  assumes "poll_jobs vh net db v = (db', v')" "pbx_ok db"
  shows "pd_targets db' = pd_targets db \<and> (\<forall>x \<in> set (pd_jobs db). pj_status x \<noteq> ''pending'' \<longrightarrow> x \<in> set (pd_jobs db')
     \<and> table_look pr_job (pd_results db') (pj_id x) = table_look pr_job (pd_results db) (pj_id x))"
proof (cases "next_pbx_job db")
  case None
  then show ?thesis using assms(1) by (simp add: poll_jobs_def)
next
  case (Some j)
  obtain st r tg oc dt where d: "db' = finish_pbx_job j st r tg oc dt (mark_pbx_running j db)" "pr_job r = pj_id j"
    using assms(1) Some by (rule poll_finishes)
  have "pj_id x \<noteq> pj_id j" if "x \<in> set (pd_jobs db)" "pj_status x \<noteq> ''pending''" for x
    using next_job(2,5)[OF Some assms(2)] that by metis
  moreover have "pd_targets db' = pd_targets db" by (simp add: d finish_pbx_job_def mark_pbx_running_def)
  ultimately show ?thesis using finish_keeps[OF _ _ d(2)] d(1) by blast
qed

section \<open>Reachable states\<close>

definition empty_pbx :: pbx_db where
  "empty_pbx = \<lparr>pd_targets = [], pd_jobs = [], pd_results = [], pd_audit = [], pd_next = 0\<rparr>"

text \<open>Requests, the worker, and a worker that dies after it has marked a job; the vault and the network answer
  at will.\<close>

inductive pbx_reach :: "'v vault_http \<Rightarrow> pbx_db \<Rightarrow> bool" for vh where
  px_start: "pbx_reach vh empty_pbx"
| px_create: "pbx_reach vh db \<Longrightarrow> create_pbx who p db = (r, db') \<Longrightarrow> pbx_reach vh db'"
| px_register: "pbx_reach vh db \<Longrightarrow> register_and_verify vh net who q db v = (r2, db', v') \<Longrightarrow> pbx_reach vh db'"
| px_update: "pbx_reach vh db \<Longrightarrow> update_pbx who i tn e pt db = (r, db') \<Longrightarrow> pbx_reach vh db'"
| px_edit: "pbx_reach vh db \<Longrightarrow> edit_pbx vh net who i tn e ed db v = (r, db', v') \<Longrightarrow> pbx_reach vh db'"
| px_delete: "pbx_reach vh db \<Longrightarrow> delete_pbx vh who i db v = (r3, db', v') \<Longrightarrow> pbx_reach vh db'"
| px_job: "pbx_reach vh db \<Longrightarrow> create_pbx_job who jq n db = (r4, db') \<Longrightarrow> pbx_reach vh db'"
| px_poll: "pbx_reach vh db \<Longrightarrow> poll_jobs vh net db v = (db', v') \<Longrightarrow> pbx_reach vh db'"
| px_dies: "pbx_reach vh db \<Longrightarrow> next_pbx_job db = Some j \<Longrightarrow> pbx_reach vh (mark_pbx_running j db)"

lemma register_db:
  assumes "register_and_verify vh net who q db v = (r, db', v')"
  shows "db' = db \<or> (\<exists>p t. insert_registered who ''register_target'' p db = Inr (t, db'))"
proof (cases "parse_register q")
  case (Inl x)
  then show ?thesis using assms by (simp add: register_and_verify_def)
next
  case (Inr p)
  then have "register_parsed vh net who p db v = (r, db', v')" using assms by (simp add: register_and_verify_def)
  then have "db' = db \<or> (\<exists>t. insert_registered who ''register_target'' (registered_row p) db = Inr (t, db'))"
    unfolding register_parsed_def Let_def by (auto simp: bind_res_Inr split: sum.splits prod.splits if_splits)
  then show ?thesis by blast
qed

lemma edit_db: "edit_pbx vh net who i tn e ed db v = (r, db', v') \<Longrightarrow> db' = db \<or> (\<exists>p t. patch_and_audit who ''edit_target'' i tn e p db = Inr (t, db'))"
  unfolding edit_pbx_def Let_def by (auto split: sum.splits prod.splits if_splits)

lemma delete_db: "delete_pbx vh who i db v = (r, db', v') \<Longrightarrow> db' = db \<or> (\<exists>a. db' = (drop_pbx_row i db)\<lparr>pd_audit := a\<rparr>)"
  unfolding delete_pbx_def by (auto split: sum.splits prod.splits dest!: write_pbx_audit_Inr)

lemma get_row_in: "get_pbx_row i tn e db = Some t \<Longrightarrow> t \<in> set (pd_targets db) \<and> pbt_id t = i \<and> pbt_tenant t = tn \<and> pbt_env t = e"
  by (auto simp: get_pbx_row_def dest: select_first_Some)

lemma create_job_db:
  assumes "create_pbx_job who q n db = (r, db')" "pbx_ok db" shows "pbx_ok db'"
proof (cases r)
  case (Inl x)
  then show ?thesis using assms by (auto simp: create_pbx_job_def split: sum.splits)
next
  case (Inr y)
  with assms(1) obtain t db1 where t: "get_pbx_row (pq_target q) (pq_tenant q) (pq_env q) db = Some t" "create_job_row q n db = Inr (y, db1)"
    and a: "\<exists>a. db' = db1\<lparr>pd_audit := a\<rparr>"
    by (auto simp: create_pbx_job_def bind_res_Inr target_found_def of_opt_def split: sum.splits if_splits option.splits dest!: write_pbx_audit_Inr)
  have "pq_target q \<in> pbt_id ` set (pd_targets db)" unfolding image_iff using get_row_in[OF t(1)] by metis
  with new_job_ok[OF t(2) assms(2)] a show ?thesis by auto
qed

lemma pbx_reach_ok: "pbx_reach vh db \<Longrightarrow> pbx_ok db"
proof (induction rule: pbx_reach.induct)
  case px_start
  show ?case by (simp add: pbx_ok_def empty_pbx_def counted_ids_def)
next
  case (px_create db who p r db')
  then show ?case using insert_registered_ok[of who _ p db] by (auto simp: create_pbx_def bind_res_Inr split: sum.splits)
next
  case (px_register db net who q v r2 db' v')
  then show ?case using register_db insert_registered_ok by metis
next
  case (px_update db who i tn e pt r db')
  then show ?case using patch_and_audit_ok[of who _ i tn e pt db] by (auto simp: update_pbx_def bind_res_Inr split: sum.splits)
next
  case (px_edit db net who i tn e ed v r db' v')
  then show ?case using edit_db patch_and_audit_ok by metis
next
  case (px_delete db who i v r3 db' v')
  then show ?case using delete_db drop_pbx_row_ok pbx_ok_audit by metis
next
  case (px_job db who jq n r4 db')
  then show ?case using create_job_db by blast
next
  case (px_poll db net v db' v')
  show ?case by (rule poll_ok[OF px_poll(2) px_poll(3)])
next
  case (px_dies db j)
  then show ?case using mark_ok by blast
qed

section \<open>Credentials in the vault\<close>

text \<open>
  What the vault promises the agent, for a caller its policies let through: \<open>look\<close> is the secret of an alias, a tenant
  and an environment, with its id and whether it is still active.  A deleted secret keeps its alias, so creating
  it again fails on the unique constraint.
\<close>

definition vault_creates :: "'v vault_http \<Rightarrow> ('v \<Rightarrow> string \<times> string \<times> string \<Rightarrow> (json \<times> string \<times> bool) option) \<Rightarrow> bool" where
  "vault_creates vh look = (\<forall>a tn e s d v.
     (look v (a, tn, e) = None \<and> (\<exists>i v'. truthy i \<and> vh_create vh a tn e s d v = (Inr (201, Inr (JObj [(''id'', i)])), v')
        \<and> look v' = (look v)((a, tn, e) \<mapsto> (i, s, True))))
     \<or> (\<exists>i s0 act b v'. look v (a, tn, e) = Some (i, s0, act) \<and> vh_create vh a tn e s d v = (Inr (if act then 409 else 500, b), v')
        \<and> look v' = look v))"

definition vault_reads :: "'v vault_http \<Rightarrow> ('v \<Rightarrow> string \<times> string \<times> string \<Rightarrow> (json \<times> string \<times> bool) option) \<Rightarrow> bool" where
  "vault_reads vh look = (\<forall>a tn e w v.
     (\<exists>i s v'. look v (a, tn, e) = Some (i, s, True) \<and> truthy i
        \<and> vh_read vh a tn e w v = (Inr (200, Inr (JObj [(''id'', i), (''value'', JStr s)])), v') \<and> look v' = look v)
     \<or> (\<exists>b v'. (look v (a, tn, e) = None \<or> (\<exists>i s. look v (a, tn, e) = Some (i, s, False)))
        \<and> vh_read vh a tn e w v = (Inr (404, b), v') \<and> look v' = look v))"

definition vault_changes :: "'v vault_http \<Rightarrow> ('v \<Rightarrow> string \<times> string \<times> string \<Rightarrow> (json \<times> string \<times> bool) option) \<Rightarrow> bool" where
  "vault_changes vh look = (\<forall>k i s0 v. look v k = Some (i, s0, True) \<longrightarrow>
     (\<forall>s. \<exists>b v'. vh_rotate vh i s v = (Inr (200, b), v') \<and> look v' = (look v)(k \<mapsto> (i, s, True)))
     \<and> (\<exists>b v'. vh_delete vh i v = (Inr (204, b), v') \<and> look v' = (look v)(k \<mapsto> (i, s0, False))))"

definition lawful_pbx_vault :: "'v vault_http \<Rightarrow> ('v \<Rightarrow> string \<times> string \<times> string \<Rightarrow> (json \<times> string \<times> bool) option) \<Rightarrow> bool" where
  "lawful_pbx_vault vh look = (vault_creates vh look \<and> vault_reads vh look \<and> vault_changes vh look)"

lemma vault_read_cases:
  assumes "lawful_pbx_vault vh look"
  obtains (active) i s v' where "look v (a, tn, e) = Some (i, s, True)" "truthy i"
      "vh_read vh a tn e w v = (Inr (200, Inr (JObj [(''id'', i), (''value'', JStr s)])), v')" "look v' = look v"
    | (gone) b v' where "\<And>i s. look v (a, tn, e) \<noteq> Some (i, s, True)" "vh_read vh a tn e w v = (Inr (404, b), v')" "look v' = look v"
proof -
  have "(\<exists>i s v'. look v (a, tn, e) = Some (i, s, True) \<and> truthy i
        \<and> vh_read vh a tn e w v = (Inr (200, Inr (JObj [(''id'', i), (''value'', JStr s)])), v') \<and> look v' = look v)
     \<or> (\<exists>b v'. (look v (a, tn, e) = None \<or> (\<exists>i s. look v (a, tn, e) = Some (i, s, False)))
        \<and> vh_read vh a tn e w v = (Inr (404, b), v') \<and> look v' = look v)"
    using assms unfolding lawful_pbx_vault_def vault_reads_def by simp
  then show ?thesis using active gone by fastforce
qed

lemma secret_read:
  assumes "lawful_pbx_vault vh look" "look v (a, tn, e) = Some (i, s, True)"
  shows "\<exists>v'. truthy i \<and> vh_read vh a tn e w v = (Inr (200, Inr (JObj [(''id'', i), (''value'', JStr s)])), v') \<and> look v' = look v"
  by (rule vault_read_cases[OF assms(1), of v a tn e w]) (use assms(2) in auto)

lemma secret_gone:
  assumes "lawful_pbx_vault vh look" "look v (a, tn, e) = None \<or> look v (a, tn, e) = Some (i, s, False)"
  shows "\<exists>b v'. vh_read vh a tn e w v = (Inr (404, b), v') \<and> look v' = look v"
  by (rule vault_read_cases[OF assms(1), of v a tn e w]) (use assms(2) in auto)

lemma fetch_active:
  assumes "lawful_pbx_vault vh look" "look v (a, tn, e) = Some (i, s, True)" "s \<noteq> []"
  shows "fst (fetch_secret vh a tn e w v) = Inr (JStr s)"
proof -
  obtain v' where "vh_read vh a tn e w v = (Inr (200, Inr (JObj [(''id'', i), (''value'', JStr s)])), v')"
    using secret_read[OF assms(1,2)] by blast
  then show ?thesis using assms(3) by (simp add: fetch_secret_def raise_status_def py_get_def dget_def)
qed

definition not_found_error :: "string \<Rightarrow> exn" where
  "not_found_error a = secrets_error (''Secret alias '' @ in_quotes a @ '' not found in secrets-agent'')"

lemma fetch_gone:
  assumes "lawful_pbx_vault vh look" "look v (a, tn, e) = Some (i, s, False)"
  shows "fst (fetch_secret vh a tn e w v) = Inl (not_found_error a)"
proof -
  obtain b v' where "vh_read vh a tn e w v = (Inr (404, b), v')" using secret_gone[OF assms(1) disjI2[OF assms(2)]] by blast
  then show ?thesis by (simp add: fetch_secret_def not_found_error_def)
qed

text \<open>Storing replaces the value under the alias, or, under the alias of a deleted secret, changes nothing.\<close>

lemma store_look:
  assumes "lawful_pbx_vault vh look" "store_vault_secret vh a s tn e d v = (r, v')"
  shows "case r of Inr j \<Rightarrow> look v' = (look v)((a, tn, e) \<mapsto> (j, s, True)) \<and> (\<forall>i s0. look v (a, tn, e) \<noteq> Some (i, s0, False))
    | Inl x \<Rightarrow> look v' = look v \<and> (\<exists>i s0. look v (a, tn, e) = Some (i, s0, False))"
proof -
  from assms(1) consider
      (new) i v1 where "look v (a, tn, e) = None" "vh_create vh a tn e s d v = (Inr (201, Inr (JObj [(''id'', i)])), v1)"
        "look v1 = (look v)((a, tn, e) \<mapsto> (i, s, True))"
    | (old) i s0 act b v1 where "look v (a, tn, e) = Some (i, s0, act)" "vh_create vh a tn e s d v = (Inr (if act then 409 else 500, b), v1)"
        "look v1 = look v"
    unfolding lawful_pbx_vault_def vault_creates_def by blast
  then show ?thesis
  proof cases
    case new
    then show ?thesis using assms(2) by (auto simp: store_vault_secret_def raise_status_def py_get_def dget_def)
  next
    case old
    show ?thesis
    proof (cases act)
      case False
      then show ?thesis using old assms(2) by (auto simp: store_vault_secret_def raise_status_def)
    next
      case True
      then have k: "look v1 (a, tn, e) = Some (i, s0, True)" using old by simp
      obtain v2 where r: "vh_read vh a tn e ''rotate_on_edit'' v1 = (Inr (200, Inr (JObj [(''id'', i), (''value'', JStr s0)])), v2)" "look v2 = look v1"
        using secret_read[OF assms(1) k] by blast
      from k r(2) obtain b v3 where "vh_rotate vh i s v2 = (Inr (200, b), v3)" "look v3 = (look v2)((a, tn, e) \<mapsto> (i, s, True))"
        using assms(1) unfolding lawful_pbx_vault_def vault_changes_def by metis
      then show ?thesis using True old r assms(2)
        by (auto simp: store_vault_secret_def rotate_existing_def raise_status_def py_item_def bind_call_def give_def)
    qed
  qed
qed

lemma delete_look:
  assumes "lawful_pbx_vault vh look" "delete_secret_by_alias vh a tn e v = (ok, v')"
  shows "look v' = (look v)((a, tn, e) := map_option (\<lambda>(i, s, _). (i, s, False)) (look v (a, tn, e)))"
proof (cases "look v (a, tn, e)")
  case None
  obtain b v1 where "vh_read vh a tn e ''delete_cleanup'' v = (Inr (404, b), v1)" "look v1 = look v"
    using secret_gone[OF assms(1) disjI1[OF None]] by blast
  then show ?thesis using assms(2) None by (auto simp: delete_secret_by_alias_def)
next
  case (Some x)
  obtain i s act where x: "x = (i, s, act)" by (cases x)
  show ?thesis
  proof (cases act)
    case False
    with Some x have k: "look v (a, tn, e) = Some (i, s, False)" by simp
    obtain b v1 where "vh_read vh a tn e ''delete_cleanup'' v = (Inr (404, b), v1)" "look v1 = look v"
      using secret_gone[OF assms(1) disjI2[OF k]] by blast
    then show ?thesis using assms(2) k by (auto simp: delete_secret_by_alias_def)
  next
    case True
    with Some x have k: "look v (a, tn, e) = Some (i, s, True)" by simp
    obtain v1 where r: "truthy i" "vh_read vh a tn e ''delete_cleanup'' v = (Inr (200, Inr (JObj [(''id'', i), (''value'', JStr s)])), v1)" "look v1 = look v"
      using secret_read[OF assms(1) k] by blast
    from k r(3) obtain b v2 where "vh_delete vh i v1 = (Inr (204, b), v2)" "look v2 = (look v1)((a, tn, e) \<mapsto> (i, s, False))"
      using assms(1) unfolding lawful_pbx_vault_def vault_changes_def by metis
    then show ?thesis using r k assms(2) by (simp add: delete_secret_by_alias_def raise_status_def py_get_def dget_def)
  qed
qed

text \<open>The aliases of one exchange differ.\<close>

lemma aliases_differ: "make_alias n ''ami.secret'' \<noteq> make_alias n ''ssh.key''" "make_alias n ''ami.secret'' \<noteq> make_alias n ''ssh.password''"
  by (simp_all add: make_alias_def)

lemma store_check_look:
  assumes "lawful_pbx_vault vh look" "store_check vh l a s tn e d v = ((l', ok, m), v')"
  shows "(\<forall>k. k \<noteq> (a, tn, e) \<longrightarrow> look v' k = look v k) \<and> (ok \<longrightarrow> (\<exists>i. look v' (a, tn, e) = Some (i, s, True)) \<and> (\<forall>i s0. look v (a, tn, e) \<noteq> Some (i, s0, False)))
    \<and> (\<not> ok \<longrightarrow> look v' = look v \<and> (\<exists>i s0. look v (a, tn, e) = Some (i, s0, False)))"
proof (cases "store_vault_secret vh a s tn e d v")
  case (Pair r v1)
  from store_look[OF assms(1) Pair] assms(2) Pair show ?thesis
    by (cases r) (auto simp: store_check_def)
qed

lemma store_check_other:
  assumes "lawful_pbx_vault vh look" "store_check vh l a s tn e d v = (ch, v')" "k \<noteq> (a, tn, e)"
  shows "look v' k = look v k"
proof -
  obtain l' ok m where "ch = (l', ok, m)" by (cases ch)
  then show ?thesis using store_check_look[OF assms(1), of l a s tn e d v l' ok m v'] assms(2,3) by blast
qed

lemma store_key_look:
  assumes "lawful_pbx_vault vh look" "store_key_check vh net q a v = (Inr cs, v')" "k \<noteq> (a, rg_tenant q, rg_env q)"
  shows "look v' k = look v k"
proof (cases "given_text (rg_key q)")
  case False
  then show ?thesis using assms(2) by (auto simp: store_key_check_def given_text_def split: option.splits list.splits)
next
  case True
  then obtain c t where "rg_key q = Some (c # t)" by (auto simp: given_text_def neq_Nil_conv)
  then obtain pem ch where "store_check vh ''Vault: SSH key stored'' a pem (rg_tenant q) (rg_env q) (''SSH private key for '' @ rg_name q) v = (ch, v')"
    using assms(2) by (auto simp: store_key_check_def split: sum.splits prod.splits)
  from store_check_other[OF assms(1) this assms(3)] show ?thesis .
qed

lemma store_password_look:
  assumes "lawful_pbx_vault vh look" "store_password_check vh q a v = (cs, v')" "k \<noteq> (a, rg_tenant q, rg_env q)"
  shows "look v' k = look v k"
proof (cases "given_text (rg_password q)")
  case False
  then show ?thesis using assms(2) by (auto simp: store_password_check_def given_text_def split: option.splits list.splits)
next
  case True
  then obtain c t where "rg_password q = Some (c # t)" by (auto simp: given_text_def neq_Nil_conv)
  then obtain ch where "store_check vh ''Vault: SSH password stored'' a (c # t) (rg_tenant q) (rg_env q) (''SSH password for '' @ rg_name q) v = (ch, v')"
    using assms(2) by (auto simp: store_password_check_def split: prod.splits)
  from store_check_other[OF assms(1) this assms(3)] show ?thesis .
qed

lemma parse_register_Inr:
  "parse_register q = Inr p \<Longrightarrow> p = q\<lparr>rg_key := sanitize_pem_key (rg_key q)\<rparr>"
  by (auto simp: parse_register_def bind_res_Inr)

text \<open>A successful registration: the steps it went through.\<close>

lemma registered_steps:
  assumes "register_parsed vh net who q db v = (Inr r, db', v')" "re_registered r"
  obtains l m v1 cs v2 ps t where
    "store_check vh ''Vault: AMI secret stored'' (make_alias (rg_name q) ''ami.secret'') (rg_ami_secret q) (rg_tenant q) (rg_env q)
       (''AMI secret for '' @ rg_name q) v = ((l, True, m), v1)"
    "store_key_check vh net q (make_alias (rg_name q) ''ssh.key'') v1 = (Inr cs, v2)"
    "store_password_check vh q (make_alias (rg_name q) ''ssh.password'') v2 = (ps, v')"
    "insert_registered who ''register_target'' (registered_row q) db = Inr (t, db')" "re_target r = Some (pbt_id t)"
proof -
  obtain l ok m v1 where a: "store_check vh ''Vault: AMI secret stored'' (make_alias (rg_name q) ''ami.secret'') (rg_ami_secret q) (rg_tenant q)
      (rg_env q) (''AMI secret for '' @ rg_name q) v = ((l, ok, m), v1)" by (metis prod_cases3 surj_pair)
  have w: "\<not> pc_read_only who" using assms(1) by (auto simp: register_parsed_def writer_only_def split: if_splits)
  have ok using assms w a by (cases ok) (auto simp: register_parsed_def writer_only_def registered_row_def Let_def)
  obtain ks v2 where k: "store_key_check vh net q (make_alias (rg_name q) ''ssh.key'') v1 = (ks, v2)" by (metis surj_pair)
  obtain cs where cs: "ks = Inr cs" using assms w a k \<open>ok\<close> by (cases ks) (auto simp: register_parsed_def writer_only_def registered_row_def Let_def)
  obtain ps v3 where p: "store_password_check vh q (make_alias (rg_name q) ''ssh.password'') v2 = (ps, v3)" by (metis surj_pair)
  from assms w a k cs p \<open>ok\<close> obtain t where
      "bind_res (check_pbx_create (registered_row q)) (\<lambda>_. insert_registered who ''register_target'' (registered_row q) db) = Inr (t, db')"
      "re_target r = Some (pbt_id t)" "v3 = v'"
    unfolding register_parsed_def Let_def writer_only_def by (auto simp: registered_row_def split: sum.splits prod.splits)
  then show ?thesis using that[of l m v1 cs v2 ps t] a k cs p \<open>ok\<close> by (auto simp: bind_res_Inr)
qed


text \<open>Deleting secrets one after the other.\<close>

lemma delete_one_look:
  assumes "lawful_pbx_vault vh look" "delete_one_secret vh t a (n, v) = (n', v')" "tn = pbt_tenant t" "e = pbt_env t"
  shows "look v' = (look v)((a, tn, e) := map_option (\<lambda>(i, s, _). (i, s, False)) (look v (a, tn, e)))"
proof (cases "delete_secret_by_alias vh a tn e v")
  case (Pair ok v1)
  then show ?thesis using delete_look[OF assms(1) Pair] assms(2-4) by (simp add: delete_one_secret_def)
qed

lemma delete_all_look:
  assumes "lawful_pbx_vault vh look" "fold (delete_one_secret vh t) as (n, v) = (n', v')" "tn = pbt_tenant t" "e = pbt_env t"
    and "look v (a, tn, e) = Some (i, s, act)" "a \<in> set as \<or> \<not> act"
  shows "look v' (a, tn, e) = Some (i, s, False)"
  using assms(2,5,6)
proof (induction as arbitrary: n v act)
  case Nil
  then show ?case by simp
next
  case (Cons b as)
  obtain n1 v1 where d: "delete_one_secret vh t b (n, v) = (n1, v1)" by (metis surj_pair)
  note l = delete_one_look[OF assms(1) d assms(3,4)]
  have f: "fold (delete_one_secret vh t) as (n1, v1) = (n', v')" using Cons.prems(1) d by simp
  show ?case
  proof (cases "b = a")
    case True
    then have "look v1 (a, tn, e) = Some (i, s, False)" using l Cons.prems(2) by simp
    then show ?thesis by (rule Cons.IH[OF f]) simp
  next
    case False
    then have "look v1 (a, tn, e) = Some (i, s, act)" using l Cons.prems(2) by simp
    then show ?thesis by (rule Cons.IH[OF f]) (use Cons.prems(3) False in simp)
  qed
qed


text \<open>C36: Each job of the agent is sent to its exchange at most once, and its stages are kept: in every state the requests
  and the worker can reach, also when a worker dies, a job is waiting and was never tried, or marked as running
  and tried once without a result, or finished after one attempt with exactly one result, an output when it
  succeeded and an error when it failed; and one round of the worker leaves every job alone that was not waiting.\<close>

theorem job_sent_once:
  assumes "pbx_reach vh db"
  shows "(\<forall>j \<in> set (pd_jobs db). job_stage j (table_look pr_job (pd_results db) (pj_id j)))
    \<and> distinct (List.map pj_id (pd_jobs db)) \<and> distinct (List.map pr_job (pd_results db))
    \<and> (\<forall>net v db' v'. poll_jobs vh net db v = (db', v') \<longrightarrow> pd_targets db' = pd_targets db
        \<and> (\<forall>j \<in> set (pd_jobs db). pj_status j \<noteq> ''pending'' \<longrightarrow> j \<in> set (pd_jobs db')
             \<and> table_look pr_job (pd_results db') (pj_id j) = table_look pr_job (pd_results db) (pj_id j)))"
proof (intro conjI allI impI)
  show "\<forall>j \<in> set (pd_jobs db). job_stage j (table_look pr_job (pd_results db) (pj_id j))"
      "distinct (List.map pj_id (pd_jobs db))" "distinct (List.map pr_job (pd_results db))"
    using pbx_reach_ok[OF assms] by (simp_all add: pbx_ok_def)
  fix net v db' v'
  assume "poll_jobs vh net db v = (db', v')"
  note k = poll_keeps[OF this pbx_reach_ok[OF assms]]
  show "pd_targets db' = pd_targets db" by (rule conjunct1[OF k])
  show "\<forall>j \<in> set (pd_jobs db). pj_status j \<noteq> ''pending'' \<longrightarrow> j \<in> set (pd_jobs db')
             \<and> table_look pr_job (pd_results db') (pj_id j) = table_look pr_job (pd_results db) (pj_id j)" by (rule conjunct2[OF k])
qed

section \<open>Examples\<close>

definition demo_secret_id :: "string \<times> string \<times> string \<Rightarrow> json" where
  "demo_secret_id k = (case k of (a, tn, e) \<Rightarrow> JList [JStr a, JStr tn, JStr e])"

definition secret_key :: "json \<Rightarrow> string \<times> string \<times> string" where
  "secret_key i = (case i of JList [JStr a, JStr tn, JStr e] \<Rightarrow> (a, tn, e) | _ \<Rightarrow> ([], [], []))"

definition demo_pbx_vault :: "(string \<times> string \<times> string \<Rightarrow> (string \<times> bool) option) vault_http" where
  "demo_pbx_vault = \<lparr>
     vh_create = (\<lambda>a tn e s d v. case v (a, tn, e) of
        None \<Rightarrow> (Inr (201, Inr (JObj [(''id'', demo_secret_id (a, tn, e))])), v((a, tn, e) \<mapsto> (s, True)))
      | Some (s0, act) \<Rightarrow> (Inr (if act then 409 else 500, Inr JNull), v)),
     vh_read = (\<lambda>a tn e w v. case v (a, tn, e) of
        Some (s, True) \<Rightarrow> (Inr (200, Inr (JObj [(''id'', demo_secret_id (a, tn, e)), (''value'', JStr s)])), v)
      | _ \<Rightarrow> (Inr (404, Inr JNull), v)),
     vh_rotate = (\<lambda>i s v. (Inr (200, Inr JNull), v(secret_key i \<mapsto> (s, True)))),
     vh_delete = (\<lambda>i v. (Inr (204, Inr JNull), v(secret_key i := map_option (\<lambda>(s, _). (s, False)) (v (secret_key i))))),
     vh_refused = (\<lambda>n. PyError ''HTTPStatusError'' (str_int n))\<rparr>"

definition demo_pbx_look :: "(string \<times> string \<times> string \<Rightarrow> (string \<times> bool) option) \<Rightarrow> string \<times> string \<times> string \<Rightarrow> (json \<times> string \<times> bool) option" where
  "demo_pbx_look v k = map_option (\<lambda>(s, act). (demo_secret_id k, s, act)) (v k)"

lemma secret_key_id [simp]: "secret_key (demo_secret_id k) = k" "truthy (demo_secret_id k)"
  by (cases k; simp add: secret_key_def demo_secret_id_def)+

lemma demo_pbx_vault_lawful: "lawful_pbx_vault demo_pbx_vault demo_pbx_look"
proof -
  have "vault_creates demo_pbx_vault demo_pbx_look"
    unfolding vault_creates_def
  proof (intro allI)
    fix a tn e s d and v :: "string \<times> string \<times> string \<Rightarrow> (string \<times> bool) option"
    show "demo_pbx_look v (a, tn, e) = None \<and> (\<exists>i v'. truthy i \<and> vh_create demo_pbx_vault a tn e s d v = (Inr (201, Inr (JObj [(''id'', i)])), v')
        \<and> demo_pbx_look v' = (demo_pbx_look v)((a, tn, e) \<mapsto> (i, s, True)))
      \<or> (\<exists>i s0 act b v'. demo_pbx_look v (a, tn, e) = Some (i, s0, act)
        \<and> vh_create demo_pbx_vault a tn e s d v = (Inr (if act then 409 else 500, b), v') \<and> demo_pbx_look v' = demo_pbx_look v)"
    proof (cases "v (a, tn, e)")
      case None
      show ?thesis
      proof (intro disjI1 conjI exI)
        show "demo_pbx_look v (a, tn, e) = None" using None by (simp add: demo_pbx_look_def)
        show "truthy (demo_secret_id (a, tn, e))" by simp
        show "vh_create demo_pbx_vault a tn e s d v = (Inr (201, Inr (JObj [(''id'', demo_secret_id (a, tn, e))])), v((a, tn, e) \<mapsto> (s, True)))"
          using None by (simp add: demo_pbx_vault_def)
        show "demo_pbx_look (v((a, tn, e) \<mapsto> (s, True))) = (demo_pbx_look v)((a, tn, e) \<mapsto> (demo_secret_id (a, tn, e), s, True))"
          by (simp add: demo_pbx_look_def fun_eq_iff)
      qed
    next
      case (Some x)
      then show ?thesis by (cases x) (simp add: demo_pbx_vault_def demo_pbx_look_def)
    qed
  qed
  moreover have "vault_reads demo_pbx_vault demo_pbx_look"
    unfolding vault_reads_def
  proof (intro allI)
    fix a tn e w and v :: "string \<times> string \<times> string \<Rightarrow> (string \<times> bool) option"
    show "(\<exists>i s v'. demo_pbx_look v (a, tn, e) = Some (i, s, True) \<and> truthy i
        \<and> vh_read demo_pbx_vault a tn e w v = (Inr (200, Inr (JObj [(''id'', i), (''value'', JStr s)])), v') \<and> demo_pbx_look v' = demo_pbx_look v)
      \<or> (\<exists>b v'. (demo_pbx_look v (a, tn, e) = None \<or> (\<exists>i s. demo_pbx_look v (a, tn, e) = Some (i, s, False)))
        \<and> vh_read demo_pbx_vault a tn e w v = (Inr (404, b), v') \<and> demo_pbx_look v' = demo_pbx_look v)"
      by (cases "v (a, tn, e)") (auto simp: demo_pbx_vault_def demo_pbx_look_def split: bool.splits)
  qed
  moreover have "vault_changes demo_pbx_vault demo_pbx_look"
    unfolding vault_changes_def
  proof (intro allI impI conjI)
    fix k i s0 and v :: "string \<times> string \<times> string \<Rightarrow> (string \<times> bool) option"
    assume "demo_pbx_look v k = Some (i, s0, True)"
    then have k: "i = demo_secret_id k" "v k = Some (s0, True)" by (auto simp: demo_pbx_look_def)
    show "\<exists>b v'. vh_rotate demo_pbx_vault i s v = (Inr (200, b), v') \<and> demo_pbx_look v' = (demo_pbx_look v)(k \<mapsto> (i, s, True))" for s
      by (intro exI[of _ "Inr JNull"] exI[of _ "v(k \<mapsto> (s, True))"]) (simp add: demo_pbx_vault_def demo_pbx_look_def fun_eq_iff k)
    show "\<exists>b v'. vh_delete demo_pbx_vault i v = (Inr (204, b), v') \<and> demo_pbx_look v' = (demo_pbx_look v)(k \<mapsto> (i, s0, False))"
      by (intro exI[of _ "Inr JNull"] exI[of _ "v(k \<mapsto> (s0, False))"]) (simp add: demo_pbx_vault_def demo_pbx_look_def fun_eq_iff k)
  qed
  ultimately show ?thesis by (simp add: lawful_pbx_vault_def)
qed

definition demo_pbx_net :: pbx_net where
  "demo_pbx_net = \<lparr>pn_ssh_open = (\<lambda>h p. False), pn_snapshot = (\<lambda>h p u k s. Inr (False, None)), pn_ami_open = (\<lambda>h p. True),
     pn_login = (\<lambda>h p u s. True), pn_command = (\<lambda>h p u s c. Inr ''18''), pn_action = (\<lambda>h p u s a. Inr ''done''), pn_sanitize = Inr\<rparr>"

definition demo_pbx_caller :: pbx_caller where
  "demo_pbx_caller = \<lparr>pc_service = ''nexus'', pc_admin = False, pc_correlation = ''c'', pc_read_only = False\<rparr>"

definition demo_register :: "string \<Rightarrow> string \<Rightarrow> pbx_register" where
  "demo_register name secret = \<lparr>rg_name = name, rg_tenant = ''t'', rg_env = ''prod'', rg_host = ''h'', rg_ami_port = 5038, rg_ami_user = ''u'',
     rg_ami_secret = secret, rg_ssh_port = 22, rg_ssh_user = ''root'', rg_key = None, rg_password = None\<rparr>"

definition demo_first :: "registration res \<times> pbx_db \<times> (string \<times> string \<times> string \<Rightarrow> (string \<times> bool) option)" where
  "demo_first = register_and_verify demo_pbx_vault demo_pbx_net demo_pbx_caller (demo_register ''PBX-A'' ''one'') empty_pbx (\<lambda>_. None)"

definition demo_second :: "registration res \<times> pbx_db \<times> (string \<times> string \<times> string \<Rightarrow> (string \<times> bool) option)" where
  "demo_second = register_and_verify demo_pbx_vault demo_pbx_net demo_pbx_caller (demo_register ''pbx a!'' ''two'') (fst (snd demo_first)) (snd (snd demo_first))"

definition demo_pbx_polled :: pbx_db where
  "demo_pbx_polled = fst (poll_jobs demo_pbx_vault demo_pbx_net
     (snd (create_pbx_job demo_pbx_caller \<lparr>pq_tenant = ''t'', pq_env = ''prod'', pq_target = ''0'', pq_action = ''reload'', pq_correlation = None\<rparr>
        ''c'' (fst (snd demo_first)))) (snd (snd demo_first)))"

lemma prod_triple: "x = (fst x, fst (snd x), snd (snd x))"
  by simp

lemma demo_first_reach: "pbx_reach demo_pbx_vault (fst (snd demo_first))"
  unfolding demo_first_def by (rule px_register[OF px_start prod_triple])

lemma demo_polled_reach: "pbx_reach demo_pbx_vault demo_pbx_polled"
  unfolding demo_pbx_polled_def by (rule px_poll[OF px_job[OF demo_first_reach surjective_pairing] surjective_pairing])

theorem job_sent_once_witness:
  "List.map (\<lambda>j. (pj_status j, pj_attempts j)) (pd_jobs demo_pbx_polled) = [(''succeeded'', 1)]
     \<and> list_all (\<lambda>j. job_stage j (table_look pr_job (pd_results demo_pbx_polled) (pj_id j))) (pd_jobs demo_pbx_polled)"
proof
  show "List.map (\<lambda>j. (pj_status j, pj_attempts j)) (pd_jobs demo_pbx_polled) = [(''succeeded'', 1)]" by code_simp
qed (use job_sent_once[OF demo_polled_reach] in \<open>simp add: list_all_iff\<close>)


text \<open>Deleting the first takes the credential of the second, and neither name can be registered again.\<close>

definition demo_gone :: "unit res \<times> pbx_db \<times> (string \<times> string \<times> string \<Rightarrow> (string \<times> bool) option)" where
  "demo_gone = delete_pbx demo_pbx_vault demo_pbx_caller ''0'' (fst (snd demo_second)) (snd (snd demo_second))"


end
