(* ===== verification/PbxAmi.thy ===== *)
theory PbxAmi
  imports PbxAgent
begin

text \<open>
  How the agent for exchanges speaks to one (\<open>apps/pbx_agent\<close>): the redaction of what comes back
  (\<open>redaction/logs.py\<close>), the client of the manager interface AMI (\<open>adapters/ami.py\<close>) over the pieces in which the
  bytes of a connection arrive, and the queries built on it (\<open>ops\<close>).  What the network answers to a connection is an
  argument, as is the decoding of bytes.
\<close>

section \<open>Redaction\<close>

text \<open>
  A pattern takes the rest of a text to the replacement of a match at its start and to the text behind the match;
  \<open>sub_all\<close> replaces from left to right, with the length of the text as fuel.
\<close>

fun sub_all :: "(string \<Rightarrow> (string \<times> string) option) \<Rightarrow> nat \<Rightarrow> string \<Rightarrow> string" where
  "sub_all m 0 s = s"
| "sub_all m (Suc f) [] = []"
| "sub_all m (Suc f) (c # s) = (case m (c # s) of None \<Rightarrow> c # sub_all m f s | Some (r, t) \<Rightarrow> r @ sub_all m f t)"

definition sub_pattern :: "(string \<Rightarrow> (string \<times> string) option) \<Rightarrow> string \<Rightarrow> string" where
  "sub_pattern m s = sub_all m (length s) s"

definition credential_words :: "string list" where
  "credential_words = [''secret'', ''password'', ''md5'', ''auth'', ''token'', ''key'']"

text \<open>A word, blanks, a colon or an equals sign, blanks, and what follows up to the next blank.\<close>

definition match_pair :: "string \<Rightarrow> (string \<times> string) option" where
  "match_pair s = (case List.find (\<lambda>w. prefix w (lower s)) credential_words of
     None \<Rightarrow> None
   | Some w \<Rightarrow> (case lstrip (drop (length w) s) of
       [] \<Rightarrow> None
     | c # t \<Rightarrow> if (c = CHR '':'' \<or> c = CHR ''='') \<and> lstrip t \<noteq> []
         then Some (take (length w) s @ '': [REDACTED]'', dropWhile (\<lambda>d. \<not> is_space d) (lstrip t)) else None))"

definition match_header :: "string \<Rightarrow> (string \<times> string) option" where
  "match_header s = (if prefix ''authorization:'' (lower s) \<and> lstrip (drop 14 s) \<noteq> []
     then (let v = lstrip (drop 14 s) in
       Some (take (length s - length v) s @ ''[REDACTED]'', dropWhile (\<lambda>d. \<not> is_space d) v)) else None)"

definition blob_char :: "char \<Rightarrow> bool" where
  "blob_char c = (let n = of_char c :: nat in 48 \<le> n \<and> n \<le> 57 \<or> 65 \<le> n \<and> n \<le> 90 \<or> 97 \<le> n \<and> n \<le> 122
     \<or> c = CHR ''+'' \<or> c = CHR ''/'' \<or> c = CHR ''='')"

definition match_blob :: "string \<Rightarrow> (string \<times> string) option" where
  "match_blob s = (if 48 \<le> length (takeWhile blob_char s) then Some (''[REDACTED_BLOB]'', dropWhile blob_char s) else None)"

text \<open>What is left behind one or more characters of the line and five dashes, the longest match first.\<close>

definition dash_rests :: "string \<Rightarrow> string list" where
  "dash_rests r = List.map (\<lambda>k. drop (k + 5) r) (filter (\<lambda>k. prefix ''-----'' (drop k r))
     (rev [1 ..< Suc (length (takeWhile (\<lambda>c. c \<noteq> CHR 10) r))]))"

fun pem_end :: "string \<Rightarrow> string option" where
  "pem_end [] = None"
| "pem_end (c # u) = (if prefix ''-----END'' (c # u) then (case dash_rests (drop 8 (c # u)) of r # _ \<Rightarrow> Some r | [] \<Rightarrow> pem_end u)
     else pem_end u)"

definition match_pem :: "string \<Rightarrow> (string \<times> string) option" where
  "match_pem s = (if prefix ''-----BEGIN'' s then (case filter (\<lambda>r. r \<noteq> None) (List.map pem_end (dash_rests (drop 10 s))) of
       Some r # _ \<Rightarrow> Some (''[REDACTED_PEM]'', r) | _ \<Rightarrow> None) else None)"

definition MAX_OUTPUT_BYTES :: nat where
  "MAX_OUTPUT_BYTES = 204800"

definition redact_output :: "string \<Rightarrow> string" where
  "redact_output text = (if text = [] then text
     else (let r = sub_pattern match_pem (sub_pattern match_blob (sub_pattern match_header (sub_pattern match_pair text))) in
       if length r > MAX_OUTPUT_BYTES then take MAX_OUTPUT_BYTES r @ CHR 10 # ''...[TRUNCATED]'' else r))"

section \<open>A connection\<close>

text \<open>The bytes that arrive between two waits, or a wait that lasts longer than any timeout; the end of the list is
  the end of the stream.\<close>

datatype arrival = Data string | Stall

datatype dialed = DialTimeout | DialError string | Dialed "arrival list"

definition READ_CHUNK :: nat where
  "READ_CHUNK = 4096"

definition ami_timeout :: "string \<Rightarrow> exn" where
  "ami_timeout m = PyError ''AmiTimeoutError'' m"

text \<open>One read takes at most a chunk; no answer is a timeout, in which case what was read is lost.\<close>

function (sequential) read_until :: "(string \<Rightarrow> bool) \<Rightarrow> string \<Rightarrow> arrival list \<Rightarrow> string option \<times> arrival list" where
  "read_until stop buf [] = (Some buf, [])"
| "read_until stop buf (Stall # cs) = (None, cs)"
| "read_until stop buf (Data [] # cs) = read_until stop buf cs"
| "read_until stop buf (Data (c # s) # cs) =
     (let b = buf @ take READ_CHUNK (c # s);
          cs' = (if length (c # s) \<le> READ_CHUNK then cs else Data (drop READ_CHUNK (c # s)) # cs) in
      if stop b then (Some b, cs') else read_until stop b cs')"
  by pat_completeness auto

fun arrival_weight :: "arrival \<Rightarrow> nat" where
  "arrival_weight Stall = 1"
| "arrival_weight (Data s) = Suc (length s)"

termination read_until
  by (relation "measure (\<lambda>(stop, buf, cs). sum_list (List.map arrival_weight cs))") (auto simp: READ_CHUNK_def)

fun read_line :: "string \<Rightarrow> arrival list \<Rightarrow> string option \<times> arrival list" where
  "read_line buf [] = (Some buf, [])"
| "read_line buf (Stall # cs) = (None, cs)"
| "read_line buf (Data s # cs) = (if CHR 10 \<in> set s
     then (Some (buf @ takeWhile (\<lambda>c. c \<noteq> CHR 10) s @ [CHR 10]), Data (tl (dropWhile (\<lambda>c. c \<noteq> CHR 10) s)) # cs)
     else read_line (buf @ s) cs)"

definition crlf :: string where
  "crlf = [CHR 13, CHR 10]"

definition response_end :: "string \<Rightarrow> bool" where
  "response_end b = contains (crlf @ crlf) b"

definition output_end :: "string \<Rightarrow> bool" where
  "output_end b = (contains ''--END COMMAND--'' b \<or> contains (crlf @ crlf) b \<and> contains ''Response:'' b \<or> contains ''Response: Error'' b)"

definition or_timeout :: "string \<Rightarrow> string option \<times> arrival list \<Rightarrow> (string \<times> arrival list) res" where
  "or_timeout m r = (case r of (None, cs) \<Rightarrow> Inl (ami_timeout m) | (Some b, cs) \<Rightarrow> Inr (b, cs))"

definition login_message :: "string \<Rightarrow> string \<Rightarrow> string" where
  "login_message user secret = ''Action: Login'' @ crlf @ ''Username: '' @ user @ crlf @ ''Secret: '' @ secret @ crlf @ crlf"

definition events_off :: string where
  "events_off = ''Action: Events'' @ crlf @ ''EventMask: off'' @ crlf @ crlf"

definition logoff_message :: string where
  "logoff_message = ''Action: Logoff'' @ crlf @ crlf"

text \<open>The answers of a dialogue come with the messages that were written.\<close>

record ami_net =
  an_dial :: "string \<Rightarrow> int \<Rightarrow> dialed"
  an_decode :: "string \<Rightarrow> string"

definition ami_connect :: "ami_net \<Rightarrow> string \<Rightarrow> int \<Rightarrow> string \<Rightarrow> string \<Rightarrow> arrival list res \<times> string list" where
  "ami_connect n host port user secret = (case an_dial n host port of
     DialTimeout \<Rightarrow> (Inl (ami_timeout (''Connection to '' @ host_port host port @ '' timed out'')), [])
   | DialError k \<Rightarrow> (Inl (PyError ''AmiError'' (''Cannot connect to '' @ host_port host port @ '': '' @ k)), [])
   | Dialed cs \<Rightarrow> (case or_timeout ''Timed out reading AMI banner'' (read_line [] cs) of
       Inl x \<Rightarrow> (Inl x, [])
     | Inr (_, cs1) \<Rightarrow> (case or_timeout ''Timed out reading AMI response'' (read_until response_end [] cs1) of
         Inl x \<Rightarrow> (Inl x, [login_message user secret])
       | Inr (b, cs2) \<Rightarrow>
           if \<not> contains ''Authentication accepted'' (an_decode n b)
           then (Inl (PyError ''AmiAuthError'' (''AMI authentication failed for user '' @ in_quotes user @ '' on '' @ host_port host port)),
             [login_message user secret])
           else (Inr (snd (read_until response_end [] cs2)), [login_message user secret, events_off]))))"

definition ami_request :: "ami_net \<Rightarrow> string \<Rightarrow> int \<Rightarrow> string \<Rightarrow> string \<Rightarrow> string \<Rightarrow> (string \<Rightarrow> bool) \<Rightarrow> string \<Rightarrow> string res \<times> string list" where
  "ami_request n host port user secret message stop late = (case ami_connect n host port user secret of
     (Inl x, out) \<Rightarrow> (Inl x, out)
   | (Inr cs, out) \<Rightarrow> (map_sum id (\<lambda>(b, _). redact_output (an_decode n b)) (or_timeout late (read_until stop [] cs)),
       out @ [message, logoff_message]))"

definition run_ami_command :: "ami_net \<Rightarrow> string \<Rightarrow> int \<Rightarrow> string \<Rightarrow> string \<Rightarrow> string \<Rightarrow> string res \<times> string list" where
  "run_ami_command n host port user secret command = ami_request n host port user secret
     (''Action: Command'' @ crlf @ ''Command: '' @ command @ crlf @ crlf) output_end ''Timed out reading AMI command output''"

definition run_ami_action ::
  "ami_net \<Rightarrow> string \<Rightarrow> int \<Rightarrow> string \<Rightarrow> string \<Rightarrow> string \<Rightarrow> (string \<times> string) list \<Rightarrow> string res \<times> string list" where
  "run_ami_action n host port user secret action extra = ami_request n host port user secret
     (''Action: '' @ action @ crlf @ concat (List.map (\<lambda>(k, v). k @ '': '' @ v @ crlf) extra) @ crlf) response_end
     ''Timed out reading AMI response''"

definition check_ami_login :: "ami_net \<Rightarrow> string \<Rightarrow> int \<Rightarrow> string \<Rightarrow> string \<Rightarrow> bool \<times> string list" where
  "check_ami_login n host port user secret = (case ami_connect n host port user secret of
     (Inl x, out) \<Rightarrow> (False, out) | (Inr cs, out) \<Rightarrow> (True, out @ [logoff_message]))"

definition check_connectivity :: "ami_net \<Rightarrow> string \<Rightarrow> int \<Rightarrow> bool" where
  "check_connectivity n host port = (case an_dial n host port of Dialed cs \<Rightarrow> True | _ \<Rightarrow> False)"

section \<open>Queries\<close>

text \<open>Every match of a pattern, from left to right; a match takes the rest of the text to what it captures and to
  the text behind it.\<close>

fun find_all :: "(string \<Rightarrow> ('a \<times> string) option) \<Rightarrow> nat \<Rightarrow> string \<Rightarrow> 'a list" where
  "find_all m 0 s = []"
| "find_all m (Suc f) [] = []"
| "find_all m (Suc f) (c # s) = (case m (c # s) of None \<Rightarrow> find_all m f s | Some (x, t) \<Rightarrow> x # find_all m f t)"

definition matches_in :: "(string \<Rightarrow> ('a \<times> string) option) \<Rightarrow> string \<Rightarrow> 'a list" where
  "matches_in m s = find_all m (length s) s"

definition match_endpoint :: "string \<Rightarrow> (string \<times> string) option" where
  "match_endpoint s = (let t = drop 9 s; name = takeWhile (\<lambda>c. \<not> is_space c \<and> c \<noteq> CHR ''/'') (lstrip t) in
     if prefix ''Endpoint:'' s \<and> lstrip t \<noteq> t \<and> name \<noteq> [] then Some (name, drop (length name) (lstrip t)) else None)"

definition registration_words :: "string list" where
  "registration_words = [''registered'', ''rejected'', ''unregistered'', ''failed'']"

definition match_registration :: "string \<Rightarrow> (string \<times> string) option" where
  "match_registration s = map_option (\<lambda>w. (w, drop (length w) s)) (List.find (\<lambda>w. prefix w (lower s)) registration_words)"

text \<open>The counts of a dictionary, in the order of its keys.\<close>

definition count_words :: "string list \<Rightarrow> (string \<times> nat) list" where
  "count_words ws = List.map (\<lambda>w. (w, count_list ws w)) (rev (remdups (rev ws)))"

definition status_registrations :: "pbx_net \<Rightarrow> string \<Rightarrow> int \<Rightarrow> string \<Rightarrow> json \<Rightarrow> ((string \<times> nat) list \<times> nat \<times> string) res" where
  "status_registrations net host port user secret = bind_res (pn_command net host port user secret ''pjsip show registrations'') (\<lambda>raw.
     let regs = matches_in match_registration raw in Inr (count_words regs, length regs, take 500 raw))"

text \<open>The pattern for peers of the older driver starts at a line: a word, blanks, and an address.\<close>

definition dotted :: "string \<Rightarrow> string option" where
  "dotted s = (let t = dropWhile is_digit s in if s \<noteq> [] \<and> t \<noteq> s \<and> t \<noteq> [] \<and> hd t = CHR ''.'' then Some (tl t) else None)"

definition match_address :: "string \<Rightarrow> string option" where
  "match_address s = (case dotted s of None \<Rightarrow> None | Some a \<Rightarrow> (case dotted a of None \<Rightarrow> None | Some b \<Rightarrow>
     (case dotted b of None \<Rightarrow> None | Some c \<Rightarrow> if c \<noteq> [] \<and> is_digit (hd c) then Some (dropWhile is_digit c) else None)))"

definition match_peer :: "string \<Rightarrow> (string \<times> string) option" where
  "match_peer s = (let name = takeWhile (\<lambda>c. \<not> is_space c) s in
     if name = [] then None else map_option (\<lambda>t. (name, t)) (match_address (lstrip (drop (length name) s))))"

fun peers_in :: "nat \<Rightarrow> bool \<Rightarrow> string \<Rightarrow> string list" where
  "peers_in 0 b s = []"
| "peers_in (Suc f) b [] = []"
| "peers_in (Suc f) b (c # s) = (case (if b then match_peer (c # s) else None) of
     None \<Rightarrow> peers_in f (c = CHR 10) s | Some (x, t) \<Rightarrow> x # peers_in f False t)"

record sip_status =
  ss_driver :: string
  ss_count :: nat
  ss_names :: "string list"
  ss_raw :: string

definition status_peers :: "pbx_net \<Rightarrow> string \<Rightarrow> int \<Rightarrow> string \<Rightarrow> json \<Rightarrow> sip_status res" where
  "status_peers net host port user secret = bind_res (pn_command net host port user secret ''pjsip show endpoints'') (\<lambda>raw.
     let es = matches_in match_endpoint raw in
     if es \<noteq> [] then Inr \<lparr>ss_driver = ''pjsip'', ss_count = length es, ss_names = take 50 es, ss_raw = take 500 raw\<rparr>
     else bind_res (pn_command net host port user secret ''sip show peers'') (\<lambda>raw2.
       let ps = peers_in (length raw2) True raw2 in
       Inr \<lparr>ss_driver = ''chan_sip'', ss_count = length ps, ss_names = take 50 ps, ss_raw = take 500 raw2\<rparr>))"

text \<open>The blanks behind the colon may end early, so that the rest of the line has a character.\<close>

definition uptime_lines :: "string \<Rightarrow> string list" where
  "uptime_lines t = filter (\<lambda>l. l \<noteq> []) (List.map (\<lambda>k. takeWhile (\<lambda>c. c \<noteq> CHR 10) (drop k t)) (rev [0 ..< Suc (length (takeWhile is_space t))]))"

fun search_uptime :: "string \<Rightarrow> string option" where
  "search_uptime [] = None"
| "search_uptime (c # s) = (if prefix ''System uptime:'' (c # s)
     then (case uptime_lines (drop 14 (c # s)) of l # _ \<Rightarrow> Some l | [] \<Rightarrow> search_uptime s) else search_uptime s)"

definition status_uptime :: "pbx_net \<Rightarrow> string \<Rightarrow> int \<Rightarrow> string \<Rightarrow> json \<Rightarrow> (string \<times> string) res" where
  "status_uptime net host port user secret = bind_res (pn_command net host port user secret ''core show uptime'') (\<lambda>raw.
     Inr (case search_uptime raw of Some l \<Rightarrow> strip l | None \<Rightarrow> ''unknown'', take 300 raw))"

definition reload_asterisk :: "pbx_net \<Rightarrow> string \<Rightarrow> int \<Rightarrow> string \<Rightarrow> json \<Rightarrow> (bool \<times> string) res" where
  "reload_asterisk net host port user secret = bind_res (pn_command net host port user secret ''core reload'') (\<lambda>out.
     Inr (contains ''Reloading'' out \<or> contains ''reload'' (lower out) \<or> strip out \<noteq> [], take 300 out))"

definition ami_check :: "pbx_net \<Rightarrow> string \<Rightarrow> int \<Rightarrow> string \<Rightarrow> json \<Rightarrow> (bool \<times> string) res" where
  "ami_check net host port user secret = (case pn_command net host port user secret ''core show uptime'' of
     Inr out \<Rightarrow> Inr (True, take 100 out)
   | Inl x \<Rightarrow> if exn_class x = ''AmiAuthError'' then Inr (False, exn_text x)
       else if exn_class x = ''AmiTimeoutError'' then Inr (False, ''timeout'')
       else if exn_class x = ''AmiError'' then Inr (False, ''connection_error'') else Inl x)"

definition match_version :: "string \<Rightarrow> (string \<times> string) option" where
  "match_version s = (let t = drop 8 s; u = lstrip t; d = takeWhile (\<lambda>c. is_digit c \<or> c = CHR ''.'') u in
     if prefix ''Asterisk'' s \<and> u \<noteq> t \<and> d \<noteq> [] then Some (take (length s - length (drop (length d) u)) s, drop (length d) u) else None)"

definition diagnostic_version :: "pbx_net \<Rightarrow> string \<Rightarrow> int \<Rightarrow> string \<Rightarrow> json \<Rightarrow> (string \<times> string \<times> string) res" where
  "diagnostic_version net host port user secret = bind_res (pn_command net host port user secret ''core show version'') (\<lambda>out.
     bind_res (pn_command net host port user secret ''core show uptime'') (\<lambda>up.
       Inr (case matches_in match_version out of v # _ \<Rightarrow> v | [] \<Rightarrow> ''unknown'', take 300 out, take 300 up)))"

section \<open>No long blob is left\<close>

text \<open>After \<open>k\<close> characters of the class, no run of 48 is reached.\<close>

fun blobless :: "nat \<Rightarrow> string \<Rightarrow> bool" where
  "blobless k [] = True"
| "blobless k (c # s) = (if blob_char c then Suc k < 48 \<and> blobless (Suc k) s else blobless 0 s)"

lemma blobless_less: "blobless k s \<Longrightarrow> j \<le> k \<Longrightarrow> blobless j s"
proof (induction s arbitrary: j k)
  case (Cons c s)
  then show ?case by (cases "blob_char c") (auto dest: Cons.IH[of "Suc k" "Suc j"])
qed simp

lemma blobless_behind: "blobless k (a @ s) \<Longrightarrow> blobless 0 s"
proof (induction a arbitrary: k)
  case Nil
  then show ?case by (simp add: blobless_less)
next
  case (Cons c a)
  then show ?case by (cases "blob_char c") auto
qed

lemma blobless_run: "blobless k (m @ s) \<Longrightarrow> list_all blob_char m \<Longrightarrow> m \<noteq> [] \<Longrightarrow> k + length m < 48"
proof (induction m arbitrary: k)
  case (Cons c m)
  then show ?case using Cons.IH[of "Suc k"] by (cases m) auto
qed simp

lemma blobless_sublist: "blobless 0 s \<Longrightarrow> s = a @ m @ b \<Longrightarrow> list_all blob_char m \<Longrightarrow> length m < 48"
  using blobless_behind[of 0 a "m @ b"] blobless_run[of 0 m b] by (cases m) auto

lemma blobless_take: "blobless k s \<Longrightarrow> \<not> blob_char d \<Longrightarrow> blobless 0 t \<Longrightarrow> blobless k (take n s @ d # t)"
proof (induction s arbitrary: k n)
  case (Cons c s)
  then show ?case by (cases n) auto
qed simp

text \<open>A word in brackets breaks a run.\<close>

lemma bracketed [simp]:
  "blobless k (''[REDACTED_BLOB]'' @ s) = blobless 0 s" "blobless k (''[REDACTED_PEM]'' @ s) = blobless 0 s"
  by (simp_all add: blob_char_def Let_def)

lemma takeWhile_dropWhile_same [simp]: "takeWhile P (dropWhile P s) = []"
  by (induction s) auto

lemma sub_blobs: "k + length (takeWhile blob_char s) < 48 \<or> 48 \<le> length (takeWhile blob_char s) \<Longrightarrow> length s \<le> f
    \<Longrightarrow> blobless k (sub_all match_blob f s)"
proof (induction f arbitrary: k s)
  case 0
  then show ?case by simp
next
  case (Suc f)
  show ?case
  proof (cases s)
    case Nil
    then show ?thesis by simp
  next
    case (Cons c t)
    show ?thesis
    proof (cases "48 \<le> length (takeWhile blob_char s)")
      case True
      then have m: "match_blob (c # t) = Some (''[REDACTED_BLOB]'', dropWhile blob_char s)" by (simp add: match_blob_def Cons)
      have "length (dropWhile blob_char s) \<le> f" using True Suc.prems(2) Cons length_dropWhile_le[of blob_char t] by (cases "blob_char c") auto
      then have "blobless 0 (sub_all match_blob f (dropWhile blob_char s))" by (intro Suc.IH) simp_all
      moreover have "sub_all match_blob (Suc f) s = ''[REDACTED_BLOB]'' @ sub_all match_blob f (dropWhile blob_char s)"
        unfolding Cons sub_all.simps(3) m option.case prod.case by (simp add: Cons)
      ultimately show ?thesis by (simp only: bracketed)
    next
      case False
      then have m: "match_blob (c # t) = None" by (simp add: match_blob_def Cons)
      show ?thesis
      proof (cases "blob_char c")
        case True
        then show ?thesis using Suc False m Cons by simp
      next
        case False
        have "blobless 0 (sub_all match_blob f t)" by (rule Suc.IH) (use Suc.prems(2) Cons in auto)
        then show ?thesis using False m Cons by simp
      qed
    qed
  qed
qed

lemma pem_rest_behind: "dash_rests s = r # rs \<Longrightarrow> \<exists>a. s = a @ r"
proof -
  assume "dash_rests s = r # rs"
  then have "r \<in> set (dash_rests s)" by simp
  then obtain k where "r = drop k s" by (auto simp: dash_rests_def)
  then have "s = take k s @ r" by simp
  then show ?thesis by blast
qed

lemma pem_end_behind: "pem_end s = Some r \<Longrightarrow> \<exists>a. s = a @ r"
proof (induction s rule: pem_end.induct)
  case (2 c u)
  show ?case
  proof (cases "prefix ''-----END'' (c # u) \<and> dash_rests (drop 8 (c # u)) \<noteq> []")
    case True
    then obtain rs where "dash_rests (drop 8 (c # u)) = r # rs" using 2 by (cases "dash_rests (drop 8 (c # u))") auto
    then obtain a where "drop 8 (c # u) = a @ r" using pem_rest_behind by blast
    then have "c # u = (take 8 (c # u) @ a) @ r" by (metis append.assoc append_take_drop_id)
    then show ?thesis by blast
  next
    case False
    then have "pem_end u = Some r" using 2(3) by (auto split: list.splits if_splits)
    then have "\<exists>a. u = a @ r" using 2(1,2) False by (cases "prefix ''-----END'' (c # u)") auto
    then show ?thesis by (metis append_Cons)
  qed
qed simp

lemma match_pem_behind:
  assumes "match_pem s = Some (w, r)" shows "w = ''[REDACTED_PEM]'' \<and> (\<exists>a. s = a @ r)"
proof -
  obtain rs where f: "filter (\<lambda>r. r \<noteq> None) (List.map pem_end (dash_rests (drop 10 s))) = Some r # rs" and w: "w = ''[REDACTED_PEM]''"
    using assms by (auto simp: match_pem_def split: if_splits list.splits option.splits)
  have "Some r \<in> set (filter (\<lambda>r. r \<noteq> None) (List.map pem_end (dash_rests (drop 10 s))))" unfolding f by simp
  then obtain q where "q \<in> set (dash_rests (drop 10 s))" "pem_end q = Some r" by auto
  then obtain k where "q = drop k (drop 10 s)" by (auto simp: dash_rests_def simp del: drop_drop)
  moreover obtain a where "q = a @ r" using pem_end_behind \<open>pem_end q = Some r\<close> by blast
  ultimately have q: "drop (k + 10) s = a @ r" by simp
  have "s = (take (k + 10) s @ a) @ r" unfolding append.assoc q[symmetric] by simp
  with w show ?thesis by blast
qed

lemma sub_pems: "blobless k s \<Longrightarrow> blobless k (sub_all match_pem f s)"
proof (induction f arbitrary: k s)
  case (Suc f)
  show ?case
  proof (cases s)
    case (Cons c t)
    show ?thesis
    proof (cases "match_pem (c # t)")
      case None
      then show ?thesis using Suc Cons by (cases "blob_char c") auto
    next
      case (Some x)
      obtain w r where x: "x = (w, r)" by (cases x)
      obtain a where w: "w = ''[REDACTED_PEM]''" and "c # t = a @ r" using match_pem_behind Some x by blast
      then have "blobless 0 r" using blobless_behind[of k a r] Suc.prems Cons by simp
      then have "blobless 0 (sub_all match_pem f r)" by (rule Suc.IH)
      moreover have "sub_all match_pem (Suc f) s = ''[REDACTED_PEM]'' @ sub_all match_pem f r"
        unfolding Cons sub_all.simps(3) Some x w option.case prod.case ..
      ultimately show ?thesis by (simp only: bracketed)
    qed
  qed simp
qed simp

lemma redacted_blobless: "blobless 0 (redact_output text)"
proof -
  let ?b = "sub_pattern match_blob (sub_pattern match_header (sub_pattern match_pair text))"
  have "blobless 0 ?b" unfolding sub_pattern_def[of match_blob] by (rule sub_blobs) auto
  then have "blobless 0 (sub_pattern match_pem ?b)" unfolding sub_pattern_def[of match_pem] by (rule sub_pems)
  moreover have "\<not> blob_char (CHR 10)" "blobless 0 ''...[TRUNCATED]''" by (simp_all add: blob_char_def Let_def)
  ultimately show ?thesis by (simp add: redact_output_def Let_def blobless_take del: append.append_Cons)
qed

section \<open>Dialogues\<close>

text \<open>C37: What an exchange answers is redacted before anyone sees it: no answer of a command or an action on the
  manager interface contains 48 characters in a row of those base64 is written in, so no such key or token, and
  none is longer than the limit and its mark.\<close>

theorem ami_answers_redacted:
  assumes "fst (ami_request n host port user secret message stop late) = Inr answer" "answer = a @ m @ b" "list_all blob_char m"
  shows "length m < 48 \<and> length answer \<le> MAX_OUTPUT_BYTES + 15"
proof -
  obtain t where t: "answer = redact_output t"
    using assms(1) by (auto simp: ami_request_def or_timeout_def split: prod.splits sum.splits option.splits)
  have "blobless 0 answer" using t redacted_blobless by simp
  then have "length m < 48" using assms(2,3) by (rule blobless_sublist)
  moreover have "length answer \<le> MAX_OUTPUT_BYTES + 15" by (simp add: t redact_output_def Let_def)
  ultimately show ?thesis by simp
qed

lemma line_of_greeting:
  assumes "CHR 10 \<notin> set g"
  shows "takeWhile (\<lambda>c. c \<noteq> CHR 10) (g @ [CHR 10]) = g" "dropWhile (\<lambda>c. c \<noteq> CHR 10) (g @ [CHR 10]) = [CHR 10]"
  using assms by (induction g) auto

text \<open>One complete block, in one piece.\<close>

lemma read_block: "stop s \<Longrightarrow> s \<noteq> [] \<Longrightarrow> length s \<le> READ_CHUNK \<Longrightarrow> read_until stop [] (Data s # cs) = (Some s, cs)"
  by (cases s) simp_all

lemma request_answer:
  assumes "an_dial n host port = Dialed (Data (greeting @ [CHR 10]) # Data a # Data b # Data c # rest)" "CHR 10 \<notin> set greeting"
    and "response_end a" "contains ''Authentication accepted'' (an_decode n a)" "response_end b" "output_end c"
    and "length a \<le> READ_CHUNK" "length b \<le> READ_CHUNK" "length c \<le> READ_CHUNK"
  shows "ami_request n host port user secret message output_end late
    = (Inr (redact_output (an_decode n c)), [login_message user secret, events_off, message, logoff_message])"
proof -
  have ne: "a \<noteq> []" "b \<noteq> []" "c \<noteq> []" using assms(3,5,6) by (auto simp: response_end_def output_end_def crlf_def)
  have "read_line [] (Data (greeting @ [CHR 10]) # Data a # Data b # Data c # rest) = (Some (greeting @ [CHR 10]), Data [] # Data a # Data b # Data c # rest)"
    by (simp add: line_of_greeting[OF assms(2)] del: takeWhile_append takeWhile_append1 takeWhile_append2 dropWhile_append)
  moreover have "read_until response_end [] (Data [] # Data a # Data b # Data c # rest) = (Some a, Data b # Data c # rest)"
    using read_block[of response_end a] assms(3,7) ne by simp
  moreover have "read_until response_end [] (Data b # Data c # rest) = (Some b, Data c # rest)" using read_block assms(5,8) ne by simp
  moreover have "read_until output_end [] (Data c # rest) = (Some c, rest)" using read_block assms(6,9) ne by simp
  ultimately show ?thesis using assms(1,4) by (simp add: ami_request_def ami_connect_def or_timeout_def)
qed

lemma redact_unchanged:
  assumes "sub_pattern match_pem (sub_pattern match_blob (sub_pattern match_header (sub_pattern match_pair t))) = r" "t \<noteq> []" "length r < 1000"
  shows "redact_output t = r"
  using assms by (simp add: redact_output_def MAX_OUTPUT_BYTES_def)

text \<open>C40: The answer to a command is the third block that arrives, whatever it answers.  When an exchange sends its
  greeting, then the answer to the login, a block \<open>b\<close> and a block \<open>c\<close>, each in one piece, the command is answered
  with \<open>c\<close> and anything later is never read.  An exchange that announces an event after the login, as one does when
  it has started, makes the agent take the answer to its own request for silence for the output of the command.\<close>

theorem command_answer_is_third_block:
  assumes "an_dial n host port = Dialed (Data (greeting @ [CHR 10]) # Data a # Data b # Data c # rest)" "CHR 10 \<notin> set greeting"
    and "response_end a" "contains ''Authentication accepted'' (an_decode n a)" "response_end b" "output_end c"
    and "length a \<le> READ_CHUNK" "length b \<le> READ_CHUNK" "length c \<le> READ_CHUNK"
  shows "run_ami_command n host port user secret command = (Inr (redact_output (an_decode n c)),
     [login_message user secret, events_off, ''Action: Command'' @ crlf @ ''Command: '' @ command @ crlf @ crlf, logoff_message])"
  unfolding run_ami_command_def by (rule request_answer[OF assms])

section \<open>Examples\<close>

definition ami_block :: "string list \<Rightarrow> string" where
  "ami_block ls = concat (List.map (\<lambda>l. l @ crlf) ls) @ crlf"

text \<open>An exchange that announces that it has started.\<close>

definition demo_greeting :: string where
  "demo_greeting = ''Asterisk Call Manager/5.0''"

definition demo_accepted :: string where
  "demo_accepted = ami_block [''Response: Success'', ''Message: Authentication accepted'']"

definition demo_event :: string where
  "demo_event = ami_block [''Event: FullyBooted'']"

definition demo_silent :: string where
  "demo_silent = ami_block [''Response: Success'', ''Events: Off'']"

definition demo_ami :: ami_net where
  "demo_ami = \<lparr>an_dial = (\<lambda>h p. Dialed [Data (demo_greeting @ [CHR 10]), Data demo_accepted, Data demo_event, Data demo_silent,
       Data (ami_block [''Response: Success'', ''Output: System uptime: 1 hour''])]), an_decode = (\<lambda>b. b)\<rparr>"

lemma demo_blocks:
  "CHR 10 \<notin> set demo_greeting" "response_end demo_accepted" "contains ''Authentication accepted'' (an_decode demo_ami demo_accepted)"
  "response_end demo_event" "output_end demo_silent"
proof -
  show "CHR 10 \<notin> set demo_greeting" "response_end demo_accepted" "response_end demo_event" "output_end demo_silent" by code_simp+
  have "contains ''Authentication accepted'' demo_accepted" by code_simp
  then show "contains ''Authentication accepted'' (an_decode demo_ami demo_accepted)" by (simp add: demo_ami_def)
qed

lemma demo_lengths: "length demo_accepted \<le> READ_CHUNK" "length demo_event \<le> READ_CHUNK" "length demo_silent \<le> READ_CHUNK"
  by (simp_all add: demo_accepted_def demo_event_def demo_silent_def ami_block_def crlf_def READ_CHUNK_def)

lemma demo_dial: "an_dial demo_ami h p = Dialed (Data (demo_greeting @ [CHR 10]) # Data demo_accepted # Data demo_event # Data demo_silent
    # [Data (ami_block [''Response: Success'', ''Output: System uptime: 1 hour''])])"
  by (simp add: demo_ami_def)

lemma demo_answer: "redact_output (an_decode demo_ami demo_silent) = demo_silent"
proof -
  have "redact_output demo_silent = demo_silent"
  proof (rule redact_unchanged)
    show "sub_pattern match_pem (sub_pattern match_blob (sub_pattern match_header (sub_pattern match_pair demo_silent))) = demo_silent" by code_simp
  qed (simp_all add: demo_silent_def ami_block_def crlf_def)
  then show ?thesis by (simp add: demo_ami_def)
qed

theorem command_answer_is_third_block_witness:
  "fst (run_ami_command demo_ami ''h'' 5038 ''u'' ''s'' ''core show uptime'') = Inr demo_silent"
  using command_answer_is_third_block[OF demo_dial demo_blocks demo_lengths] demo_answer by simp

theorem ami_answers_redacted_witness: "length ''Response'' < 48 \<and> length demo_silent \<le> MAX_OUTPUT_BYTES + 15"
proof (rule ami_answers_redacted)
  show "fst (ami_request demo_ami ''h'' 5038 ''u'' ''s'' ''m'' output_end ''late'') = Inr demo_silent"
    using request_answer[OF demo_dial demo_blocks demo_lengths] demo_answer by simp
  show "demo_silent = [] @ ''Response'' @ drop 8 demo_silent" by (simp add: demo_silent_def ami_block_def)
  show "list_all blob_char ''Response''" by code_simp
qed

end
