(* ===== verification/PbxFleet.thy ===== *)
theory PbxFleet
  imports PbxAmi PbxReach
begin

text \<open>
  What the agent for exchanges reports of them: the diagnostics (\<open>api/diagnostics.py\<close>), what it reads off the
  command line of an exchange (\<open>adapters/ssh_system.py\<close>), and the fleet with its cache (\<open>api/fleet.py\<close>).  The
  output of a command over SSH and the system metrics with their averages, which are floating-point numbers, are
  arguments.
\<close>

section \<open>Diagnostics\<close>

record pbx_query =
  dq_tenant :: string
  dq_env :: string
  dq_target :: string
  dq_correlation :: "string option"

definition queried_by :: "pbx_query \<Rightarrow> pbx_caller \<Rightarrow> pbx_caller" where
  "queried_by q who = (if given_text (dq_correlation q) then who\<lparr>pc_correlation := the (dq_correlation q)\<rparr> else who)"

definition resolve_target :: "pbx_query \<Rightarrow> pbx_db \<Rightarrow> pbx_row res" where
  "resolve_target q db = of_opt (HTTPException 404 (''Target '' @ in_quotes (dq_target q) @ '' not found''))
     (get_pbx_row (dq_target q) (dq_tenant q) (dq_env q) db)"

definition ping_target :: "pbx_net \<Rightarrow> pbx_caller \<Rightarrow> pbx_query \<Rightarrow> pbx_db \<Rightarrow> bool res \<times> pbx_db" where
  "ping_target net who q db = (case resolve_target q db of
     Inl x \<Rightarrow> (Inl x, db)
   | Inr t \<Rightarrow> (case write_pbx_audit (queried_by q who) ''diagnostics.ping'' ''success'' (dq_tenant q) (dq_env q) (pbt_id t) None db of
       Inl x \<Rightarrow> (Inl x, db) | Inr db' \<Rightarrow> (Inr (pn_ami_open net (pbt_host t) (pbt_ami_port t)), db')))"

definition check_target ::
  "'v vault_http \<Rightarrow> pbx_net \<Rightarrow> pbx_caller \<Rightarrow> pbx_query \<Rightarrow> pbx_db \<Rightarrow> 'v \<Rightarrow> (bool \<times> string) res \<times> pbx_db \<times> 'v" where
  "check_target vh net who q db v = (case resolve_target q db of
     Inl x \<Rightarrow> (Inl x, db, v)
   | Inr t \<Rightarrow> (let audit = (\<lambda>outcome detail. write_pbx_audit who ''diagnostics.ami_check'' outcome (dq_tenant q) (dq_env q) (pbt_id t) detail db) in
       case fetch_secret vh (pbt_ami_alias t) (dq_tenant q) (dq_env q) ''diagnostics.ami_check'' v of
         (Inl x, v') \<Rightarrow> (case audit ''error'' (Some (exn_text x)) of
             Inl y \<Rightarrow> (Inl y, db, v') | Inr db' \<Rightarrow> (Inl (HTTPException 502 (exn_text x)), db', v'))
       | (Inr secret, v') \<Rightarrow> (case ami_check net (pbt_host t) (pbt_ami_port t) (pbt_ami_user t) secret of
             Inl x \<Rightarrow> (Inl x, db, v')
           | Inr (ok, note) \<Rightarrow> (case audit (if ok then ''success'' else ''error'') None of
               Inl y \<Rightarrow> (Inl y, db, v') | Inr db' \<Rightarrow> (Inr (ok, note), db', v')))))"

definition ami_failures :: "string list" where
  "ami_failures = [''AmiError'', ''AmiAuthError'', ''AmiTimeoutError'']"

definition version_of_target ::
  "'v vault_http \<Rightarrow> pbx_net \<Rightarrow> pbx_caller \<Rightarrow> pbx_query \<Rightarrow> pbx_db \<Rightarrow> 'v \<Rightarrow> (string \<times> string \<times> string) res \<times> pbx_db \<times> 'v" where
  "version_of_target vh net who q db v = (case resolve_target q db of
     Inl x \<Rightarrow> (Inl x, db, v)
   | Inr t \<Rightarrow> (case fetch_secret vh (pbt_ami_alias t) (dq_tenant q) (dq_env q) ''diagnostics.version'' v of
       (Inl x, v') \<Rightarrow> (Inl (HTTPException 502 (exn_text x)), db, v')
     | (Inr secret, v') \<Rightarrow> (case diagnostic_version net (pbt_host t) (pbt_ami_port t) (pbt_ami_user t) secret of
         Inl x \<Rightarrow> (Inl (if exn_class x \<in> set ami_failures then HTTPException 502 (exn_text x) else x), db, v')
       | Inr r \<Rightarrow> (case write_pbx_audit who ''diagnostics.version'' ''success'' (dq_tenant q) (dq_env q) (pbt_id t) None db of
           Inl x \<Rightarrow> (Inl x, db, v') | Inr db' \<Rightarrow> (Inr r, db', v')))))"

section \<open>The command line of an exchange\<close>

text \<open>What a command prints, or the exception of the connection; each part of the status swallows it.\<close>

record asterisk_cli =
  cli_running :: "string res"
  cli_version :: "string res"
  cli_channels :: "string res"
  cli_contacts :: "string res"
  cli_peers :: "string res"
  cli_uptime :: "string res"
  cli_calls :: "string res"

record asterisk_status =
  as_up :: bool
  as_version :: "string option"
  as_calls :: int
  as_channels :: int
  as_regs :: int
  as_processed :: int
  as_uptime :: int
  as_human :: "string option"
  as_calls_24h :: int

definition no_asterisk :: asterisk_status where
  "no_asterisk = \<lparr>as_up = False, as_version = None, as_calls = 0, as_channels = 0, as_regs = 0, as_processed = 0, as_uptime = 0,
     as_human = None, as_calls_24h = 0\<rparr>"

definition asterisk_running :: "string res \<Rightarrow> bool" where
  "asterisk_running out = (case out of Inl x \<Rightarrow> False
     | Inr raw \<Rightarrow> (case py_int (if raw = [] then ''0'' else raw) of None \<Rightarrow> False | Some n \<Rightarrow> n > 0))"

fun before :: "string \<Rightarrow> string \<Rightarrow> string" where
  "before p [] = []"
| "before p (c # s) = (if prefix p (c # s) then [] else c # before p s)"

fun behind :: "string \<Rightarrow> string \<Rightarrow> string" where
  "behind p [] = []"
| "behind p (c # s) = (if prefix p (c # s) then drop (length p) (c # s) else behind p s)"

definition asterisk_version :: "string res \<Rightarrow> string option" where
  "asterisk_version out = (case out of Inl x \<Rightarrow> None
     | Inr raw \<Rightarrow> if \<not> contains ''Asterisk'' raw then None
         else Some (if contains ''Asterisk '' raw then before '' '' (before ''Asterisk '' (behind ''Asterisk '' raw)) else take 60 raw))"

definition first_number :: "string \<Rightarrow> int option" where
  "first_number l = (let d = takeWhile is_digit (dropWhile (\<lambda>c. \<not> is_digit c) l) in if d = [] then None else Some (int (digits_val d)))"

definition or_keep :: "int \<Rightarrow> int option \<Rightarrow> int" where
  "or_keep old n = (case n of None \<Rightarrow> old | Some k \<Rightarrow> k)"

definition channel_line :: "string \<Rightarrow> asterisk_status \<Rightarrow> asterisk_status" where
  "channel_line l a = (if contains ''active call'' (lower l) then a\<lparr>as_calls := or_keep (as_calls a) (first_number l)\<rparr>
     else if contains ''active channel'' (lower l) then a\<lparr>as_channels := or_keep (as_channels a) (first_number l)\<rparr>
     else if contains ''calls processed'' (lower l) then a\<lparr>as_processed := or_keep (as_processed a) (first_number l)\<rparr> else a)"

definition extension_like :: "string \<Rightarrow> bool" where
  "extension_like s = (length s \<in> {3, 4} \<and> list_all is_digit s)"

definition up_to_slash :: "string \<Rightarrow> string" where
  "up_to_slash s = strip (takeWhile (\<lambda>c. c \<noteq> CHR ''/'') s)"

definition registered_contact :: "string \<Rightarrow> bool" where
  "registered_contact l = (let s = strip l in s \<noteq> [] \<and> \<not> prefix ''='' s \<and> \<not> prefix ''-'' s \<and> \<not> contains ''Objects found'' s
     \<and> \<not> contains ''<Aor'' s \<and> \<not> contains ''Hash'' s \<and> (contains ''Avail'' l \<or> contains ''NonQual'' l)
     \<and> extension_like (up_to_slash (if prefix ''Contact:'' s then strip (drop 8 s) else s)))"

definition registered_peer :: "string \<Rightarrow> bool" where
  "registered_peer l = (let s = strip l in s \<noteq> [] \<and> \<not> prefix ''Name'' s \<and> \<not> prefix ''-'' s \<and> \<not> contains ''peers'' (lower s)
     \<and> contains ''OK'' l \<and> extension_like (up_to_slash s))"

definition count_in :: "(string \<Rightarrow> bool) \<Rightarrow> string res \<Rightarrow> int" where
  "count_in p out = (case out of Inl x \<Rightarrow> 0 | Inr raw \<Rightarrow> if raw = [] then 0 else int (length (filter p (lines_of raw))))"

text \<open>A number, blanks, and a unit of time, in any case.\<close>

definition time_units :: "(string \<times> int) list" where
  "time_units = [(''week'', 604800), (''day'', 86400), (''hour'', 3600), (''minute'', 60), (''second'', 1)]"

definition match_span :: "string \<Rightarrow> (int \<times> string) option" where
  "match_span s = (let d = takeWhile is_digit s; t = dropWhile is_digit s; u = lstrip t in
     if d = [] \<or> u = t then None
     else (case List.find (\<lambda>(w, n). prefix w (lower u)) time_units of
       None \<Rightarrow> None | Some (w, n) \<Rightarrow> Some (int (digits_val d) * n, drop (length w) u)))"

definition uptime_seconds :: "string \<Rightarrow> int" where
  "uptime_seconds raw = sum_list (matches_in match_span raw)"

definition calls_of_day :: "string res \<Rightarrow> int" where
  "calls_of_day out = (case out of Inl x \<Rightarrow> 0 | Inr raw \<Rightarrow> if raw \<noteq> [] \<and> list_all is_digit raw then int (digits_val raw) else 0)"

definition parse_asterisk_status :: "asterisk_cli \<Rightarrow> asterisk_status" where
  "parse_asterisk_status c = (if \<not> asterisk_running (cli_running c) then no_asterisk
     else (let a = (case cli_channels c of Inl x \<Rightarrow> no_asterisk | Inr raw \<Rightarrow> if raw = [] then no_asterisk else fold channel_line (lines_of raw) no_asterisk) in
       a\<lparr>as_up := True, as_version := asterisk_version (cli_version c),
         as_regs := count_in registered_contact (cli_contacts c) + count_in registered_peer (cli_peers c),
         as_uptime := (case cli_uptime c of Inl x \<Rightarrow> 0 | Inr raw \<Rightarrow> uptime_seconds raw),
         as_human := (case cli_uptime c of Inl x \<Rightarrow> None | Inr raw \<Rightarrow> if raw = [] then None else Some (strip raw)),
         as_calls_24h := calls_of_day (cli_calls c)\<rparr>))"

text \<open>What one login over SSH brings: system metrics and the status, or the error.\<close>

record 'm snapshot =
  sn_ok :: bool
  sn_system :: 'm
  sn_asterisk :: asterisk_status
  sn_error :: "string option"

type_synonym 'm ssh_session = "string \<Rightarrow> int \<Rightarrow> string \<Rightarrow> json \<Rightarrow> json \<Rightarrow> ('m \<times> asterisk_cli) res"

definition collect_node_snapshot :: "'m \<Rightarrow> 'm ssh_session \<Rightarrow> string \<Rightarrow> int \<Rightarrow> string \<Rightarrow> json \<Rightarrow> json \<Rightarrow> 'm snapshot" where
  "collect_node_snapshot none ssh host port user key password = (case ssh host port user key password of
     Inl x \<Rightarrow> \<lparr>sn_ok = False, sn_system = none, sn_asterisk = no_asterisk, sn_error = Some (exn_class x @ '': '' @ take 200 (exn_text x))\<rparr>
   | Inr (m, c) \<Rightarrow> \<lparr>sn_ok = True, sn_system = m, sn_asterisk = parse_asterisk_status c, sn_error = None\<rparr>)"

section \<open>The fleet\<close>

record 'm fleet_node =
  fn_target :: string
  fn_name :: string
  fn_host :: string
  fn_status :: string
  fn_online :: bool
  fn_ssh :: bool
  fn_ami :: bool
  fn_asterisk :: asterisk_status
  fn_system :: 'm
  fn_polled :: "int option"
  fn_error :: "string option"

record ('m, 'v) fleet_env =
  fe_vault :: "'v vault_http"
  fe_net :: pbx_net
  fe_ssh :: "'m ssh_session"
  fe_none :: 'm
  fe_average :: "'m list \<Rightarrow> 'm"

definition ssh_credential :: "'v vault_http \<Rightarrow> pbx_row \<Rightarrow> string option \<Rightarrow> 'v \<Rightarrow> json \<times> 'v" where
  "ssh_credential vh t alias v = (if \<not> given_text alias then (JNull, v)
     else (case fetch_secret vh (the alias) (pbt_tenant t) (pbt_env t) ''fleet_status'' v of
       (Inl x, v') \<Rightarrow> (JNull, v') | (Inr s, v') \<Rightarrow> (s, v')))"

definition ami_login_works :: "('m, 'v) fleet_env \<Rightarrow> pbx_row \<Rightarrow> 'v \<Rightarrow> bool \<times> 'v" where
  "ami_login_works en t v = (case fetch_secret (fe_vault en) (pbt_ami_alias t) (pbt_tenant t) (pbt_env t) ''fleet_status_ami'' v of
     (Inl x, v') \<Rightarrow> (False, v') | (Inr s, v') \<Rightarrow> (pn_login (fe_net en) (pbt_host t) (pbt_ami_port t) (pbt_ami_user t) s, v'))"

definition unpolled_node :: "'m \<Rightarrow> pbx_row \<Rightarrow> 'm fleet_node" where
  "unpolled_node none t = \<lparr>fn_target = pbt_id t, fn_name = pbt_name t, fn_host = pbt_host t, fn_status = pbt_status t, fn_online = False,
     fn_ssh = False, fn_ami = False, fn_asterisk = no_asterisk, fn_system = none, fn_polled = None, fn_error = None\<rparr>"

definition poll_single_target :: "('m, 'v) fleet_env \<Rightarrow> int \<Rightarrow> pbx_row \<Rightarrow> 'v \<Rightarrow> 'm fleet_node \<times> 'v" where
  "poll_single_target en now t v = (let node = unpolled_node (fe_none en) t in
     if pbt_status t \<noteq> ''active'' then (node, v)
     else if \<not> pn_ssh_open (fe_net en) (pbt_host t) (pbt_ssh_port t)
     then (node\<lparr>fn_error := Some (''SSH port '' @ str_int (pbt_ssh_port t) @ '' unreachable on '' @ pbt_host t)\<rparr>, v)
     else (case ssh_credential (fe_vault en) t (pbt_key_alias t) v of (key, v1) \<Rightarrow>
       case ssh_credential (fe_vault en) t (pbt_pass_alias t) v1 of (password, v2) \<Rightarrow>
       if \<not> truthy key \<and> \<not> truthy password then (node\<lparr>fn_online := True, fn_error := Some ''No SSH credentials configured''\<rparr>, v2)
       else (let snap = collect_node_snapshot (fe_none en) (fe_ssh en) (pbt_host t) (pbt_ssh_port t) (pbt_ssh_user t) key password in
         if \<not> sn_ok snap then (node\<lparr>fn_online := True, fn_error := sn_error snap, fn_polled := Some now\<rparr>, v2)
         else (case (if as_up (sn_asterisk snap) then ami_login_works en t v2 else (False, v2)) of (ami, v3) \<Rightarrow>
           (node\<lparr>fn_online := True, fn_ssh := True, fn_ami := ami, fn_asterisk := sn_asterisk snap, fn_system := sn_system snap,
              fn_polled := Some now\<rparr>, v3)))))"

fun poll_targets :: "('m, 'v) fleet_env \<Rightarrow> int \<Rightarrow> pbx_row list \<Rightarrow> 'v \<Rightarrow> 'm fleet_node list \<times> 'v" where
  "poll_targets en now [] v = ([], v)"
| "poll_targets en now (t # ts) v = (case poll_single_target en now t v of (n, v1) \<Rightarrow>
     case poll_targets en now ts v1 of (ns, v2) \<Rightarrow> (n # ns, v2))"

record 'm fleet_summary =
  fs_total :: nat
  fs_online :: nat
  fs_offline :: nat
  fs_up :: nat
  fs_down :: nat
  fs_calls :: int
  fs_calls_24h :: int
  fs_regs :: int
  fs_system :: 'm

definition build_summary :: "('m list \<Rightarrow> 'm) \<Rightarrow> 'm fleet_node list \<Rightarrow> 'm fleet_summary" where
  "build_summary average nodes = (let active = filter (\<lambda>n. fn_status n = ''active'') nodes; on = filter fn_online active in
     \<lparr>fs_total = length active, fs_online = length on, fs_offline = length (filter (\<lambda>n. \<not> fn_online n) active),
      fs_up = length (filter (\<lambda>n. as_up (fn_asterisk n)) on), fs_down = length (filter (\<lambda>n. \<not> as_up (fn_asterisk n)) on),
      fs_calls = sum_list (List.map (\<lambda>n. as_calls (fn_asterisk n)) on),
      fs_calls_24h = sum_list (List.map (\<lambda>n. as_calls_24h (fn_asterisk n)) on),
      fs_regs = sum_list (List.map (\<lambda>n. as_regs (fn_asterisk n)) on), fs_system = average (List.map fn_system on)\<rparr>)"

type_synonym 'm fleet_view = "'m fleet_node list \<times> 'm fleet_summary option"

record 'm fleet_cache =
  fc_view :: "'m fleet_view option"
  fc_time :: int
  fc_refreshing :: bool

definition CACHE_TTL :: int where
  "CACHE_TTL = 60"

text \<open>\<open>None\<close> is a database that cannot be reached: the answer is an empty fleet, and the cache stays.\<close>

definition refresh_fleet ::
  "('m, 'v) fleet_env \<Rightarrow> int \<Rightarrow> pbx_db option \<Rightarrow> 'm fleet_cache \<Rightarrow> 'v \<Rightarrow> 'm fleet_view \<times> 'm fleet_cache \<times> 'v" where
  "refresh_fleet en now db st v = (case db of
     None \<Rightarrow> (([], None), st\<lparr>fc_refreshing := False\<rparr>, v)
   | Some d \<Rightarrow> (case poll_targets en now (select_all (\<lambda>t. pbt_status t = ''active'') (pd_targets d)) v of (nodes, v') \<Rightarrow>
       (let view = (nodes, Some (build_summary (fe_average en) nodes)) in
        (view, st\<lparr>fc_view := Some view, fc_time := now, fc_refreshing := False\<rparr>, v'))))"

text \<open>The cached view, also when it is old, and how many refreshes are started: without a view the request
  refreshes itself, beside the task it has started.\<close>

definition fleet_status ::
  "('m, 'v) fleet_env \<Rightarrow> int \<Rightarrow> pbx_db option \<Rightarrow> 'm fleet_cache \<Rightarrow> 'v \<Rightarrow> 'm fleet_view \<times> nat \<times> 'm fleet_cache \<times> 'v" where
  "fleet_status en now db st v = (let started = (if (fc_view st = None \<or> now - fc_time st > CACHE_TTL) \<and> \<not> fc_refreshing st then 1 else 0) in
     case fc_view st of
       Some view \<Rightarrow> (view, started, st, v)
     | None \<Rightarrow> (case refresh_fleet en now db st v of (view, st', v') \<Rightarrow> (view, Suc started, st', v')))"

definition fleet_node_status :: "('m, 'v) fleet_env \<Rightarrow> int \<Rightarrow> string \<Rightarrow> pbx_db \<Rightarrow> 'v \<Rightarrow> ('m fleet_node) res \<times> 'v" where
  "fleet_node_status en now i db v = (case table_look pbt_id (pd_targets db) i of
     None \<Rightarrow> (Inl (HTTPException 404 (''Target '' @ in_quotes i @ '' not found'')), v)
   | Some t \<Rightarrow> (case poll_single_target en now t v of (n, v') \<Rightarrow> (Inr n, v')))"

definition fleet_summary_of ::
  "('m, 'v) fleet_env \<Rightarrow> int \<Rightarrow> pbx_db option \<Rightarrow> 'm fleet_cache \<Rightarrow> 'v \<Rightarrow> 'm fleet_summary option \<times> 'm fleet_cache \<times> 'v" where
  "fleet_summary_of en now db st v = (case fc_view st of
     Some view \<Rightarrow> (snd view, st, v)
   | None \<Rightarrow> (case refresh_fleet en now db st v of (view, st', v') \<Rightarrow> (snd view, st', v')))"

text \<open>The count of nodes with those on- and offline, or nothing while a refresh runs.\<close>

definition fleet_refresh ::
  "('m, 'v) fleet_env \<Rightarrow> int \<Rightarrow> pbx_db option \<Rightarrow> 'm fleet_cache \<Rightarrow> 'v \<Rightarrow> (nat \<times> nat \<times> nat) option \<times> 'm fleet_cache \<times> 'v" where
  "fleet_refresh en now db st v = (if fc_refreshing st then (None, st, v)
     else (case refresh_fleet en now db st v of ((nodes, s), st', v') \<Rightarrow>
       (Some (length nodes, case s of None \<Rightarrow> 0 | Some s \<Rightarrow> fs_online s, case s of None \<Rightarrow> 0 | Some s \<Rightarrow> fs_offline s), st', v')))"

section \<open>What a report says\<close>

definition coherent_node :: "'m fleet_node \<Rightarrow> bool" where
  "coherent_node n = ((fn_ami n \<longrightarrow> as_up (fn_asterisk n)) \<and> (as_up (fn_asterisk n) \<longrightarrow> fn_ssh n)
     \<and> (fn_ssh n \<longrightarrow> fn_online n \<and> fn_polled n \<noteq> None) \<and> (fn_error n = None \<longleftrightarrow> fn_ssh n))"

lemma down_asterisk [simp]: "\<not> as_up no_asterisk"
  by (simp add: no_asterisk_def)

lemma unpolled_node_simps [simp]:
  "fn_target (unpolled_node m t) = pbt_id t" "fn_status (unpolled_node m t) = pbt_status t" "\<not> fn_online (unpolled_node m t)"
  "\<not> fn_ssh (unpolled_node m t)" "\<not> fn_ami (unpolled_node m t)" "fn_asterisk (unpolled_node m t) = no_asterisk"
  "fn_error (unpolled_node m t) = None"
  by (simp_all add: unpolled_node_def)

lemma poll_single_coherent:
  assumes "poll_single_target en now t v = (n, v')" "pbt_status t = ''active''"
  shows "coherent_node n \<and> fn_target n = pbt_id t \<and> fn_status n = ''active''"
  using assms
  by (auto simp: poll_single_target_def Let_def coherent_node_def collect_node_snapshot_def split: prod.splits if_splits sum.splits)

lemma poll_targets_coherent:
  "poll_targets en now ts v = (ns, v') \<Longrightarrow> list_all (\<lambda>t. pbt_status t = ''active'') ts
    \<Longrightarrow> List.map fn_target ns = List.map pbt_id ts \<and> list_all (\<lambda>n. coherent_node n \<and> fn_status n = ''active'') ns"
proof (induction en now ts v arbitrary: ns v' rule: poll_targets.induct)
  case (2 en now t ts v)
  obtain n v1 where p: "poll_single_target en now t v = (n, v1)" by (metis surj_pair)
  obtain ms v2 where q: "poll_targets en now ts v1 = (ms, v2)" by (metis surj_pair)
  have "ns = n # ms" using 2(2) p q by simp
  then show ?case using 2(1)[OF p[symmetric] q] 2(3) poll_single_coherent[OF p] by simp
qed simp

lemma count_split: "length (filter (\<lambda>x. Q x \<and> P x) xs) + length (filter (\<lambda>x. Q x \<and> \<not> P x) xs) = length (filter Q xs)"
  by (induction xs) simp_all

text \<open>The report of the fleet adds up.  After a refresh the view holds one node for every active exchange, in the
  order of the table; those on- and offline add up to the total, those with a running and a stopped Asterisk to those
  online; and each node is coherent: the manager interface is only reported where Asterisk runs, Asterisk only behind a
  login over SSH, that only on a reachable host, and a node has an error exactly when there was no such login.\<close>

theorem fleet_report_adds_up:
  assumes "refresh_fleet en now (Some d) st v = ((nodes, s), st', v')"
  shows "\<exists>m. s = Some m \<and> fc_view st' = Some (nodes, Some m) \<and> fc_time st' = now
    \<and> List.map fn_target nodes = List.map pbt_id (select_all (\<lambda>t. pbt_status t = ''active'') (pd_targets d))
    \<and> fs_total m = length nodes \<and> fs_online m + fs_offline m = fs_total m \<and> fs_up m + fs_down m = fs_online m
    \<and> list_all coherent_node nodes"
proof -
  let ?ts = "select_all (\<lambda>t. pbt_status t = ''active'') (pd_targets d)"
  have p: "poll_targets en now ?ts v = (nodes, v')" and s: "s = Some (build_summary (fe_average en) nodes)"
    and st: "st' = st\<lparr>fc_view := Some (nodes, s), fc_time := now, fc_refreshing := False\<rparr>"
    using assms by (auto simp: refresh_fleet_def Let_def split: prod.splits)
  have "list_all (\<lambda>t. pbt_status t = ''active'') ?ts" by (simp add: select_all_def list_all_iff)
  note nodes = poll_targets_coherent[OF p this]
  then have "filter (\<lambda>n. fn_status n = ''active'') nodes = nodes" by (simp add: list_all_iff)
  moreover have "list_all coherent_node nodes" using nodes by (simp add: list_all_iff)
  ultimately show ?thesis using nodes st
    by (simp add: s build_summary_def Let_def count_split count_split[of "\<lambda>x. True", simplified])
qed

text \<open>The seconds of a reload count as the uptime.\<close>

lemma reload_counts_as_uptime: "uptime_seconds (''System uptime: 2 hours'' @ CHR 10 # ''Last reload: 1 hour'') = 10800"
  by code_simp

text \<open>A token behind the scheme of an authorization header stays.\<close>

lemma bearer_token_stays: "redact_output ''Authorization: Bearer abc'' = ''Authorization: [REDACTED] abc''"
proof (rule redact_unchanged)
  show "sub_pattern match_pem (sub_pattern match_blob (sub_pattern match_header (sub_pattern match_pair ''Authorization: Bearer abc'')))
      = ''Authorization: [REDACTED] abc''" by code_simp
qed simp_all

section \<open>Examples\<close>

definition demo_channels :: string where
  "demo_channels = ''2 active channels'' @ CHR 10 # ''1 active call'' @ CHR 10 # ''7 calls processed''"

definition demo_cli :: asterisk_cli where
  "demo_cli = \<lparr>cli_running = Inr ''3'', cli_version = Inr ''Asterisk 18.9 built'', cli_channels = Inr demo_channels,
     cli_contacts = Inr ''Contact:  201/sip:201@h  abc  Avail  1'', cli_peers = Inl (PyError ''TimeoutError'' []), cli_uptime = Inr ''1 hour'', cli_calls = Inr ''12''\<rparr>"

definition demo_fleet :: "(unit, string \<times> string \<times> string \<Rightarrow> (string \<times> bool) option) fleet_env" where
  "demo_fleet = \<lparr>fe_vault = demo_pbx_vault, fe_net = demo_pbx_net\<lparr>pn_ssh_open := (\<lambda>h p. True)\<rparr>,
     fe_ssh = (\<lambda>h p u k s. Inr ((), demo_cli)), fe_none = (), fe_average = (\<lambda>ms. ())\<rparr>"

definition demo_view :: "unit fleet_view \<times> unit fleet_cache \<times> (string \<times> string \<times> string \<Rightarrow> (string \<times> bool) option)" where
  "demo_view = refresh_fleet demo_fleet 7 (Some (fst (snd (register_and_verify demo_pbx_vault demo_pbx_net demo_pbx_caller
       ((demo_register ''PBX-A'' ''one'')\<lparr>rg_password := Some ''pw''\<rparr>) empty_pbx (\<lambda>_. None)))))
     \<lparr>fc_view = None, fc_time = 0, fc_refreshing = False\<rparr>
     (snd (snd (register_and_verify demo_pbx_vault demo_pbx_net demo_pbx_caller
       ((demo_register ''PBX-A'' ''one'')\<lparr>rg_password := Some ''pw''\<rparr>) empty_pbx (\<lambda>_. None))))"

theorem fleet_report_adds_up_witness:
  "List.map (\<lambda>n. (fn_ami n, as_calls (fn_asterisk n), as_regs (fn_asterisk n), as_uptime (fn_asterisk n))) (fst (fst demo_view)) = [(True, 1, 1, 3600)]
     \<and> list_all coherent_node (fst (fst demo_view))"
proof
  show "List.map (\<lambda>n. (fn_ami n, as_calls (fn_asterisk n), as_regs (fn_asterisk n), as_uptime (fn_asterisk n))) (fst (fst demo_view)) = [(True, 1, 1, 3600)]"
    by code_simp
  show "list_all coherent_node (fst (fst demo_view))"
    using fleet_report_adds_up[where nodes = "fst (fst demo_view)" and s = "snd (fst demo_view)" and st' = "fst (snd demo_view)"
      and v' = "snd (snd demo_view)", OF demo_view_def[symmetric, THEN trans]] by (simp, blast)
qed

end
