(* ===== verification/CarrierAgent.thy ===== *)
theory CarrierAgent
  imports "Dns" "TaskDispatch"
begin

text \<open>
  The agent for carriers (\<open>apps/carrier_agent\<close>): its requests to Twilio with retries, the adapters for Twilio and
  for the fixture (\<open>adapters\<close>), the client of the vault it embeds, the handler that answers a task with proposed
  writes (\<open>main.py\<close>), and the worker (\<open>jobs/runner.py\<close>).  What HTTP answers, the fixture, the clock and new
  identifiers are arguments; the answer has the shape the worker of the dispatch takes.
\<close>

section \<open>Requests to Twilio\<close>

definition account_char :: "char \<Rightarrow> bool" where
  "account_char c = (let n = of_char c :: nat in 48 \<le> n \<and> n \<le> 57 \<or> 65 \<le> n \<and> n \<le> 90 \<or> 97 \<le> n \<and> n \<le> 122 \<or> c = CHR ''_'')"

function hide_account :: "string \<Rightarrow> string" where
  "hide_account [] = []"
| "hide_account (c # s) = (if prefix ''/Accounts/AC'' (c # s) \<and> takeWhile account_char (drop 12 (c # s)) \<noteq> []
     then ''/Accounts/[REDACTED]'' @ hide_account (dropWhile account_char (drop 12 (c # s))) else c # hide_account s)"
  by pat_completeness auto

termination hide_account
proof (relation "measure length")
  fix c :: char and s
  have "length (dropWhile account_char (drop 12 (c # s))) \<le> length (drop 12 (c # s))" by (rule length_dropWhile_le)
  then show "(dropWhile account_char (drop 12 (c # s)), c # s) \<in> measure length" by simp
qed simp_all

definition tw_judge :: "(json \<Rightarrow> string) \<Rightarrow> provider_request \<Rightarrow> nat \<Rightarrow> provider_outcome \<Rightarrow> json verdict" where
  "tw_judge shw q a out = (case out of
     POTimeout e \<Rightarrow> Again (Some e)
   | POFailure e \<Rightarrow> Stop (Inl e)
   | POAnswer r \<Rightarrow>
       if pr_status r = 429 then
         (case pr_retry_after r of
            Some t \<Rightarrow> if py_float_ok t then Again None else Stop (Inl (PyError ''ValueError'' (''could not convert string to float: '' @ t)))
          | None \<Rightarrow> Again None)
       else if pr_status r \<ge> 500 \<and> a < max_retries then Again None
       else if pr_status r = 404 then Stop (Inr (JObj []))
       else if pr_status r \<ge> 400 then Stop (bind_res (if pr_text r = [] then Inr (JObj []) else pr_json r) (\<lambda>body.
         bind_res (py_get ''message'' (JStr (take 200 (pr_text r))) body) (\<lambda>m.
         Inl (PyError ''RuntimeError'' (''Twilio '' @ pq_method q @ '' '' @ hide_account (pq_path q) @ '' -> '' @ str_int (pr_status r)
           @ '': '' @ py_str shw m)))))
       else Stop (if pr_text r = [] then Inr (JObj []) else pr_json r))"

definition tw_gone :: "string \<Rightarrow> exn" where
  "tw_gone err = PyError ''RuntimeError'' (''Twilio request failed after '' @ digits_of max_retries @ '' attempts: '' @ err)"

definition twilio_request :: "'s transport \<Rightarrow> (json \<Rightarrow> string) \<Rightarrow> provider_request \<Rightarrow> (json, 's) call" where
  "twilio_request send shw q = retry_from send (tw_judge shw q) tw_gone q ''None'' [1..<Suc max_retries]"

section \<open>What the adapters return\<close>

record carrier_account =
  ka_provider :: string
  ka_status :: json
  ka_balance :: json
  ka_currency :: string
  ka_friendly :: json

record did_record =
  di_number :: json
  di_region :: json
  di_country :: json
  di_voice :: json
  di_sms :: json
  di_mms :: json
  di_e911 :: json
  di_assigned :: json
  di_tags :: json
  di_sid :: json

record trunk_record =
  kt_id :: json
  kt_friendly :: json
  kt_status :: json
  kt_origination :: json
  kt_domain :: json
  kt_tags :: json

record cnam_status =
  cn_registered :: json
  cn_display :: json
  cn_status :: json

text \<open>The dictionaries of the data classes, in the order of their fields.\<close>

definition did_dict :: "did_record \<Rightarrow> dict" where
  "did_dict d = [(''number'', di_number d), (''region'', di_region d), (''country_code'', di_country d), (''voice_enabled'', di_voice d),
     (''sms_enabled'', di_sms d), (''mms_enabled'', di_mms d), (''e911_status'', di_e911 d), (''assigned_to'', di_assigned d),
     (''tags'', di_tags d), (''provider_sid'', di_sid d)]"

definition trunk_dict :: "trunk_record \<Rightarrow> dict" where
  "trunk_dict t = [(''trunk_id'', kt_id t), (''friendly_name'', kt_friendly t), (''status'', kt_status t),
     (''origination_url'', kt_origination t), (''termination_sip_domain'', kt_domain t), (''tags'', kt_tags t)]"

definition messaging_dict :: "json \<Rightarrow> dict" where
  "messaging_dict s = [(''overall_status'', s), (''monthly_sent'', JNull), (''monthly_received'', JNull)]"

definition cnam_dict :: "cnam_status \<Rightarrow> dict" where
  "cnam_dict c = [(''registered'', cn_registered c), (''display_name'', cn_display c), (''status'', cn_status c)]"

text \<open>The interface all adapters implement.\<close>

record 's carrier_adapter =
  ca_account :: "(carrier_account, 's) call"
  ca_dids :: "(did_record list, 's) call"
  ca_did :: "json \<Rightarrow> (did_record option, 's) call"
  ca_trunks :: "(trunk_record list, 's) call"
  ca_messaging :: "(json, 's) call"
  ca_cnam :: "json \<Rightarrow> (cnam_status, 's) call"
  ca_purchase :: "string \<Rightarrow> dict \<Rightarrow> (did_record, 's) call"
  ca_release :: "string \<Rightarrow> json \<Rightarrow> (bool, 's) call"
  ca_trunk :: "string \<Rightarrow> string \<Rightarrow> string option \<Rightarrow> (trunk_record, 's) call"

section \<open>Twilio\<close>

record 's twilio =
  tw_http :: "'s http_env"
  tw_sid :: string
  tw_token :: string

definition accounts_url :: "'s twilio \<Rightarrow> string \<Rightarrow> string" where
  "accounts_url w path = ''https://api.twilio.com/2010-04-01/Accounts/'' @ tw_sid w @ path @ ''.json''"

definition trunks_url :: string where
  "trunks_url = ''https://trunking.twilio.com/v1/Trunks''"

definition tw_call :: "'s twilio \<Rightarrow> string \<Rightarrow> string \<Rightarrow> (string \<times> json) list \<Rightarrow> json option \<Rightarrow> (json, 's) call" where
  "tw_call w meth url params form = twilio_request (he_send (tw_http w)) (he_show (tw_http w))
     \<lparr>pq_method = meth, pq_path = url, pq_auth = [(tw_sid w, tw_token w)], pq_params = params, pq_json = form\<rparr>"

definition tw_account :: "'s twilio \<Rightarrow> (carrier_account, 's) call" where
  "tw_account w = bind_call (tw_call w ''GET'' (accounts_url w []) [] None) (\<lambda>data. give (
     bind_res (py_get ''status'' (JStr ''unknown'') data) (\<lambda>st. bind_res (py_get ''friendly_name'' (JStr []) data) (\<lambda>f.
       Inr \<lparr>ka_provider = ''twilio'', ka_status = st, ka_balance = JNull, ka_currency = ''USD'', ka_friendly = f\<rparr>))))"

definition twilio_did :: "json \<Rightarrow> did_record res" where
  "twilio_did n = bind_res (py_get ''phone_number'' (JStr []) n) (\<lambda>number. bind_res (py_get ''region'' JNull n) (\<lambda>region.
     bind_res (py_get ''iso_country'' (JStr ''US'') n) (\<lambda>country. bind_res (py_get ''capabilities'' (JObj []) n) (\<lambda>caps.
     bind_res (py_get ''voice'' (JBool False) caps) (\<lambda>voice. bind_res (py_get ''SMS'' (JBool False) caps) (\<lambda>sms.
     bind_res (py_get ''MMS'' (JBool False) caps) (\<lambda>mms. bind_res (py_get ''sid'' JNull n) (\<lambda>sid.
     bind_res (py_get ''voice_application_sid'' JNull n) (\<lambda>app.
       Inr \<lparr>di_number = number, di_region = region, di_country = country, di_voice = voice, di_sms = sms, di_mms = mms,
         di_e911 = JNull, di_assigned = app, di_tags = JList [], di_sid = sid\<rparr>)))))))))"

definition tw_dids :: "'s twilio \<Rightarrow> (did_record list, 's) call" where
  "tw_dids w = bind_call (tw_call w ''GET'' (accounts_url w ''/IncomingPhoneNumbers'') [(''PageSize'', JInt 1000)] None) (\<lambda>data. give (
     bind_res (py_get ''incoming_phone_numbers'' (JList []) data) (\<lambda>j. bind_res (py_iterate j) (map_res twilio_did))))"

definition tw_did :: "'s twilio \<Rightarrow> json \<Rightarrow> (did_record option, 's) call" where
  "tw_did w number = bind_call (tw_call w ''GET'' (accounts_url w ''/IncomingPhoneNumbers'')
       [(''PhoneNumber'', number), (''PageSize'', JInt 10)] None) (\<lambda>data. give (
     bind_res (py_get ''incoming_phone_numbers'' (JList []) data) (\<lambda>j.
       if \<not> truthy j then Inr None else bind_res (py_first j) (\<lambda>n. map_sum id Some (twilio_did n)))))"

definition twilio_trunk :: "json \<Rightarrow> trunk_record res" where
  "twilio_trunk t = bind_res (py_get ''sid'' (JStr []) t) (\<lambda>i. bind_res (py_get ''friendly_name'' (JStr []) t) (\<lambda>f.
     bind_res (py_get ''domain_name'' JNull t) (\<lambda>dm. Inr \<lparr>kt_id = i, kt_friendly = f, kt_status = JStr ''active'', kt_origination = JNull,
       kt_domain = dm, kt_tags = JList []\<rparr>)))"

definition tw_trunks :: "'s twilio \<Rightarrow> (trunk_record list, 's) call" where
  "tw_trunks w = bind_call (tw_call w ''GET'' trunks_url [(''PageSize'', JInt 100)] None) (\<lambda>data. give (
     bind_res (py_get ''trunks'' (JList []) data) (\<lambda>j. bind_res (py_iterate j) (map_res twilio_trunk))))"

definition tw_messaging :: "'s twilio \<Rightarrow> (json, 's) call" where
  "tw_messaging w = bind_call (tw_account w) (\<lambda>a. give (Inr (JStr (if ka_status a = JStr ''active'' then ''enabled'' else ''disabled''))))"

definition unknown_cnam :: cnam_status where
  "unknown_cnam = \<lparr>cn_registered = JBool False, cn_display = JNull, cn_status = JStr ''unknown''\<rparr>"

definition tw_cnam :: "'s twilio \<Rightarrow> json \<Rightarrow> (cnam_status, 's) call" where
  "tw_cnam w number = (if \<not> truthy number then give (Inr unknown_cnam)
     else bind_call (tw_did w number) (\<lambda>did. case did of
       None \<Rightarrow> give (Inr unknown_cnam)
     | Some d \<Rightarrow> if \<not> truthy (di_sid d) then give (Inr unknown_cnam)
         else bind_call (tw_call w ''GET'' (accounts_url w (''/IncomingPhoneNumbers/'' @ py_str (he_show (tw_http w)) (di_sid d))) [] None) (\<lambda>data. give (
           bind_res (py_get ''friendly_name'' (JStr []) data) (\<lambda>f.
             Inr \<lparr>cn_registered = JBool (truthy f), cn_display = (if truthy f then f else JNull),
               cn_status = JStr (if truthy f then ''registered'' else ''not_registered'')\<rparr>)))))"

definition tw_purchase :: "'s twilio \<Rightarrow> string \<Rightarrow> dict \<Rightarrow> (did_record, 's) call" where
  "tw_purchase w number caps = bind_call (tw_call w ''POST'' (accounts_url w ''/IncomingPhoneNumbers'') []
       (Some (JObj [(''PhoneNumber'', JStr number)]))) (\<lambda>data. give (twilio_did data))"

definition tw_delete :: "'s twilio \<Rightarrow> json \<Rightarrow> (bool, 's) call" where
  "tw_delete w sid s = (case tw_call w ''DELETE'' (accounts_url w (''/IncomingPhoneNumbers/'' @ py_str (he_show (tw_http w)) sid)) [] None s of
     (Inl x, s') \<Rightarrow> (Inr False, s') | (Inr _, s') \<Rightarrow> (Inr True, s'))"

definition tw_release :: "'s twilio \<Rightarrow> string \<Rightarrow> json \<Rightarrow> (bool, 's) call" where
  "tw_release w number sid = (if truthy sid then tw_delete w sid
     else bind_call (tw_did w (JStr number)) (\<lambda>did. case did of
       None \<Rightarrow> give (Inr False) | Some d \<Rightarrow> if truthy (di_sid d) then tw_delete w (di_sid d) else give (Inr False)))"

text \<open>The trunk to change: the one that is named, or the first with the same friendly name.\<close>

definition tw_trunk_sid :: "'s twilio \<Rightarrow> string \<Rightarrow> string \<Rightarrow> (json, 's) call" where
  "tw_trunk_sid w trunk friendly = (if trunk \<noteq> [] \<and> trunk \<noteq> ''new'' then give (Inr (JStr trunk))
     else bind_call (tw_trunks w) (\<lambda>ts. give (Inr (case List.find (\<lambda>t. kt_friendly t = JStr friendly) ts of Some t \<Rightarrow> kt_id t | None \<Rightarrow> JNull))))"

definition tw_trunk :: "'s twilio \<Rightarrow> string \<Rightarrow> string \<Rightarrow> string option \<Rightarrow> (trunk_record, 's) call" where
  "tw_trunk w trunk friendly domain = bind_call (tw_trunk_sid w trunk friendly) (\<lambda>sid.
     bind_call (tw_call w ''POST'' (if truthy sid then trunks_url @ ''/'' @ py_str (he_show (tw_http w)) sid else trunks_url) []
       (Some (JObj ((''FriendlyName'', JStr friendly) # (case domain of Some (c # d) \<Rightarrow> [(''DomainName'', JStr (c # d))] | _ \<Rightarrow> [])))))
     (\<lambda>data. give (twilio_trunk data)))"

definition twilio_adapter :: "'s twilio \<Rightarrow> 's carrier_adapter" where
  "twilio_adapter w = \<lparr>ca_account = tw_account w, ca_dids = tw_dids w, ca_did = tw_did w, ca_trunks = tw_trunks w, ca_messaging = tw_messaging w,
     ca_cnam = tw_cnam w, ca_purchase = tw_purchase w, ca_release = tw_release w, ca_trunk = tw_trunk w\<rparr>"

section \<open>The fixture\<close>

text \<open>The balance of 150.0 is an integer here.\<close>

definition mk_account :: "json res \<Rightarrow> carrier_account res" where
  "mk_account fix = bind_res fix (\<lambda>data. bind_res (py_get ''name'' (JStr ''Mock Provider'') data) (\<lambda>n.
     Inr \<lparr>ka_provider = ''mock'', ka_status = JStr ''active'', ka_balance = JInt 150, ka_currency = ''USD'', ka_friendly = n\<rparr>))"

definition mock_did :: "bool \<Rightarrow> json \<Rightarrow> did_record res" where
  "mock_did listed d = bind_res (py_item ''number'' d) (\<lambda>number. bind_res (py_get ''region'' JNull d) (\<lambda>region.
     bind_res (py_get ''voice_enabled'' (JBool True) d) (\<lambda>voice. bind_res (py_get ''sms_enabled'' (JBool False) d) (\<lambda>sms.
     bind_res (if listed then py_get ''e911_status'' JNull d else Inr JNull) (\<lambda>e911.
     bind_res (if listed then py_get ''assigned_to'' JNull d else Inr JNull) (\<lambda>asg.
     bind_res (py_get ''tags'' (JList []) d) (\<lambda>tags.
       Inr \<lparr>di_number = number, di_region = region, di_country = JStr ''US'', di_voice = voice, di_sms = sms, di_mms = JBool False,
         di_e911 = e911, di_assigned = asg, di_tags = tags, di_sid = JNull\<rparr>)))))))"

definition mk_dids :: "json res \<Rightarrow> did_record list res" where
  "mk_dids fix = bind_res fix (\<lambda>data. bind_res (py_get ''dids'' (JList []) data) (\<lambda>j. bind_res (py_iterate j) (map_res (mock_did True))))"

fun find_mock_did :: "json \<Rightarrow> json list \<Rightarrow> json res" where
  "find_mock_did number [] = Inr JNull"
| "find_mock_did number (d # ds) = bind_res (py_item ''number'' d) (\<lambda>n. if n = number then Inr d else find_mock_did number ds)"

definition mk_did :: "json res \<Rightarrow> json \<Rightarrow> did_record option res" where
  "mk_did fix number = bind_res fix (\<lambda>data. bind_res (py_get ''dids'' (JList []) data) (\<lambda>j. bind_res (py_iterate j) (\<lambda>ds.
     bind_res (find_mock_did number ds) (\<lambda>d. if \<not> truthy d then Inr None else map_sum id Some (mock_did False d)))))"

definition mock_trunk :: "json \<Rightarrow> trunk_record res" where
  "mock_trunk t = bind_res (py_item ''trunk_id'' t) (\<lambda>i. bind_res (py_get ''status'' (JStr ''active'') t) (\<lambda>st. bind_res (py_get ''tags'' (JList []) t) (\<lambda>tags.
     Inr \<lparr>kt_id = i, kt_friendly = JStr [], kt_status = st, kt_origination = JNull, kt_domain = JNull, kt_tags = tags\<rparr>)))"

definition mk_trunks :: "json res \<Rightarrow> trunk_record list res" where
  "mk_trunks fix = bind_res fix (\<lambda>data. bind_res (py_get ''trunks'' (JList []) data) (\<lambda>j. bind_res (py_iterate j) (map_res mock_trunk)))"

definition mk_messaging :: "json res \<Rightarrow> json res" where
  "mk_messaging fix = bind_res fix (\<lambda>data. bind_res (py_get ''messaging_status'' (JObj []) data) (py_get ''status'' (JStr ''enabled'')))"

definition mk_cnam :: "json res \<Rightarrow> cnam_status res" where
  "mk_cnam fix = bind_res fix (\<lambda>data. bind_res (py_get ''cnam_status'' (JObj []) data) (\<lambda>c.
     bind_res (py_get ''registered'' (JBool False) c) (\<lambda>r. bind_res (py_get ''display_name'' JNull c) (\<lambda>n.
     bind_res (py_get ''status'' (JStr ''unknown'') c) (\<lambda>st. Inr \<lparr>cn_registered = r, cn_display = n, cn_status = st\<rparr>)))))"

definition strip_plus :: "string \<Rightarrow> string" where
  "strip_plus s = rev (dropWhile (\<lambda>c. c = CHR ''+'') (rev (dropWhile (\<lambda>c. c = CHR ''+'') s)))"

definition mk_purchase :: "string \<Rightarrow> dict \<Rightarrow> did_record" where
  "mk_purchase number caps = \<lparr>di_number = JStr number, di_region = JStr ''Mock Region'', di_country = JStr ''US'',
     di_voice = dget caps ''voice'' (JBool True), di_sms = dget caps ''sms'' (JBool False), di_mms = dget caps ''mms'' (JBool False),
     di_e911 = JNull, di_assigned = JNull, di_tags = JList [], di_sid = JStr (''PNmock'' @ strip_plus number)\<rparr>"

definition mk_trunk :: "string \<Rightarrow> string \<Rightarrow> string option \<Rightarrow> trunk_record" where
  "mk_trunk trunk friendly domain = \<lparr>kt_id = JStr (if trunk \<noteq> [] \<and> trunk \<noteq> ''new'' then trunk else ''TKmock123''), kt_friendly = JStr friendly,
     kt_status = JStr ''active'', kt_origination = JNull, kt_domain = (case domain of None \<Rightarrow> JNull | Some d \<Rightarrow> JStr d), kt_tags = JList []\<rparr>"

definition mock_adapter :: "json res \<Rightarrow> 's carrier_adapter" where
  "mock_adapter fix = \<lparr>ca_account = give (mk_account fix), ca_dids = give (mk_dids fix), ca_did = (\<lambda>n. give (mk_did fix n)),
     ca_trunks = give (mk_trunks fix), ca_messaging = give (mk_messaging fix), ca_cnam = (\<lambda>n. give (mk_cnam fix)),
     ca_purchase = (\<lambda>n c. give (Inr (mk_purchase n c))), ca_release = (\<lambda>n sid. give (Inr True)), ca_trunk = (\<lambda>i f d. give (Inr (mk_trunk i f d)))\<rparr>"

section \<open>Credentials and the choice of the adapter\<close>

text \<open>\<open>VaultClient.get_secret\<close>: list, find the alias, read by identifier.\<close>

record 's carrier_env =
  cr_http :: "'s http_env"
  cr_mock :: bool
  cr_fixture :: "json res"
  cr_list :: "json \<Rightarrow> json \<Rightarrow> (int \<times> json res, 's) call"
  cr_read :: "json \<Rightarrow> (int \<times> json res, 's) call"
  cr_target :: "json \<Rightarrow> (int \<times> json res, 's) call"
  cr_now :: string
  cr_new_id :: string

fun find_alias :: "string \<Rightarrow> json list \<Rightarrow> json res" where
  "find_alias a [] = Inr JNull"
| "find_alias a (s # ss) = bind_res (py_item ''alias'' s) (\<lambda>x. if x = JStr a then Inr s else find_alias a ss)"

definition vault_list_status :: "string \<Rightarrow> int \<Rightarrow> unit res" where
  "vault_list_status alias n = (if n = 403 then Inl (PyError ''VaultAccessDenied'' (''Access denied listing secrets for alias '' @ in_quotes alias @ ''.''))
     else if n \<noteq> 200 then Inl (PyError ''VaultError'' (''Vault list failed: '' @ str_int n)) else Inr ())"

definition vault_read_status :: "string \<Rightarrow> int \<Rightarrow> unit res" where
  "vault_read_status alias n = (if n = 403 then Inl (PyError ''VaultAccessDenied'' (''Access denied reading secret alias '' @ in_quotes alias @ ''.''))
     else if n = 404 then Inl (PyError ''VaultNotFound'' (''Secret '' @ in_quotes alias @ '' not found during read.''))
     else if n \<noteq> 200 then Inl (PyError ''VaultError'' (''Vault read failed: '' @ str_int n)) else Inr ())"

definition vault_client_get :: "'s carrier_env \<Rightarrow> string \<Rightarrow> json \<Rightarrow> json \<Rightarrow> (json, 's) call" where
  "vault_client_get en alias tenant e = bind_call (cr_list en tenant e) (\<lambda>(n, body).
     bind_call (give (bind_res (vault_list_status alias n) (\<lambda>_. bind_res body (\<lambda>j. bind_res (py_iterate j) (find_alias alias))))) (\<lambda>s.
     if \<not> truthy s then give (Inl (PyError ''VaultNotFound'' (''Secret alias '' @ in_quotes alias @ '' not found for tenant=''
       @ py_str (he_show (cr_http en)) tenant @ '' env='' @ py_str (he_show (cr_http en)) e @ ''.'')))
     else bind_call (give (py_item ''id'' s)) (\<lambda>i. bind_call (cr_read en i) (\<lambda>(n2, body2).
       give (bind_res (vault_read_status alias n2) (\<lambda>_. bind_res body2 (py_item ''value'')))))))"

definition text_of :: "'s carrier_env \<Rightarrow> json \<Rightarrow> string" where
  "text_of en j = py_str (he_show (cr_http en)) j"

definition carrier_adapter_for :: "'s carrier_env \<Rightarrow> json \<Rightarrow> json \<Rightarrow> json \<Rightarrow> json \<Rightarrow> ('s carrier_adapter, 's) call" where
  "carrier_adapter_for en provider target tenant e = (if provider = JStr ''mock'' then give (Inr (mock_adapter (cr_fixture en)))
     else if provider = JStr ''twilio'' then
       bind_call (vault_client_get en (''carrier.'' @ text_of en target @ ''.account_sid'') tenant e) (\<lambda>sid.
       bind_call (vault_client_get en (''carrier.'' @ text_of en target @ ''.auth_token'') tenant e) (\<lambda>token.
         give (Inr (twilio_adapter \<lparr>tw_http = cr_http en, tw_sid = text_of en sid, tw_token = text_of en token\<rparr>))))
     else give (Inl (PyError ''ValueError'' (''Unknown carrier provider: '' @ in_quotes (text_of en provider) @ ''. Supported: twilio, mock''))))"

section \<open>The handler of tasks\<close>

record carrier_answer = agent_response +
  rs_error :: "(string \<times> string) option"

definition carrier_refused :: "string \<Rightarrow> string \<Rightarrow> carrier_answer" where
  "carrier_refused code message = \<lparr>rs_ok = False, rs_result = None, rs_writes = None, rs_tasks = None, rs_summary = None, rs_error = Some (code, message)\<rparr>"

definition base64_like :: "char \<Rightarrow> bool" where
  "base64_like c = (let n = of_char c :: nat in 48 \<le> n \<and> n \<le> 57 \<or> 65 \<le> n \<and> n \<le> 90 \<or> 97 \<le> n \<and> n \<le> 122
     \<or> c = CHR ''+'' \<or> c = CHR ''/'' \<or> c = CHR ''='')"

definition carrier_error :: "exn \<Rightarrow> string" where
  "carrier_error x = take 1000 (redact_runs base64_like (exn_text x))"

definition fetch_target_metadata :: "'s carrier_env \<Rightarrow> json \<Rightarrow> (json, 's) call" where
  "fetch_target_metadata en target = (if cr_mock en \<and> target = JStr ''mock''
     then give (Inr (JObj [(''name'', JStr ''Mock Provider''), (''provider'', JStr ''mock''), (''id'', target)]))
     else bind_call (cr_target en target) (\<lambda>(n, body). give (
       if n \<noteq> 200 then Inl (PyError ''RuntimeError'' (''Failed to fetch carrier target '' @ in_quotes (text_of en target) @ '': HTTP '' @ str_int n))
       else body)))"

text \<open>What a task adds to the result, with the writes and the summary it proposes, or the refusal it answers.\<close>

datatype task_outcome =
    Reported dict "agent_write list" "job_summary option"
  | Refused string string

definition upsert_write :: "string \<Rightarrow> string \<Rightarrow> dict \<Rightarrow> string \<Rightarrow> agent_write" where
  "upsert_write kind ref patch key = \<lparr>pw_entity_kind = kind, pw_external_ref = Some ref, pw_action = ''upsert'', pw_patch = patch,
     pw_idempotency_key = key, aw_full_state = None\<rparr>"

definition target_write :: "'s carrier_env \<Rightarrow> string \<Rightarrow> json \<Rightarrow> json \<Rightarrow> carrier_account \<Rightarrow> string \<Rightarrow> agent_write res" where
  "target_write en tid target provider acct cid = bind_res (py_get ''name'' JNull target) (\<lambda>n. Inr (
     upsert_write ''carrier_target'' tid [(''name'', n), (''provider'', provider), (''status'', ka_status acct), (''last_seen_at'', JStr (cr_now en))]
       (''carrier_target:'' @ tid @ '':'' @ cid)))"

definition did_write :: "'s carrier_env \<Rightarrow> string \<Rightarrow> string \<Rightarrow> did_record \<Rightarrow> agent_write" where
  "did_write en tid cid d = upsert_write ''carrier_did'' (tid @ '':'' @ text_of en (di_number d)) (did_dict d)
     (''carrier_did:'' @ tid @ '':'' @ text_of en (di_number d) @ '':'' @ cid)"

definition trunk_write :: "'s carrier_env \<Rightarrow> string \<Rightarrow> string \<Rightarrow> trunk_record \<Rightarrow> agent_write" where
  "trunk_write en tid cid t = upsert_write ''carrier_trunk'' (tid @ '':'' @ text_of en (kt_id t)) (trunk_dict t)
     (''carrier_trunk:'' @ tid @ '':'' @ text_of en (kt_id t) @ '':'' @ cid)"

text \<open>The reference of a proposed write has to be a text, or the model of the write is refused.\<close>

definition snapshot_task :: "'s carrier_env \<Rightarrow> 's carrier_adapter \<Rightarrow> json \<Rightarrow> json \<Rightarrow> json \<Rightarrow> string \<Rightarrow> (task_outcome, 's) call" where
  "snapshot_task en ad tid target provider cid = bind_call (ca_account ad) (\<lambda>acct. bind_call (ca_dids ad) (\<lambda>dids. bind_call (ca_trunks ad) (\<lambda>trunks.
     bind_call (ca_messaging ad) (\<lambda>_. bind_call (ca_cnam ad JNull) (\<lambda>_.
       case tid of
         JStr ref \<Rightarrow> give (bind_res (target_write en ref target provider acct cid) (\<lambda>w. Inr (Reported [(''snapshot_status'', JStr ''generated'')]
           (w # List.map (did_write en ref cid) dids @ List.map (trunk_write en ref cid) trunks)
           (Some \<lparr>js_kind = ''carrier_snapshot'', js_status = ''succeeded'',
             js_details = Some [(''dids_count'', JInt (int (length dids))), (''trunks_count'', JInt (int (length trunks)))]\<rparr>))))
       | _ \<Rightarrow> give (Inl (PyError ''ValidationError'' ''external_ref'')))))))"

definition run_carrier_task :: "'s carrier_env \<Rightarrow> 's carrier_adapter \<Rightarrow> string \<Rightarrow> dict \<Rightarrow> json \<Rightarrow> json \<Rightarrow> json \<Rightarrow> string \<Rightarrow> (task_outcome, 's) call" where
  "run_carrier_task en ad type payload tid target provider cid =
     (if type = ''carrier.account.status'' then bind_call (ca_account ad) (\<lambda>a. give (Inr (Reported [(''status'', ka_status a),
         (''balance'', ka_balance a), (''currency'', JStr (ka_currency a)), (''friendly_name'', ka_friendly a)] [] None)))
      else if type = ''carrier.dids.list'' then bind_call (ca_dids ad) (\<lambda>ds. give (Inr (Reported [(''dids'', JList (List.map (JObj \<circ> did_dict) ds)),
         (''total_count'', JInt (int (length ds)))] [] None)))
      else if type = ''carrier.did.lookup'' then (let number = dget payload ''number'' JNull in
         if \<not> truthy number then give (Inr (Refused ''missing_number'' ''number required''))
         else bind_call (ca_did ad number) (\<lambda>d. give (Inr (case d of
           None \<Rightarrow> Refused ''not_found'' (''DID '' @ text_of en number @ '' not found'')
         | Some r \<Rightarrow> Reported [(''did'', JObj (did_dict r))] [] None))))
      else if type = ''carrier.trunks.list'' then bind_call (ca_trunks ad) (\<lambda>ts. give (Inr (Reported [(''trunks'', JList (List.map (JObj \<circ> trunk_dict) ts))] [] None)))
      else if type = ''carrier.messaging.status'' then bind_call (ca_messaging ad) (\<lambda>m. give (Inr (Reported [(''messaging_status'', JObj (messaging_dict m))] [] None)))
      else if type = ''carrier.cnam.status'' then bind_call (ca_cnam ad (dget payload ''number'' JNull)) (\<lambda>c. give (Inr (Reported [(''cnam_status'', JObj (cnam_dict c))] [] None)))
      else if type = ''carrier.snapshot.inventory'' then snapshot_task en ad tid target provider cid
      else give (Inr (Refused ''unknown_task'' (''Task '' @ type @ '' not supported''))))"

definition persona_received :: "persona_block option \<Rightarrow> json" where
  "persona_received p = (case p of None \<Rightarrow> JNull | Some b \<Rightarrow> JObj [(''name'', JStr (pb_name b)), (''version'', JStr (pb_version b))])"

definition carrier_report :: "json \<Rightarrow> nat \<Rightarrow> json \<Rightarrow> task_outcome \<Rightarrow> carrier_answer" where
  "carrier_report persona count provider out = (case out of
     Refused code message \<Rightarrow> carrier_refused code message
   | Reported d ws js \<Rightarrow> \<lparr>rs_ok = True, rs_result = Some ([(''persona_received'', persona), (''context_received_count'', JInt (int count)), (''provider'', provider)] @ d),
       rs_writes = (if ws = [] then None else Some ws), rs_tasks = None, rs_summary = js, rs_error = None\<rparr>)"

definition execute_carrier :: "'s carrier_env \<Rightarrow> agent_call \<Rightarrow> 's \<Rightarrow> carrier_answer \<times> 's" where
  "execute_carrier en req s = (let payload = ac_payload req; tid = dget payload ''carrier_target_id'' JNull in
     if \<not> truthy tid then (carrier_refused ''missing_target'' ''carrier_target_id is required'', s)
     else (let cid = text_of en (dget payload ''correlation_id'' (JStr (cr_new_id en))) in
       case bind_call (fetch_target_metadata en tid) (\<lambda>target.
            bind_call (give (py_get ''provider'' (JStr (if cr_mock en then ''mock'' else ''twilio'')) target)) (\<lambda>provider.
            bind_call (carrier_adapter_for en provider tid (dget payload ''tenant_id'' (JStr ''nexus'')) (dget payload ''env'' (JStr ''prod''))) (\<lambda>ad.
            bind_call (run_carrier_task en ad (ac_type req) payload tid target provider cid) (\<lambda>out.
              give (Inr (carrier_report (persona_received (ac_persona req)) (case ac_context req of None \<Rightarrow> 0 | Some c \<Rightarrow> length c) provider out)))))) s of
         (Inl x, s') \<Rightarrow> (carrier_refused ''execution_failed'' (carrier_error x), s')
       | (Inr r, s') \<Rightarrow> (r, s')))"

section \<open>The worker\<close>

record carrier_job =
  cj_id :: string
  cj_tenant :: string
  cj_env :: string
  cj_target :: string
  cj_action :: string
  cj_status :: string
  cj_attempts :: nat
  cj_correlation :: "string option"

record carrier_event =
  cv_correlation :: "string option"
  cv_service :: string
  cv_tenant :: string
  cv_env :: string
  cv_action :: string
  cv_target :: "string option"
  cv_result :: string
  cv_reason :: "string option"

record carrier_db =
  cd_targets :: "string list"
  cd_jobs :: "carrier_job list"
  cd_results :: "(string \<times> dict) list"
  cd_audit :: "carrier_event list"

definition finish_carrier_job :: "carrier_job \<Rightarrow> string \<Rightarrow> dict \<Rightarrow> string \<Rightarrow> string option \<Rightarrow> carrier_db \<Rightarrow> carrier_db" where
  "finish_carrier_job j status output outcome reason db = db\<lparr>cd_results := insert_row (cj_id j, output) (cd_results db),
     cd_jobs := table_update cj_id (cj_id j) (\<lambda>x. x\<lparr>cj_status := status\<rparr>) (cd_jobs db),
     cd_audit := insert_row \<lparr>cv_correlation = cj_correlation j, cv_service = ''carrier-agent-runner'', cv_tenant = cj_tenant j, cv_env = cj_env j,
       cv_action = ''job.'' @ cj_action j, cv_target = Some (cj_target j), cv_result = outcome, cv_reason = reason\<rparr> (cd_audit db)\<rparr>"

definition process_carrier_job :: "carrier_job \<Rightarrow> carrier_db \<Rightarrow> carrier_db" where
  "process_carrier_job j db = (if cj_target j \<in> set (cd_targets db)
     then finish_carrier_job j ''succeeded'' [(''action'', JStr (cj_action j)), (''status'', JStr ''executed'')] ''success'' None db
     else (let e = ''Target '' @ in_quotes (cj_target j) @ '' missing from DB'' in
       finish_carrier_job j ''failed'' [(''error'', JStr e)] ''error'' (Some (take 500 e)) db))"

definition poll_carrier_jobs :: "carrier_db \<Rightarrow> carrier_db" where
  "poll_carrier_jobs db = (case select_first (\<lambda>j. cj_status j = ''pending'') (cd_jobs db) of
     None \<Rightarrow> db
   | Some j \<Rightarrow> process_carrier_job j (db\<lparr>cd_jobs := table_update cj_id (cj_id j) (\<lambda>x. x\<lparr>cj_status := ''running'', cj_attempts := Suc (cj_attempts x)\<rparr>) (cd_jobs db)\<rparr>))"

end
