(* ===== verification/CarrierReach.thy ===== *)
theory CarrierReach
  imports CarrierAgent
begin

text \<open>
  What becomes of the answers of the agent for carriers: the writes of a snapshot have keys of their own, and the
  worker of the dispatch refuses every one of them; and what a lost answer does to the purchase of a number.
\<close>

section \<open>The keys of a snapshot\<close>

definition snapshot_writes :: "'s carrier_env \<Rightarrow> string \<Rightarrow> string \<Rightarrow> agent_write \<Rightarrow> did_record list \<Rightarrow> trunk_record list \<Rightarrow> agent_write list" where
  "snapshot_writes en ref cid w dids trunks = w # List.map (did_write en ref cid) dids @ List.map (trunk_write en ref cid) trunks"

lemma upsert_write_simps [simp]:
  "pw_entity_kind (upsert_write k r d i) = k" "pw_external_ref (upsert_write k r d i) = Some r" "pw_idempotency_key (upsert_write k r d i) = i"
  by (simp_all add: upsert_write_def)

lemma target_write_Inr:
  "target_write en tid target provider acct cid = Inr w \<Longrightarrow> pw_entity_kind w = ''carrier_target'' \<and> pw_idempotency_key w = ''carrier_target:'' @ tid @ '':'' @ cid"
  by (auto simp: target_write_def bind_res_Inr)

lemma distinct_keys: "distinct (List.map f xs) \<Longrightarrow> distinct (List.map (\<lambda>x. p @ f x @ q) xs)"
  by (simp add: distinct_map inj_on_def)

lemma snapshot_keys_distinct:
  assumes "target_write en ref target provider acct cid = Inr w"
    and "distinct (List.map (\<lambda>d. text_of en (di_number d)) dids)" "distinct (List.map (\<lambda>t. text_of en (kt_id t)) trunks)"
  shows "distinct (List.map pw_idempotency_key (snapshot_writes en ref cid w dids trunks))"
proof -
  have "distinct (List.map (\<lambda>d. (''carrier_did:'' @ ref @ '':'') @ text_of en (di_number d) @ '':'' @ cid) dids)"
      "distinct (List.map (\<lambda>t. (''carrier_trunk:'' @ ref @ '':'') @ text_of en (kt_id t) @ '':'' @ cid) trunks)"
    using assms(2,3) by (intro distinct_keys; simp)+
  then show ?thesis using target_write_Inr[OF assms(1)]
    by (auto simp: snapshot_writes_def did_write_def trunk_write_def comp_def)
qed

section \<open>The worker refuses every snapshot\<close>

lemma give_Inr: "give r s = (Inr x, s') \<longleftrightarrow> r = Inr x \<and> s' = s"
  by (auto simp: give_def)

definition proposes_target :: "task_outcome \<Rightarrow> bool" where
  "proposes_target out = (case out of Refused c m \<Rightarrow> True | Reported d ws js \<Rightarrow> (case ws of [] \<Rightarrow> js = None | w # _ \<Rightarrow> pw_entity_kind w = ''carrier_target''))"

lemma snapshot_proposes:
  assumes "snapshot_task en ad tid target provider cid s = (Inr out, s')" shows "proposes_target out"
proof (cases tid)
  case (JStr ref)
  then show ?thesis using assms
    by (auto simp: snapshot_task_def bind_call_Inr give_Inr bind_res_Inr proposes_target_def dest!: target_write_Inr)
qed (use assms in \<open>auto simp: snapshot_task_def bind_call_Inr give_Inr\<close>)

lemma task_proposes:
  assumes "run_carrier_task en ad ty payload tid target provider cid s = (Inr out, s')" shows "proposes_target out"
proof (cases "ty = ''carrier.snapshot.inventory''")
  case True
  then show ?thesis using assms snapshot_proposes by (auto simp: run_carrier_task_def)
next
  case False
  then show ?thesis using assms
    by (auto simp: run_carrier_task_def Let_def bind_call_Inr give_Inr proposes_target_def split: if_splits option.splits)
qed

lemma answer_proposes:
  assumes "execute_carrier en req s = (a, s')"
  shows "rs_writes a = None \<or> (\<exists>w ws. rs_writes a = Some (w # ws) \<and> pw_entity_kind w = ''carrier_target'')"
proof -
  have r: "rs_writes (carrier_report pe n provider out) = None
      \<or> (\<exists>w ws. rs_writes (carrier_report pe n provider out) = Some (w # ws) \<and> pw_entity_kind w = ''carrier_target'')"
    if "proposes_target out" for pe n provider out
    using that by (auto simp: carrier_report_def proposes_target_def carrier_refused_def split: task_outcome.splits list.splits)
  have n: "rs_writes (carrier_refused c m) = None" for c m by (simp add: carrier_refused_def)
  let ?tid = "dget (ac_payload req) ''carrier_target_id'' JNull"
  show ?thesis
  proof (cases "truthy ?tid")
    case False
    then show ?thesis using assms n by (auto simp: execute_carrier_def Let_def)
  next
    case True
    show ?thesis
    proof (cases "\<exists>x. a = carrier_refused ''execution_failed'' (carrier_error x)")
      case True
      then show ?thesis using n by auto
    next
      case False
      with \<open>truthy ?tid\<close> assms obtain pe n provider out where "a = carrier_report pe n provider out" "proposes_target out"
        by (auto simp: execute_carrier_def Let_def bind_call_Inr give_Inr split: prod.splits sum.splits dest!: task_proposes)
      then show ?thesis using r by simp
    qed
  qed
qed

text \<open>C31: No snapshot of a carrier ever reaches the system of record.  Whatever the agent for carriers answers to
  whatever task, the worker of the dispatch changes nothing when it applies the answer: without proposed writes it
  applies nothing, not even the summary, and with them the first one, for the carrier itself, is of a kind that
  is not allowed, so the whole answer is rejected.\<close>

theorem carrier_answers_never_applied:
  assumes "execute_carrier en req s = (a, s')"
  shows "case rs_writes a of
      None \<Rightarrow> apply_response env task agent p (agent_response.truncate a) db = Applied db
    | Some ws \<Rightarrow> (\<exists>m. apply_response env task agent p (agent_response.truncate a) db = Rejected (SoRValidationError m ''sor_kind_denied'') db)"
  using answer_proposes[OF assms]
proof
  assume "rs_writes a = None"
  then show ?thesis by (simp add: apply_response_def list_or_empty_def agent_response.truncate_def)
next
  assume "\<exists>w ws. rs_writes a = Some (w # ws) \<and> pw_entity_kind w = ''carrier_target''"
  then obtain w ws where w: "rs_writes a = Some (w # ws)" "pw_entity_kind w = ''carrier_target''" by blast
  obtain m where "validate_proposed_write (proposed_write.truncate w) = Inl (SoRValidationError m ''sor_kind_denied'')"
    using w(2) by (simp add: validate_proposed_write_def proposed_write.truncate_def ALLOWED_ENTITIES_def)
  then show ?thesis using w(1)
    by (simp add: apply_response_def list_or_empty_def agent_response.truncate_def apply_write_def write_done_def)
qed

section \<open>Examples\<close>

definition demo_fixture :: json where
  "demo_fixture = JObj [(''dids'', JList [JObj [(''number'', JStr ''+1'')], JObj [(''number'', JStr ''+2'')]]), (''trunks'', JList [JObj [(''trunk_id'', JStr ''TK'')]])]"

definition demo_carrier_env :: "nat carrier_env" where
  "demo_carrier_env = \<lparr>cr_http = \<lparr>he_send = (\<lambda>q n. (POTimeout ''lost'', Suc n)), he_show = dumps\<rparr>, cr_mock = True, cr_fixture = Inr demo_fixture,
     cr_list = (\<lambda>tn e. give (Inr (200, Inr (JList [])))), cr_read = (\<lambda>i. give (Inr (404, Inr JNull))), cr_target = (\<lambda>i. give (Inr (404, Inr JNull))),
     cr_now = ''2026'', cr_new_id = ''u''\<rparr>"

definition demo_snapshot :: agent_call where
  "demo_snapshot = \<lparr>ac_url = [], ac_headers = [], ac_type = ''carrier.snapshot.inventory'', ac_payload = [(''carrier_target_id'', JStr ''mock'')],
     ac_persona = None, ac_context = None, ac_attempt = 1, ac_timeout = 30\<rparr>"

definition demo_carrier_answer :: carrier_answer where
  "demo_carrier_answer = fst (execute_carrier demo_carrier_env demo_snapshot 0)"

theorem carrier_answers_never_applied_witness:
  "List.map pw_idempotency_key (list_or_empty (rs_writes demo_carrier_answer))
       = [''carrier_target:mock:u'', ''carrier_did:mock:+1:u'', ''carrier_did:mock:+2:u'', ''carrier_trunk:mock:TK:u'']
     \<and> (\<forall>env task agent p db. \<exists>e. apply_response env task agent p (agent_response.truncate demo_carrier_answer) db = Rejected e db)"
proof
  show k: "List.map pw_idempotency_key (list_or_empty (rs_writes demo_carrier_answer))
       = [''carrier_target:mock:u'', ''carrier_did:mock:+1:u'', ''carrier_did:mock:+2:u'', ''carrier_trunk:mock:TK:u'']" by code_simp
  then obtain ws where ws: "rs_writes demo_carrier_answer = Some ws" by (cases "rs_writes demo_carrier_answer") (auto simp: list_or_empty_def)
  have "execute_carrier demo_carrier_env demo_snapshot 0 = (demo_carrier_answer, snd (execute_carrier demo_carrier_env demo_snapshot 0))"
    by (simp add: demo_carrier_answer_def)
  note run = this
  show "\<forall>env task agent p db. \<exists>e. apply_response env task agent p (agent_response.truncate demo_carrier_answer) db = Rejected e db"
  proof (intro allI)
    fix env task agent p db
    show "\<exists>e. apply_response env task agent p (agent_response.truncate demo_carrier_answer) db = Rejected e db"
      using carrier_answers_never_applied[OF run, of env task agent p db] by (auto simp: ws)
  qed
qed

text \<open>An answer that is lost makes the agent buy a number three times.\<close>

lemma purchase_repeated:
  "snd (tw_purchase \<lparr>tw_http = cr_http demo_carrier_env, tw_sid = ''AC'', tw_token = ''t''\<rparr> ''+1'' [] 0) = 3"
  by code_simp

text \<open>A purchase that Twilio answers with 404 looks like a number without digits.\<close>

lemma purchase_of_nothing:
  "bind_res (fst (tw_purchase \<lparr>tw_http = \<lparr>he_send = (\<lambda>q n. (POAnswer \<lparr>pr_status = 404, pr_retry_after = None, pr_text = ''no'', pr_json = Inr JNull\<rparr>, Suc n)),
       he_show = dumps\<rparr>, tw_sid = ''AC'', tw_token = ''t''\<rparr> ''+1'' [] (0::nat))) (\<lambda>d. Inr (di_number d)) = Inr (JStr [])"
  by code_simp

end
